(* ===== verification/Prelude.thy ===== *)
theory Prelude
  imports Main
    "HOL-Library.Word"
    "HOL-Library.List_Lexorder"
    "HOL-Library.Char_ord"
    "HOL-Library.Product_Lexorder"
begin

text \<open>
  The shared library of the development: the types that stand for Rust's machine and
  container types, results, ordered maps (\<open>BTreeMap\<close>), list searching, saturating and
  checked arithmetic on \<open>u64\<close>, the decoding of UTF-8 strings, and the fact collections
  the component theories extend.

  Conventions used by every theory:
  \<^item> a Rust \<open>String\<close> is its UTF-8 byte sequence, an HOL \<open>string\<close> (a list of 8-bit characters);
  \<^item> a \<open>[u8; 32]\<close> or a \<open>Vec<u8>\<close> is a list of \<open>8 word\<close>;
  \<^item> an \<open>OffsetDateTime\<close> is the instant it denotes, in nanoseconds since the Unix epoch;
  \<^item> a method on \<open>&mut self\<close> that returns a \<open>Result\<close> is a function from the old state to the
    new state and a sum, \<open>Inl\<close> for \<open>Err\<close> and \<open>Inr\<close> for \<open>Ok\<close>, so that what an error leaves
    behind in the state is visible.
\<close>

named_theorems result_simps \<open>rewriting of results and of the operations that test them\<close>
named_theorems tree_simps \<open>lookup, update and iteration of ordered maps\<close>

section \<open>Machine types\<close>

type_synonym u64 = "64 word"
type_synonym byte = "8 word"
type_synonym bytes = "byte list"
type_synonym instant = int

abbreviation seconds :: "int \<Rightarrow> int" where
  "seconds n \<equiv> n * 1000000000"

abbreviation minutes :: "int \<Rightarrow> int" where
  "minutes n \<equiv> seconds (n * 60)"

definition saturating_add :: "u64 \<Rightarrow> u64 \<Rightarrow> u64" where
  "saturating_add a b = (if unat a + unat b < 2 ^ 64 then a + b else - 1)"

definition checked_add :: "u64 \<Rightarrow> u64 \<Rightarrow> u64 option" where
  "checked_add a b = (if unat a + unat b < 2 ^ 64 then Some (a + b) else None)"

text \<open>\<open>u64::try_from(n).unwrap_or(u64::MAX)\<close> for a \<open>usize\<close> given as a natural number.\<close>

definition u64_of_nat :: "nat \<Rightarrow> u64" where
  "u64_of_nat n = (if n < 2 ^ 64 then of_nat n else - 1)"

lemma unat_minus_one_u64: "unat (- 1 :: u64) = 2 ^ 64 - 1"
  by (simp add: unsigned_minus_1_eq_mask mask_eq_exp_minus_1)

lemma checked_add_SomeD: "checked_add a b = Some c \<Longrightarrow> unat c = unat a + unat b"
  by (auto simp: checked_add_def unat_word_ariths split: if_splits)

lemma checked_add_one_less: "checked_add a 1 = Some c \<Longrightarrow> a < c"
  by (drule checked_add_SomeD) (simp add: word_less_nat_alt)

lemma checked_add_one_None: "checked_add a 1 = None \<longleftrightarrow> a = - 1"
proof -
  have lt: "unat a < 2 ^ 64" using unsigned_less [of a] by simp
  show ?thesis
  proof
    assume "checked_add a 1 = None"
    with lt have "unat a = unat (- 1 :: u64)"
      by (auto simp: checked_add_def unat_minus_one_u64 split: if_splits)
    then show "a = - 1" by (rule unsigned_word_eqI)
  next
    assume "a = - 1"
    then show "checked_add a 1 = None"
      by (simp add: checked_add_def unat_minus_one_u64)
  qed
qed

lemma unat_of_nat_u64: "n < 2 ^ 64 \<Longrightarrow> unat (of_nat n :: u64) = n"
  by (simp add: unat_of_nat take_bit_nat_eq_self_iff)

lemma u64_succ_of_nat:
  assumes "n < 2 ^ 64 - 1"
  shows "saturating_add (u64_of_nat n) 1 = of_nat (Suc n)"
proof -
  from assms have "n < 2 ^ 64" by linarith
  moreover from this have "unat (of_nat n :: u64) = n" by (rule unat_of_nat_u64)
  ultimately show ?thesis
    using assms by (simp add: saturating_add_def u64_of_nat_def add.commute)
qed

lemma u64_of_nat_inj:
  assumes "m < 2 ^ 64" "n < 2 ^ 64" "(of_nat m :: u64) = of_nat n"
  shows "m = n"
proof -
  have "unat (of_nat m :: u64) = unat (of_nat n :: u64)" using assms(3) by simp
  then show ?thesis using assms(1,2) by (simp add: unat_of_nat_u64)
qed

section \<open>Results\<close>

definition is_ok :: "'e + 'a \<Rightarrow> bool" where
  "is_ok r = (case r of Inl _ \<Rightarrow> False | Inr _ \<Rightarrow> True)"

lemma is_ok_simps [simp]:
  "is_ok (Inr x) = True"
  "is_ok (Inl e) = False"
  by (simp_all add: is_ok_def)

lemma is_ok_iff: "is_ok r \<longleftrightarrow> (\<exists>x. r = Inr x)"
  by (cases r) simp_all

text \<open>
  \<open>Result::and_then\<close>, which is also what \<open>?\<close> does in the middle of a function that returns
  a \<open>Result\<close>, and a check that fails with a given error.
\<close>

definition bind_res :: "'e + 'a \<Rightarrow> ('a \<Rightarrow> 'e + 'b) \<Rightarrow> 'e + 'b" where
  "bind_res m f = (case m of Inl e \<Rightarrow> Inl e | Inr x \<Rightarrow> f x)"

definition ensure :: "bool \<Rightarrow> 'e \<Rightarrow> 'e + unit" where
  "ensure c e = (if c then Inr () else Inl e)"

lemma bind_res_simps [simp]:
  "bind_res (Inl e) f = Inl e"
  "bind_res (Inr x) f = f x"
  by (simp_all add: bind_res_def)

lemma bind_res_Inr_iff [result_simps]:
  "bind_res m f = Inr y \<longleftrightarrow> (\<exists>x. m = Inr x \<and> f x = Inr y)"
  by (cases m) simp_all

lemma ensure_Inr_iff [simp]: "ensure c e = Inr u \<longleftrightarrow> c"
  by (simp add: ensure_def)

lemma ensure_Inl_iff [simp]: "ensure c e = Inl e' \<longleftrightarrow> \<not> c \<and> e' = e"
  by (auto simp: ensure_def)

lemma ensure_True [simp]: "ensure True e = Inr ()"
  by (simp add: ensure_def)

text \<open>
  \<open>Option::ok_or\<close>, and \<open>?\<close> in a method on \<open>&mut self\<close>: an error returns with the state as it is.
\<close>

definition ok_or :: "'a option \<Rightarrow> 'e \<Rightarrow> 'e + 'a" where
  "ok_or v e = (case v of None \<Rightarrow> Inl e | Some x \<Rightarrow> Inr x)"

definition try_in :: "'s \<Rightarrow> 'e + 'a \<Rightarrow> ('a \<Rightarrow> 's \<times> ('e + 'b)) \<Rightarrow> 's \<times> ('e + 'b)" where
  "try_in s r f = (case r of Inl e \<Rightarrow> (s, Inl e) | Inr x \<Rightarrow> f x)"

lemma ok_or_simps [simp]:
  "ok_or None e = Inl e"
  "ok_or (Some x) e = Inr x"
  by (simp_all add: ok_or_def)

lemma ok_or_Inr_iff [simp]: "ok_or v e = Inr x \<longleftrightarrow> v = Some x"
  by (cases v) simp_all

lemma try_in_simps [simp]:
  "try_in s (Inl e) f = (s, Inl e)"
  "try_in s (Inr x) f = f x"
  by (simp_all add: try_in_def)

lemma try_in_ok_iff [result_simps]:
  "try_in s r f = (s', Inr y) \<longleftrightarrow> (\<exists>x. r = Inr x \<and> f x = (s', Inr y))"
  by (cases r) simp_all

lemma try_in_cases:
  assumes "try_in s r f = p"
  obtains (error) e where "r = Inl e" "p = (s, Inl e)" | (ok) x where "r = Inr x" "f x = p"
  using assms by (cases r) simp_all

lemma try_in_state:
  "P s \<Longrightarrow> (\<And>x. r = Inr x \<Longrightarrow> P (fst (f x))) \<Longrightarrow> P (fst (try_in s r f))"
  by (cases r) simp_all

text \<open>A check that fails in a sequence of checks is the result of the sequence.\<close>

lemma bind_ensure: "bind_res (ensure c e) f = (if c then f () else Inl e)"
  by (simp add: ensure_def)

section \<open>Searching lists\<close>

text \<open>\<open>iter().position(|y| y == x)\<close>.\<close>

fun position :: "'a \<Rightarrow> 'a list \<Rightarrow> nat option" where
  "position x [] = None"
| "position x (y # ys) = (if y = x then Some 0 else map_option Suc (position x ys))"

lemma position_SomeD: "position x xs = Some i \<Longrightarrow> i < length xs \<and> xs ! i = x"
  by (induction xs arbitrary: i) (auto split: if_splits)

lemma position_lt: "position x xs = Some i \<Longrightarrow> i < length xs"
  by (simp add: position_SomeD)

lemma position_nth: "position x xs = Some i \<Longrightarrow> xs ! i = x"
  by (simp add: position_SomeD)

lemma position_None_iff: "position x xs = None \<longleftrightarrow> x \<notin> set xs"
  by (induction xs) auto

lemma position_Some_iff_mem: "(\<exists>i. position x xs = Some i) \<longleftrightarrow> x \<in> set xs"
  using position_None_iff [of x xs] by (cases "position x xs") auto

lemma position_nth_distinct: "distinct xs \<Longrightarrow> i < length xs \<Longrightarrow> position (xs ! i) xs = Some i"
proof (induction xs arbitrary: i)
  case Nil
  then show ?case by simp
next
  case (Cons y ys)
  then show ?case by (cases i) auto
qed

lemma position_last_distinct:
  "distinct xs \<Longrightarrow> xs \<noteq> [] \<Longrightarrow> position (last xs) xs = Some (length xs - 1)"
  by (simp add: last_conv_nth position_nth_distinct)

lemma find_SomeD: "List.find P xs = Some x \<Longrightarrow> x \<in> set xs \<and> P x"
  by (auto simp: find_Some_iff)

lemma find_None_D: "List.find P xs = None \<Longrightarrow> x \<in> set xs \<Longrightarrow> \<not> P x"
  by (auto simp: find_None_iff)

text \<open>Updating the first element that satisfies a predicate: \<open>iter_mut().find(p)\<close>.\<close>

fun update_first :: "('a \<Rightarrow> bool) \<Rightarrow> ('a \<Rightarrow> 'a) \<Rightarrow> 'a list \<Rightarrow> 'a list" where
  "update_first p f [] = []"
| "update_first p f (x # xs) = (if p x then f x # xs else x # update_first p f xs)"

lemma length_update_first [simp]: "length (update_first p f xs) = length xs"
  by (induction xs) auto

lemma update_first_find_None: "List.find p xs = None \<Longrightarrow> update_first p f xs = xs"
  by (induction xs) (auto split: if_splits)

lemma find_update_first:
  "List.find p xs = Some x \<Longrightarrow> p (f x) \<Longrightarrow> List.find p (update_first p f xs) = Some (f x)"
  by (induction xs) (auto split: if_splits)

lemma find_update_first_other:
  assumes "\<And>y. p y \<Longrightarrow> p (f y)" and "\<And>y. p y \<Longrightarrow> \<not> q y"
  shows "List.find q (update_first p f xs) = List.find q xs"
  using assms by (induction xs) auto

lemma set_update_first: "y \<in> set (update_first p f xs) \<Longrightarrow> y \<in> set xs \<or> (\<exists>x \<in> set xs. p x \<and> y = f x)"
  by (induction xs) (auto split: if_splits)

section \<open>Running operations\<close>

text \<open>
  The state after a sequence of calls of one operation, whatever each call returned:
  the states a component can be in.
\<close>

definition run_ops :: "('s \<Rightarrow> 'x \<Rightarrow> 's \<times> 'r) \<Rightarrow> 's \<Rightarrow> 'x list \<Rightarrow> 's" where
  "run_ops f s xs = fold (\<lambda>x s. fst (f s x)) xs s"

lemma run_ops_simps [simp]:
  "run_ops f s [] = s"
  "run_ops f s (x # xs) = run_ops f (fst (f s x)) xs"
  by (simp_all add: run_ops_def)

lemma run_ops_append: "run_ops f s (xs @ ys) = run_ops f (run_ops f s xs) ys"
  by (simp add: run_ops_def)

lemma run_ops_invariant:
  assumes "I s" and "\<And>s x. I s \<Longrightarrow> I (fst (f s x))"
  shows "I (run_ops f s xs)"
  using assms(1)
proof (induction xs arbitrary: s)
  case Nil
  then show ?case by simp
next
  case (Cons x xs)
  then show ?case using assms(2) by simp
qed

end
