(* ===== verification/Ordered_Map.thy ===== *)
theory Ordered_Map
  imports Prelude
begin

text \<open>
  Rust's \<open>BTreeMap\<close> and \<open>BTreeSet\<close>: finite maps that iterate in key order. A map is its list
  of entries, strictly increasing in the key. Lookup and update have the laws of a map
  (locale \<open>ordered_map\<close>); iteration (\<open>bt_entries\<close>, \<open>bt_keys\<close>, \<open>bt_values\<close>) is in key order,
  which the code relies on where it searches \<open>values()\<close> or collects a map into a vector.
\<close>

fun entries_insert :: "'k::linorder \<Rightarrow> 'v \<Rightarrow> ('k \<times> 'v) list \<Rightarrow> ('k \<times> 'v) list" where
  "entries_insert k v [] = [(k, v)]"
| "entries_insert k v ((k', v') # m) =
     (if k < k' then (k, v) # (k', v') # m
      else if k = k' then (k, v) # m
      else (k', v') # entries_insert k v m)"

fun entries_remove :: "'k \<Rightarrow> ('k \<times> 'v) list \<Rightarrow> ('k \<times> 'v) list" where
  "entries_remove k [] = []"
| "entries_remove k ((k', v') # m) = (if k = k' then m else (k', v') # entries_remove k m)"

abbreviation increasing :: "('k::linorder \<times> 'v) list \<Rightarrow> bool" where
  "increasing m \<equiv> sorted_wrt (<) (map fst m)"

lemma keys_entries_insert: "fst ` set (entries_insert k v m) = insert k (fst ` set m)"
  by (induction k v m rule: entries_insert.induct) auto

lemma increasing_entries_insert: "increasing m \<Longrightarrow> increasing (entries_insert k v m)"
proof (induction k v m rule: entries_insert.induct)
  case (2 k v k' v' m)
  have keys: "x \<in> set (entries_insert k v m) \<Longrightarrow> fst x = k \<or> fst x \<in> fst ` set m" for x
    using keys_entries_insert [of k v m] by (metis image_eqI insertE)
  from 2 show ?case
    by (auto dest!: keys)
qed simp

lemma keys_entries_remove: "fst ` set (entries_remove k m) \<subseteq> fst ` set m"
  by (induction k m rule: entries_remove.induct) auto

lemma increasing_entries_remove: "increasing m \<Longrightarrow> increasing (entries_remove k m)"
proof (induction k m rule: entries_remove.induct)
  case (2 k k' v' m)
  then show ?case using keys_entries_remove [of k m] by fastforce
qed simp

lemma increasing_distinct: "increasing m \<Longrightarrow> distinct (map fst m)"
  by (simp add: strict_sorted_iff)

lemma map_of_entries_insert: "map_of (entries_insert k v m) = (map_of m)(k \<mapsto> v)"
  by (induction k v m rule: entries_insert.induct) auto

lemma map_of_entries_remove:
  "distinct (map fst m) \<Longrightarrow> map_of (entries_remove k m) = (map_of m)(k := None)"
  by (induction k m rule: entries_remove.induct) (auto simp: fun_eq_iff map_of_eq_None_iff)

lemma increasing_map_values: "increasing m \<Longrightarrow> increasing (map (\<lambda>(k, v). (k, f k v)) m)"
  by (simp add: o_def case_prod_beta)

typedef (overloaded) ('k::linorder, 'v) btree = "{m :: ('k \<times> 'v) list. increasing m}"
  morphisms bt_entries Abs_btree
  by (rule exI [of _ "[]"]) simp

setup_lifting type_definition_btree

lift_definition bt_empty :: "('k::linorder, 'v) btree" is "[]"
  by simp

lift_definition bt_insert :: "'k::linorder \<Rightarrow> 'v \<Rightarrow> ('k, 'v) btree \<Rightarrow> ('k, 'v) btree"
  is entries_insert by (rule increasing_entries_insert)

lift_definition bt_remove :: "'k::linorder \<Rightarrow> ('k, 'v) btree \<Rightarrow> ('k, 'v) btree"
  is entries_remove by (rule increasing_entries_remove)

lift_definition bt_get :: "('k::linorder, 'v) btree \<Rightarrow> 'k \<Rightarrow> 'v option"
  is map_of .

lift_definition bt_map :: "('k::linorder \<Rightarrow> 'v \<Rightarrow> 'w) \<Rightarrow> ('k, 'v) btree \<Rightarrow> ('k, 'w) btree"
  is "\<lambda>f. map (\<lambda>(k, v). (k, f k v))" by (rule increasing_map_values)

definition bt_keys :: "('k::linorder, 'v) btree \<Rightarrow> 'k list" where
  "bt_keys m = map fst (bt_entries m)"

definition bt_values :: "('k::linorder, 'v) btree \<Rightarrow> 'v list" where
  "bt_values m = map snd (bt_entries m)"

definition bt_contains :: "('k::linorder, 'v) btree \<Rightarrow> 'k \<Rightarrow> bool" where
  "bt_contains m k = (bt_get m k \<noteq> None)"

definition bt_len :: "('k::linorder, 'v) btree \<Rightarrow> nat" where
  "bt_len m = length (bt_entries m)"

text \<open>\<open>collect()\<close> of an iterator of pairs: later pairs win.\<close>

definition bt_of_list :: "('k::linorder \<times> 'v) list \<Rightarrow> ('k, 'v) btree" where
  "bt_of_list kvs = fold (\<lambda>(k, v) m. bt_insert k v m) kvs bt_empty"

section \<open>The laws of a map\<close>

locale ordered_map =
  fixes empty :: "'m"
    and get :: "'m \<Rightarrow> 'k::linorder \<Rightarrow> 'v option"
    and insert_entry :: "'k \<Rightarrow> 'v \<Rightarrow> 'm \<Rightarrow> 'm"
    and entries :: "'m \<Rightarrow> ('k \<times> 'v) list"
  assumes get_empty: "get empty k = None"
    and get_insert: "get (insert_entry k v m) = (get m)(k \<mapsto> v)"
    and get_entries: "get m = map_of (entries m)"
    and entries_increasing: "increasing (entries m)"
begin

lemma entries_mem_iff: "(k, v) \<in> set (entries m) \<longleftrightarrow> get m k = Some v"
  by (simp add: get_entries increasing_distinct entries_increasing)

lemma values_mem_iff: "v \<in> snd ` set (entries m) \<longleftrightarrow> (\<exists>k. get m k = Some v)"
  by (auto simp: image_iff entries_mem_iff [symmetric] Bex_def)

lemma keys_mem_iff: "k \<in> fst ` set (entries m) \<longleftrightarrow> (\<exists>v. get m k = Some v)"
  by (auto simp: image_iff entries_mem_iff [symmetric] Bex_def)

lemma length_insert_entry:
  "length (entries (insert_entry k v m)) =
     (if get m k = None then Suc (length (entries m)) else length (entries m))"
proof -
  have len: "length (entries m') = card (dom (get m'))" for m'
  proof -
    have "length (entries m') = card (fst ` set (entries m'))"
      using increasing_distinct [OF entries_increasing [of m']]
      by (metis distinct_card length_map set_map)
    then show ?thesis by (simp add: get_entries dom_map_of_conv_image_fst)
  qed
  have fin: "finite (dom (get m))" by (simp add: get_entries finite_dom_map_of)
  show ?thesis
    using fin by (auto simp: len get_insert card_insert_if domIff insert_absorb)
qed

end

lemma bt_get_empty: "bt_get bt_empty k = None"
  by transfer simp

lemma bt_get_insert: "bt_get (bt_insert k v m) = (bt_get m)(k \<mapsto> v)"
  by transfer (rule map_of_entries_insert)

lemma bt_get_entries: "bt_get m = map_of (bt_entries m)"
  by transfer simp

lemma bt_entries_increasing: "increasing (bt_entries m)"
  by transfer simp

interpretation bt: ordered_map bt_empty bt_get bt_insert bt_entries
  by unfold_locales
    (rule bt_get_empty bt_get_insert bt_get_entries bt_entries_increasing)+

lemma bt_get_remove: "bt_get (bt_remove k m) = (bt_get m)(k := None)"
  by transfer (simp add: map_of_entries_remove strict_sorted_iff)

lemma bt_get_map: "bt_get (bt_map f m) k = map_option (f k) (bt_get m k)"
proof -
  have "map_of (map (\<lambda>(k, v). (k, f k v)) xs) k = map_option (f k) (map_of xs k)" for xs
    by (induction xs) auto
  then show ?thesis by transfer
qed

lemma increasing_unique:
  "increasing xs \<Longrightarrow> increasing ys \<Longrightarrow> set xs = set ys \<Longrightarrow> xs = ys"
proof (induction xs arbitrary: ys)
  case Nil
  then show ?case by simp
next
  case (Cons x xs)
  then obtain y ys' where ys: "ys = y # ys'" by (cases ys) auto
  have xy: "x = y"
  proof (rule ccontr)
    assume "x \<noteq> y"
    with Cons.prems(3) ys have "x \<in> set ys'" "y \<in> set xs" by auto
    with Cons.prems(1,2) ys have "fst y < fst x" "fst x < fst y" by auto
    then show False by simp
  qed
  have "x \<notin> set xs" "y \<notin> set ys'" using Cons.prems(1,2) ys by auto
  with Cons.prems(3) ys xy have "set xs = set ys'" by auto
  with Cons ys xy show ?case by auto
qed

lemma bt_eqI: "(\<And>k. bt_get m k = bt_get m' k) \<Longrightarrow> m = m'"
proof -
  assume get: "\<And>k. bt_get m k = bt_get m' k"
  have "set (bt_entries m) = set (bt_entries m')"
    by (auto simp: bt.entries_mem_iff get)
  then have "bt_entries m = bt_entries m'"
    by (intro increasing_unique bt_entries_increasing)
  then show "m = m'" by (simp add: bt_entries_inject)
qed

instantiation btree :: (linorder, equal) equal
begin

definition equal_btree :: "('a, 'b) btree \<Rightarrow> ('a, 'b) btree \<Rightarrow> bool" where
  "equal_btree m m' \<longleftrightarrow>
     list_all2 (\<lambda>(k, v) (k', v'). k \<le> k' \<and> k' \<le> k \<and> v = v') (bt_entries m) (bt_entries m')"

instance
proof
  fix m m' :: "('a, 'b) btree"
  have "(\<lambda>(k, v) (k', v'). k \<le> k' \<and> k' \<le> k \<and> v = v') = ((=) :: 'a \<times> 'b \<Rightarrow> _)"
    by (auto simp: fun_eq_iff)
  then show "HOL.equal m m' \<longleftrightarrow> m = m'"
    by (simp add: equal_btree_def list.rel_eq bt_entries_inject)
qed

end

lemma bt_contains_iff [tree_simps]: "bt_contains m k \<longleftrightarrow> (\<exists>v. bt_get m k = Some v)"
  by (simp add: bt_contains_def)

lemma bt_values_mem [tree_simps]: "v \<in> set (bt_values m) \<longleftrightarrow> (\<exists>k. bt_get m k = Some v)"
  using bt.values_mem_iff [of v m] by (simp add: bt_values_def)

lemma bt_keys_mem [tree_simps]: "k \<in> set (bt_keys m) \<longleftrightarrow> (\<exists>v. bt_get m k = Some v)"
  using bt.keys_mem_iff [of k m] by (simp add: bt_keys_def)

lemma bt_len_insert:
  "bt_len (bt_insert k v m) = (if bt_get m k = None then Suc (bt_len m) else bt_len m)"
  by (simp add: bt_len_def bt.length_insert_entry)

lemma bt_len_empty [simp]: "bt_len bt_empty = 0"
  by (simp add: bt_len_def bt_empty.rep_eq)

lemma bt_get_insert_same [simp, tree_simps]: "bt_get (bt_insert k v m) k = Some v"
  by (simp add: bt_get_insert)

lemma bt_get_insert_other [simp, tree_simps]:
  "k \<noteq> k' \<Longrightarrow> bt_get (bt_insert k v m) k' = bt_get m k'"
  by (simp add: bt_get_insert)

lemma bt_get_insert_eq [tree_simps]:
  "bt_get (bt_insert k v m) k' = (if k' = k then Some v else bt_get m k')"
  by (simp add: bt_get_insert)

lemma bt_insert_idem: "bt_get m k = Some v \<Longrightarrow> bt_insert k v m = m"
  by (rule bt_eqI) (simp add: bt_get_insert fun_upd_def)

lemma bt_get_of_list: "bt_get (bt_of_list kvs) k = map_of (rev kvs) k"
proof -
  have "bt_get (fold (\<lambda>(k, v) m. bt_insert k v m) kvs m) k
      = (case map_of (rev kvs) k of None \<Rightarrow> bt_get m k | Some v \<Rightarrow> Some v)" for m
    by (induction kvs arbitrary: m)
       (auto simp: bt_get_insert map_add_def split: option.splits)
  then show ?thesis
    by (simp add: bt_of_list_def bt_get_empty split: option.splits)
qed

declare bt_get_empty [simp, tree_simps] bt_get_remove [tree_simps] bt_get_map [tree_simps]

text \<open>Evaluating closed maps.\<close>

lemmas bt_eval = bt_insert.rep_eq bt_empty.rep_eq bt_remove.rep_eq bt_map.rep_eq
  bt_values_def bt_keys_def bt_contains_def bt_len_def

section \<open>Ordered sets\<close>

type_synonym 'k bset = "('k, unit) btree"

definition bs_member :: "'k::linorder \<Rightarrow> 'k bset \<Rightarrow> bool" where
  "bs_member k s = bt_contains s k"

text \<open>\<open>BTreeSet::insert\<close>: the new set and whether the element was new.\<close>

definition bs_insert :: "'k::linorder \<Rightarrow> 'k bset \<Rightarrow> 'k bset \<times> bool" where
  "bs_insert k s = (bt_insert k () s, \<not> bt_contains s k)"

lemma bs_member_empty [simp]: "\<not> bs_member k bt_empty"
  by (simp add: bs_member_def bt_contains_def)

lemma bs_member_insert [simp, tree_simps]:
  "bs_member k (bt_insert k' () s) \<longleftrightarrow> k = k' \<or> bs_member k s"
  by (simp add: bs_member_def bt_contains_def bt_get_insert)

end
