(* ===== verification/Facts.thy ===== *)
theory Facts
  imports Prelude
begin

text \<open>
  Facts and evidence of \<open>gearwit-domain/src/lib.rs\<close>: the evidence classes, reachability and
  wake-plan tokens, and \<open>ObservedFact\<close>, a value with its field-level evidence or explicitly
  unknown. The tokens are the stable strings every face prints.
\<close>

datatype EvidenceClass = ControllerProven | SelfDeclared | CensusInferred

fun EvidenceClass_as_str :: "EvidenceClass \<Rightarrow> string" where
  "EvidenceClass_as_str ControllerProven = ''controller_proven''"
| "EvidenceClass_as_str SelfDeclared = ''self_declared''"
| "EvidenceClass_as_str CensusInferred = ''census_inferred''"

datatype Reachability =
  HeldForeground | CompletionDoorbell | NativeInjectable | OperatorOnly | Unreachable

fun Reachability_as_str :: "Reachability \<Rightarrow> string" where
  "Reachability_as_str HeldForeground = ''held_foreground''"
| "Reachability_as_str CompletionDoorbell = ''completion_doorbell''"
| "Reachability_as_str NativeInjectable = ''native_injectable''"
| "Reachability_as_str OperatorOnly = ''operator_only''"
| "Reachability_as_str Unreachable = ''unreachable''"

datatype WakePlan =
  WP_ReturnForeground | WP_CompleteBackgroundTool | WP_SubmitPrompt | WP_NotifyOperator | WP_None

fun WakePlan_as_str :: "WakePlan \<Rightarrow> string" where
  "WakePlan_as_str WP_ReturnForeground = ''return_foreground''"
| "WakePlan_as_str WP_CompleteBackgroundTool = ''complete_background_tool''"
| "WakePlan_as_str WP_SubmitPrompt = ''submit_prompt''"
| "WakePlan_as_str WP_NotifyOperator = ''notify_operator''"
| "WakePlan_as_str WP_None = ''none''"

datatype 'a ObservedFact = Known (fact_value: 'a) (fact_evidence: EvidenceClass) | Unknown

definition as_known :: "'a ObservedFact \<Rightarrow> ('a \<times> EvidenceClass) option" where
  "as_known f = (case f of Known v e \<Rightarrow> Some (v, e) | Unknown \<Rightarrow> None)"

definition fact_is_unknown :: "'a ObservedFact \<Rightarrow> bool" where
  "fact_is_unknown f = (case f of Known _ _ \<Rightarrow> False | Unknown \<Rightarrow> True)"

text \<open>
  \<open>format_observed_fact\<close> of a fact whose value prints as \<open>shw value\<close> (\<open>Display\<close> of the
  value's type).
\<close>

definition format_observed_fact :: "('a \<Rightarrow> string) \<Rightarrow> 'a ObservedFact \<Rightarrow> string" where
  "format_observed_fact shw f =
     (case f of
        Known v e \<Rightarrow> shw v @ ''  ('' @ EvidenceClass_as_str e @ '')''
      | Unknown \<Rightarrow> ''unknown'')"

lemma EvidenceClass_as_str_inj: "EvidenceClass_as_str a = EvidenceClass_as_str b \<Longrightarrow> a = b"
  by (cases a; cases b) simp_all

lemma Reachability_as_str_inj: "Reachability_as_str a = Reachability_as_str b \<Longrightarrow> a = b"
  by (cases a; cases b) simp_all

lemma WakePlan_as_str_inj: "WakePlan_as_str a = WakePlan_as_str b \<Longrightarrow> a = b"
  by (cases a; cases b) simp_all

lemma EvidenceClass_last: "last (EvidenceClass_as_str e) = CHR ''n'' \<or> last (EvidenceClass_as_str e) = CHR ''d''"
  by (cases e) simp_all

text \<open>A printed known fact ends in its evidence, so it never prints as an unknown one.\<close>

lemma format_known_neq_unknown: "format_observed_fact shw (Known v e) \<noteq> format_observed_fact shw Unknown"
proof
  assume "format_observed_fact shw (Known v e) = format_observed_fact shw Unknown"
  then have "last (format_observed_fact shw (Known v e)) = last ''unknown''"
    by (simp add: format_observed_fact_def)
  moreover have "last (format_observed_fact shw (Known v e)) = CHR '')''"
    by (simp add: format_observed_fact_def)
  ultimately show False by simp
qed

end
