(* ===== verification/Receipts.thy ===== *)
theory Receipts
  imports Prelude
begin

text \<open>
  The contract shared by the two append-only receipt logs of \<open>gearwit-domain\<close>
  (\<open>DoorbellAttemptTrace\<close> in \<open>attempt.rs\<close> and \<open>ReceiptLog\<close> in \<open>interrupt.rs\<close>): an append
  either leaves the log alone and reports an error, or adds the receipt at the end, and then
  the receipt carried the next sequence number and a phase the log did not have. From these
  laws alone: after any calls whatsoever, phases are distinct and the sequence numbers are
  exactly 1, 2, 3, \<dots>, provided there are fewer than \<open>2^64\<close> phases.
\<close>

definition next_sequence :: "'r list \<Rightarrow> u64" where
  "next_sequence rs = saturating_add (u64_of_nat (length rs)) 1"

locale receipt_log =
  fixes receipts :: "'log \<Rightarrow> 'r list"
    and append :: "'log \<Rightarrow> 'r \<Rightarrow> 'log \<times> ('e + unit)"
    and sequence :: "'r \<Rightarrow> u64"
    and phase :: "'r \<Rightarrow> 'p"
    and empty :: "'log"
    and phases :: "'p set"
  assumes receipts_empty: "receipts empty = []"
    and append_error: "append l r = (l', Inl e) \<Longrightarrow> l' = l"
    and append_ok: "append l r = (l', Inr u) \<Longrightarrow>
      receipts l' = receipts l @ [r] \<and>
      sequence r = next_sequence (receipts l) \<and>
      phase r \<notin> phase ` set (receipts l)"
    and finite_phases: "finite phases"
    and phase_in: "phase r \<in> phases"
    and few_phases: "card phases < 2 ^ 64 - 1"
begin

definition numbered :: "'r list \<Rightarrow> bool" where
  "numbered rs \<longleftrightarrow>
     distinct (map phase rs) \<and> (\<forall>i < length rs. sequence (rs ! i) = of_nat (Suc i))"

lemma numbered_length: "numbered rs \<Longrightarrow> length rs \<le> card phases"
proof -
  assume "numbered rs"
  then have "length rs = card (phase ` set rs)"
    by (metis distinct_card length_map numbered_def set_map)
  also have "\<dots> \<le> card phases"
    using finite_phases phase_in by (intro card_mono) auto
  finally show ?thesis .
qed

lemma append_numbered:
  assumes "numbered (receipts l)"
  shows "numbered (receipts (fst (append l r)))"
proof (cases "append l r")
  case (Pair l' res)
  show ?thesis
  proof (cases res)
    case (Inl e)
    with Pair assms append_error show ?thesis by auto
  next
    case (Inr u)
    from append_ok Pair Inr
    have ok: "receipts l' = receipts l @ [r]" "sequence r = next_sequence (receipts l)"
      "phase r \<notin> phase ` set (receipts l)" by blast+
    have "length (receipts l) < 2 ^ 64 - 1"
      using numbered_length [OF assms] few_phases by simp
    then have "sequence r = of_nat (Suc (length (receipts l)))"
      using ok(2) by (simp only: next_sequence_def u64_succ_of_nat)
    with ok assms Pair show ?thesis
      by (auto simp: numbered_def nth_append less_Suc_eq)
  qed
qed

theorem run_numbered: "numbered (receipts (run_ops append empty rs))"
proof (rule run_ops_invariant [where I = "\<lambda>l. numbered (receipts l)"])
  show "numbered (receipts empty)" by (simp add: numbered_def receipts_empty)
qed (rule append_numbered)

text \<open>
  A receipt that was accepted stays where it is: later calls only extend the log.
\<close>

lemma append_extends: "\<exists>rs. receipts (fst (append l r)) = receipts l @ rs"
proof (cases "append l r")
  case (Pair l' res)
  then show ?thesis
    by (cases res) (auto dest: append_error append_ok)
qed

lemma run_extends: "\<exists>rs'. receipts (run_ops append l rs) = receipts l @ rs'"
proof (induction rs arbitrary: l)
  case Nil
  then show ?case by simp
next
  case (Cons r rs)
  from append_extends [of l r] obtain a where "receipts (fst (append l r)) = receipts l @ a" ..
  moreover from Cons.IH [of "fst (append l r)"]
  obtain b where "receipts (run_ops append (fst (append l r)) rs) = receipts (fst (append l r)) @ b" ..
  ultimately show ?case by simp
qed

text \<open>An accepted receipt is never accepted again: its sequence number is used up.\<close>

lemma replay_rejected:
  assumes "numbered (receipts l)" and "append l r = (l', Inr u)"
  shows "\<exists>e. append (run_ops append l' rs) r = (run_ops append l' rs, Inl e)"
proof -
  let ?l = "run_ops append l' rs"
  from append_ok [OF assms(2)] have "r \<in> set (receipts l')" by simp
  then have mem: "phase r \<in> phase ` set (receipts ?l)"
    using run_extends [of l' rs] by auto
  show ?thesis
  proof (cases "append ?l r")
    case (Pair l'' res)
    with mem append_ok append_error show ?thesis by (cases res) blast+
  qed
qed

end

end
