(* ===== verification/Attempt.thy ===== *)
theory Attempt
  imports Receipts
begin

text \<open>
  Managed doorbell attempt evidence, \<open>gearwit-domain/src/attempt.rs\<close>: the twelve phases of
  an attempt with their prerequisites, the observers and which phases each may evidence, and
  the append-only trace. The lemmas show that a trace always is a linear extension of the
  prerequisite order, numbered 1, 2, 3, \<dots>, and that every such list is accepted.
\<close>

section \<open>Phases, observers, receipts\<close>

datatype DoorbellAttemptPhase =
  AP_Observed | AP_Drained | AP_DurableClaimed | AP_DispatchPrepared | AP_NativeAccepted
| AP_ExactTurnStarted | AP_ClaimedBatchRetrieved | AP_HandledAcknowledged
| AP_HandledCursorRecorded | AP_ExactTerminalObserved | AP_SeatActed | AP_CoverageRearmed

fun attempt_phase_as_str :: "DoorbellAttemptPhase \<Rightarrow> string" where
  "attempt_phase_as_str AP_Observed = ''observed''"
| "attempt_phase_as_str AP_Drained = ''drained''"
| "attempt_phase_as_str AP_DurableClaimed = ''durable_claimed''"
| "attempt_phase_as_str AP_DispatchPrepared = ''dispatch_prepared''"
| "attempt_phase_as_str AP_NativeAccepted = ''native_accepted''"
| "attempt_phase_as_str AP_ExactTurnStarted = ''exact_turn_started''"
| "attempt_phase_as_str AP_ClaimedBatchRetrieved = ''claimed_batch_retrieved''"
| "attempt_phase_as_str AP_HandledAcknowledged = ''handled_acknowledged''"
| "attempt_phase_as_str AP_HandledCursorRecorded = ''handled_cursor_recorded''"
| "attempt_phase_as_str AP_ExactTerminalObserved = ''exact_terminal_observed''"
| "attempt_phase_as_str AP_SeatActed = ''seat_acted''"
| "attempt_phase_as_str AP_CoverageRearmed = ''coverage_rearmed''"

fun prerequisites :: "DoorbellAttemptPhase \<Rightarrow> DoorbellAttemptPhase list" where
  "prerequisites AP_Observed = []"
| "prerequisites AP_Drained = [AP_Observed]"
| "prerequisites AP_DurableClaimed = [AP_Drained]"
| "prerequisites AP_DispatchPrepared = [AP_DurableClaimed]"
| "prerequisites AP_NativeAccepted = [AP_DispatchPrepared]"
| "prerequisites AP_ExactTurnStarted = [AP_NativeAccepted]"
| "prerequisites AP_ClaimedBatchRetrieved = [AP_ExactTurnStarted]"
| "prerequisites AP_ExactTerminalObserved = [AP_ExactTurnStarted]"
| "prerequisites AP_HandledAcknowledged = [AP_ClaimedBatchRetrieved]"
| "prerequisites AP_HandledCursorRecorded = [AP_HandledAcknowledged]"
| "prerequisites AP_SeatActed = [AP_HandledCursorRecorded]"
| "prerequisites AP_CoverageRearmed = [AP_HandledCursorRecorded, AP_ExactTerminalObserved]"

datatype DoorbellAttemptSource = AS_ControlPlane | AS_Provider | AS_Controller
  | AS_ClaimedBatchHelper | AS_Seat

fun attempt_source_as_str :: "DoorbellAttemptSource \<Rightarrow> string" where
  "attempt_source_as_str AS_ControlPlane = ''control_plane''"
| "attempt_source_as_str AS_Provider = ''provider''"
| "attempt_source_as_str AS_Controller = ''controller''"
| "attempt_source_as_str AS_ClaimedBatchHelper = ''claimed_batch_helper''"
| "attempt_source_as_str AS_Seat = ''seat''"

fun attempt_supports :: "DoorbellAttemptSource \<Rightarrow> DoorbellAttemptPhase \<Rightarrow> bool" where
  "attempt_supports AS_ControlPlane p =
     (p \<in> {AP_Observed, AP_Drained, AP_DurableClaimed, AP_DispatchPrepared,
           AP_HandledCursorRecorded, AP_CoverageRearmed})"
| "attempt_supports AS_Provider p = (p \<in> {AP_Observed, AP_Drained})"
| "attempt_supports AS_Controller p =
     (p \<in> {AP_NativeAccepted, AP_ExactTurnStarted, AP_ExactTerminalObserved})"
| "attempt_supports AS_ClaimedBatchHelper p =
     (p \<in> {AP_ClaimedBatchRetrieved, AP_HandledAcknowledged})"
| "attempt_supports AS_Seat p = (p = AP_SeatActed)"

record DoorbellAttemptReceipt =
  ar_sequence :: u64
  ar_phase :: DoorbellAttemptPhase
  ar_source :: DoorbellAttemptSource

datatype DoorbellAttemptError =
  AE_ZeroSequence
| AE_UnsupportedEvidence DoorbellAttemptSource DoorbellAttemptPhase
| AE_UnexpectedSequence (ae_expected: u64) (ae_actual: u64)
| AE_DuplicatePhase DoorbellAttemptPhase
| AE_MissingPrerequisite (ae_phase: DoorbellAttemptPhase) (ae_prerequisite: DoorbellAttemptPhase)

definition attempt_receipt_try_new ::
  "u64 \<Rightarrow> DoorbellAttemptPhase \<Rightarrow> DoorbellAttemptSource
    \<Rightarrow> DoorbellAttemptError + DoorbellAttemptReceipt" where
  "attempt_receipt_try_new sequence phase source =
     (if sequence = 0 then Inl AE_ZeroSequence
      else if \<not> attempt_supports source phase then Inl (AE_UnsupportedEvidence source phase)
      else Inr \<lparr>ar_sequence = sequence, ar_phase = phase, ar_source = source\<rparr>)"

section \<open>The trace\<close>

datatype DoorbellAttemptObservation = AO_Observed DoorbellAttemptSource | AO_Unknown

record DoorbellAttemptTrace =
  at_receipts :: "DoorbellAttemptReceipt list"

definition attempt_trace_new :: DoorbellAttemptTrace where
  "attempt_trace_new = \<lparr>at_receipts = []\<rparr>"

definition attempt_contains :: "DoorbellAttemptTrace \<Rightarrow> DoorbellAttemptPhase \<Rightarrow> bool" where
  "attempt_contains t phase = list_ex (\<lambda>r. ar_phase r = phase) (at_receipts t)"

definition attempt_append ::
  "DoorbellAttemptTrace \<Rightarrow> DoorbellAttemptReceipt
    \<Rightarrow> DoorbellAttemptTrace \<times> (DoorbellAttemptError + unit)" where
  "attempt_append t r =
     (let expected = saturating_add (u64_of_nat (length (at_receipts t))) 1 in
      if ar_sequence r \<noteq> expected then
        (t, Inl (AE_UnexpectedSequence expected (ar_sequence r)))
      else if attempt_contains t (ar_phase r) then (t, Inl (AE_DuplicatePhase (ar_phase r)))
      else case List.find (\<lambda>p. \<not> attempt_contains t p) (prerequisites (ar_phase r)) of
          Some missing \<Rightarrow> (t, Inl (AE_MissingPrerequisite (ar_phase r) missing))
        | None \<Rightarrow> (t\<lparr>at_receipts := at_receipts t @ [r]\<rparr>, Inr ()))"

definition attempt_observe ::
  "DoorbellAttemptTrace \<Rightarrow> DoorbellAttemptPhase \<Rightarrow> DoorbellAttemptObservation" where
  "attempt_observe t phase =
     (case List.find (\<lambda>r. ar_phase r = phase) (at_receipts t) of
        None \<Rightarrow> AO_Unknown
      | Some r \<Rightarrow> AO_Observed (ar_source r))"

definition attempt_is_empty :: "DoorbellAttemptTrace \<Rightarrow> bool" where
  "attempt_is_empty t = (at_receipts t = [])"

definition MANAGED_DOORBELL_PHASES :: "DoorbellAttemptPhase list" where
  "MANAGED_DOORBELL_PHASES =
     [AP_Observed, AP_Drained, AP_DurableClaimed, AP_DispatchPrepared, AP_NativeAccepted,
      AP_ExactTurnStarted, AP_ClaimedBatchRetrieved, AP_HandledAcknowledged,
      AP_HandledCursorRecorded, AP_ExactTerminalObserved, AP_SeatActed, AP_CoverageRearmed]"

definition MANAGED_DOORBELL_PROOF_STEPS ::
  "(DoorbellAttemptPhase \<times> DoorbellAttemptSource) list" where
  "MANAGED_DOORBELL_PROOF_STEPS =
     [(AP_Observed, AS_Provider), (AP_Drained, AS_Provider), (AP_DurableClaimed, AS_ControlPlane),
      (AP_DispatchPrepared, AS_ControlPlane), (AP_NativeAccepted, AS_Controller),
      (AP_ExactTurnStarted, AS_Controller), (AP_ClaimedBatchRetrieved, AS_ClaimedBatchHelper),
      (AP_HandledAcknowledged, AS_ClaimedBatchHelper),
      (AP_HandledCursorRecorded, AS_ControlPlane), (AP_ExactTerminalObserved, AS_Controller),
      (AP_SeatActed, AS_Seat), (AP_CoverageRearmed, AS_ControlPlane)]"

section \<open>The order of phases\<close>

text \<open>The derived \<open>Ord\<close> of the phases is the order of their declaration.\<close>

fun phase_index :: "DoorbellAttemptPhase \<Rightarrow> nat" where
  "phase_index AP_Observed = 0"
| "phase_index AP_Drained = 1"
| "phase_index AP_DurableClaimed = 2"
| "phase_index AP_DispatchPrepared = 3"
| "phase_index AP_NativeAccepted = 4"
| "phase_index AP_ExactTurnStarted = 5"
| "phase_index AP_ClaimedBatchRetrieved = 6"
| "phase_index AP_HandledAcknowledged = 7"
| "phase_index AP_HandledCursorRecorded = 8"
| "phase_index AP_ExactTerminalObserved = 9"
| "phase_index AP_SeatActed = 10"
| "phase_index AP_CoverageRearmed = 11"

lemma phase_index_inj: "phase_index p = phase_index q \<Longrightarrow> p = q"
  by (cases p; cases q) simp_all

instantiation DoorbellAttemptPhase :: linorder
begin

definition less_eq_DoorbellAttemptPhase :: "DoorbellAttemptPhase \<Rightarrow> DoorbellAttemptPhase \<Rightarrow> bool" where
  "p \<le> q \<longleftrightarrow> phase_index p \<le> phase_index q"

definition less_DoorbellAttemptPhase :: "DoorbellAttemptPhase \<Rightarrow> DoorbellAttemptPhase \<Rightarrow> bool" where
  "p < q \<longleftrightarrow> phase_index p < phase_index q"

instance
  by standard
    (auto simp: less_eq_DoorbellAttemptPhase_def less_DoorbellAttemptPhase_def intro: phase_index_inj)

end

lemma UNIV_attempt_phase: "UNIV = set MANAGED_DOORBELL_PHASES"
proof -
  have "p \<in> set MANAGED_DOORBELL_PHASES" for p
    by (cases p) (simp_all add: MANAGED_DOORBELL_PHASES_def)
  then show ?thesis by blast
qed

lemma finite_attempt_phase: "finite (UNIV :: DoorbellAttemptPhase set)"
  by (simp add: UNIV_attempt_phase)

lemma card_attempt_phase: "card (UNIV :: DoorbellAttemptPhase set) = 12"
  by (simp add: UNIV_attempt_phase MANAGED_DOORBELL_PHASES_def)

definition prereq :: "(DoorbellAttemptPhase \<times> DoorbellAttemptPhase) set" where
  "prereq = {(q, p). q \<in> set (prerequisites p)}"

lemma prerequisites_less: "q \<in> set (prerequisites p) \<Longrightarrow> q < p"
  by (cases p) (auto simp: less_DoorbellAttemptPhase_def)

lemma attempt_contains_iff: "attempt_contains t p \<longleftrightarrow> p \<in> ar_phase ` set (at_receipts t)"
  by (auto simp: attempt_contains_def list_ex_iff)

lemma attempt_append_error: "attempt_append t r = (t', Inl e) \<Longrightarrow> t' = t"
  by (auto simp: attempt_append_def Let_def split: if_splits option.splits)

lemma attempt_append_okD:
  assumes "attempt_append t r = (t', Inr u)"
  shows "at_receipts t' = at_receipts t @ [r]"
    and "ar_sequence r = next_sequence (at_receipts t)"
    and "ar_phase r \<notin> ar_phase ` set (at_receipts t)"
    and "set (prerequisites (ar_phase r)) \<subseteq> ar_phase ` set (at_receipts t)"
proof -
  have none: "List.find (\<lambda>p. \<not> attempt_contains t p) (prerequisites (ar_phase r)) = None"
    using assms by (auto simp: attempt_append_def Let_def split: if_splits option.splits)
  show "at_receipts t' = at_receipts t @ [r]" "ar_sequence r = next_sequence (at_receipts t)"
    "ar_phase r \<notin> ar_phase ` set (at_receipts t)"
    using assms
    by (auto simp: attempt_append_def Let_def next_sequence_def attempt_contains_iff
        split: if_splits option.splits)
  from none show "set (prerequisites (ar_phase r)) \<subseteq> ar_phase ` set (at_receipts t)"
    by (auto simp: find_None_iff attempt_contains_iff)
qed

lemma attempt_append_okI:
  assumes "ar_sequence r = next_sequence (at_receipts t)"
    and "ar_phase r \<notin> ar_phase ` set (at_receipts t)"
    and "set (prerequisites (ar_phase r)) \<subseteq> ar_phase ` set (at_receipts t)"
  shows "attempt_append t r = (t\<lparr>at_receipts := at_receipts t @ [r]\<rparr>, Inr ())"
proof -
  have "List.find (\<lambda>p. \<not> attempt_contains t p) (prerequisites (ar_phase r)) = None"
    using assms(3) by (auto simp: find_None_iff attempt_contains_iff)
  with assms(1,2) show ?thesis
    by (simp add: attempt_append_def next_sequence_def attempt_contains_iff Let_def)
qed

interpretation att: receipt_log at_receipts attempt_append ar_sequence ar_phase
    attempt_trace_new UNIV
  by unfold_locales
    (auto simp: attempt_trace_new_def finite_attempt_phase card_attempt_phase
      dest: attempt_append_error attempt_append_okD)

section \<open>Traces are linear extensions of the prerequisite order\<close>

text \<open>
  Every receipt of the list stands after receipts for all its prerequisites.
\<close>

definition causal :: "DoorbellAttemptReceipt list \<Rightarrow> bool" where
  "causal rs \<longleftrightarrow>
     (\<forall>i < length rs. set (prerequisites (ar_phase (rs ! i))) \<subseteq> ar_phase ` set (take i rs))"

lemma causal_Nil [simp]: "causal []"
  by (simp add: causal_def)

lemma causal_snoc:
  "causal (rs @ [r]) \<longleftrightarrow> causal rs \<and> set (prerequisites (ar_phase r)) \<subseteq> ar_phase ` set rs"
proof -
  have "(\<forall>i < Suc n. P i) \<longleftrightarrow> (\<forall>i < n. P i) \<and> P n" for n and P :: "nat \<Rightarrow> bool"
    by (auto simp: less_Suc_eq)
  then show ?thesis by (simp add: causal_def nth_append)
qed

lemma attempt_append_causal:
  "causal (at_receipts t) \<Longrightarrow> causal (at_receipts (fst (attempt_append t r)))"
proof (cases "attempt_append t r")
  case (Pair t' res)
  assume c: "causal (at_receipts t)"
  show ?thesis
  proof (cases res)
    case (Inl e)
    with Pair c show ?thesis by (auto dest: attempt_append_error)
  next
    case (Inr u)
    with Pair c show ?thesis
      by (simp add: attempt_append_okD(1) causal_snoc attempt_append_okD(4))
  qed
qed

lemma attempt_run_causal: "causal (at_receipts (run_ops attempt_append attempt_trace_new rs))"
  by (rule run_ops_invariant [where I = "\<lambda>t. causal (at_receipts t)"])
    (simp add: attempt_trace_new_def, rule attempt_append_causal)

text \<open>Causality along the whole chain of prerequisites.\<close>

lemma causal_before:
  "causal rs \<Longrightarrow> i < length rs \<Longrightarrow> q \<in> set (prerequisites (ar_phase (rs ! i))) \<Longrightarrow>
    \<exists>j < i. ar_phase (rs ! j) = q"
  by (fastforce simp: causal_def in_set_conv_nth image_iff)

lemma causal_trancl:
  assumes "(q, p) \<in> prereq\<^sup>+" and "causal rs" and "i < length rs" and "ar_phase (rs ! i) = p"
  shows "\<exists>j < i. ar_phase (rs ! j) = q"
  using assms(1,3,4)
proof (induction arbitrary: i rule: trancl_induct)
  case (base p)
  then show ?case using causal_before [OF assms(2)] by (auto simp: prereq_def)
next
  case (step p p')
  from step.hyps(2) step.prems causal_before [OF assms(2)]
  obtain k where k: "k < i" "ar_phase (rs ! k) = p"
    by (auto simp: prereq_def)
  with step.prems(1) have "k < length rs" by simp
  from step.IH [OF this k(2)] obtain j where j: "j < k" "ar_phase (rs ! j) = q" by blast
  from j(1) k(1) have "j < i" by simp
  with j(2) show ?case by blast
qed

text \<open>
  The other direction: a causal list with distinct phases and sequence numbers 1, 2, 3, \<dots>
  is accepted receipt by receipt.
\<close>

lemma attempt_accepts_prefix:
  assumes "causal rs" "distinct (map ar_phase rs)"
    and "\<And>i. i < length rs \<Longrightarrow> ar_sequence (rs ! i) = of_nat (Suc i)"
  shows "at_receipts (run_ops attempt_append attempt_trace_new rs) = rs"
  using assms
proof (induction rs rule: rev_induct)
  case Nil
  then show ?case by (simp add: attempt_trace_new_def)
next
  case (snoc r rs)
  let ?t = "run_ops attempt_append attempt_trace_new rs"
  have c: "causal rs" and pre: "set (prerequisites (ar_phase r)) \<subseteq> ar_phase ` set rs"
    using snoc.prems(1) by (simp_all add: causal_snoc)
  have seqs: "ar_sequence (rs ! i) = of_nat (Suc i)" if "i < length rs" for i
    using snoc.prems(3) [of i] that by (simp add: nth_append)
  have t: "at_receipts ?t = rs"
    using snoc.IH [OF c] snoc.prems(2) seqs by simp
  have len: "length rs \<le> 12"
  proof -
    have "length rs = card (ar_phase ` set rs)"
      using snoc.prems(2) by (metis distinct_append distinct_card length_map map_append set_map)
    also have "\<dots> \<le> card (UNIV :: DoorbellAttemptPhase set)"
      by (intro card_mono finite_attempt_phase) simp
    finally show ?thesis by (simp add: card_attempt_phase)
  qed
  have "ar_sequence r = next_sequence (at_receipts ?t)"
    using snoc.prems(3) [of "length rs"] len t
    by (simp only: next_sequence_def u64_succ_of_nat) (simp add: u64_succ_of_nat nth_append)
  moreover have "ar_phase r \<notin> ar_phase ` set (at_receipts ?t)"
    using snoc.prems(2) t by simp
  moreover have "set (prerequisites (ar_phase r)) \<subseteq> ar_phase ` set (at_receipts ?t)"
    using pre t by simp
  ultimately show ?case by (simp add: run_ops_append attempt_append_okI t)
qed

section \<open>Properties\<close>


text \<open>
  Claim before dispatch. Whatever calls a trace has seen, a receipt for native acceptance
  (or anything after it) stands behind a receipt for the durable claim, and a receipt for
  re-armed coverage stands behind both the recorded handled cursor and the exact terminal:
  more generally a phase is only ever observed after each phase it transitively requires.
\<close>

lemma attempt_requires_earlier:
  assumes "(q, p) \<in> prereq\<^sup>+"
    and "i < length (at_receipts (run_ops attempt_append attempt_trace_new calls))"
    and "ar_phase (at_receipts (run_ops attempt_append attempt_trace_new calls) ! i) = p"
  shows "\<exists>j < i. ar_phase (at_receipts (run_ops attempt_append attempt_trace_new calls) ! j) = q"
  using causal_trancl [OF assms(1) attempt_run_causal assms(2,3)] .

definition canonical_calls :: "DoorbellAttemptReceipt list" where
  "canonical_calls =
     map (\<lambda>((p, s), n). \<lparr>ar_sequence = n, ar_phase = p, ar_source = s\<rparr>)
       (zip MANAGED_DOORBELL_PROOF_STEPS [1, 2, 3, 4, 5, 6, 7, 8, 9, 10, 11, 12])"

lemmas canonical_calls_eval = canonical_calls_def MANAGED_DOORBELL_PROOF_STEPS_def

lemma canonical_calls_accepted:
  "at_receipts (run_ops attempt_append attempt_trace_new canonical_calls) = canonical_calls"
  by (simp add: canonical_calls_eval attempt_append_def attempt_trace_new_def attempt_contains_def
      saturating_add_def u64_of_nat_def)


end
