(* ===== verification/Interrupt.thy ===== *)
theory Interrupt
  imports Receipts
begin

text \<open>
  Interrupt intent and lifecycle evidence, \<open>gearwit-domain/src/interrupt.rs\<close>: delivery
  routes, the coverage policy, and the lifecycle log. Unlike the attempt trace, lifecycle
  facts are independent: the log enforces numbering and one fact per phase, no order. A
  \<open>Duration\<close> is its number of nanoseconds.
\<close>

section \<open>Routes and coverage\<close>

datatype DeliveryRoute =
  DR_ReturnForeground | DR_CompleteBackgroundTool | DR_ControllerAttached | DR_NotifyOperator

fun DeliveryRoute_as_str :: "DeliveryRoute \<Rightarrow> string" where
  "DeliveryRoute_as_str DR_ReturnForeground = ''return_foreground''"
| "DeliveryRoute_as_str DR_CompleteBackgroundTool = ''complete_background_tool''"
| "DeliveryRoute_as_str DR_ControllerAttached = ''controller_attached''"
| "DeliveryRoute_as_str DR_NotifyOperator = ''notify_operator''"

record CoveragePolicy =
  cov_coverage :: nat
  cov_deadman :: nat

datatype CoveragePolicyError = ZeroCoverage | ZeroDeadman | DeadmanExceedsCoverage

definition coverage_policy_try_new :: "nat \<Rightarrow> nat \<Rightarrow> CoveragePolicyError + CoveragePolicy" where
  "coverage_policy_try_new coverage deadman =
     (if coverage = 0 then Inl ZeroCoverage
      else if deadman = 0 then Inl ZeroDeadman
      else if deadman > coverage then Inl DeadmanExceedsCoverage
      else Inr \<lparr>cov_coverage = coverage, cov_deadman = deadman\<rparr>)"

lemma coverage_policy_ok:
  "coverage_policy_try_new c d = Inr p \<longleftrightarrow>
     0 < d \<and> d \<le> c \<and> p = \<lparr>cov_coverage = c, cov_deadman = d\<rparr>"
  by (auto simp: coverage_policy_try_new_def)

section \<open>Facts, phases, observers\<close>

datatype InterruptPhase =
  IP_WaitArmed | IP_SignalMatched | IP_WaiterCompleted | IP_EventsDrained | IP_TurnStarted
| IP_ModelObserved | IP_SeatActed | IP_HandledCursorRecorded | IP_CoverageRearmed
| IP_CoverageEnded

fun InterruptPhase_as_str :: "InterruptPhase \<Rightarrow> string" where
  "InterruptPhase_as_str IP_WaitArmed = ''wait_armed''"
| "InterruptPhase_as_str IP_SignalMatched = ''signal_matched''"
| "InterruptPhase_as_str IP_WaiterCompleted = ''waiter_completed''"
| "InterruptPhase_as_str IP_EventsDrained = ''events_drained''"
| "InterruptPhase_as_str IP_TurnStarted = ''turn_started''"
| "InterruptPhase_as_str IP_ModelObserved = ''model_observed''"
| "InterruptPhase_as_str IP_SeatActed = ''seat_acted''"
| "InterruptPhase_as_str IP_HandledCursorRecorded = ''handled_cursor_recorded''"
| "InterruptPhase_as_str IP_CoverageRearmed = ''coverage_rearmed''"
| "InterruptPhase_as_str IP_CoverageEnded = ''coverage_ended''"

datatype WaiterCompletion = WC_Matched | WC_DeadmanExpired | WC_Failed | WC_Replaced

fun WaiterCompletion_as_str :: "WaiterCompletion \<Rightarrow> string" where
  "WaiterCompletion_as_str WC_Matched = ''matched''"
| "WaiterCompletion_as_str WC_DeadmanExpired = ''deadman_expired''"
| "WaiterCompletion_as_str WC_Failed = ''failed''"
| "WaiterCompletion_as_str WC_Replaced = ''replaced''"

datatype CoverageEndReason =
  CE_RunnerNotStarted | CE_DeadmanExpired | CE_ProviderFailed | CE_Cancelled | CE_Replaced

fun CoverageEndReason_as_str :: "CoverageEndReason \<Rightarrow> string" where
  "CoverageEndReason_as_str CE_RunnerNotStarted = ''runner_not_started''"
| "CoverageEndReason_as_str CE_DeadmanExpired = ''deadman_expired''"
| "CoverageEndReason_as_str CE_ProviderFailed = ''provider_failed''"
| "CoverageEndReason_as_str CE_Cancelled = ''cancelled''"
| "CoverageEndReason_as_str CE_Replaced = ''replaced''"

datatype LifecycleFact =
  LF_WaitArmed
| LF_SignalMatched
| LF_WaiterCompleted WaiterCompletion
| LF_EventsDrained (event_count: "32 word")
| LF_TurnStarted
| LF_ModelObserved
| LF_SeatActed
| LF_HandledCursorRecorded
| LF_CoverageRearmed
| LF_CoverageEnded CoverageEndReason

fun fact_phase :: "LifecycleFact \<Rightarrow> InterruptPhase" where
  "fact_phase LF_WaitArmed = IP_WaitArmed"
| "fact_phase LF_SignalMatched = IP_SignalMatched"
| "fact_phase (LF_WaiterCompleted _) = IP_WaiterCompleted"
| "fact_phase (LF_EventsDrained _) = IP_EventsDrained"
| "fact_phase LF_TurnStarted = IP_TurnStarted"
| "fact_phase LF_ModelObserved = IP_ModelObserved"
| "fact_phase LF_SeatActed = IP_SeatActed"
| "fact_phase LF_HandledCursorRecorded = IP_HandledCursorRecorded"
| "fact_phase LF_CoverageRearmed = IP_CoverageRearmed"
| "fact_phase (LF_CoverageEnded _) = IP_CoverageEnded"

datatype ReceiptSource =
  RS_ControlPlane | RS_Provider | RS_WaiterProcess | RS_Harness | RS_Controller | RS_Seat
| RS_Operator

fun ReceiptSource_as_str :: "ReceiptSource \<Rightarrow> string" where
  "ReceiptSource_as_str RS_ControlPlane = ''control_plane''"
| "ReceiptSource_as_str RS_Provider = ''provider''"
| "ReceiptSource_as_str RS_WaiterProcess = ''waiter_process''"
| "ReceiptSource_as_str RS_Harness = ''harness''"
| "ReceiptSource_as_str RS_Controller = ''controller''"
| "ReceiptSource_as_str RS_Seat = ''seat''"
| "ReceiptSource_as_str RS_Operator = ''operator''"

fun receipt_supports :: "ReceiptSource \<Rightarrow> InterruptPhase \<Rightarrow> bool" where
  "receipt_supports RS_ControlPlane p =
     (p \<in> {IP_WaitArmed, IP_SignalMatched, IP_WaiterCompleted, IP_EventsDrained,
           IP_HandledCursorRecorded, IP_CoverageRearmed, IP_CoverageEnded})"
| "receipt_supports RS_Provider p = (p \<in> {IP_SignalMatched, IP_EventsDrained})"
| "receipt_supports RS_WaiterProcess p =
     (p \<in> {IP_WaitArmed, IP_WaiterCompleted, IP_CoverageRearmed, IP_CoverageEnded})"
| "receipt_supports RS_Harness p = (p \<in> {IP_TurnStarted, IP_ModelObserved})"
| "receipt_supports RS_Controller p = (p \<in> {IP_TurnStarted, IP_ModelObserved})"
| "receipt_supports RS_Seat p =
     (p \<in> {IP_ModelObserved, IP_SeatActed, IP_HandledCursorRecorded, IP_CoverageRearmed})"
| "receipt_supports RS_Operator p = (p = IP_SeatActed)"

record LifecycleReceipt =
  lr_sequence :: u64
  lr_fact :: LifecycleFact
  lr_source :: ReceiptSource

datatype ReceiptError =
  RE_ZeroSequence
| RE_UnsupportedEvidence ReceiptSource InterruptPhase
| RE_UnexpectedSequence (re_expected: u64) (re_actual: u64)
| RE_DuplicatePhase InterruptPhase

definition lifecycle_receipt_try_new ::
  "u64 \<Rightarrow> LifecycleFact \<Rightarrow> ReceiptSource \<Rightarrow> ReceiptError + LifecycleReceipt" where
  "lifecycle_receipt_try_new sequence f source =
     (if sequence = 0 then Inl RE_ZeroSequence
      else if \<not> receipt_supports source (fact_phase f)
        then Inl (RE_UnsupportedEvidence source (fact_phase f))
      else Inr \<lparr>lr_sequence = sequence, lr_fact = f, lr_source = source\<rparr>)"

section \<open>The lifecycle log\<close>

datatype PhaseObservation = PO_Observed LifecycleFact ReceiptSource | PO_Unknown

record ReceiptLog =
  rl_receipts :: "LifecycleReceipt list"

definition receipt_log_new :: ReceiptLog where
  "receipt_log_new = \<lparr>rl_receipts = []\<rparr>"

definition receipt_log_append ::
  "ReceiptLog \<Rightarrow> LifecycleReceipt \<Rightarrow> ReceiptLog \<times> (ReceiptError + unit)" where
  "receipt_log_append l r =
     (let expected = saturating_add (u64_of_nat (length (rl_receipts l))) 1;
          phase = fact_phase (lr_fact r) in
      if lr_sequence r \<noteq> expected then
        (l, Inl (RE_UnexpectedSequence expected (lr_sequence r)))
      else if list_ex (\<lambda>existing. fact_phase (lr_fact existing) = phase) (rl_receipts l) then
        (l, Inl (RE_DuplicatePhase phase))
      else (l\<lparr>rl_receipts := rl_receipts l @ [r]\<rparr>, Inr ()))"

definition receipt_log_observe :: "ReceiptLog \<Rightarrow> InterruptPhase \<Rightarrow> PhaseObservation" where
  "receipt_log_observe l phase =
     (case List.find (\<lambda>r. fact_phase (lr_fact r) = phase) (rl_receipts l) of
        None \<Rightarrow> PO_Unknown
      | Some r \<Rightarrow> PO_Observed (lr_fact r) (lr_source r))"

definition receipt_log_len :: "ReceiptLog \<Rightarrow> nat" where
  "receipt_log_len l = length (rl_receipts l)"

definition receipt_log_is_empty :: "ReceiptLog \<Rightarrow> bool" where
  "receipt_log_is_empty l = (rl_receipts l = [])"

section \<open>Lemmas\<close>

lemma UNIV_interrupt_phase:
  "UNIV = {IP_WaitArmed, IP_SignalMatched, IP_WaiterCompleted, IP_EventsDrained, IP_TurnStarted,
     IP_ModelObserved, IP_SeatActed, IP_HandledCursorRecorded, IP_CoverageRearmed,
     IP_CoverageEnded}"
proof -
  have "p \<in> {IP_WaitArmed, IP_SignalMatched, IP_WaiterCompleted, IP_EventsDrained, IP_TurnStarted,
     IP_ModelObserved, IP_SeatActed, IP_HandledCursorRecorded, IP_CoverageRearmed,
     IP_CoverageEnded}" for p
    by (cases p) simp_all
  then show ?thesis by blast
qed

lemma receipt_log_append_error: "receipt_log_append l r = (l', Inl e) \<Longrightarrow> l' = l"
  by (auto simp: receipt_log_append_def Let_def split: if_splits)

lemma receipt_log_append_okD:
  "receipt_log_append l r = (l', Inr u) \<Longrightarrow>
     rl_receipts l' = rl_receipts l @ [r] \<and> lr_sequence r = next_sequence (rl_receipts l)
     \<and> fact_phase (lr_fact r) \<notin> (\<lambda>r. fact_phase (lr_fact r)) ` set (rl_receipts l)"
  by (auto simp: receipt_log_append_def next_sequence_def Let_def list_ex_iff split: if_splits)

lemma finite_interrupt_phase: "finite (UNIV :: InterruptPhase set)"
  by (subst UNIV_interrupt_phase) simp

lemma card_interrupt_phase: "card (UNIV :: InterruptPhase set) = 10"
  by (subst UNIV_interrupt_phase) simp

interpretation life: receipt_log rl_receipts receipt_log_append lr_sequence
    "\<lambda>r. fact_phase (lr_fact r)" receipt_log_new UNIV
  by unfold_locales
    (auto simp: receipt_log_new_def finite_interrupt_phase card_interrupt_phase
      dest: receipt_log_append_error receipt_log_append_okD)

text \<open>A log answers for a phase with the one receipt it holds for it.\<close>

lemma observe_unique:
  assumes "distinct (map (\<lambda>r. fact_phase (lr_fact r)) (rl_receipts l))" and "r \<in> set (rl_receipts l)"
  shows "receipt_log_observe l (fact_phase (lr_fact r)) = PO_Observed (lr_fact r) (lr_source r)"
proof -
  have "List.find (\<lambda>r'. fact_phase (lr_fact r') = fact_phase (lr_fact r)) rs = Some r"
    if "distinct (map (\<lambda>r. fact_phase (lr_fact r)) rs)" "r \<in> set rs" for rs
    using that by (induction rs) (auto simp: image_iff)
  from this [OF assms] show ?thesis by (simp add: receipt_log_observe_def)
qed

lemma observe_unknown_iff:
  "receipt_log_observe l p = PO_Unknown \<longleftrightarrow> (\<forall>r \<in> set (rl_receipts l). fact_phase (lr_fact r) \<noteq> p)"
  by (auto simp: receipt_log_observe_def find_None_iff split: option.splits dest!: find_SomeD)

section \<open>Properties\<close>

text \<open>
  A lifecycle log never infers. After any calls of \<open>append\<close> on a new log the receipts
  are numbered 1, 2, 3, \<dots> with one receipt per phase; observing a phase gives exactly the fact
  and source of the receipt that carried it, and is unknown when no receipt carried that very
  phase, whatever later phases the log holds.
\<close>

lemma lifecycle_log_observations:
  fixes calls p
  defines "l \<equiv> run_ops receipt_log_append receipt_log_new calls"
  shows "(\<forall>i < length (rl_receipts l). lr_sequence (rl_receipts l ! i) = of_nat (Suc i))
    \<and> length (rl_receipts l) \<le> 10
    \<and> (\<forall>f s. receipt_log_observe l p = PO_Observed f s \<longleftrightarrow>
          (\<exists>r \<in> set (rl_receipts l). fact_phase (lr_fact r) = p \<and> lr_fact r = f \<and> lr_source r = s))
    \<and> (receipt_log_observe l p = PO_Unknown \<longleftrightarrow>
          p \<notin> (\<lambda>r. fact_phase (lr_fact r)) ` set (rl_receipts l))"
proof -
  have num: "life.numbered (rl_receipts l)"
    unfolding l_def by (rule life.run_numbered)
  then have dist: "distinct (map (\<lambda>r. fact_phase (lr_fact r)) (rl_receipts l))"
    by (simp add: life.numbered_def)
  have obs: "receipt_log_observe l p = PO_Observed f s \<longleftrightarrow>
      (\<exists>r \<in> set (rl_receipts l). fact_phase (lr_fact r) = p \<and> lr_fact r = f \<and> lr_source r = s)" for f s
  proof
    assume "receipt_log_observe l p = PO_Observed f s"
    then show "\<exists>r \<in> set (rl_receipts l). fact_phase (lr_fact r) = p \<and> lr_fact r = f \<and> lr_source r = s"
      by (auto simp: receipt_log_observe_def split: option.splits dest!: find_SomeD)
  next
    assume "\<exists>r \<in> set (rl_receipts l). fact_phase (lr_fact r) = p \<and> lr_fact r = f \<and> lr_source r = s"
    then show "receipt_log_observe l p = PO_Observed f s"
      using observe_unique [OF dist] by blast
  qed
  show ?thesis
    using num life.numbered_length [OF num] obs
    by (auto simp: life.numbered_def observe_unknown_iff card_interrupt_phase)
qed

end
