(* ===== verification/Strings.thy ===== *)
theory Strings
  imports Prelude
begin

text \<open>
  The operations of Rust's \<open>str\<close> the code uses, on strings as UTF-8 byte sequences:
  \<open>len\<close> counts bytes (HOL \<open>length\<close>), \<open>chars\<close> decodes Unicode scalar values, \<open>from_utf8\<close>
  decides which byte sequences are strings at all; and the ASCII classes of \<open>u8\<close>.
\<close>

section \<open>ASCII classes\<close>

definition is_ascii_uppercase :: "char \<Rightarrow> bool" where
  "is_ascii_uppercase c = (65 \<le> (of_char c :: nat) \<and> (of_char c :: nat) \<le> 90)"

definition is_ascii_lowercase :: "char \<Rightarrow> bool" where
  "is_ascii_lowercase c = (97 \<le> (of_char c :: nat) \<and> (of_char c :: nat) \<le> 122)"

definition is_ascii_digit :: "char \<Rightarrow> bool" where
  "is_ascii_digit c = (48 \<le> (of_char c :: nat) \<and> (of_char c :: nat) \<le> 57)"

definition is_ascii_alphanumeric :: "char \<Rightarrow> bool" where
  "is_ascii_alphanumeric c = (is_ascii_uppercase c \<or> is_ascii_lowercase c \<or> is_ascii_digit c)"

lemmas ascii_class_defs =
  is_ascii_uppercase_def is_ascii_lowercase_def is_ascii_digit_def is_ascii_alphanumeric_def

text \<open>A byte range \<open>a..=b\<close> given by its end points.\<close>

definition in_range :: "char \<Rightarrow> char \<Rightarrow> char \<Rightarrow> bool" where
  "in_range a b c = ((of_char a :: nat) \<le> of_char c \<and> (of_char c :: nat) \<le> of_char b)"

section \<open>Decoding\<close>

definition continuation :: "nat \<Rightarrow> bool" where
  "continuation n = (0x80 \<le> n \<and> n < 0xC0)"

text \<open>
  \<open>str::chars\<close>. Rust strings are valid UTF-8; where the bytes are not, the function stops
  (a case no Rust string reaches, see \<open>utf8_valid\<close>).
\<close>

fun str_chars :: "string \<Rightarrow> nat list" where
  "str_chars [] = []"
| "str_chars (b # bs) =
     (let n = of_char b in
      if n < 0x80 then n # str_chars bs
      else if n < 0xE0 then
        (case bs of c1 # r \<Rightarrow> ((n - 0xC0) * 0x40 + (of_char c1 - 0x80)) # str_chars r
         | _ \<Rightarrow> [])
      else if n < 0xF0 then
        (case bs of c1 # c2 # r \<Rightarrow>
           ((n - 0xE0) * 0x1000 + (of_char c1 - 0x80) * 0x40 + (of_char c2 - 0x80)) # str_chars r
         | _ \<Rightarrow> [])
      else
        (case bs of c1 # c2 # c3 # r \<Rightarrow>
           ((n - 0xF0) * 0x40000 + (of_char c1 - 0x80) * 0x1000 + (of_char c2 - 0x80) * 0x40
             + (of_char c3 - 0x80)) # str_chars r
         | _ \<Rightarrow> []))"

text \<open>
  \<open>std::str::from_utf8(..).is_ok()\<close>: shortest encodings only, no surrogates, nothing above
  U+10FFFF.
\<close>

fun utf8_valid :: "string \<Rightarrow> bool" where
  "utf8_valid [] = True"
| "utf8_valid (b # bs) =
     (let n = (of_char b :: nat) in
      if n < 0x80 then utf8_valid bs
      else if n < 0xC2 then False
      else if n < 0xE0 then
        (case bs of c1 # r \<Rightarrow> continuation (of_char c1) \<and> utf8_valid r | _ \<Rightarrow> False)
      else if n < 0xF0 then
        (case bs of c1 # c2 # r \<Rightarrow>
           continuation (of_char c1) \<and> continuation (of_char c2)
           \<and> (n = 0xE0 \<longrightarrow> 0xA0 \<le> (of_char c1 :: nat))
           \<and> (n = 0xED \<longrightarrow> (of_char c1 :: nat) < 0xA0)
           \<and> utf8_valid r
         | _ \<Rightarrow> False)
      else if n < 0xF5 then
        (case bs of c1 # c2 # c3 # r \<Rightarrow>
           continuation (of_char c1) \<and> continuation (of_char c2) \<and> continuation (of_char c3)
           \<and> (n = 0xF0 \<longrightarrow> 0x90 \<le> (of_char c1 :: nat))
           \<and> (n = 0xF4 \<longrightarrow> (of_char c1 :: nat) < 0x90)
           \<and> utf8_valid r
         | _ \<Rightarrow> False)
      else False)"

definition ascii :: "string \<Rightarrow> bool" where
  "ascii s = list_all (\<lambda>c. (of_char c :: nat) < 0x80) s"

lemma ascii_simps [simp]: "ascii []" "ascii (c # s) \<longleftrightarrow> (of_char c :: nat) < 0x80 \<and> ascii s"
  by (simp_all add: ascii_def)

declare str_chars.simps(2) [simp del] utf8_valid.simps(2) [simp del]

lemma str_chars_ascii: "ascii s \<Longrightarrow> str_chars s = map of_char s"
  by (induction s) (simp_all add: str_chars.simps)

lemma utf8_valid_ascii: "ascii s \<Longrightarrow> utf8_valid s"
  by (induction s) (simp_all add: utf8_valid.simps)

text \<open>A line feed is a character of its own in valid UTF-8, never part of another's encoding.\<close>

lemma utf8_ascii_char:
  "utf8_valid s \<Longrightarrow> c \<in> set s \<Longrightarrow> (of_char c :: nat) < 0x80 \<Longrightarrow> of_char c \<in> set (str_chars s)"
  by (induction s rule: utf8_valid.induct)
    (auto simp: utf8_valid.simps str_chars.simps Let_def continuation_def split: if_splits list.splits)

section \<open>Rendering\<close>

text \<open>The decimal digits of \<open>format!("{n}")\<close>.\<close>

fun decimal :: "nat \<Rightarrow> string" where
  "decimal n = (if n < 10 then [char_of (48 + n)] else decimal (n div 10) @ [char_of (48 + n mod 10)])"

declare decimal.simps [simp del]

end
