(* ===== verification/Messages.thy ===== *)
theory Messages
  imports Strings
begin

text \<open>
  The waiter-link messages and their validation, \<open>gearwit-protocol/src/messages.rs\<close>. JSON and
  RFC 3339 parsing are not under \<open>src/\<close> (\<open>serde_json\<close>, \<open>time\<close>): \<open>parse_time\<close> stands for
  \<open>OffsetDateTime::parse(_, &Rfc3339).ok()\<close> and \<open>from_json\<close> for
  \<open>serde_json::from_str::<WaiterLink>\<close>, with the error rendered as a string.
\<close>

section \<open>Messages\<close>

definition SCHEMA :: string where
  "SCHEMA = ''gearwit.interrupt.waiter-link.v0''"

record ProviderEvent =
  pe_provider :: string
  pe_event_ref :: string
  pe_actor :: "string option"
  pe_observed_at :: string
  pe_body :: string

datatype WaiterLink =
  AttachWaiter (aw_schema: string) (aw_request_id: string) (aw_waiter_id: string)
    (aw_arm_id: string) (aw_generation: u64) (aw_seat_id: string) (aw_route: string)
    (aw_observed_at: string)
| AttachAccepted (aa_schema: string) (aa_request_id: string) (aa_link_id: string)
    (aa_arm_id: string) (aa_generation: u64) (aa_route: string) (aa_accepted_at: string)
    (aa_lease_until: string)
| AttachRejected (ax_schema: string) (ax_request_id: string) (ax_code: string)
    (ax_observed_at: string)
| DeliverEvents (de_schema: string) (de_delivery_id: string) (de_link_id: string)
    (de_arm_id: string) (de_generation: u64) (de_signal_id: string) (de_route: string)
    (de_events: "ProviderEvent list") (de_newest_event_ref: string) (de_attempted_at: string)
| DeliveryResult (dr_schema: string) (dr_delivery_id: string) (dr_link_id: string)
    (dr_signal_id: string) (dr_outcome: string) (dr_observed_at: string)

datatype WaiterLinkError = WL_Json string | WL_Semantic string

section \<open>Field checks\<close>

text \<open>A run of checks, each with \<open>?\<close>: the first error is the result.\<close>

fun first_error :: "('e + unit) list \<Rightarrow> 'e + unit" where
  "first_error [] = Inr ()"
| "first_error (c # cs) = (case c of Inl e \<Rightarrow> Inl e | Inr _ \<Rightarrow> first_error cs)"

lemma first_error_Inr_iff [simp]:
  "first_error cs = Inr u \<longleftrightarrow> list_all (\<lambda>c. c = Inr ()) cs"
  by (induction cs) (auto split: sum.splits)

declare first_error.simps [simp del]

definition schema_ok :: "string \<Rightarrow> WaiterLinkError + unit" where
  "schema_ok schema = ensure (schema = SCHEMA) (WL_Semantic ''unknown schema'')"

definition ulid_byte :: "char \<Rightarrow> bool" where
  "ulid_byte c =
     (in_range (CHR ''0'') (CHR ''9'') c \<or> in_range (CHR ''A'') (CHR ''H'') c
      \<or> in_range (CHR ''J'') (CHR ''K'') c \<or> in_range (CHR ''M'') (CHR ''N'') c
      \<or> in_range (CHR ''P'') (CHR ''T'') c \<or> in_range (CHR ''V'') (CHR ''Z'') c)"

definition ulid_ok :: "string \<Rightarrow> WaiterLinkError + unit" where
  "ulid_ok v = ensure (length v = 26 \<and> list_all ulid_byte v) (WL_Semantic ''invalid ulid'')"

definition generation_ok :: "u64 \<Rightarrow> WaiterLinkError + unit" where
  "generation_ok g = ensure (1 \<le> g) (WL_Semantic ''generation must be >= 1'')"

definition seat_shape :: "string \<Rightarrow> bool" where
  "seat_shape seat =
     (1 \<le> length seat \<and> length seat \<le> 63
      \<and> is_ascii_lowercase (hd seat)
      \<and> list_all (\<lambda>b. is_ascii_lowercase b \<or> is_ascii_digit b \<or> b = CHR ''-'') seat)"

definition seat_ok :: "string \<Rightarrow> WaiterLinkError + unit" where
  "seat_ok seat = ensure (seat_shape seat) (WL_Semantic ''invalid seat_id'')"

definition attached_route_ok :: "string \<Rightarrow> WaiterLinkError + unit" where
  "attached_route_ok route =
     ensure (route \<in> {''return_foreground'', ''complete_background_tool''})
       (WL_Semantic ''route is not an attached return'')"

definition attach_reject_codes :: "string list" where
  "attach_reject_codes =
     [''unknown_arm'', ''stale_generation'', ''route_mismatch'', ''already_attached'',
      ''coverage_ended'']"

definition reject_code_ok :: "string \<Rightarrow> WaiterLinkError + unit" where
  "reject_code_ok code =
     ensure (code \<in> set attach_reject_codes) (WL_Semantic ''unknown reject code'')"

definition outcome_ok :: "string \<Rightarrow> WaiterLinkError + unit" where
  "outcome_ok outcome =
     ensure (outcome \<in> {''return_completed'', ''return_failed'', ''link_lost''})
       (WL_Semantic ''unknown delivery outcome'')"

definition token_shape :: "string \<Rightarrow> bool" where
  "token_shape v =
     (1 \<le> length (str_chars v) \<and> length (str_chars v) \<le> 256
      \<and> list_all (\<lambda>ch. ch > 0x20 \<and> ch \<noteq> 0x7F) (str_chars v))"

definition token_ok :: "string \<Rightarrow> WaiterLinkError + unit" where
  "token_ok v = ensure (token_shape v) (WL_Semantic ''invalid safe token'')"

definition forbidden_control :: "nat \<Rightarrow> bool" where
  "forbidden_control code =
     (code \<le> 0x08 \<or> code = 0x0B \<or> code = 0x0C \<or> (0x0E \<le> code \<and> code \<le> 0x1F)
      \<or> (0x7F \<le> code \<and> code \<le> 0x9F))"

definition body_ok :: "string \<Rightarrow> WaiterLinkError + unit" where
  "body_ok v =
     (if length (str_chars v) > 4096 then Inl (WL_Semantic ''body too long'')
      else if list_ex forbidden_control (str_chars v)
        then Inl (WL_Semantic ''body contains forbidden controls'')
      else Inr ())"

definition time_ok :: "(string \<Rightarrow> instant option) \<Rightarrow> string \<Rightarrow> WaiterLinkError + instant" where
  "time_ok parse_time v =
     (case parse_time v of None \<Rightarrow> Inl (WL_Semantic ''invalid date-time'') | Some t \<Rightarrow> Inr t)"

section \<open>Validation\<close>

fun validate_each_event ::
  "(string \<Rightarrow> instant option) \<Rightarrow> string list \<Rightarrow> ProviderEvent list \<Rightarrow> WaiterLinkError + unit" where
  "validate_each_event parse_time seen [] = Inr ()"
| "validate_each_event parse_time seen (e # es) =
     bind_res (token_ok (pe_provider e)) (\<lambda>_.
     bind_res (token_ok (pe_event_ref e)) (\<lambda>_.
     bind_res (case pe_actor e of None \<Rightarrow> Inr () | Some actor \<Rightarrow> token_ok actor) (\<lambda>_.
     bind_res (time_ok parse_time (pe_observed_at e)) (\<lambda>_.
     bind_res (body_ok (pe_body e)) (\<lambda>_.
     if pe_event_ref e \<in> set seen then Inl (WL_Semantic ''duplicate event_ref'')
     else validate_each_event parse_time (pe_event_ref e # seen) es)))))"

definition last_event_ref :: "ProviderEvent list \<Rightarrow> string option" where
  "last_event_ref es = (if es = [] then None else Some (pe_event_ref (last es)))"

definition validate_events ::
  "(string \<Rightarrow> instant option) \<Rightarrow> ProviderEvent list \<Rightarrow> string \<Rightarrow> WaiterLinkError + unit" where
  "validate_events parse_time events newest =
     (if events = [] \<or> length events > 64
      then Inl (WL_Semantic ''events must contain 1..=64 items'')
      else bind_res (validate_each_event parse_time [] events) (\<lambda>_.
           bind_res (token_ok newest) (\<lambda>_.
           if last_event_ref events \<noteq> Some newest
           then Inl (WL_Semantic ''newest_event_ref must be last event_ref'')
           else Inr ())))"

definition validate :: "(string \<Rightarrow> instant option) \<Rightarrow> WaiterLink \<Rightarrow> WaiterLinkError + unit" where
  "validate parse_time message =
     (case message of
        AttachWaiter schema request_id waiter_id arm_id generation seat_id route observed_at \<Rightarrow>
          bind_res (first_error [schema_ok schema, ulid_ok request_id, ulid_ok waiter_id,
            ulid_ok arm_id, generation_ok generation, seat_ok seat_id, attached_route_ok route])
          (\<lambda>_. bind_res (time_ok parse_time observed_at) (\<lambda>_. Inr ()))
      | AttachAccepted schema request_id link_id arm_id generation route accepted_at lease_until \<Rightarrow>
          bind_res (first_error [schema_ok schema, ulid_ok request_id, ulid_ok link_id,
            ulid_ok arm_id, generation_ok generation, attached_route_ok route])
          (\<lambda>_. bind_res (time_ok parse_time accepted_at) (\<lambda>accepted.
               bind_res (time_ok parse_time lease_until) (\<lambda>lease.
               if lease \<le> accepted
               then Inl (WL_Semantic ''lease_until must be after accepted_at'')
               else Inr ())))
      | AttachRejected schema request_id code observed_at \<Rightarrow>
          bind_res (first_error [schema_ok schema, ulid_ok request_id, reject_code_ok code])
          (\<lambda>_. bind_res (time_ok parse_time observed_at) (\<lambda>_. Inr ()))
      | DeliverEvents schema delivery_id link_id arm_id generation signal_id route events newest
          attempted_at \<Rightarrow>
          bind_res (first_error [schema_ok schema, ulid_ok delivery_id, ulid_ok link_id,
            ulid_ok arm_id, generation_ok generation, ulid_ok signal_id, attached_route_ok route])
          (\<lambda>_. bind_res (time_ok parse_time attempted_at) (\<lambda>_.
               validate_events parse_time events newest))
      | DeliveryResult schema delivery_id link_id signal_id outcome observed_at \<Rightarrow>
          bind_res (first_error [schema_ok schema, ulid_ok delivery_id, ulid_ok link_id,
            ulid_ok signal_id, outcome_ok outcome])
          (\<lambda>_. bind_res (time_ok parse_time observed_at) (\<lambda>_. Inr ())))"

definition parse_waiter_link ::
  "(string \<Rightarrow> instant option) \<Rightarrow> (string \<Rightarrow> string + WaiterLink) \<Rightarrow> string
    \<Rightarrow> WaiterLinkError + WaiterLink" where
  "parse_waiter_link parse_time from_json json =
     (case from_json json of
        Inl e \<Rightarrow> Inl (WL_Json e)
      | Inr message \<Rightarrow> bind_res (validate parse_time message) (\<lambda>_. Inr message))"

section \<open>What validation guarantees\<close>

lemma time_ok_Inr_iff [result_simps]: "time_ok parse_time v = Inr t \<longleftrightarrow> parse_time v = Some t"
  by (simp add: time_ok_def split: option.splits)

lemma body_ok_Inr_iff [result_simps]:
  "body_ok v = Inr u \<longleftrightarrow>
     length (str_chars v) \<le> 4096 \<and> list_all (\<lambda>c. \<not> forbidden_control c) (str_chars v)"
  by (auto simp: body_ok_def list_ex_iff list_all_iff)

definition event_valid :: "(string \<Rightarrow> instant option) \<Rightarrow> ProviderEvent \<Rightarrow> bool" where
  "event_valid parse_time e =
     (token_shape (pe_provider e) \<and> token_shape (pe_event_ref e)
      \<and> (case pe_actor e of None \<Rightarrow> True | Some a \<Rightarrow> token_shape a)
      \<and> parse_time (pe_observed_at e) \<noteq> None
      \<and> body_ok (pe_body e) = Inr ())"

lemma token_ok_Inr_iff [result_simps]: "token_ok v = Inr u \<longleftrightarrow> token_shape v"
  by (simp add: token_ok_def)

lemma validate_each_event_iff [result_simps]:
  "validate_each_event parse_time seen es = Inr u \<longleftrightarrow>
     list_all (event_valid parse_time) es
     \<and> distinct (map pe_event_ref es)
     \<and> set (map pe_event_ref es) \<inter> set seen = {}"
proof (induction parse_time seen es rule: validate_each_event.induct)
  case (1 parse_time seen)
  then show ?case by simp
next
  case (2 parse_time seen e es)
  then show ?case
    by (cases "pe_actor e") (auto simp: result_simps event_valid_def)
qed

lemma validate_events_iff [result_simps]:
  "validate_events parse_time es newest = Inr u \<longleftrightarrow>
     es \<noteq> [] \<and> length es \<le> 64 \<and> list_all (event_valid parse_time) es
     \<and> distinct (map pe_event_ref es) \<and> pe_event_ref (last es) = newest"
proof -
  have "list_all (event_valid parse_time) es \<Longrightarrow> es \<noteq> [] \<Longrightarrow> token_shape (pe_event_ref (last es))"
    by (simp add: list_all_iff event_valid_def)
  then show ?thesis
    by (auto simp: validate_events_def last_event_ref_def result_simps)
qed

text \<open>
  The messages the daemon may put on the wire, said declaratively: the specification
  \<open>validate\<close> is checked against.
\<close>

definition is_ulid :: "string \<Rightarrow> bool" where
  "is_ulid v = (length v = 26 \<and> list_all ulid_byte v)"

lemma ulid_ok_Inr_iff [result_simps]: "ulid_ok v = Inr u \<longleftrightarrow> is_ulid v"
  by (simp add: ulid_ok_def is_ulid_def)

fun message_valid :: "(string \<Rightarrow> instant option) \<Rightarrow> WaiterLink \<Rightarrow> bool" where
  "message_valid parse_time (AttachWaiter s r w a g seat route t) =
     (s = SCHEMA \<and> is_ulid r \<and> is_ulid w \<and> is_ulid a \<and> 1 \<le> g \<and> seat_shape seat
      \<and> route \<in> {''return_foreground'', ''complete_background_tool''} \<and> parse_time t \<noteq> None)"
| "message_valid parse_time (AttachAccepted s r l a g route t t') =
     (s = SCHEMA \<and> is_ulid r \<and> is_ulid l \<and> is_ulid a \<and> 1 \<le> g
      \<and> route \<in> {''return_foreground'', ''complete_background_tool''}
      \<and> (case (parse_time t, parse_time t') of (Some x, Some y) \<Rightarrow> x < y | _ \<Rightarrow> False))"
| "message_valid parse_time (AttachRejected s r c t) =
     (s = SCHEMA \<and> is_ulid r \<and> c \<in> set attach_reject_codes \<and> parse_time t \<noteq> None)"
| "message_valid parse_time (DeliverEvents s d l a g sig route es newest t) =
     (s = SCHEMA \<and> is_ulid d \<and> is_ulid l \<and> is_ulid a \<and> 1 \<le> g \<and> is_ulid sig
      \<and> route \<in> {''return_foreground'', ''complete_background_tool''} \<and> parse_time t \<noteq> None
      \<and> es \<noteq> [] \<and> length es \<le> 64 \<and> list_all (event_valid parse_time) es
      \<and> distinct (map pe_event_ref es) \<and> pe_event_ref (last es) = newest)"
| "message_valid parse_time (DeliveryResult s d l sig out t) =
     (s = SCHEMA \<and> is_ulid d \<and> is_ulid l \<and> is_ulid sig
      \<and> out \<in> {''return_completed'', ''return_failed'', ''link_lost''} \<and> parse_time t \<noteq> None)"

lemma validate_Inr_iff [result_simps]:
  "validate parse_time m = Inr u \<longleftrightarrow> message_valid parse_time m"
  by (cases m)
    (auto simp: validate_def result_simps schema_ok_def generation_ok_def seat_ok_def
      attached_route_ok_def reject_code_ok_def outcome_ok_def not_le split: option.splits)

lemma parse_waiter_link_Inr_iff:
  "parse_waiter_link parse_time from_json json = Inr m \<longleftrightarrow>
     from_json json = Inr m \<and> message_valid parse_time m"
  by (auto simp: parse_waiter_link_def result_simps split: sum.splits)

end
