(* ===== verification/Handled.thy ===== *)
theory Handled
  imports Messages
begin

text \<open>
  Handled-cursor messages and their validation, \<open>gearwit-protocol/src/handled.rs\<close>. The file
  has its own copies of the field checks; the lemmas at the end show that they accept the
  same strings as those of \<open>messages.rs\<close>.
\<close>

definition HANDLED_SCHEMA :: string where
  "HANDLED_SCHEMA = ''gearwit.interrupt.handled-cursor.v0''"

definition REJECT_CODES :: "string list" where
  "REJECT_CODES =
     [''unknown_arm'', ''stale_generation'', ''seat_mismatch'', ''unknown_signal'',
      ''ack_before_delivery'', ''cursor_not_member'', ''cursor_beyond_delivered'',
      ''stale_cursor'']"

datatype HandledCursor =
  HC_Request (hq_schema: string) (hq_request_id: string) (hq_arm_id: string)
    (hq_generation: u64) (hq_seat_id: string) (hq_signal_id: string) (hq_cursor: string)
    (hq_observed_at: string)
| HC_Accepted (ha_schema: string) (ha_request_id: string) (ha_arm_id: string)
    (ha_generation: u64) (ha_signal_id: string) (ha_cursor: string) (ha_accepted_at: string)
| HC_Rejected (hx_schema: string) (hx_request_id: string) (hx_code: string)
    (hx_observed_at: string)

datatype HandledCursorError = HE_Json string | HE_Semantic string

definition h_schema_ok :: "string \<Rightarrow> HandledCursorError + unit" where
  "h_schema_ok schema = ensure (schema = HANDLED_SCHEMA) (HE_Semantic ''schema id'')"

definition h_ulid_byte :: "char \<Rightarrow> bool" where
  "h_ulid_byte c = (is_ascii_uppercase c \<and> c \<notin> set ''ILOU'' \<or> is_ascii_digit c)"

definition h_ulid_ok :: "string \<Rightarrow> HandledCursorError + unit" where
  "h_ulid_ok v = ensure (length v = 26 \<and> list_all h_ulid_byte v) (HE_Semantic ''ulid'')"

definition h_generation_ok :: "u64 \<Rightarrow> HandledCursorError + unit" where
  "h_generation_ok g = ensure (1 \<le> g) (HE_Semantic ''generation'')"

definition h_seat_ok :: "string \<Rightarrow> HandledCursorError + unit" where
  "h_seat_ok seat =
     ensure (1 \<le> length seat \<and> length seat \<le> 63
        \<and> is_ascii_lowercase (hd seat)
        \<and> list_all (\<lambda>b. is_ascii_lowercase b \<or> is_ascii_digit b \<or> b = CHR ''-'') seat)
       (HE_Semantic ''seat_id'')"

definition h_token_ok :: "string \<Rightarrow> HandledCursorError + unit" where
  "h_token_ok v =
     ensure (1 \<le> length (str_chars v) \<and> length (str_chars v) \<le> 256
        \<and> \<not> list_ex (\<lambda>ch. ch \<le> 0x20 \<or> ch = 0x7F) (str_chars v))
       (HE_Semantic ''token'')"

definition h_time_ok :: "(string \<Rightarrow> instant option) \<Rightarrow> string \<Rightarrow> HandledCursorError + instant" where
  "h_time_ok parse_time v =
     (case parse_time v of None \<Rightarrow> Inl (HE_Semantic ''timestamp'') | Some t \<Rightarrow> Inr t)"

definition validate_handled ::
  "(string \<Rightarrow> instant option) \<Rightarrow> HandledCursor \<Rightarrow> HandledCursorError + unit" where
  "validate_handled parse_time message =
     (case message of
        HC_Request schema request_id arm_id generation seat_id signal_id cursor observed_at \<Rightarrow>
          bind_res (first_error [h_schema_ok schema, h_ulid_ok request_id, h_ulid_ok arm_id,
            h_generation_ok generation, h_seat_ok seat_id, h_ulid_ok signal_id,
            h_token_ok cursor])
          (\<lambda>_. bind_res (h_time_ok parse_time observed_at) (\<lambda>_. Inr ()))
      | HC_Accepted schema request_id arm_id generation signal_id cursor accepted_at \<Rightarrow>
          bind_res (first_error [h_schema_ok schema, h_ulid_ok request_id, h_ulid_ok arm_id,
            h_generation_ok generation, h_ulid_ok signal_id, h_token_ok cursor])
          (\<lambda>_. bind_res (h_time_ok parse_time accepted_at) (\<lambda>_. Inr ()))
      | HC_Rejected schema request_id code observed_at \<Rightarrow>
          bind_res (first_error [h_schema_ok schema, h_ulid_ok request_id,
            ensure (code \<in> set REJECT_CODES) (HE_Semantic ''unknown reject code'')])
          (\<lambda>_. bind_res (h_time_ok parse_time observed_at) (\<lambda>_. Inr ())))"

definition parse_handled_cursor ::
  "(string \<Rightarrow> instant option) \<Rightarrow> (string \<Rightarrow> string + HandledCursor) \<Rightarrow> string
    \<Rightarrow> HandledCursorError + HandledCursor" where
  "parse_handled_cursor parse_time from_json json =
     (case from_json json of
        Inl e \<Rightarrow> Inl (HE_Json e)
      | Inr message \<Rightarrow> bind_res (validate_handled parse_time message) (\<lambda>_. Inr message))"

section \<open>Agreement with the waiter-link checks\<close>

lemma char_code: "c = d \<longleftrightarrow> (of_char c :: nat) = of_char d"
  by simp

lemma h_ulid_byte_eq: "h_ulid_byte = ulid_byte"
proof
  fix c
  have "c \<notin> set ''ILOU'' \<longleftrightarrow> (of_char c :: nat) \<notin> {73, 76, 79, 85}"
    using char_code [of c "CHR ''I''"] char_code [of c "CHR ''L''"]
      char_code [of c "CHR ''O''"] char_code [of c "CHR ''U''"] by simp
  moreover have "(65 \<le> n \<and> n \<le> 90) \<and> n \<notin> {73, 76, 79, 85} \<or> 48 \<le> n \<and> n \<le> 57 \<longleftrightarrow>
      48 \<le> n \<and> n \<le> 57 \<or> 65 \<le> n \<and> n \<le> 72 \<or> 74 \<le> n \<and> n \<le> 75 \<or> 77 \<le> n \<and> n \<le> 78
      \<or> 80 \<le> n \<and> n \<le> 84 \<or> 86 \<le> n \<and> n \<le> 90" for n :: nat
    unfolding insert_iff empty_iff by presburger
  ultimately show "h_ulid_byte c = ulid_byte c"
    by (simp add: h_ulid_byte_def ulid_byte_def in_range_def ascii_class_defs)
qed

lemma h_ulid_ok_Inr_iff [result_simps]: "h_ulid_ok v = Inr u \<longleftrightarrow> is_ulid v"
  by (simp add: h_ulid_ok_def is_ulid_def h_ulid_byte_eq)

lemma h_seat_ok_Inr_iff [result_simps]: "h_seat_ok v = Inr u \<longleftrightarrow> seat_shape v"
  by (simp add: h_seat_ok_def seat_shape_def)

lemma h_token_ok_Inr_iff [result_simps]: "h_token_ok v = Inr u \<longleftrightarrow> token_shape v"
  by (auto simp: h_token_ok_def token_shape_def list_all_iff list_ex_iff not_le)

lemma h_time_ok_Inr_iff [result_simps]: "h_time_ok parse_time v = Inr t \<longleftrightarrow> parse_time v = Some t"
  by (simp add: h_time_ok_def split: option.splits)

fun handled_valid :: "(string \<Rightarrow> instant option) \<Rightarrow> HandledCursor \<Rightarrow> bool" where
  "handled_valid parse_time (HC_Request s r a g seat sig c t) =
     (s = HANDLED_SCHEMA \<and> is_ulid r \<and> is_ulid a \<and> 1 \<le> g \<and> seat_shape seat \<and> is_ulid sig
      \<and> token_shape c \<and> parse_time t \<noteq> None)"
| "handled_valid parse_time (HC_Accepted s r a g sig c t) =
     (s = HANDLED_SCHEMA \<and> is_ulid r \<and> is_ulid a \<and> 1 \<le> g \<and> is_ulid sig
      \<and> token_shape c \<and> parse_time t \<noteq> None)"
| "handled_valid parse_time (HC_Rejected s r code t) =
     (s = HANDLED_SCHEMA \<and> is_ulid r \<and> code \<in> set REJECT_CODES \<and> parse_time t \<noteq> None)"

lemma validate_handled_Inr_iff [result_simps]:
  "validate_handled parse_time m = Inr u \<longleftrightarrow> handled_valid parse_time m"
  by (cases m)
    (auto simp: validate_handled_def result_simps h_schema_ok_def h_generation_ok_def)

lemma parse_handled_cursor_Inr_iff:
  "parse_handled_cursor parse_time from_json json = Inr m \<longleftrightarrow>
     from_json json = Inr m \<and> handled_valid parse_time m"
  by (auto simp: parse_handled_cursor_def result_simps split: sum.splits)

end
