(* ===== verification/Codec.thy ===== *)
theory Codec
  imports Handled
begin

text \<open>
  Payload encoding and decoding, \<open>gearwit-protocol/src/codec.rs\<close>. A payload is a byte
  sequence. \<open>serde_json\<close> is not under \<open>src/\<close>; the record \<open>json_codec\<close> collects what the code
  calls of it: serialising and deserialising the two message types, and reading the string
  under the key \<open>schema\<close> of an arbitrary JSON value (\<open>from_str::<Value>\<close>, then
  \<open>get("schema").and_then(as_str)\<close>). Errors are their rendered text.
\<close>

record json_codec =
  wl_to_json :: "WaiterLink \<Rightarrow> string + string"
  wl_from_json :: "string \<Rightarrow> string + WaiterLink"
  hc_to_json :: "HandledCursor \<Rightarrow> string + string"
  hc_from_json :: "string \<Rightarrow> string + HandledCursor"
  schema_field :: "string \<Rightarrow> string + string option"

definition MAX_PAYLOAD :: nat where
  "MAX_PAYLOAD = 256 * 1024"

datatype Incoming = IncomingWaiter WaiterLink | IncomingHandled HandledCursor

datatype PayloadError =
  PE_Empty | PE_TooLarge nat | PE_Message WaiterLinkError | PE_Handled HandledCursorError
| PE_UnknownSchema | PE_InvalidUtf8

fun map_err :: "('e \<Rightarrow> 'f) \<Rightarrow> 'e + 'a \<Rightarrow> 'f + 'a" where
  "map_err f (Inl e) = Inl (f e)"
| "map_err f (Inr x) = Inr x"

lemma map_err_Inr_iff [simp]: "map_err f r = Inr x \<longleftrightarrow> r = Inr x"
  by (cases r) simp_all

definition encode_payload ::
  "(string \<Rightarrow> instant option) \<Rightarrow> json_codec \<Rightarrow> WaiterLink \<Rightarrow> PayloadError + string" where
  "encode_payload parse_time j message =
     bind_res (map_err PE_Message (validate parse_time message)) (\<lambda>_.
     bind_res (map_err (\<lambda>e. PE_Message (WL_Json e)) (wl_to_json j message)) (\<lambda>json.
     if json = [] then Inl PE_Empty
     else if length json > MAX_PAYLOAD then Inl (PE_TooLarge (length json))
     else Inr json))"

definition decode_payload ::
  "(string \<Rightarrow> instant option) \<Rightarrow> json_codec \<Rightarrow> string \<Rightarrow> PayloadError + WaiterLink" where
  "decode_payload parse_time j payload =
     (if payload = [] then Inl PE_Empty
      else if length payload > MAX_PAYLOAD then Inl (PE_TooLarge (length payload))
      else if \<not> utf8_valid payload then Inl PE_InvalidUtf8
      else map_err PE_Message (parse_waiter_link parse_time (wl_from_json j) payload))"

definition checked_json :: "string \<Rightarrow> PayloadError + string" where
  "checked_json payload =
     (if payload = [] then Inl PE_Empty
      else if length payload > MAX_PAYLOAD then Inl (PE_TooLarge (length payload))
      else if \<not> utf8_valid payload then Inl PE_InvalidUtf8
      else Inr payload)"

definition encode_handled_payload ::
  "(string \<Rightarrow> instant option) \<Rightarrow> json_codec \<Rightarrow> HandledCursor \<Rightarrow> PayloadError + string" where
  "encode_handled_payload parse_time j message =
     bind_res (map_err PE_Handled (validate_handled parse_time message)) (\<lambda>_.
     bind_res (map_err (\<lambda>e. PE_Handled (HE_Json e)) (hc_to_json j message)) (\<lambda>json.
     if json = [] then Inl PE_Empty
     else if length json > MAX_PAYLOAD then Inl (PE_TooLarge (length json))
     else Inr json))"

definition decode_handled_payload ::
  "(string \<Rightarrow> instant option) \<Rightarrow> json_codec \<Rightarrow> string \<Rightarrow> PayloadError + HandledCursor" where
  "decode_handled_payload parse_time j payload =
     bind_res (checked_json payload) (\<lambda>json.
     map_err PE_Handled (parse_handled_cursor parse_time (hc_from_json j) json))"

definition decode_incoming ::
  "(string \<Rightarrow> instant option) \<Rightarrow> json_codec \<Rightarrow> string \<Rightarrow> PayloadError + Incoming" where
  "decode_incoming parse_time j payload =
     bind_res (checked_json payload) (\<lambda>json.
     bind_res (map_err (\<lambda>e. PE_Message (WL_Json e)) (schema_field j json)) (\<lambda>schema.
     if schema = Some SCHEMA then
       map_err PE_Message
         (bind_res (parse_waiter_link parse_time (wl_from_json j) json) (\<lambda>m. Inr (IncomingWaiter m)))
     else if schema = Some HANDLED_SCHEMA then
       map_err PE_Handled
         (bind_res (parse_handled_cursor parse_time (hc_from_json j) json)
            (\<lambda>m. Inr (IncomingHandled m)))
     else Inl PE_UnknownSchema))"

section \<open>Round trips\<close>

lemma checked_json_Inr_iff [result_simps]:
  "checked_json p = Inr q \<longleftrightarrow> q = p \<and> p \<noteq> [] \<and> length p \<le> MAX_PAYLOAD \<and> utf8_valid p"
  by (auto simp: checked_json_def)

lemma encode_payload_Inr_iff:
  "encode_payload parse_time j m = Inr p \<longleftrightarrow>
     message_valid parse_time m \<and> wl_to_json j m = Inr p \<and> p \<noteq> [] \<and> length p \<le> MAX_PAYLOAD"
  by (auto simp: encode_payload_def result_simps split: if_splits intro!: exI [of _ p])

lemma encode_handled_payload_Inr_iff:
  "encode_handled_payload parse_time j m = Inr p \<longleftrightarrow>
     handled_valid parse_time m \<and> hc_to_json j m = Inr p \<and> p \<noteq> [] \<and> length p \<le> MAX_PAYLOAD"
  by (auto simp: encode_handled_payload_def result_simps split: if_splits intro!: exI [of _ p])

text \<open>
  What the code relies on of \<open>serde_json\<close> (documented behaviour of derived serialisation):
  output is UTF-8, deserialising gives back the value, and the value's \<open>schema\<close> field is
  readable as such.
\<close>

definition json_faithful :: "json_codec \<Rightarrow> bool" where
  "json_faithful j \<longleftrightarrow>
     (\<forall>m s. wl_to_json j m = Inr s \<longrightarrow> utf8_valid s \<and> wl_from_json j s = Inr m) \<and>
     (\<forall>m s. hc_to_json j m = Inr s \<longrightarrow> utf8_valid s \<and> hc_from_json j s = Inr m)"

definition schema_of_waiter :: "WaiterLink \<Rightarrow> string" where
  "schema_of_waiter m =
     (case m of AttachWaiter s _ _ _ _ _ _ _ \<Rightarrow> s | AttachAccepted s _ _ _ _ _ _ _ \<Rightarrow> s
      | AttachRejected s _ _ _ \<Rightarrow> s | DeliverEvents s _ _ _ _ _ _ _ _ _ \<Rightarrow> s
      | DeliveryResult s _ _ _ _ _ \<Rightarrow> s)"

definition schema_of_handled :: "HandledCursor \<Rightarrow> string" where
  "schema_of_handled m =
     (case m of HC_Request s _ _ _ _ _ _ _ \<Rightarrow> s | HC_Accepted s _ _ _ _ _ _ \<Rightarrow> s
      | HC_Rejected s _ _ _ \<Rightarrow> s)"

definition schema_readable :: "json_codec \<Rightarrow> bool" where
  "schema_readable j \<longleftrightarrow>
     (\<forall>m s. wl_to_json j m = Inr s \<longrightarrow> schema_field j s = Inr (Some (schema_of_waiter m))) \<and>
     (\<forall>m s. hc_to_json j m = Inr s \<longrightarrow> schema_field j s = Inr (Some (schema_of_handled m)))"

lemma message_valid_schema: "message_valid parse_time m \<Longrightarrow> schema_of_waiter m = SCHEMA"
  by (cases m) (simp_all add: schema_of_waiter_def)

lemma handled_valid_schema: "handled_valid parse_time m \<Longrightarrow> schema_of_handled m = HANDLED_SCHEMA"
  by (cases m) (simp_all add: schema_of_handled_def)

lemma schemas_differ: "SCHEMA \<noteq> HANDLED_SCHEMA"
  by (simp add: SCHEMA_def HANDLED_SCHEMA_def)

lemma decode_incoming_waiter_iff:
  "decode_incoming parse_time j p = Inr (IncomingWaiter m) \<longleftrightarrow>
     p \<noteq> [] \<and> length p \<le> MAX_PAYLOAD \<and> utf8_valid p \<and> schema_field j p = Inr (Some SCHEMA)
     \<and> wl_from_json j p = Inr m \<and> message_valid parse_time m"
  using schemas_differ
  by (auto simp: decode_incoming_def result_simps parse_waiter_link_Inr_iff
      split: if_splits)

lemma decode_incoming_handled_iff:
  "decode_incoming parse_time j p = Inr (IncomingHandled m) \<longleftrightarrow>
     p \<noteq> [] \<and> length p \<le> MAX_PAYLOAD \<and> utf8_valid p \<and> schema_field j p = Inr (Some HANDLED_SCHEMA)
     \<and> hc_from_json j p = Inr m \<and> handled_valid parse_time m"
  using schemas_differ
  by (auto simp: decode_incoming_def result_simps parse_handled_cursor_Inr_iff
      split: if_splits)

section \<open>Properties\<close>


definition sample_request :: HandledCursor where
  "sample_request =
     HC_Request HANDLED_SCHEMA ''01J00000000000000000000050'' ''01J00000000000000000000010'' 1
       ''seat-a'' ''01J00000000000000000000021'' ''post02'' ''t''"

definition sample_result :: WaiterLink where
  "sample_result =
     DeliveryResult SCHEMA ''01J00000000000000000000040'' ''01J00000000000000000000041''
       ''01J00000000000000000000021'' ''return_completed'' ''t''"

definition sample_codec :: json_codec where
  "sample_codec =
     \<lparr>wl_to_json = (\<lambda>m. if m = sample_result then Inr ''w'' else Inl ''no''),
      wl_from_json = (\<lambda>s. if s = ''w'' then Inr sample_result else Inl ''no''),
      hc_to_json = (\<lambda>m. if m = sample_request then Inr ''h'' else Inl ''no''),
      hc_from_json = (\<lambda>s. if s = ''h'' then Inr sample_request else Inl ''no''),
      schema_field = (\<lambda>s. if s = ''w'' then Inr (Some SCHEMA) else Inr (Some HANDLED_SCHEMA))\<rparr>"

lemma sample_codec_faithful: "json_faithful sample_codec" "schema_readable sample_codec"
  by (auto simp: json_faithful_def schema_readable_def sample_codec_def sample_result_def
      sample_request_def schema_of_waiter_def schema_of_handled_def utf8_valid_ascii
      split: if_splits)

lemma sample_valid:
  "message_valid (\<lambda>_. Some 0) sample_result" "handled_valid (\<lambda>_. Some 0) sample_request"
  by (simp_all add: sample_result_def sample_request_def is_ulid_def ulid_byte_def in_range_def
      seat_shape_def ascii_class_defs token_shape_def str_chars_ascii REJECT_CODES_def)


text \<open>
  What reaches the daemon. Whatever the JSON library does, a payload the dispatching
  decoder accepts is non-empty UTF-8 of at most 256 KiB whose schema field names the variant
  it is decoded to, and the message satisfies every rule of its schema.
\<close>

theorem decode_incoming_sound:
  "(decode_incoming parse_time j p = Inr (IncomingWaiter m) \<longrightarrow>
      0 < length p \<and> length p \<le> 262144 \<and> utf8_valid p
      \<and> schema_field j p = Inr (Some (schema_of_waiter m)) \<and> message_valid parse_time m)
   \<and> (decode_incoming parse_time j p = Inr (IncomingHandled h) \<longrightarrow>
      0 < length p \<and> length p \<le> 262144 \<and> utf8_valid p
      \<and> schema_field j p = Inr (Some (schema_of_handled h)) \<and> handled_valid parse_time h)"
  using schemas_differ message_valid_schema [of parse_time m] handled_valid_schema [of parse_time h]
  by (auto simp: decode_incoming_waiter_iff decode_incoming_handled_iff MAX_PAYLOAD_def
      sample_result_def sample_request_def schema_of_waiter_def schema_of_handled_def)

theorem decode_incoming_sound_witness:
  "decode_incoming (\<lambda>_. Some 0) sample_codec ''w'' = Inr (IncomingWaiter sample_result)
   \<and> message_valid (\<lambda>_. Some 0) sample_result"
proof -
  have "decode_incoming (\<lambda>_. Some 0) sample_codec ''w'' = Inr (IncomingWaiter sample_result)"
    using sample_valid(1)
    by (simp add: decode_incoming_waiter_iff)
      (simp add: sample_codec_def MAX_PAYLOAD_def utf8_valid_ascii)
  then show ?thesis
    using decode_incoming_sound [of "\<lambda>_. Some 0" sample_codec "''w''" sample_result sample_request]
    by blast
qed

end
