(* ===== verification/Request_Log.thy ===== *)
theory Request_Log
  imports Ordered_Map
begin

text \<open>
  The contract of the two request histories of \<open>gearwit-host\<close>: the attach history of
  \<open>LinkTable\<close> (\<open>admit.rs\<close>) and the ACK history of \<open>AckStore\<close> (\<open>ack.rs\<close>). Both promise the
  client that retries over a lossy socket the same thing: a request that was once answered
  gets that answer from then on, another body under the same \<open>request_id\<close> gets the conflict
  error, and the history is bounded. \<open>run\<close> is any interleaving of the component's operations.
\<close>

locale request_log =
  fixes advance :: "'s \<Rightarrow> 'op \<Rightarrow> 's"
    and answer :: "'s \<Rightarrow> 'op \<Rightarrow> 'e + 'reply"
    and request :: "'op \<Rightarrow> ('key \<times> 'req) option"
    and well_formed :: "'req \<Rightarrow> bool"
    and recorded :: "'s \<Rightarrow> 'key \<Rightarrow> ('req \<times> 'reply) option"
    and size :: "'s \<Rightarrow> nat"
    and conflict :: 'e
    and cap :: nat
  assumes answer_replay:
      "request op = Some (k, r) \<Longrightarrow> well_formed r \<Longrightarrow> recorded s k = Some (r', a) \<Longrightarrow>
        answer s op = (if r' = r then Inr a else Inl conflict)"
    and advance_keeps: "recorded s k = Some x \<Longrightarrow> recorded (advance s op) k = Some x"
    and answer_recorded:
      "request op = Some (k, r) \<Longrightarrow> answer s op = Inr a \<Longrightarrow>
        recorded (advance s op) k = Some (r, a)"
    and answer_well_formed: "request op = Some (k, r) \<Longrightarrow> answer s op = Inr a \<Longrightarrow> well_formed r"
    and advance_bounded: "size s \<le> cap \<Longrightarrow> size (advance s op) \<le> cap"
begin

definition run :: "'s \<Rightarrow> 'op list \<Rightarrow> 's" where
  "run s ops = foldl advance s ops"

lemma run_simps [simp]:
  "run s [] = s"
  "run s (op # ops) = run (advance s op) ops"
  by (simp_all add: run_def)

lemma run_keeps: "recorded s k = Some x \<Longrightarrow> recorded (run s ops) k = Some x"
  by (induction ops arbitrary: s) (auto intro: advance_keeps)

lemma run_bounded: "size s \<le> cap \<Longrightarrow> size (run s ops) \<le> cap"
  by (induction ops arbitrary: s) (auto intro: advance_bounded)

theorem stable_answer:
  assumes "request op = Some (k, r)" and "answer s op = Inr a"
    and "request op' = Some (k, r')" and "well_formed r'"
  shows "answer (run (advance s op) ops) op' = (if r' = r then Inr a else Inl conflict)"
proof -
  from assms(1,2) have "recorded (run (advance s op) ops) k = Some (r, a)"
    by (intro run_keeps answer_recorded)
  with assms(3,4) show ?thesis by (auto simp: answer_replay)
qed

text \<open>A request that failed with the conflict error keeps failing: nothing ever frees its id.\<close>

theorem stable_conflict:
  assumes "request op = Some (k, r)" and "well_formed r"
    and "recorded s k = Some (r', a)" and "r' \<noteq> r"
  shows "answer (run s ops) op = Inl conflict"
  using assms run_keeps [OF assms(3), of ops] by (simp add: answer_replay)

end

end
