(* ===== verification/Admit.thy ===== *)
theory Admit
  imports Messages Request_Log
begin

text \<open>
  Waiter-link admission, \<open>gearwit-host/src/admit.rs\<close>: the link table holds at most one live
  link and the outcome of every \<open>request_id\<close> ever decided. Parameters stand for what is not
  under \<open>src/\<close>: \<open>parse_time\<close> and \<open>format_time\<close> for the \<open>time\<close> crate's RFC 3339 parser and
  printer, \<open>link_id\<close> for the fresh ULID of the \<open>ulid\<close> crate that an accepted attach is given.
\<close>

definition HISTORY_CAP :: nat where
  "HISTORY_CAP = 1024"

record KnownArm =
  ka_arm_id :: string
  ka_generation :: u64
  ka_seat_id :: string
  ka_route :: string
  ka_coverage_until :: instant

record AdmittedLink =
  al_request_id :: string
  al_link_id :: string
  al_arm_id :: string
  al_generation :: u64
  al_waiter_id :: string
  al_lease_until :: instant
  al_route :: string
  al_request :: WaiterLink
  al_last_accepted :: WaiterLink

record LinkSession =
  ls_link_id :: string
  ls_arm_id :: string
  ls_generation :: u64

record RequestRecord =
  rr_request :: WaiterLink
  rr_reply :: WaiterLink

record LinkTable =
  lt_current :: "AdmittedLink option"
  lt_history :: "(string, RequestRecord) btree"

definition link_table_default :: LinkTable where
  "link_table_default = \<lparr>lt_current = None, lt_history = bt_empty\<rparr>"

definition drop_current :: "LinkTable \<Rightarrow> LinkTable" where
  "drop_current t = t\<lparr>lt_current := None\<rparr>"

definition session_owns :: "LinkSession \<Rightarrow> AdmittedLink \<Rightarrow> bool" where
  "session_owns session current =
     (al_link_id current = ls_link_id session
      \<and> al_arm_id current = ls_arm_id session
      \<and> al_generation current = ls_generation session)"

definition drop_session :: "LinkTable \<Rightarrow> LinkSession \<Rightarrow> LinkTable" where
  "drop_session t session =
     (case lt_current t of
        None \<Rightarrow> t
      | Some current \<Rightarrow> if session_owns session current then t\<lparr>lt_current := None\<rparr> else t)"

definition drop_expired :: "LinkTable \<Rightarrow> instant \<Rightarrow> LinkTable" where
  "drop_expired t now =
     (case lt_current t of
        None \<Rightarrow> t
      | Some current \<Rightarrow> if now \<ge> al_lease_until current then t\<lparr>lt_current := None\<rparr> else t)"

datatype AttachDecision =
  AD_Accept AdmittedLink WaiterLink
| AD_Replay WaiterLink "LinkSession option"
| AD_Reject WaiterLink WaiterLink

definition commit_attach :: "LinkTable \<Rightarrow> AdmittedLink \<Rightarrow> LinkTable" where
  "commit_attach t link =
     t\<lparr>lt_history := bt_insert (al_request_id link)
          \<lparr>rr_request = al_request link, rr_reply = al_last_accepted link\<rparr> (lt_history t),
        lt_current := Some link\<rparr>"

definition commit_reject :: "LinkTable \<Rightarrow> WaiterLink \<Rightarrow> WaiterLink \<Rightarrow> LinkTable" where
  "commit_reject t request reply =
     (case request of
        AttachWaiter _ request_id _ _ _ _ _ _ \<Rightarrow>
          t\<lparr>lt_history := bt_insert request_id \<lparr>rr_request = request, rr_reply = reply\<rparr> (lt_history t)\<rparr>
      | _ \<Rightarrow> t)"

definition reject_message ::
  "(string \<Rightarrow> instant option) \<Rightarrow> (instant \<Rightarrow> string) \<Rightarrow> string \<Rightarrow> string \<Rightarrow> instant
    \<Rightarrow> WaiterLinkError + WaiterLink" where
  "reject_message parse_time format_time request_id code now =
     (let rejected = AttachRejected SCHEMA request_id code (format_time now) in
      bind_res (validate parse_time rejected) (\<lambda>_. Inr rejected))"

definition decide_attach ::
  "(string \<Rightarrow> instant option) \<Rightarrow> (instant \<Rightarrow> string) \<Rightarrow> string \<Rightarrow> LinkTable \<Rightarrow> WaiterLink
    \<Rightarrow> instant \<Rightarrow> KnownArm list \<Rightarrow> WaiterLinkError + AttachDecision" where
  "decide_attach parse_time format_time link_id t request now arms =
     bind_res (validate parse_time request) (\<lambda>_.
     case request of
       AttachWaiter _ request_id waiter_id arm_id generation seat_id route _ \<Rightarrow>
         let reject = (\<lambda>code.
               bind_res (reject_message parse_time format_time request_id code now)
                 (\<lambda>reply. Inr (AD_Reject request reply)))
         in (case bt_get (lt_history t) request_id of
           Some rec \<Rightarrow>
             if rr_request rec \<noteq> request then Inl (WL_Semantic ''request_id conflict'')
             else
               let session = (case lt_current t of
                     None \<Rightarrow> None
                   | Some current \<Rightarrow>
                       if al_request_id current = request_id \<and> now < al_lease_until current
                       then Some \<lparr>ls_link_id = al_link_id current, ls_arm_id = al_arm_id current,
                              ls_generation = al_generation current\<rparr>
                       else None)
               in Inr (AD_Replay (rr_reply rec) session)
         | None \<Rightarrow>
             if bt_len (lt_history t) \<ge> HISTORY_CAP
             then Inl (WL_Semantic ''request history full'')
             else (case List.find (\<lambda>arm. ka_arm_id arm = arm_id) arms of
               None \<Rightarrow> reject ''unknown_arm''
             | Some arm \<Rightarrow>
                 if ka_generation arm \<noteq> generation then reject ''stale_generation''
                 else if ka_seat_id arm \<noteq> seat_id \<or> ka_route arm \<noteq> route
                 then reject ''route_mismatch''
                 else if now \<ge> ka_coverage_until arm then reject ''coverage_ended''
                 else if lt_current t \<noteq> None then reject ''already_attached''
                 else
                   let lease_until = min (now + minutes 10) (ka_coverage_until arm);
                       accepted = AttachAccepted SCHEMA request_id link_id arm_id generation route
                         (format_time now) (format_time lease_until)
                   in bind_res (validate parse_time accepted) (\<lambda>_.
                      Inr (AD_Accept
                        \<lparr>al_request_id = request_id, al_link_id = link_id, al_arm_id = arm_id,
                         al_generation = generation, al_waiter_id = waiter_id,
                         al_lease_until = lease_until, al_route = route,
                         al_request = request, al_last_accepted = accepted\<rparr>
                        accepted))))
     | _ \<Rightarrow> Inl (WL_Semantic ''expected attach_waiter''))"

definition admit_attach ::
  "(string \<Rightarrow> instant option) \<Rightarrow> (instant \<Rightarrow> string) \<Rightarrow> string \<Rightarrow> LinkTable \<Rightarrow> WaiterLink
    \<Rightarrow> instant \<Rightarrow> KnownArm list \<Rightarrow> LinkTable \<times> (WaiterLinkError + WaiterLink)" where
  "admit_attach parse_time format_time link_id t request now arms =
     (let t = drop_expired t now in
      case decide_attach parse_time format_time link_id t request now arms of
        Inl e \<Rightarrow> (t, Inl e)
      | Inr (AD_Accept link reply) \<Rightarrow> (commit_attach t link, Inr reply)
      | Inr (AD_Replay reply _) \<Rightarrow> (t, Inr reply)
      | Inr (AD_Reject request reply) \<Rightarrow> (commit_reject t request reply, Inr reply))"

section \<open>What a decision rests on\<close>

lemma reject_message_Inr:
  "reject_message parse_time format_time k code now = Inr reply \<Longrightarrow>
     reply = AttachRejected SCHEMA k code (format_time now) \<and> message_valid parse_time reply"
  by (auto simp: reject_message_def Let_def result_simps)

fun is_attach :: "WaiterLink \<Rightarrow> bool" where
  "is_attach (AttachWaiter _ _ _ _ _ _ _ _) = True"
| "is_attach _ = False"

lemma is_attach_iff:
  "is_attach m \<longleftrightarrow> (\<exists>s k w a g seat route t. m = AttachWaiter s k w a g seat route t)"
  by (cases m) simp_all

text \<open>
  The conditions under which a new link is granted: a valid, unseen request with room in the
  history, for the generation, seat and route of a known arm that is still covered, while no
  link is current.
\<close>

definition grantable ::
  "(string \<Rightarrow> instant option) \<Rightarrow> LinkTable \<Rightarrow> WaiterLink \<Rightarrow> instant \<Rightarrow> KnownArm \<Rightarrow> KnownArm list \<Rightarrow> bool"
where
  "grantable parse_time t m now arm arms \<longleftrightarrow>
     is_attach m \<and> message_valid parse_time m
     \<and> bt_get (lt_history t) (aw_request_id m) = None
     \<and> bt_len (lt_history t) < HISTORY_CAP
     \<and> List.find (\<lambda>x. ka_arm_id x = aw_arm_id m) arms = Some arm
     \<and> ka_generation arm = aw_generation m \<and> ka_seat_id arm = aw_seat_id m
     \<and> ka_route arm = aw_route m
     \<and> now < ka_coverage_until arm \<and> lt_current t = None"

definition granted_lease :: "instant \<Rightarrow> KnownArm \<Rightarrow> instant" where
  "granted_lease now arm = min (now + minutes 10) (ka_coverage_until arm)"

definition grant_reply :: "(instant \<Rightarrow> string) \<Rightarrow> string \<Rightarrow> WaiterLink \<Rightarrow> instant \<Rightarrow> KnownArm \<Rightarrow> WaiterLink" where
  "grant_reply format_time link_id m now arm =
     AttachAccepted SCHEMA (aw_request_id m) link_id (aw_arm_id m) (aw_generation m) (aw_route m)
       (format_time now) (format_time (granted_lease now arm))"

definition granted_link :: "(instant \<Rightarrow> string) \<Rightarrow> string \<Rightarrow> WaiterLink \<Rightarrow> instant \<Rightarrow> KnownArm \<Rightarrow> AdmittedLink" where
  "granted_link format_time link_id m now arm =
     \<lparr>al_request_id = aw_request_id m, al_link_id = link_id, al_arm_id = aw_arm_id m,
      al_generation = aw_generation m, al_waiter_id = aw_waiter_id m,
      al_lease_until = granted_lease now arm, al_route = aw_route m, al_request = m,
      al_last_accepted = grant_reply format_time link_id m now arm\<rparr>"

lemma decide_attach_Accept_iff:
  "decide_attach parse_time format_time link_id t m now arms = Inr (AD_Accept link reply) \<longleftrightarrow>
     (\<exists>arm. grantable parse_time t m now arm arms
        \<and> link = granted_link format_time link_id m now arm
        \<and> reply = grant_reply format_time link_id m now arm
        \<and> message_valid parse_time reply)"
  (is "?l \<longleftrightarrow> ?r")
proof
  assume ?l
  then show ?r
    by (cases m)
      (auto simp: decide_attach_def result_simps Let_def grantable_def granted_lease_def
        grant_reply_def granted_link_def split: option.splits if_splits)
next
  assume ?r
  then obtain arm where g: "grantable parse_time t m now arm arms"
    and link: "link = granted_link format_time link_id m now arm"
    and reply: "reply = grant_reply format_time link_id m now arm"
    and "message_valid parse_time reply" by blast
  then have "validate parse_time (grant_reply format_time link_id m now arm) = Inr ()"
    by (simp add: result_simps)
  moreover from g have "validate parse_time m = Inr ()"
    by (simp add: grantable_def result_simps)
  ultimately show ?l
    using g unfolding link reply
    by (cases m)
      (simp_all add: decide_attach_def Let_def grantable_def granted_lease_def grant_reply_def
        granted_link_def not_le [symmetric])
qed

lemma decide_attach_Replay:
  "decide_attach parse_time format_time link_id t m now arms = Inr (AD_Replay reply session) \<Longrightarrow>
     is_attach m \<and> message_valid parse_time m
     \<and> bt_get (lt_history t) (aw_request_id m) = Some \<lparr>rr_request = m, rr_reply = reply\<rparr>"
  by (cases m)
    (auto simp: decide_attach_def result_simps Let_def split: option.splits if_splits)

lemma decide_attach_Reject:
  "decide_attach parse_time format_time link_id t m now arms = Inr (AD_Reject m' reply) \<Longrightarrow>
     m' = m \<and> is_attach m \<and> message_valid parse_time m
     \<and> bt_get (lt_history t) (aw_request_id m) = None \<and> bt_len (lt_history t) < HISTORY_CAP
     \<and> (\<exists>code. reply = AttachRejected SCHEMA (aw_request_id m) code (format_time now))
     \<and> message_valid parse_time reply"
  by (cases m)
    (auto simp: decide_attach_def result_simps Let_def not_le
      split: option.splits if_splits dest!: reject_message_Inr)

lemma decide_attach_known:
  assumes "is_attach m" "message_valid parse_time m"
    and "bt_get (lt_history t) (aw_request_id m) = Some rec"
  shows "case decide_attach parse_time format_time link_id t m now arms of
      Inl e \<Rightarrow> rr_request rec \<noteq> m \<and> e = WL_Semantic ''request_id conflict''
    | Inr d \<Rightarrow> rr_request rec = m \<and> (\<exists>session. d = AD_Replay (rr_reply rec) session)"
  using assms validate_Inr_iff [of parse_time m "()"]
  by (cases m) (auto simp: decide_attach_def Let_def)

section \<open>The operations of a link table\<close>

text \<open>
  Everything the daemon does to its table, in any order: attaches from the accept thread,
  and the drops of the main loop (\<open>drop_session\<close> on transport loss, \<open>drop_current\<close> on re-arm
  and shutdown).
\<close>

datatype LinkOp =
  OpAttach (op_link_id: string) (op_message: WaiterLink) (op_now: instant) (op_arms: "KnownArm list")
| OpDropCurrent
| OpDropSession LinkSession
| OpDropExpired instant

fun link_advance ::
  "(string \<Rightarrow> instant option) \<Rightarrow> (instant \<Rightarrow> string) \<Rightarrow> LinkTable \<Rightarrow> LinkOp \<Rightarrow> LinkTable" where
  "link_advance parse_time format_time t (OpAttach link_id m now arms) =
     fst (admit_attach parse_time format_time link_id t m now arms)"
| "link_advance parse_time format_time t OpDropCurrent = drop_current t"
| "link_advance parse_time format_time t (OpDropSession session) = drop_session t session"
| "link_advance parse_time format_time t (OpDropExpired now) = drop_expired t now"

fun link_answer ::
  "(string \<Rightarrow> instant option) \<Rightarrow> (instant \<Rightarrow> string) \<Rightarrow> LinkTable \<Rightarrow> LinkOp
    \<Rightarrow> WaiterLinkError + WaiterLink" where
  "link_answer parse_time format_time t (OpAttach link_id m now arms) =
     snd (admit_attach parse_time format_time link_id t m now arms)"
| "link_answer parse_time format_time t _ = Inl (WL_Semantic ''not a request'')"

fun link_request :: "LinkOp \<Rightarrow> (string \<times> WaiterLink) option" where
  "link_request (OpAttach _ m _ _) = (if is_attach m then Some (aw_request_id m, m) else None)"
| "link_request _ = None"

definition link_recorded :: "LinkTable \<Rightarrow> string \<Rightarrow> (WaiterLink \<times> WaiterLink) option" where
  "link_recorded t k = map_option (\<lambda>rec. (rr_request rec, rr_reply rec)) (bt_get (lt_history t) k)"

abbreviation link_run ::
  "(string \<Rightarrow> instant option) \<Rightarrow> (instant \<Rightarrow> string) \<Rightarrow> LinkTable \<Rightarrow> LinkOp list \<Rightarrow> LinkTable" where
  "link_run parse_time format_time \<equiv> foldl (link_advance parse_time format_time)"

named_theorems link_simps \<open>what the operations do to the history and the current link\<close>

lemma drop_history [simp]:
  "lt_history (drop_current t) = lt_history t"
  "lt_history (drop_session t session) = lt_history t"
  "lt_history (drop_expired t now) = lt_history t"
  by (simp_all add: drop_current_def drop_session_def drop_expired_def split: option.splits)

lemma commit_attach_simps [simp]:
  "lt_current (commit_attach t link) = Some link"
  "lt_history (commit_attach t link) =
     bt_insert (al_request_id link) \<lparr>rr_request = al_request link, rr_reply = al_last_accepted link\<rparr>
       (lt_history t)"
  by (simp_all add: commit_attach_def)

lemma commit_reject_simps:
  "lt_current (commit_reject t m reply) = lt_current t"
  "is_attach m \<Longrightarrow> lt_history (commit_reject t m reply) =
     bt_insert (aw_request_id m) \<lparr>rr_request = m, rr_reply = reply\<rparr> (lt_history t)"
  by (cases m; simp add: commit_reject_def)+

lemma drop_current_cases:
  "lt_current (drop_current t) = None"
  "lt_current (drop_session t session) \<in> {None, lt_current t}"
  "lt_current (drop_expired t now) \<in> {None, lt_current t}"
  by (auto simp: drop_current_def drop_session_def drop_expired_def split: option.splits)

text \<open>
  Every outcome of an attach, with what it leaves in the table: nothing new on an error or a
  replay, one new history entry otherwise.
\<close>

lemma admit_attach_cases:
  obtains (error) e where
      "admit_attach parse_time format_time link_id t m now arms = (drop_expired t now, Inl e)"
  | (replay) reply where
      "admit_attach parse_time format_time link_id t m now arms = (drop_expired t now, Inr reply)"
      "is_attach m" "message_valid parse_time m"
      "bt_get (lt_history t) (aw_request_id m) = Some \<lparr>rr_request = m, rr_reply = reply\<rparr>"
  | (accept) arm where
      "admit_attach parse_time format_time link_id t m now arms =
        (commit_attach (drop_expired t now) (granted_link format_time link_id m now arm),
         Inr (grant_reply format_time link_id m now arm))"
      "grantable parse_time (drop_expired t now) m now arm arms"
      "message_valid parse_time (grant_reply format_time link_id m now arm)"
  | (reject) code where
      "admit_attach parse_time format_time link_id t m now arms =
        (commit_reject (drop_expired t now) m
           (AttachRejected SCHEMA (aw_request_id m) code (format_time now)),
         Inr (AttachRejected SCHEMA (aw_request_id m) code (format_time now)))"
      "is_attach m" "message_valid parse_time m"
      "message_valid parse_time (AttachRejected SCHEMA (aw_request_id m) code (format_time now))"
      "bt_get (lt_history t) (aw_request_id m) = None" "bt_len (lt_history t) < HISTORY_CAP"
proof (cases "decide_attach parse_time format_time link_id (drop_expired t now) m now arms")
  case (Inl e)
  show thesis by (rule error [of e]) (simp add: admit_attach_def Inl)
next
  case (Inr d)
  show thesis
  proof (cases d)
    case (AD_Accept link reply)
    with Inr obtain arm where "grantable parse_time (drop_expired t now) m now arm arms"
      "link = granted_link format_time link_id m now arm"
      "reply = grant_reply format_time link_id m now arm" "message_valid parse_time reply"
      by (auto simp: decide_attach_Accept_iff)
    with Inr AD_Accept show thesis by (intro accept [of arm]) (simp_all add: admit_attach_def)
  next
    case (AD_Replay reply session)
    from Inr decide_attach_Replay [OF Inr [unfolded AD_Replay]] show thesis
      by (intro replay [of reply]) (simp_all add: admit_attach_def AD_Replay)
  next
    case (AD_Reject m' reply)
    from decide_attach_Reject [OF Inr [unfolded AD_Reject]] obtain code
      where "m' = m" "reply = AttachRejected SCHEMA (aw_request_id m) code (format_time now)"
        "is_attach m" "message_valid parse_time m" "message_valid parse_time reply"
        "bt_get (lt_history t) (aw_request_id m) = None" "bt_len (lt_history t) < HISTORY_CAP"
      by auto
    with Inr show thesis by (intro reject [of code]) (simp_all add: admit_attach_def AD_Reject)
  qed
qed

lemma admit_attach_known:
  assumes "is_attach m" "message_valid parse_time m"
    and "bt_get (lt_history t) (aw_request_id m) = Some rec"
  shows "snd (admit_attach parse_time format_time link_id t m now arms) =
    (if rr_request rec = m then Inr (rr_reply rec) else Inl (WL_Semantic ''request_id conflict''))"
  using decide_attach_known [of m parse_time "drop_expired t now" rec format_time link_id now arms]
    assms
  by (auto simp: admit_attach_def split: sum.splits)

lemma link_recorded_None [simp]: "link_recorded t k = None \<longleftrightarrow> bt_get (lt_history t) k = None"
  by (simp add: link_recorded_def)

lemma link_recorded_drop [simp]:
  "link_recorded (drop_current t) k = link_recorded t k"
  "link_recorded (drop_session t session) k = link_recorded t k"
  "link_recorded (drop_expired t now) k = link_recorded t k"
  by (simp_all add: link_recorded_def)

lemma admit_attach_keeps:
  assumes "link_recorded t k = Some x"
  shows "link_recorded (fst (admit_attach parse_time format_time link_id t m now arms)) k = Some x"
  by (rule admit_attach_cases [of parse_time format_time link_id t m now arms])
    (use assms in \<open>auto simp: link_recorded_def commit_reject_simps grantable_def granted_link_def
      tree_simps\<close>)

lemma admit_attach_recorded:
  assumes "snd (admit_attach parse_time format_time link_id t m now arms) = Inr reply"
  shows "is_attach m \<and> message_valid parse_time m \<and>
    link_recorded (fst (admit_attach parse_time format_time link_id t m now arms)) (aw_request_id m)
      = Some (m, reply)"
  by (rule admit_attach_cases [of parse_time format_time link_id t m now arms])
    (use assms in \<open>auto simp: link_recorded_def commit_reject_simps grantable_def granted_link_def\<close>)

lemma admit_attach_bounded:
  assumes "bt_len (lt_history t) \<le> HISTORY_CAP"
  shows "bt_len (lt_history (fst (admit_attach parse_time format_time link_id t m now arms)))
    \<le> HISTORY_CAP"
  by (rule admit_attach_cases [of parse_time format_time link_id t m now arms])
    (use assms in \<open>auto simp: commit_reject_simps grantable_def granted_link_def bt_len_insert\<close>)

interpretation links: request_log "link_advance parse_time format_time"
  "link_answer parse_time format_time" link_request "message_valid parse_time" link_recorded
  "\<lambda>t :: LinkTable. bt_len (lt_history t)" "WL_Semantic ''request_id conflict''" HISTORY_CAP
  for parse_time format_time
proof
  fix op k r and s :: LinkTable and r' a
  assume "link_request op = Some (k, r)" "message_valid parse_time r" "link_recorded s k = Some (r', a)"
  then show "link_answer parse_time format_time s op =
      (if r' = r then Inr a else Inl (WL_Semantic ''request_id conflict''))"
    by (cases op) (auto simp: link_recorded_def admit_attach_known split: if_splits)
next
  fix s :: LinkTable and k x op
  assume "link_recorded s k = Some x"
  then show "link_recorded (link_advance parse_time format_time s op) k = Some x"
    by (cases op) (simp_all add: admit_attach_keeps)
next
  fix op k r and s :: LinkTable and a
  assume "link_request op = Some (k, r)" "link_answer parse_time format_time s op = Inr a"
  then show "link_recorded (link_advance parse_time format_time s op) k = Some (r, a)"
    and "message_valid parse_time r"
    by (cases op; simp split: if_splits; blast dest: admit_attach_recorded)+
next
  fix s :: LinkTable and op
  assume "bt_len (lt_history s) \<le> HISTORY_CAP"
  then show "bt_len (lt_history (link_advance parse_time format_time s op)) \<le> HISTORY_CAP"
    by (cases op) (simp_all add: admit_attach_bounded)
qed

text \<open>
  One answer per attach request. Once an attach under some \<open>request_id\<close> was answered,
  whatever attaches, expiries, transport losses and re-arms follow, the same request is given the
  same reply, and a different body under that id is refused as a conflict, at any later time and
  for any arms.
\<close>

theorem attach_answer_stable:
  assumes "admit_attach parse_time format_time link_id t m now arms = (t', Inr reply)"
    and "is_attach m'" and "message_valid parse_time m'" and "aw_request_id m' = aw_request_id m"
  shows "snd (admit_attach parse_time format_time link_id' (link_run parse_time format_time t' ops)
      m' now' arms') =
    (if m' = m then Inr reply else Inl (WL_Semantic ''request_id conflict''))"
proof -
  from assms(1) admit_attach_recorded [of parse_time format_time link_id t m now arms reply]
  have "is_attach m" by simp
  with links.stable_answer [of "OpAttach link_id m now arms" "aw_request_id m" m parse_time
      format_time t reply "OpAttach link_id' m' now' arms'" m' ops] assms
  show ?thesis by (simp add: links.run_def)
qed

section \<open>The table invariant\<close>

text \<open>
  The history is keyed by the request it holds and every reply in it is one the codec would
  send; the current link is the one its own request was granted, with a reply that names it.
\<close>

definition record_ok :: "(string \<Rightarrow> instant option) \<Rightarrow> string \<Rightarrow> RequestRecord \<Rightarrow> bool" where
  "record_ok parse_time k rec \<longleftrightarrow>
     is_attach (rr_request rec) \<and> aw_request_id (rr_request rec) = k
     \<and> message_valid parse_time (rr_request rec) \<and> message_valid parse_time (rr_reply rec)
     \<and> (case rr_reply rec of
          AttachAccepted _ k' _ arm_id generation route _ _ \<Rightarrow>
            k' = k \<and> arm_id = aw_arm_id (rr_request rec) \<and> generation = aw_generation (rr_request rec)
            \<and> route = aw_route (rr_request rec)
        | AttachRejected _ k' _ _ \<Rightarrow> k' = k
        | _ \<Rightarrow> False)"

definition current_ok :: "LinkTable \<Rightarrow> AdmittedLink \<Rightarrow> bool" where
  "current_ok t link \<longleftrightarrow>
     bt_get (lt_history t) (al_request_id link) =
       Some \<lparr>rr_request = al_request link, rr_reply = al_last_accepted link\<rparr>
     \<and> (case al_last_accepted link of
          AttachAccepted _ _ link_id arm_id generation route _ _ \<Rightarrow>
            link_id = al_link_id link \<and> arm_id = al_arm_id link
            \<and> generation = al_generation link \<and> route = al_route link
        | _ \<Rightarrow> False)"

definition link_table_ok :: "(string \<Rightarrow> instant option) \<Rightarrow> LinkTable \<Rightarrow> bool" where
  "link_table_ok parse_time t \<longleftrightarrow>
     bt_len (lt_history t) \<le> HISTORY_CAP
     \<and> (\<forall>k rec. bt_get (lt_history t) k = Some rec \<longrightarrow> record_ok parse_time k rec)
     \<and> (\<forall>link. lt_current t = Some link \<longrightarrow> current_ok t link)"

lemma link_table_ok_drop:
  "link_table_ok parse_time t \<Longrightarrow> link_table_ok parse_time (drop_current t)"
  "link_table_ok parse_time t \<Longrightarrow> link_table_ok parse_time (drop_session t session)"
  "link_table_ok parse_time t \<Longrightarrow> link_table_ok parse_time (drop_expired t now)"
  using drop_current_cases (2) [of t session] drop_current_cases (3) [of t now]
  by (auto simp: link_table_ok_def current_ok_def drop_current_cases (1))

lemma link_table_ok_commit_attach:
  assumes "link_table_ok parse_time t" and "grantable parse_time t m now arm arms"
    and "message_valid parse_time (grant_reply format_time link_id m now arm)"
  shows "link_table_ok parse_time (commit_attach t (granted_link format_time link_id m now arm))"
  using assms
  by (auto simp: link_table_ok_def current_ok_def record_ok_def grantable_def granted_link_def
      grant_reply_def bt_len_insert tree_simps split: if_splits)

lemma link_table_ok_commit_reject:
  assumes "link_table_ok parse_time t" and "is_attach m" and "message_valid parse_time m"
    and "message_valid parse_time (AttachRejected SCHEMA (aw_request_id m) code obs)"
    and "bt_get (lt_history t) (aw_request_id m) = None" and "bt_len (lt_history t) < HISTORY_CAP"
  shows "link_table_ok parse_time
    (commit_reject t m (AttachRejected SCHEMA (aw_request_id m) code obs))"
proof -
  have "al_request_id link \<noteq> aw_request_id m" if "lt_current t = Some link" for link
    using that assms(1,5) by (auto simp: link_table_ok_def current_ok_def)
  with assms show ?thesis
    by (auto simp: link_table_ok_def current_ok_def record_ok_def commit_reject_simps
        bt_len_insert tree_simps split: if_splits)
qed

lemma link_table_ok_advance:
  assumes "link_table_ok parse_time t"
  shows "link_table_ok parse_time (link_advance parse_time format_time t op)"
proof (cases op)
  case (OpAttach link_id m now arms)
  have "link_table_ok parse_time (drop_expired t now)" using assms by (rule link_table_ok_drop)
  then show ?thesis
    by (rule_tac admit_attach_cases [of parse_time format_time link_id t m now arms])
      (simp_all add: OpAttach link_table_ok_commit_attach link_table_ok_commit_reject)
qed (simp_all add: assms link_table_ok_drop)

text \<open>
  C3: the table of a running daemon. After any operations on a new table, every recorded reply is
  a message the encoder accepts and answers its own request, the current link is the one its
  request was granted, and at most 1024 requests are remembered.
\<close>

theorem link_table_invariant:
  "link_table_ok parse_time (link_run parse_time format_time link_table_default ops)"
proof -
  have "link_table_ok parse_time t \<Longrightarrow> link_table_ok parse_time (link_run parse_time format_time t ops)"
    for t
    by (induction ops arbitrary: t) (simp_all add: link_table_ok_advance)
  moreover have "link_table_ok parse_time link_table_default"
    by (simp add: link_table_ok_def link_table_default_def bt_len_empty)
  ultimately show ?thesis by blast
qed

section \<open>Granting and holding a lease\<close>

text \<open>
  What the development relies on of the \<open>time\<close> crate: an instant from 1970 on, printed in
  RFC 3339, is read back as the same instant.
\<close>

definition time_faithful :: "(string \<Rightarrow> instant option) \<Rightarrow> (instant \<Rightarrow> string) \<Rightarrow> bool" where
  "time_faithful parse_time format_time \<longleftrightarrow> (\<forall>t \<ge> 0. parse_time (format_time t) = Some t)"

lemma grant_reply_valid:
  assumes "time_faithful parse_time format_time" "0 \<le> now" "is_ulid link_id"
    and "grantable parse_time t m now arm arms"
  shows "message_valid parse_time (grant_reply format_time link_id m now arm)"
  using assms
  by (cases m) (auto simp: grantable_def grant_reply_def granted_lease_def time_faithful_def)

definition is_accept :: "WaiterLink \<Rightarrow> bool" where
  "is_accept m = (case m of AttachAccepted _ _ _ _ _ _ _ _ \<Rightarrow> True | _ \<Rightarrow> False)"

lemma is_accept_simps [simp]:
  "is_accept (grant_reply format_time link_id m now arm)"
  "\<not> is_accept (AttachRejected s k code obs)"
  by (simp_all add: is_accept_def grant_reply_def)

lemma lt_current_commit_reject [simp]: "lt_current (commit_reject t m reply) = lt_current t"
  by (rule commit_reject_simps)

text \<open>
  Who is granted a link, and for how long. A request with an unseen id is accepted exactly
  when it is valid, the history has room, the arm it names is known with that generation, seat
  and route and is still covered, and no unexpired link is current. Then the link becomes
  current under the fresh id, with a lease that lies in the future, at most ten minutes ahead
  and never past the arm's coverage; otherwise the current link is left as it was.
\<close>

theorem attach_granted_iff:
  assumes "time_faithful parse_time format_time" "0 \<le> now" "is_ulid link_id"
    and "bt_get (lt_history t) (aw_request_id m) = None"
    and "admit_attach parse_time format_time link_id t m now arms = (t', r)"
  shows "if \<exists>arm. grantable parse_time (drop_expired t now) m now arm arms
    then \<exists>arm link. grantable parse_time (drop_expired t now) m now arm arms
      \<and> lt_current t' = Some link \<and> r = Inr (al_last_accepted link) \<and> is_accept (al_last_accepted link)
      \<and> al_request link = m \<and> al_link_id link = link_id
      \<and> now < al_lease_until link \<and> al_lease_until link \<le> now + minutes 10
      \<and> al_lease_until link \<le> ka_coverage_until arm
    else lt_current t' = lt_current (drop_expired t now) \<and> (\<forall>reply. r = Inr reply \<longrightarrow> \<not> is_accept reply)"
proof (cases "\<exists>arm. grantable parse_time (drop_expired t now) m now arm arms")
  case True
  then obtain arm where g: "grantable parse_time (drop_expired t now) m now arm arms" ..
  let ?link = "granted_link format_time link_id m now arm"
  have "decide_attach parse_time format_time link_id (drop_expired t now) m now arms
      = Inr (AD_Accept ?link (grant_reply format_time link_id m now arm))"
    using g grant_reply_valid [OF assms(1-3) g] by (auto simp: decide_attach_Accept_iff)
  then have "t' = commit_attach (drop_expired t now) ?link" "r = Inr (al_last_accepted ?link)"
    using assms(5) by (simp_all add: admit_attach_def granted_link_def)
  with g show ?thesis
    by (auto simp: granted_link_def granted_lease_def grantable_def intro!: exI [of _ arm])
next
  case False
  with assms(4,5) show ?thesis
    by (rule_tac admit_attach_cases [of parse_time format_time link_id t m now arms]) auto
qed

definition undisturbing :: "AdmittedLink \<Rightarrow> LinkOp \<Rightarrow> bool" where
  "undisturbing link op =
     (case op of
        OpAttach _ _ now _ \<Rightarrow> now < al_lease_until link
      | OpDropExpired now \<Rightarrow> now < al_lease_until link
      | OpDropSession session \<Rightarrow> \<not> session_owns session link
      | OpDropCurrent \<Rightarrow> False)"

lemma drop_expired_before: "lt_current t = Some link \<Longrightarrow> now < al_lease_until link \<Longrightarrow> drop_expired t now = t"
  by (simp add: drop_expired_def)

lemma admit_attach_occupied:
  assumes "lt_current t = Some link" and "now < al_lease_until link"
  shows "lt_current (fst (admit_attach parse_time format_time link_id t m now arms)) = Some link"
  using assms
  by (rule_tac admit_attach_cases [of parse_time format_time link_id t m now arms])
    (auto simp: drop_expired_before grantable_def)

lemma advance_undisturbed:
  "lt_current t = Some link \<Longrightarrow> undisturbing link op \<Longrightarrow>
    lt_current (link_advance parse_time format_time t op) = Some link"
  by (cases op)
    (simp_all add: undisturbing_def admit_attach_occupied drop_expired_before drop_session_def)

lemma run_undisturbed:
  "lt_current t = Some link \<Longrightarrow> list_all (undisturbing link) ops \<Longrightarrow>
    lt_current (link_run parse_time format_time t ops) = Some link"
  by (induction ops arbitrary: t) (simp_all add: advance_undisturbed)

text \<open>
  One waiter at a time. While a link's lease runs, nothing but its own session's loss or an
  explicit drop takes it away: other attaches, expiry sweeps and the loss of other sessions
  leave it current, and an accepting reply given meanwhile is only ever the replay of an earlier
  acceptance.
\<close>

theorem attach_lease_exclusive:
  assumes "lt_current t = Some link"
    and "list_all (undisturbing link) ops" and "now < al_lease_until link"
    and "admit_attach parse_time format_time link_id (link_run parse_time format_time t ops) m now arms
      = (t', Inr reply)"
    and "is_accept reply"
  shows "lt_current t' = Some link
    \<and> link_recorded (link_run parse_time format_time t ops) (aw_request_id m) = Some (m, reply)"
proof -
  let ?t = "link_run parse_time format_time t ops"
  have c: "lt_current ?t = Some link" using assms(1,2) by (rule run_undisturbed)
  with assms(3-5) show ?thesis
    by (rule_tac admit_attach_cases [of parse_time format_time link_id ?t m now arms])
      (auto simp: drop_expired_before grantable_def link_recorded_def)
qed

section \<open>Witnesses\<close>

text \<open>
  A clock whose instants are printed in unary, an arm covered for five nanoseconds, and the
  requests of two waiters for it.
\<close>

definition unary_parse :: "string \<Rightarrow> instant option" where
  "unary_parse s = Some (int (length s))"

definition unary_format :: "instant \<Rightarrow> string" where
  "unary_format t = replicate (nat t) (CHR ''x'')"

lemma unary_faithful: "time_faithful unary_parse unary_format"
  by (simp add: time_faithful_def unary_parse_def unary_format_def)

definition sample_ulid :: "char \<Rightarrow> string" where
  "sample_ulid c = replicate 25 (CHR ''0'') @ [c]"

definition sample_arm :: KnownArm where
  "sample_arm = \<lparr>ka_arm_id = sample_ulid (CHR ''A''), ka_generation = 1, ka_seat_id = ''seat'',
     ka_route = ''return_foreground'', ka_coverage_until = 5\<rparr>"

definition sample_attach :: "char \<Rightarrow> WaiterLink" where
  "sample_attach c = AttachWaiter SCHEMA (sample_ulid c) (sample_ulid (CHR ''W''))
     (sample_ulid (CHR ''A'')) 1 ''seat'' ''return_foreground'' ''x''"

definition sample_table :: LinkTable where
  "sample_table = fst (admit_attach unary_parse unary_format (sample_ulid (CHR ''9'')) link_table_default
     (sample_attach (CHR ''1'')) 0 [sample_arm])"

lemma sample_admitted:
  "admit_attach unary_parse unary_format (sample_ulid (CHR ''9'')) link_table_default
     (sample_attach (CHR ''1'')) 0 [sample_arm] =
   (sample_table, Inr (grant_reply unary_format (sample_ulid (CHR ''9'')) (sample_attach (CHR ''1'')) 0
      sample_arm))"
  by code_simp

definition sample_link :: AdmittedLink where
  "sample_link = granted_link unary_format (sample_ulid (CHR ''9'')) (sample_attach (CHR ''1'')) 0 sample_arm"

lemma sample_facts:
  "lt_current sample_table = Some sample_link"
  "is_attach (sample_attach (CHR ''1''))"
  "message_valid unary_parse (sample_attach (CHR ''1''))"
  "is_ulid (sample_ulid (CHR ''9''))"
  "al_lease_until sample_link = 5"
  by code_simp+

lemma attach_answer_stable_witness:
  "snd (admit_attach unary_parse unary_format (sample_ulid (CHR ''8''))
      (link_run unary_parse unary_format sample_table [OpDropCurrent])
      (sample_attach (CHR ''1'')) 3 [sample_arm]) =
    Inr (grant_reply unary_format (sample_ulid (CHR ''9'')) (sample_attach (CHR ''1'')) 0 sample_arm)"
  using attach_answer_stable [OF sample_admitted sample_facts(2,3) refl,
      of "sample_ulid (CHR ''8'')" "[OpDropCurrent]" 3 "[sample_arm]"]
  by simp

lemma attach_granted_iff_witness:
  "\<exists>link. lt_current sample_table = Some link \<and> al_request link = sample_attach (CHR ''1'')
    \<and> 0 < al_lease_until link \<and> al_lease_until link \<le> minutes 10"
proof -
  have "grantable unary_parse (drop_expired link_table_default 0) (sample_attach (CHR ''1'')) 0 sample_arm
      [sample_arm]"
    by code_simp
  then show ?thesis
    using attach_granted_iff [OF unary_faithful order_refl sample_facts(4) _ sample_admitted]
    by (auto simp: link_table_default_def split: if_splits)
qed

lemma attach_lease_exclusive_witness:
  "\<exists>t'. admit_attach unary_parse unary_format (sample_ulid (CHR ''8''))
      (link_run unary_parse unary_format sample_table
        [OpAttach (sample_ulid (CHR ''7'')) (sample_attach (CHR ''2'')) 1 [sample_arm]])
      (sample_attach (CHR ''1'')) 2 [sample_arm] = (t', Inr (al_last_accepted sample_link))
    \<and> lt_current t' = Some sample_link"
proof -
  let ?ops = "[OpAttach (sample_ulid (CHR ''7'')) (sample_attach (CHR ''2'')) 1 [sample_arm]]"
  let ?a = "admit_attach unary_parse unary_format (sample_ulid (CHR ''8''))
      (link_run unary_parse unary_format sample_table ?ops) (sample_attach (CHR ''1'')) 2 [sample_arm]"
  have "list_all (undisturbing sample_link) ?ops"
    by (simp add: undisturbing_def sample_facts(5))
  moreover have "2 < al_lease_until sample_link" by (simp add: sample_facts(5))
  moreover have a: "?a = (fst ?a, Inr (al_last_accepted sample_link))" by code_simp
  moreover have "is_accept (al_last_accepted sample_link)" by code_simp
  ultimately have "lt_current (fst ?a) = Some sample_link"
    using attach_lease_exclusive [OF sample_facts(1)] by blast
  with a show ?thesis by blast
qed

end
