(* ===== verification/Ack.thy ===== *)
theory Ack
  imports Admit Handled
begin

text \<open>
  Handled-cursor acknowledgement, \<open>gearwit-host/src/ack.rs\<close>: which event references of a signal
  were delivered, which of them the seat has acknowledged, and the generation bump that follows
  the first accepted acknowledgement. \<open>parse_time\<close> and \<open>format_time\<close> stand for the \<open>time\<close> crate.
\<close>

section \<open>State\<close>

record HistoryEntry =
  he_request :: HandledCursor
  he_reply :: HandledCursor

record SignalBatch =
  sb_arm_id :: string
  sb_generation :: u64
  sb_delivered :: "string list"
  sb_drain_snapshot :: "string list"
  sb_after_bound :: "string list"
  sb_handled :: "string option"
  sb_require_return_completed :: bool
  sb_return_completed :: bool
  sb_closed :: bool

record AckStore =
  as_arm :: "KnownArm option"
  as_signals :: "(string, SignalBatch) btree"
  as_history :: "(string, HistoryEntry) btree"

definition with_arm :: "KnownArm \<Rightarrow> AckStore" where
  "with_arm arm = \<lparr>as_arm = Some arm, as_signals = bt_empty, as_history = bt_empty\<rparr>"

section \<open>Delivery\<close>

text \<open>Inserting every reference into a \<open>BTreeSet\<close>, stopping at the first that is present.\<close>

fun insert_fresh :: "string bset \<Rightarrow> string list \<Rightarrow> bool" where
  "insert_fresh seen [] = True"
| "insert_fresh seen (r # rs) =
     (case bs_insert r seen of (seen', fresh) \<Rightarrow> fresh \<and> insert_fresh seen' rs)"

definition validate_leading_prefix :: "string list \<Rightarrow> string list \<Rightarrow> HandledCursorError + unit" where
  "validate_leading_prefix delivered drain_snapshot =
     (if \<not> insert_fresh bt_empty drain_snapshot then Inl (HE_Semantic ''duplicate drain ref'')
      else if \<not> insert_fresh bt_empty delivered then Inl (HE_Semantic ''duplicate event_ref'')
      else if length drain_snapshot < length delivered
          \<or> take (length delivered) drain_snapshot \<noteq> delivered
        then Inl (HE_Semantic ''delivered not leading prefix'')
      else Inr ())"

definition open_signal :: "AckStore \<Rightarrow> KnownArm \<Rightarrow> (string \<times> SignalBatch) option" where
  "open_signal s arm =
     List.find (\<lambda>(_, batch). sb_generation batch = ka_generation arm \<and> \<not> sb_closed batch)
       (bt_entries (as_signals s))"

definition note_delivered ::
  "AckStore \<Rightarrow> string \<Rightarrow> string list \<Rightarrow> string list \<Rightarrow> AckStore \<times> (HandledCursorError + unit)" where
  "note_delivered s signal_id delivered drain_snapshot =
     (case as_arm s of
        None \<Rightarrow> (s, Inl (HE_Semantic ''unknown_arm''))
      | Some arm \<Rightarrow>
          if delivered = [] then (s, Inl (HE_Semantic ''empty delivery''))
          else (case validate_leading_prefix delivered drain_snapshot of
            Inl e \<Rightarrow> (s, Inl e)
          | Inr _ \<Rightarrow>
              let after_bound = drop (length delivered) drain_snapshot in
              if (case open_signal s arm of None \<Rightarrow> False | Some (open_id, _) \<Rightarrow> open_id \<noteq> signal_id)
              then (s, Inl (HE_Semantic ''signal conflict''))
              else (case bt_get (as_signals s) signal_id of
                Some existing \<Rightarrow>
                  let same_authority = sb_arm_id existing = ka_arm_id arm
                        \<and> sb_generation existing = ka_generation arm in
                  if same_authority \<and> sb_delivered existing = [] \<and> \<not> sb_closed existing
                    \<and> sb_handled existing = None
                  then (s\<lparr>as_signals := bt_insert signal_id
                          (existing\<lparr>sb_delivered := delivered, sb_drain_snapshot := drain_snapshot,
                             sb_after_bound := after_bound\<rparr>) (as_signals s)\<rparr>, Inr ())
                  else if same_authority \<and> sb_delivered existing = delivered
                    \<and> sb_drain_snapshot existing = drain_snapshot
                  then (s, Inr ())
                  else (s, Inl (HE_Semantic ''signal conflict''))
              | None \<Rightarrow>
                  (s\<lparr>as_signals := bt_insert signal_id
                     \<lparr>sb_arm_id = ka_arm_id arm, sb_generation = ka_generation arm,
                      sb_delivered = delivered, sb_drain_snapshot = drain_snapshot,
                      sb_after_bound = after_bound, sb_handled = None,
                      sb_require_return_completed = False, sb_return_completed = False,
                      sb_closed = False\<rparr> (as_signals s)\<rparr>, Inr ()))))"

definition note_claimed :: "AckStore \<Rightarrow> string \<Rightarrow> AckStore \<times> (HandledCursorError + unit)" where
  "note_claimed s signal_id =
     (case as_arm s of
        None \<Rightarrow> (s, Inl (HE_Semantic ''unknown_arm''))
      | Some arm \<Rightarrow>
          if (case open_signal s arm of None \<Rightarrow> False | Some (open_id, _) \<Rightarrow> open_id \<noteq> signal_id)
          then (s, Inl (HE_Semantic ''signal conflict''))
          else (case bt_get (as_signals s) signal_id of
            Some existing \<Rightarrow>
              if sb_arm_id existing = ka_arm_id arm \<and> sb_generation existing = ka_generation arm
                \<and> sb_delivered existing = [] \<and> \<not> sb_closed existing
              then (s, Inr ())
              else (s, Inl (HE_Semantic ''signal conflict''))
          | None \<Rightarrow>
              (s\<lparr>as_signals := bt_insert signal_id
                 \<lparr>sb_arm_id = ka_arm_id arm, sb_generation = ka_generation arm,
                  sb_delivered = [], sb_drain_snapshot = [], sb_after_bound = [],
                  sb_handled = None, sb_require_return_completed = False,
                  sb_return_completed = False, sb_closed = False\<rparr> (as_signals s)\<rparr>, Inr ())))"

definition require_return_completed_before_handled ::
  "AckStore \<Rightarrow> string \<Rightarrow> AckStore \<times> (HandledCursorError + unit)" where
  "require_return_completed_before_handled s signal_id =
     (case bt_get (as_signals s) signal_id of
        None \<Rightarrow> (s, Inl (HE_Semantic ''unknown_signal''))
      | Some batch \<Rightarrow>
          if sb_closed batch \<or> sb_handled batch \<noteq> None
          then (s, Inl (HE_Semantic ''stale_generation''))
          else (s\<lparr>as_signals := bt_insert signal_id (batch\<lparr>sb_require_return_completed := True\<rparr>)
                  (as_signals s)\<rparr>, Inr ()))"

definition note_return_completed :: "AckStore \<Rightarrow> string \<Rightarrow> AckStore \<times> (HandledCursorError + unit)" where
  "note_return_completed s signal_id =
     (case bt_get (as_signals s) signal_id of
        None \<Rightarrow> (s, Inl (HE_Semantic ''unknown_signal''))
      | Some batch \<Rightarrow>
          if sb_delivered batch = [] then (s, Inl (HE_Semantic ''ack_before_delivery''))
          else if sb_require_return_completed batch
          then (s\<lparr>as_signals := bt_insert signal_id (batch\<lparr>sb_return_completed := True\<rparr>)
                  (as_signals s)\<rparr>, Inr ())
          else (s, Inr ()))"

definition requires_return_completed_before_handled :: "AckStore \<Rightarrow> string \<Rightarrow> bool" where
  "requires_return_completed_before_handled s signal_id =
     (case bt_get (as_signals s) signal_id of
        None \<Rightarrow> False
      | Some batch \<Rightarrow> sb_require_return_completed batch \<and> \<not> sb_return_completed batch)"

section \<open>Acknowledgement\<close>

text \<open>\<open>observed\<close> is the formatted time of the call.\<close>

definition decide_handled :: "AckStore \<Rightarrow> HandledCursor \<Rightarrow> string \<Rightarrow> AckStore \<times> HandledCursor" where
  "decide_handled s request observed =
     (case request of
       HC_Request _ request_id arm_id generation seat_id signal_id cursor _ \<Rightarrow>
         let rejected = (\<lambda>code. (s, HC_Rejected HANDLED_SCHEMA request_id code observed)) in
         (case as_arm s of
            None \<Rightarrow> rejected ''unknown_arm''
          | Some arm \<Rightarrow>
              if ka_arm_id arm \<noteq> arm_id then rejected ''unknown_arm''
              else if ka_seat_id arm \<noteq> seat_id then rejected ''seat_mismatch''
              else if generation \<noteq> ka_generation arm then rejected ''stale_generation''
              else (case bt_get (as_signals s) signal_id of
                None \<Rightarrow> rejected ''unknown_signal''
              | Some batch \<Rightarrow>
                  if sb_closed batch \<or> sb_generation batch \<noteq> ka_generation arm
                  then rejected ''stale_generation''
                  else if sb_delivered batch = [] then rejected ''ack_before_delivery''
                  else if sb_require_return_completed batch \<and> \<not> sb_return_completed batch
                  then rejected ''ack_before_delivery''
                  else if cursor \<in> set (sb_after_bound batch)
                  then rejected ''cursor_beyond_delivered''
                  else (case position cursor (sb_delivered batch) of
                    None \<Rightarrow> rejected ''cursor_not_member''
                  | Some at \<Rightarrow>
                      if (case sb_handled batch of
                            None \<Rightarrow> False
                          | Some handled \<Rightarrow>
                              (case position handled (sb_delivered batch) of
                                 None \<Rightarrow> False | Some index \<Rightarrow> at < index))
                      then rejected ''stale_cursor''
                      else (s\<lparr>as_signals := bt_insert signal_id (batch\<lparr>sb_handled := Some cursor\<rparr>)
                                (as_signals s)\<rparr>,
                            HC_Accepted HANDLED_SCHEMA request_id arm_id generation signal_id cursor
                              observed))))
     | _ \<Rightarrow> (s, HC_Rejected HANDLED_SCHEMA ''01J00000000000000000000000'' ''unknown_arm'' observed))"

definition record_handled ::
  "(string \<Rightarrow> instant option) \<Rightarrow> (instant \<Rightarrow> string) \<Rightarrow> AckStore \<Rightarrow> HandledCursor \<Rightarrow> instant
    \<Rightarrow> AckStore \<times> (HandledCursorError + HandledCursor)" where
  "record_handled parse_time format_time s request now =
     (case validate_handled parse_time request of
        Inl e \<Rightarrow> (s, Inl e)
      | Inr _ \<Rightarrow>
          (case request of
             HC_Request _ request_id _ _ _ _ _ _ \<Rightarrow>
               (case bt_get (as_history s) request_id of
                  Some existing \<Rightarrow>
                    if he_request existing = request then (s, Inr (he_reply existing))
                    else (s, Inl (HE_Semantic ''request_id conflict''))
                | None \<Rightarrow>
                    if bt_len (as_history s) \<ge> HISTORY_CAP
                    then (s, Inl (HE_Semantic ''request history full''))
                    else (case decide_handled s request (format_time now) of
                      (s, reply) \<Rightarrow>
                        (s\<lparr>as_history := bt_insert request_id
                             \<lparr>he_request = request, he_reply = reply\<rparr> (as_history s)\<rparr>,
                         Inr reply)))
           | _ \<Rightarrow> (s, Inl (HE_Semantic ''expected request''))))"

definition rearm_from_handled :: "AckStore \<Rightarrow> string \<Rightarrow> AckStore \<times> (HandledCursorError + string)" where
  "rearm_from_handled s signal_id =
     (case as_arm s of
        None \<Rightarrow> (s, Inl (HE_Semantic ''unknown_arm''))
      | Some arm \<Rightarrow>
          (case bt_get (as_signals s) signal_id of
             None \<Rightarrow> (s, Inl (HE_Semantic ''unknown_signal''))
           | Some batch \<Rightarrow>
               if sb_generation batch \<noteq> ka_generation arm
               then (s, Inl (HE_Semantic ''stale_generation''))
               else (case sb_handled batch of
                 None \<Rightarrow> (s, Inl (HE_Semantic ''ack_before_delivery''))
               | Some cursor \<Rightarrow>
                   if sb_closed batch then (s, Inl (HE_Semantic ''stale_generation''))
                   else (case checked_add (ka_generation arm) 1 of
                     None \<Rightarrow> (s, Inl (HE_Semantic ''generation overflow''))
                   | Some next \<Rightarrow>
                       (s\<lparr>as_signals := bt_insert signal_id (batch\<lparr>sb_closed := True\<rparr>) (as_signals s),
                          as_arm := Some (arm\<lparr>ka_generation := next\<rparr>)\<rparr>,
                        Inr cursor)))))"

record AckRearm =
  ar_after :: string
  ar_generation :: u64
  ar_signal_id :: string

record HandledServe =
  hs_reply :: HandledCursor
  hs_rearm :: "AckRearm option"

definition apply_handled_request ::
  "(string \<Rightarrow> instant option) \<Rightarrow> (instant \<Rightarrow> string) \<Rightarrow> AckStore \<Rightarrow> HandledCursor \<Rightarrow> instant
    \<Rightarrow> AckStore \<times> (HandledCursorError + HandledServe)" where
  "apply_handled_request parse_time format_time s request now =
     (case record_handled parse_time format_time s request now of
        (s, Inl e) \<Rightarrow> (s, Inl e)
      | (s, Inr reply) \<Rightarrow>
          (case reply of
             HC_Accepted _ _ _ _ signal_id cursor _ \<Rightarrow>
               (case rearm_from_handled s signal_id of
                  (s, Inr _) \<Rightarrow>
                    (case as_arm s of
                       None \<Rightarrow> (s, Inl (HE_Semantic ''unknown_arm''))
                     | Some arm \<Rightarrow>
                         (s, Inr \<lparr>hs_reply = reply, hs_rearm = Some \<lparr>ar_after = cursor,
                            ar_generation = ka_generation arm, ar_signal_id = signal_id\<rparr>\<rparr>))
                | (s, Inl e) \<Rightarrow>
                    if e = HE_Semantic ''stale_generation''
                    then (s, Inr \<lparr>hs_reply = reply, hs_rearm = None\<rparr>)
                    else (s, Inl e))
           | _ \<Rightarrow> (s, Inr \<lparr>hs_reply = reply, hs_rearm = None\<rparr>)))"

section \<open>Basic facts\<close>

lemma insert_fresh_iff: "insert_fresh seen rs \<longleftrightarrow> distinct rs \<and> (\<forall>r \<in> set rs. \<not> bs_member r seen)"
proof (induction rs arbitrary: seen)
  case Nil
  then show ?case by simp
next
  case (Cons r rs)
  show ?case
    by (auto simp: Cons bs_insert_def bs_member_def [symmetric])
qed

lemma validate_leading_prefix_iff [result_simps]:
  "validate_leading_prefix delivered snapshot = Inr u \<longleftrightarrow>
     distinct snapshot \<and> snapshot = delivered @ drop (length delivered) snapshot"
proof -
  have "length delivered \<le> length snapshot \<and> take (length delivered) snapshot = delivered \<longleftrightarrow>
      snapshot = delivered @ drop (length delivered) snapshot"
    by (metis append_eq_conv_conj append_take_drop_id length_append le_add1)
  moreover have "distinct delivered" if "distinct snapshot"
    "take (length delivered) snapshot = delivered"
    using that distinct_take by metis
  ultimately show ?thesis
    by (auto simp: validate_leading_prefix_def insert_fresh_iff)
qed

lemma open_signal_SomeD:
  "open_signal s arm = Some (k, b) \<Longrightarrow>
     bt_get (as_signals s) k = Some b \<and> sb_generation b = ka_generation arm \<and> \<not> sb_closed b"
  by (auto simp: open_signal_def bt.entries_mem_iff dest!: find_SomeD)

lemma open_signal_NoneD:
  "open_signal s arm = None \<Longrightarrow> bt_get (as_signals s) k = Some b \<Longrightarrow>
     sb_generation b = ka_generation arm \<Longrightarrow> sb_closed b"
  by (auto simp: open_signal_def bt.entries_mem_iff [symmetric] dest: find_None_D)

text \<open>What one signal may become: its claim is frozen, its progress only grows.\<close>

definition not_before :: "string list \<Rightarrow> string \<Rightarrow> string \<Rightarrow> bool" where
  "not_before refs c c' \<longleftrightarrow> (\<exists>i j. position c refs = Some i \<and> position c' refs = Some j \<and> i \<le> j)"

lemma not_before_refl [simp]: "not_before refs c c \<longleftrightarrow> c \<in> set refs"
  by (auto simp: not_before_def position_Some_iff_mem [symmetric])

lemma not_before_trans: "not_before refs c c' \<Longrightarrow> not_before refs c' c'' \<Longrightarrow> not_before refs c c''"
  by (auto simp: not_before_def)

lemma not_before_mem: "not_before refs c c' \<Longrightarrow> c \<in> set refs \<and> c' \<in> set refs"
  by (auto simp: not_before_def position_Some_iff_mem [symmetric])

definition batch_le :: "SignalBatch \<Rightarrow> SignalBatch \<Rightarrow> bool" where
  "batch_le b b' \<longleftrightarrow>
     sb_arm_id b' = sb_arm_id b \<and> sb_generation b' = sb_generation b
     \<and> (sb_delivered b \<noteq> [] \<longrightarrow> sb_delivered b' = sb_delivered b
          \<and> sb_drain_snapshot b' = sb_drain_snapshot b \<and> sb_after_bound b' = sb_after_bound b)
     \<and> (\<forall>c. sb_handled b = Some c \<longrightarrow>
          (\<exists>c'. sb_handled b' = Some c' \<and> not_before (sb_delivered b') c c'))
     \<and> (sb_closed b \<longrightarrow> sb_closed b' \<and> sb_handled b' = sb_handled b)
     \<and> (sb_require_return_completed b \<longrightarrow> sb_require_return_completed b')
     \<and> (sb_return_completed b \<longrightarrow> sb_return_completed b')"

text \<open>
  A well-formed signal of an arm: it is closed exactly when its generation is over, the
  delivered references are the leading part of a duplicate-free drain, the handled cursor is
  one of them, a closed signal has one, and a held signal has none before its receipt returned.
\<close>

definition batch_ok :: "KnownArm \<Rightarrow> SignalBatch \<Rightarrow> bool" where
  "batch_ok arm b \<longleftrightarrow>
     sb_arm_id b = ka_arm_id arm \<and> sb_generation b \<le> ka_generation arm
     \<and> (sb_closed b \<longleftrightarrow> sb_generation b < ka_generation arm)
     \<and> distinct (sb_drain_snapshot b) \<and> sb_drain_snapshot b = sb_delivered b @ sb_after_bound b
     \<and> (sb_delivered b = [] \<longrightarrow> sb_drain_snapshot b = [])
     \<and> (\<forall>c. sb_handled b = Some c \<longrightarrow> c \<in> set (sb_delivered b))
     \<and> (sb_closed b \<longrightarrow> sb_handled b \<noteq> None)
     \<and> (sb_handled b \<noteq> None \<and> sb_require_return_completed b \<longrightarrow> sb_return_completed b)"

definition signals_ok :: "KnownArm \<Rightarrow> (string, SignalBatch) btree \<Rightarrow> bool" where
  "signals_ok arm signals \<longleftrightarrow>
     (\<forall>k b. bt_get signals k = Some b \<longrightarrow> batch_ok arm b)
     \<and> (\<forall>k k' b b'. bt_get signals k = Some b \<longrightarrow> bt_get signals k' = Some b' \<longrightarrow>
          sb_generation b = sb_generation b' \<longrightarrow> k = k')"

lemma signals_okD:
  "signals_ok arm signals \<Longrightarrow> bt_get signals k = Some b \<Longrightarrow> batch_ok arm b"
  by (simp add: signals_ok_def)

lemma signals_ok_update:
  assumes "signals_ok arm signals" and "bt_get signals k = Some b"
    and "batch_ok arm b'" and "sb_generation b' = sb_generation b"
  shows "signals_ok arm (bt_insert k b' signals)"
  using assms by (auto simp: signals_ok_def bt_get_insert_eq split: if_splits; metis)

lemma signals_ok_new:
  assumes "signals_ok arm signals" and "batch_ok arm b" and "sb_generation b = ka_generation arm"
    and "\<And>k b. bt_get signals k = Some b \<Longrightarrow> sb_generation b \<noteq> ka_generation arm"
  shows "signals_ok arm (bt_insert k b signals)"
  using assms by (auto simp: signals_ok_def bt_get_insert_eq split: if_splits; metis)

text \<open>Under the invariant the open signal is the only one of the current generation.\<close>

lemma no_current_signal:
  assumes "signals_ok arm (as_signals s)" and "bt_get (as_signals s) k = None"
    and "case open_signal s arm of None \<Rightarrow> True | Some (open_id, _) \<Rightarrow> open_id = k"
    and "bt_get (as_signals s) k' = Some b"
  shows "sb_generation b \<noteq> ka_generation arm"
proof
  assume g: "sb_generation b = ka_generation arm"
  have "\<not> sb_closed b" using signals_okD [OF assms(1,4)] g by (simp add: batch_ok_def)
  with open_signal_NoneD [of s arm k' b] assms(4) g obtain k'' b'' where
    "open_signal s arm = Some (k'', b'')" by fastforce
  with open_signal_SomeD [of s arm k'' b''] assms(2,3) show False by simp
qed

section \<open>What each operation does\<close>

text \<open>
  A store moves in four ways: not at all, by rewriting the batch of one signal, by opening a
  signal when none of the current generation exists, or by closing the open signal and bumping
  the generation. \<open>moves s s'\<close> collects them with the conditions the operations check.
\<close>

definition rewrite_allowed :: "KnownArm \<Rightarrow> SignalBatch \<Rightarrow> SignalBatch \<Rightarrow> bool" where
  "rewrite_allowed arm b b' \<longleftrightarrow> (batch_ok arm b \<longrightarrow> batch_ok arm b' \<and> batch_le b b')"

inductive moves :: "AckStore \<Rightarrow> AckStore \<Rightarrow> bool" where
  same: "moves s s"
| rewrite: "as_arm s = Some arm \<Longrightarrow> bt_get (as_signals s) k = Some b \<Longrightarrow> rewrite_allowed arm b b' \<Longrightarrow>
    moves s (s\<lparr>as_signals := bt_insert k b' (as_signals s)\<rparr>)"
| opened: "as_arm s = Some arm \<Longrightarrow> bt_get (as_signals s) k = None \<Longrightarrow>
    (case open_signal s arm of None \<Rightarrow> True | Some (open_id, _) \<Rightarrow> open_id = k) \<Longrightarrow>
    batch_ok arm b \<Longrightarrow> sb_generation b = ka_generation arm \<Longrightarrow>
    moves s (s\<lparr>as_signals := bt_insert k b (as_signals s)\<rparr>)"
| bumped: "as_arm s = Some arm \<Longrightarrow> bt_get (as_signals s) k = Some b \<Longrightarrow>
    sb_generation b = ka_generation arm \<Longrightarrow> sb_handled b = Some cursor \<Longrightarrow> \<not> sb_closed b \<Longrightarrow>
    checked_add (ka_generation arm) 1 = Some g \<Longrightarrow>
    moves s (s\<lparr>as_signals := bt_insert k (b\<lparr>sb_closed := True\<rparr>) (as_signals s),
               as_arm := Some (arm\<lparr>ka_generation := g\<rparr>)\<rparr>)"

lemma batch_le_refl: "batch_ok arm b \<Longrightarrow> batch_le b b"
  by (auto simp: batch_le_def batch_ok_def)

lemma rewrite_require:
  "sb_handled b = None \<Longrightarrow> rewrite_allowed arm b (b\<lparr>sb_require_return_completed := True\<rparr>)"
  by (auto simp: rewrite_allowed_def batch_ok_def batch_le_def simp del: distinct_append)

lemma rewrite_return: "rewrite_allowed arm b (b\<lparr>sb_return_completed := True\<rparr>)"
  by (auto simp: rewrite_allowed_def batch_ok_def batch_le_def simp del: distinct_append)

lemma rewrite_fill:
  assumes "sb_delivered b = []" "sb_handled b = None" "delivered \<noteq> []"
    and "distinct snapshot" "snapshot = delivered @ drop (length delivered) snapshot"
  shows "rewrite_allowed arm b (b\<lparr>sb_delivered := delivered, sb_drain_snapshot := snapshot,
    sb_after_bound := drop (length delivered) snapshot\<rparr>)"
  using assms by (auto simp: rewrite_allowed_def batch_ok_def batch_le_def simp del: distinct_append)

lemma moves_note_delivered: "moves s (fst (note_delivered s k delivered snapshot))"
proof (cases "as_arm s")
  case None
  then show ?thesis by (simp add: note_delivered_def moves.same)
next
  case (Some arm)
  show ?thesis
  proof (cases "delivered = [] \<or> \<not> is_ok (validate_leading_prefix delivered snapshot)
      \<or> (case open_signal s arm of None \<Rightarrow> False | Some (open_id, _) \<Rightarrow> open_id \<noteq> k)")
    case True
    then show ?thesis
      by (auto simp: note_delivered_def Some moves.same split: sum.splits)
  next
    case False
    then have d: "delivered \<noteq> []" and v: "validate_leading_prefix delivered snapshot = Inr ()"
      and o: "case open_signal s arm of None \<Rightarrow> True | Some (open_id, _) \<Rightarrow> open_id = k"
      by (auto simp: is_ok_iff split: option.splits)
    from v have p: "distinct snapshot" "snapshot = delivered @ drop (length delivered) snapshot"
      by (simp_all add: result_simps)
    show ?thesis
    proof (cases "bt_get (as_signals s) k")
      case None
      have "moves s (s\<lparr>as_signals := bt_insert k
          \<lparr>sb_arm_id = ka_arm_id arm, sb_generation = ka_generation arm, sb_delivered = delivered,
           sb_drain_snapshot = snapshot, sb_after_bound = drop (length delivered) snapshot,
           sb_handled = None, sb_require_return_completed = False, sb_return_completed = False,
           sb_closed = False\<rparr> (as_signals s)\<rparr>)"
        using Some None o p d by (intro moves.opened) (auto simp: batch_ok_def)
      with d v o Some None show ?thesis
        by (auto simp: note_delivered_def Let_def split: option.splits)
    next
      case (Some b)
      let ?b = "b\<lparr>sb_delivered := delivered, sb_drain_snapshot := snapshot,
        sb_after_bound := drop (length delivered) snapshot\<rparr>"
      have "moves s (s\<lparr>as_signals := bt_insert k ?b (as_signals s)\<rparr>)"
        if "sb_delivered b = []" "sb_handled b = None" "\<not> sb_closed b"
        by (rule moves.rewrite [OF \<open>as_arm s = Some arm\<close> Some rewrite_fill [OF that(1,2) d p]])
      with d v o \<open>as_arm s = Some arm\<close> Some show ?thesis
        by (auto simp: note_delivered_def Let_def moves.same split: option.splits)
    qed
  qed
qed

lemma moves_note_claimed: "moves s (fst (note_claimed s k))"
proof (cases "as_arm s")
  case None
  then show ?thesis by (simp add: note_claimed_def moves.same)
next
  case (Some arm)
  have "moves s (s\<lparr>as_signals := bt_insert k
      \<lparr>sb_arm_id = ka_arm_id arm, sb_generation = ka_generation arm, sb_delivered = [],
       sb_drain_snapshot = [], sb_after_bound = [], sb_handled = None,
       sb_require_return_completed = False, sb_return_completed = False, sb_closed = False\<rparr>
      (as_signals s)\<rparr>)"
    if "bt_get (as_signals s) k = None"
      "case open_signal s arm of None \<Rightarrow> True | Some (open_id, _) \<Rightarrow> open_id = k"
    using Some that by (intro moves.opened) (auto simp: batch_ok_def)
  with Some show ?thesis
    by (auto simp: note_claimed_def moves.same split: option.splits)
qed

text \<open>The two visibility operations need no arm; without one the store has no signals.\<close>

definition armed :: "AckStore \<Rightarrow> bool" where
  "armed s \<longleftrightarrow> (\<exists>arm. as_arm s = Some arm)"

lemma moves_require_return:
  "armed s \<Longrightarrow> moves s (fst (require_return_completed_before_handled s k))"
  by (auto simp: require_return_completed_before_handled_def moves.same armed_def
      split: option.splits intro!: moves.rewrite rewrite_require)

lemma moves_note_return:
  "armed s \<Longrightarrow> moves s (fst (note_return_completed s k))"
  by (auto simp: note_return_completed_def moves.same armed_def
      split: option.splits intro!: moves.rewrite rewrite_return)

lemma moves_rearm: "moves s (fst (rearm_from_handled s k))"
  by (auto simp: rearm_from_handled_def moves.same split: option.splits intro!: moves.bumped)

section \<open>Which acknowledgements are accepted\<close>

fun is_ack_request :: "HandledCursor \<Rightarrow> bool" where
  "is_ack_request (HC_Request _ _ _ _ _ _ _ _) = True"
| "is_ack_request _ = False"

text \<open>
  A request may be accepted on a batch: it names the live arm, seat and generation, the signal
  is open, its receipt is not held back, and the cursor is a delivered reference not before the
  one handled already.
\<close>

definition ackable :: "KnownArm \<Rightarrow> SignalBatch \<Rightarrow> HandledCursor \<Rightarrow> bool" where
  "ackable arm b q \<longleftrightarrow>
     ka_arm_id arm = hq_arm_id q \<and> ka_seat_id arm = hq_seat_id q \<and> ka_generation arm = hq_generation q
     \<and> \<not> sb_closed b \<and> sb_generation b = ka_generation arm
     \<and> (sb_require_return_completed b \<longrightarrow> sb_return_completed b)
     \<and> hq_cursor q \<in> set (sb_delivered b) \<and> hq_cursor q \<notin> set (sb_after_bound b)
     \<and> (\<forall>h. sb_handled b = Some h \<and> h \<in> set (sb_delivered b) \<longrightarrow>
          not_before (sb_delivered b) h (hq_cursor q))"

definition ack_accepted :: "HandledCursor \<Rightarrow> string \<Rightarrow> HandledCursor" where
  "ack_accepted q observed = HC_Accepted HANDLED_SCHEMA (hq_request_id q) (hq_arm_id q) (hq_generation q)
     (hq_signal_id q) (hq_cursor q) observed"

lemma decide_handled_cases:
  assumes "is_ack_request q"
  obtains (accepted) arm b where "as_arm s = Some arm"
      "bt_get (as_signals s) (hq_signal_id q) = Some b" "ackable arm b q"
      "decide_handled s q observed =
        (s\<lparr>as_signals := bt_insert (hq_signal_id q) (b\<lparr>sb_handled := Some (hq_cursor q)\<rparr>) (as_signals s)\<rparr>,
         ack_accepted q observed)"
  | (rejected) code where
      "\<not> (\<exists>arm b. as_arm s = Some arm \<and> bt_get (as_signals s) (hq_signal_id q) = Some b \<and> ackable arm b q)"
      "code \<in> set REJECT_CODES"
      "decide_handled s q observed = (s, HC_Rejected HANDLED_SCHEMA (hq_request_id q) code observed)"
proof (cases "\<exists>arm b. as_arm s = Some arm \<and> bt_get (as_signals s) (hq_signal_id q) = Some b \<and> ackable arm b q")
  case True
  then obtain arm b where a: "as_arm s = Some arm" "bt_get (as_signals s) (hq_signal_id q) = Some b"
    "ackable arm b q" by blast
  then have "sb_delivered b \<noteq> []" by (auto simp: ackable_def)
  moreover obtain i where i: "position (hq_cursor q) (sb_delivered b) = Some i"
    using a(3) position_Some_iff_mem [of "hq_cursor q" "sb_delivered b"] by (auto simp: ackable_def)
  moreover have "\<not> i < j" if "sb_handled b = Some h" "position h (sb_delivered b) = Some j" for h j
    using a(3) i that position_Some_iff_mem [of h "sb_delivered b"]
    by (auto simp: ackable_def not_before_def)
  ultimately have "decide_handled s q observed =
      (s\<lparr>as_signals := bt_insert (hq_signal_id q) (b\<lparr>sb_handled := Some (hq_cursor q)\<rparr>) (as_signals s)\<rparr>,
       ack_accepted q observed)"
    using a assms
    by (cases q) (auto simp: decide_handled_def ack_accepted_def ackable_def split: option.splits)
  with a show thesis by (rule accepted)
next
  case False
  have "\<exists>code. code \<in> set REJECT_CODES \<and>
      decide_handled s q observed = (s, HC_Rejected HANDLED_SCHEMA (hq_request_id q) code observed)"
  proof (cases "as_arm s")
    case None
    with assms show ?thesis by (cases q) (auto simp: decide_handled_def REJECT_CODES_def)
  next
    case (Some arm)
    show ?thesis
    proof (cases "bt_get (as_signals s) (hq_signal_id q)")
      case None
      with assms Some show ?thesis by (cases q) (auto simp: decide_handled_def REJECT_CODES_def)
    next
      case (Some b)
      with \<open>as_arm s = Some arm\<close> False have n: "\<not> ackable arm b q" by blast
      show ?thesis
      proof (cases "position (hq_cursor q) (sb_delivered b)")
        case None
        with assms Some \<open>as_arm s = Some arm\<close> show ?thesis
          by (cases q) (auto simp: decide_handled_def REJECT_CODES_def)
      next
        case (Some i)
        then have "hq_cursor q \<in> set (sb_delivered b)"
          using position_Some_iff_mem by fastforce
        with assms Some \<open>as_arm s = Some arm\<close> \<open>bt_get (as_signals s) (hq_signal_id q) = Some b\<close> n
        show ?thesis
          by (cases q)
            (auto simp: decide_handled_def REJECT_CODES_def ackable_def not_before_def
              position_Some_iff_mem [symmetric] split: option.splits if_splits)
      qed
    qed
  qed
  then obtain code where "code \<in> set REJECT_CODES"
    "decide_handled s q observed = (s, HC_Rejected HANDLED_SCHEMA (hq_request_id q) code observed)"
    by blast
  with False show thesis by (rule rejected)
qed

lemma record_handled_cases:
  obtains (error) e where "record_handled parse_time format_time s q now = (s, Inl e)"
  | (replay) reply where "record_handled parse_time format_time s q now = (s, Inr reply)"
      "is_ack_request q" "handled_valid parse_time q"
      "bt_get (as_history s) (hq_request_id q) = Some \<lparr>he_request = q, he_reply = reply\<rparr>"
  | (fresh) s' reply where "decide_handled s q (format_time now) = (s', reply)"
      "record_handled parse_time format_time s q now =
        (s'\<lparr>as_history := bt_insert (hq_request_id q) \<lparr>he_request = q, he_reply = reply\<rparr> (as_history s')\<rparr>,
         Inr reply)"
      "is_ack_request q" "handled_valid parse_time q"
      "bt_get (as_history s) (hq_request_id q) = None" "bt_len (as_history s) < HISTORY_CAP"
proof (cases "validate_handled parse_time q")
  case (Inl e)
  show thesis by (rule error [of e]) (simp add: record_handled_def Inl)
next
  case (Inr u)
  then have v: "handled_valid parse_time q" by (simp add: result_simps)
  show thesis
  proof (cases "is_ack_request q")
    case False
    with Inr show thesis
      by (intro error [of "HE_Semantic ''expected request''"]; cases q)
        (simp_all add: record_handled_def)
  next
    case True
    show thesis
    proof (cases "bt_get (as_history s) (hq_request_id q)")
      case None
      show thesis
      proof (cases "HISTORY_CAP \<le> bt_len (as_history s)")
        case True
        with None Inr \<open>is_ack_request q\<close> show thesis
          by (intro error [of "HE_Semantic ''request history full''"]; cases q)
            (simp_all add: record_handled_def)
      next
        case False
        obtain s' reply where d: "decide_handled s q (format_time now) = (s', reply)"
          by fastforce
        with None Inr False \<open>is_ack_request q\<close> v show thesis
          by (intro fresh [of s' reply]; cases q) (simp_all add: record_handled_def)
      qed
    next
      case (Some existing)
      show thesis
      proof (cases "he_request existing = q")
        case True
        with Some Inr \<open>is_ack_request q\<close> v show thesis
          by (intro replay [of "he_reply existing"]; cases q)
            (simp_all add: record_handled_def)
      next
        case False
        with Some Inr \<open>is_ack_request q\<close> show thesis
          by (intro error [of "HE_Semantic ''request_id conflict''"]; cases q)
            (simp_all add: record_handled_def)
      qed
    qed
  qed
qed

lemma record_handled_known:
  assumes "is_ack_request q" "handled_valid parse_time q"
    and "bt_get (as_history s) (hq_request_id q) = Some e"
  shows "record_handled parse_time format_time s q now =
    (s, if he_request e = q then Inr (he_reply e) else Inl (HE_Semantic ''request_id conflict''))"
proof -
  from assms(2) have "validate_handled parse_time q = Inr ()" by (simp add: result_simps)
  with assms show ?thesis by (cases q) (simp_all add: record_handled_def)
qed

lemma decide_handled_arm_history:
  "is_ack_request q \<Longrightarrow> decide_handled s q obs = (s', reply) \<Longrightarrow>
    as_arm s' = as_arm s \<and> as_history s' = as_history s"
  by (rule decide_handled_cases [of q s obs]) auto

lemma moves_decide:
  assumes "is_ack_request q" and "decide_handled s q obs = (s', reply)"
  shows "moves s s'"
  using assms(1)
proof (cases rule: decide_handled_cases [of q s obs])
  case (accepted arm b)
  have "rewrite_allowed arm b (b\<lparr>sb_handled := Some (hq_cursor q)\<rparr>)"
    using accepted(3)
    by (auto simp: rewrite_allowed_def batch_ok_def batch_le_def ackable_def simp del: distinct_append)
  with accepted assms(2) show ?thesis by (auto intro: moves.rewrite)
next
  case (rejected code)
  with assms(2) show ?thesis by (auto intro: moves.same)
qed

section \<open>The store invariant\<close>

definition entry_ok :: "(string \<Rightarrow> instant option) \<Rightarrow> string \<Rightarrow> HistoryEntry \<Rightarrow> bool" where
  "entry_ok parse_time k e \<longleftrightarrow>
     is_ack_request (he_request e) \<and> hq_request_id (he_request e) = k
     \<and> handled_valid parse_time (he_request e)
     \<and> (case he_reply e of
          HC_Accepted schema k' arm_id generation signal_id cursor _ \<Rightarrow>
            schema = HANDLED_SCHEMA \<and> k' = k \<and> arm_id = hq_arm_id (he_request e)
            \<and> generation = hq_generation (he_request e) \<and> signal_id = hq_signal_id (he_request e)
            \<and> cursor = hq_cursor (he_request e)
        | HC_Rejected schema k' code _ \<Rightarrow>
            schema = HANDLED_SCHEMA \<and> k' = k \<and> code \<in> set REJECT_CODES
        | _ \<Rightarrow> False)"

text \<open>An accepted reply stands for a delivered reference that the handled cursor has reached.\<close>

definition reply_backed :: "(string, SignalBatch) btree \<Rightarrow> HandledCursor \<Rightarrow> bool" where
  "reply_backed signals reply \<longleftrightarrow>
     (case reply of
        HC_Accepted _ _ _ generation signal_id cursor _ \<Rightarrow>
          (\<exists>b h. bt_get signals signal_id = Some b \<and> sb_generation b = generation
             \<and> sb_handled b = Some h \<and> not_before (sb_delivered b) cursor h)
      | _ \<Rightarrow> True)"

definition store_ok :: "(string \<Rightarrow> instant option) \<Rightarrow> AckStore \<Rightarrow> bool" where
  "store_ok parse_time s \<longleftrightarrow>
     (\<exists>arm. as_arm s = Some arm \<and> signals_ok arm (as_signals s))
     \<and> bt_len (as_history s) \<le> HISTORY_CAP
     \<and> (\<forall>k e. bt_get (as_history s) k = Some e \<longrightarrow>
          entry_ok parse_time k e \<and> reply_backed (as_signals s) (he_reply e))"

text \<open>Progress of the whole store: no signal is forgotten and each only moves forward.\<close>

definition store_le :: "AckStore \<Rightarrow> AckStore \<Rightarrow> bool" where
  "store_le s s' \<longleftrightarrow>
     (\<exists>arm arm'. as_arm s = Some arm \<and> as_arm s' = Some arm' \<and> ka_arm_id arm' = ka_arm_id arm
        \<and> ka_generation arm \<le> ka_generation arm')
     \<and> (\<forall>k b. bt_get (as_signals s) k = Some b \<longrightarrow>
          (\<exists>b'. bt_get (as_signals s') k = Some b' \<and> batch_le b b'))"

lemma batch_le_handled:
  "batch_le b b' \<Longrightarrow> sb_handled b = Some c \<Longrightarrow>
    \<exists>c'. sb_handled b' = Some c' \<and> not_before (sb_delivered b') c c'"
  by (simp add: batch_le_def)

lemma batch_le_delivered:
  "batch_le b b' \<Longrightarrow> sb_delivered b \<noteq> [] \<Longrightarrow> sb_delivered b' = sb_delivered b"
  by (simp add: batch_le_def)

lemma batch_le_backed:
  assumes "batch_le b b'" "sb_handled b = Some h" "not_before (sb_delivered b) c h"
  shows "\<exists>h'. sb_handled b' = Some h' \<and> not_before (sb_delivered b') c h'"
proof -
  from assms(3) have "sb_delivered b \<noteq> []" by (auto dest: not_before_mem)
  with assms(1) have "sb_delivered b' = sb_delivered b" by (rule batch_le_delivered)
  with batch_le_handled [OF assms(1,2)] assms(3) show ?thesis by (auto dest: not_before_trans)
qed

lemma batch_le_trans:
  assumes "batch_le b b'" "batch_le b' b''"
  shows "batch_le b b''"
proof -
  have "\<exists>c''. sb_handled b'' = Some c'' \<and> not_before (sb_delivered b'') c c''"
    if c: "sb_handled b = Some c" for c
  proof -
    from batch_le_handled [OF assms(1) c] obtain c' where
      "sb_handled b' = Some c'" "not_before (sb_delivered b') c c'" by blast
    then show ?thesis by (rule batch_le_backed [OF assms(2)])
  qed
  with assms show ?thesis by (auto simp: batch_le_def)
qed

lemma moves_history: "moves s s' \<Longrightarrow> as_history s' = as_history s"
  by (induction rule: moves.induct) simp_all

lemma batch_ok_bump:
  assumes "batch_ok arm b" and "ka_generation arm < g" and "sb_generation b \<noteq> ka_generation arm"
  shows "batch_ok (arm\<lparr>ka_generation := g\<rparr>) b"
proof -
  have "sb_generation b < ka_generation arm"
    using assms by (auto simp: batch_ok_def)
  moreover from this assms(2) have "sb_generation b < g" by (rule less_trans)
  ultimately show ?thesis
    using assms(1) by (auto simp: batch_ok_def less_imp_le simp del: distinct_append)
qed

lemma batch_ok_close:
  assumes "batch_ok arm b" and "ka_generation arm < g" and "sb_generation b = ka_generation arm"
    and "sb_handled b = Some c"
  shows "batch_ok (arm\<lparr>ka_generation := g\<rparr>) (b\<lparr>sb_closed := True\<rparr>)"
  using assms by (auto simp: batch_ok_def less_imp_le simp del: distinct_append)

lemma moves_ok:
  assumes "moves s s'" and "as_arm s = Some arm" and "signals_ok arm (as_signals s)"
  shows "(\<exists>arm'. as_arm s' = Some arm' \<and> signals_ok arm' (as_signals s')) \<and> store_le s s'"
  using assms
proof (induction arbitrary: arm rule: moves.induct)
  case (same s)
  then show ?case by (auto simp: store_le_def signals_ok_def intro: batch_le_refl)
next
  case (rewrite s arm0 k b b')
  from rewrite(1,4) have [simp]: "arm0 = arm" by simp
  have ok: "batch_ok arm b" using rewrite(2,5) by (simp add: signals_ok_def)
  with rewrite(3) have b': "batch_ok arm b'" "batch_le b b'" by (simp_all add: rewrite_allowed_def)
  then have "sb_generation b' = sb_generation b" by (simp add: batch_le_def)
  with rewrite b' have "signals_ok arm (bt_insert k b' (as_signals s))"
    by (auto intro: signals_ok_update)
  moreover have "batch_le c c" if "bt_get (as_signals s) k' = Some c" for k' c
    using that rewrite(5) by (auto simp: signals_ok_def intro: batch_le_refl)
  ultimately show ?case using rewrite b'
    by (auto simp: store_le_def bt_get_insert_eq)
next
  case (opened s arm0 k b)
  from opened(1,6) have [simp]: "arm0 = arm" by simp
  have "sb_generation c \<noteq> ka_generation arm" if "bt_get (as_signals s) k' = Some c" for k' c
    using no_current_signal [OF opened(7,2) _ that] opened(3) by simp
  with opened have "signals_ok arm (bt_insert k b (as_signals s))"
    by (intro signals_ok_new) auto
  moreover have "batch_le c c" if "bt_get (as_signals s) k' = Some c" for k' c
    using that opened(7) by (auto simp: signals_ok_def intro: batch_le_refl)
  ultimately show ?case using opened by (auto simp: store_le_def bt_get_insert_eq)
next
  case (bumped s arm0 k b cursor g)
  from bumped(1,7) have [simp]: "arm0 = arm" by simp
  have less: "ka_generation arm < g"
    using bumped(6) by (simp add: checked_add_one_less)
  have ok: "batch_ok arm c" if "bt_get (as_signals s) k' = Some c" for k' c
    using that bumped(8) by (simp add: signals_ok_def)
  have unique: "sb_generation c \<noteq> ka_generation arm" if "bt_get (as_signals s) k' = Some c" "k' \<noteq> k" for k' c
    using bumped(2,3,8) that unfolding signals_ok_def by fastforce
  have "batch_ok (arm\<lparr>ka_generation := g\<rparr>) c" if "bt_get (as_signals s) k' = Some c" "k' \<noteq> k" for k' c
    using ok [OF that(1)] less unique [OF that] by (rule batch_ok_bump)
  moreover have "batch_ok (arm\<lparr>ka_generation := g\<rparr>) (b\<lparr>sb_closed := True\<rparr>)"
    using ok [OF bumped(2)] less by (rule batch_ok_close) (simp_all add: bumped(3,4))
  moreover have "batch_le b (b\<lparr>sb_closed := True\<rparr>)"
    using batch_le_refl [OF ok [OF bumped(2)]] bumped(5) by (simp add: batch_le_def)
  moreover have "batch_le c c" if "bt_get (as_signals s) k' = Some c" for k' c
    using ok [OF that] by (rule batch_le_refl)
  ultimately show ?case
    using bumped(1-3,8) less
    by (auto simp: store_le_def signals_ok_def bt_get_insert_eq split: if_splits; metis)
qed

lemma store_le_refl: "store_ok parse_time s \<Longrightarrow> store_le s s"
  using moves_ok [OF moves.same] by (auto simp: store_ok_def)

lemma store_le_trans: "store_le s s' \<Longrightarrow> store_le s' s'' \<Longrightarrow> store_le s s''"
  by (fastforce simp: store_le_def intro: batch_le_trans order.trans)

lemma store_le_reply_backed:
  assumes "store_le s s'" and "reply_backed (as_signals s) reply"
  shows "reply_backed (as_signals s') reply"
proof (cases reply)
  case (HC_Accepted schema k arm_id g sid c obs)
  with assms(2) obtain b h where b: "bt_get (as_signals s) sid = Some b" "sb_generation b = g"
    "sb_handled b = Some h" "not_before (sb_delivered b) c h"
    by (auto simp: reply_backed_def)
  with assms(1) obtain b' where b': "bt_get (as_signals s') sid = Some b'" "batch_le b b'"
    by (auto simp: store_le_def)
  with batch_le_backed [OF b'(2) b(3,4)] b(2) HC_Accepted show ?thesis
    by (auto simp: reply_backed_def batch_le_def)
qed (simp_all add: reply_backed_def)

lemma moves_store_ok:
  assumes "moves s s'" and "store_ok parse_time s"
  shows "store_ok parse_time s' \<and> store_le s s'"
proof -
  from assms(2) obtain arm where "as_arm s = Some arm" "signals_ok arm (as_signals s)"
    by (auto simp: store_ok_def)
  with moves_ok [OF assms(1)] have m: "\<exists>arm'. as_arm s' = Some arm' \<and> signals_ok arm' (as_signals s')"
    and le: "store_le s s'" by blast+
  with assms(2) moves_history [OF assms(1)] show ?thesis
    by (auto simp: store_ok_def intro: store_le_reply_backed)
qed

section \<open>The operations of a store\<close>

text \<open>
  Everything the daemon does to its store, in any order. An output is the re-arm of coverage an
  operation calls for.
\<close>

datatype AckOp =
  OpNoteDelivered string "string list" "string list"
| OpNoteClaimed string
| OpRequireReturn string
| OpNoteReturn string
| OpRecord HandledCursor instant
| OpRearm string
| OpApply HandledCursor instant

fun ack_step ::
  "(string \<Rightarrow> instant option) \<Rightarrow> (instant \<Rightarrow> string) \<Rightarrow> AckStore \<Rightarrow> AckOp \<Rightarrow> AckStore \<times> AckRearm option" where
  "ack_step parse_time format_time s (OpNoteDelivered k delivered snapshot) =
     (fst (note_delivered s k delivered snapshot), None)"
| "ack_step parse_time format_time s (OpNoteClaimed k) = (fst (note_claimed s k), None)"
| "ack_step parse_time format_time s (OpRequireReturn k) =
     (fst (require_return_completed_before_handled s k), None)"
| "ack_step parse_time format_time s (OpNoteReturn k) = (fst (note_return_completed s k), None)"
| "ack_step parse_time format_time s (OpRecord q now) =
     (fst (record_handled parse_time format_time s q now), None)"
| "ack_step parse_time format_time s (OpRearm k) =
     (case rearm_from_handled s k of
        (s', Inr cursor) \<Rightarrow> (s', map_option (\<lambda>arm. \<lparr>ar_after = cursor, ar_generation = ka_generation arm,
            ar_signal_id = k\<rparr>) (as_arm s'))
      | (s', Inl _) \<Rightarrow> (s', None))"
| "ack_step parse_time format_time s (OpApply q now) =
     (case apply_handled_request parse_time format_time s q now of
        (s', Inr served) \<Rightarrow> (s', hs_rearm served)
      | (s', Inl _) \<Rightarrow> (s', None))"

abbreviation ack_advance ::
  "(string \<Rightarrow> instant option) \<Rightarrow> (instant \<Rightarrow> string) \<Rightarrow> AckStore \<Rightarrow> AckOp \<Rightarrow> AckStore" where
  "ack_advance parse_time format_time s op \<equiv> fst (ack_step parse_time format_time s op)"

abbreviation ack_run ::
  "(string \<Rightarrow> instant option) \<Rightarrow> (instant \<Rightarrow> string) \<Rightarrow> AckStore \<Rightarrow> AckOp list \<Rightarrow> AckStore" where
  "ack_run parse_time format_time \<equiv> foldl (ack_advance parse_time format_time)"

text \<open>The re-arms a sequence of operations calls for, in order.\<close>

fun ack_rearms ::
  "(string \<Rightarrow> instant option) \<Rightarrow> (instant \<Rightarrow> string) \<Rightarrow> AckStore \<Rightarrow> AckOp list \<Rightarrow> AckRearm list" where
  "ack_rearms parse_time format_time s [] = []"
| "ack_rearms parse_time format_time s (op # ops) =
     (case ack_step parse_time format_time s op of
        (s', None) \<Rightarrow> ack_rearms parse_time format_time s' ops
      | (s', Some r) \<Rightarrow> r # ack_rearms parse_time format_time s' ops)"

text \<open>
  \<open>record_handled\<close> moves the signals as \<open>decide\<close> does and adds an entry that its reply backs.
\<close>

lemma decide_handled_entry:
  assumes "is_ack_request q" "handled_valid parse_time q" "decide_handled s q obs = (s', reply)"
    and "store_ok parse_time s"
  shows "entry_ok parse_time (hq_request_id q) \<lparr>he_request = q, he_reply = reply\<rparr>
    \<and> reply_backed (as_signals s') reply"
  using assms(1)
proof (cases rule: decide_handled_cases [of q s obs])
  case (accepted arm b)
  then have "hq_cursor q \<in> set (sb_delivered b)" "sb_generation b = hq_generation q"
    by (simp_all add: ackable_def)
  with accepted assms(1-3) show ?thesis
    by (auto simp: entry_ok_def reply_backed_def ack_accepted_def)
next
  case (rejected code)
  with assms(1-3) show ?thesis by (auto simp: entry_ok_def reply_backed_def)
qed

lemma record_handled_ok:
  assumes "store_ok parse_time s"
  shows "store_ok parse_time (fst (record_handled parse_time format_time s q now))
    \<and> store_le s (fst (record_handled parse_time format_time s q now))"
proof (cases rule: record_handled_cases [of parse_time format_time s q now])
  case (fresh s' reply)
  from moves_decide [OF fresh(3,1)] have m: "moves s s'" .
  from moves_store_ok [OF m assms] have ok: "store_ok parse_time s'" and le: "store_le s s'" by blast+
  from decide_handled_entry [OF fresh(3,4,1) assms]
  have e: "entry_ok parse_time (hq_request_id q) \<lparr>he_request = q, he_reply = reply\<rparr>"
    "reply_backed (as_signals s') reply" by blast+
  have h: "as_history s' = as_history s" using m by (rule moves_history)
  from ok e fresh(5,6) h show ?thesis
    using le unfolding fresh(2)
    by (auto simp: store_ok_def store_le_def bt_len_insert bt_get_insert_eq)
qed (use assms in \<open>simp_all add: store_le_refl\<close>)

lemma store_ok_armed: "store_ok parse_time s \<Longrightarrow> armed s"
  by (auto simp: store_ok_def armed_def)

lemma apply_handled_state:
  "fst (apply_handled_request parse_time format_time s q now)
     \<in> {fst (record_handled parse_time format_time s q now)}
       \<union> {fst (rearm_from_handled (fst (record_handled parse_time format_time s q now)) k) | k. True}"
  by (auto simp: apply_handled_request_def split: prod.splits sum.splits HandledCursor.splits option.splits)
    (metis fst_conv)+

lemma ack_advance_ok:
  assumes "store_ok parse_time s"
  shows "store_ok parse_time (ack_advance parse_time format_time s op)
    \<and> store_le s (ack_advance parse_time format_time s op)"
proof -
  have rearm: "store_ok parse_time (fst (rearm_from_handled s' k)) \<and> store_le s' (fst (rearm_from_handled s' k))"
    if "store_ok parse_time s'" for s' k
    using moves_store_ok [OF moves_rearm that] .
  show ?thesis
  proof (cases op)
    case (OpApply q now)
    have "ack_advance parse_time format_time s op = fst (apply_handled_request parse_time format_time s q now)"
      using OpApply by (auto split: prod.splits sum.splits)
    then consider "ack_advance parse_time format_time s op = fst (record_handled parse_time format_time s q now)"
      | k where "ack_advance parse_time format_time s op =
          fst (rearm_from_handled (fst (record_handled parse_time format_time s q now)) k)"
      using apply_handled_state [of parse_time format_time s q now] by auto
    then show ?thesis
    proof cases
      case 1
      then show ?thesis using record_handled_ok [OF assms] by simp
    next
      case (2 k)
      then show ?thesis
        using record_handled_ok [OF assms, of format_time q now]
          rearm [of "fst (record_handled parse_time format_time s q now)" k]
        by (auto intro: store_le_trans)
    qed
  next
    case (OpRearm k)
    then have "ack_advance parse_time format_time s op = fst (rearm_from_handled s k)"
      by (auto split: prod.splits sum.splits)
    with rearm [OF assms] show ?thesis by simp
  qed (use assms in \<open>simp_all add: record_handled_ok moves_store_ok [OF moves_note_delivered]
      moves_store_ok [OF moves_note_claimed] moves_store_ok [OF moves_require_return]
      moves_store_ok [OF moves_note_return] store_ok_armed\<close>)
qed

lemma ack_run_ok:
  "store_ok parse_time s \<Longrightarrow> store_ok parse_time (ack_run parse_time format_time s ops)
    \<and> store_le s (ack_run parse_time format_time s ops)"
proof (induction ops arbitrary: s)
  case Nil
  then show ?case by (simp add: store_le_refl)
next
  case (Cons op ops)
  from ack_advance_ok [OF Cons.prems, of format_time op] Cons.IH
  show ?case by (auto intro: store_le_trans)
qed

lemma with_arm_ok: "store_ok parse_time (with_arm arm)"
  by (simp add: store_ok_def with_arm_def signals_ok_def)

text \<open>
  C5: acknowledgements stand on deliveries. After any operations on a store bound to an arm:
  signals belong to the arm, each generation has at most one, a signal is closed exactly when
  its generation is over and then has a handled cursor; delivered references are the leading part of a
  duplicate-free drain and the handled cursor is one of them; nothing is handled while its
  receipt is held back; and every accepted reply in the history names its own request and a
  delivered reference that the handled cursor has reached.
\<close>

theorem ack_store_invariant:
  "store_ok parse_time (ack_run parse_time format_time (with_arm arm) ops)"
  using ack_run_ok [OF with_arm_ok] by (rule conjunct1)

text \<open>
  A signal only moves forward. Whatever operations follow, a signal keeps its arm,
  generation and delivered batch, its handled cursor never goes back to an earlier reference or
  disappears, a closed signal stays closed with the same cursor, and a hold or its release is
  never undone.
\<close>

theorem ack_signal_progress:
  assumes "bt_get (as_signals (ack_run parse_time format_time (with_arm arm) ops)) k = Some b"
  shows "\<exists>b'. bt_get (as_signals (ack_run parse_time format_time (with_arm arm) (ops @ ops'))) k = Some b'
    \<and> batch_le b b'"
proof -
  have "store_le (ack_run parse_time format_time (with_arm arm) ops)
      (ack_run parse_time format_time (with_arm arm) (ops @ ops'))"
    using ack_run_ok [OF ack_run_ok [OF with_arm_ok, THEN conjunct1]] by simp
  with assms show ?thesis unfolding store_le_def by blast
qed

section \<open>The history answers again\<close>

fun ack_request :: "AckOp \<Rightarrow> (string \<times> HandledCursor) option" where
  "ack_request (OpRecord q now) = (if is_ack_request q then Some (hq_request_id q, q) else None)"
| "ack_request (OpApply q now) = (if is_ack_request q then Some (hq_request_id q, q) else None)"
| "ack_request _ = None"

text \<open>The reply an operation records or repeats; a failed re-arm does not undo it.\<close>

fun ack_answer ::
  "(string \<Rightarrow> instant option) \<Rightarrow> (instant \<Rightarrow> string) \<Rightarrow> AckStore \<Rightarrow> AckOp \<Rightarrow> HandledCursorError + HandledCursor" where
  "ack_answer parse_time format_time s (OpRecord q now) = snd (record_handled parse_time format_time s q now)"
| "ack_answer parse_time format_time s (OpApply q now) = snd (record_handled parse_time format_time s q now)"
| "ack_answer parse_time format_time s _ = Inl (HE_Semantic ''not a request'')"

definition ack_recorded :: "AckStore \<Rightarrow> string \<Rightarrow> (HandledCursor \<times> HandledCursor) option" where
  "ack_recorded s k = map_option (\<lambda>e. (he_request e, he_reply e)) (bt_get (as_history s) k)"

lemma record_handled_recorded:
  assumes "snd (record_handled parse_time format_time s q now) = Inr reply"
  shows "is_ack_request q \<and> handled_valid parse_time q
    \<and> ack_recorded (fst (record_handled parse_time format_time s q now)) (hq_request_id q) = Some (q, reply)"
  by (rule record_handled_cases [of parse_time format_time s q now])
    (use assms in \<open>auto simp: ack_recorded_def\<close>)

lemma record_handled_history:
  "ack_recorded s k = Some x \<Longrightarrow>
     ack_recorded (fst (record_handled parse_time format_time s q now)) k = Some x"
  "bt_len (as_history s) \<le> HISTORY_CAP \<Longrightarrow>
     bt_len (as_history (fst (record_handled parse_time format_time s q now))) \<le> HISTORY_CAP"
  by (rule record_handled_cases [of parse_time format_time s q now];
      auto simp: ack_recorded_def bt_get_insert_eq bt_len_insert
        dest: moves_decide [THEN moves_history])+

lemma history_other:
  "as_history (fst (note_delivered s k delivered snapshot)) = as_history s"
  "as_history (fst (note_claimed s k)) = as_history s"
  "as_history (fst (require_return_completed_before_handled s k)) = as_history s"
  "as_history (fst (note_return_completed s k)) = as_history s"
  "as_history (fst (rearm_from_handled s k)) = as_history s"
  by (simp_all add: moves_history [OF moves_note_delivered] moves_history [OF moves_note_claimed]
      moves_history [OF moves_rearm])
    (simp_all add: require_return_completed_before_handled_def note_return_completed_def
      split: option.splits)

lemma ack_advance_history:
  "as_history (ack_advance parse_time format_time s op) =
    (case op of
       OpRecord q now \<Rightarrow> as_history (fst (record_handled parse_time format_time s q now))
     | OpApply q now \<Rightarrow> as_history (fst (record_handled parse_time format_time s q now))
     | _ \<Rightarrow> as_history s)"
proof (cases op)
  case (OpApply q now)
  have "ack_advance parse_time format_time s op = fst (apply_handled_request parse_time format_time s q now)"
    using OpApply by (auto split: prod.splits sum.splits)
  with apply_handled_state [of parse_time format_time s q now] OpApply show ?thesis
    by (auto simp: history_other)
next
  case (OpRearm k)
  have "ack_advance parse_time format_time s op = fst (rearm_from_handled s k)"
    using OpRearm by (auto split: prod.splits sum.splits)
  with OpRearm show ?thesis by (simp add: history_other)
qed (simp_all add: history_other)

lemma ack_recorded_advance:
  "ack_recorded (ack_advance parse_time format_time s op) k =
    (case op of
       OpRecord q now \<Rightarrow> ack_recorded (fst (record_handled parse_time format_time s q now)) k
     | OpApply q now \<Rightarrow> ack_recorded (fst (record_handled parse_time format_time s q now)) k
     | _ \<Rightarrow> ack_recorded s k)"
  by (cases op) (simp_all add: ack_recorded_def ack_advance_history del: ack_step.simps)

interpretation acks: request_log "ack_advance parse_time format_time"
  "ack_answer parse_time format_time" ack_request "handled_valid parse_time" ack_recorded
  "\<lambda>s :: AckStore. bt_len (as_history s)" "HE_Semantic ''request_id conflict''" HISTORY_CAP
  for parse_time format_time
proof
  fix op k r and s :: AckStore and r' a
  assume "ack_request op = Some (k, r)" "handled_valid parse_time r" "ack_recorded s k = Some (r', a)"
  then show "ack_answer parse_time format_time s op =
      (if r' = r then Inr a else Inl (HE_Semantic ''request_id conflict''))"
    by (cases op) (auto simp: ack_recorded_def record_handled_known split: if_splits)
next
  fix s :: AckStore and k x op
  assume "ack_recorded s k = Some x"
  then show "ack_recorded (ack_advance parse_time format_time s op) k = Some x"
    by (cases op) (simp_all add: ack_recorded_advance record_handled_history del: ack_step.simps)
next
  fix op k r and s :: AckStore and a
  assume a: "ack_request op = Some (k, r)" "ack_answer parse_time format_time s op = Inr a"
  then show "ack_recorded (ack_advance parse_time format_time s op) k = Some (r, a)"
    and "handled_valid parse_time r"
    by (cases op; auto simp: ack_recorded_advance simp del: ack_step.simps split: if_splits
        dest!: record_handled_recorded)+
next
  fix s :: AckStore and op
  assume "bt_len (as_history s) \<le> HISTORY_CAP"
  then show "bt_len (as_history (ack_advance parse_time format_time s op)) \<le> HISTORY_CAP"
    using ack_advance_history [of parse_time format_time s op]
    by (cases op) (simp_all add: record_handled_history del: ack_step.simps)
qed

text \<open>
  One answer per acknowledgement. Once a request was recorded, whatever deliveries, claims,
  acknowledgements and re-arms follow, the same request is given the same reply, and another
  body under its id is a conflict.
\<close>

theorem ack_answer_stable:
  assumes "record_handled parse_time format_time s q now = (s', Inr reply)"
    and "is_ack_request q'" and "handled_valid parse_time q'" and "hq_request_id q' = hq_request_id q"
  shows "snd (record_handled parse_time format_time (ack_run parse_time format_time s' ops) q' now') =
    (if q' = q then Inr reply else Inl (HE_Semantic ''request_id conflict''))"
proof -
  from assms(1) record_handled_recorded [of parse_time format_time s q now reply]
  have "is_ack_request q" by simp
  with acks.stable_answer [of "OpRecord q now" "hq_request_id q" q parse_time format_time s reply
      "OpRecord q' now'" q' ops] assms
  show ?thesis by (simp add: acks.run_def)
qed

text \<open>
  What is accepted. On a store that satisfies the invariant, a valid, unseen request with
  room in the history is answered: with acceptance, and the handled cursor moved to it, exactly
  when the signal is open and unheld and the cursor is a delivered reference of the live
  generation not before the one handled; otherwise with one of the documented reject codes and no
  change to any signal. If the clock's text is readable the reply is one the encoder sends.
\<close>

theorem ack_accepted_iff:
  assumes "store_ok parse_time s" and "is_ack_request q" and "handled_valid parse_time q"
    and "bt_get (as_history s) (hq_request_id q) = None" and "bt_len (as_history s) < HISTORY_CAP"
    and "parse_time (format_time now) \<noteq> None"
    and "record_handled parse_time format_time s q now = (s', r)"
  shows "\<exists>reply. r = Inr reply \<and> handled_valid parse_time reply \<and>
    (if \<exists>arm b. as_arm s = Some arm \<and> bt_get (as_signals s) (hq_signal_id q) = Some b \<and> ackable arm b q
     then reply = ack_accepted q (format_time now)
       \<and> map_option sb_handled (bt_get (as_signals s') (hq_signal_id q)) = Some (Some (hq_cursor q))
     else (\<exists>code \<in> set REJECT_CODES.
         reply = HC_Rejected HANDLED_SCHEMA (hq_request_id q) code (format_time now))
       \<and> as_signals s' = as_signals s)"
proof -
  have v: "validate_handled parse_time q = Inr ()" using assms(3) by (simp add: result_simps)
  obtain s1 reply where d: "decide_handled s q (format_time now) = (s1, reply)" by fastforce
  have r: "r = Inr reply" "as_signals s' = as_signals s1"
    using assms v d by (cases q; auto simp: record_handled_def)+
  have q: "is_ulid (hq_request_id q)" "is_ulid (hq_arm_id q)" "1 \<le> hq_generation q"
    "is_ulid (hq_signal_id q)" "token_shape (hq_cursor q)"
    using assms(2,3) by (cases q; simp)+
  show ?thesis
    using assms(2)
  proof (cases rule: decide_handled_cases [of q s "format_time now"])
    case (accepted arm b)
    with d r q assms(6) show ?thesis by (auto simp: ack_accepted_def)
  next
    case (rejected code)
    with d r q assms(6) show ?thesis by auto
  qed
qed

section \<open>Re-arming exactly once\<close>

lemma arm_other:
  "as_arm (fst (note_delivered s k delivered snapshot)) = as_arm s"
  "as_arm (fst (note_claimed s k)) = as_arm s"
  "as_arm (fst (require_return_completed_before_handled s k)) = as_arm s"
  "as_arm (fst (note_return_completed s k)) = as_arm s"
  by (simp_all add: note_delivered_def note_claimed_def require_return_completed_before_handled_def
      note_return_completed_def Let_def split: option.splits sum.splits)

lemma arm_record: "as_arm (fst (record_handled parse_time format_time s q now)) = as_arm s"
  by (rule record_handled_cases [of parse_time format_time s q now])
    (auto dest: decide_handled_arm_history)

lemma rearm_error: "rearm_from_handled s k = (s', Inl e) \<Longrightarrow> s' = s"
  by (auto simp: rearm_from_handled_def split: option.splits if_splits)

lemma rearm_done:
  assumes "rearm_from_handled s k = (s', Inr cursor)"
  shows "\<exists>arm b g. as_arm s = Some arm \<and> as_arm s' = Some (arm\<lparr>ka_generation := g\<rparr>)
    \<and> checked_add (ka_generation arm) 1 = Some g
    \<and> bt_get (as_signals s) k = Some b \<and> bt_get (as_signals s') k = Some (b\<lparr>sb_closed := True\<rparr>)
    \<and> sb_generation b = ka_generation arm \<and> sb_handled b = Some cursor"
  using assms by (auto simp: rearm_from_handled_def split: option.splits if_splits)

text \<open>The signal a re-arm closed: its cursor was handled and its generation precedes the new one.\<close>

definition rearm_backed :: "AckStore \<Rightarrow> AckRearm \<Rightarrow> bool" where
  "rearm_backed s r \<longleftrightarrow>
     (\<exists>b h. bt_get (as_signals s) (ar_signal_id r) = Some b \<and> sb_closed b
        \<and> unat (ar_generation r) = Suc (unat (sb_generation b))
        \<and> sb_handled b = Some h \<and> not_before (sb_delivered b) (ar_after r) h)"

lemma rearm_backed_le: "store_le s s' \<Longrightarrow> rearm_backed s r \<Longrightarrow> rearm_backed s' r"
proof -
  assume le: "store_le s s'" and "rearm_backed s r"
  then obtain b h where b: "bt_get (as_signals s) (ar_signal_id r) = Some b" "sb_closed b"
    "unat (ar_generation r) = Suc (unat (sb_generation b))"
    "sb_handled b = Some h" "not_before (sb_delivered b) (ar_after r) h"
    by (auto simp: rearm_backed_def)
  from le b(1) obtain b' where b': "bt_get (as_signals s') (ar_signal_id r) = Some b'" "batch_le b b'"
    by (auto simp: store_le_def)
  with batch_le_backed [OF b'(2) b(4,5)] b show ?thesis
    by (auto simp: rearm_backed_def batch_le_def)
qed

lemma ack_step_None:
  assumes "ack_step parse_time format_time s op = (s', None)"
  shows "as_arm s' = as_arm s"
proof (cases op)
  case (OpApply q now)
  obtain s1 r where rec: "record_handled parse_time format_time s q now = (s1, r)" by fastforce
  have arm: "as_arm s1 = as_arm s" using arm_record [of parse_time format_time s q now] rec by simp
  have rd: "as_arm s2 \<noteq> None" if "rearm_from_handled s1 k = (s2, Inr c)" for k s2 c
    using rearm_done [OF that] by auto
  from OpApply assms rec arm show ?thesis
    by (auto simp: apply_handled_request_def
        split: prod.splits sum.splits HandledCursor.splits option.splits if_splits
        dest: rd rearm_error)
next
  case (OpRearm k)
  with assms show ?thesis
    by (auto split: prod.splits sum.splits dest: rearm_error rearm_done)
qed (use assms in \<open>auto simp: arm_other arm_record\<close>)

lemma rearm_backed_done:
  assumes "rearm_from_handled s k = (s', Inr cursor)" and "as_arm s' = Some arm'"
    and "bt_get (as_signals s) k = Some b" and "not_before (sb_delivered b) c cursor"
  shows "rearm_backed s' \<lparr>ar_after = c, ar_generation = ka_generation arm', ar_signal_id = k\<rparr>"
  using rearm_done [OF assms(1)] assms(2-4)
  by (auto simp: rearm_backed_def dest: checked_add_SomeD)

lemma ack_step_Some:
  assumes "ack_step parse_time format_time s op = (s', Some r)" and "store_ok parse_time s"
  shows "\<exists>arm. as_arm s = Some arm \<and> checked_add (ka_generation arm) 1 = Some (ar_generation r)
    \<and> as_arm s' = Some (arm\<lparr>ka_generation := ar_generation r\<rparr>) \<and> rearm_backed s' r"
proof -
  have ok': "store_ok parse_time s'"
    using ack_advance_ok [OF assms(2), of format_time op] assms(1) by simp
  show ?thesis
  proof (cases op)
    case (OpApply q now)
    then obtain served where ap: "apply_handled_request parse_time format_time s q now = (s', Inr served)"
      and served: "hs_rearm served = Some r"
      using assms(1) by (auto split: prod.splits sum.splits)
    obtain s1 res where rec: "record_handled parse_time format_time s q now = (s1, res)" by fastforce
    then obtain reply where reply: "res = Inr reply" using ap
      by (cases res) (auto simp: apply_handled_request_def)
    from ap rec reply served obtain sc k' a g sid c obs cursor arm' where
      acc: "reply = HC_Accepted sc k' a g sid c obs" and
      re: "rearm_from_handled s1 sid = (s', Inr cursor)" and arm': "as_arm s' = Some arm'" and
      r: "r = \<lparr>ar_after = c, ar_generation = ka_generation arm', ar_signal_id = sid\<rparr>"
      by (auto simp: apply_handled_request_def
          split: HandledCursor.splits prod.splits sum.splits option.splits if_splits)
    have arm1: "as_arm s1 = as_arm s" using arm_record [of parse_time format_time s q now] rec by simp
    have ok1: "store_ok parse_time s1"
      using record_handled_ok [OF assms(2), of format_time q now] rec by simp
    have "ack_recorded s1 (hq_request_id q) = Some (q, reply)"
      using record_handled_recorded [of parse_time format_time s q now reply] rec reply by simp
    then have "reply_backed (as_signals s1) reply"
      using ok1 by (auto simp: store_ok_def ack_recorded_def)
    then obtain b h where b: "bt_get (as_signals s1) sid = Some b" "sb_handled b = Some h"
      "not_before (sb_delivered b) c h"
      by (auto simp: acc reply_backed_def)
    from rearm_done [OF re] b have "h = cursor" by auto
    with rearm_backed_done [OF re arm' b(1), of c] b(3) r have "rearm_backed s' r" by simp
    with rearm_done [OF re] arm1 arm' r show ?thesis by auto
  next
    case (OpRearm k)
    with assms(1) obtain cursor arm' where re: "rearm_from_handled s k = (s', Inr cursor)"
      and arm': "as_arm s' = Some arm'"
      and r: "r = \<lparr>ar_after = cursor, ar_generation = ka_generation arm', ar_signal_id = k\<rparr>"
      by (auto split: prod.splits sum.splits)
    from rearm_done [OF re] obtain arm b g where
      b: "as_arm s = Some arm" "as_arm s' = Some (arm\<lparr>ka_generation := g\<rparr>)"
      "checked_add (ka_generation arm) 1 = Some g" "bt_get (as_signals s) k = Some b"
      "sb_handled b = Some cursor" by blast
    with assms(2) have "cursor \<in> set (sb_delivered b)"
      by (auto simp: store_ok_def signals_ok_def batch_ok_def)
    with rearm_backed_done [OF re arm' b(4), of cursor] b r arm' show ?thesis by auto
  qed (use assms(1) in simp_all)
qed

lemma ack_rearms_chain:
  assumes "store_ok parse_time s" and "as_arm s = Some arm"
  shows "(\<exists>arm'. as_arm (ack_run parse_time format_time s ops) = Some arm'
      \<and> unat (ka_generation arm') = unat (ka_generation arm) + length (ack_rearms parse_time format_time s ops))
    \<and> (\<forall>i < length (ack_rearms parse_time format_time s ops).
        unat (ar_generation (ack_rearms parse_time format_time s ops ! i)) = unat (ka_generation arm) + Suc i)
    \<and> list_all (rearm_backed (ack_run parse_time format_time s ops)) (ack_rearms parse_time format_time s ops)"
  using assms
proof (induction ops arbitrary: s arm)
  case Nil
  then show ?case by simp
next
  case (Cons op ops)
  obtain s' o' where st: "ack_step parse_time format_time s op = (s', o')" by fastforce
  have ok': "store_ok parse_time s'"
    using ack_advance_ok [OF Cons.prems(1), of format_time op] st by simp
  show ?case
  proof (cases o')
    case None
    with ack_step_None st Cons.prems(2) have "as_arm s' = Some arm" by metis
    from Cons.IH [OF ok' this] st None show ?thesis by simp
  next
    case (Some r)
    from ack_step_Some [OF st [unfolded Some] Cons.prems(1)] Cons.prems(2)
    have r: "checked_add (ka_generation arm) 1 = Some (ar_generation r)"
      "as_arm s' = Some (arm\<lparr>ka_generation := ar_generation r\<rparr>)" "rearm_backed s' r" by auto
    have g: "unat (ar_generation r) = Suc (unat (ka_generation arm))"
      using checked_add_SomeD [OF r(1)] by simp
    have "rearm_backed (ack_run parse_time format_time s' ops) r"
      using rearm_backed_le [OF ack_run_ok [OF ok', THEN conjunct2] r(3)] .
    with Cons.IH [OF ok' r(2)] st Some g show ?thesis
      by (auto simp: nth_Cons split: nat.splits)
  qed
qed

text \<open>
  C6: coverage is re-armed exactly once per handled signal. Over any operations on a new store,
  the re-arms called for carry the generations after the first one, one by one and without a
  gap, the store ends at the generation of the last, no two re-arms are for the same signal, and
  each is for a signal that is closed in the end, with an \<open>after\<close> cursor that was delivered
  and handled. Replayed acknowledgements therefore never bump the generation again.
\<close>

theorem ack_rearms_exactly_once:
  "let rs = ack_rearms parse_time format_time (with_arm arm) ops;
       s = ack_run parse_time format_time (with_arm arm) ops
   in map_option (\<lambda>a. unat (ka_generation a)) (as_arm s) = Some (unat (ka_generation arm) + length rs)
    \<and> map (unat \<circ> ar_generation) rs = map (\<lambda>i. unat (ka_generation arm) + Suc i) [0..<length rs]
    \<and> distinct (map ar_signal_id rs)
    \<and> list_all (rearm_backed s) rs"
proof -
  define rs where "rs = ack_rearms parse_time format_time (with_arm arm) ops"
  define s where "s = ack_run parse_time format_time (with_arm arm) ops"
  have "as_arm (with_arm arm) = Some arm" by (simp add: with_arm_def)
  note chain = ack_rearms_chain [OF with_arm_ok this, of parse_time format_time ops, folded rs_def s_def]
  have nth: "unat (ar_generation (rs ! i)) = unat (ka_generation arm) + Suc i" if "i < length rs" for i
    using chain that by blast
  have backed: "rearm_backed s (rs ! i)" if "i < length rs" for i
    using chain that by (simp add: list_all_length)
  have "distinct (map ar_signal_id rs)"
    unfolding distinct_conv_nth
  proof (intro allI impI)
    fix i j
    assume "i < length (map ar_signal_id rs)" "j < length (map ar_signal_id rs)" "i \<noteq> j"
    then have ij: "i < length rs" "j < length rs" "i \<noteq> j" by simp_all
    show "map ar_signal_id rs ! i \<noteq> map ar_signal_id rs ! j"
    proof
      assume "map ar_signal_id rs ! i = map ar_signal_id rs ! j"
      then have "unat (ar_generation (rs ! i)) = unat (ar_generation (rs ! j))"
        using backed [OF ij(1)] backed [OF ij(2)] ij by (auto simp: rearm_backed_def)
      with nth ij show False by simp
    qed
  qed
  moreover have "map (unat \<circ> ar_generation) rs = map (\<lambda>i. unat (ka_generation arm) + Suc i) [0..<length rs]"
    by (rule nth_equalityI) (simp_all add: nth)
  ultimately show ?thesis
    using chain unfolding Let_def rs_def [symmetric] s_def [symmetric] by auto
qed

lemma rearm_after_accept:
  assumes "decide_handled s q obs = (s', ack_accepted q obs)" and "is_ack_request q"
    and "as_arm s = Some arm" and "ka_generation arm \<noteq> - 1"
  shows "\<exists>s''. rearm_from_handled (s'\<lparr>as_history := h\<rparr>) (hq_signal_id q) = (s'', Inr (hq_cursor q))"
  using assms(2)
proof (cases rule: decide_handled_cases [of q s obs])
  case (accepted arm0 b)
  with assms checked_add_one_None [of "ka_generation arm"] show ?thesis
    by (auto simp: rearm_from_handled_def ackable_def split: option.splits)
next
  case (rejected code)
  with assms show ?thesis by (simp add: ack_accepted_def)
qed


section \<open>Witnesses\<close>

text \<open>Two of three drained references are delivered; the seat acknowledges the second.\<close>

definition sample_ops :: "AckOp list" where
  "sample_ops = [OpNoteClaimed (sample_ulid (CHR ''S'')),
     OpNoteDelivered (sample_ulid (CHR ''S'')) [''e1'', ''e2''] [''e1'', ''e2'', ''e3'']]"

definition sample_ack :: "string \<Rightarrow> HandledCursor" where
  "sample_ack cursor = HC_Request HANDLED_SCHEMA (sample_ulid (CHR ''Q'')) (sample_ulid (CHR ''A'')) 1 ''seat''
     (sample_ulid (CHR ''S'')) cursor ''x''"

definition sample_store :: AckStore where
  "sample_store = ack_run unary_parse unary_format (with_arm sample_arm) sample_ops"

definition sample_acked :: AckStore where
  "sample_acked = fst (record_handled unary_parse unary_format sample_store (sample_ack ''e2'') 3)"

lemma sample_store_ok: "store_ok unary_parse sample_store"
  unfolding sample_store_def using ack_run_ok [OF with_arm_ok] by blast

lemma sample_store_facts:
  "as_arm sample_store = Some sample_arm"
  "bt_get (as_history sample_store) (hq_request_id (sample_ack ''e2'')) = None"
  "is_ack_request (sample_ack ''e2'')"
  "handled_valid unary_parse (sample_ack ''e2'')"
  "record_handled unary_parse unary_format sample_store (sample_ack ''e2'') 3 =
    (sample_acked, Inr (ack_accepted (sample_ack ''e2'') (unary_format 3)))"
  "ka_generation sample_arm \<noteq> - 1"
  by code_simp+

lemma ack_signal_progress_witness:
  "\<exists>b b'. bt_get (as_signals (ack_run unary_parse unary_format (with_arm sample_arm) sample_ops))
      (sample_ulid (CHR ''S'')) = Some b
    \<and> bt_get (as_signals (ack_run unary_parse unary_format (with_arm sample_arm)
        (sample_ops @ [OpApply (sample_ack ''e2'') 3]))) (sample_ulid (CHR ''S'')) = Some b'
    \<and> batch_le b b'"
proof -
  obtain b where b: "bt_get (as_signals (ack_run unary_parse unary_format (with_arm sample_arm) sample_ops))
      (sample_ulid (CHR ''S'')) = Some b"
  proof -
    have "bt_get (as_signals (ack_run unary_parse unary_format (with_arm sample_arm) sample_ops))
      (sample_ulid (CHR ''S'')) \<noteq> None" by code_simp
    then show thesis using that by blast
  qed
  from b ack_signal_progress [OF b, of "[OpApply (sample_ack ''e2'') 3]"] show ?thesis by blast
qed

lemma ack_answer_stable_witness:
  "snd (record_handled unary_parse unary_format
      (ack_run unary_parse unary_format sample_acked [OpRearm (sample_ulid (CHR ''S''))])
      (sample_ack ''e2'') 4) =
    Inr (ack_accepted (sample_ack ''e2'') (unary_format 3))"
  using ack_answer_stable [OF sample_store_facts(5) sample_store_facts(3,4) refl,
      of "[OpRearm (sample_ulid (CHR ''S''))]" 4]
  by simp

lemma ack_accepted_iff_witness:
  "\<exists>reply. snd (record_handled unary_parse unary_format sample_store (sample_ack ''e2'') 3) = Inr reply
    \<and> handled_valid unary_parse reply"
proof -
  have "bt_len (as_history sample_store) < HISTORY_CAP"
  proof -
    have "bt_entries (as_history sample_store) = []" by code_simp
    then show ?thesis by (simp add: bt_len_def HISTORY_CAP_def)
  qed
  moreover have "unary_parse (unary_format 3) \<noteq> None" by (simp add: unary_parse_def)
  ultimately show ?thesis
    using ack_accepted_iff [OF sample_store_ok sample_store_facts(3,4,2) _ _ sample_store_facts(5)]
      sample_store_facts(5)
    by auto
qed


end
