(* ===== verification/Link.thy ===== *)
theory Link
  imports Ack Codec
begin

text \<open>
  One exchange on the waiter link, \<open>gearwit-host/src/link.rs\<close>: a frame is read and decoded, an
  attach is prepared under the table's lock, its reply is written without the lock, and the
  decision is committed under the lock only when the write succeeded. The framing crate
  (\<open>ipcprims\<close>) is a parameter: a read gives \<open>FrameError + channel \<times> payload\<close>, a write is a
  function from channel and payload to a result, and \<open>command\<close> is its \<open>COMMAND\<close> channel.
\<close>

type_synonym u16 = "16 word"

text \<open>The frame errors the code tells apart, and all others by their text.\<close>

datatype FrameError =
  FE_ConnectionClosed | FE_IoTimedOut | FE_IoWouldBlock | FE_Other string

datatype LinkError =
  LE_Frame FrameError
| LE_Payload PayloadError
| LE_WrongChannel u16
| LE_Message WaiterLinkError
| LE_Transport string
| LE_Handled HandledCursorError

fun link_error_of_payload :: "PayloadError \<Rightarrow> LinkError" where
  "link_error_of_payload (PE_Handled inner) = LE_Handled inner"
| "link_error_of_payload other = LE_Payload other"

type_synonym frame_read = "FrameError + (u16 \<times> string)"
type_synonym frame_send = "u16 \<Rightarrow> string \<Rightarrow> FrameError + unit"

section \<open>Frames\<close>

definition read_waiter_link ::
  "(string \<Rightarrow> instant option) \<Rightarrow> json_codec \<Rightarrow> u16 \<Rightarrow> frame_read \<Rightarrow> LinkError + WaiterLink" where
  "read_waiter_link parse_time j command read =
     bind_res (map_err LE_Frame read) (\<lambda>(channel, payload).
     if channel \<noteq> command then Inl (LE_WrongChannel channel)
     else map_err link_error_of_payload (decode_payload parse_time j payload))"

definition write_waiter_link ::
  "(string \<Rightarrow> instant option) \<Rightarrow> json_codec \<Rightarrow> u16 \<Rightarrow> frame_send \<Rightarrow> WaiterLink \<Rightarrow> LinkError + unit" where
  "write_waiter_link parse_time j command send message =
     bind_res (map_err link_error_of_payload (encode_payload parse_time j message)) (\<lambda>payload.
     map_err LE_Frame (send command payload))"

definition read_incoming ::
  "(string \<Rightarrow> instant option) \<Rightarrow> json_codec \<Rightarrow> u16 \<Rightarrow> frame_read \<Rightarrow> LinkError + Incoming" where
  "read_incoming parse_time j command read =
     bind_res (map_err LE_Frame read) (\<lambda>(channel, payload).
     if channel \<noteq> command then Inl (LE_WrongChannel channel)
     else map_err link_error_of_payload (decode_incoming parse_time j payload))"

definition write_handled ::
  "(string \<Rightarrow> instant option) \<Rightarrow> json_codec \<Rightarrow> u16 \<Rightarrow> frame_send \<Rightarrow> HandledCursor \<Rightarrow> LinkError + unit" where
  "write_handled parse_time j command send message =
     bind_res (map_err link_error_of_payload (encode_handled_payload parse_time j message)) (\<lambda>payload.
     map_err LE_Frame (send command payload))"

definition wait_disconnect :: "frame_read \<Rightarrow> LinkError + unit" where
  "wait_disconnect read =
     (case read of
        Inl FE_ConnectionClosed \<Rightarrow> Inr ()
      | Inl FE_IoTimedOut \<Rightarrow> Inr ()
      | Inl FE_IoWouldBlock \<Rightarrow> Inr ()
      | Inl error \<Rightarrow> Inl (LE_Frame error)
      | Inr _ \<Rightarrow> Inl (LE_Message (WL_Semantic ''unexpected frame'')))"

section \<open>Attach: prepare, write, commit\<close>

datatype PendingCommit =
  PC_Accept AdmittedLink
| PC_Reject WaiterLink WaiterLink
| PC_Replay

record PreparedAttach =
  pa_reply :: WaiterLink
  pa_session :: "LinkSession option"
  pa_lease_until :: "instant option"
  pa_pending :: PendingCommit
  pa_decision_now :: instant

text \<open>The reply and session of a \<open>ServeAttach\<close>; its reader and writer stay with the caller.\<close>

record ServeAttach =
  sa_reply :: WaiterLink
  sa_session :: "LinkSession option"

text \<open>
  \<open>OffsetDateTime::saturating_add\<close> of a non-negative duration: at most the last instant of
  the year 9999. A \<open>std\<close> duration of more than \<open>i64::MAX\<close> seconds counts as none.
\<close>

definition INSTANT_MAX :: instant where
  "INSTANT_MAX = 253402300799999999999"

definition elapsed_duration :: "nat \<Rightarrow> int" where
  "elapsed_duration nanos = (if nanos div 1000000000 < 2 ^ 63 then int nanos else 0)"

definition decision_instant :: "instant \<Rightarrow> nat \<Rightarrow> instant" where
  "decision_instant now elapsed = min (now + elapsed_duration elapsed) INSTANT_MAX"

definition session_of :: "AdmittedLink \<Rightarrow> LinkSession" where
  "session_of link = \<lparr>ls_link_id = al_link_id link, ls_arm_id = al_arm_id link,
     ls_generation = al_generation link\<rparr>"

definition prepare_attach ::
  "(string \<Rightarrow> instant option) \<Rightarrow> (instant \<Rightarrow> string) \<Rightarrow> string \<Rightarrow> LinkTable \<Rightarrow> WaiterLink \<Rightarrow> instant
    \<Rightarrow> nat \<Rightarrow> KnownArm list \<Rightarrow> LinkTable \<times> (LinkError + PreparedAttach)" where
  "prepare_attach parse_time format_time link_id t request now elapsed arms =
     (let decision_now = decision_instant now elapsed;
          t = drop_expired t decision_now
      in case decide_attach parse_time format_time link_id t request decision_now arms of
        Inl e \<Rightarrow> (t, Inl (LE_Message e))
      | Inr (AD_Accept link reply) \<Rightarrow>
          (t, Inr \<lparr>pa_reply = reply, pa_session = Some (session_of link),
             pa_lease_until = Some (al_lease_until link), pa_pending = PC_Accept link,
             pa_decision_now = decision_now\<rparr>)
      | Inr (AD_Replay reply session) \<Rightarrow>
          (t, Inr \<lparr>pa_reply = reply, pa_session = session,
             pa_lease_until = map_option al_lease_until (lt_current t), pa_pending = PC_Replay,
             pa_decision_now = decision_now\<rparr>)
      | Inr (AD_Reject request reply) \<Rightarrow>
          (t, Inr \<lparr>pa_reply = reply, pa_session = None, pa_lease_until = None,
             pa_pending = PC_Reject request reply, pa_decision_now = decision_now\<rparr>))"

definition lease_io_timeout :: "instant \<Rightarrow> instant \<Rightarrow> nat" where
  "lease_io_timeout lease_until now =
     (if lease_until \<le> now then 1000000
      else let nanos = lease_until - now in
        if nanos \<le> 0 \<or> 2 ^ 64 \<le> nanos then 1000000 else nat nanos)"

text \<open>
  \<open>set_timeout\<close> stands for the transport's \<open>set_read_timeout\<close> in nanoseconds.
\<close>

definition write_prepared_attach ::
  "(string \<Rightarrow> instant option) \<Rightarrow> json_codec \<Rightarrow> u16 \<Rightarrow> (nat \<Rightarrow> string + unit) \<Rightarrow> frame_send
    \<Rightarrow> PreparedAttach \<Rightarrow> LinkError + unit" where
  "write_prepared_attach parse_time j command set_timeout send prepared =
     bind_res (case pa_lease_until prepared of
         None \<Rightarrow> Inr ()
       | Some lease_until \<Rightarrow>
           map_err LE_Transport (set_timeout (lease_io_timeout lease_until (pa_decision_now prepared))))
       (\<lambda>_. write_waiter_link parse_time j command send (pa_reply prepared))"

definition commit_prepared_attach ::
  "LinkTable \<Rightarrow> PreparedAttach \<Rightarrow> bool \<Rightarrow> LinkTable \<times> ServeAttach option" where
  "commit_prepared_attach t prepared write_ok =
     (if \<not> write_ok then (t, None)
      else
        let served = Some \<lparr>sa_reply = pa_reply prepared, sa_session = pa_session prepared\<rparr> in
        case pa_pending prepared of
          PC_Accept link \<Rightarrow>
            if (case lt_current t of None \<Rightarrow> False
                | Some current \<Rightarrow> al_generation current > al_generation link)
            then (t, None)
            else (commit_attach t link, served)
        | PC_Reject request reply \<Rightarrow> (commit_reject t request reply, served)
        | PC_Replay \<Rightarrow> (t, served))"

definition finish_attach ::
  "(string \<Rightarrow> instant option) \<Rightarrow> (instant \<Rightarrow> string) \<Rightarrow> json_codec \<Rightarrow> u16 \<Rightarrow> (nat \<Rightarrow> string + unit)
    \<Rightarrow> frame_send \<Rightarrow> string \<Rightarrow> LinkTable \<Rightarrow> WaiterLink \<Rightarrow> instant \<Rightarrow> nat \<Rightarrow> KnownArm list
    \<Rightarrow> LinkTable \<times> (LinkError + ServeAttach)" where
  "finish_attach parse_time format_time j command set_timeout send link_id t request now elapsed arms =
     (case prepare_attach parse_time format_time link_id t request now elapsed arms of
        (t, Inl e) \<Rightarrow> (t, Inl e)
      | (t, Inr prepared) \<Rightarrow>
          (case commit_prepared_attach t prepared
              (is_ok (write_prepared_attach parse_time j command set_timeout send prepared)) of
            (t, None) \<Rightarrow> (t, Inl (LE_Message (WL_Semantic ''attach write failed'')))
          | (t, Some served) \<Rightarrow> (t, Inr served)))"

definition serve_attach ::
  "(string \<Rightarrow> instant option) \<Rightarrow> (instant \<Rightarrow> string) \<Rightarrow> json_codec \<Rightarrow> u16 \<Rightarrow> (nat \<Rightarrow> string + unit)
    \<Rightarrow> frame_send \<Rightarrow> string \<Rightarrow> frame_read \<Rightarrow> LinkTable \<Rightarrow> instant \<Rightarrow> nat \<Rightarrow> KnownArm list
    \<Rightarrow> LinkTable \<times> (LinkError + ServeAttach)" where
  "serve_attach parse_time format_time j command set_timeout send link_id read t now elapsed arms =
     (case read_waiter_link parse_time j command read of
        Inl e \<Rightarrow> (t, Inl e)
      | Inr request \<Rightarrow>
          finish_attach parse_time format_time j command set_timeout send link_id t request now elapsed arms)"

section \<open>One accepted connection\<close>

definition record_ack ::
  "(string \<Rightarrow> instant option) \<Rightarrow> (instant \<Rightarrow> string) \<Rightarrow> AckStore \<Rightarrow> HandledCursor \<Rightarrow> instant
    \<Rightarrow> AckStore \<times> (LinkError + HandledServe)" where
  "record_ack parse_time format_time acks request now =
     (case request of
        HC_Request _ _ _ _ _ _ _ _ \<Rightarrow>
          (case apply_handled_request parse_time format_time acks request now of
             (acks, r) \<Rightarrow> (acks, map_err LE_Handled r))
      | _ \<Rightarrow> (acks, Inl (LE_Handled (HE_Semantic ''expected request''))))"

datatype AcceptOutcome = AcceptAttached ServeAttach | AcceptAck HandledServe

definition serve_connection ::
  "(string \<Rightarrow> instant option) \<Rightarrow> (instant \<Rightarrow> string) \<Rightarrow> json_codec \<Rightarrow> u16 \<Rightarrow> (nat \<Rightarrow> string + unit)
    \<Rightarrow> frame_send \<Rightarrow> string \<Rightarrow> frame_read \<Rightarrow> LinkTable \<Rightarrow> AckStore \<Rightarrow> instant \<Rightarrow> nat
    \<Rightarrow> LinkTable \<times> AckStore \<times> (LinkError + AcceptOutcome)" where
  "serve_connection parse_time format_time j command set_timeout send link_id read t acks now elapsed =
     (case read_incoming parse_time j command read of
        Inl e \<Rightarrow> (t, acks, Inl e)
      | Inr (IncomingWaiter request) \<Rightarrow>
          (let arms = (case as_arm acks of None \<Rightarrow> [] | Some arm \<Rightarrow> [arm]) in
           case finish_attach parse_time format_time j command set_timeout send link_id t request now
               elapsed arms of
             (t, r) \<Rightarrow> (t, acks, bind_res r (\<lambda>served. Inr (AcceptAttached served))))
      | Inr (IncomingHandled request) \<Rightarrow>
          (case record_ack parse_time format_time acks request now of
             (acks, Inl e) \<Rightarrow> (t, acks, Inl e)
           | (acks, Inr served) \<Rightarrow>
               let _ = write_handled parse_time j command send (hs_reply served)
               in (t, acks, Inr (AcceptAck served))))"

text \<open>
  The two halves of a connection are isolated: an attach never touches the acknowledgements, and an
  acknowledgement never touches the table; a frame that does not decode touches neither.
\<close>

lemma serve_connection_isolated:
  assumes "serve_connection parse_time format_time j command set_timeout send link_id read t acks now elapsed
    = (t', acks', r)"
  shows "(case read_incoming parse_time j command read of
      Inl e \<Rightarrow> t' = t \<and> acks' = acks \<and> r = Inl e
    | Inr (IncomingWaiter m) \<Rightarrow> acks' = acks
    | Inr (IncomingHandled q) \<Rightarrow> t' = t)"
  using assms
  by (auto simp: serve_connection_def Let_def split: sum.splits Incoming.splits prod.splits)

section \<open>The accept thread beside the main loop\<close>

text \<open>
  The daemon has one accept thread, which prepares, writes and commits one attach at a time,
  and a main loop that drops links; they share the table and alternate at its lock. Between
  prepare and commit the lock is free, so a drop may fall in between.
\<close>

record LinkWorld =
  lw_table :: LinkTable
  lw_inflight :: "PreparedAttach option"

inductive link_step ::
  "(string \<Rightarrow> instant option) \<Rightarrow> (instant \<Rightarrow> string) \<Rightarrow> LinkWorld \<Rightarrow> LinkWorld \<Rightarrow> bool"
  for parse_time :: "string \<Rightarrow> instant option" and format_time :: "instant \<Rightarrow> string" where
  prepared: "prepare_attach parse_time format_time link_id t request now elapsed arms = (t', Inr p) \<Longrightarrow>
    link_step parse_time format_time \<lparr>lw_table = t, lw_inflight = None\<rparr>
      \<lparr>lw_table = t', lw_inflight = Some p\<rparr>"
| refused: "prepare_attach parse_time format_time link_id t request now elapsed arms = (t', Inl e) \<Longrightarrow>
    link_step parse_time format_time \<lparr>lw_table = t, lw_inflight = None\<rparr>
      \<lparr>lw_table = t', lw_inflight = None\<rparr>"
| commit: "link_step parse_time format_time \<lparr>lw_table = t, lw_inflight = Some p\<rparr>
    \<lparr>lw_table = fst (commit_prepared_attach t p write_ok), lw_inflight = None\<rparr>"
| loop_drop_current: "link_step parse_time format_time \<lparr>lw_table = t, lw_inflight = i\<rparr>
    \<lparr>lw_table = drop_current t, lw_inflight = i\<rparr>"
| loop_drop_session: "link_step parse_time format_time \<lparr>lw_table = t, lw_inflight = i\<rparr>
    \<lparr>lw_table = drop_session t session, lw_inflight = i\<rparr>"

inductive link_reach ::
  "(string \<Rightarrow> instant option) \<Rightarrow> (instant \<Rightarrow> string) \<Rightarrow> LinkWorld \<Rightarrow> bool"
  for parse_time :: "string \<Rightarrow> instant option" and format_time :: "instant \<Rightarrow> string" where
  start: "link_reach parse_time format_time \<lparr>lw_table = link_table_default, lw_inflight = None\<rparr>"
| step: "link_reach parse_time format_time w \<Longrightarrow> link_step parse_time format_time w w' \<Longrightarrow>
    link_reach parse_time format_time w'"

text \<open>The tables that atomic attaches and drops reach.\<close>

definition atomic :: "(string \<Rightarrow> instant option) \<Rightarrow> (instant \<Rightarrow> string) \<Rightarrow> LinkTable \<Rightarrow> bool" where
  "atomic parse_time format_time t \<longleftrightarrow>
     (\<exists>ops. t = link_run parse_time format_time link_table_default ops)"

lemma atomic_start [simp]: "atomic parse_time format_time link_table_default"
  unfolding atomic_def by (rule exI [of _ "[]"]) simp

lemma atomic_advance:
  assumes "atomic parse_time format_time t"
  shows "atomic parse_time format_time (link_advance parse_time format_time t op)"
proof -
  from assms obtain ops where "t = link_run parse_time format_time link_table_default ops"
    unfolding atomic_def ..
  then have "link_advance parse_time format_time t op =
      link_run parse_time format_time link_table_default (ops @ [op])" by simp
  then show ?thesis unfolding atomic_def by blast
qed

lemma atomic_drop:
  "atomic parse_time format_time t \<Longrightarrow> atomic parse_time format_time (drop_current t)"
  "atomic parse_time format_time t \<Longrightarrow> atomic parse_time format_time (drop_session t session)"
  "atomic parse_time format_time t \<Longrightarrow> atomic parse_time format_time (drop_expired t now)"
  using atomic_advance [of parse_time format_time t OpDropCurrent]
    atomic_advance [of parse_time format_time t "OpDropSession session"]
    atomic_advance [of parse_time format_time t "OpDropExpired now"]
  by simp_all

text \<open>
  An exchange in flight: committing it now would give an atomic table, and an acceptance in
  flight finds no current link.
\<close>

definition inflight_ok ::
  "(string \<Rightarrow> instant option) \<Rightarrow> (instant \<Rightarrow> string) \<Rightarrow> LinkTable \<Rightarrow> PreparedAttach \<Rightarrow> bool" where
  "inflight_ok parse_time format_time t p \<longleftrightarrow>
     atomic parse_time format_time (fst (commit_prepared_attach t p True))
     \<and> (\<forall>link. pa_pending p = PC_Accept link \<longrightarrow> lt_current t = None)"

lemma drop_none:
  assumes "lt_current t = None"
  shows "drop_current t = t" "drop_session t session = t" "drop_expired t now = t"
  using assms by (cases t; simp add: drop_current_def drop_session_def drop_expired_def)+

lemma drop_commit_reject:
  "commit_reject (drop_current t) m reply = drop_current (commit_reject t m reply)"
  "commit_reject (drop_session t session) m reply = drop_session (commit_reject t m reply) session"
  by (cases m; cases "lt_current t";
      simp add: commit_reject_def drop_current_def drop_session_def)+

lemma inflight_ok_drop:
  assumes "inflight_ok parse_time format_time t p"
  shows "inflight_ok parse_time format_time (drop_current t) p"
    "inflight_ok parse_time format_time (drop_session t session) p"
  using assms
  by (cases "pa_pending p";
      auto simp: inflight_ok_def commit_prepared_attach_def drop_none drop_commit_reject atomic_drop)+

lemma prepare_attach_inflight:
  assumes "prepare_attach parse_time format_time link_id t request now elapsed arms = (t', Inr p)"
    and "atomic parse_time format_time t"
  shows "inflight_ok parse_time format_time t' p"
proof -
  let ?now = "decision_instant now elapsed"
  have t': "t' = drop_expired t ?now"
    using assms(1) by (auto simp: prepare_attach_def Let_def split: sum.splits AttachDecision.splits)
  have adv: "atomic parse_time format_time
      (fst (admit_attach parse_time format_time link_id t request ?now arms))"
    using atomic_advance [OF assms(2), of "OpAttach link_id request ?now arms"] by simp
  have d: "atomic parse_time format_time t'" unfolding t' by (rule atomic_drop) (rule assms(2))
  show ?thesis
  proof (cases "decide_attach parse_time format_time link_id t' request ?now arms")
    case (Inl e)
    with assms(1) t' show ?thesis by (simp add: prepare_attach_def)
  next
    case (Inr decision)
    show ?thesis
    proof (cases decision)
      case (AD_Accept link reply)
      from Inr [unfolded AD_Accept] have "lt_current t' = None"
        by (auto simp: decide_attach_Accept_iff grantable_def)
      with assms(1) adv Inr AD_Accept t' show ?thesis
        by (auto simp: prepare_attach_def admit_attach_def inflight_ok_def
            commit_prepared_attach_def Let_def)
    next
      case (AD_Replay reply session)
      with assms(1) d Inr t' show ?thesis
        by (auto simp: prepare_attach_def inflight_ok_def commit_prepared_attach_def Let_def)
    next
      case (AD_Reject m reply)
      with assms(1) adv Inr t' show ?thesis
        by (auto simp: prepare_attach_def admit_attach_def inflight_ok_def
            commit_prepared_attach_def Let_def)
    qed
  qed
qed

lemma prepare_attach_atomic:
  "prepare_attach parse_time format_time link_id t request now elapsed arms = (t', r) \<Longrightarrow>
    atomic parse_time format_time t \<Longrightarrow> atomic parse_time format_time t'"
  by (auto simp: prepare_attach_def Let_def atomic_drop split: sum.splits AttachDecision.splits)

lemma link_reach_ok:
  assumes "link_reach parse_time format_time w"
  shows "atomic parse_time format_time (lw_table w)
    \<and> (\<forall>p. lw_inflight w = Some p \<longrightarrow> inflight_ok parse_time format_time (lw_table w) p)"
  using assms
proof (induction rule: link_reach.induct)
  case start
  show ?case by simp
next
  case (step w w')
  from step(2) step.IH show ?case
  proof (induction rule: link_step.induct)
    case (commit t p write_ok)
    then show ?case
      by (cases write_ok) (auto simp: inflight_ok_def commit_prepared_attach_def)
  qed (auto intro: prepare_attach_inflight prepare_attach_atomic atomic_drop inflight_ok_drop)
qed

text \<open>
  C4: the lock may be released while the reply is written. Every table the daemon reaches,
  with drops falling anywhere between the preparation of an attach and its commit, is one that
  atomic attaches and drops reach, and an exchange whose reply was written is always
  committed: the guard against a newer link never discards it.
\<close>

theorem prepared_attach_linearizable:
  assumes "link_reach parse_time format_time w"
  shows "(\<exists>ops. lw_table w = link_run parse_time format_time link_table_default ops)
    \<and> (\<forall>p. lw_inflight w = Some p \<longrightarrow>
        (\<exists>t' ops. commit_prepared_attach (lw_table w) p True =
            (t', Some \<lparr>sa_reply = pa_reply p, sa_session = pa_session p\<rparr>)
          \<and> t' = link_run parse_time format_time link_table_default ops))"
proof -
  from link_reach_ok [OF assms] have a: "atomic parse_time format_time (lw_table w)"
    and i: "\<And>p. lw_inflight w = Some p \<Longrightarrow> inflight_ok parse_time format_time (lw_table w) p"
    by blast+
  have "\<exists>t' ops. commit_prepared_attach (lw_table w) p True =
            (t', Some \<lparr>sa_reply = pa_reply p, sa_session = pa_session p\<rparr>)
          \<and> t' = link_run parse_time format_time link_table_default ops"
    if "lw_inflight w = Some p" for p
    using i [OF that]
    by (cases "pa_pending p")
      (auto simp: inflight_ok_def commit_prepared_attach_def atomic_def)
  with a show ?thesis unfolding atomic_def by blast
qed

text \<open>
  A failed write leaves no trace of the exchange: no link, no session and no history entry.
\<close>

lemma finish_attach_write_failed:
  assumes "prepare_attach parse_time format_time link_id t request now elapsed arms = (t', Inr p)"
    and "\<not> is_ok (write_prepared_attach parse_time j command set_timeout send p)"
  shows "finish_attach parse_time format_time j command set_timeout send link_id t request now elapsed arms
    = (drop_expired t (decision_instant now elapsed), Inl (LE_Message (WL_Semantic ''attach write failed'')))"
proof -
  have "t' = drop_expired t (decision_instant now elapsed)"
    using assms(1) by (auto simp: prepare_attach_def Let_def split: sum.splits AttachDecision.splits)
  with assms show ?thesis by (simp add: finish_attach_def commit_prepared_attach_def)
qed

definition sample_prepared :: PreparedAttach where
  "sample_prepared = \<lparr>pa_reply = al_last_accepted sample_link, pa_session = Some (session_of sample_link),
     pa_lease_until = Some 5, pa_pending = PC_Accept sample_link, pa_decision_now = 0\<rparr>"

lemma sample_prepared_ok:
  "prepare_attach unary_parse unary_format (sample_ulid (CHR ''9'')) link_table_default
     (sample_attach (CHR ''1'')) 0 0 [sample_arm] = (link_table_default, Inr sample_prepared)"
proof -
  have "decide_attach unary_parse unary_format (sample_ulid (CHR ''9'')) link_table_default
      (sample_attach (CHR ''1'')) 0 [sample_arm] =
      Inr (AD_Accept sample_link (al_last_accepted sample_link))"
    by code_simp
  moreover have "decision_instant 0 0 = 0"
    by (simp add: decision_instant_def elapsed_duration_def INSTANT_MAX_def)
  moreover have "drop_expired link_table_default 0 = link_table_default"
    by (simp add: drop_expired_def link_table_default_def)
  ultimately show ?thesis
    by (simp add: prepare_attach_def sample_prepared_def sample_facts(5))
qed

lemma prepared_attach_linearizable_witness:
  "\<exists>t' ops. commit_prepared_attach (drop_current link_table_default) sample_prepared True =
      (t', Some \<lparr>sa_reply = pa_reply sample_prepared, sa_session = pa_session sample_prepared\<rparr>)
    \<and> t' = link_run unary_parse unary_format link_table_default ops"
proof -
  have "link_reach unary_parse unary_format
      \<lparr>lw_table = link_table_default, lw_inflight = Some sample_prepared\<rparr>"
    by (rule link_reach.step [OF link_reach.start link_step.prepared]) (rule sample_prepared_ok)
  then have "link_reach unary_parse unary_format
      \<lparr>lw_table = drop_current link_table_default, lw_inflight = Some sample_prepared\<rparr>"
    by (rule link_reach.step) (rule link_step.loop_drop_current)
  from prepared_attach_linearizable [OF this, THEN conjunct2, THEN spec, of sample_prepared]
  show ?thesis by (simp only: LinkWorld.select_convs simp_thms)
qed

end
