(* ===== verification/Deliver.thy ===== *)
theory Deliver
  imports Link
begin

text \<open>
  Stable \<open>deliver_events\<close> batches, \<open>gearwit-host/src/deliver.rs\<close>: the ledger holds at most one
  batch; it is resent unchanged on successor links until the waiter reports a terminal outcome.
  \<open>delivery_id\<close> is the fresh ULID of a new batch.
\<close>

section \<open>The ledger\<close>

datatype DeliveryAttempt = DA_Awaiting | DA_Lost | DA_Terminal string

record PendingDelivery =
  pd_delivery_id :: string
  pd_link_id :: string
  pd_message :: WaiterLink
  pd_attempt :: DeliveryAttempt

record DeliveryLedger =
  dl_pending :: "PendingDelivery option"

definition ledger_default :: DeliveryLedger where
  "ledger_default = \<lparr>dl_pending = None\<rparr>"

definition should_redeliver :: "DeliveryLedger \<Rightarrow> bool" where
  "should_redeliver ledger =
     (case dl_pending ledger of
        None \<Rightarrow> False
      | Some pending \<Rightarrow> pd_attempt pending \<in> {DA_Awaiting, DA_Lost})"

definition prepare_delivery ::
  "(string \<Rightarrow> instant option) \<Rightarrow> (instant \<Rightarrow> string) \<Rightarrow> string \<Rightarrow> DeliveryLedger \<Rightarrow> AdmittedLink \<Rightarrow> string
    \<Rightarrow> ProviderEvent list \<Rightarrow> instant \<Rightarrow> DeliveryLedger \<times> (WaiterLinkError + WaiterLink)" where
  "prepare_delivery parse_time format_time delivery_id ledger link signal_id events now =
     (if should_redeliver ledger then (ledger, Inl (WL_Semantic ''delivery pending''))
      else (case last_event_ref events of
        None \<Rightarrow> (ledger, Inl (WL_Semantic ''empty delivery''))
      | Some newest \<Rightarrow>
          let message = DeliverEvents SCHEMA delivery_id (al_link_id link) (al_arm_id link)
                (al_generation link) signal_id (al_route link) events newest (format_time now)
          in (case validate parse_time message of
                Inl e \<Rightarrow> (ledger, Inl e)
              | Inr _ \<Rightarrow>
                  (\<lparr>dl_pending = Some \<lparr>pd_delivery_id = delivery_id, pd_link_id = al_link_id link,
                      pd_message = message, pd_attempt = DA_Awaiting\<rparr>\<rparr>,
                   Inr message))))"

text \<open>
  The stored message is rewritten in place before it is validated, so an error of \<open>validate\<close>
  leaves the rewritten \<open>link_id\<close> and \<open>attempted_at\<close> behind.
\<close>

definition redeliver_pending ::
  "(string \<Rightarrow> instant option) \<Rightarrow> (instant \<Rightarrow> string) \<Rightarrow> DeliveryLedger \<Rightarrow> AdmittedLink \<Rightarrow> instant
    \<Rightarrow> DeliveryLedger \<times> (WaiterLinkError + WaiterLink)" where
  "redeliver_pending parse_time format_time ledger link now =
     (case dl_pending ledger of
        None \<Rightarrow> (ledger, Inl (WL_Semantic ''no pending delivery''))
      | Some pending \<Rightarrow>
          (case pd_attempt pending of
             DA_Terminal _ \<Rightarrow> (ledger, Inl (WL_Semantic ''delivery already terminal''))
           | _ \<Rightarrow>
             (case pd_message pending of
                DeliverEvents schema delivery_id _ arm_id generation signal_id route events newest _ \<Rightarrow>
                  if arm_id \<noteq> al_arm_id link \<or> generation \<noteq> al_generation link \<or> route \<noteq> al_route link
                  then (ledger, Inl (WL_Semantic ''successor authority mismatch''))
                  else
                    let message = DeliverEvents schema delivery_id (al_link_id link) arm_id generation
                          signal_id route events newest (format_time now)
                    in (case validate parse_time message of
                          Inl e \<Rightarrow> (\<lparr>dl_pending = Some (pending\<lparr>pd_message := message\<rparr>)\<rparr>, Inl e)
                        | Inr _ \<Rightarrow>
                            (\<lparr>dl_pending = Some (pending\<lparr>pd_message := message,
                                pd_link_id := al_link_id link, pd_attempt := DA_Awaiting\<rparr>)\<rparr>,
                             Inr message))
              | _ \<Rightarrow> (ledger, Inl (WL_Semantic ''expected deliver_events'')))))"

definition send_delivery ::
  "(string \<Rightarrow> instant option) \<Rightarrow> json_codec \<Rightarrow> u16 \<Rightarrow> frame_send \<Rightarrow> WaiterLink \<Rightarrow> LinkError + unit" where
  "send_delivery parse_time j command send message =
     (case message of
        DeliverEvents _ _ _ _ _ _ _ _ _ _ \<Rightarrow> write_waiter_link parse_time j command send message
      | _ \<Rightarrow> Inl (LE_Message (WL_Semantic ''expected deliver_events'')))"

definition record_delivery_result ::
  "(string \<Rightarrow> instant option) \<Rightarrow> DeliveryLedger \<Rightarrow> WaiterLink \<Rightarrow> DeliveryLedger \<times> (WaiterLinkError + unit)"
where
  "record_delivery_result parse_time ledger result =
     (case validate parse_time result of
        Inl e \<Rightarrow> (ledger, Inl e)
      | Inr _ \<Rightarrow>
        (case result of
           DeliveryResult _ delivery_id link_id signal_id outcome _ \<Rightarrow>
             (case dl_pending ledger of
                None \<Rightarrow> (ledger, Inl (WL_Semantic ''no pending delivery''))
              | Some pending \<Rightarrow>
                (case pd_message pending of
                   DeliverEvents _ _ _ _ _ pending_signal _ _ _ _ \<Rightarrow>
                     if pd_delivery_id pending \<noteq> delivery_id
                     then (ledger, Inl (WL_Semantic ''delivery_id mismatch''))
                     else if pd_link_id pending \<noteq> link_id
                     then (ledger, Inl (WL_Semantic ''link_id mismatch''))
                     else if pending_signal \<noteq> signal_id
                     then (ledger, Inl (WL_Semantic ''signal_id mismatch''))
                     else (case pd_attempt pending of
                       DA_Awaiting \<Rightarrow>
                         (\<lparr>dl_pending = Some (pending\<lparr>pd_attempt :=
                             (if outcome = ''link_lost'' then DA_Lost else DA_Terminal outcome)\<rparr>)\<rparr>,
                          Inr ())
                     | DA_Lost \<Rightarrow>
                         (ledger, if outcome = ''link_lost'' then Inr ()
                                  else Inl (WL_Semantic ''lost attempt''))
                     | DA_Terminal existing \<Rightarrow>
                         (ledger, if existing = outcome then Inr ()
                                  else Inl (WL_Semantic ''conflicting delivery outcome'')))
                 | _ \<Rightarrow> (ledger, Inl (WL_Semantic ''expected deliver_events''))))
         | _ \<Rightarrow> (ledger, Inl (WL_Semantic ''expected delivery_result''))))"

section \<open>Operations\<close>

datatype DeliverOp =
  OpPrepare string AdmittedLink string "ProviderEvent list" instant
| OpRedeliver AdmittedLink instant
| OpResult WaiterLink

fun deliver_step ::
  "(string \<Rightarrow> instant option) \<Rightarrow> (instant \<Rightarrow> string) \<Rightarrow> DeliveryLedger \<Rightarrow> DeliverOp \<Rightarrow> DeliveryLedger" where
  "deliver_step parse_time format_time l (OpPrepare d link sid events now) =
     fst (prepare_delivery parse_time format_time d l link sid events now)"
| "deliver_step parse_time format_time l (OpRedeliver link now) =
     fst (redeliver_pending parse_time format_time l link now)"
| "deliver_step parse_time format_time l (OpResult result) =
     fst (record_delivery_result parse_time l result)"

abbreviation deliver_run ::
  "(string \<Rightarrow> instant option) \<Rightarrow> (instant \<Rightarrow> string) \<Rightarrow> DeliveryLedger \<Rightarrow> DeliverOp list \<Rightarrow> DeliveryLedger" where
  "deliver_run parse_time format_time \<equiv> foldl (deliver_step parse_time format_time)"

text \<open>
  Two pending deliveries carry the same batch: same delivery id, and messages that differ at
  most in the link they were attempted on and when.
\<close>

fun on_link :: "WaiterLink \<Rightarrow> string \<Rightarrow> string \<Rightarrow> WaiterLink" where
  "on_link (DeliverEvents s d _ a g sid route events newest _) link_id at =
     DeliverEvents s d link_id a g sid route events newest at"
| "on_link m _ _ = m"

definition same_batch :: "PendingDelivery \<Rightarrow> PendingDelivery \<Rightarrow> bool" where
  "same_batch p q \<longleftrightarrow>
     pd_delivery_id q = pd_delivery_id p
     \<and> (\<exists>link_id at. pd_message q = on_link (pd_message p) link_id at)"

definition settled :: "PendingDelivery \<Rightarrow> bool" where
  "settled p \<longleftrightarrow> (\<exists>outcome. pd_attempt p = DA_Terminal outcome)"

lemma on_link_on_link [simp]: "on_link (on_link m l a) l' a' = on_link m l' a'"
  by (cases m) simp_all

lemma on_link_self: "\<exists>l a. m = on_link m l a"
  by (cases m) auto

lemma same_batch_refl [simp]: "same_batch p p"
  using on_link_self by (auto simp: same_batch_def)

lemma same_batch_trans: "same_batch p q \<Longrightarrow> same_batch q r \<Longrightarrow> same_batch p r"
  by (auto simp: same_batch_def; blast)

lemma should_redeliver_iff:
  "should_redeliver l \<longleftrightarrow> (\<exists>p. dl_pending l = Some p \<and> \<not> settled p)"
proof (cases "dl_pending l")
  case (Some p)
  then show ?thesis by (cases "pd_attempt p") (auto simp: should_redeliver_def settled_def)
qed (simp add: should_redeliver_def)

text \<open>One operation: the batch stays, or it was settled and a prepared batch replaces it.\<close>

lemma deliver_step_batch:
  assumes "dl_pending l = Some p" and "\<not> settled p"
  shows "\<exists>q. dl_pending (deliver_step parse_time format_time l op) = Some q \<and> same_batch p q"
proof (cases op)
  case (OpPrepare d link sid events now)
  with assms show ?thesis by (simp add: prepare_delivery_def should_redeliver_iff)
next
  case (OpRedeliver link now)
  have "on_link (DeliverEvents s d l0 a g sid route events newest t) (al_link_id link) (format_time now)
      = DeliverEvents s d (al_link_id link) a g sid route events newest (format_time now)"
    for s d l0 a g sid route events newest t by simp
  with OpRedeliver assms show ?thesis
    by (cases "pd_message p"; cases "pd_attempt p")
      (auto simp: redeliver_pending_def same_batch_def settled_def Let_def
        intro: on_link_self split: sum.splits)
next
  case (OpResult result)
  with assms show ?thesis
    by (auto simp: record_delivery_result_def same_batch_def
        intro: on_link_self split: sum.splits WaiterLink.splits DeliveryAttempt.splits)
qed

lemma settled_kept:
  assumes "dl_pending l = Some p" and "settled p"
  shows "redeliver_pending parse_time format_time l link now =
      (l, Inl (WL_Semantic ''delivery already terminal''))"
    and "fst (record_delivery_result parse_time l result) = l"
  using assms
  by (auto simp: redeliver_pending_def record_delivery_result_def settled_def
      split: sum.splits WaiterLink.splits)

text \<open>
  C8: a batch is delivered until it is settled. From a ledger with a pending batch, whatever
  is prepared, resent or reported, the ledger never becomes empty, and it holds the same batch,
  with the same events for the same arm, generation, signal and route, unless the batch had
  received a terminal outcome at some point before.
\<close>

theorem batch_kept_until_settled:
  assumes "dl_pending l = Some p"
  shows "\<exists>q. dl_pending (deliver_run parse_time format_time l ops) = Some q
    \<and> (same_batch p q
       \<or> (\<exists>ops1 ops2 s. ops = ops1 @ ops2 \<and> dl_pending (deliver_run parse_time format_time l ops1) = Some s
            \<and> same_batch p s \<and> settled s))"
proof -
  have some: "dl_pending (deliver_step parse_time format_time l op) \<noteq> None"
    if "dl_pending l = Some p" for l p op
  proof (cases "settled p")
    case True
    with that settled_kept [OF that True] show ?thesis
      by (cases op) (auto simp: prepare_delivery_def Let_def split: option.splits sum.splits)
  next
    case False
    with deliver_step_batch [OF that False, of parse_time format_time op] show ?thesis by auto
  qed
  show ?thesis
    using assms
  proof (induction ops rule: rev_induct)
    case Nil
    then show ?case by simp
  next
    case (snoc op ops)
    then obtain q where q: "dl_pending (deliver_run parse_time format_time l ops) = Some q"
      and dest: "same_batch p q \<or> (\<exists>ops1 ops2 s. ops = ops1 @ ops2
        \<and> dl_pending (deliver_run parse_time format_time l ops1) = Some s \<and> same_batch p s \<and> settled s)"
      by blast
    from some [OF q, of op] obtain q' where
      q': "dl_pending (deliver_run parse_time format_time l (ops @ [op])) = Some q'" by auto
    show ?case
    proof (cases "same_batch p q \<and> \<not> settled q")
      case True
      with deliver_step_batch [OF q, of parse_time format_time op] q' show ?thesis
        by (auto dest: same_batch_trans)
    next
      case False
      with dest q have "\<exists>ops1 ops2 s. ops @ [op] = ops1 @ ops2
        \<and> dl_pending (deliver_run parse_time format_time l ops1) = Some s \<and> same_batch p s \<and> settled s"
        by (metis append.assoc)
      with q' show ?thesis by blast
    qed
  qed
qed

text \<open>
  A terminal outcome is final. Once a batch is settled, redelivery is refused, results
  reported for it change nothing, and of those that name it correctly exactly the replays of
  its outcome are accepted; only preparing a new batch moves the ledger on.
\<close>

lemma settled_outcome_final:
  assumes "dl_pending l = Some p" and "pd_attempt p = DA_Terminal outcome"
    and "pd_message p = DeliverEvents s d l0 a g sid route events newest t"
    and "list_all (\<lambda>op. case op of OpPrepare _ _ _ _ _ \<Rightarrow> False | _ \<Rightarrow> True) ops"
    and "message_valid parse_time (DeliveryResult s' (pd_delivery_id p) (pd_link_id p) sid outcome' t')"
  shows "deliver_run parse_time format_time l ops = l
    \<and> record_delivery_result parse_time l (DeliveryResult s' (pd_delivery_id p) (pd_link_id p) sid outcome' t')
      = (l, if outcome = outcome' then Inr () else Inl (WL_Semantic ''conflicting delivery outcome''))"
proof
  have set: "settled p" using assms(2) by (simp add: settled_def)
  show "deliver_run parse_time format_time l ops = l"
    using assms(4)
  proof (induction ops)
    case Nil
    then show ?case by simp
  next
    case (Cons op ops)
    then have "deliver_step parse_time format_time l op = l"
      by (cases op) (simp_all add: settled_kept [OF assms(1) set])
    with Cons show ?case by simp
  qed
  from assms(5) have "validate parse_time (DeliveryResult s' (pd_delivery_id p) (pd_link_id p) sid outcome' t')
      = Inr ()" by (simp add: result_simps del: message_valid.simps)
  with assms(1-3) show "record_delivery_result parse_time l
      (DeliveryResult s' (pd_delivery_id p) (pd_link_id p) sid outcome' t')
    = (l, if outcome = outcome' then Inr () else Inl (WL_Semantic ''conflicting delivery outcome''))"
    by (simp add: record_delivery_result_def)
qed

section \<open>Witnesses\<close>

definition sample_event :: "string \<Rightarrow> ProviderEvent" where
  "sample_event ref = \<lparr>pe_provider = ''mattermost'', pe_event_ref = ref, pe_actor = None,
     pe_observed_at = ''x'', pe_body = ''hello''\<rparr>"

definition sample_deliver :: DeliverOp where
  "sample_deliver = OpPrepare (sample_ulid (CHR ''D'')) sample_link (sample_ulid (CHR ''S''))
     [sample_event ''e1'', sample_event ''e2''] 1"

definition sample_outcome :: "string \<Rightarrow> WaiterLink" where
  "sample_outcome outcome = DeliveryResult SCHEMA (sample_ulid (CHR ''D'')) (sample_ulid (CHR ''9''))
     (sample_ulid (CHR ''S'')) outcome ''x''"

definition sample_pending :: "DeliveryAttempt \<Rightarrow> PendingDelivery" where
  "sample_pending attempt = \<lparr>pd_delivery_id = sample_ulid (CHR ''D''), pd_link_id = sample_ulid (CHR ''9''),
     pd_message = DeliverEvents SCHEMA (sample_ulid (CHR ''D'')) (sample_ulid (CHR ''9''))
       (sample_ulid (CHR ''A'')) 1 (sample_ulid (CHR ''S'')) ''return_foreground''
       [sample_event ''e1'', sample_event ''e2''] ''e2'' ''x'',
     pd_attempt = attempt\<rparr>"

lemma sample_ledgers:
  "deliver_run unary_parse unary_format ledger_default [sample_deliver] =
     \<lparr>dl_pending = Some (sample_pending DA_Awaiting)\<rparr>"
  "deliver_run unary_parse unary_format ledger_default
      [sample_deliver, OpResult (sample_outcome ''return_completed'')] =
     \<lparr>dl_pending = Some (sample_pending (DA_Terminal ''return_completed''))\<rparr>"
  "message_valid unary_parse (sample_outcome ''return_failed'')"
  by code_simp+

lemma batch_kept_until_settled_witness:
  "\<exists>q. dl_pending (deliver_run unary_parse unary_format
      (deliver_run unary_parse unary_format ledger_default [sample_deliver])
      [OpResult (sample_outcome ''link_lost''), OpRedeliver sample_link 2]) = Some q
    \<and> pd_delivery_id q = sample_ulid (CHR ''D'')"
proof -
  have p: "dl_pending (deliver_run unary_parse unary_format ledger_default [sample_deliver]) =
      Some (sample_pending DA_Awaiting)"
    by (simp only: sample_ledgers DeliveryLedger.select_convs)
  have lost: "\<not> (\<exists>ops1 ops2 s. [OpResult (sample_outcome ''link_lost''), OpRedeliver sample_link 2] = ops1 @ ops2
      \<and> dl_pending (deliver_run unary_parse unary_format
          (deliver_run unary_parse unary_format ledger_default [sample_deliver]) ops1) = Some s \<and> settled s)"
  proof -
    have "should_redeliver (deliver_run unary_parse unary_format
        (deliver_run unary_parse unary_format ledger_default [sample_deliver]) [])"
      "should_redeliver (deliver_run unary_parse unary_format
        (deliver_run unary_parse unary_format ledger_default [sample_deliver])
        [OpResult (sample_outcome ''link_lost'')])"
      "should_redeliver (deliver_run unary_parse unary_format
        (deliver_run unary_parse unary_format ledger_default [sample_deliver])
        [OpResult (sample_outcome ''link_lost''), OpRedeliver sample_link 2])"
      by code_simp+
    then show ?thesis
      by (auto simp: should_redeliver_iff Cons_eq_append_conv simp del: foldl_Cons)
  qed
  from batch_kept_until_settled [OF p, of unary_parse unary_format
      "[OpResult (sample_outcome ''link_lost''), OpRedeliver sample_link 2]"] lost
  obtain q where q: "dl_pending (deliver_run unary_parse unary_format
      (deliver_run unary_parse unary_format ledger_default [sample_deliver])
      [OpResult (sample_outcome ''link_lost''), OpRedeliver sample_link 2]) = Some q"
    and "same_batch (sample_pending DA_Awaiting) q" by blast
  then have "pd_delivery_id q = sample_ulid (CHR ''D'')"
    by (simp add: same_batch_def sample_pending_def)
  with q show ?thesis by blast
qed

end
