(* ===== verification/Claims.thy ===== *)
theory Claims
  imports Controller Messages
begin

text \<open>
  Claims of the persistence port, the first part of \<open>gearwit-host/src/persist.rs\<close>: claim records,
  bounded payloads, coverage evidence and drain witnesses, the canonical encodings that are
  digested, and the coverage checks. \<open>blake3\<close> is not under \<open>src/\<close>: it is a parameter from the
  hashed bytes to the digest, and each digest is split into the byte string it hashes and the
  hash of it, so that injectivity is a theorem about the code's encoding.
\<close>

section \<open>Records\<close>

record PersistedArm =
  pm_arm_id :: string
  pm_generation :: u64
  pm_seat_id :: string
  pm_capability :: ManagedCapability
  pm_coverage_until :: instant

record ClaimDrainWitness =
  dw_provider :: string
  dw_drain_filter_scope :: string
  dw_event_refs :: "string list"
  dw_source_evidence_id :: bytes

record ClaimCoverageEvidence =
  ce_request_id :: string
  ce_arm_id :: string
  ce_generation :: u64
  ce_signal_id :: string
  ce_provider :: string
  ce_drain_filter_scope :: string
  ce_drain_baseline :: string
  ce_event_batch_digest :: bytes
  ce_covered_through :: string
  ce_source_evidence_id :: bytes

record PersistedClaimRecord =
  pc_attempt_id :: string
  pc_request_id :: string
  pc_arm_id :: string
  pc_generation :: u64
  pc_signal_id :: string
  pc_event_refs :: "string list"
  pc_claim_digest :: bytes
  pc_payload_ref :: bytes
  pc_claimed_at :: instant
  pc_coverage :: "ClaimCoverageEvidence option"
  pc_drain_witness :: "ClaimDrainWitness option"

record ProviderEventRecord =
  pv_event_ref :: string
  pv_provider :: string
  pv_actor :: "string option"
  pv_observed_at :: instant
  pv_body :: string

record BoundedClaimPayload =
  bp_events :: "ProviderEventRecord list"
  bp_aggregate_body_bytes :: nat

record ClaimAdmission =
  cl_request_id :: string
  cl_arm_id :: string
  cl_generation :: u64
  cl_signal_id :: string
  cl_event_refs :: "string list"
  cl_claim_digest :: bytes
  cl_payload :: BoundedClaimPayload
  cl_claimed_at :: instant
  cl_coverage :: "ClaimCoverageEvidence option"
  cl_drain_witness :: "ClaimDrainWitness option"

section \<open>Admission of wire events\<close>

definition event_record_try_from ::
  "(string \<Rightarrow> instant option) \<Rightarrow> ProviderEvent \<Rightarrow> string + ProviderEventRecord" where
  "event_record_try_from parse_time event =
     (if length (pe_observed_at event) > 64 then Inl ''timestamp exceeds bound''
      else (case parse_time (pe_observed_at event) of
        None \<Rightarrow> Inl ''timestamp is not RFC 3339''
      | Some observed_at \<Rightarrow>
          bind_res (event_ref_new (pe_event_ref event)) (\<lambda>event_ref.
          bind_res (provider_name_new (pe_provider event)) (\<lambda>provider.
          bind_res (case pe_actor event of None \<Rightarrow> Inr None
              | Some actor \<Rightarrow> bind_res (actor_name_new actor) (\<lambda>actor. Inr (Some actor))) (\<lambda>actor.
          bind_res (bounded_body_new 4096 (pe_body event)) (\<lambda>body.
          Inr \<lparr>pv_event_ref = event_ref, pv_provider = provider, pv_actor = actor,
               pv_observed_at = observed_at, pv_body = body\<rparr>))))))"

definition claim_payload_try_from :: "ProviderEventRecord list \<Rightarrow> string + BoundedClaimPayload" where
  "claim_payload_try_from events =
     (let aggregate = sum_list (map (\<lambda>event. length (pv_body event)) events) in
      bind_res (bounded_vec_try_from 1 64 events) (\<lambda>events.
      bind_res (bounded_usize_try_from 0 131072 aggregate) (\<lambda>aggregate.
      Inr \<lparr>bp_events = events, bp_aggregate_body_bytes = aggregate\<rparr>)))"

section \<open>Canonical encodings\<close>

text \<open>Little-endian bytes of a \<open>u64\<close> and of an \<open>i128\<close>.\<close>

definition u64_le :: "u64 \<Rightarrow> bytes" where
  "u64_le w = map (\<lambda>i. ucast (drop_bit (8 * i) w)) [0..<8]"

definition i128_le :: "int \<Rightarrow> bytes" where
  "i128_le t = map (\<lambda>i. word_of_int (drop_bit (8 * i) t)) [0..<16]"

definition mac_field :: "bytes \<Rightarrow> bytes" where
  "mac_field value = u64_le (of_nat (length value)) @ value"

text \<open>\<open>update\<close> with a domain tag and then one \<open>mac_field\<close> per field.\<close>

definition frames :: "string \<Rightarrow> bytes list \<Rightarrow> bytes" where
  "frames tag parts = string_bytes tag @ [0] @ concat (map mac_field parts)"

definition event_batch_encoding :: "string list \<Rightarrow> bytes" where
  "event_batch_encoding event_refs = frames ''gearwit.claim-event-batch.v1'' (map string_bytes event_refs)"

definition canonical_event_batch_digest :: "(bytes \<Rightarrow> bytes) \<Rightarrow> string list \<Rightarrow> bytes" where
  "canonical_event_batch_digest blake3 event_refs = blake3 (event_batch_encoding event_refs)"

fun coverage_fields :: "ClaimCoverageEvidence option \<Rightarrow> bytes list" where
  "coverage_fields None = [[0]]"
| "coverage_fields (Some evidence) =
     [[1], string_bytes (ce_request_id evidence), string_bytes (ce_arm_id evidence),
      u64_le (ce_generation evidence), string_bytes (ce_signal_id evidence),
      string_bytes (ce_provider evidence), string_bytes (ce_drain_filter_scope evidence),
      string_bytes (ce_drain_baseline evidence), ce_event_batch_digest evidence,
      string_bytes (ce_covered_through evidence), ce_source_evidence_id evidence]"

fun drain_witness_fields :: "ClaimDrainWitness option \<Rightarrow> bytes list" where
  "drain_witness_fields None = [[0]]"
| "drain_witness_fields (Some drain) =
     [[1], string_bytes (dw_provider drain), string_bytes (dw_drain_filter_scope drain)]
     @ map string_bytes (dw_event_refs drain) @ [dw_source_evidence_id drain]"

definition event_fields :: "ProviderEventRecord \<Rightarrow> bytes list" where
  "event_fields event =
     [string_bytes (pv_event_ref event), string_bytes (pv_provider event)]
     @ (case pv_actor event of Some actor \<Rightarrow> [[1], string_bytes actor] | None \<Rightarrow> [[0]])
     @ [i128_le (pv_observed_at event), string_bytes (pv_body event)]"

definition claim_encoding ::
  "string \<Rightarrow> string \<Rightarrow> u64 \<Rightarrow> string \<Rightarrow> string list \<Rightarrow> BoundedClaimPayload
    \<Rightarrow> ClaimCoverageEvidence option \<Rightarrow> ClaimDrainWitness option \<Rightarrow> bytes" where
  "claim_encoding request_id arm_id generation signal_id event_refs payload coverage drain_witness =
     frames ''gearwit.claim-digest.v1''
       ([string_bytes request_id, string_bytes arm_id, u64_le generation, string_bytes signal_id]
        @ map string_bytes event_refs
        @ concat (map event_fields (bp_events payload))
        @ coverage_fields coverage @ drain_witness_fields drain_witness)"

definition canonical_claim_digest ::
  "(bytes \<Rightarrow> bytes) \<Rightarrow> string \<Rightarrow> string \<Rightarrow> u64 \<Rightarrow> string \<Rightarrow> string list \<Rightarrow> BoundedClaimPayload
    \<Rightarrow> ClaimCoverageEvidence option \<Rightarrow> ClaimDrainWitness option \<Rightarrow> bytes" where
  "canonical_claim_digest blake3 request_id arm_id generation signal_id event_refs payload coverage
     drain_witness =
     blake3 (claim_encoding request_id arm_id generation signal_id event_refs payload coverage drain_witness)"

section \<open>Coverage\<close>

definition covered_drain_prefix :: "ClaimCoverageEvidence \<Rightarrow> ClaimDrainWitness \<Rightarrow> string list option" where
  "covered_drain_prefix evidence witness =
     (case dw_event_refs witness of
        [] \<Rightarrow> None
      | baseline # _ \<Rightarrow>
          if baseline \<noteq> ce_drain_baseline evidence then None
          else map_option (\<lambda>covered_at. take (covered_at + 1) (dw_event_refs witness))
                 (position (ce_covered_through evidence) (dw_event_refs witness)))"

definition claim_is_drain_prefix :: "string list \<Rightarrow> string list \<Rightarrow> bool" where
  "claim_is_drain_prefix claim_refs drain =
     (length claim_refs \<le> length drain \<and> take (length claim_refs) drain = claim_refs)"

definition coverage_pair_invalid ::
  "(bytes \<Rightarrow> bytes) \<Rightarrow> ClaimCoverageEvidence option \<Rightarrow> ClaimDrainWitness option \<Rightarrow> string \<Rightarrow> string
    \<Rightarrow> u64 \<Rightarrow> string \<Rightarrow> string list \<Rightarrow> BoundedClaimPayload option \<Rightarrow> bool" where
  "coverage_pair_invalid blake3 evidence_opt witness_opt request_id arm_id generation signal_id event_refs payload_opt =
     (case (evidence_opt, witness_opt) of
        (None, None) \<Rightarrow> False
      | (Some evidence, Some witness) \<Rightarrow>
          ce_request_id evidence \<noteq> request_id
          \<or> ce_arm_id evidence \<noteq> arm_id
          \<or> ce_generation evidence \<noteq> generation
          \<or> ce_signal_id evidence \<noteq> signal_id
          \<or> ce_provider evidence \<noteq> dw_provider witness
          \<or> ce_drain_filter_scope evidence \<noteq> dw_drain_filter_scope witness
          \<or> ce_source_evidence_id evidence = replicate 32 0
          \<or> dw_source_evidence_id witness = replicate 32 0
          \<or> ce_source_evidence_id evidence \<noteq> dw_source_evidence_id witness
          \<or> ce_event_batch_digest evidence \<noteq> canonical_event_batch_digest blake3 event_refs
          \<or> covered_drain_prefix evidence witness = None
          \<or> \<not> claim_is_drain_prefix event_refs (dw_event_refs witness)
          \<or> (case payload_opt of None \<Rightarrow> False
             | Some payload \<Rightarrow> list_ex (\<lambda>event. pv_provider event \<noteq> ce_provider evidence) (bp_events payload))
      | _ \<Rightarrow> True)"

definition coverage_admission_invalid :: "(bytes \<Rightarrow> bytes) \<Rightarrow> ClaimAdmission \<Rightarrow> bool" where
  "coverage_admission_invalid blake3 admission =
     coverage_pair_invalid blake3 (cl_coverage admission) (cl_drain_witness admission)
       (cl_request_id admission) (cl_arm_id admission) (cl_generation admission)
       (cl_signal_id admission) (cl_event_refs admission) (Some (cl_payload admission))"

datatype PersistError =
  Conflict | InvalidTransition | Unauthorized | PayloadUnavailable | StorageUnavailable

text \<open>The loop over the references: the index of the last one of the leading covered run.\<close>

fun proved_loop :: "string list \<Rightarrow> nat \<Rightarrow> nat option \<Rightarrow> string list \<Rightarrow> nat option" where
  "proved_loop prefix index proved [] = proved"
| "proved_loop prefix index proved (r # rs) =
     (if r \<in> set prefix then proved_loop prefix (index + 1) (Some index) rs else proved)"

definition proved_ack_index ::
  "(bytes \<Rightarrow> bytes) \<Rightarrow> PersistedClaimRecord \<Rightarrow> string list \<Rightarrow> BoundedClaimPayload option
    \<Rightarrow> PersistError + nat" where
  "proved_ack_index blake3 claim refs payload =
     (case (pc_coverage claim, pc_drain_witness claim) of
        (None, None) \<Rightarrow> Inr 0
      | (Some evidence, Some witness) \<Rightarrow>
          if coverage_pair_invalid blake3 (Some evidence) (Some witness) (pc_request_id claim)
               (pc_arm_id claim) (pc_generation claim) (pc_signal_id claim) (pc_event_refs claim) payload
          then Inl Unauthorized
          else (case covered_drain_prefix evidence witness of
              None \<Rightarrow> Inl Unauthorized
            | Some prefix \<Rightarrow>
                (case proved_loop prefix 0 None refs of None \<Rightarrow> Inl Unauthorized | Some i \<Rightarrow> Inr i))
      | _ \<Rightarrow> Inl Unauthorized)"

section \<open>The encodings are unambiguous\<close>

lemma u64_le_length [simp]: "length (u64_le w) = 8"
  by (simp add: u64_le_def)

lemma u64_le_not_Nil [simp]: "u64_le w \<noteq> []"
  using u64_le_length [of w] by (metis list.size(3) zero_neq_numeral)

lemma u64_le_inj: "u64_le v = u64_le w \<longleftrightarrow> v = w"
proof
  assume eq: "u64_le v = u64_le w"
  show "v = w"
  proof (rule bit_word_eqI)
    fix n
    assume "n < LENGTH(64)"
    then have n: "n < 64" by simp
    then have i: "n div 8 < 8" by (simp add: less_mult_imp_div_less)
    then have "u64_le v ! (n div 8) = u64_le w ! (n div 8)" using eq by simp
    then have "(ucast (drop_bit (8 * (n div 8)) v) :: byte) = ucast (drop_bit (8 * (n div 8)) w)"
      using i by (simp add: u64_le_def)
    then have "bit (ucast (drop_bit (8 * (n div 8)) v) :: byte) (n mod 8) =
        bit (ucast (drop_bit (8 * (n div 8)) w) :: byte) (n mod 8)" by simp
    moreover have "8 * (n div 8) + n mod 8 = n" by simp
    ultimately show "bit v n = bit w n"
      by (simp add: bit_ucast_iff bit_drop_bit_eq)
  qed
qed simp

lemma i128_le_length [simp]: "length (i128_le t) = 16"
  by (simp add: i128_le_def)

lemma int_bits_high:
  assumes "- (2 ^ 127) \<le> t" "t < 2 ^ 127" "127 \<le> n"
  shows "bit (t :: int) n \<longleftrightarrow> t < 0"
proof -
  have "signed_take_bit 127 t = t"
    using assms(1,2) by (simp add: signed_take_bit_int_eq_self)
  then have "bit t n = bit (signed_take_bit 127 t) n" by simp
  also have "\<dots> = bit t 127" using assms(3) by (simp add: bit_signed_take_bit_iff min_def)
  also have "bit t 127 \<longleftrightarrow> t < 0"
    using \<open>signed_take_bit 127 t = t\<close> signed_take_bit_negative_iff [of 127 t] by simp
  finally show ?thesis .
qed

lemma i128_le_inj:
  assumes "- (2 ^ 127) \<le> s" "s < 2 ^ 127" "- (2 ^ 127) \<le> t" "t < 2 ^ 127"
    and eq: "i128_le s = i128_le t"
  shows "s = t"
proof (rule bit_eqI)
  fix n :: nat
  have low: "bit s n = bit t n" if n: "n < 128" for n
  proof -
    have i: "n div 8 < 16" using n by (simp add: less_mult_imp_div_less)
    then have "i128_le s ! (n div 8) = i128_le t ! (n div 8)" using eq by simp
    then have "(word_of_int (drop_bit (8 * (n div 8)) s) :: byte) = word_of_int (drop_bit (8 * (n div 8)) t)"
      using i by (simp add: i128_le_def)
    then have "bit (word_of_int (drop_bit (8 * (n div 8)) s) :: byte) (n mod 8) =
        bit (word_of_int (drop_bit (8 * (n div 8)) t) :: byte) (n mod 8)" by simp
    moreover have "8 * (n div 8) + n mod 8 = n" by simp
    ultimately show ?thesis
      by (simp add: bit_word_of_int_iff bit_drop_bit_eq)
  qed
  show "bit s n = bit t n"
  proof (cases "n < 128")
    case True
    then show ?thesis by (rule low)
  next
    case False
    then have "bit s n = bit s 127" "bit t n = bit t 127"
      using int_bits_high [OF assms(1,2)] int_bits_high [OF assms(3,4)] by simp_all
    with low [of 127] show ?thesis by simp
  qed
qed

text \<open>A \<open>Vec\<close> or \<open>String\<close> is shorter than \<open>2^64\<close> bytes, so its length field is exact.\<close>

definition encodable :: "bytes \<Rightarrow> bool" where
  "encodable v \<longleftrightarrow> length v < 2 ^ 64"

lemma mac_fields_inj:
  "list_all encodable xs \<Longrightarrow> list_all encodable ys \<Longrightarrow>
    concat (map mac_field xs) = concat (map mac_field ys) \<Longrightarrow> xs = ys"
proof (induction xs arbitrary: ys)
  case Nil
  then show ?case by (cases ys) (simp_all add: mac_field_def)
next
  case (Cons x xs)
  show ?case
  proof (cases ys)
    case Nil
    with Cons.prems(3) have "u64_le (of_nat (length x)) = []" by (simp add: mac_field_def)
    then have "length (u64_le (of_nat (length x))) = 0" by simp
    then show ?thesis by simp
  next
    case (Cons y ys')
    from Cons.prems(3) Cons have eq:
      "u64_le (of_nat (length x)) @ (x @ concat (map mac_field xs)) =
       u64_le (of_nat (length y)) @ (y @ concat (map mac_field ys'))"
      by (simp add: mac_field_def [of x] mac_field_def [of y])
    then have "u64_le (of_nat (length x)) = u64_le (of_nat (length y))"
      and rest: "x @ concat (map mac_field xs) = y @ concat (map mac_field ys')"
      by simp_all
    then have "(of_nat (length x) :: u64) = of_nat (length y)" by (simp add: u64_le_inj)
    then have "length x = length y"
      using Cons.prems(1,2) Cons by (intro u64_of_nat_inj) (simp_all add: encodable_def)
    with rest have "x = y" "concat (map mac_field xs) = concat (map mac_field ys')"
      by (simp_all add: append_eq_append_conv)
    with Cons.IH [of ys'] Cons.prems(1,2) Cons show ?thesis by simp
  qed
qed

lemma frames_inj:
  "list_all encodable xs \<Longrightarrow> list_all encodable ys \<Longrightarrow> frames tag xs = frames tag ys \<Longrightarrow> xs = ys"
  by (auto simp: frames_def intro: mac_fields_inj)

lemma string_bytes_inj [simp]: "string_bytes s = string_bytes t \<longleftrightarrow> s = t"
proof -
  have "c = d" if "(of_nat (of_char c) :: byte) = of_nat (of_char d)" for c d
  proof -
    have lt: "(of_char e :: nat) < 256" for e :: char by simp
    have "unat (of_nat (of_char e :: nat) :: byte) = of_char e" for e
      using lt [of e] by (simp add: unat_of_nat take_bit_nat_eq_self_iff)
    with that have "(of_char c :: nat) = of_char d" by metis
    then show ?thesis by simp
  qed
  then have "inj (\<lambda>c. of_nat (of_char c) :: byte)" by (rule injI)
  then show ?thesis by (simp add: string_bytes_def)
qed

lemma map_string_bytes_inj [simp]: "map string_bytes xs = map string_bytes ys \<longleftrightarrow> xs = ys"
proof -
  have "inj string_bytes" by (rule injI) simp
  then show ?thesis by simp
qed

lemma string_bytes_encodable: "length s < 2 ^ 64 \<Longrightarrow> encodable (string_bytes s)"
  by (simp add: encodable_def string_bytes_def)

text \<open>
  Fields that are identifiers: non-empty, of the bytes \<open>A-Z a-z 0-9 - _ : .\<close>. The presence
  markers \<open>[0]\<close> and \<open>[1]\<close> are not, which is what delimits the event references, the events
  and the coverage from each other although their counts are not encoded.
\<close>

definition id_field :: "bytes \<Rightarrow> bool" where
  "id_field v \<longleftrightarrow> (\<exists>s. v = string_bytes s \<and> s \<noteq> [] \<and> list_all id_byte s)"

lemma id_field_string: "id_field (string_bytes s) \<longleftrightarrow> s \<noteq> [] \<and> list_all id_byte s"
  by (auto simp: id_field_def)

lemma id_byte_code: "id_byte c \<Longrightarrow> (of_char c :: nat) \<ge> 45"
  by (auto simp: id_byte_def is_ascii_alphanumeric_def is_ascii_uppercase_def
      is_ascii_lowercase_def is_ascii_digit_def in_range_def)

lemma markers_not_id [simp]: "\<not> id_field [0]" "\<not> id_field [1]"
proof -
  have "\<not> id_field [x]" if "x = 0 \<or> x = 1" for x
  proof
    assume "id_field [x]"
    then obtain s where s: "[x] = string_bytes s" "list_all id_byte s" by (auto simp: id_field_def)
    then obtain c where c: "x = of_nat (of_char c)" "id_byte c"
      by (cases s) (auto simp: string_bytes_def)
    have "(of_char c :: nat) < 256" by simp
    then have "unat x = of_char c"
      unfolding c(1) by (simp add: unat_of_nat take_bit_nat_eq_self_iff)
    with id_byte_code [OF c(2)] that show False by auto
  qed
  then show "\<not> id_field [0]" "\<not> id_field [1]" by auto
qed

lemma id_run_unique:
  assumes "xs @ c # r = ys @ d # t" and "list_all id_field xs" "list_all id_field ys"
    and "\<not> id_field c" "\<not> id_field d"
  shows "xs = ys \<and> c = d \<and> r = t"
proof -
  have "takeWhile id_field (xs @ c # r) = xs" "takeWhile id_field (ys @ d # t) = ys"
    using assms(2-5) by (simp_all add: takeWhile_append list_all_iff)
  with assms(1) have "xs = ys" by simp
  with assms(1) show ?thesis by simp
qed

text \<open>What the sealed types guarantee of a claim's parts, and of their sizes.\<close>

definition ref_ok :: "string \<Rightarrow> bool" where
  "ref_ok s \<longleftrightarrow> s \<noteq> [] \<and> length s \<le> 256 \<and> list_all id_byte s"

definition instant_ok :: "instant \<Rightarrow> bool" where
  "instant_ok t \<longleftrightarrow> - (2 ^ 127) \<le> t \<and> t < 2 ^ 127"

definition event_ok :: "ProviderEventRecord \<Rightarrow> bool" where
  "event_ok e \<longleftrightarrow>
     ref_ok (pv_event_ref e) \<and> ref_ok (pv_provider e)
     \<and> (case pv_actor e of None \<Rightarrow> True | Some a \<Rightarrow> ref_ok a)
     \<and> instant_ok (pv_observed_at e) \<and> length (pv_body e) \<le> 4096"

definition coverage_ok :: "ClaimCoverageEvidence option \<Rightarrow> bool" where
  "coverage_ok c \<longleftrightarrow>
     (case c of None \<Rightarrow> True | Some e \<Rightarrow>
        ref_ok (ce_request_id e) \<and> ref_ok (ce_arm_id e) \<and> ref_ok (ce_signal_id e) \<and> ref_ok (ce_provider e)
        \<and> ref_ok (ce_drain_filter_scope e) \<and> ref_ok (ce_drain_baseline e) \<and> ref_ok (ce_covered_through e)
        \<and> length (ce_event_batch_digest e) = 32 \<and> length (ce_source_evidence_id e) = 32)"

definition witness_ok :: "ClaimDrainWitness option \<Rightarrow> bool" where
  "witness_ok w \<longleftrightarrow>
     (case w of None \<Rightarrow> True | Some d \<Rightarrow>
        ref_ok (dw_provider d) \<and> ref_ok (dw_drain_filter_scope d) \<and> list_all ref_ok (dw_event_refs d)
        \<and> length (dw_source_evidence_id d) = 32)"

definition claim_parts_ok ::
  "string \<Rightarrow> string \<Rightarrow> string \<Rightarrow> string list \<Rightarrow> BoundedClaimPayload \<Rightarrow> ClaimCoverageEvidence option
    \<Rightarrow> ClaimDrainWitness option \<Rightarrow> bool" where
  "claim_parts_ok request_id arm_id signal_id event_refs payload coverage witness \<longleftrightarrow>
     ref_ok request_id \<and> ref_ok arm_id \<and> ref_ok signal_id \<and> list_all ref_ok event_refs
     \<and> bp_events payload \<noteq> [] \<and> list_all event_ok (bp_events payload)
     \<and> coverage_ok coverage \<and> witness_ok witness"

lemma ref_ok_fields: "ref_ok s \<Longrightarrow> id_field (string_bytes s) \<and> encodable (string_bytes s)"
  by (auto simp: ref_ok_def id_field_string intro!: string_bytes_encodable)

lemma event_fields_encodable: "event_ok e \<Longrightarrow> list_all encodable (event_fields e)"
  by (auto simp: event_ok_def event_fields_def encodable_def i128_le_def string_bytes_def ref_ok_def
      split: option.splits)

lemma coverage_fields_encodable: "coverage_ok c \<Longrightarrow> list_all encodable (coverage_fields c)"
  by (cases c) (auto simp: coverage_ok_def encodable_def string_bytes_def ref_ok_def)

lemma witness_fields_encodable: "witness_ok w \<Longrightarrow> list_all encodable (drain_witness_fields w)"
  by (cases w) (auto simp: witness_ok_def encodable_def string_bytes_def ref_ok_def list_all_iff)

text \<open>Events decode one by one; a presence marker where an event would start ends them.\<close>

lemma event_fields_decode:
  assumes "event_fields e @ r = event_fields e' @ r'" and "event_ok e" "event_ok e'"
  shows "e = e' \<and> r = r'"
proof -
  have 1: "pv_event_ref e = pv_event_ref e'" "pv_provider e = pv_provider e'"
    using assms(1) by (auto simp: event_fields_def)
  have 2: "pv_actor e = pv_actor e'"
    using assms(1) by (auto simp: event_fields_def split: option.splits)
  with assms(1) have "i128_le (pv_observed_at e) = i128_le (pv_observed_at e')"
    and 3: "pv_body e = pv_body e'" "r = r'"
    by (auto simp: event_fields_def split: option.splits)
  then have "pv_observed_at e = pv_observed_at e'"
    using assms(2,3) by (intro i128_le_inj) (auto simp: event_ok_def instant_ok_def)
  with 1 2 3 show ?thesis by simp
qed

lemma event_fields_head: "event_ok e \<Longrightarrow> \<exists>h t. event_fields e = h # t \<and> id_field h"
  by (auto simp: event_fields_def event_ok_def dest: ref_ok_fields)

lemma events_decode:
  assumes "concat (map event_fields es) @ c # r = concat (map event_fields es') @ c' # r'"
    and "list_all event_ok es" "list_all event_ok es'" and "\<not> id_field c" "\<not> id_field c'"
  shows "es = es' \<and> c = c' \<and> r = r'"
  using assms(1-3)
proof (induction es arbitrary: es')
  case Nil
  show ?case
  proof (cases es')
    case Nil
    with Nil.prems show ?thesis by simp
  next
    case (Cons e' t)
    with Nil.prems(3) obtain h u where "event_fields e' = h # u" "id_field h"
      using event_fields_head by fastforce
    with Nil.prems(1) Cons assms(4) show ?thesis by simp
  qed
next
  case (Cons e es)
  show ?case
  proof (cases es')
    case Nil
    from Cons.prems(2) obtain h u where "event_fields e = h # u" "id_field h"
      using event_fields_head by fastforce
    with Cons.prems(1) Nil assms(5) show ?thesis by simp
  next
    case (Cons e' t)
    from Cons.prems(1) Cons have
      "event_fields e @ (concat (map event_fields es) @ c # r) =
       event_fields e' @ (concat (map event_fields t) @ c' # r')" by simp
    with event_fields_decode [OF this] Cons.prems(2,3) Cons have
      "e = e'" "concat (map event_fields es) @ c # r = concat (map event_fields t) @ c' # r'"
      by simp_all
    with Cons.IH [of t] Cons.prems(2,3) Cons show ?thesis by simp
  qed
qed

lemma coverage_fields_marker: "\<exists>c r. coverage_fields cov = c # r \<and> \<not> id_field c"
  by (cases cov) auto

lemma coverage_decode:
  assumes "coverage_fields c @ r = coverage_fields c' @ r'"
  shows "c = c' \<and> r = r'"
proof (cases c)
  case None
  with assms show ?thesis by (cases c') auto
next
  case (Some e)
  with assms show ?thesis by (cases c') (auto simp: u64_le_inj)
qed

lemma witness_decode:
  assumes "drain_witness_fields w = drain_witness_fields w'"
  shows "w = w'"
proof (cases w)
  case None
  with assms show ?thesis by (cases w') auto
next
  case (Some d)
  with assms show ?thesis by (cases w') auto
qed

lemma refs_decode:
  assumes "map string_bytes refs @ concat (map event_fields es) @ r =
      map string_bytes refs' @ concat (map event_fields es') @ r'"
    and "list_all ref_ok refs" "list_all ref_ok refs'" "es \<noteq> []" "es' \<noteq> []"
    and "list_all event_ok es" "list_all event_ok es'"
  shows "refs = refs'"
proof -
  have split: "\<exists>m t. \<not> id_field m \<and> concat (map event_fields es) @ r =
      [string_bytes (pv_event_ref (hd es)), string_bytes (pv_provider (hd es))] @ m # t
      \<and> id_field (string_bytes (pv_event_ref (hd es))) \<and> id_field (string_bytes (pv_provider (hd es)))"
    if "es \<noteq> []" "list_all event_ok es" for es r
    using that
    by (cases es) (auto simp: event_fields_def event_ok_def dest: ref_ok_fields split: option.splits)
  obtain m t where m: "\<not> id_field m" "concat (map event_fields es) @ r =
      [string_bytes (pv_event_ref (hd es)), string_bytes (pv_provider (hd es))] @ m # t"
    "id_field (string_bytes (pv_event_ref (hd es)))" "id_field (string_bytes (pv_provider (hd es)))"
    using split [OF assms(4,6), of r] by blast
  obtain m' t' where m': "\<not> id_field m'" "concat (map event_fields es') @ r' =
      [string_bytes (pv_event_ref (hd es')), string_bytes (pv_provider (hd es'))] @ m' # t'"
    "id_field (string_bytes (pv_event_ref (hd es')))" "id_field (string_bytes (pv_provider (hd es')))"
    using split [OF assms(5,7), of r'] by blast
  have ids: "list_all id_field (map string_bytes refs)" if "list_all ref_ok refs" for refs
    using that by (auto simp: list_all_iff dest: ref_ok_fields)
  from assms(1) m(2) m'(2) have
    "(map string_bytes refs @ [string_bytes (pv_event_ref (hd es)), string_bytes (pv_provider (hd es))]) @ m # t =
     (map string_bytes refs' @ [string_bytes (pv_event_ref (hd es')), string_bytes (pv_provider (hd es'))]) @ m' # t'"
    by simp
  from id_run_unique [OF this _ _ m(1) m'(1)] m m' ids [OF assms(2)] ids [OF assms(3)]
  have "map string_bytes refs = map string_bytes refs'" by simp
  then show ?thesis by simp
qed

lemma claim_fields_encodable:
  assumes "claim_parts_ok q a s refs p c w"
  shows "list_all encodable ([string_bytes q, string_bytes a, u64_le g, string_bytes s]
    @ map string_bytes refs @ concat (map event_fields (bp_events p)) @ coverage_fields c @ drain_witness_fields w)"
proof -
  have "list_all encodable (concat (map event_fields es))" if "list_all event_ok es" for es
    using that by (induction es) (simp_all add: event_fields_encodable)
  moreover have "list_all encodable (map string_bytes rs)" if "list_all ref_ok rs" for rs
    using that by (induction rs) (simp_all add: ref_ok_fields)
  ultimately show ?thesis
    using assms
    by (simp add: claim_parts_ok_def ref_ok_fields coverage_fields_encodable witness_fields_encodable)
      (simp add: encodable_def)
qed

text \<open>
  C9: the claim digest binds the whole claim. The encoding that is hashed has a length before
  every field but no counts; for parts the sealed types admit it is nevertheless unambiguous:
  if two claims have the same digest, their request, arm, generation, signal, event references,
  events (provider, actor, time, body), coverage evidence and drain witness are equal, or their
  two encodings are a collision of the hash.
\<close>

theorem claim_digest_binds:
  assumes "claim_parts_ok q a s refs p c w" and "claim_parts_ok q' a' s' refs' p' c' w'"
    and "canonical_claim_digest blake3 q a g s refs p c w = canonical_claim_digest blake3 q' a' g' s' refs' p' c' w'"
  shows "q = q' \<and> a = a' \<and> g = g' \<and> s = s' \<and> refs = refs' \<and> bp_events p = bp_events p' \<and> c = c' \<and> w = w'
    \<or> (claim_encoding q a g s refs p c w \<noteq> claim_encoding q' a' g' s' refs' p' c' w'
       \<and> blake3 (claim_encoding q a g s refs p c w) = blake3 (claim_encoding q' a' g' s' refs' p' c' w'))"
proof (cases "claim_encoding q a g s refs p c w = claim_encoding q' a' g' s' refs' p' c' w'")
  case False
  with assms(3) show ?thesis by (simp add: canonical_claim_digest_def)
next
  case True
  from frames_inj [OF claim_fields_encodable [OF assms(1)] claim_fields_encodable [OF assms(2)]
      True [unfolded claim_encoding_def]]
  have head: "q = q'" "a = a'" "g = g'" "s = s'" and
    tail: "map string_bytes refs @ concat (map event_fields (bp_events p)) @ coverage_fields c @ drain_witness_fields w =
      map string_bytes refs' @ concat (map event_fields (bp_events p')) @ coverage_fields c' @ drain_witness_fields w'"
    by (simp_all add: u64_le_inj)
  have refs: "refs = refs'"
    using refs_decode [OF tail] assms(1,2) by (simp add: claim_parts_ok_def)
  with tail have rest: "concat (map event_fields (bp_events p)) @ coverage_fields c @ drain_witness_fields w =
      concat (map event_fields (bp_events p')) @ coverage_fields c' @ drain_witness_fields w'" by simp
  obtain m r where m: "coverage_fields c = m # r" "\<not> id_field m" using coverage_fields_marker by blast
  obtain m' r' where m': "coverage_fields c' = m' # r'" "\<not> id_field m'" using coverage_fields_marker by blast
  have ev: "bp_events p = bp_events p'" "m = m'" "r @ drain_witness_fields w = r' @ drain_witness_fields w'"
    using events_decode [of "bp_events p" m "r @ drain_witness_fields w" "bp_events p'" m'
        "r' @ drain_witness_fields w'"] rest m m' assms(1,2)
    by (simp_all add: claim_parts_ok_def)
  then have "coverage_fields c @ drain_witness_fields w = coverage_fields c' @ drain_witness_fields w'"
    by (simp add: m m')
  from coverage_decode [OF this] have "c = c'" "drain_witness_fields w = drain_witness_fields w'" by simp_all
  with witness_decode head refs ev show ?thesis by blast
qed

section \<open>What coverage proves\<close>

lemma proved_loop_Some:
  "proved_loop prefix index proved refs = Some i \<longleftrightarrow>
     (if takeWhile (\<lambda>r. r \<in> set prefix) refs = [] then proved = Some i
      else i = index + length (takeWhile (\<lambda>r. r \<in> set prefix) refs) - 1)"
  by (induction prefix index proved refs rule: proved_loop.induct) auto

text \<open>
  The index up to which a claim may be acknowledged: 0 for a claim without coverage; with valid
  coverage, the last reference of the leading run that the drain covers.
\<close>

lemma proved_ack_index_covered:
  assumes "proved_ack_index blake3 claim refs payload = Inr i"
    and "pc_coverage claim = Some evidence" "pc_drain_witness claim = Some witness" "j \<le> i"
  shows "j < length refs \<and> (\<exists>prefix. covered_drain_prefix evidence witness = Some prefix \<and> refs ! j \<in> set prefix)"
proof -
  from assms(1-3) obtain prefix where p: "covered_drain_prefix evidence witness = Some prefix"
    "proved_loop prefix 0 None refs = Some i"
    by (auto simp: proved_ack_index_def split: if_splits option.splits)
  let ?t = "takeWhile (\<lambda>r. r \<in> set prefix) refs"
  from p(2) have t: "?t \<noteq> []" "i = length ?t - 1"
    by (simp_all add: proved_loop_Some split: if_splits)
  then have "j < length ?t" using assms(4) by (cases ?t) auto
  moreover from this have "refs ! j = ?t ! j" by (simp add: takeWhile_nth)
  moreover have "?t ! j \<in> set ?t" using \<open>j < length ?t\<close> by (rule nth_mem)
  ultimately show ?thesis
    using p(1) length_takeWhile_le [of "\<lambda>r. r \<in> set prefix" refs] set_takeWhileD by fastforce
qed

lemma proved_ack_index_lt:
  assumes "proved_ack_index blake3 claim refs payload = Inr i" and "refs \<noteq> []"
  shows "i < length refs"
proof (cases "pc_coverage claim = None \<and> pc_drain_witness claim = None")
  case True
  with assms show ?thesis by (simp add: proved_ack_index_def)
next
  case False
  with assms(1) obtain evidence witness where
    "pc_coverage claim = Some evidence" "pc_drain_witness claim = Some witness"
    by (auto simp: proved_ack_index_def split: option.splits)
  with proved_ack_index_covered [OF assms(1) _ _ order_refl] show ?thesis by blast
qed

section \<open>Witness\<close>

definition sample_record :: "string \<Rightarrow> ProviderEventRecord" where
  "sample_record ref = \<lparr>pv_event_ref = ref, pv_provider = ''mattermost'', pv_actor = Some ''ada'',
     pv_observed_at = 7, pv_body = ''hello''\<rparr>"

definition sample_payload :: BoundedClaimPayload where
  "sample_payload = \<lparr>bp_events = [sample_record ''e1'', sample_record ''e2''], bp_aggregate_body_bytes = 10\<rparr>"

lemma sample_parts_ok:
  "claim_parts_ok ''q1'' ''arm'' ''sig'' [''e1'', ''e2''] sample_payload None None"
  by (simp add: claim_parts_ok_def ref_ok_def sample_payload_def sample_record_def event_ok_def
      instant_ok_def coverage_ok_def witness_ok_def id_byte_def is_ascii_alphanumeric_def
      is_ascii_uppercase_def is_ascii_lowercase_def is_ascii_digit_def in_range_def)

lemma claim_digest_binds_witness:
  "canonical_claim_digest (\<lambda>x. x) ''q1'' ''arm'' 1 ''sig'' [''e1'', ''e2''] sample_payload None None \<noteq>
   canonical_claim_digest (\<lambda>x. x) ''q1'' ''arm'' 2 ''sig'' [''e1'', ''e2''] sample_payload None None"
proof
  assume "canonical_claim_digest (\<lambda>x. x) ''q1'' ''arm'' 1 ''sig'' [''e1'', ''e2''] sample_payload None None =
   canonical_claim_digest (\<lambda>x. x) ''q1'' ''arm'' 2 ''sig'' [''e1'', ''e2''] sample_payload None None"
  from claim_digest_binds [OF sample_parts_ok sample_parts_ok this] show False by simp
qed

end
