(* ===== verification/Store.thy ===== *)
theory Store
  imports Claims Ordered_Map
begin

text \<open>
  The semantic persistence port and its store \<open>FakePersist\<close>, \<open>gearwit-host/src/persist.rs\<close>: the
  persisted records, the state and every operation of the \<open>Persist\<close> trait. \<open>blake3\<close> and
  \<open>keyed_blake3\<close> stand for the hash; OS entropy is an argument (\<open>None\<close> when \<open>getrandom\<close>
  fails). The fields that exist only under \<open>cfg(test)\<close> (fault injection) are left out.
  \<open>SharedFakePersist\<close> delegates every operation to the store under a mutex.
\<close>

section \<open>Persisted records\<close>

record PersistedControllerAttachment =
  pt_attempt_id :: string
  pt_birth_id :: bytes
  pt_seat_id :: string
  pt_arm_id :: string
  pt_generation :: u64
  pt_capability :: ManagedCapability
  pt_lease_until :: instant
  pt_verifier_ref :: bytes
  pt_revoked :: bool

record PersistedControllerBirth =
  br_birth_id :: bytes
  br_seat_id :: string
  br_arm_id :: string
  br_generation :: u64
  br_capability :: ManagedCapability
  br_lease_until :: instant
  br_verifier_ref :: bytes
  br_created_at :: instant
  br_revoked :: bool

record ThreadCreateReservation =
  tr_birth_id :: bytes
  tr_create_attempt_id :: bytes
  tr_reserved_at :: instant

datatype ThreadCreateResolution =
  TR_Owned bytes | TR_ProvenNotAccepted | TR_Unknown

datatype ThreadOwnershipState =
  OS_Absent
| OS_Reserved bytes
| OS_Unknown bytes
| OS_ProvenNotAccepted bytes
| OS_Owned (os_create_attempt_id: bytes) (os_thread_ref: bytes)

record PersistedThreadOwnership =
  po_birth_id :: bytes
  po_state :: ThreadOwnershipState

datatype PreWriteConclusion =
  PW_HeldBeforeNativeWrite bytes
| PW_IdleStateUnproven
| PW_IdleEpochInvalidated bytes NativeMutationEpoch NativeMutationEpoch

record PersistedActiveObservationEvidence =
  ae_evidence_ref :: bytes
  ae_birth_id :: bytes
  ae_create_attempt_id :: bytes
  ae_seat_id :: string
  ae_arm_id :: string
  ae_generation :: u64
  ae_capability :: ManagedCapability
  ae_attachment_verifier_ref :: bytes
  ae_lease_until :: instant
  ae_attempt_id :: string
  ae_signal_id :: string
  ae_probe_id :: bytes
  ae_mutation_epoch :: NativeMutationEpoch
  ae_observed_at :: instant
  ae_fingerprint :: bytes
  ae_producer_version :: string
  ae_producer_dialect :: string

record PersistedPreWriteConclusion =
  pw_attempt_id :: string
  pw_signal_id :: string
  pw_conclusion :: PreWriteConclusion
  pw_recorded_at :: instant

datatype NativeWriteEvidence =
  WE_ProvenNotAccepted | WE_WriterAccepted bytes | WE_ExactResponse NativeTurnFact | WE_Unknown

datatype IdempotentWrite = IW_Recorded | IW_ExactReplay

datatype 'a IdempotentResult = IR_Recorded 'a | IR_ExactReplay 'a

datatype ReserveBirthOutcome = RB_Reserved | RB_ExactReplay | RB_Conflict

datatype AdmissionOutcome = AO_Admitted | AO_ExactReplay

record AdmissionRecord =
  am_outcome :: AdmissionOutcome
  am_attempt_id :: string
  am_verifier_ref :: bytes
  am_payload_ref :: bytes

section \<open>Commits and scopes\<close>

record ThreadCreateCommit =
  tm_birth_id :: bytes
  tm_create_attempt_id :: bytes
  tm_resolution :: ThreadCreateResolution
  tm_evidence_ref :: bytes

record PreparedDispatchCommit =
  pd_correlation :: PersistedTurnCorrelation

datatype NonActivePreWriteConclusion =
  NW_IdleStateUnproven
| NW_IdleEpochInvalidated bytes NativeMutationEpoch NativeMutationEpoch

fun prewrite_from :: "NonActivePreWriteConclusion \<Rightarrow> PreWriteConclusion" where
  "prewrite_from NW_IdleStateUnproven = PW_IdleStateUnproven"
| "prewrite_from (NW_IdleEpochInvalidated probe_id expected observed) =
     PW_IdleEpochInvalidated probe_id expected observed"

record PreWriteConclusionCommit =
  wc_attempt_id :: string
  wc_signal_id :: string
  wc_conclusion :: NonActivePreWriteConclusion
  wc_recorded_at :: instant

record NativeWriteEvidenceCommit =
  ec_correlation :: PersistedTurnCorrelation
  ec_evidence :: NativeWriteEvidence
  ec_evidence_ref :: bytes

record NativeTurnFactCommit =
  fm_correlation :: PersistedTurnCorrelation
  fm_fact :: NativeTurnFact
  fm_evidence_ref :: bytes

record ValidatedAttachmentScope =
  vs_attempt_id :: string
  vs_birth_id :: bytes
  vs_arm_id :: string
  vs_generation :: u64
  vs_verifier_ref :: bytes

section \<open>Helper grants and exchanges\<close>

datatype HelperOperation = HO_Retrieve | HO_Acknowledge

record HelperOperations =
  ho_retrieve :: bool
  ho_acknowledge :: bool

definition helper_operations_all :: HelperOperations where
  "helper_operations_all = \<lparr>ho_retrieve = True, ho_acknowledge = True\<rparr>"

definition helper_operations_retrieve_only :: HelperOperations where
  "helper_operations_retrieve_only = \<lparr>ho_retrieve = True, ho_acknowledge = False\<rparr>"

definition helper_operations_acknowledge_only :: HelperOperations where
  "helper_operations_acknowledge_only = \<lparr>ho_retrieve = False, ho_acknowledge = True\<rparr>"

fun allows :: "HelperOperations \<Rightarrow> HelperOperation \<Rightarrow> bool" where
  "allows ops HO_Retrieve = ho_retrieve ops"
| "allows ops HO_Acknowledge = ho_acknowledge ops"

record HelperExecutableIdentity =
  hi_image_digest :: bytes
  hi_file_identity :: string
  hi_build_identity :: string

record PersistedHelperGrant =
  hg_grant_verifier :: bytes
  hg_grant_ref :: bytes
  hg_seat_id :: string
  hg_arm_id :: string
  hg_generation :: u64
  hg_birth_id :: bytes
  hg_attempt_id :: string
  hg_signal_id :: string
  hg_claim_digest :: bytes
  hg_operations :: HelperOperations
  hg_lease_until :: instant
  hg_executable_identity :: HelperExecutableIdentity
  hg_revoked :: bool

record ValidatedHelperBinding =
  hb_grant_ref :: bytes
  hb_seat_id :: string
  hb_arm_id :: string
  hb_generation :: u64
  hb_birth_id :: bytes
  hb_attempt_id :: string
  hb_signal_id :: string
  hb_claim_digest :: bytes
  hb_operations :: HelperOperations
  hb_lease_until :: instant

record RetrieveExchange =
  re_binding :: ValidatedHelperBinding
  re_request_id :: bytes
  re_canonical_body_digest :: bytes

record RecordedRetrieveResult =
  rv_retrieval_id :: bytes
  rv_claim_payload_ref :: bytes
  rv_newest_event_ref :: string
  rv_event_count :: nat
  rv_retrieved_at :: instant

datatype PermitProvenance = PP_Fresh | PP_ExactReplay

record ClaimMaterializationPermit =
  mp_grant_ref :: bytes
  mp_binding_digest :: bytes
  mp_request_id :: bytes
  mp_retrieval_id :: bytes
  mp_claim_digest :: bytes
  mp_payload_ref :: bytes
  mp_provenance :: PermitProvenance

record AuthorizedRetrieve =
  az_recorded :: RecordedRetrieveResult
  az_permit :: ClaimMaterializationPermit

record PersistedRetiredGrant =
  rg_grant_ref :: bytes
  rg_grant_verifier :: bytes

record AcknowledgeRequest =
  aq_request_id :: bytes
  aq_retrieval_id :: bytes
  aq_cursor :: string
  aq_canonical_body_digest :: bytes

record AcknowledgeResult =
  ak_attempt_id :: string
  ak_signal_id :: string
  ak_cursor :: string
  ak_accepted_at :: instant

record RearmJoinScope =
  js_arm_id :: string
  js_generation :: u64
  js_attempt_id :: string
  js_signal_id :: string

record HelperRevocationScope =
  hv_grant_ref :: bytes
  hv_birth_id :: bytes
  hv_attempt_id :: string

datatype RearmJoinResult =
  RJ_Rearmed | RJ_AlreadyRearmed | RJ_WaitingForHandled | RJ_WaitingForRecognizedTerminal

record PersistedHelperBindingIdentity =
  bi_grant_ref :: bytes
  bi_seat_id :: string
  bi_arm_id :: string
  bi_generation :: u64
  bi_birth_id :: bytes
  bi_attempt_id :: string
  bi_signal_id :: string
  bi_claim_digest :: bytes
  bi_operations :: HelperOperations
  bi_lease_until :: instant

record PersistedRetrieveReplay =
  rp_request_id :: bytes
  rp_binding_digest :: bytes
  rp_origin :: PersistedHelperBindingIdentity
  rp_canonical_body_digest :: bytes
  rp_result :: RecordedRetrieveResult

record PersistedAckReplay =
  ap_request_id :: bytes
  ap_binding_digest :: bytes
  ap_canonical_body_digest :: bytes
  ap_retrieval_id :: bytes
  ap_cursor :: string
  ap_result :: AcknowledgeResult

record PersistedRetrievalRecord =
  rc_retrieval_id :: bytes
  rc_binding_digest :: bytes
  rc_origin :: PersistedHelperBindingIdentity
  rc_result :: RecordedRetrieveResult

record PersistedHandledCoverage =
  hc_attempt_id :: string
  hc_signal_id :: string
  hc_cursor :: string
  hc_covered_through_newest :: bool

record PersistedRearmJoin =
  rj_arm_id :: string
  rj_generation :: u64
  rj_attempt_id :: string
  rj_signal_id :: string

record PersistedNativeReservation =
  nr_correlation :: PersistedTurnCorrelation
  nr_probe_id :: bytes
  nr_expected_epoch :: NativeMutationEpoch
  nr_concluded :: bool

section \<open>The store\<close>

record RecoveryCoordinate =
  co_scope :: NativeCoordinateScope
  co_plaintext :: bytes

record FakePersist =
  fp_arms :: "(string, PersistedArm) btree"
  fp_claims :: "(string, PersistedClaimRecord) btree"
  fp_payloads :: "(bytes, BoundedClaimPayload) btree"
  fp_claim_attempts :: "(string, string) btree"
  fp_attachments :: "(string, PersistedControllerAttachment) btree"
  fp_births :: "(bytes, PersistedControllerBirth) btree"
  fp_creates :: "(bytes, ThreadCreateReservation) btree"
  fp_ownership :: "(bytes, ThreadOwnershipState) btree"
  fp_create_evidence_refs :: "(bytes, bytes) btree"
  fp_private_recovery :: "(bytes, RecoveryCoordinate) btree"
  fp_prepared :: "(string, PersistedTurnCorrelation) btree"
  fp_reservations :: "(string, PersistedNativeReservation) btree"
  fp_consumed_probes :: "bytes bset"
  fp_prewrite :: "(string, PersistedPreWriteConclusion) btree"
  fp_active_observations :: "(string, PersistedActiveObservationEvidence) btree"
  fp_active_mac_key :: bytes
  fp_write_evidence :: "(string, NativeWriteEvidence) btree"
  fp_write_evidence_refs :: "(string, bytes) btree"
  fp_turn_facts :: "(string, NativeTurnFact list) btree"
  fp_reconciliations :: "(string, ReconciliationDisposition) btree"
  fp_grants :: "PersistedHelperGrant list"
  fp_retired_grants :: "PersistedRetiredGrant list"
  fp_retrieve_replays :: "(bytes, PersistedRetrieveReplay) btree"
  fp_ack_replays :: "(bytes, PersistedAckReplay) btree"
  fp_retrievals :: "(bytes, PersistedRetrievalRecord) btree"
  fp_handled :: "(string, PersistedHandledCoverage) btree"
  fp_rearmed :: "(string \<times> u64 \<times> string \<times> string) bset"
  fp_now :: instant
  fp_attempt_seq :: u64

text \<open>\<open>Default\<close>: everything empty, the clock at the epoch, and a random MAC key.\<close>

definition fake_persist_default :: "bytes \<Rightarrow> FakePersist" where
  "fake_persist_default active_mac_key =
     \<lparr>fp_arms = bt_empty, fp_claims = bt_empty, fp_payloads = bt_empty, fp_claim_attempts = bt_empty,
      fp_attachments = bt_empty, fp_births = bt_empty, fp_creates = bt_empty, fp_ownership = bt_empty,
      fp_create_evidence_refs = bt_empty, fp_private_recovery = bt_empty, fp_prepared = bt_empty,
      fp_reservations = bt_empty, fp_consumed_probes = bt_empty, fp_prewrite = bt_empty,
      fp_active_observations = bt_empty, fp_active_mac_key = active_mac_key,
      fp_write_evidence = bt_empty, fp_write_evidence_refs = bt_empty, fp_turn_facts = bt_empty,
      fp_reconciliations = bt_empty, fp_grants = [], fp_retired_grants = [],
      fp_retrieve_replays = bt_empty, fp_ack_replays = bt_empty, fp_retrievals = bt_empty,
      fp_handled = bt_empty, fp_rearmed = bt_empty, fp_now = 0, fp_attempt_seq = 0\<rparr>"

definition set_now :: "FakePersist \<Rightarrow> instant \<Rightarrow> FakePersist" where
  "set_now s now = s\<lparr>fp_now := now\<rparr>"

end
