(* ===== verification/Native_Store.thy ===== *)
theory Native_Store
  imports Store
begin

text \<open>
  The operations of \<open>FakePersist\<close> (\<open>gearwit-host/src/persist.rs\<close>) on arms, claims, controller
  births, native coordinates and native turns. Every operation returns the new store with its
  result, so that what an error leaves behind is visible.
\<close>

section \<open>Arms, claims, births\<close>

definition persist_arm :: "FakePersist \<Rightarrow> PersistedArm \<Rightarrow> FakePersist \<times> (PersistError + unit)" where
  "persist_arm s arm = (s\<lparr>fp_arms := bt_insert (pm_arm_id arm) arm (fp_arms s)\<rparr>, Inr ())"

definition claim_for_attempt :: "FakePersist \<Rightarrow> string \<Rightarrow> PersistedClaimRecord option" where
  "claim_for_attempt s attempt_id =
     List.find (\<lambda>claim. pc_attempt_id claim = attempt_id) (bt_values (fp_claims s))"

definition refs_match :: "string list \<Rightarrow> BoundedClaimPayload \<Rightarrow> bool" where
  "refs_match refs payload = (refs = map pv_event_ref (bp_events payload))"

text \<open>\<open>entropy\<close> is the draw of the fresh \<open>ClaimPayloadRef\<close>.\<close>

definition admit_claim ::
  "(bytes \<Rightarrow> bytes) \<Rightarrow> bytes option \<Rightarrow> FakePersist \<Rightarrow> ClaimAdmission \<Rightarrow> PersistedControllerAttachment
    \<Rightarrow> FakePersist \<times> (PersistError + AdmissionRecord)" where
  "admit_claim blake3 entropy s admission attachment =
     (if canonical_claim_digest blake3 (cl_request_id admission) (cl_arm_id admission)
          (cl_generation admission) (cl_signal_id admission) (cl_event_refs admission)
          (cl_payload admission) (cl_coverage admission) (cl_drain_witness admission)
          \<noteq> cl_claim_digest admission
      then (s, Inl Conflict)
      else if \<not> refs_match (cl_event_refs admission) (cl_payload admission) then (s, Inl Conflict)
      else if coverage_admission_invalid blake3 admission then (s, Inl Conflict)
      else (case bt_get (fp_claims s) (cl_request_id admission) of
        Some existing \<Rightarrow>
          if pc_arm_id existing = cl_arm_id admission
             \<and> pc_generation existing = cl_generation admission
             \<and> pc_signal_id existing = cl_signal_id admission
             \<and> pc_event_refs existing = cl_event_refs admission
             \<and> pc_claim_digest existing = cl_claim_digest admission
             \<and> pc_coverage existing = cl_coverage admission
             \<and> pc_drain_witness existing = cl_drain_witness admission
             \<and> bt_get (fp_payloads s) (pc_payload_ref existing) = Some (cl_payload admission)
          then
            try_in s (ok_or (bt_get (fp_claim_attempts s) (cl_request_id admission)) InvalidTransition)
              (\<lambda>attempt_id.
            try_in s (ok_or (bt_get (fp_attachments s) attempt_id) InvalidTransition) (\<lambda>stored.
            (s, Inr \<lparr>am_outcome = AO_ExactReplay, am_attempt_id = attempt_id,
                  am_verifier_ref = pt_verifier_ref stored, am_payload_ref = pc_payload_ref existing\<rparr>)))
          else (s, Inl Conflict)
      | None \<Rightarrow>
          if list_ex (\<lambda>claim. pc_arm_id claim = cl_arm_id admission
               \<and> pc_generation claim = cl_generation admission) (bt_values (fp_claims s))
          then (s, Inl Conflict)
          else if bt_contains (fp_attachments s) (pt_attempt_id attachment) then (s, Inl Conflict)
          else (case entropy of
            None \<Rightarrow> (s, Inl StorageUnavailable)
          | Some payload_ref \<Rightarrow>
              let record' = \<lparr>pc_attempt_id = pt_attempt_id attachment,
                    pc_request_id = cl_request_id admission, pc_arm_id = cl_arm_id admission,
                    pc_generation = cl_generation admission, pc_signal_id = cl_signal_id admission,
                    pc_event_refs = cl_event_refs admission,
                    pc_claim_digest = cl_claim_digest admission, pc_payload_ref = payload_ref,
                    pc_claimed_at = cl_claimed_at admission, pc_coverage = cl_coverage admission,
                    pc_drain_witness = cl_drain_witness admission\<rparr>
              in (s\<lparr>fp_claims := bt_insert (cl_request_id admission) record' (fp_claims s),
                    fp_payloads := bt_insert payload_ref (cl_payload admission) (fp_payloads s),
                    fp_claim_attempts := bt_insert (cl_request_id admission) (pt_attempt_id attachment)
                      (fp_claim_attempts s),
                    fp_attachments := bt_insert (pt_attempt_id attachment) attachment (fp_attachments s),
                    fp_attempt_seq := saturating_add (fp_attempt_seq s) 1\<rparr>,
                  Inr \<lparr>am_outcome = AO_Admitted, am_attempt_id = pt_attempt_id attachment,
                    am_verifier_ref = pt_verifier_ref attachment, am_payload_ref = payload_ref\<rparr>))))"

definition reserve_controller_birth ::
  "FakePersist \<Rightarrow> PersistedControllerBirth \<Rightarrow> ThreadCreateReservation
    \<Rightarrow> FakePersist \<times> (PersistError + ReserveBirthOutcome)" where
  "reserve_controller_birth s birth create =
     (case bt_get (fp_births s) (br_birth_id birth) of
        Some existing \<Rightarrow>
          if existing = birth \<and> bt_get (fp_creates s) (br_birth_id birth) = Some create
          then (s, Inr RB_ExactReplay) else (s, Inr RB_Conflict)
      | None \<Rightarrow>
          if br_birth_id birth \<noteq> tr_birth_id create then (s, Inl Conflict)
          else
            (s\<lparr>fp_births := bt_insert (br_birth_id birth) birth (fp_births s),
               fp_creates := bt_insert (br_birth_id birth) create (fp_creates s),
               fp_ownership := bt_insert (br_birth_id birth) (OS_Reserved (tr_create_attempt_id create))
                 (fp_ownership s)\<rparr>,
             Inr RB_Reserved))"

fun resolution_state :: "bytes \<Rightarrow> ThreadCreateResolution \<Rightarrow> ThreadOwnershipState" where
  "resolution_state create_attempt_id (TR_Owned thread_ref) = OS_Owned create_attempt_id thread_ref"
| "resolution_state create_attempt_id TR_ProvenNotAccepted = OS_ProvenNotAccepted create_attempt_id"
| "resolution_state create_attempt_id TR_Unknown = OS_Unknown create_attempt_id"

fun ownership_transition :: "ThreadOwnershipState \<Rightarrow> ThreadOwnershipState \<Rightarrow> bool" where
  "ownership_transition (OS_Reserved _) _ = True"
| "ownership_transition (OS_Unknown _) (OS_Owned _ _) = True"
| "ownership_transition (OS_Unknown _) (OS_ProvenNotAccepted _) = True"
| "ownership_transition _ _ = False"

definition resolve_thread_create ::
  "FakePersist \<Rightarrow> ThreadCreateCommit \<Rightarrow> FakePersist \<times> (PersistError + IdempotentWrite)" where
  "resolve_thread_create s commit =
     try_in s (ok_or (bt_get (fp_creates s) (tm_birth_id commit)) InvalidTransition) (\<lambda>create.
     if tr_create_attempt_id create \<noteq> tm_create_attempt_id commit then (s, Inl Conflict)
     else
       let evidence_ref = tm_evidence_ref commit;
           next' = resolution_state (tm_create_attempt_id commit) (tm_resolution commit)
       in try_in s (ok_or (bt_get (fp_ownership s) (tm_birth_id commit)) InvalidTransition) (\<lambda>current.
          if current = next' then
            (if bt_get (fp_create_evidence_refs s) (tm_birth_id commit) = Some evidence_ref
             then (s, Inr IW_ExactReplay) else (s, Inl Conflict))
          else if \<not> ownership_transition current next' then (s, Inl Conflict)
          else
            (s\<lparr>fp_create_evidence_refs := bt_insert (tm_birth_id commit) evidence_ref (fp_create_evidence_refs s),
               fp_ownership := bt_insert (tm_birth_id commit) next' (fp_ownership s)\<rparr>,
             Inr IW_Recorded)))"

definition thread_ownership_state :: "FakePersist \<Rightarrow> bytes \<Rightarrow> PersistError + ThreadOwnershipState" where
  "thread_ownership_state s birth_id =
     Inr (case bt_get (fp_ownership s) birth_id of None \<Rightarrow> OS_Absent | Some state \<Rightarrow> state)"

section \<open>Native coordinates\<close>

definition validate_coordinate_scope ::
  "FakePersist \<Rightarrow> NativeCoordinateScope \<Rightarrow> bytes option \<Rightarrow> bool \<Rightarrow> PersistError + unit" where
  "validate_coordinate_scope s scope native_ref opening =
     (case scope of
        Scope_Thread birth_id create_attempt_id \<Rightarrow>
          bind_res (ok_or (bt_get (fp_creates s) birth_id) Unauthorized) (\<lambda>create.
          bind_res (ensure (tr_create_attempt_id create = create_attempt_id) Unauthorized) (\<lambda>_.
          bind_res (ok_or (bt_get (fp_births s) birth_id) Unauthorized) (\<lambda>birth.
          bind_res (ensure (\<not> br_revoked birth) Unauthorized) (\<lambda>_.
          bind_res (ensure (br_birth_id birth = birth_id) Unauthorized) (\<lambda>_.
          bind_res (ensure (opening \<or>
              (case bt_get (fp_ownership s) birth_id of
                 Some (OS_Reserved reserved_create) \<Rightarrow> reserved_create = create_attempt_id
               | Some (OS_Unknown reserved_create) \<Rightarrow> reserved_create = create_attempt_id
               | _ \<Rightarrow> False)) Unauthorized) (\<lambda>_.
          ensure (\<not> opening \<or>
              (case bt_get (fp_ownership s) birth_id of
                 Some (OS_Owned owned_create thread_ref) \<Rightarrow>
                   owned_create = create_attempt_id \<and> Some thread_ref = native_ref
               | _ \<Rightarrow> False)) Unauthorized))))))
      | Scope_Turn birth_id attempt_id signal_id turn_write_id \<Rightarrow>
          bind_res (ok_or (map_option nr_correlation (bt_get (fp_reservations s) attempt_id)) Unauthorized)
            (\<lambda>correlation.
          bind_res (ok_or (bt_get (fp_attachments s) attempt_id) Unauthorized) (\<lambda>attachment.
          bind_res (ensure (\<not> pt_revoked attachment) Unauthorized) (\<lambda>_.
          bind_res (ok_or (bt_get (fp_births s) birth_id) Unauthorized) (\<lambda>birth.
          bind_res (ensure (\<not> br_revoked birth) Unauthorized) (\<lambda>_.
          ensure (\<not> (tc_birth_id correlation \<noteq> birth_id
              \<or> tc_attempt_id correlation \<noteq> attempt_id
              \<or> tc_signal_id correlation \<noteq> signal_id
              \<or> tc_turn_write_id correlation \<noteq> turn_write_id
              \<or> pt_birth_id attachment \<noteq> birth_id
              \<or> pt_arm_id attachment \<noteq> br_arm_id birth
              \<or> pt_generation attachment \<noteq> br_generation birth
              \<or> pt_seat_id attachment \<noteq> br_seat_id birth
              \<or> pt_capability attachment \<noteq> br_capability birth
              \<or> (opening \<and> tc_turn_ref correlation \<noteq> native_ref)
              \<or> (\<not> opening \<and> tc_turn_ref correlation \<noteq> None))) Unauthorized))))))"

fun scope_kind :: "NativeCoordinateScope \<Rightarrow> NativeCoordinateKind" where
  "scope_kind (Scope_Thread _ _) = Kind_Thread"
| "scope_kind (Scope_Turn _ _ _ _) = Kind_Turn"

definition coordinate_replay_open :: "FakePersist \<Rightarrow> NativeCoordinateScope \<Rightarrow> bytes \<Rightarrow> bool" where
  "coordinate_replay_open s scope native_ref =
     (case scope of
        Scope_Turn _ attempt_id _ _ \<Rightarrow>
          (case bt_get (fp_reservations s) attempt_id of
             None \<Rightarrow> False
           | Some reservation \<Rightarrow> tc_turn_ref (nr_correlation reservation) = Some native_ref)
      | Scope_Thread birth_id _ \<Rightarrow>
          (case bt_get (fp_ownership s) birth_id of
             Some (OS_Owned _ thread_ref) \<Rightarrow> thread_ref = native_ref
           | _ \<Rightarrow> False))"

text \<open>
  The loop that draws a fresh reference. \<open>None\<close> means that every supplied draw was taken: the
  loop has not ended.
\<close>

fun draw_native_ref ::
  "FakePersist \<Rightarrow> NativeCoordinateScope \<Rightarrow> SecretNativeCoordinate \<Rightarrow> bytes option list
    \<Rightarrow> (FakePersist \<times> (PersistError + bytes)) option" where
  "draw_native_ref s scope coordinate [] = None"
| "draw_native_ref s scope coordinate (None # draws) = Some (s, Inl StorageUnavailable)"
| "draw_native_ref s scope coordinate (Some native_ref # draws) =
     (if bt_contains (fp_private_recovery s) native_ref then draw_native_ref s scope coordinate draws
      else Some (s\<lparr>fp_private_recovery := bt_insert native_ref
             \<lparr>co_scope = scope, co_plaintext = sc_plaintext coordinate\<rparr> (fp_private_recovery s)\<rparr>,
           Inr native_ref))"

definition seal_native_coordinate ::
  "bytes option list \<Rightarrow> FakePersist \<Rightarrow> NativeCoordinateScope \<Rightarrow> SecretNativeCoordinate
    \<Rightarrow> (FakePersist \<times> (PersistError + bytes)) option" where
  "seal_native_coordinate draws s scope coordinate =
     (if scope_kind scope \<noteq> sc_kind coordinate then Some (s, Inl Unauthorized)
      else (case List.find (\<lambda>(_, stored). co_scope stored = scope \<and> co_plaintext stored = sc_plaintext coordinate)
            (bt_entries (fp_private_recovery s)) of
        Some (native_ref, _) \<Rightarrow>
          Some (try_in s (validate_coordinate_scope s scope (Some native_ref)
                (coordinate_replay_open s scope native_ref)) (\<lambda>_. (s, Inr native_ref)))
      | None \<Rightarrow>
          (case validate_coordinate_scope s scope None False of
             Inl e \<Rightarrow> Some (s, Inl e)
           | Inr _ \<Rightarrow> draw_native_ref s scope coordinate draws)))"

definition open_native_coordinate ::
  "FakePersist \<Rightarrow> NativeCoordinateScope \<Rightarrow> bytes \<Rightarrow> PersistError + bytes" where
  "open_native_coordinate s scope native_ref =
     bind_res (validate_coordinate_scope s scope (Some native_ref) True) (\<lambda>_.
     bind_res (ok_or (bt_get (fp_private_recovery s) native_ref) Unauthorized) (\<lambda>coordinate.
     bind_res (ensure (co_scope coordinate = scope) Unauthorized) (\<lambda>_.
     Inr (co_plaintext coordinate))))"

end
