(* ===== verification/Native_Turns.thy ===== *)
theory Native_Turns
  imports Native_Store
begin

text \<open>
  The native-turn operations of \<open>FakePersist\<close> (\<open>gearwit-host/src/persist.rs\<close>): preparing a
  dispatch, concluding it before a write, the exactly-once reservation of the native write, the
  evidence and facts recorded for it, its reconciliation, and the revocation of an attachment.
\<close>

section \<open>Before the native write\<close>

definition record_dispatch_prepared ::
  "FakePersist \<Rightarrow> PreparedDispatchCommit \<Rightarrow> FakePersist \<times> (PersistError + IdempotentWrite)" where
  "record_dispatch_prepared s commit =
     (let correlation = pd_correlation commit; id = tc_attempt_id correlation in
      case bt_get (fp_prepared s) id of
        Some existing \<Rightarrow> if existing = correlation then (s, Inr IW_ExactReplay) else (s, Inl Conflict)
      | None \<Rightarrow> (s\<lparr>fp_prepared := bt_insert id correlation (fp_prepared s)\<rparr>, Inr IW_Recorded))"

definition conclude_reservation :: "FakePersist \<Rightarrow> string \<Rightarrow> FakePersist" where
  "conclude_reservation s attempt_id =
     (case bt_get (fp_reservations s) attempt_id of
        None \<Rightarrow> s
      | Some reservation \<Rightarrow>
          s\<lparr>fp_reservations := bt_insert attempt_id (reservation\<lparr>nr_concluded := True\<rparr>) (fp_reservations s)\<rparr>)"

definition record_prewrite_conclusion ::
  "FakePersist \<Rightarrow> PreWriteConclusionCommit \<Rightarrow> FakePersist \<times> (PersistError + IdempotentWrite)" where
  "record_prewrite_conclusion s commit =
     (let record' = \<lparr>pw_attempt_id = wc_attempt_id commit, pw_signal_id = wc_signal_id commit,
            pw_conclusion = prewrite_from (wc_conclusion commit),
            pw_recorded_at = wc_recorded_at commit\<rparr> in
      case bt_get (fp_prewrite s) (wc_attempt_id commit) of
        Some existing \<Rightarrow>
          if pw_conclusion existing = pw_conclusion record' then (s, Inr IW_ExactReplay)
          else (s, Inl Conflict)
      | None \<Rightarrow>
          let s = conclude_reservation s (wc_attempt_id commit) in
          (s\<lparr>fp_prewrite := bt_insert (wc_attempt_id commit) record' (fp_prewrite s)\<rparr>, Inr IW_Recorded))"

text \<open>The discriminant of a capability, \<open>proof.capability as u8\<close>.\<close>

fun capability_byte :: "ManagedCapability \<Rightarrow> byte" where
  "capability_byte HandleClaimedSignal = 0"

definition active_observation_encoding :: "ActiveObservationProof \<Rightarrow> bytes" where
  "active_observation_encoding proof' =
     frames ''gearwit.active-observation.v1''
       [ao_birth_id proof', ao_create_attempt_id proof', ao_thread_ref proof',
        string_bytes (ao_seat_id proof'), string_bytes (ao_arm_id proof'),
        u64_le (ao_generation proof'), [capability_byte (ao_capability proof')],
        ao_attachment_verifier_ref proof', i128_le (ao_lease_until proof'),
        string_bytes (ao_attempt_id proof'), string_bytes (ao_signal_id proof'),
        ao_probe_id proof', u64_le (ep_sequence (ao_mutation_epoch proof')),
        i128_le (ao_observed_at proof'), ao_prehash proof',
        string_bytes (ao_producer_version proof'), string_bytes (ao_producer_dialect proof')]"

definition active_hold_unauthorized ::
  "FakePersist \<Rightarrow> ActiveObservationProof \<Rightarrow> PersistedControllerAttachment \<Rightarrow> PersistedControllerBirth
    \<Rightarrow> PersistedClaimRecord \<Rightarrow> PersistedTurnCorrelation \<Rightarrow> bool" where
  "active_hold_unauthorized s proof' attachment birth claim prepared =
     (pt_birth_id attachment \<noteq> ao_birth_id proof'
      \<or> pt_seat_id attachment \<noteq> ao_seat_id proof'
      \<or> pt_arm_id attachment \<noteq> ao_arm_id proof'
      \<or> pt_generation attachment \<noteq> ao_generation proof'
      \<or> pt_capability attachment \<noteq> ao_capability proof'
      \<or> pt_verifier_ref attachment \<noteq> ao_attachment_verifier_ref proof'
      \<or> pt_lease_until attachment \<noteq> ao_lease_until proof'
      \<or> pt_revoked attachment
      \<or> br_revoked birth
      \<or> br_seat_id birth \<noteq> ao_seat_id proof'
      \<or> br_arm_id birth \<noteq> ao_arm_id proof'
      \<or> br_generation birth \<noteq> ao_generation proof'
      \<or> br_capability birth \<noteq> ao_capability proof'
      \<or> br_lease_until birth < ao_observed_at proof'
      \<or> pc_signal_id claim \<noteq> ao_signal_id proof'
      \<or> tc_signal_id prepared \<noteq> ao_signal_id proof'
      \<or> tc_birth_id prepared \<noteq> ao_birth_id proof'
      \<or> tc_thread_ref prepared \<noteq> ao_thread_ref proof'
      \<or> ep_birth_id (ao_mutation_epoch proof') \<noteq> ao_birth_id proof'
      \<or> ao_producer_version proof' \<noteq> ''codex-cli 0.152.1''
      \<or> ao_producer_dialect proof' \<noteq> ''thread/read-v2''
      \<or> bt_get (fp_ownership s) (ao_birth_id proof')
          \<noteq> Some (OS_Owned (ao_create_attempt_id proof') (ao_thread_ref proof')))"

definition active_evidence ::
  "(bytes \<Rightarrow> bytes \<Rightarrow> bytes) \<Rightarrow> bytes \<Rightarrow> ActiveObservationProof
    \<Rightarrow> PersistError + PersistedActiveObservationEvidence" where
  "active_evidence keyed_blake3 key proof' =
     (let fingerprint = keyed_blake3 key (active_observation_encoding proof');
          evidence_ref = keyed_blake3 key
            (string_bytes ''gearwit.active-observation-ref.v1'' @ [0] @ fingerprint) in
      case (producer_label_new (ao_producer_version proof'), producer_label_new (ao_producer_dialect proof')) of
        (Inr version, Inr dialect) \<Rightarrow> Inr
          \<lparr>ae_evidence_ref = evidence_ref, ae_birth_id = ao_birth_id proof',
           ae_create_attempt_id = ao_create_attempt_id proof', ae_seat_id = ao_seat_id proof',
           ae_arm_id = ao_arm_id proof', ae_generation = ao_generation proof',
           ae_capability = ao_capability proof',
           ae_attachment_verifier_ref = ao_attachment_verifier_ref proof',
           ae_lease_until = ao_lease_until proof', ae_attempt_id = ao_attempt_id proof',
           ae_signal_id = ao_signal_id proof', ae_probe_id = ao_probe_id proof',
           ae_mutation_epoch = ao_mutation_epoch proof', ae_observed_at = ao_observed_at proof',
           ae_fingerprint = fingerprint, ae_producer_version = version,
           ae_producer_dialect = dialect\<rparr>
      | _ \<Rightarrow> Inl InvalidTransition)"

definition record_active_hold ::
  "(bytes \<Rightarrow> bytes \<Rightarrow> bytes) \<Rightarrow> FakePersist \<Rightarrow> ActiveObservationProof
    \<Rightarrow> FakePersist \<times> (PersistError + IdempotentWrite)" where
  "record_active_hold keyed_blake3 s proof' =
     (let attempt_id = ao_attempt_id proof' in
      try_in s (ok_or (bt_get (fp_attachments s) attempt_id) Unauthorized) (\<lambda>attachment.
      try_in s (ok_or (bt_get (fp_births s) (ao_birth_id proof')) Unauthorized) (\<lambda>birth.
      try_in s (ok_or (claim_for_attempt s attempt_id) Unauthorized) (\<lambda>claim.
      try_in s (ok_or (bt_get (fp_prepared s) attempt_id) Unauthorized) (\<lambda>prepared.
      if active_hold_unauthorized s proof' attachment birth claim prepared then (s, Inl Unauthorized)
      else try_in s (active_evidence keyed_blake3 (fp_active_mac_key s) proof') (\<lambda>record'.
        let conclusion = \<lparr>pw_attempt_id = attempt_id, pw_signal_id = ao_signal_id proof',
              pw_conclusion = PW_HeldBeforeNativeWrite (ae_evidence_ref record'),
              pw_recorded_at = ao_observed_at proof'\<rparr> in
        case bt_get (fp_active_observations s) attempt_id of
          Some existing \<Rightarrow>
            if existing = record' \<and> bt_get (fp_prewrite s) attempt_id = Some conclusion
            then (s, Inr IW_ExactReplay) else (s, Inl Conflict)
        | None \<Rightarrow>
            if bt_contains (fp_prewrite s) attempt_id then (s, Inl Conflict)
            else (case bs_insert (ae_probe_id record') (fp_consumed_probes s) of
              (consumed, fresh) \<Rightarrow>
                let s = s\<lparr>fp_consumed_probes := consumed\<rparr> in
                if \<not> fresh then (s, Inl Conflict)
                else
                  (s\<lparr>fp_active_observations :=
                        bt_insert attempt_id record' (fp_active_observations s),
                     fp_prewrite := bt_insert attempt_id conclusion (fp_prewrite s)\<rparr>,
                   Inr IW_Recorded))))))))"

section \<open>The reservation of the native write\<close>

definition reserve_native_turn_write ::
  "FakePersist \<Rightarrow> ValidatedIdlePermit \<Rightarrow> PersistedTurnCorrelation
    \<Rightarrow> FakePersist \<times> (PersistError + NativeWriteReservation)" where
  "reserve_native_turn_write s idle correlation =
     (if vp_observed_at idle \<ge> vp_valid_until idle
         \<or> vp_attempt_id idle \<noteq> tc_attempt_id correlation
         \<or> vp_signal_id idle \<noteq> tc_signal_id correlation
         \<or> vp_birth_id idle \<noteq> tc_birth_id correlation
         \<or> vp_thread_ref idle \<noteq> tc_thread_ref correlation
         \<or> ep_birth_id (vp_mutation_epoch idle) \<noteq> vp_birth_id idle
         \<or> bs_member (vp_probe_id idle) (fp_consumed_probes s)
         \<or> bt_contains (fp_reservations s) (vp_attempt_id idle)
      then (s, Inl Unauthorized)
      else try_in s (ok_or (bt_get (fp_attachments s) (vp_attempt_id idle)) Unauthorized) (\<lambda>attachment.
        if pt_birth_id attachment \<noteq> vp_birth_id idle
           \<or> pt_arm_id attachment \<noteq> vp_arm_id idle
           \<or> pt_generation attachment \<noteq> vp_generation idle
           \<or> pt_capability attachment \<noteq> vp_capability idle
           \<or> pt_verifier_ref attachment \<noteq> vp_verifier_ref idle
           \<or> pt_revoked attachment
        then (s, Inl Unauthorized)
        else
          (s\<lparr>fp_consumed_probes := fst (bs_insert (vp_probe_id idle) (fp_consumed_probes s)),
             fp_reservations := bt_insert (vp_attempt_id idle)
               \<lparr>nr_correlation = correlation, nr_probe_id = vp_probe_id idle,
                nr_expected_epoch = vp_mutation_epoch idle, nr_concluded = False\<rparr> (fp_reservations s)\<rparr>,
           Inr \<lparr>wr_correlation = correlation, wr_probe_id = vp_probe_id idle,
             wr_expected_epoch = vp_mutation_epoch idle\<rparr>)))"

section \<open>Evidence and facts\<close>

definition record_native_write_evidence ::
  "FakePersist \<Rightarrow> NativeWriteEvidenceCommit \<Rightarrow> FakePersist \<times> (PersistError + IdempotentWrite)" where
  "record_native_write_evidence s commit =
     (let id = tc_attempt_id (ec_correlation commit) in
      try_in s (ok_or (bt_get (fp_reservations s) id) InvalidTransition) (\<lambda>reservation.
      if nr_correlation reservation \<noteq> ec_correlation commit then (s, Inl Unauthorized)
      else (case bt_get (fp_write_evidence s) id of
        Some existing \<Rightarrow>
          if existing = ec_evidence commit
             \<and> bt_get (fp_write_evidence_refs s) id = Some (ec_evidence_ref commit)
          then (s, Inr IW_ExactReplay) else (s, Inl Conflict)
      | None \<Rightarrow>
          (conclude_reservation
             (s\<lparr>fp_write_evidence := bt_insert id (ec_evidence commit) (fp_write_evidence s),
                fp_write_evidence_refs :=
                  bt_insert id (ec_evidence_ref commit) (fp_write_evidence_refs s)\<rparr>) id,
           Inr IW_Recorded))))"

fun fact_turn_ref :: "NativeTurnFact \<Rightarrow> bytes option" where
  "fact_turn_ref (NF_Accepted turn_ref) = Some turn_ref"
| "fact_turn_ref (NF_Started turn_ref) = Some turn_ref"
| "fact_turn_ref (NF_Terminal turn_ref _) = Some turn_ref"
| "fact_turn_ref NF_DegradedTerminalObservation = None"
| "fact_turn_ref NF_ControllerLost = None"
| "fact_turn_ref NF_Unknown = None"

definition other_turn :: "bytes option \<Rightarrow> bytes \<Rightarrow> bool" where
  "other_turn existing turn_ref =
     (case existing of None \<Rightarrow> False | Some existing \<Rightarrow> existing \<noteq> turn_ref)"

text \<open>What a fact that names a turn needs: the coordinate sealed under its scope, and a reservation
  of the same dispatch that knows no other turn.\<close>

definition validate_turn_ref ::
  "FakePersist \<Rightarrow> PersistedTurnCorrelation \<Rightarrow> PersistedTurnCorrelation \<Rightarrow> bytes \<Rightarrow> PersistError + unit" where
  "validate_turn_ref s prepared correlation turn_ref =
     bind_res (ok_or (bt_get (fp_private_recovery s) turn_ref) Unauthorized) (\<lambda>coordinate.
     bind_res (ensure (co_scope coordinate = correlation_turn_scope correlation) Unauthorized) (\<lambda>_.
     bind_res (ensure (co_plaintext coordinate \<noteq> []) Unauthorized) (\<lambda>_.
     bind_res (ok_or (bt_get (fp_reservations s) (tc_attempt_id correlation)) Unauthorized)
       (\<lambda>reservation.
     let reserved = nr_correlation reservation in
     ensure (\<not> (tc_birth_id reserved \<noteq> tc_birth_id correlation
         \<or> tc_signal_id reserved \<noteq> tc_signal_id correlation
         \<or> tc_thread_ref reserved \<noteq> tc_thread_ref correlation
         \<or> tc_turn_write_id reserved \<noteq> tc_turn_write_id correlation
         \<or> other_turn (tc_turn_ref reserved) turn_ref
         \<or> other_turn (tc_turn_ref prepared) turn_ref)) Unauthorized))))"

definition bind_turn_ref :: "FakePersist \<Rightarrow> string \<Rightarrow> bytes \<Rightarrow> FakePersist" where
  "bind_turn_ref s attempt_id turn_ref =
     (case (bt_get (fp_prepared s) attempt_id, bt_get (fp_reservations s) attempt_id) of
        (Some prepared, Some reservation) \<Rightarrow>
          s\<lparr>fp_prepared := bt_insert attempt_id (prepared\<lparr>tc_turn_ref := Some turn_ref\<rparr>) (fp_prepared s),
            fp_reservations := bt_insert attempt_id
              (reservation\<lparr>nr_correlation := nr_correlation reservation\<lparr>tc_turn_ref := Some turn_ref\<rparr>\<rparr>)
              (fp_reservations s)\<rparr>
      | _ \<Rightarrow> s)"

fun clouding :: "NativeTurnFact \<Rightarrow> bool" where
  "clouding NF_DegradedTerminalObservation = True"
| "clouding NF_ControllerLost = True"
| "clouding NF_Unknown = True"
| "clouding _ = False"

definition facts_of :: "FakePersist \<Rightarrow> string \<Rightarrow> NativeTurnFact list" where
  "facts_of s attempt_id = (case bt_get (fp_turn_facts s) attempt_id of None \<Rightarrow> [] | Some facts \<Rightarrow> facts)"

definition record_native_turn_fact ::
  "FakePersist \<Rightarrow> NativeTurnFactCommit \<Rightarrow> FakePersist \<times> (PersistError + IdempotentWrite)" where
  "record_native_turn_fact s commit =
     (let correlation = fm_correlation commit; attempt_id = tc_attempt_id correlation;
          turn_ref = fact_turn_ref (fm_fact commit) in
      try_in s (ok_or (bt_get (fp_prepared s) attempt_id) Unauthorized) (\<lambda>prepared.
      if tc_signal_id prepared \<noteq> tc_signal_id correlation
         \<or> tc_birth_id prepared \<noteq> tc_birth_id correlation
         \<or> tc_thread_ref prepared \<noteq> tc_thread_ref correlation
         \<or> tc_turn_write_id prepared \<noteq> tc_turn_write_id correlation
      then (s, Inl Unauthorized)
      else if turn_ref \<noteq> None \<and> turn_ref \<noteq> tc_turn_ref correlation then (s, Inl Unauthorized)
      else try_in s (case turn_ref of None \<Rightarrow> Inr ()
            | Some turn_ref \<Rightarrow> validate_turn_ref s prepared correlation turn_ref) (\<lambda>_.
        let facts = facts_of s attempt_id in
        if fm_fact commit \<in> set facts then (s, Inr IW_ExactReplay)
        else
          let s = s\<lparr>fp_turn_facts := bt_insert attempt_id (facts @ [fm_fact commit]) (fp_turn_facts s)\<rparr>;
              s = (case turn_ref of None \<Rightarrow> s | Some turn_ref \<Rightarrow> bind_turn_ref s attempt_id turn_ref);
              s = (if clouding (fm_fact commit)
                   then s\<lparr>fp_write_evidence := bt_insert attempt_id WE_Unknown (fp_write_evidence s)\<rparr>
                   else s)
          in (s, Inr IW_Recorded))))"

definition record_reconciliation_fact ::
  "FakePersist \<Rightarrow> ReconciliationScope \<Rightarrow> ReconciliationDisposition
    \<Rightarrow> FakePersist \<times> (PersistError + IdempotentWrite)" where
  "record_reconciliation_fact s scope disposition =
     (let id = tc_attempt_id (rs_correlation scope) in
      try_in s (ok_or (bt_get (fp_reservations s) id) InvalidTransition) (\<lambda>reservation.
      if nr_correlation reservation \<noteq> rs_correlation scope
         \<or> bt_get (fp_write_evidence s) id \<noteq> Some WE_Unknown
         \<or> bt_get (fp_write_evidence_refs s) id \<noteq> Some (rs_native_write_evidence_ref scope)
      then (s, Inl Unauthorized)
      else (case bt_get (fp_reconciliations s) id of
        Some existing \<Rightarrow>
          if existing = disposition then (s, Inr IW_ExactReplay)
          else if existing = RD_Unknown
          then (s\<lparr>fp_reconciliations := bt_insert id disposition (fp_reconciliations s)\<rparr>, Inr IW_Recorded)
          else (s, Inl Conflict)
      | None \<Rightarrow>
          (s\<lparr>fp_reconciliations := bt_insert id disposition (fp_reconciliations s)\<rparr>, Inr IW_Recorded))))"

definition revoke_controller_attachment ::
  "FakePersist \<Rightarrow> ValidatedAttachmentScope \<Rightarrow> FakePersist \<times> (PersistError + IdempotentWrite)" where
  "revoke_controller_attachment s scope =
     try_in s (ok_or (bt_get (fp_attachments s) (vs_attempt_id scope)) Unauthorized) (\<lambda>attachment.
     if pt_birth_id attachment \<noteq> vs_birth_id scope
        \<or> pt_arm_id attachment \<noteq> vs_arm_id scope
        \<or> pt_generation attachment \<noteq> vs_generation scope
        \<or> pt_verifier_ref attachment \<noteq> vs_verifier_ref scope
     then (s, Inl Unauthorized)
     else if pt_revoked attachment then (s, Inr IW_ExactReplay)
     else (s\<lparr>fp_attachments := bt_insert (vs_attempt_id scope) (attachment\<lparr>pt_revoked := True\<rparr>)
              (fp_attachments s)\<rparr>, Inr IW_Recorded))"

end
