(* ===== verification/Helper_Store.thy ===== *)
theory Helper_Store
  imports Native_Turns
begin

text \<open>
  The helper operations of \<open>FakePersist\<close> (\<open>gearwit-host/src/persist.rs\<close>): grants and their
  revocation, the retrieve exchange with its materialization permit, the acknowledgement of a
  retrieved batch, and the join that re-arms coverage. Constant-time comparison is equality.
\<close>

section \<open>Canonical identities\<close>

definition snapshot_binding_identity :: "ValidatedHelperBinding \<Rightarrow> PersistedHelperBindingIdentity" where
  "snapshot_binding_identity b =
     \<lparr>bi_grant_ref = hb_grant_ref b, bi_seat_id = hb_seat_id b, bi_arm_id = hb_arm_id b,
      bi_generation = hb_generation b, bi_birth_id = hb_birth_id b, bi_attempt_id = hb_attempt_id b,
      bi_signal_id = hb_signal_id b, bi_claim_digest = hb_claim_digest b,
      bi_operations = hb_operations b, bi_lease_until = hb_lease_until b\<rparr>"

definition flag_byte :: "bool \<Rightarrow> byte" where
  "flag_byte b = (if b then 1 else 0)"

definition binding_fields :: "PersistedHelperBindingIdentity \<Rightarrow> bytes list" where
  "binding_fields origin =
     [bi_grant_ref origin, string_bytes (bi_seat_id origin), string_bytes (bi_arm_id origin),
      u64_le (bi_generation origin), bi_birth_id origin, string_bytes (bi_attempt_id origin),
      string_bytes (bi_signal_id origin), bi_claim_digest origin,
      [flag_byte (allows (bi_operations origin) HO_Retrieve)],
      [flag_byte (allows (bi_operations origin) HO_Acknowledge)],
      i128_le (bi_lease_until origin)]"

definition canonical_binding_identity_digest ::
  "(bytes \<Rightarrow> bytes) \<Rightarrow> PersistedHelperBindingIdentity \<Rightarrow> bytes" where
  "canonical_binding_identity_digest blake3 origin =
     blake3 (frames ''gearwit.helper-binding.v1'' (binding_fields origin))"

definition canonical_binding_digest :: "(bytes \<Rightarrow> bytes) \<Rightarrow> ValidatedHelperBinding \<Rightarrow> bytes" where
  "canonical_binding_digest blake3 binding =
     canonical_binding_identity_digest blake3 (snapshot_binding_identity binding)"

definition canonical_retrieve_body_digest :: "(bytes \<Rightarrow> bytes) \<Rightarrow> bytes \<Rightarrow> bytes \<Rightarrow> bytes" where
  "canonical_retrieve_body_digest blake3 binding_digest request_id =
     blake3 (frames ''gearwit.retrieve-request.v1'' [binding_digest, request_id])"

definition canonical_ack_body_digest ::
  "(bytes \<Rightarrow> bytes) \<Rightarrow> bytes \<Rightarrow> bytes \<Rightarrow> bytes \<Rightarrow> string \<Rightarrow> bytes" where
  "canonical_ack_body_digest blake3 binding_digest request_id retrieval_id cursor =
     blake3 (frames ''gearwit.ack-request.v1''
       [binding_digest, request_id, retrieval_id, string_bytes cursor])"

section \<open>Lookups\<close>

definition grant_for :: "bytes \<Rightarrow> string \<Rightarrow> PersistedHelperGrant \<Rightarrow> bool" where
  "grant_for birth_id attempt_id grant = (hg_birth_id grant = birth_id \<and> hg_attempt_id grant = attempt_id)"

definition helper_grant :: "FakePersist \<Rightarrow> bytes \<Rightarrow> string \<Rightarrow> PersistedHelperGrant option" where
  "helper_grant s birth_id attempt_id = List.find (grant_for birth_id attempt_id) (fp_grants s)"

definition update_helper_grant ::
  "FakePersist \<Rightarrow> bytes \<Rightarrow> string \<Rightarrow> (PersistedHelperGrant \<Rightarrow> PersistedHelperGrant) \<Rightarrow> FakePersist" where
  "update_helper_grant s birth_id attempt_id f =
     s\<lparr>fp_grants := update_first (grant_for birth_id attempt_id) f (fp_grants s)\<rparr>"

definition grant_identity_retired :: "FakePersist \<Rightarrow> PersistedHelperGrant \<Rightarrow> bool" where
  "grant_identity_retired s grant =
     list_ex (\<lambda>retired. rg_grant_ref retired = hg_grant_ref grant
         \<or> rg_grant_verifier retired = hg_grant_verifier grant) (fp_retired_grants s)"

definition attempt_lost :: "FakePersist \<Rightarrow> string \<Rightarrow> bool" where
  "attempt_lost s attempt_id = list_ex (\<lambda>fact'. fact' = NF_ControllerLost) (facts_of s attempt_id)"

fun is_terminal :: "NativeTurnFact \<Rightarrow> bool" where
  "is_terminal (NF_Terminal _ _) = True"
| "is_terminal _ = False"

definition attempt_terminal :: "FakePersist \<Rightarrow> string \<Rightarrow> bool" where
  "attempt_terminal s attempt_id = list_ex is_terminal (facts_of s attempt_id)"

definition handled_complete :: "FakePersist \<Rightarrow> string \<Rightarrow> bool" where
  "handled_complete s attempt_id =
     (case bt_get (fp_handled s) attempt_id of
        None \<Rightarrow> False | Some coverage \<Rightarrow> hc_covered_through_newest coverage)"

section \<open>Authority checks\<close>

definition validate_grant_mint :: "FakePersist \<Rightarrow> PersistedHelperGrant \<Rightarrow> PersistError + unit" where
  "validate_grant_mint s grant =
     bind_res (ok_or (claim_for_attempt s (hg_attempt_id grant)) Conflict) (\<lambda>claim.
     bind_res (ensure (\<not> (pc_claim_digest claim \<noteq> hg_claim_digest grant
         \<or> pc_arm_id claim \<noteq> hg_arm_id grant
         \<or> pc_generation claim \<noteq> hg_generation grant
         \<or> pc_signal_id claim \<noteq> hg_signal_id grant)) Conflict) (\<lambda>_.
     bind_res (ok_or (bt_get (fp_attachments s) (hg_attempt_id grant)) Conflict) (\<lambda>attachment.
     bind_res (ensure (\<not> (pt_revoked attachment
         \<or> pt_birth_id attachment \<noteq> hg_birth_id grant
         \<or> pt_seat_id attachment \<noteq> hg_seat_id grant
         \<or> pt_arm_id attachment \<noteq> hg_arm_id grant)) Conflict) (\<lambda>_.
     bind_res (ok_or (bt_get (fp_births s) (hg_birth_id grant)) Conflict) (\<lambda>birth.
     bind_res (ensure (\<not> (br_revoked birth \<or> br_arm_id birth \<noteq> hg_arm_id grant
         \<or> br_seat_id birth \<noteq> hg_seat_id grant)) Conflict) (\<lambda>_.
     bind_res (ok_or (bt_get (fp_arms s) (hg_arm_id grant)) Conflict) (\<lambda>arm.
     bind_res (ensure (\<not> (pm_generation arm \<noteq> hg_generation grant
         \<or> pm_seat_id arm \<noteq> hg_seat_id grant
         \<or> pm_capability arm \<noteq> pt_capability attachment
         \<or> pm_coverage_until arm \<le> fp_now s)) Conflict) (\<lambda>_.
     bind_res (ensure (\<not> (pt_generation attachment \<noteq> hg_generation grant
         \<or> pt_lease_until attachment \<le> fp_now s)) Conflict) (\<lambda>_.
     bind_res (ensure (\<not> (br_generation birth \<noteq> hg_generation grant
         \<or> br_capability birth \<noteq> pt_capability attachment
         \<or> br_lease_until birth \<le> fp_now s)) Conflict) (\<lambda>_.
     bind_res (ensure (\<not> (hg_lease_until grant \<le> fp_now s
         \<or> hg_lease_until grant > pt_lease_until attachment
         \<or> hg_lease_until grant > br_lease_until birth
         \<or> hg_lease_until grant > pm_coverage_until arm)) Conflict) (\<lambda>_.
     ensure (\<not> (attempt_lost s (hg_attempt_id grant)
         \<or> handled_complete s (hg_attempt_id grant)
         \<or> attempt_terminal s (hg_attempt_id grant))) Conflict)))))))))))"

definition authenticate_binding ::
  "FakePersist \<Rightarrow> ValidatedHelperBinding \<Rightarrow> HelperOperation \<Rightarrow> PersistError + PersistedHelperGrant" where
  "authenticate_binding s binding operation =
     bind_res (ok_or (helper_grant s (hb_birth_id binding) (hb_attempt_id binding)) Unauthorized) (\<lambda>grant.
     bind_res (ensure (hg_grant_ref grant = hb_grant_ref binding) Unauthorized) (\<lambda>_.
     bind_res (ensure (\<not> (hg_seat_id grant \<noteq> hb_seat_id binding
         \<or> hg_arm_id grant \<noteq> hb_arm_id binding
         \<or> hg_generation grant \<noteq> hb_generation binding
         \<or> hg_signal_id grant \<noteq> hb_signal_id binding
         \<or> hg_claim_digest grant \<noteq> hb_claim_digest binding
         \<or> hg_operations grant \<noteq> hb_operations binding
         \<or> hg_lease_until grant \<noteq> hb_lease_until binding
         \<or> \<not> allows (hg_operations grant) operation)) Unauthorized) (\<lambda>_.
     bind_res (ok_or (claim_for_attempt s (hb_attempt_id binding)) Unauthorized) (\<lambda>claim.
     bind_res (ensure (\<not> (pc_claim_digest claim \<noteq> hb_claim_digest binding
         \<or> pc_arm_id claim \<noteq> hb_arm_id binding
         \<or> pc_generation claim \<noteq> hb_generation binding
         \<or> pc_signal_id claim \<noteq> hb_signal_id binding)) Unauthorized) (\<lambda>_.
     Inr grant)))))"

definition enforce_unrevoked :: "FakePersist \<Rightarrow> ValidatedHelperBinding \<Rightarrow> PersistError + unit" where
  "enforce_unrevoked s binding =
     bind_res (ok_or (helper_grant s (hb_birth_id binding) (hb_attempt_id binding)) Unauthorized) (\<lambda>grant.
     bind_res (ensure (\<not> hg_revoked grant) Unauthorized) (\<lambda>_.
     bind_res (ok_or (bt_get (fp_attachments s) (hb_attempt_id binding)) Unauthorized) (\<lambda>attachment.
     bind_res (ensure (\<not> pt_revoked attachment) Unauthorized) (\<lambda>_.
     bind_res (ok_or (bt_get (fp_births s) (hb_birth_id binding)) Unauthorized) (\<lambda>birth.
     ensure (\<not> br_revoked birth) Unauthorized)))))"

definition authorize_fresh_use ::
  "FakePersist \<Rightarrow> ValidatedHelperBinding \<Rightarrow> HelperOperation \<Rightarrow> PersistError + unit" where
  "authorize_fresh_use s binding operation =
     bind_res (ok_or (helper_grant s (hb_birth_id binding) (hb_attempt_id binding)) Unauthorized) (\<lambda>grant.
     bind_res (ensure (\<not> (hg_operations grant \<noteq> hb_operations binding
         \<or> hg_lease_until grant \<noteq> hb_lease_until binding)) Unauthorized) (\<lambda>_.
     bind_res (ensure (\<not> (hg_lease_until grant \<le> fp_now s
         \<or> hb_lease_until binding \<le> fp_now s)) Unauthorized) (\<lambda>_.
     bind_res (ok_or (bt_get (fp_arms s) (hb_arm_id binding)) Unauthorized) (\<lambda>arm.
     bind_res (ensure (\<not> (pm_generation arm \<noteq> hb_generation binding
         \<or> pm_seat_id arm \<noteq> hb_seat_id binding
         \<or> pm_coverage_until arm \<le> fp_now s)) Unauthorized) (\<lambda>_.
     bind_res (ok_or (bt_get (fp_attachments s) (hb_attempt_id binding)) Unauthorized) (\<lambda>attachment.
     bind_res (ensure (\<not> (pt_birth_id attachment \<noteq> hb_birth_id binding
         \<or> pt_seat_id attachment \<noteq> hb_seat_id binding
         \<or> pt_arm_id attachment \<noteq> hb_arm_id binding
         \<or> pt_generation attachment \<noteq> hb_generation binding
         \<or> pt_capability attachment \<noteq> pm_capability arm
         \<or> pt_lease_until attachment \<le> fp_now s)) Unauthorized) (\<lambda>_.
     bind_res (ok_or (bt_get (fp_births s) (hb_birth_id binding)) Unauthorized) (\<lambda>birth.
     bind_res (ensure (\<not> (br_revoked birth
         \<or> br_arm_id birth \<noteq> hb_arm_id binding
         \<or> br_seat_id birth \<noteq> hb_seat_id binding
         \<or> br_generation birth \<noteq> hb_generation binding
         \<or> br_capability birth \<noteq> pm_capability arm
         \<or> br_lease_until birth \<le> fp_now s)) Unauthorized) (\<lambda>_.
     bind_res (ensure (\<not> (hg_lease_until grant > pt_lease_until attachment
         \<or> hg_lease_until grant > br_lease_until birth
         \<or> hg_lease_until grant > pm_coverage_until arm)) Unauthorized) (\<lambda>_.
     ensure (\<not> (attempt_lost s (hb_attempt_id binding)
         \<or> handled_complete s (hb_attempt_id binding)
         \<or> attempt_terminal s (hb_attempt_id binding))) InvalidTransition))))))))))"

section \<open>Grants\<close>

definition persist_helper_grant ::
  "FakePersist \<Rightarrow> PersistedHelperGrant \<Rightarrow> FakePersist \<times> (PersistError + unit)" where
  "persist_helper_grant s grant =
     try_in s (validate_grant_mint s grant) (\<lambda>_.
     if grant_identity_retired s grant then (s, Inl Conflict)
     else (case helper_grant s (hg_birth_id grant) (hg_attempt_id grant) of
       Some existing \<Rightarrow>
         if existing = grant then (s, Inr ())
         else if hg_revoked existing then (s, Inl Conflict)
         else if hg_seat_id existing \<noteq> hg_seat_id grant
            \<or> hg_arm_id existing \<noteq> hg_arm_id grant
            \<or> hg_generation existing \<noteq> hg_generation grant
            \<or> hg_birth_id existing \<noteq> hg_birth_id grant
            \<or> hg_attempt_id existing \<noteq> hg_attempt_id grant
            \<or> hg_signal_id existing \<noteq> hg_signal_id grant
            \<or> hg_claim_digest existing \<noteq> hg_claim_digest grant
            \<or> hg_operations existing \<noteq> hg_operations grant
            \<or> hg_executable_identity existing \<noteq> hg_executable_identity grant
         then (s, Inl Conflict)
         else if hg_grant_ref existing = hg_grant_ref grant
            \<or> hg_grant_verifier existing = hg_grant_verifier grant
         then (s, Inl Conflict)
         else
           let retired = \<lparr>rg_grant_ref = hg_grant_ref existing,
                 rg_grant_verifier = hg_grant_verifier existing\<rparr>;
               s = update_helper_grant s (hg_birth_id grant) (hg_attempt_id grant) (\<lambda>_. grant)
           in (s\<lparr>fp_retired_grants := fp_retired_grants s @ [retired]\<rparr>, Inr ())
     | None \<Rightarrow> (s\<lparr>fp_grants := fp_grants s @ [grant]\<rparr>, Inr ())))"

definition revoke_helper_grant ::
  "FakePersist \<Rightarrow> HelperRevocationScope \<Rightarrow> FakePersist \<times> (PersistError + IdempotentWrite)" where
  "revoke_helper_grant s scope =
     try_in s (ok_or (helper_grant s (hv_birth_id scope) (hv_attempt_id scope)) Unauthorized) (\<lambda>grant.
     if hg_grant_ref grant \<noteq> hv_grant_ref scope then (s, Inl Unauthorized)
     else if hg_revoked grant then (s, Inr IW_ExactReplay)
     else (update_helper_grant s (hv_birth_id scope) (hv_attempt_id scope)
             (\<lambda>grant. grant\<lparr>hg_revoked := True\<rparr>), Inr IW_Recorded))"

section \<open>Retrieve and materialize\<close>

definition mint_retrieve_permit ::
  "(bytes \<Rightarrow> bytes) \<Rightarrow> ValidatedHelperBinding \<Rightarrow> bytes \<Rightarrow> RecordedRetrieveResult \<Rightarrow> PermitProvenance
    \<Rightarrow> ClaimMaterializationPermit" where
  "mint_retrieve_permit blake3 binding request_id recorded provenance =
     \<lparr>mp_grant_ref = hb_grant_ref binding, mp_binding_digest = canonical_binding_digest blake3 binding,
      mp_request_id = request_id, mp_retrieval_id = rv_retrieval_id recorded,
      mp_claim_digest = hb_claim_digest binding, mp_payload_ref = rv_claim_payload_ref recorded,
      mp_provenance = provenance\<rparr>"

text \<open>\<open>entropy\<close> is the draw of the fresh \<open>RetrievalId\<close>.\<close>

definition record_retrieve_exchange ::
  "(bytes \<Rightarrow> bytes) \<Rightarrow> bytes option \<Rightarrow> FakePersist \<Rightarrow> RetrieveExchange
    \<Rightarrow> FakePersist \<times> (PersistError + AuthorizedRetrieve IdempotentResult)" where
  "record_retrieve_exchange blake3 entropy s exchange =
     (let binding = re_binding exchange; request_id = re_request_id exchange;
          binding_digest = canonical_binding_digest blake3 binding in
      try_in s (authenticate_binding s binding HO_Retrieve) (\<lambda>_.
      try_in s (enforce_unrevoked s binding) (\<lambda>_.
      if canonical_retrieve_body_digest blake3 binding_digest request_id \<noteq> re_canonical_body_digest exchange
      then (s, Inl Conflict)
      else if bt_contains (fp_ack_replays s) request_id then (s, Inl Conflict)
      else (case bt_get (fp_retrieve_replays s) request_id of
        Some stored \<Rightarrow>
          if rp_binding_digest stored = binding_digest
             \<and> rp_canonical_body_digest stored = re_canonical_body_digest exchange
          then (s, Inr (IR_ExactReplay \<lparr>az_recorded = rp_result stored,
                 az_permit = mint_retrieve_permit blake3 binding request_id (rp_result stored) PP_ExactReplay\<rparr>))
          else (s, Inl Conflict)
      | None \<Rightarrow>
          try_in s (authorize_fresh_use s binding HO_Retrieve) (\<lambda>_.
          try_in s (ok_or (claim_for_attempt s (hb_attempt_id binding)) Unauthorized) (\<lambda>claim.
          if \<not> bt_contains (fp_payloads s) (pc_payload_ref claim) then (s, Inl PayloadUnavailable)
          else
            let refs = pc_event_refs claim in
            if refs = [] then (s, Inl InvalidTransition)
            else try_in s (ok_or entropy StorageUnavailable) (\<lambda>retrieval_id.
              if length refs > 255 then (s, Inl InvalidTransition)
              else
                let result = \<lparr>rv_retrieval_id = retrieval_id, rv_claim_payload_ref = pc_payload_ref claim,
                      rv_newest_event_ref = last refs, rv_event_count = length refs,
                      rv_retrieved_at = fp_now s\<rparr>;
                    origin = snapshot_binding_identity binding
                in (s\<lparr>fp_retrievals := bt_insert retrieval_id
                        \<lparr>rc_retrieval_id = retrieval_id, rc_binding_digest = binding_digest,
                         rc_origin = origin, rc_result = result\<rparr> (fp_retrievals s),
                      fp_retrieve_replays := bt_insert request_id
                        \<lparr>rp_request_id = request_id, rp_binding_digest = binding_digest,
                         rp_origin = origin,
                         rp_canonical_body_digest = re_canonical_body_digest exchange,
                         rp_result = result\<rparr> (fp_retrieve_replays s)\<rparr>,
                    Inr (IR_Recorded \<lparr>az_recorded = result,
                      az_permit = mint_retrieve_permit blake3 binding request_id result PP_Fresh\<rparr>)))))))))"

definition materialize_claimed_batch ::
  "(bytes \<Rightarrow> bytes) \<Rightarrow> FakePersist \<Rightarrow> ValidatedHelperBinding \<Rightarrow> ClaimMaterializationPermit
    \<Rightarrow> PersistError + BoundedClaimPayload" where
  "materialize_claimed_batch blake3 s binding permit =
     bind_res (authenticate_binding s binding HO_Retrieve) (\<lambda>_.
     bind_res (enforce_unrevoked s binding) (\<lambda>_.
     bind_res (ensure (\<not> (mp_grant_ref permit \<noteq> hb_grant_ref binding
         \<or> mp_binding_digest permit \<noteq> canonical_binding_digest blake3 binding
         \<or> mp_claim_digest permit \<noteq> hb_claim_digest binding)) Unauthorized) (\<lambda>_.
     bind_res (ok_or (bt_get (fp_retrieve_replays s) (mp_request_id permit)) Unauthorized) (\<lambda>replay.
     bind_res (ok_or (bt_get (fp_retrievals s) (mp_retrieval_id permit)) Unauthorized) (\<lambda>stored.
     bind_res (ensure (\<not> (rp_request_id replay \<noteq> mp_request_id permit
         \<or> rp_binding_digest replay \<noteq> mp_binding_digest permit
         \<or> rp_canonical_body_digest replay
            \<noteq> canonical_retrieve_body_digest blake3 (rp_binding_digest replay) (mp_request_id permit)
         \<or> rv_retrieval_id (rp_result replay) \<noteq> mp_retrieval_id permit
         \<or> rp_result replay \<noteq> rc_result stored
         \<or> rc_binding_digest stored \<noteq> mp_binding_digest permit
         \<or> rv_claim_payload_ref (rc_result stored) \<noteq> mp_payload_ref permit)) Unauthorized) (\<lambda>_.
     bind_res (ok_or (claim_for_attempt s (hb_attempt_id binding)) Unauthorized) (\<lambda>claim.
     bind_res (ensure (\<not> (pc_payload_ref claim \<noteq> mp_payload_ref permit
         \<or> pc_claim_digest claim \<noteq> mp_claim_digest permit)) Unauthorized) (\<lambda>_.
     bind_res (if mp_provenance permit = PP_Fresh then authorize_fresh_use s binding HO_Retrieve else Inr ())
       (\<lambda>_.
     ok_or (bt_get (fp_payloads s) (mp_payload_ref permit)) PayloadUnavailable)))))))))"

section \<open>Acknowledge\<close>

definition furthest_cursor :: "FakePersist \<Rightarrow> string \<Rightarrow> string list \<Rightarrow> nat \<Rightarrow> PersistError + nat" where
  "furthest_cursor s attempt_id refs at =
     (case bt_get (fp_handled s) attempt_id of
        None \<Rightarrow> Inr at
      | Some existing \<Rightarrow>
          bind_res (ok_or (position (hc_cursor existing) refs) InvalidTransition) (\<lambda>old.
          Inr (max at old)))"

definition acknowledge_retrieved_batch ::
  "(bytes \<Rightarrow> bytes) \<Rightarrow> FakePersist \<Rightarrow> ValidatedHelperBinding \<Rightarrow> AcknowledgeRequest
    \<Rightarrow> FakePersist \<times> (PersistError + AcknowledgeResult IdempotentResult)" where
  "acknowledge_retrieved_batch blake3 s binding request =
     (let binding_digest = canonical_binding_digest blake3 binding; attempt_id = hb_attempt_id binding in
      try_in s (authenticate_binding s binding HO_Acknowledge) (\<lambda>_.
      try_in s (enforce_unrevoked s binding) (\<lambda>_.
      if canonical_ack_body_digest blake3 binding_digest (aq_request_id request) (aq_retrieval_id request)
           (aq_cursor request) \<noteq> aq_canonical_body_digest request
      then (s, Inl Conflict)
      else if bt_contains (fp_retrieve_replays s) (aq_request_id request) then (s, Inl Conflict)
      else (case bt_get (fp_ack_replays s) (aq_request_id request) of
        Some stored \<Rightarrow>
          if ap_binding_digest stored = binding_digest
             \<and> ap_canonical_body_digest stored = aq_canonical_body_digest request
             \<and> ap_retrieval_id stored = aq_retrieval_id request
             \<and> ap_cursor stored = aq_cursor request
          then (s, Inr (IR_ExactReplay (ap_result stored)))
          else (s, Inl Conflict)
      | None \<Rightarrow>
          try_in s (authorize_fresh_use s binding HO_Acknowledge) (\<lambda>_.
          try_in s (ok_or (bt_get (fp_retrievals s) (aq_retrieval_id request)) Unauthorized) (\<lambda>retrieval.
          if rc_binding_digest retrieval \<noteq> binding_digest then (s, Inl Unauthorized)
          else try_in s (ok_or (claim_for_attempt s attempt_id) Unauthorized) (\<lambda>claim.
          if rv_claim_payload_ref (rc_result retrieval) \<noteq> pc_payload_ref claim then (s, Inl Unauthorized)
          else
            let refs = pc_event_refs claim in
            try_in s (ok_or (position (aq_cursor request) refs) Unauthorized) (\<lambda>at.
            try_in s (proved_ack_index blake3 claim refs (bt_get (fp_payloads s) (pc_payload_ref claim)))
              (\<lambda>proved_through.
            if at > proved_through then (s, Inl InvalidTransition)
            else try_in s (ok_or (if refs = [] then None else Some (length refs - 1)) InvalidTransition)
              (\<lambda>newest_position.
            try_in s (furthest_cursor s attempt_id refs at) (\<lambda>furthest.
            try_in s (ok_or (if furthest < length refs then Some (refs ! furthest) else None) InvalidTransition)
              (\<lambda>cursor.
            let result = \<lparr>ak_attempt_id = attempt_id, ak_signal_id = hb_signal_id binding,
                  ak_cursor = aq_cursor request, ak_accepted_at = fp_now s\<rparr>
            in (s\<lparr>fp_handled := bt_insert attempt_id
                    \<lparr>hc_attempt_id = attempt_id, hc_signal_id = hb_signal_id binding, hc_cursor = cursor,
                     hc_covered_through_newest = (furthest = newest_position)\<rparr> (fp_handled s),
                  fp_ack_replays := bt_insert (aq_request_id request)
                    \<lparr>ap_request_id = aq_request_id request, ap_binding_digest = binding_digest,
                     ap_canonical_body_digest = aq_canonical_body_digest request,
                     ap_retrieval_id = aq_retrieval_id request, ap_cursor = aq_cursor request,
                     ap_result = result\<rparr> (fp_ack_replays s)\<rparr>,
                Inr (IR_Recorded result))))))))))))))"

section \<open>The re-arm join\<close>

definition scope_matches_claim :: "FakePersist \<Rightarrow> RearmJoinScope \<Rightarrow> bool" where
  "scope_matches_claim s scope =
     list_ex (\<lambda>claim. pc_attempt_id claim = js_attempt_id scope
         \<and> pc_arm_id claim = js_arm_id scope
         \<and> pc_generation claim = js_generation scope
         \<and> pc_signal_id claim = js_signal_id scope) (bt_values (fp_claims s))"

definition handled_through_newest :: "FakePersist \<Rightarrow> RearmJoinScope \<Rightarrow> bool" where
  "handled_through_newest s scope =
     (case bt_get (fp_handled s) (js_attempt_id scope) of
        None \<Rightarrow> False
      | Some coverage \<Rightarrow> hc_signal_id coverage = js_signal_id scope \<and> hc_covered_through_newest coverage)"

definition rearm_key :: "RearmJoinScope \<Rightarrow> string \<times> u64 \<times> string \<times> string" where
  "rearm_key scope = (js_arm_id scope, js_generation scope, js_attempt_id scope, js_signal_id scope)"

definition try_rearm_join ::
  "FakePersist \<Rightarrow> RearmJoinScope \<Rightarrow> FakePersist \<times> (PersistError + RearmJoinResult)" where
  "try_rearm_join s scope =
     (let key = rearm_key scope; matches = scope_matches_claim s scope;
          handled = handled_through_newest s scope;
          recognized_terminal = attempt_terminal s (js_attempt_id scope) in
      if bs_member key (fp_rearmed s) then
        (if matches \<and> handled \<and> recognized_terminal then (s, Inr RJ_AlreadyRearmed) else (s, Inl Conflict))
      else if \<not> matches \<or> \<not> handled then (s, Inr RJ_WaitingForHandled)
      else if \<not> recognized_terminal then (s, Inr RJ_WaitingForRecognizedTerminal)
      else (s\<lparr>fp_rearmed := fst (bs_insert key (fp_rearmed s))\<rparr>, Inr RJ_Rearmed))"

end
