(* ===== verification/Recovery.thy ===== *)
theory Recovery
  imports Helper_Store
begin

text \<open>
  Recovery of the store, \<open>gearwit-host/src/persist.rs\<close>: what \<open>recover_authority_state\<close> concludes
  about an interrupted run, the snapshot it returns, and the rebuilding of a store from such a
  snapshot with the checks it must pass.
\<close>

section \<open>The snapshot\<close>

record PersistedNativeWriteEvidence =
  ne_correlation :: PersistedTurnCorrelation
  ne_evidence :: NativeWriteEvidence
  ne_evidence_ref :: bytes

record PersistedNativeTurnFacts =
  nf_attempt_id :: string
  nf_facts :: "NativeTurnFact list"

record PersistedReconciliation =
  rl_attempt_id :: string
  rl_disposition :: ReconciliationDisposition

record RecoverySnapshot =
  sn_arms :: "PersistedArm list"
  sn_claims :: "PersistedClaimRecord list"
  sn_attachments :: "PersistedControllerAttachment list"
  sn_controller_births :: "PersistedControllerBirth list"
  sn_ownership :: "PersistedThreadOwnership list"
  sn_turn_correlations :: "PersistedTurnCorrelation list"
  sn_reservations :: "PersistedNativeReservation list"
  sn_native_write_evidence :: "PersistedNativeWriteEvidence list"
  sn_native_turn_facts :: "PersistedNativeTurnFacts list"
  sn_reconciliations :: "PersistedReconciliation list"
  sn_prewrite_conclusions :: "PersistedPreWriteConclusion list"
  sn_active_observations :: "PersistedActiveObservationEvidence list"
  sn_helper_grants :: "PersistedHelperGrant list"
  sn_retired_helper_grants :: "PersistedRetiredGrant list"
  sn_retrieve_replays :: "PersistedRetrieveReplay list"
  sn_retrieval_bindings :: "PersistedRetrievalRecord list"
  sn_ack_replays :: "PersistedAckReplay list"
  sn_handled_coverage :: "PersistedHandledCoverage list"
  sn_rearmed_joins :: "PersistedRearmJoin list"
  sn_attempt_seq :: u64

definition rearm_join_of :: "string \<times> u64 \<times> string \<times> string \<Rightarrow> PersistedRearmJoin" where
  "rearm_join_of key = (case key of (arm_id, generation, attempt_id, signal_id) \<Rightarrow>
     \<lparr>rj_arm_id = arm_id, rj_generation = generation, rj_attempt_id = attempt_id,
      rj_signal_id = signal_id\<rparr>)"

definition write_evidence_rows :: "FakePersist \<Rightarrow> PersistedNativeWriteEvidence list" where
  "write_evidence_rows s =
     List.map_filter (\<lambda>(attempt_id, evidence).
       case (bt_get (fp_reservations s) attempt_id, bt_get (fp_write_evidence_refs s) attempt_id) of
         (Some reservation, Some evidence_ref) \<Rightarrow>
           Some \<lparr>ne_correlation = nr_correlation reservation, ne_evidence = evidence,
                 ne_evidence_ref = evidence_ref\<rparr>
       | _ \<Rightarrow> None) (bt_entries (fp_write_evidence s))"

definition export_ownership :: "FakePersist \<Rightarrow> PersistedThreadOwnership list" where
  "export_ownership s =
     map (\<lambda>(birth_id, state). \<lparr>po_birth_id = birth_id, po_state = state\<rparr>) (bt_entries (fp_ownership s))"

definition snapshot_of :: "FakePersist \<Rightarrow> RecoverySnapshot" where
  "snapshot_of s =
     \<lparr>sn_arms = bt_values (fp_arms s), sn_claims = bt_values (fp_claims s),
      sn_attachments = bt_values (fp_attachments s), sn_controller_births = bt_values (fp_births s),
      sn_ownership = export_ownership s, sn_turn_correlations = bt_values (fp_prepared s),
      sn_reservations = bt_values (fp_reservations s),
      sn_native_write_evidence = write_evidence_rows s,
      sn_native_turn_facts = map (\<lambda>(attempt_id, facts). \<lparr>nf_attempt_id = attempt_id, nf_facts = facts\<rparr>)
        (bt_entries (fp_turn_facts s)),
      sn_reconciliations = map (\<lambda>(attempt_id, disposition).
          \<lparr>rl_attempt_id = attempt_id, rl_disposition = disposition\<rparr>) (bt_entries (fp_reconciliations s)),
      sn_prewrite_conclusions = bt_values (fp_prewrite s),
      sn_active_observations = bt_values (fp_active_observations s),
      sn_helper_grants = fp_grants s, sn_retired_helper_grants = fp_retired_grants s,
      sn_retrieve_replays = bt_values (fp_retrieve_replays s),
      sn_retrieval_bindings = bt_values (fp_retrievals s),
      sn_ack_replays = bt_values (fp_ack_replays s), sn_handled_coverage = bt_values (fp_handled s),
      sn_rearmed_joins = map rearm_join_of (bt_keys (fp_rearmed s)),
      sn_attempt_seq = fp_attempt_seq s\<rparr>"

section \<open>What recovery concludes\<close>

fun quarantine :: "ThreadOwnershipState \<Rightarrow> ThreadOwnershipState" where
  "quarantine (OS_Reserved create_attempt_id) = OS_Unknown create_attempt_id"
| "quarantine state = state"

definition quarantine_reserved_ownership :: "FakePersist \<Rightarrow> FakePersist" where
  "quarantine_reserved_ownership s = s\<lparr>fp_ownership := bt_map (\<lambda>_. quarantine) (fp_ownership s)\<rparr>"

fun settle_interrupted :: "FakePersist \<Rightarrow> string \<times> NativeWriteEvidence \<Rightarrow> FakePersist" where
  "settle_interrupted s (attempt_id, WE_WriterAccepted _) =
     s\<lparr>fp_write_evidence := bt_insert attempt_id WE_Unknown (fp_write_evidence s)\<rparr>"
| "settle_interrupted s (attempt_id, WE_ExactResponse fact') =
     s\<lparr>fp_turn_facts := bt_insert attempt_id [fact'] (fp_turn_facts s)\<rparr>"
| "settle_interrupted s _ = s"

definition interrupted_facts :: "FakePersist \<Rightarrow> (string \<times> NativeWriteEvidence) list" where
  "interrupted_facts s =
     filter (\<lambda>(attempt_id, _). \<not> bt_contains (fp_turn_facts s) attempt_id) (bt_entries (fp_write_evidence s))"

definition unresolved_reservations :: "FakePersist \<Rightarrow> string list" where
  "unresolved_reservations s =
     map fst (filter (\<lambda>(attempt_id, reservation). \<not> nr_concluded reservation
       \<and> \<not> bt_contains (fp_write_evidence s) attempt_id) (bt_entries (fp_reservations s)))"

text \<open>\<open>entropy\<close> gives the evidence reference drawn for each attempt. A failed draw stops the loop.\<close>

fun conclude_unresolved ::
  "(string \<Rightarrow> bytes option) \<Rightarrow> FakePersist \<Rightarrow> string list \<Rightarrow> FakePersist \<times> (PersistError + unit)" where
  "conclude_unresolved entropy s [] = (s, Inr ())"
| "conclude_unresolved entropy s (attempt_id # rest) =
     (case entropy attempt_id of
        None \<Rightarrow> (s, Inl StorageUnavailable)
      | Some evidence_ref \<Rightarrow>
          conclude_unresolved entropy (conclude_reservation
            (s\<lparr>fp_write_evidence := bt_insert attempt_id WE_Unknown (fp_write_evidence s),
               fp_write_evidence_refs := bt_insert attempt_id evidence_ref (fp_write_evidence_refs s)\<rparr>)
            attempt_id) rest)"

definition helper_request_nonce_collision :: "FakePersist \<Rightarrow> bool" where
  "helper_request_nonce_collision s =
     list_ex (\<lambda>nonce. bt_contains (fp_ack_replays s) nonce) (bt_keys (fp_retrieve_replays s))"

definition recovered_claim_invalid ::
  "(bytes \<Rightarrow> bytes) \<Rightarrow> FakePersist \<Rightarrow> PersistedClaimRecord \<Rightarrow> PersistError option" where
  "recovered_claim_invalid blake3 s claim =
     (let payload = bt_get (fp_payloads s) (pc_payload_ref claim) in
      if coverage_pair_invalid blake3 (pc_coverage claim) (pc_drain_witness claim) (pc_request_id claim)
           (pc_arm_id claim) (pc_generation claim) (pc_signal_id claim) (pc_event_refs claim) payload
      then Some Conflict
      else (case payload of
        Some payload \<Rightarrow>
          if \<not> refs_match (pc_event_refs claim) payload then Some Conflict
          else if canonical_claim_digest blake3 (pc_request_id claim) (pc_arm_id claim)
              (pc_generation claim) (pc_signal_id claim) (pc_event_refs claim) payload
              (pc_coverage claim) (pc_drain_witness claim) \<noteq> pc_claim_digest claim
          then Some Conflict else None
      | None \<Rightarrow>
          if pc_coverage claim \<noteq> None \<or> pc_drain_witness claim \<noteq> None
          then Some PayloadUnavailable else None))"

fun first_invalid :: "('a \<Rightarrow> PersistError option) \<Rightarrow> 'a list \<Rightarrow> PersistError + unit" where
  "first_invalid check [] = Inr ()"
| "first_invalid check (x # xs) = (case check x of Some e \<Rightarrow> Inl e | None \<Rightarrow> first_invalid check xs)"

definition validate_recovered_coverage :: "(bytes \<Rightarrow> bytes) \<Rightarrow> FakePersist \<Rightarrow> PersistError + unit" where
  "validate_recovered_coverage blake3 s =
     first_invalid (recovered_claim_invalid blake3 s) (bt_values (fp_claims s))"

definition recover_authority_state ::
  "(bytes \<Rightarrow> bytes) \<Rightarrow> (string \<Rightarrow> bytes option) \<Rightarrow> FakePersist
    \<Rightarrow> FakePersist \<times> (PersistError + RecoverySnapshot)" where
  "recover_authority_state blake3 entropy s =
     (let s = quarantine_reserved_ownership s;
          s = fold (\<lambda>row s. settle_interrupted s row) (interrupted_facts s) s
      in case conclude_unresolved entropy s (unresolved_reservations s) of
        (s, Inl e) \<Rightarrow> (s, Inl e)
      | (s, Inr _) \<Rightarrow>
          if helper_request_nonce_collision s then (s, Inl Conflict)
          else try_in s (validate_recovered_coverage blake3 s) (\<lambda>_. (s, Inr (snapshot_of s))))"

section \<open>Rebuilding a store\<close>

definition insert_unique :: "('k::linorder, 'v) btree \<Rightarrow> 'k \<Rightarrow> 'v \<Rightarrow> PersistError + ('k, 'v) btree" where
  "insert_unique m key value =
     (if bt_contains m key then Inl Conflict else Inr (bt_insert key value m))"

text \<open>A loop of \<open>insert_unique(map, key(row), value(row))?\<close>.\<close>

fun insert_rows ::
  "('a \<Rightarrow> 'k::linorder) \<Rightarrow> ('a \<Rightarrow> 'v) \<Rightarrow> ('k, 'v) btree \<Rightarrow> 'a list \<Rightarrow> PersistError + ('k, 'v) btree" where
  "insert_rows key value m [] = Inr m"
| "insert_rows key value m (row # rows) =
     bind_res (insert_unique m (key row) (value row)) (\<lambda>m. insert_rows key value m rows)"

definition retrieve_result_matches_claim :: "RecordedRetrieveResult \<Rightarrow> PersistedClaimRecord \<Rightarrow> bool" where
  "retrieve_result_matches_claim result claim =
     (rv_claim_payload_ref result = pc_payload_ref claim
      \<and> (pc_event_refs claim \<noteq> [] \<and> last (pc_event_refs claim) = rv_newest_event_ref result)
      \<and> (length (pc_event_refs claim) \<le> 255 \<and> length (pc_event_refs claim) = rv_event_count result))"

definition claim_for_origin ::
  "(bytes \<Rightarrow> bytes) \<Rightarrow> FakePersist \<Rightarrow> PersistedHelperBindingIdentity \<Rightarrow> bytes \<Rightarrow> HelperOperation
    \<Rightarrow> PersistError + PersistedClaimRecord" where
  "claim_for_origin blake3 s origin binding_digest required =
     (if canonical_binding_identity_digest blake3 origin \<noteq> binding_digest
         \<or> \<not> allows (bi_operations origin) required
      then Inl Conflict
      else (case filter (\<lambda>claim. pc_claim_digest claim = bi_claim_digest origin) (bt_values (fp_claims s)) of
        [claim] \<Rightarrow>
          if pc_arm_id claim \<noteq> bi_arm_id origin
             \<or> pc_generation claim \<noteq> bi_generation origin
             \<or> pc_attempt_id claim \<noteq> bi_attempt_id origin
             \<or> pc_signal_id claim \<noteq> bi_signal_id origin
          then Inl Conflict else Inr claim
      | _ \<Rightarrow> Inl Conflict))"

text \<open>The checks on the rows of each table; each fails with \<open>Conflict\<close>.\<close>

fun grants_admissible :: "FakePersist \<Rightarrow> (bytes \<times> string) bset \<Rightarrow> PersistedHelperGrant list \<Rightarrow> bool" where
  "grants_admissible s grant_keys [] = True"
| "grants_admissible s grant_keys (grant # grants) =
     (case bs_insert (hg_birth_id grant, hg_attempt_id grant) grant_keys of (grant_keys, fresh) \<Rightarrow>
        fresh \<and> \<not> grant_identity_retired s grant \<and> grants_admissible s grant_keys grants)"

definition retrieval_admissible :: "(bytes \<Rightarrow> bytes) \<Rightarrow> FakePersist \<Rightarrow> PersistedRetrievalRecord \<Rightarrow> bool" where
  "retrieval_admissible blake3 s stored =
     (rc_retrieval_id stored = rv_retrieval_id (rc_result stored)
      \<and> list_ex (\<lambda>replay. rv_retrieval_id (rp_result replay) = rc_retrieval_id stored
            \<and> rp_origin replay = rc_origin stored
            \<and> rp_binding_digest replay = rc_binding_digest stored) (bt_values (fp_retrieve_replays s))
      \<and> (case claim_for_origin blake3 s (rc_origin stored) (rc_binding_digest stored) HO_Retrieve of
           Inl _ \<Rightarrow> False
         | Inr claim \<Rightarrow> retrieve_result_matches_claim (rc_result stored) claim))"

definition retrieve_replay_admissible :: "(bytes \<Rightarrow> bytes) \<Rightarrow> FakePersist \<Rightarrow> PersistedRetrieveReplay \<Rightarrow> bool" where
  "retrieve_replay_admissible blake3 s replay =
     (case bt_get (fp_retrievals s) (rv_retrieval_id (rp_result replay)) of
        None \<Rightarrow> False
      | Some stored \<Rightarrow>
          rc_binding_digest stored = rp_binding_digest replay
          \<and> rc_origin stored = rp_origin replay
          \<and> rc_result stored = rp_result replay
          \<and> rc_retrieval_id stored = rv_retrieval_id (rp_result replay)
          \<and> (case claim_for_origin blake3 s (rp_origin replay) (rp_binding_digest replay) HO_Retrieve of
               Inl _ \<Rightarrow> False
             | Inr claim \<Rightarrow> retrieve_result_matches_claim (rp_result replay) claim)
          \<and> canonical_retrieve_body_digest blake3 (rp_binding_digest replay) (rp_request_id replay)
              = rp_canonical_body_digest replay)"

definition cursor_proved :: "(bytes \<Rightarrow> bytes) \<Rightarrow> FakePersist \<Rightarrow> PersistedClaimRecord \<Rightarrow> string \<Rightarrow> bool" where
  "cursor_proved blake3 s claim cursor =
     (case proved_ack_index blake3 claim (pc_event_refs claim) (bt_get (fp_payloads s) (pc_payload_ref claim)) of
        Inl _ \<Rightarrow> False
      | Inr proved \<Rightarrow>
          (case position cursor (pc_event_refs claim) of None \<Rightarrow> False | Some at \<Rightarrow> at \<le> proved))"

definition ack_replay_admissible :: "(bytes \<Rightarrow> bytes) \<Rightarrow> FakePersist \<Rightarrow> PersistedAckReplay \<Rightarrow> bool" where
  "ack_replay_admissible blake3 s replay =
     (case bt_get (fp_retrievals s) (ap_retrieval_id replay) of
        None \<Rightarrow> False
      | Some stored \<Rightarrow>
          rc_binding_digest stored = ap_binding_digest replay
          \<and> rv_retrieval_id (rc_result stored) = ap_retrieval_id replay
          \<and> canonical_ack_body_digest blake3 (ap_binding_digest replay) (ap_request_id replay)
              (ap_retrieval_id replay) (ap_cursor replay) = ap_canonical_body_digest replay
          \<and> (case claim_for_origin blake3 s (rc_origin stored) (rc_binding_digest stored) HO_Acknowledge of
               Inl _ \<Rightarrow> False
             | Inr claim \<Rightarrow>
                 ak_attempt_id (ap_result replay) = pc_attempt_id claim
                 \<and> ak_signal_id (ap_result replay) = pc_signal_id claim
                 \<and> ak_cursor (ap_result replay) = ap_cursor replay
                 \<and> cursor_proved blake3 s claim (ap_cursor replay)))"

definition handled_admissible :: "(bytes \<Rightarrow> bytes) \<Rightarrow> FakePersist \<Rightarrow> PersistedHandledCoverage \<Rightarrow> bool" where
  "handled_admissible blake3 s coverage =
     (case claim_for_attempt s (hc_attempt_id coverage) of
        None \<Rightarrow> False
      | Some claim \<Rightarrow>
          hc_signal_id coverage = pc_signal_id claim
          \<and> cursor_proved blake3 s claim (hc_cursor coverage)
          \<and> hc_covered_through_newest coverage
              = (pc_event_refs claim \<noteq> [] \<and> last (pc_event_refs claim) = hc_cursor coverage))"

definition rearmed_admissible :: "FakePersist \<Rightarrow> string \<times> u64 \<times> string \<times> string \<Rightarrow> bool" where
  "rearmed_admissible s key =
     (case key of (arm_id, generation, attempt_id, signal_id) \<Rightarrow>
       (case claim_for_attempt s attempt_id of
          None \<Rightarrow> False
        | Some claim \<Rightarrow>
            pc_arm_id claim = arm_id \<and> pc_generation claim = generation \<and> pc_signal_id claim = signal_id
            \<and> (case bt_get (fp_handled s) attempt_id of
                 None \<Rightarrow> False
               | Some coverage \<Rightarrow> hc_signal_id coverage = signal_id \<and> hc_covered_through_newest coverage)
            \<and> attempt_terminal s attempt_id))"

definition validate_restored_helper_invariants :: "(bytes \<Rightarrow> bytes) \<Rightarrow> FakePersist \<Rightarrow> PersistError + unit" where
  "validate_restored_helper_invariants blake3 s =
     ensure (grants_admissible s bt_empty (fp_grants s)
       \<and> list_all (retrieval_admissible blake3 s) (bt_values (fp_retrievals s))
       \<and> list_all (retrieve_replay_admissible blake3 s) (bt_values (fp_retrieve_replays s))
       \<and> list_all (ack_replay_admissible blake3 s) (bt_values (fp_ack_replays s))
       \<and> list_all (handled_admissible blake3 s) (bt_values (fp_handled s))
       \<and> list_all (rearmed_admissible s) (bt_keys (fp_rearmed s))) Conflict"

definition rearm_join_key :: "PersistedRearmJoin \<Rightarrow> string \<times> u64 \<times> string \<times> string" where
  "rearm_join_key join = (rj_arm_id join, rj_generation join, rj_attempt_id join, rj_signal_id join)"

definition restore_from_snapshot ::
  "(bytes \<Rightarrow> bytes) \<Rightarrow> bytes \<Rightarrow> RecoverySnapshot \<Rightarrow> (bytes, BoundedClaimPayload) btree
    \<Rightarrow> PersistError + FakePersist" where
  "restore_from_snapshot blake3 active_mac_key sn payloads =
     bind_res (insert_rows pm_arm_id (\<lambda>r. r) bt_empty (sn_arms sn)) (\<lambda>arms.
     bind_res (insert_rows pc_request_id pc_attempt_id bt_empty (sn_claims sn)) (\<lambda>claim_attempts.
     bind_res (insert_rows pc_request_id (\<lambda>r. r) bt_empty (sn_claims sn)) (\<lambda>claims.
     bind_res (insert_rows pt_attempt_id (\<lambda>r. r) bt_empty (sn_attachments sn)) (\<lambda>attachments.
     bind_res (insert_rows br_birth_id (\<lambda>r. r) bt_empty (sn_controller_births sn)) (\<lambda>births.
     bind_res (insert_rows po_birth_id po_state bt_empty (sn_ownership sn)) (\<lambda>ownership.
     bind_res (insert_rows tc_attempt_id (\<lambda>r. r) bt_empty (sn_turn_correlations sn)) (\<lambda>prepared.
     bind_res (insert_rows (tc_attempt_id \<circ> nr_correlation) (\<lambda>r. r) bt_empty (sn_reservations sn)) (\<lambda>reservations.
     bind_res (insert_rows (tc_attempt_id \<circ> ne_correlation) ne_evidence bt_empty (sn_native_write_evidence sn))
       (\<lambda>write_evidence.
     bind_res (insert_rows (tc_attempt_id \<circ> ne_correlation) ne_evidence_ref bt_empty (sn_native_write_evidence sn))
       (\<lambda>write_evidence_refs.
     bind_res (insert_rows nf_attempt_id nf_facts bt_empty (sn_native_turn_facts sn)) (\<lambda>turn_facts.
     bind_res (insert_rows rl_attempt_id rl_disposition bt_empty (sn_reconciliations sn)) (\<lambda>reconciliations.
     bind_res (insert_rows pw_attempt_id (\<lambda>r. r) bt_empty (sn_prewrite_conclusions sn)) (\<lambda>prewrite.
     bind_res (insert_rows ae_attempt_id (\<lambda>r. r) bt_empty (sn_active_observations sn)) (\<lambda>active_observations.
     bind_res (insert_rows rp_request_id (\<lambda>r. r) bt_empty (sn_retrieve_replays sn)) (\<lambda>retrieve_replays.
     bind_res (insert_rows rc_retrieval_id (\<lambda>r. r) bt_empty (sn_retrieval_bindings sn)) (\<lambda>retrievals.
     bind_res (insert_rows ap_request_id (\<lambda>r. r) bt_empty (sn_ack_replays sn)) (\<lambda>ack_replays.
     bind_res (insert_rows hc_attempt_id (\<lambda>r. r) bt_empty (sn_handled_coverage sn)) (\<lambda>handled.
     bind_res (insert_rows rearm_join_key (\<lambda>_. ()) bt_empty (sn_rearmed_joins sn)) (\<lambda>rearmed.
     let s = (fake_persist_default active_mac_key)
          \<lparr>fp_arms := arms, fp_claim_attempts := claim_attempts, fp_claims := claims, fp_payloads := payloads,
           fp_attachments := attachments, fp_births := births, fp_ownership := ownership,
           fp_prepared := prepared, fp_reservations := reservations, fp_write_evidence := write_evidence,
           fp_write_evidence_refs := write_evidence_refs, fp_turn_facts := turn_facts,
           fp_reconciliations := reconciliations, fp_prewrite := prewrite,
           fp_active_observations := active_observations, fp_grants := sn_helper_grants sn,
           fp_retired_grants := sn_retired_helper_grants sn, fp_retrieve_replays := retrieve_replays,
           fp_retrievals := retrievals, fp_ack_replays := ack_replays, fp_handled := handled,
           fp_rearmed := rearmed, fp_attempt_seq := sn_attempt_seq sn\<rparr> in
     bind_res (ensure (\<not> helper_request_nonce_collision s) Conflict) (\<lambda>_.
     bind_res (validate_recovered_coverage blake3 s) (\<lambda>_.
     bind_res (validate_restored_helper_invariants blake3 s) (\<lambda>_. Inr s))))))))))))))))))))))"

section \<open>Test-support access\<close>

definition drop_payload :: "FakePersist \<Rightarrow> bytes \<Rightarrow> FakePersist \<times> bool" where
  "drop_payload s payload_ref =
     (s\<lparr>fp_payloads := bt_remove payload_ref (fp_payloads s)\<rparr>, bt_contains (fp_payloads s) payload_ref)"

definition export_creates :: "FakePersist \<Rightarrow> ThreadCreateReservation list" where
  "export_creates s = bt_values (fp_creates s)"

definition install_creates :: "FakePersist \<Rightarrow> ThreadCreateReservation list \<Rightarrow> FakePersist" where
  "install_creates s creates =
     s\<lparr>fp_creates := bt_of_list (map (\<lambda>create. (tr_birth_id create, create)) creates)\<rparr>"

definition install_ownership :: "FakePersist \<Rightarrow> PersistedThreadOwnership list \<Rightarrow> FakePersist" where
  "install_ownership s rows =
     s\<lparr>fp_ownership := bt_of_list (map (\<lambda>row. (po_birth_id row, po_state row)) rows)\<rparr>"

definition prewrite_conclusion :: "FakePersist \<Rightarrow> string \<Rightarrow> PreWriteConclusion option" where
  "prewrite_conclusion s attempt_id =
     map_option (\<lambda>(_, record'). pw_conclusion record')
       (List.find (\<lambda>(id, _). id = attempt_id) (bt_entries (fp_prewrite s)))"

definition reservation_concluded :: "FakePersist \<Rightarrow> string \<Rightarrow> bool" where
  "reservation_concluded s attempt_id =
     (case List.find (\<lambda>(id, _). id = attempt_id) (bt_entries (fp_reservations s)) of
        None \<Rightarrow> False | Some (_, reservation) \<Rightarrow> nr_concluded reservation)"

end
