(* ===== verification/Store_Ops.thy ===== *)
theory Store_Ops
  imports Recovery
begin

text \<open>
  The store as one state machine: every operation of the port as a step, and the relation
  \<open>store_moves\<close> of the elementary changes those steps are made of. Invariants of the store are
  proved once per elementary change and hold for every sequence of operations.
\<close>

section \<open>Operations\<close>

text \<open>An operation of the port with the entropy it draws.\<close>

datatype StoreOp =
  Op_SetNow instant
| Op_PersistArm PersistedArm
| Op_Admit "bytes option" ClaimAdmission PersistedControllerAttachment
| Op_ReserveBirth PersistedControllerBirth ThreadCreateReservation
| Op_ResolveCreate ThreadCreateCommit
| Op_Seal "bytes option list" NativeCoordinateScope SecretNativeCoordinate
| Op_Prepare PreparedDispatchCommit
| Op_Prewrite PreWriteConclusionCommit
| Op_ActiveHold ActiveObservationProof
| Op_ReserveWrite ValidatedIdlePermit PersistedTurnCorrelation
| Op_WriteEvidence NativeWriteEvidenceCommit
| Op_TurnFact NativeTurnFactCommit
| Op_Reconcile ReconciliationScope ReconciliationDisposition
| Op_RevokeAttachment ValidatedAttachmentScope
| Op_Grant PersistedHelperGrant
| Op_RevokeGrant HelperRevocationScope
| Op_Retrieve "bytes option" RetrieveExchange
| Op_Acknowledge ValidatedHelperBinding AcknowledgeRequest
| Op_Join RearmJoinScope
| Op_Recover "string \<Rightarrow> bytes option"

fun store_step ::
  "(bytes \<Rightarrow> bytes) \<Rightarrow> (bytes \<Rightarrow> bytes \<Rightarrow> bytes) \<Rightarrow> FakePersist \<Rightarrow> StoreOp \<Rightarrow> FakePersist" where
  "store_step b k s (Op_SetNow now) = set_now s now"
| "store_step b k s (Op_PersistArm arm) = fst (persist_arm s arm)"
| "store_step b k s (Op_Admit entropy admission attachment) = fst (admit_claim b entropy s admission attachment)"
| "store_step b k s (Op_ReserveBirth birth create) = fst (reserve_controller_birth s birth create)"
| "store_step b k s (Op_ResolveCreate commit) = fst (resolve_thread_create s commit)"
| "store_step b k s (Op_Seal draws scope coordinate) =
     (case seal_native_coordinate draws s scope coordinate of None \<Rightarrow> s | Some (s', _) \<Rightarrow> s')"
| "store_step b k s (Op_Prepare commit) = fst (record_dispatch_prepared s commit)"
| "store_step b k s (Op_Prewrite commit) = fst (record_prewrite_conclusion s commit)"
| "store_step b k s (Op_ActiveHold proof') = fst (record_active_hold k s proof')"
| "store_step b k s (Op_ReserveWrite idle correlation) = fst (reserve_native_turn_write s idle correlation)"
| "store_step b k s (Op_WriteEvidence commit) = fst (record_native_write_evidence s commit)"
| "store_step b k s (Op_TurnFact commit) = fst (record_native_turn_fact s commit)"
| "store_step b k s (Op_Reconcile scope disposition) = fst (record_reconciliation_fact s scope disposition)"
| "store_step b k s (Op_RevokeAttachment scope) = fst (revoke_controller_attachment s scope)"
| "store_step b k s (Op_Grant grant) = fst (persist_helper_grant s grant)"
| "store_step b k s (Op_RevokeGrant scope) = fst (revoke_helper_grant s scope)"
| "store_step b k s (Op_Retrieve entropy exchange) = fst (record_retrieve_exchange b entropy s exchange)"
| "store_step b k s (Op_Acknowledge binding request) = fst (acknowledge_retrieved_batch b s binding request)"
| "store_step b k s (Op_Join scope) = fst (try_rearm_join s scope)"
| "store_step b k s (Op_Recover entropy) = fst (recover_authority_state b entropy s)"

definition store_run ::
  "(bytes \<Rightarrow> bytes) \<Rightarrow> (bytes \<Rightarrow> bytes \<Rightarrow> bytes) \<Rightarrow> FakePersist \<Rightarrow> StoreOp list \<Rightarrow> FakePersist" where
  "store_run b k s ops = fold (\<lambda>op s. store_step b k s op) ops s"

lemma store_run_simps [simp]:
  "store_run b k s [] = s"
  "store_run b k s (op # ops) = store_run b k (store_step b k s op) ops"
  by (simp_all add: store_run_def)

lemma store_run_append: "store_run b k s (ops @ ops') = store_run b k (store_run b k s ops) ops'"
  by (simp add: store_run_def)

section \<open>Elementary changes\<close>

text \<open>The correlation without the turn it was bound to.\<close>

definition same_dispatch :: "PersistedTurnCorrelation \<Rightarrow> PersistedTurnCorrelation \<Rightarrow> bool" where
  "same_dispatch c d \<longleftrightarrow> c\<lparr>tc_turn_ref := None\<rparr> = d\<lparr>tc_turn_ref := None\<rparr>"

text \<open>The payload that a claim was admitted with.\<close>

definition claim_backed :: "(bytes \<Rightarrow> bytes) \<Rightarrow> PersistedClaimRecord \<Rightarrow> BoundedClaimPayload \<Rightarrow> bool" where
  "claim_backed b claim payload \<longleftrightarrow>
     canonical_claim_digest b (pc_request_id claim) (pc_arm_id claim) (pc_generation claim) (pc_signal_id claim)
       (pc_event_refs claim) payload (pc_coverage claim) (pc_drain_witness claim) = pc_claim_digest claim
     \<and> refs_match (pc_event_refs claim) payload
     \<and> \<not> coverage_pair_invalid b (pc_coverage claim) (pc_drain_witness claim) (pc_request_id claim)
         (pc_arm_id claim) (pc_generation claim) (pc_signal_id claim) (pc_event_refs claim) (Some payload)"

inductive store_moves :: "(bytes \<Rightarrow> bytes) \<Rightarrow> FakePersist \<Rightarrow> FakePersist \<Rightarrow> bool" for b s where
  stay: "store_moves b s s"
| clock: "store_moves b s (s\<lparr>fp_now := now\<rparr>)"
| arm: "store_moves b s (s\<lparr>fp_arms := bt_insert (pm_arm_id arm) arm (fp_arms s)\<rparr>)"
| admit: "store_moves b s (s\<lparr>fp_claims := bt_insert (pc_request_id claim) claim (fp_claims s),
      fp_payloads := bt_insert (pc_payload_ref claim) payload (fp_payloads s),
      fp_claim_attempts := bt_insert (pc_request_id claim) (pc_attempt_id claim) (fp_claim_attempts s),
      fp_attachments := bt_insert (pc_attempt_id claim) attachment (fp_attachments s),
      fp_attempt_seq := n\<rparr>)"
  if "bt_get (fp_claims s) (pc_request_id claim) = None"
    and "\<forall>c \<in> set (bt_values (fp_claims s)). \<not> (pc_arm_id c = pc_arm_id claim \<and> pc_generation c = pc_generation claim)"
    and "bt_get (fp_attachments s) (pc_attempt_id claim) = None"
    and "pt_attempt_id attachment = pc_attempt_id claim"
    and "claim_backed b claim payload"
| birth: "store_moves b s (s\<lparr>fp_births := bt_insert (br_birth_id birth) birth (fp_births s), fp_creates := creates,
      fp_ownership := bt_insert (br_birth_id birth) (OS_Reserved create_attempt_id) (fp_ownership s)\<rparr>)"
  if "bt_get (fp_births s) (br_birth_id birth) = None"
| ownership: "store_moves b s (s\<lparr>fp_create_evidence_refs := refs, fp_ownership := ownership\<rparr>)"
  if "\<forall>key. bt_get ownership key = bt_get (fp_ownership s) key
    \<or> (\<exists>old new. bt_get (fp_ownership s) key = Some old \<and> bt_get ownership key = Some new
        \<and> ownership_transition old new)"
| seal: "store_moves b s (s\<lparr>fp_private_recovery := bt_insert native_ref coordinate (fp_private_recovery s)\<rparr>)"
  if "bt_get (fp_private_recovery s) native_ref = None"
| prepare: "store_moves b s (s\<lparr>fp_prepared := bt_insert (tc_attempt_id correlation) correlation (fp_prepared s)\<rparr>)"
  if "bt_get (fp_prepared s) (tc_attempt_id correlation) = None"
| conclude: "store_moves b s (conclude_reservation s attempt_id)"
| prewrite: "store_moves b s (s\<lparr>fp_prewrite := bt_insert (pw_attempt_id row) row (fp_prewrite s)\<rparr>)"
  if "bt_get (fp_prewrite s) (pw_attempt_id row) = None"
| hold: "store_moves b s (s\<lparr>fp_consumed_probes := bt_insert (ae_probe_id row) () (fp_consumed_probes s),
      fp_active_observations := bt_insert (ae_attempt_id row) row (fp_active_observations s),
      fp_prewrite := bt_insert (ae_attempt_id row) held (fp_prewrite s)\<rparr>)"
  if "bt_get (fp_prewrite s) (ae_attempt_id row) = None" and "\<not> bs_member (ae_probe_id row) (fp_consumed_probes s)"
    and "bt_get (fp_active_observations s) (ae_attempt_id row) = None" and "pw_attempt_id held = ae_attempt_id row"
    and "pw_conclusion held = PW_HeldBeforeNativeWrite (ae_evidence_ref row)"
| spend: "store_moves b s (s\<lparr>fp_consumed_probes := bt_insert probe_id () (fp_consumed_probes s)\<rparr>)"
| reserve: "store_moves b s (s\<lparr>fp_consumed_probes := bt_insert (nr_probe_id row) () (fp_consumed_probes s),
      fp_reservations := bt_insert (tc_attempt_id (nr_correlation row)) row (fp_reservations s)\<rparr>)"
  if "bt_get (fp_reservations s) (tc_attempt_id (nr_correlation row)) = None"
    and "\<not> bs_member (nr_probe_id row) (fp_consumed_probes s)" and "\<not> nr_concluded row"
    and "bt_get (fp_attachments s) (tc_attempt_id (nr_correlation row)) = Some attachment" and "\<not> pt_revoked attachment"
| evidence: "store_moves b s (s\<lparr>fp_write_evidence := bt_insert attempt_id evidence (fp_write_evidence s),
      fp_write_evidence_refs := bt_insert attempt_id evidence_ref (fp_write_evidence_refs s)\<rparr>)"
  if "bt_get (fp_write_evidence s) attempt_id = None"
    and "bt_get (fp_reservations s) attempt_id = Some reservation"
| cloud: "store_moves b s (s\<lparr>fp_write_evidence := bt_insert attempt_id WE_Unknown (fp_write_evidence s)\<rparr>)"
| turn_fact: "store_moves b s (s\<lparr>fp_turn_facts := bt_insert attempt_id (facts_of s attempt_id @ [fact']) (fp_turn_facts s)\<rparr>)"
  if "fact' \<notin> set (facts_of s attempt_id)"
| bind_turn: "store_moves b s (bind_turn_ref s attempt_id turn_ref)"
  if "bt_get (fp_prepared s) attempt_id = Some prepared" and "bt_get (fp_reservations s) attempt_id = Some reservation"
    and "\<not> other_turn (tc_turn_ref prepared) turn_ref"
    and "\<not> other_turn (tc_turn_ref (nr_correlation reservation)) turn_ref"
| reconcile: "store_moves b s (s\<lparr>fp_reconciliations := bt_insert attempt_id disposition (fp_reconciliations s)\<rparr>)"
  if "\<forall>old. bt_get (fp_reconciliations s) attempt_id = Some old \<longrightarrow> old = RD_Unknown"
| revoke_attachment: "store_moves b s (s\<lparr>fp_attachments := bt_insert attempt_id (attachment\<lparr>pt_revoked := True\<rparr>) (fp_attachments s)\<rparr>)"
  if "bt_get (fp_attachments s) attempt_id = Some attachment"
| grant: "store_moves b s (s\<lparr>fp_grants := fp_grants s @ [grant]\<rparr>)"
  if "helper_grant s (hg_birth_id grant) (hg_attempt_id grant) = None"
    and "\<not> grant_identity_retired s grant"
| rotate: "store_moves b s (s\<lparr>fp_grants := update_first (grant_for (hg_birth_id grant) (hg_attempt_id grant)) (\<lambda>_. grant) (fp_grants s),
      fp_retired_grants := fp_retired_grants s @ [\<lparr>rg_grant_ref = hg_grant_ref old, rg_grant_verifier = hg_grant_verifier old\<rparr>]\<rparr>)"
  if "helper_grant s (hg_birth_id grant) (hg_attempt_id grant) = Some old" and "\<not> hg_revoked old"
    and "\<not> grant_identity_retired s grant" and "hg_grant_ref old \<noteq> hg_grant_ref grant"
    and "hg_grant_verifier old \<noteq> hg_grant_verifier grant"
| revoke_grant: "store_moves b s (update_helper_grant s birth_id attempt_id (\<lambda>grant. grant\<lparr>hg_revoked := True\<rparr>))"
| retrieve: "store_moves b s (s\<lparr>fp_retrievals := bt_insert (rv_retrieval_id (rp_result replay))
        \<lparr>rc_retrieval_id = rv_retrieval_id (rp_result replay), rc_binding_digest = rp_binding_digest replay,
         rc_origin = rp_origin replay, rc_result = rp_result replay\<rparr> (fp_retrievals s),
      fp_retrieve_replays := bt_insert (rp_request_id replay) replay (fp_retrieve_replays s)\<rparr>)"
  if "bt_get (fp_retrieve_replays s) (rp_request_id replay) = None"
    and "bt_get (fp_ack_replays s) (rp_request_id replay) = None"
| acknowledge: "store_moves b s (s\<lparr>fp_handled := bt_insert (hc_attempt_id coverage) coverage (fp_handled s),
      fp_ack_replays := bt_insert (ap_request_id replay) replay (fp_ack_replays s)\<rparr>)"
  if "bt_get (fp_ack_replays s) (ap_request_id replay) = None"
    and "bt_get (fp_retrieve_replays s) (ap_request_id replay) = None"
    and "\<not> handled_complete s (hc_attempt_id coverage)" and "\<not> attempt_terminal s (hc_attempt_id coverage)"
    and "\<not> attempt_lost s (hc_attempt_id coverage)"
    and "claim_for_attempt s (hc_attempt_id coverage) = Some claim"
    and "hc_signal_id coverage = pc_signal_id claim"
    and "position (ap_cursor replay) (pc_event_refs claim) = Some at"
    and "proved_ack_index b claim (pc_event_refs claim) payload = Inr proved" and "at \<le> proved"
    and "furthest_cursor s (hc_attempt_id coverage) (pc_event_refs claim) at = Inr furthest"
    and "furthest < length (pc_event_refs claim)" and "hc_cursor coverage = pc_event_refs claim ! furthest"
    and "hc_covered_through_newest coverage \<longleftrightarrow> furthest = length (pc_event_refs claim) - 1"
| join: "store_moves b s (s\<lparr>fp_rearmed := bt_insert (rearm_key scope) () (fp_rearmed s)\<rparr>)"
  if "scope_matches_claim s scope" and "handled_through_newest s scope" and "attempt_terminal s (js_attempt_id scope)"
    and "\<not> bs_member (rearm_key scope) (fp_rearmed s)"

section \<open>Every operation is made of elementary changes\<close>

abbreviation store_moves_star :: "(bytes \<Rightarrow> bytes) \<Rightarrow> FakePersist \<Rightarrow> FakePersist \<Rightarrow> bool" where
  "store_moves_star b \<equiv> (store_moves b)\<^sup>*\<^sup>*"

lemma move_star: "store_moves b s s' \<Longrightarrow> store_moves_star b s s'"
  by (rule r_into_rtranclp)


lemma admit_moves: "store_moves b s (fst (admit_claim b entropy s admission attachment))"
proof (cases "admit_claim b entropy s admission attachment")
  case (Pair s' r)
  show ?thesis
  proof (cases "s' = s")
    case True
    then show ?thesis using Pair by (simp add: store_moves.stay)
  next
    case False
    let ?row = "\<lparr>pc_attempt_id = pt_attempt_id attachment,
                    pc_request_id = cl_request_id admission, pc_arm_id = cl_arm_id admission,
                    pc_generation = cl_generation admission, pc_signal_id = cl_signal_id admission,
                    pc_event_refs = cl_event_refs admission,
                    pc_claim_digest = cl_claim_digest admission, pc_payload_ref = the entropy,
                    pc_claimed_at = cl_claimed_at admission, pc_coverage = cl_coverage admission,
                    pc_drain_witness = cl_drain_witness admission\<rparr>"
    let ?new = "s\<lparr>fp_claims := bt_insert (pc_request_id ?row) ?row (fp_claims s),
                    fp_payloads := bt_insert (pc_payload_ref ?row) (cl_payload admission) (fp_payloads s),
                    fp_claim_attempts := bt_insert (pc_request_id ?row) (pc_attempt_id ?row)
                      (fp_claim_attempts s),
                    fp_attachments := bt_insert (pc_attempt_id ?row) attachment (fp_attachments s),
                    fp_attempt_seq := saturating_add (fp_attempt_seq s) 1\<rparr>"
    from Pair False have a: "s' = ?new"
      and g: "claim_backed b ?row (cl_payload admission)" "bt_get (fp_claims s) (cl_request_id admission) = None"
        "\<not> list_ex (\<lambda>claim. pc_arm_id claim = cl_arm_id admission
               \<and> pc_generation claim = cl_generation admission) (bt_values (fp_claims s))"
        "\<not> bt_contains (fp_attachments s) (pt_attempt_id attachment)"
      unfolding admit_claim_def
      by (auto simp: Let_def try_in_def claim_backed_def coverage_admission_invalid_def
          split: if_splits option.splits sum.splits)
    have "store_moves b s ?new"
      using g by (intro store_moves.admit)
        (auto simp: list_ex_iff tree_simps split: option.splits)
    then show ?thesis using Pair a by simp
  qed
qed

lemma birth_moves: "store_moves b s (fst (reserve_controller_birth s birth create))"
  using store_moves.birth [of s birth b] store_moves.stay [of b s]
  by (auto simp: reserve_controller_birth_def split: option.splits)

lemma ownership_moves:
  assumes "bt_get (fp_ownership s) key = Some old" and "ownership_transition old new"
  shows "store_moves b s (s\<lparr>fp_create_evidence_refs := refs, fp_ownership := bt_insert key new (fp_ownership s)\<rparr>)"
  using assms by (intro store_moves.ownership) (auto simp: tree_simps)

lemma resolve_moves: "store_moves b s (fst (resolve_thread_create s commit))"
  using store_moves.stay [of b s] ownership_moves
  by (auto simp: resolve_thread_create_def try_in_def ok_or_def Let_def split: option.splits)

lemma draw_moves: "draw_native_ref s scope coordinate draws = Some (s', r) \<Longrightarrow> store_moves b s s'"
proof (induction draws)
  case Nil
  then show ?case by simp
next
  case (Cons d draws)
  then show ?case
    by (cases d) (auto simp: tree_simps intro: store_moves.intros split: if_splits)
qed

lemma seal_moves: "seal_native_coordinate draws s scope coordinate = Some (s', r) \<Longrightarrow> store_moves b s s'"
  unfolding seal_native_coordinate_def
  by (auto simp: try_in_def intro: store_moves.stay draw_moves split: if_splits option.splits sum.splits)

lemma prepare_moves: "store_moves b s (fst (record_dispatch_prepared s commit))"
  by (auto simp: record_dispatch_prepared_def Let_def intro: store_moves.intros split: option.splits)

lemma conclude_fields [simp]:
  "fp_prewrite (conclude_reservation s a) = fp_prewrite s"
  "fp_write_evidence (conclude_reservation s a) = fp_write_evidence s"
  "fp_write_evidence_refs (conclude_reservation s a) = fp_write_evidence_refs s"
  "fp_turn_facts (conclude_reservation s a) = fp_turn_facts s"
  by (simp_all add: conclude_reservation_def split: option.splits)

lemma prewrite_moves: "store_moves_star b s (fst (record_prewrite_conclusion s commit))"
proof -
  let ?row = "\<lparr>pw_attempt_id = wc_attempt_id commit, pw_signal_id = wc_signal_id commit,
            pw_conclusion = prewrite_from (wc_conclusion commit), pw_recorded_at = wc_recorded_at commit\<rparr>"
  let ?s = "conclude_reservation s (wc_attempt_id commit)"
  have "store_moves b ?s (?s\<lparr>fp_prewrite := bt_insert (pw_attempt_id ?row) ?row (fp_prewrite ?s)\<rparr>)"
    if "bt_get (fp_prewrite s) (wc_attempt_id commit) = None"
    using that by (intro store_moves.prewrite) simp
  with move_star [OF store_moves.conclude [of b s "wc_attempt_id commit"]] show ?thesis
    by (auto simp: record_prewrite_conclusion_def Let_def split: option.splits
      dest: rtranclp.rtrancl_into_rtrancl)
qed

lemma active_evidence_probe:
  "active_evidence k key p = Inr row \<Longrightarrow> ae_probe_id row = ao_probe_id p \<and> ae_attempt_id row = ao_attempt_id p"
  by (auto simp: active_evidence_def Let_def split: sum.splits)

lemma hold_moves: "store_moves b s (fst (record_active_hold k s p))"
proof -
  have h: "store_moves b s (s\<lparr>fp_consumed_probes := bt_insert (ae_probe_id row) () (fp_consumed_probes s),
      fp_active_observations := bt_insert (ao_attempt_id p) row (fp_active_observations s),
      fp_prewrite := bt_insert (ao_attempt_id p) held (fp_prewrite s)\<rparr>)"
    if "active_evidence k (fp_active_mac_key s) p = Inr row" "\<not> bt_contains (fp_prewrite s) (ao_attempt_id p)"
      "\<not> bt_contains (fp_consumed_probes s) (ae_probe_id row)"
      "bt_get (fp_active_observations s) (ao_attempt_id p) = None"
      "held = \<lparr>pw_attempt_id = ao_attempt_id p, pw_signal_id = ao_signal_id p,
              pw_conclusion = PW_HeldBeforeNativeWrite (ae_evidence_ref row),
              pw_recorded_at = ao_observed_at p\<rparr>" for row held
    using that store_moves.hold [of s row held b] active_evidence_probe [OF that(1)]
    by (auto simp: tree_simps bs_member_def not_Some_eq [symmetric] simp del: not_Some_eq)
  show ?thesis
    unfolding record_active_hold_def Let_def
    by (intro try_in_state [where P = "store_moves b s"])
      (auto simp: bs_insert_def Let_def intro!: try_in_state [where P = "store_moves b s"] h
        intro: store_moves.stay store_moves.spend split: option.splits)
qed

lemma reserve_moves: "store_moves b s (fst (reserve_native_turn_write s idle correlation))"
proof -
  let ?row = "\<lparr>nr_correlation = correlation, nr_probe_id = vp_probe_id idle,
                nr_expected_epoch = vp_mutation_epoch idle, nr_concluded = False\<rparr>"
  show ?thesis
    using store_moves.reserve [of s ?row _ b]
    by (auto simp: reserve_native_turn_write_def try_in_def ok_or_def bs_insert_def tree_simps
        intro: store_moves.stay split: option.splits)
qed

lemma star_step: "store_moves_star b s s' \<Longrightarrow> store_moves b s' s'' \<Longrightarrow> store_moves_star b s s''"
  by (rule rtranclp.rtrancl_into_rtrancl)

lemma write_evidence_moves: "store_moves_star b s (fst (record_native_write_evidence s commit))"
proof -
  let ?id = "tc_attempt_id (ec_correlation commit)"
  let ?s = "s\<lparr>fp_write_evidence := bt_insert ?id (ec_evidence commit) (fp_write_evidence s),
                fp_write_evidence_refs := bt_insert ?id (ec_evidence_ref commit) (fp_write_evidence_refs s)\<rparr>"
  have "store_moves_star b s (conclude_reservation ?s ?id)"
    if "bt_get (fp_write_evidence s) ?id = None" "bt_get (fp_reservations s) ?id = Some reservation" for reservation
    using star_step [OF move_star [OF store_moves.evidence [OF that]] store_moves.conclude] .
  then show ?thesis
    by (auto simp: record_native_write_evidence_def Let_def try_in_def ok_or_def split: option.splits)
qed

lemma turn_fact_moves: "store_moves_star b s (fst (record_native_turn_fact s commit))"
proof -
  let ?c = "fm_correlation commit" and ?f = "fm_fact commit"
  let ?id = "tc_attempt_id ?c"
  let ?s1 = "s\<lparr>fp_turn_facts := bt_insert ?id (facts_of s ?id @ [?f]) (fp_turn_facts s)\<rparr>"
  let ?s2 = "case fact_turn_ref ?f of None \<Rightarrow> ?s1 | Some turn_ref \<Rightarrow> bind_turn_ref ?s1 ?id turn_ref"
  let ?s3 = "if clouding ?f then ?s2\<lparr>fp_write_evidence := bt_insert ?id WE_Unknown (fp_write_evidence ?s2)\<rparr> else ?s2"
  have "store_moves_star b s ?s3"
    if new: "?f \<notin> set (facts_of s ?id)" and p: "bt_get (fp_prepared s) ?id = Some prepared"
      and v: "(case fact_turn_ref ?f of None \<Rightarrow> Inr () | Some turn_ref \<Rightarrow> validate_turn_ref s prepared ?c turn_ref)
        = Inr u" for prepared u
  proof -
    have 1: "store_moves_star b s ?s1" by (rule move_star [OF store_moves.turn_fact [OF new]])
    have 2: "store_moves_star b s ?s2"
    proof (cases "fact_turn_ref ?f")
      case None
      with 1 show ?thesis by simp
    next
      case (Some turn_ref)
      with v p obtain reservation where "bt_get (fp_reservations s) ?id = Some reservation"
        "\<not> other_turn (tc_turn_ref prepared) turn_ref"
        "\<not> other_turn (tc_turn_ref (nr_correlation reservation)) turn_ref"
        by (auto simp: validate_turn_ref_def result_simps Let_def)
      then have "store_moves b ?s1 (bind_turn_ref ?s1 ?id turn_ref)"
        using p by (intro store_moves.bind_turn) auto
      with star_step [OF 1] Some show ?thesis by simp
    qed
    show ?thesis using 2 star_step [OF 2 store_moves.cloud [of b ?s2 ?id]] by auto
  qed
  then show ?thesis
    unfolding record_native_turn_fact_def Let_def
    by (intro try_in_state [where P = "store_moves_star b s"])
      (auto intro!: try_in_state [where P = "store_moves_star b s"])
qed

lemma reconcile_moves: "store_moves b s (fst (record_reconciliation_fact s scope disposition))"
  using store_moves.reconcile [of s "tc_attempt_id (rs_correlation scope)" b disposition]
  by (auto simp: record_reconciliation_fact_def Let_def try_in_def ok_or_def
      intro: store_moves.stay split: option.splits)

lemma revoke_attachment_moves: "store_moves b s (fst (revoke_controller_attachment s scope))"
  using store_moves.revoke_attachment [of s "vs_attempt_id scope" _ b]
  by (auto simp: revoke_controller_attachment_def try_in_def ok_or_def
      intro: store_moves.stay split: option.splits)

lemma grant_moves: "store_moves b s (fst (persist_helper_grant s grant))"
  using store_moves.grant [of s grant b] store_moves.rotate [of s grant _ b]
  by (auto simp: persist_helper_grant_def update_helper_grant_def Let_def try_in_def
      intro: store_moves.stay split: option.splits sum.splits)

lemma revoke_grant_moves: "store_moves b s (fst (revoke_helper_grant s scope))"
  by (auto simp: revoke_helper_grant_def try_in_def ok_or_def
      intro: store_moves.stay store_moves.revoke_grant split: option.splits)

text \<open>The row a fresh retrieval leaves, and the store with it.\<close>

definition retrieve_row :: "(bytes \<Rightarrow> bytes) \<Rightarrow> RetrieveExchange \<Rightarrow> RecordedRetrieveResult \<Rightarrow> PersistedRetrieveReplay" where
  "retrieve_row b exchange result =
     \<lparr>rp_request_id = re_request_id exchange, rp_binding_digest = canonical_binding_digest b (re_binding exchange),
      rp_origin = snapshot_binding_identity (re_binding exchange),
      rp_canonical_body_digest = re_canonical_body_digest exchange, rp_result = result\<rparr>"

definition with_retrieval :: "FakePersist \<Rightarrow> PersistedRetrieveReplay \<Rightarrow> FakePersist" where
  "with_retrieval s replay =
     s\<lparr>fp_retrievals := bt_insert (rv_retrieval_id (rp_result replay))
         \<lparr>rc_retrieval_id = rv_retrieval_id (rp_result replay), rc_binding_digest = rp_binding_digest replay,
          rc_origin = rp_origin replay, rc_result = rp_result replay\<rparr> (fp_retrievals s),
       fp_retrieve_replays := bt_insert (rp_request_id replay) replay (fp_retrieve_replays s)\<rparr>"

text \<open>Every way the exchange can end, read off its result.\<close>

lemma retrieve_outcome:
  "case record_retrieve_exchange b entropy s x of
     (s', Inl e) \<Rightarrow> s' = s
   | (s', Inr (IR_ExactReplay a)) \<Rightarrow> s' = s
       \<and> is_ok (authenticate_binding s (re_binding x) HO_Retrieve)
       \<and> enforce_unrevoked s (re_binding x) = Inr ()
       \<and> (\<exists>stored. bt_get (fp_retrieve_replays s) (re_request_id x) = Some stored
            \<and> rp_binding_digest stored = canonical_binding_digest b (re_binding x)
            \<and> rp_canonical_body_digest stored = re_canonical_body_digest x
            \<and> a = \<lparr>az_recorded = rp_result stored, az_permit =
                mint_retrieve_permit b (re_binding x) (re_request_id x) (rp_result stored) PP_ExactReplay\<rparr>)
   | (s', Inr (IR_Recorded a)) \<Rightarrow> s' = with_retrieval s (retrieve_row b x (az_recorded a))
       \<and> is_ok (authenticate_binding s (re_binding x) HO_Retrieve)
       \<and> enforce_unrevoked s (re_binding x) = Inr ()
       \<and> authorize_fresh_use s (re_binding x) HO_Retrieve = Inr ()
       \<and> canonical_retrieve_body_digest b (canonical_binding_digest b (re_binding x)) (re_request_id x)
           = re_canonical_body_digest x
       \<and> bt_get (fp_retrieve_replays s) (re_request_id x) = None
       \<and> bt_get (fp_ack_replays s) (re_request_id x) = None
       \<and> (\<exists>claim. claim_for_attempt s (hb_attempt_id (re_binding x)) = Some claim
            \<and> retrieve_result_matches_claim (az_recorded a) claim)
       \<and> az_permit a = mint_retrieve_permit b (re_binding x) (re_request_id x) (az_recorded a) PP_Fresh"
  unfolding record_retrieve_exchange_def Let_def try_in_def ok_or_def
  by (auto simp add: is_ok_iff with_retrieval_def retrieve_row_def bt_contains_def retrieve_result_matches_claim_def
      split: sum.split option.split)

lemma retrieve_moves: "store_moves b s (fst (record_retrieve_exchange b entropy s exchange))"
  using retrieve_outcome [where b = b and entropy = entropy and s = s and x = exchange]
    store_moves.retrieve [of s "retrieve_row b exchange result" b for result, folded with_retrieval_def]
  by (auto simp: retrieve_row_def store_moves.stay split: prod.splits sum.splits IdempotentResult.splits)

lemma join_moves: "store_moves b s (fst (try_rearm_join s scope))"
  using store_moves.join [of s scope b]
  by (auto simp: try_rearm_join_def Let_def bs_insert_def intro: store_moves.stay)

text \<open>The same for an acknowledgement.\<close>

definition ack_row :: "(bytes \<Rightarrow> bytes) \<Rightarrow> ValidatedHelperBinding \<Rightarrow> AcknowledgeRequest \<Rightarrow> AcknowledgeResult \<Rightarrow> PersistedAckReplay" where
  "ack_row b binding q result =
     \<lparr>ap_request_id = aq_request_id q, ap_binding_digest = canonical_binding_digest b binding,
      ap_canonical_body_digest = aq_canonical_body_digest q, ap_retrieval_id = aq_retrieval_id q,
      ap_cursor = aq_cursor q, ap_result = result\<rparr>"

definition with_ack :: "FakePersist \<Rightarrow> PersistedHandledCoverage \<Rightarrow> PersistedAckReplay \<Rightarrow> FakePersist" where
  "with_ack s coverage replay =
     s\<lparr>fp_handled := bt_insert (hc_attempt_id coverage) coverage (fp_handled s),
       fp_ack_replays := bt_insert (ap_request_id replay) replay (fp_ack_replays s)\<rparr>"

definition ack_coverage :: "ValidatedHelperBinding \<Rightarrow> PersistedClaimRecord \<Rightarrow> nat \<Rightarrow> PersistedHandledCoverage" where
  "ack_coverage binding claim furthest =
     \<lparr>hc_attempt_id = hb_attempt_id binding, hc_signal_id = hb_signal_id binding,
      hc_cursor = pc_event_refs claim ! furthest,
      hc_covered_through_newest = (furthest = length (pc_event_refs claim) - 1)\<rparr>"

lemma acknowledge_outcome:
  "case acknowledge_retrieved_batch b s binding q of
     (s', Inl e) \<Rightarrow> s' = s
   | (s', Inr (IR_ExactReplay a)) \<Rightarrow> s' = s
       \<and> is_ok (authenticate_binding s binding HO_Acknowledge) \<and> enforce_unrevoked s binding = Inr ()
       \<and> (\<exists>stored. bt_get (fp_ack_replays s) (aq_request_id q) = Some stored
            \<and> stored = ack_row b binding q a \<lparr>ap_request_id := ap_request_id stored\<rparr>)
   | (s', Inr (IR_Recorded a)) \<Rightarrow>
       is_ok (authenticate_binding s binding HO_Acknowledge) \<and> enforce_unrevoked s binding = Inr ()
       \<and> authorize_fresh_use s binding HO_Acknowledge = Inr ()
       \<and> canonical_ack_body_digest b (canonical_binding_digest b binding) (aq_request_id q)
           (aq_retrieval_id q) (aq_cursor q) = aq_canonical_body_digest q
       \<and> bt_get (fp_retrieve_replays s) (aq_request_id q) = None
       \<and> bt_get (fp_ack_replays s) (aq_request_id q) = None
       \<and> (\<exists>retrieval. bt_get (fp_retrievals s) (aq_retrieval_id q) = Some retrieval
            \<and> rc_binding_digest retrieval = canonical_binding_digest b binding)
       \<and> (\<exists>claim at proved furthest. claim_for_attempt s (hb_attempt_id binding) = Some claim
            \<and> position (aq_cursor q) (pc_event_refs claim) = Some at
            \<and> proved_ack_index b claim (pc_event_refs claim) (bt_get (fp_payloads s) (pc_payload_ref claim))
                = Inr proved \<and> at \<le> proved
            \<and> furthest_cursor s (hb_attempt_id binding) (pc_event_refs claim) at = Inr furthest
            \<and> furthest < length (pc_event_refs claim)
            \<and> s' = with_ack s (ack_coverage binding claim furthest) (ack_row b binding q a))
       \<and> a = \<lparr>ak_attempt_id = hb_attempt_id binding, ak_signal_id = hb_signal_id binding,
              ak_cursor = aq_cursor q, ak_accepted_at = fp_now s\<rparr>"
  unfolding acknowledge_retrieved_batch_def Let_def try_in_def ok_or_def
  by (auto simp add: is_ok_iff with_ack_def ack_row_def ack_coverage_def bt_contains_def
      split: sum.split option.split)

lemma authenticate_okD:
  "is_ok (authenticate_binding s binding operation) \<Longrightarrow>
    \<exists>grant claim. helper_grant s (hb_birth_id binding) (hb_attempt_id binding) = Some grant
      \<and> hg_grant_ref grant = hb_grant_ref binding
      \<and> claim_for_attempt s (hb_attempt_id binding) = Some claim
      \<and> pc_claim_digest claim = hb_claim_digest binding
      \<and> pc_arm_id claim = hb_arm_id binding \<and> pc_generation claim = hb_generation binding
      \<and> pc_signal_id claim = hb_signal_id binding \<and> allows (hg_operations grant) operation
      \<and> hg_operations grant = hb_operations binding"
  by (auto simp: is_ok_iff authenticate_binding_def result_simps)

lemma fresh_use_okD:
  "authorize_fresh_use s binding operation = Inr () \<Longrightarrow>
    \<not> attempt_lost s (hb_attempt_id binding) \<and> \<not> handled_complete s (hb_attempt_id binding)
    \<and> \<not> attempt_terminal s (hb_attempt_id binding)"
  by (auto simp: authorize_fresh_use_def result_simps)

lemma acknowledge_moves: "store_moves b s (fst (acknowledge_retrieved_batch b s binding q))"
proof (cases "acknowledge_retrieved_batch b s binding q")
  case (Pair s' r)
  show ?thesis
  proof (cases "\<exists>a. r = Inr (IR_Recorded a)")
    case False
    then show ?thesis
      using acknowledge_outcome [where b = b and s = s and binding = binding and q = q] Pair
      by (auto simp: store_moves.stay split: sum.splits IdempotentResult.splits)
  next
    case True
    then obtain a where "r = Inr (IR_Recorded a)" by blast
    then obtain claim at proved furthest where
      auth: "is_ok (authenticate_binding s binding HO_Acknowledge)"
        "authorize_fresh_use s binding HO_Acknowledge = Inr ()"
      and new: "bt_get (fp_retrieve_replays s) (aq_request_id q) = None"
        "bt_get (fp_ack_replays s) (aq_request_id q) = None"
      and c: "claim_for_attempt s (hb_attempt_id binding) = Some claim"
        "position (aq_cursor q) (pc_event_refs claim) = Some at"
        "proved_ack_index b claim (pc_event_refs claim) (bt_get (fp_payloads s) (pc_payload_ref claim))
                = Inr proved" "at \<le> proved"
        "furthest_cursor s (hb_attempt_id binding) (pc_event_refs claim) at = Inr furthest"
        "furthest < length (pc_event_refs claim)"
        "s' = with_ack s (ack_coverage binding claim furthest) (ack_row b binding q a)"
      using acknowledge_outcome [where b = b and s = s and binding = binding and q = q] Pair by auto
    from authenticate_okD [OF auth(1)] c(1) have "pc_signal_id claim = hb_signal_id binding" by auto
    with fresh_use_okD [OF auth(2)] new c show ?thesis
      unfolding Pair fst_conv c(7) with_ack_def
      by (intro store_moves.acknowledge [where at = at and proved = proved and furthest = furthest
            and claim = claim and payload = "bt_get (fp_payloads s) (pc_payload_ref claim)"])
        (auto simp: ack_row_def ack_coverage_def)
  qed
qed

text \<open>Recovery.\<close>

lemma settle_moves:
  assumes "\<not> bt_contains (fp_turn_facts s) (fst row)"
  shows "store_moves b s (settle_interrupted s row)"
proof (cases "(s, row)" rule: settle_interrupted.cases)
  case (1 s' a w)
  then show ?thesis using store_moves.cloud by simp
next
  case (2 s' a fact')
  with assms have "facts_of s a = []" by (simp add: facts_of_def bt_contains_def split: option.splits)
  then show ?thesis using 2 store_moves.turn_fact [of fact' s a b] by simp
qed (simp_all add: store_moves.stay)

lemma settle_facts: "fst row \<noteq> a \<Longrightarrow> bt_get (fp_turn_facts (settle_interrupted s row)) a = bt_get (fp_turn_facts s) a"
  by (cases "(s, row)" rule: settle_interrupted.cases) (auto simp: tree_simps)

lemma settle_all_moves:
  assumes "distinct (map fst rows)" and "\<forall>row \<in> set rows. \<not> bt_contains (fp_turn_facts s) (fst row)"
  shows "store_moves_star b s (fold (\<lambda>row s. settle_interrupted s row) rows s)"
  using assms
proof (induction rows arbitrary: s)
  case Nil
  then show ?case by simp
next
  case (Cons row rows)
  from Cons.prems have "store_moves b s (settle_interrupted s row)" by (intro settle_moves) simp
  moreover have "store_moves_star b (settle_interrupted s row) (fold (\<lambda>row s. settle_interrupted s row) rows (settle_interrupted s row))"
  proof (rule Cons.IH)
    show "distinct (map fst rows)" using Cons.prems by simp
    have "fst row \<noteq> fst row'" if "row' \<in> set rows" for row' using Cons.prems that by force
    then show "\<forall>row' \<in> set rows. \<not> bt_contains (fp_turn_facts (settle_interrupted s row)) (fst row')"
      using Cons.prems by (auto simp: bt_contains_def settle_facts)
  qed
  ultimately show ?case by (simp add: converse_rtranclp_into_rtranclp)
qed

lemma conclude_reservations_other:
  "a \<noteq> a' \<Longrightarrow> bt_get (fp_reservations (conclude_reservation s a)) a' = bt_get (fp_reservations s) a'"
  by (auto simp: conclude_reservation_def tree_simps split: option.splits)

lemma conclude_unresolved_moves:
  assumes "distinct ids"
    and "\<forall>a \<in> set ids. bt_get (fp_write_evidence s) a = None \<and> bt_get (fp_reservations s) a \<noteq> None"
  shows "store_moves_star b s (fst (conclude_unresolved entropy s ids))"
  using assms
proof (induction ids arbitrary: s)
  case Nil
  then show ?case by simp
next
  case (Cons a ids)
  show ?case
  proof (cases "entropy a")
    case None
    then show ?thesis by simp
  next
    case (Some ref)
    let ?s1 = "s\<lparr>fp_write_evidence := bt_insert a WE_Unknown (fp_write_evidence s),
               fp_write_evidence_refs := bt_insert a ref (fp_write_evidence_refs s)\<rparr>"
    let ?s2 = "conclude_reservation ?s1 a"
    from Cons.prems obtain reservation where "bt_get (fp_reservations s) a = Some reservation"
      "bt_get (fp_write_evidence s) a = None" by auto
    then have "store_moves b s ?s1" by (intro store_moves.evidence)
    from star_step [OF move_star [OF this] store_moves.conclude [of b ?s1 a]] have "store_moves_star b s ?s2" .
    moreover have "store_moves_star b ?s2 (fst (conclude_unresolved entropy ?s2 ids))"
      using Cons.prems by (intro Cons.IH) (auto simp: conclude_reservations_other tree_simps)
    ultimately show ?thesis using Some by simp
  qed
qed

lemma filter_fst_distinct: "distinct (map fst xs) \<Longrightarrow> distinct (map fst (filter p xs))"
  by (simp add: distinct_map_filter)

lemma bt_entries_fst_distinct: "distinct (map fst (bt_entries m))"
  using bt_entries_increasing increasing_distinct by blast

lemma bt_entries_iff: "(k, v) \<in> set (bt_entries m) \<longleftrightarrow> bt_get m k = Some v"
  by (rule bt.entries_mem_iff)

lemma settle_reservations [simp]: "fp_reservations (settle_interrupted s row) = fp_reservations s"
  by (cases "(s, row)" rule: settle_interrupted.cases) auto

lemma recover_moves: "store_moves_star b s (fst (recover_authority_state b entropy s))"
proof -
  let ?s1 = "quarantine_reserved_ownership s"
  let ?s2 = "fold (\<lambda>row s. settle_interrupted s row) (interrupted_facts ?s1) ?s1"
  let ?s3 = "fst (conclude_unresolved entropy ?s2 (unresolved_reservations ?s2))"
  have q: "ownership_transition old (quarantine old) \<or> quarantine old = old" for old by (cases old) auto
  have "?s1 = s\<lparr>fp_create_evidence_refs := fp_create_evidence_refs s,
      fp_ownership := bt_map (\<lambda>_. quarantine) (fp_ownership s)\<rparr>"
    by (simp add: quarantine_reserved_ownership_def)
  moreover have "bt_get (bt_map (\<lambda>_. quarantine) (fp_ownership s)) key = bt_get (fp_ownership s) key
      \<or> (\<exists>old new. bt_get (fp_ownership s) key = Some old
           \<and> bt_get (bt_map (\<lambda>_. quarantine) (fp_ownership s)) key = Some new \<and> ownership_transition old new)"
    for key
    using q by (cases "bt_get (fp_ownership s) key") (auto simp: bt_get_map)
  then have "store_moves b s (s\<lparr>fp_create_evidence_refs := fp_create_evidence_refs s,
      fp_ownership := bt_map (\<lambda>_. quarantine) (fp_ownership s)\<rparr>)"
    by (intro store_moves.ownership) blast
  ultimately have 1: "store_moves_star b s ?s1" by (simp add: move_star)
  have 2: "store_moves_star b ?s1 ?s2"
    by (rule settle_all_moves)
      (auto simp: interrupted_facts_def filter_fst_distinct bt_entries_fst_distinct)
  have 3: "store_moves_star b ?s2 ?s3"
    by (rule conclude_unresolved_moves)
      (auto simp: unresolved_reservations_def filter_fst_distinct bt_entries_fst_distinct bt_entries_iff tree_simps
        not_Some_eq [symmetric] simp del: not_Some_eq)
  have "fst (recover_authority_state b entropy s) = ?s3"
    by (auto simp: recover_authority_state_def Let_def try_in_def split: prod.splits sum.splits)
  with 1 2 3 show ?thesis by simp
qed

lemma store_step_moves: "store_moves_star b s (store_step b k s op)"
proof (cases op)
  case (Op_Seal draws scope coordinate)
  then show ?thesis by (auto intro: move_star seal_moves split: option.splits)
qed (simp_all add: set_now_def persist_arm_def move_star store_moves.clock store_moves.arm admit_moves birth_moves
    resolve_moves prepare_moves prewrite_moves hold_moves reserve_moves write_evidence_moves turn_fact_moves
    reconcile_moves revoke_attachment_moves grant_moves revoke_grant_moves retrieve_moves acknowledge_moves
    join_moves recover_moves)

lemma store_run_moves: "store_moves_star b s (store_run b k s ops)"
proof (induction ops arbitrary: s)
  case Nil
  then show ?case by simp
next
  case (Cons op ops)
  then show ?case using store_step_moves [of b s k op] by (simp add: rtranclp_trans)
qed

text \<open>What every elementary change keeps, every sequence of operations keeps.\<close>

lemma store_run_keeps:
  assumes "\<And>s s'. I s \<Longrightarrow> store_moves b s s' \<Longrightarrow> I s'" and "I s"
  shows "I (store_run b k s ops)"
  using store_run_moves [of b s k ops] assms(2)
  by (induction rule: rtranclp_induct) (auto dest: assms(1))

lemma store_run_grows:
  assumes "\<And>s s'. I s \<Longrightarrow> store_moves b s s' \<Longrightarrow> I s' \<and> R s s'"
    and "\<And>s. R s s" and "\<And>s s' s''. R s s' \<Longrightarrow> R s' s'' \<Longrightarrow> R s s''" and "I s"
  shows "R s (store_run b k s ops)"
proof -
  have "I (store_run b k s ops) \<and> R s (store_run b k s ops)"
    using store_run_moves [of b s k ops]
    by (induction rule: rtranclp_induct) (use assms in blast)+
  then show ?thesis by blast
qed

end
