(* ===== verification/Store_Samples.thy ===== *)
theory Store_Samples
  imports Store_Ops
begin

text \<open>
  A concrete run of the store on which its properties are exercised: an arm, a controller birth,
  two admitted claims, an owned thread, a prepared and reserved dispatch, a helper that retrieves
  and acknowledges, the exact terminal and the join. The hash is a constant function.
\<close>

definition sample_hash :: "bytes \<Rightarrow> bytes" where
  "sample_hash _ = replicate 32 7"

definition sample_mac :: "bytes \<Rightarrow> bytes \<Rightarrow> bytes" where
  "sample_mac _ _ = replicate 32 8"

definition sample_event_record :: "string \<Rightarrow> ProviderEventRecord" where
  "sample_event_record r =
     \<lparr>pv_event_ref = r, pv_provider = ''p'', pv_actor = None, pv_observed_at = 0, pv_body = ''b''\<rparr>"

definition sample_admission :: "string \<Rightarrow> u64 \<Rightarrow> string list \<Rightarrow> ClaimAdmission" where
  "sample_admission request_id generation refs =
     \<lparr>cl_request_id = request_id, cl_arm_id = ''arm'', cl_generation = generation, cl_signal_id = ''sig'',
      cl_event_refs = refs, cl_claim_digest = replicate 32 7,
      cl_payload = \<lparr>bp_events = map sample_event_record refs, bp_aggregate_body_bytes = length refs\<rparr>,
      cl_claimed_at = 0, cl_coverage = None, cl_drain_witness = None\<rparr>"

definition sample_attachment :: "string \<Rightarrow> u64 \<Rightarrow> PersistedControllerAttachment" where
  "sample_attachment attempt_id generation =
     \<lparr>pt_attempt_id = attempt_id, pt_birth_id = [1], pt_seat_id = ''seat'', pt_arm_id = ''arm'',
      pt_generation = generation, pt_capability = HandleClaimedSignal, pt_lease_until = 100,
      pt_verifier_ref = [2], pt_revoked = False\<rparr>"

definition sample_birth :: PersistedControllerBirth where
  "sample_birth = \<lparr>br_birth_id = [1], br_seat_id = ''seat'', br_arm_id = ''arm'', br_generation = 1,
     br_capability = HandleClaimedSignal, br_lease_until = 100, br_verifier_ref = [2], br_created_at = 0,
     br_revoked = False\<rparr>"

definition sample_correlation :: "bytes option \<Rightarrow> PersistedTurnCorrelation" where
  "sample_correlation turn_ref = \<lparr>tc_attempt_id = ''att'', tc_signal_id = ''sig'', tc_birth_id = [1],
     tc_thread_ref = [4], tc_turn_write_id = [5], tc_turn_ref = turn_ref\<rparr>"

definition sample_permit :: ValidatedIdlePermit where
  "sample_permit = \<lparr>vp_attempt_id = ''att'', vp_signal_id = ''sig'', vp_birth_id = [1], vp_thread_ref = [4],
     vp_arm_id = ''arm'', vp_generation = 1, vp_capability = HandleClaimedSignal, vp_verifier_ref = [2],
     vp_mutation_epoch = \<lparr>ep_birth_id = [1], ep_sequence = 1\<rparr>, vp_probe_id = [10], vp_observed_at = 0,
     vp_valid_until = 5\<rparr>"

definition sample_grant :: "bytes \<Rightarrow> PersistedHelperGrant" where
  "sample_grant grant_ref = \<lparr>hg_grant_verifier = 11 # grant_ref, hg_grant_ref = grant_ref, hg_seat_id = ''seat'',
     hg_arm_id = ''arm'', hg_generation = 1, hg_birth_id = [1], hg_attempt_id = ''att'', hg_signal_id = ''sig'',
     hg_claim_digest = replicate 32 7, hg_operations = helper_operations_all, hg_lease_until = 50,
     hg_executable_identity = \<lparr>hi_image_digest = [], hi_file_identity = '''', hi_build_identity = ''''\<rparr>,
     hg_revoked = False\<rparr>"

definition sample_binding :: "bytes \<Rightarrow> ValidatedHelperBinding" where
  "sample_binding grant_ref = \<lparr>hb_grant_ref = grant_ref, hb_seat_id = ''seat'', hb_arm_id = ''arm'',
     hb_generation = 1, hb_birth_id = [1], hb_attempt_id = ''att'', hb_signal_id = ''sig'',
     hb_claim_digest = replicate 32 7, hb_operations = helper_operations_all, hb_lease_until = 50\<rparr>"

definition sample_exchange :: RetrieveExchange where
  "sample_exchange = \<lparr>re_binding = sample_binding [12], re_request_id = [20],
     re_canonical_body_digest = replicate 32 7\<rparr>"

definition sample_ack_request :: "string \<Rightarrow> AcknowledgeRequest" where
  "sample_ack_request cursor = \<lparr>aq_request_id = [21], aq_retrieval_id = [22], aq_cursor = cursor,
     aq_canonical_body_digest = replicate 32 7\<rparr>"

definition sample_scope :: RearmJoinScope where
  "sample_scope = \<lparr>js_arm_id = ''arm'', js_generation = 1, js_attempt_id = ''att'', js_signal_id = ''sig''\<rparr>"

definition sample_setup :: "StoreOp list" where
  "sample_setup =
     [Op_PersistArm \<lparr>pm_arm_id = ''arm'', pm_generation = 1, pm_seat_id = ''seat'',
        pm_capability = HandleClaimedSignal, pm_coverage_until = 100\<rparr>,
      Op_ReserveBirth sample_birth \<lparr>tr_birth_id = [1], tr_create_attempt_id = [3], tr_reserved_at = 0\<rparr>,
      Op_Seal [Some [4]] (Scope_Thread [1] [3]) \<lparr>sc_kind = Kind_Thread, sc_plaintext = [116]\<rparr>,
      Op_ResolveCreate \<lparr>tm_birth_id = [1], tm_create_attempt_id = [3], tm_resolution = TR_Owned [4], tm_evidence_ref = [13]\<rparr>,
      Op_Admit (Some [9]) (sample_admission ''q1'' 1 [''e1'']) (sample_attachment ''att'' 1)]"

definition sample_dispatch :: "StoreOp list" where
  "sample_dispatch =
     [Op_Prepare \<lparr>pd_correlation = sample_correlation None\<rparr>,
      Op_ReserveWrite sample_permit (sample_correlation None),
      Op_Seal [Some [6]] (Scope_Turn [1] ''att'' ''sig'' [5]) \<lparr>sc_kind = Kind_Turn, sc_plaintext = [117]\<rparr>,
      Op_WriteEvidence \<lparr>ec_correlation = sample_correlation None, ec_evidence = WE_WriterAccepted [5], ec_evidence_ref = [14]\<rparr>,
      Op_TurnFact \<lparr>fm_correlation = sample_correlation (Some [6]), fm_fact = NF_Accepted [6], fm_evidence_ref = [15]\<rparr>]"

definition sample_handling :: "StoreOp list" where
  "sample_handling =
     [Op_Grant (sample_grant [12]), Op_Retrieve (Some [22]) sample_exchange,
      Op_Acknowledge (sample_binding [12]) (sample_ack_request ''e1'')]"

definition sample_terminal :: StoreOp where
  "sample_terminal = Op_TurnFact \<lparr>fm_correlation = sample_correlation (Some [6]),
     fm_fact = NF_Terminal [6] TC_Succeeded, fm_evidence_ref = [16]\<rparr>"

abbreviation sample_run :: "StoreOp list \<Rightarrow> FakePersist" where
  "sample_run ops \<equiv> store_run sample_hash sample_mac (fake_persist_default []) ops"

text \<open>
  Evaluation by the simplifier: only the deciding argument of a sequencing operator is evaluated
  before the operator itself.
\<close>

lemma try_in_weak_cong: "r = r' \<Longrightarrow> try_in s r f = try_in s r' f"
  by simp

lemma bind_res_weak_cong: "r = r' \<Longrightarrow> bind_res r f = bind_res r' f"
  by simp

lemmas store_eval = set_now_def persist_arm_def admit_claim_def reserve_controller_birth_def
  resolve_thread_create_def seal_native_coordinate_def validate_coordinate_scope_def
  coordinate_replay_open_def record_dispatch_prepared_def record_prewrite_conclusion_def
  conclude_reservation_def reserve_native_turn_write_def record_native_write_evidence_def
  facts_of_def other_turn_def validate_turn_ref_def bind_turn_ref_def record_native_turn_fact_def
  correlation_turn_scope_def record_reconciliation_fact_def revoke_controller_attachment_def
  helper_grant_def grant_for_def update_helper_grant_def grant_identity_retired_def attempt_lost_def
  attempt_terminal_def handled_complete_def validate_grant_mint_def authenticate_binding_def
  enforce_unrevoked_def authorize_fresh_use_def persist_helper_grant_def revoke_helper_grant_def
  mint_retrieve_permit_def record_retrieve_exchange_def acknowledge_retrieved_batch_def
  furthest_cursor_def scope_matches_claim_def handled_through_newest_def rearm_key_def
  try_rearm_join_def claim_for_attempt_def refs_match_def coverage_admission_invalid_def
  coverage_pair_invalid_def canonical_claim_digest_def canonical_binding_digest_def
  canonical_binding_identity_digest_def canonical_retrieve_body_digest_def
  canonical_ack_body_digest_def proved_ack_index_def fake_persist_default_def bs_insert_def
  snapshot_binding_identity_def helper_operations_all_def bt_eval

lemmas sample_defs = sample_hash_def sample_mac_def sample_event_record_def sample_admission_def
  sample_attachment_def sample_birth_def sample_correlation_def sample_permit_def sample_grant_def
  sample_binding_def sample_exchange_def sample_ack_request_def sample_scope_def sample_setup_def
  sample_dispatch_def sample_handling_def sample_terminal_def

lemma sample_run_setup:
  "bt_get (fp_claim_attempts (sample_run sample_setup)) ''q1'' = Some ''att''"
  by (simp add: store_eval sample_defs Let_def tree_simps cong: try_in_weak_cong bind_res_weak_cong)

lemma sample_run_joins:
  "snd (try_rearm_join (sample_run (sample_setup @ sample_dispatch @ sample_handling @ [sample_terminal])) sample_scope)
    = Inr RJ_Rearmed"
  by (simp add: store_eval sample_defs Let_def tree_simps cong: try_in_weak_cong bind_res_weak_cong)

end
