(* ===== verification/Store_Properties.thy ===== *)
theory Store_Properties
  imports Store_Samples
begin

text \<open>
  What the store promises over every sequence of operations: native writes are reserved once,
  claims are admitted once, replays are stable, revocation is sticky, handled coverage is proved
  and monotone, and coverage is re-armed once.
\<close>

section \<open>Reservations\<close>

definition reservation_le :: "PersistedNativeReservation \<Rightarrow> PersistedNativeReservation \<Rightarrow> bool" where
  "reservation_le r r' \<longleftrightarrow> same_dispatch (nr_correlation r) (nr_correlation r')
     \<and> (\<forall>t. tc_turn_ref (nr_correlation r) = Some t \<longrightarrow> tc_turn_ref (nr_correlation r') = Some t)
     \<and> nr_probe_id r' = nr_probe_id r \<and> nr_expected_epoch r' = nr_expected_epoch r
     \<and> (nr_concluded r \<longrightarrow> nr_concluded r')"

definition reserved_le :: "FakePersist \<Rightarrow> FakePersist \<Rightarrow> bool" where
  "reserved_le s s' \<longleftrightarrow>
     (\<forall>a r. bt_get (fp_reservations s) a = Some r \<longrightarrow>
        (\<exists>r'. bt_get (fp_reservations s') a = Some r' \<and> reservation_le r r'))
     \<and> (\<forall>p. bs_member p (fp_consumed_probes s) \<longrightarrow> bs_member p (fp_consumed_probes s'))"

lemma reservation_le_refl [simp]: "reservation_le r r"
  by (simp add: reservation_le_def same_dispatch_def)

lemma reservation_le_trans: "reservation_le r r' \<Longrightarrow> reservation_le r' r'' \<Longrightarrow> reservation_le r r''"
  by (simp add: reservation_le_def same_dispatch_def)

lemma reserved_le_refl [simp]: "reserved_le s s"
  by (auto simp: reserved_le_def)

lemma reserved_le_trans: "reserved_le s s' \<Longrightarrow> reserved_le s' s'' \<Longrightarrow> reserved_le s s''"
  unfolding reserved_le_def by (meson reservation_le_trans)

lemma reserved_le_conclude: "reserved_le s (conclude_reservation s a)"
  by (auto simp: reserved_le_def conclude_reservation_def reservation_le_def same_dispatch_def tree_simps
      split: option.splits)

lemma reserved_le_bind:
  assumes "bt_get (fp_reservations s) a = Some r" "\<not> other_turn (tc_turn_ref (nr_correlation r)) t"
  shows "reserved_le s (bind_turn_ref s a t)"
  using assms
  by (auto simp: reserved_le_def bind_turn_ref_def reservation_le_def same_dispatch_def other_turn_def tree_simps
      split: option.splits)

lemma moves_reserved_le: "store_moves b s s' \<Longrightarrow> reserved_le s s'"
proof (induction rule: store_moves.induct)
  case (conclude a)
  show ?case by (rule reserved_le_conclude)
next
  case (bind_turn a p r t)
  then show ?case by (blast intro: reserved_le_bind)
qed (auto simp: reserved_le_def bs_member_def tree_simps update_helper_grant_def)

lemma run_reserved_le: "reserved_le s (store_run b k s ops)"
  by (rule store_run_grows [where I = "\<lambda>_. True"]) (auto intro: moves_reserved_le reserved_le_trans)

text \<open>The reservations that succeed during a run.\<close>

definition reservations_of :: "FakePersist \<Rightarrow> StoreOp \<Rightarrow> NativeWriteReservation list" where
  "reservations_of s op =
     (case op of
        Op_ReserveWrite idle correlation \<Rightarrow>
          (case snd (reserve_native_turn_write s idle correlation) of Inl _ \<Rightarrow> [] | Inr r \<Rightarrow> [r])
      | _ \<Rightarrow> [])"

fun reservations_in ::
  "(bytes \<Rightarrow> bytes) \<Rightarrow> (bytes \<Rightarrow> bytes \<Rightarrow> bytes) \<Rightarrow> FakePersist \<Rightarrow> StoreOp list \<Rightarrow> NativeWriteReservation list" where
  "reservations_in b k s [] = []"
| "reservations_in b k s (op # ops) = reservations_of s op @ reservations_in b k (store_step b k s op) ops"

definition reserved_as :: "FakePersist \<Rightarrow> NativeWriteReservation \<Rightarrow> bool" where
  "reserved_as s r \<longleftrightarrow>
     (\<exists>row. bt_get (fp_reservations s) (tc_attempt_id (wr_correlation r)) = Some row
        \<and> same_dispatch (nr_correlation row) (wr_correlation r)
        \<and> nr_probe_id row = wr_probe_id r \<and> nr_expected_epoch row = wr_expected_epoch r)
     \<and> bs_member (wr_probe_id r) (fp_consumed_probes s)"

lemma reserved_as_le: "reserved_as s r \<Longrightarrow> reserved_le s s' \<Longrightarrow> reserved_as s' r"
  unfolding reserved_as_def reserved_le_def reservation_le_def same_dispatch_def by metis

lemma reserve_Inr:
  assumes "reserve_native_turn_write s idle correlation = (s', Inr r)"
  shows "bt_get (fp_reservations s) (tc_attempt_id (wr_correlation r)) = None"
    and "\<not> bs_member (wr_probe_id r) (fp_consumed_probes s)" and "reserved_as s' r"
  using assms
  by (auto simp: reserve_native_turn_write_def result_simps reserved_as_def same_dispatch_def bs_insert_def
      bs_member_def tree_simps not_Some_eq [symmetric] split: if_splits simp del: not_Some_eq)

lemma reservations_of_Cons:
  assumes "r \<in> set (reservations_of s op)"
  shows "reservations_of s op = [r] \<and> bt_get (fp_reservations s) (tc_attempt_id (wr_correlation r)) = None
    \<and> \<not> bs_member (wr_probe_id r) (fp_consumed_probes s) \<and> reserved_as (store_step b k s op) r"
proof -
  from assms obtain idle c where "op = Op_ReserveWrite idle c" "snd (reserve_native_turn_write s idle c) = Inr r"
    by (auto simp: reservations_of_def split: StoreOp.splits sum.splits)
  then show ?thesis
    using reserve_Inr [of s idle c "fst (reserve_native_turn_write s idle c)" r]
    by (simp add: reservations_of_def prod_eq_iff)
qed

lemma reservations_in_new:
  "r \<in> set (reservations_in b k s ops) \<Longrightarrow>
    bt_get (fp_reservations s) (tc_attempt_id (wr_correlation r)) = None
    \<and> \<not> bs_member (wr_probe_id r) (fp_consumed_probes s) \<and> reserved_as (store_run b k s ops) r"
proof (induction ops arbitrary: s)
  case Nil
  then show ?case by simp
next
  case (Cons op ops)
  have le: "reserved_le s (store_step b k s op)"
    using run_reserved_le [of s b k "[op]"] by simp
  show ?case
  proof (cases "r \<in> set (reservations_of s op)")
    case True
    from reservations_of_Cons [OF this, of b k] reserved_as_le [OF _ run_reserved_le] show ?thesis by simp
  next
    case False
    with Cons.prems have "r \<in> set (reservations_in b k (store_step b k s op) ops)" by simp
    from Cons.IH [OF this] le show ?thesis
      unfolding reserved_le_def by (metis not_None_eq store_run_simps(2))
  qed
qed

text \<open>
  C10: a native write is reserved once. Whatever operations run on a store, crash recovery included,
  the reservations that succeed are for pairwise distinct attempts and spend pairwise distinct
  idle probes, and at the end each is still recorded with its dispatch, probe and epoch, with
  the probe consumed.
\<close>

theorem native_write_reserved_once:
  "let rs = reservations_in b k s ops in
     distinct (map (tc_attempt_id \<circ> wr_correlation) rs) \<and> distinct (map wr_probe_id rs)
     \<and> list_all (reserved_as (store_run b k s ops)) rs"
proof -
  have "distinct (map (tc_attempt_id \<circ> wr_correlation) (reservations_in b k s ops))
      \<and> distinct (map wr_probe_id (reservations_in b k s ops))"
  proof (induction ops arbitrary: s)
    case Nil
    then show ?case by simp
  next
    case (Cons op ops)
    let ?rest = "reservations_in b k (store_step b k s op) ops"
    show ?case
    proof (cases "reservations_of s op")
      case Nil
      with Cons.IH show ?thesis by simp
    next
      case (Cons r rs)
      with reservations_of_Cons [of r s op b k] have r: "reservations_of s op = [r]"
        "reserved_as (store_step b k s op) r" by auto
      have "tc_attempt_id (wr_correlation r') \<noteq> tc_attempt_id (wr_correlation r) \<and> wr_probe_id r' \<noteq> wr_probe_id r"
        if "r' \<in> set ?rest" for r'
        using reservations_in_new [OF that] r(2) by (auto simp: reserved_as_def)
      then have "(tc_attempt_id \<circ> wr_correlation) r \<notin> set (map (tc_attempt_id \<circ> wr_correlation) ?rest)"
        "wr_probe_id r \<notin> set (map wr_probe_id ?rest)"
        unfolding set_map o_apply by (metis imageE o_apply)+
      with r(1) Cons.IH [of "store_step b k s op"] show ?thesis by simp
    qed
  qed
  with reservations_in_new show ?thesis by (auto simp: Let_def list_all_iff)
qed

end
