(* ===== verification/Claim_Properties.thy ===== *)
theory Claim_Properties
  imports Store_Samples
begin

text \<open>
  Claims are admitted once per arm and generation, never change and never disappear; a claim's
  payload is the one its digest binds, as long as the references drawn for payloads do not repeat.
\<close>

section \<open>The invariant\<close>

definition claims_ok :: "FakePersist \<Rightarrow> bool" where
  "claims_ok s \<longleftrightarrow>
     (\<forall>q c. bt_get (fp_claims s) q = Some c \<longrightarrow>
        pc_request_id c = q \<and> bt_get (fp_claim_attempts s) q = Some (pc_attempt_id c)
        \<and> (\<exists>a. bt_get (fp_attachments s) (pc_attempt_id c) = Some a \<and> pt_attempt_id a = pc_attempt_id c))
     \<and> (\<forall>q c q' c'. bt_get (fp_claims s) q = Some c \<and> bt_get (fp_claims s) q' = Some c'
        \<and> (pc_attempt_id c = pc_attempt_id c' \<or> pc_arm_id c = pc_arm_id c' \<and> pc_generation c = pc_generation c')
        \<longrightarrow> q = q')"

definition claims_le :: "FakePersist \<Rightarrow> FakePersist \<Rightarrow> bool" where
  "claims_le s s' \<longleftrightarrow>
     (\<forall>q c. bt_get (fp_claims s) q = Some c \<longrightarrow> bt_get (fp_claims s') q = Some c)
     \<and> (\<forall>a t. bt_get (fp_attachments s) a = Some t \<longrightarrow>
        (\<exists>t'. bt_get (fp_attachments s') a = Some t' \<and> t'\<lparr>pt_revoked := False\<rparr> = t\<lparr>pt_revoked := False\<rparr>
           \<and> (pt_revoked t \<longrightarrow> pt_revoked t')))
     \<and> (\<forall>i r. bt_get (fp_births s) i = Some r \<longrightarrow> bt_get (fp_births s') i = Some r)"

definition payload_refs_distinct :: "FakePersist \<Rightarrow> bool" where
  "payload_refs_distinct s \<longleftrightarrow>
     (\<forall>q c q' c'. bt_get (fp_claims s) q = Some c \<and> bt_get (fp_claims s) q' = Some c'
        \<and> pc_payload_ref c = pc_payload_ref c' \<longrightarrow> q = q')"

definition payloads_backed :: "(bytes \<Rightarrow> bytes) \<Rightarrow> FakePersist \<Rightarrow> bool" where
  "payloads_backed b s \<longleftrightarrow> (payload_refs_distinct s \<longrightarrow>
     (\<forall>q c. bt_get (fp_claims s) q = Some c \<longrightarrow>
        (\<exists>p. bt_get (fp_payloads s) (pc_payload_ref c) = Some p \<and> claim_backed b c p)))"

lemma claims_le_refl [simp]: "claims_le s s"
  by (auto simp: claims_le_def)

lemma claims_le_trans: "claims_le s s' \<Longrightarrow> claims_le s' s'' \<Longrightarrow> claims_le s s''"
  unfolding claims_le_def by meson metis

lemma moves_claims_le: "store_moves b s s' \<Longrightarrow> claims_le s s'"
  by (induction rule: store_moves.induct)
    (auto simp: claims_le_def tree_simps update_helper_grant_def conclude_reservation_def bind_turn_ref_def
      split: option.splits)

lemma run_claims_le: "claims_le s (store_run b k s ops)"
  by (rule store_run_grows [where I = "\<lambda>_. True"]) (auto intro: moves_claims_le claims_le_trans)

lemma claims_okD:
  assumes "claims_ok s" and "bt_get (fp_claims s) q = Some c"
  shows "pc_request_id c = q" and "bt_get (fp_claim_attempts s) q = Some (pc_attempt_id c)"
    and "\<exists>a. bt_get (fp_attachments s) (pc_attempt_id c) = Some a \<and> pt_attempt_id a = pc_attempt_id c"
  using assms unfolding claims_ok_def by blast+

lemma claims_ok_unique:
  assumes "claims_ok s" and "bt_get (fp_claims s) q = Some c" and "bt_get (fp_claims s) q' = Some c'"
    and "pc_attempt_id c = pc_attempt_id c' \<or> pc_arm_id c = pc_arm_id c' \<and> pc_generation c = pc_generation c'"
  shows "q = q'"
  using assms unfolding claims_ok_def by blast

text \<open>Most changes leave the tables of claims alone, or only revoke an attachment.\<close>

lemma claims_ok_same:
  assumes "claims_ok s" and "fp_claims s' = fp_claims s" and "fp_claim_attempts s' = fp_claim_attempts s"
    and "\<And>a t. bt_get (fp_attachments s) a = Some t \<Longrightarrow>
      \<exists>t'. bt_get (fp_attachments s') a = Some t' \<and> pt_attempt_id t' = pt_attempt_id t"
  shows "claims_ok s'"
proof -
  have "\<exists>t'. bt_get (fp_attachments s') (pc_attempt_id c) = Some t' \<and> pt_attempt_id t' = pc_attempt_id c"
    if "bt_get (fp_claims s) q = Some c" for q c
    using claims_okD(3) [OF assms(1) that] assms(4) by fastforce
  moreover have "pc_request_id c = q \<and> bt_get (fp_claim_attempts s') q = Some (pc_attempt_id c)"
    if "bt_get (fp_claims s') q = Some c" for q c
    using claims_okD [OF assms(1)] assms(2, 3) that by simp
  moreover have "q = q'"
    if "bt_get (fp_claims s') q = Some c" "bt_get (fp_claims s') q' = Some c'"
      "pc_attempt_id c = pc_attempt_id c' \<or> pc_arm_id c = pc_arm_id c' \<and> pc_generation c = pc_generation c'"
    for q c q' c'
    using claims_ok_unique [OF assms(1)] assms(2) that by simp
  ultimately show ?thesis unfolding claims_ok_def using assms(2) by auto
qed

lemma claims_ok_admit:
  assumes ok: "claims_ok s" and new: "bt_get (fp_claims s) (pc_request_id claim) = None"
    and gen: "\<forall>c \<in> set (bt_values (fp_claims s)). \<not> (pc_arm_id c = pc_arm_id claim \<and> pc_generation c = pc_generation claim)"
    and att: "bt_get (fp_attachments s) (pc_attempt_id claim) = None" "pt_attempt_id attachment = pc_attempt_id claim"
    and s': "fp_claims s' = bt_insert (pc_request_id claim) claim (fp_claims s)"
      "fp_claim_attempts s' = bt_insert (pc_request_id claim) (pc_attempt_id claim) (fp_claim_attempts s)"
      "fp_attachments s' = bt_insert (pc_attempt_id claim) attachment (fp_attachments s)"
  shows "claims_ok s'"
proof -
  have other: "pc_attempt_id c \<noteq> pc_attempt_id claim \<and> \<not> (pc_arm_id c = pc_arm_id claim \<and> pc_generation c = pc_generation claim)"
    if "bt_get (fp_claims s) q = Some c" for q c
    using claims_okD(3) [OF ok that] att(1) gen that by (auto simp: tree_simps)
  have row: "pc_request_id c = q \<and> bt_get (fp_claim_attempts s') q = Some (pc_attempt_id c)
      \<and> (\<exists>a. bt_get (fp_attachments s') (pc_attempt_id c) = Some a \<and> pt_attempt_id a = pc_attempt_id c)"
    if c: "bt_get (fp_claims s') q = Some c" for q c
  proof (cases "q = pc_request_id claim")
    case True
    with c s' att show ?thesis by simp
  next
    case False
    with c s' have c: "bt_get (fp_claims s) q = Some c" by (simp add: tree_simps)
    from claims_okD [OF ok c] other [OF c] False s' show ?thesis by (simp add: tree_simps)
  qed
  have "q = q'"
    if "bt_get (fp_claims s') q = Some c" "bt_get (fp_claims s') q' = Some c'"
      "pc_attempt_id c = pc_attempt_id c' \<or> pc_arm_id c = pc_arm_id c' \<and> pc_generation c = pc_generation c'"
    for q c q' c'
    using that claims_ok_unique [OF ok, of q c q' c'] other [of q c] other [of q' c'] s'(1)
    by (auto simp: tree_simps split: if_splits)
  with row show ?thesis unfolding claims_ok_def by blast
qed

lemma moves_claims_ok: "store_moves b s s' \<Longrightarrow> claims_ok s \<Longrightarrow> claims_ok s'"
proof (induction rule: store_moves.induct)
  case (admit claim attachment payload n)
  then show ?case by (elim claims_ok_admit) auto
qed (auto elim!: claims_ok_same simp: tree_simps update_helper_grant_def conclude_reservation_def bind_turn_ref_def
      split: option.splits)

lemma payloads_backed_admit:
  assumes ok: "payloads_backed b s" and new: "bt_get (fp_claims s) (pc_request_id claim) = None"
    and p: "claim_backed b claim payload"
    and s': "fp_claims s' = bt_insert (pc_request_id claim) claim (fp_claims s)"
      "fp_payloads s' = bt_insert (pc_payload_ref claim) payload (fp_payloads s)"
  shows "payloads_backed b s'"
  unfolding payloads_backed_def
proof (intro impI allI)
  fix q c
  assume d: "payload_refs_distinct s'" and c: "bt_get (fp_claims s') q = Some c"
  have "bt_get (fp_claims s') q' = Some c'" if "bt_get (fp_claims s) q' = Some c'" for q' c'
    using that new s' by (auto simp: tree_simps)
  with d have "payload_refs_distinct s" unfolding payload_refs_distinct_def by blast
  with ok have backed: "\<exists>p. bt_get (fp_payloads s) (pc_payload_ref c') = Some p \<and> claim_backed b c' p"
    if "bt_get (fp_claims s) q' = Some c'" for q' c'
    using that unfolding payloads_backed_def by blast
  show "\<exists>p. bt_get (fp_payloads s') (pc_payload_ref c) = Some p \<and> claim_backed b c p"
  proof (cases "q = pc_request_id claim")
    case True
    with c p s' show ?thesis by simp
  next
    case False
    from s' have "bt_get (fp_claims s') (pc_request_id claim) = Some claim" by simp
    with d c False have "pc_payload_ref c \<noteq> pc_payload_ref claim"
      unfolding payload_refs_distinct_def by blast
    moreover from c False s' have "bt_get (fp_claims s) q = Some c" by (simp add: tree_simps)
    ultimately show ?thesis using backed s' by (simp add: tree_simps)
  qed
qed

lemma moves_payloads_backed:
  "store_moves b s s' \<Longrightarrow> payloads_backed b s \<Longrightarrow> payloads_backed b s'"
proof (induction rule: store_moves.induct)
  case (admit claim attachment payload n)
  then show ?case by (elim payloads_backed_admit) auto
qed (auto simp: payloads_backed_def payload_refs_distinct_def update_helper_grant_def conclude_reservation_def
      bind_turn_ref_def split: option.splits)

lemma claims_ok_default: "claims_ok (fake_persist_default key)"
  by (simp add: claims_ok_def fake_persist_default_def)

lemma payloads_backed_default: "payloads_backed b (fake_persist_default key)"
  by (simp add: payloads_backed_def fake_persist_default_def)

lemma run_claims_ok: "claims_ok s \<Longrightarrow> claims_ok (store_run b k s ops)"
  by (rule store_run_keeps [where b = b]) (auto intro: moves_claims_ok)

lemma run_payloads_backed: "payloads_backed b s \<Longrightarrow> payloads_backed b (store_run b k s ops)"
  by (rule store_run_keeps [where b = b]) (auto intro: moves_payloads_backed)

lemma claim_for_attempt_Some:
  "claim_for_attempt s a = Some c \<Longrightarrow> (\<exists>q. bt_get (fp_claims s) q = Some c) \<and> pc_attempt_id c = a"
  unfolding claim_for_attempt_def by (auto dest!: find_SomeD simp: tree_simps)

lemma claim_for_attempt_iff:
  assumes "claims_ok s"
  shows "claim_for_attempt s a = Some c \<longleftrightarrow> (\<exists>q. bt_get (fp_claims s) q = Some c \<and> pc_attempt_id c = a)"
proof
  assume "\<exists>q. bt_get (fp_claims s) q = Some c \<and> pc_attempt_id c = a"
  then obtain q where q: "bt_get (fp_claims s) q = Some c" "pc_attempt_id c = a" by blast
  then obtain c' where c': "claim_for_attempt s a = Some c'"
    unfolding claim_for_attempt_def
    by (cases "List.find (\<lambda>claim. pc_attempt_id claim = a) (bt_values (fp_claims s))")
      (auto simp: tree_simps find_None_iff)
  from claim_for_attempt_Some [OF this] q claims_ok_unique [OF assms] have "c' = c" by fastforce
  with c' show "claim_for_attempt s a = Some c" by simp
qed (use claim_for_attempt_Some in blast)

lemma claim_for_attempt_run:
  assumes "claims_ok s" and "claim_for_attempt s a = Some c"
  shows "claim_for_attempt (store_run b k s ops) a = Some c"
  using assms run_claims_le [of s b k ops] run_claims_ok [OF assms(1), of b k ops]
  unfolding claims_le_def by (simp add: claim_for_attempt_iff) blast

section \<open>Payloads stay\<close>

definition payloads_le :: "FakePersist \<Rightarrow> FakePersist \<Rightarrow> bool" where
  "payloads_le s s' \<longleftrightarrow> claims_le s s' \<and> (payload_refs_distinct s' \<longrightarrow>
     (\<forall>q c. bt_get (fp_claims s) q = Some c \<longrightarrow>
        bt_get (fp_payloads s') (pc_payload_ref c) = bt_get (fp_payloads s) (pc_payload_ref c)))"

lemma claims_le_get: "claims_le s s' \<Longrightarrow> bt_get (fp_claims s) q = Some c \<Longrightarrow> bt_get (fp_claims s') q = Some c"
  unfolding claims_le_def by blast

lemma payload_refs_distinct_le:
  assumes "claims_le s s'" and "payload_refs_distinct s'"
  shows "payload_refs_distinct s"
  unfolding payload_refs_distinct_def
proof (intro allI impI)
  fix q c q' c'
  assume "bt_get (fp_claims s) q = Some c \<and> bt_get (fp_claims s) q' = Some c'
      \<and> pc_payload_ref c = pc_payload_ref c'"
  with claims_le_get [OF assms(1)] assms(2) show "q = q'" unfolding payload_refs_distinct_def by blast
qed

lemma payloads_le_trans:
  assumes "payloads_le s s'" and "payloads_le s' s''"
  shows "payloads_le s s''"
proof -
  from assms have le: "claims_le s s'" "claims_le s' s''" by (auto simp: payloads_le_def)
  have "bt_get (fp_payloads s'') (pc_payload_ref c) = bt_get (fp_payloads s) (pc_payload_ref c)"
    if d: "payload_refs_distinct s''" and c: "bt_get (fp_claims s) q = Some c" for q c
  proof -
    from le(1) c have "bt_get (fp_claims s') q = Some c" unfolding claims_le_def by blast
    with assms(2) d have "bt_get (fp_payloads s'') (pc_payload_ref c) = bt_get (fp_payloads s') (pc_payload_ref c)"
      unfolding payloads_le_def by blast
    also from assms(1) payload_refs_distinct_le [OF le(2) d] c
    have "\<dots> = bt_get (fp_payloads s) (pc_payload_ref c)" unfolding payloads_le_def by blast
    finally show ?thesis .
  qed
  with claims_le_trans [OF le] show ?thesis unfolding payloads_le_def by blast
qed

lemma payloads_le_refl [simp]: "payloads_le s s"
  by (simp add: payloads_le_def)

lemma moves_payloads_le: "store_moves b s s' \<Longrightarrow> payloads_le s s'"
proof -
  assume m: "store_moves b s s'"
  have "bt_get (fp_payloads s') (pc_payload_ref c) = bt_get (fp_payloads s) (pc_payload_ref c)"
    if d: "payload_refs_distinct s'" and c: "bt_get (fp_claims s) q = Some c" for q c
    using m
  proof (cases rule: store_moves.cases)
    case (admit claim attachment payload n)
    then have "bt_get (fp_claims s') (pc_request_id claim) = Some claim" "bt_get (fp_claims s') q = Some c"
      "q \<noteq> pc_request_id claim"
      using c by (auto simp: tree_simps)
    with d have "pc_payload_ref c \<noteq> pc_payload_ref claim"
      unfolding payload_refs_distinct_def by blast
    with admit show ?thesis by simp
  qed (auto simp: update_helper_grant_def conclude_reservation_def bind_turn_ref_def split: option.splits)
  with moves_claims_le [OF m] show ?thesis unfolding payloads_le_def by blast
qed

lemma run_payloads_le: "payloads_le s (store_run b k s ops)"
  by (rule store_run_grows [where I = "\<lambda>_. True"]) (auto intro: moves_payloads_le elim: payloads_le_trans)

section \<open>Admission\<close>

definition admission_checked :: "(bytes \<Rightarrow> bytes) \<Rightarrow> ClaimAdmission \<Rightarrow> bool" where
  "admission_checked b admission \<longleftrightarrow>
     canonical_claim_digest b (cl_request_id admission) (cl_arm_id admission)
          (cl_generation admission) (cl_signal_id admission) (cl_event_refs admission)
          (cl_payload admission) (cl_coverage admission) (cl_drain_witness admission)
          = cl_claim_digest admission
     \<and> refs_match (cl_event_refs admission) (cl_payload admission)
     \<and> \<not> coverage_admission_invalid b admission"

definition claim_matches :: "PersistedClaimRecord \<Rightarrow> ClaimAdmission \<Rightarrow> bool" where
  "claim_matches c admission \<longleftrightarrow> pc_arm_id c = cl_arm_id admission \<and> pc_generation c = cl_generation admission
     \<and> pc_signal_id c = cl_signal_id admission \<and> pc_event_refs c = cl_event_refs admission
     \<and> pc_claim_digest c = cl_claim_digest admission \<and> pc_coverage c = cl_coverage admission
     \<and> pc_drain_witness c = cl_drain_witness admission"

definition admitted_as :: "FakePersist \<Rightarrow> ClaimAdmission \<Rightarrow> AdmissionRecord \<Rightarrow> bool" where
  "admitted_as s admission r \<longleftrightarrow>
     (\<exists>c t. bt_get (fp_claims s) (cl_request_id admission) = Some c \<and> claim_matches c admission
        \<and> pc_payload_ref c = am_payload_ref r
        \<and> bt_get (fp_payloads s) (am_payload_ref r) = Some (cl_payload admission)
        \<and> bt_get (fp_claim_attempts s) (cl_request_id admission) = Some (am_attempt_id r)
        \<and> bt_get (fp_attachments s) (am_attempt_id r) = Some t \<and> pt_verifier_ref t = am_verifier_ref r)"

lemma admit_claim_Inr:
  assumes "admit_claim b entropy s admission attachment = (s', Inr r)"
  shows "admission_checked b admission" and "admitted_as s' admission r"
  using assms
  by (auto simp: admit_claim_def admission_checked_def admitted_as_def claim_matches_def Let_def result_simps
      split: if_splits option.splits)

lemma admitted_replay:
  assumes "admission_checked b admission" and "admitted_as s admission r"
  shows "admit_claim b entropy s admission attachment = (s, Inr (r\<lparr>am_outcome := AO_ExactReplay\<rparr>))"
  using assms
  by (auto simp: admit_claim_def admission_checked_def admitted_as_def claim_matches_def)

lemma rival_conflict:
  assumes ok: "claims_ok s" and "admitted_as s admission r"
    and "cl_arm_id rival = cl_arm_id admission" "cl_generation rival = cl_generation admission"
    and "cl_request_id rival \<noteq> cl_request_id admission"
  shows "admit_claim b entropy s rival attachment = (s, Inl Conflict)"
proof -
  from assms(2-4) obtain c where c: "bt_get (fp_claims s) (cl_request_id admission) = Some c"
    "pc_arm_id c = cl_arm_id rival" "pc_generation c = cl_generation rival"
    by (auto simp: admitted_as_def claim_matches_def)
  show ?thesis
  proof (cases "bt_get (fp_claims s) (cl_request_id rival)")
    case None
    from c have "list_ex (\<lambda>claim. pc_arm_id claim = cl_arm_id rival \<and> pc_generation claim = cl_generation rival)
      (bt_values (fp_claims s))"
      unfolding list_ex_iff by (intro bexI [of _ c]) (auto simp: tree_simps)
    with None show ?thesis by (simp add: admit_claim_def)
  next
    case (Some c')
    from claims_ok_unique [OF ok c(1) Some] c(2, 3) assms(5)
    have "\<not> (pc_arm_id c' = cl_arm_id rival \<and> pc_generation c' = cl_generation rival)" by auto
    with Some show ?thesis by (auto simp: admit_claim_def)
  qed
qed

lemma admitted_as_run:
  assumes ok: "claims_ok s" and a: "admitted_as s admission r" and d: "payload_refs_distinct (store_run b k s ops)"
  shows "admitted_as (store_run b k s ops) admission r"
proof -
  from a obtain c t where c: "bt_get (fp_claims s) (cl_request_id admission) = Some c" "claim_matches c admission"
    "pc_payload_ref c = am_payload_ref r"
    "bt_get (fp_payloads s) (am_payload_ref r) = Some (cl_payload admission)"
    "bt_get (fp_claim_attempts s) (cl_request_id admission) = Some (am_attempt_id r)"
    "bt_get (fp_attachments s) (am_attempt_id r) = Some t" "pt_verifier_ref t = am_verifier_ref r"
    unfolding admitted_as_def by blast
  have le: "claims_le s (store_run b k s ops)" by (rule run_claims_le)
  from le c(1) have c': "bt_get (fp_claims (store_run b k s ops)) (cl_request_id admission) = Some c"
    unfolding claims_le_def by blast
  have att: "pc_attempt_id c = am_attempt_id r" using claims_okD(2) [OF ok c(1)] c(5) by simp
  from le c(6) obtain t' where "bt_get (fp_attachments (store_run b k s ops)) (am_attempt_id r) = Some t'"
    "t'\<lparr>pt_revoked := False\<rparr> = t\<lparr>pt_revoked := False\<rparr>"
    unfolding claims_le_def by blast
  moreover from this(2) have "pt_verifier_ref t' = pt_verifier_ref t"
    by (metis PersistedControllerAttachment.select_convs(8) PersistedControllerAttachment.surjective
        PersistedControllerAttachment.update_convs(9))
  moreover have "bt_get (fp_payloads (store_run b k s ops)) (am_payload_ref r) = Some (cl_payload admission)"
    using run_payloads_le [of s b k ops] d c unfolding payloads_le_def by metis
  ultimately show ?thesis
    unfolding admitted_as_def
    using c c' att claims_okD(2) [OF run_claims_ok [OF ok] c'] by auto
qed

text \<open>
  C11: one admitted claim per arm and generation. Once an admission succeeded on a running store,
  whatever operations follow, the same admission answers with the same attempt, verifier and
  payload reference as an exact replay and changes nothing, and every other request for that
  arm and generation is a conflict that changes nothing, as long as the random payload
  references of the admitted claims are distinct.
\<close>

theorem claim_admitted_once:
  assumes "admit_claim b entropy (store_run b k (fake_persist_default key) ops) admission attachment = (s1, Inr r)"
    and "payload_refs_distinct (store_run b k s1 ops')"
  shows "let s2 = store_run b k s1 ops' in
    admit_claim b entropy' s2 admission attachment' = (s2, Inr (r\<lparr>am_outcome := AO_ExactReplay\<rparr>))
    \<and> (\<forall>rival. cl_arm_id rival = cl_arm_id admission \<and> cl_generation rival = cl_generation admission
          \<and> cl_request_id rival \<noteq> cl_request_id admission
        \<longrightarrow> admit_claim b entropy' s2 rival attachment' = (s2, Inl Conflict))"
proof -
  have ok: "claims_ok s1"
    using run_claims_ok [OF run_claims_ok [OF claims_ok_default, of b k key ops], of b k "[Op_Admit entropy admission attachment]"]
      assms(1) by simp
  from admitted_as_run [OF ok admit_claim_Inr(2) [OF assms(1)] assms(2)]
  have a: "admitted_as (store_run b k s1 ops') admission r" .
  from admitted_replay [OF admit_claim_Inr(1) [OF assms(1)] a] rival_conflict [OF run_claims_ok [OF ok] a]
  show ?thesis by (simp add: Let_def)
qed

section \<open>A concrete admission\<close>

definition sample_second :: StoreOp where
  "sample_second = Op_Admit (Some [30]) (sample_admission ''q2'' 2 [''e2'']) (sample_attachment ''att2'' 2)"

lemma sample_admitted_claim:
  "admit_claim sample_hash (Some [9]) (sample_run (butlast sample_setup)) (sample_admission ''q1'' 1 [''e1''])
     (sample_attachment ''att'' 1) =
   (sample_run sample_setup, Inr \<lparr>am_outcome = AO_Admitted, am_attempt_id = ''att'', am_verifier_ref = [2], am_payload_ref = [9]\<rparr>)"
  by (simp add: store_eval sample_defs Let_def tree_simps cong: try_in_weak_cong bind_res_weak_cong)

lemma sample_payloads_distinct:
  "payload_refs_distinct (store_run sample_hash sample_mac (sample_run sample_setup) (sample_dispatch @ [sample_second]))"
  by (auto simp add: payload_refs_distinct_def sample_second_def store_eval sample_defs Let_def tree_simps
      cong: try_in_weak_cong bind_res_weak_cong split: if_splits)

lemma claim_admitted_once_witness:
  "snd (admit_claim sample_hash None (sample_run (sample_setup @ sample_dispatch @ [sample_second]))
     (sample_admission ''q1'' 1 [''e1'']) (sample_attachment ''other'' 1)) =
     Inr \<lparr>am_outcome = AO_ExactReplay, am_attempt_id = ''att'', am_verifier_ref = [2], am_payload_ref = [9]\<rparr>
   \<and> snd (admit_claim sample_hash (Some [31]) (sample_run (sample_setup @ sample_dispatch @ [sample_second]))
     (sample_admission ''q3'' 1 [''e1'']) (sample_attachment ''other'' 1)) = Inl Conflict"
  using claim_admitted_once [OF sample_admitted_claim sample_payloads_distinct, of None "sample_attachment ''other'' 1"]
    claim_admitted_once [OF sample_admitted_claim sample_payloads_distinct, of "Some [31]" "sample_attachment ''other'' 1"]
  by (simp add: Let_def store_run_append sample_admission_def)

end
