(* ===== verification/Helper_Properties.thy ===== *)
theory Helper_Properties
  imports Claim_Properties
begin

text \<open>
  Helpers: handled coverage is proved by the claim's drain and only advances, coverage is
  re-armed once and only when the batch is handled and the turn is over, an exact terminal closes
  the attempt for helpers, and revocation and rotation of a grant are final.
\<close>

section \<open>Turn facts accumulate\<close>

definition facts_le :: "FakePersist \<Rightarrow> FakePersist \<Rightarrow> bool" where
  "facts_le s s' \<longleftrightarrow> (\<forall>a. \<exists>more. facts_of s' a = facts_of s a @ more)"

lemma facts_of_cong: "fp_turn_facts s' = fp_turn_facts s \<Longrightarrow> facts_of s' a = facts_of s a"
  by (simp add: facts_of_def)

lemma facts_le_same: "fp_turn_facts s' = fp_turn_facts s \<Longrightarrow> facts_le s s'"
  by (simp add: facts_le_def facts_of_def)

lemma facts_le_refl [simp]: "facts_le s s"
  by (rule facts_le_same) simp

lemma facts_le_trans: "facts_le s s' \<Longrightarrow> facts_le s' s'' \<Longrightarrow> facts_le s s''"
  unfolding facts_le_def by (metis append.assoc)

lemma moves_facts_le: "store_moves b s s' \<Longrightarrow> facts_le s s'"
proof (induction rule: store_moves.induct)
  case (turn_fact fact' a)
  show ?case by (auto simp: facts_le_def facts_of_def tree_simps)
qed (auto intro!: facts_le_same simp: update_helper_grant_def bind_turn_ref_def split: option.splits)

lemma run_facts_le: "facts_le s (store_run b k s ops)"
  by (rule store_run_grows [where I = "\<lambda>_. True"]) (auto intro: moves_facts_le facts_le_trans)

lemma attempt_terminal_le: "facts_le s s' \<Longrightarrow> attempt_terminal s a \<Longrightarrow> attempt_terminal s' a"
  unfolding facts_le_def attempt_terminal_def list_ex_iff by (metis UnI1 set_append)

section \<open>What coverage proves\<close>

definition proved_through :: "PersistedClaimRecord \<Rightarrow> nat \<Rightarrow> bool" where
  "proved_through c i \<longleftrightarrow> i < length (pc_event_refs c) \<and>
     (case (pc_coverage c, pc_drain_witness c) of
        (None, None) \<Rightarrow> i = 0
      | (Some evidence, Some witness) \<Rightarrow>
          (\<exists>prefix. covered_drain_prefix evidence witness = Some prefix
             \<and> (\<forall>j \<le> i. pc_event_refs c ! j \<in> set prefix))
      | _ \<Rightarrow> False)"

lemma proved_ack_index_through:
  assumes "proved_ack_index b c (pc_event_refs c) payload = Inr p" and "i \<le> p" and "pc_event_refs c \<noteq> []"
  shows "proved_through c i"
proof (cases "pc_coverage c = None \<and> pc_drain_witness c = None")
  case True
  with assms show ?thesis by (simp add: proved_ack_index_def proved_through_def)
next
  case False
  with assms(1) obtain evidence witness where cw: "pc_coverage c = Some evidence" "pc_drain_witness c = Some witness"
    by (auto simp: proved_ack_index_def split: option.splits)
  have j: "j < length (pc_event_refs c) \<and>
      (\<exists>prefix. covered_drain_prefix evidence witness = Some prefix \<and> pc_event_refs c ! j \<in> set prefix)"
    if "j \<le> i" for j
    using that proved_ack_index_covered [OF assms(1) cw, of j] assms(2) by simp
  from j [OF order_refl] obtain prefix where "covered_drain_prefix evidence witness = Some prefix" by blast
  with j cw show ?thesis by (auto simp: proved_through_def)
qed

definition handled_row_ok :: "FakePersist \<Rightarrow> string \<Rightarrow> PersistedHandledCoverage \<Rightarrow> bool" where
  "handled_row_ok s a h \<longleftrightarrow> hc_attempt_id h = a \<and>
     (\<exists>c i. claim_for_attempt s a = Some c \<and> hc_signal_id h = pc_signal_id c
        \<and> position (hc_cursor h) (pc_event_refs c) = Some i \<and> proved_through c i
        \<and> (hc_covered_through_newest h \<longleftrightarrow> i = length (pc_event_refs c) - 1))"

definition handled_ok :: "FakePersist \<Rightarrow> bool" where
  "handled_ok s \<longleftrightarrow> claims_ok s \<and> (\<forall>a h. bt_get (fp_handled s) a = Some h \<longrightarrow> handled_row_ok s a h)"

definition handled_le :: "FakePersist \<Rightarrow> FakePersist \<Rightarrow> bool" where
  "handled_le s s' \<longleftrightarrow> claims_le s s' \<and> facts_le s s'
     \<and> (\<forall>a c. claim_for_attempt s a = Some c \<longrightarrow> claim_for_attempt s' a = Some c)
     \<and> (\<forall>a c h i. bt_get (fp_handled s) a = Some h \<and> claim_for_attempt s a = Some c
          \<and> position (hc_cursor h) (pc_event_refs c) = Some i \<longrightarrow>
          (\<exists>h' i'. bt_get (fp_handled s') a = Some h' \<and> position (hc_cursor h') (pc_event_refs c) = Some i'
             \<and> i \<le> i' \<and> (hc_covered_through_newest h \<longrightarrow> h' = h)))
     \<and> (\<forall>a. attempt_terminal s a \<longrightarrow> bt_get (fp_handled s') a = bt_get (fp_handled s) a)"

lemma position_of_nth: "position x xs = Some i \<Longrightarrow> position (xs ! i) xs = Some i"
  using position_nth by fastforce

lemma furthest_cursor_cases:
  assumes "furthest_cursor s a refs at = Inr f"
  shows "bt_get (fp_handled s) a = None \<and> f = at \<or>
    (\<exists>h old. bt_get (fp_handled s) a = Some h \<and> position (hc_cursor h) refs = Some old \<and> f = max at old)"
  using assms by (auto simp: furthest_cursor_def result_simps split: option.splits)

lemma ack_furthest:
  assumes ok: "handled_ok s" and c: "claim_for_attempt s a = Some c"
    and at: "position cursor (pc_event_refs c) = Some at" "proved_through c at"
    and f: "furthest_cursor s a (pc_event_refs c) at = Inr f"
  shows "position (pc_event_refs c ! f) (pc_event_refs c) = Some f \<and> proved_through c f"
  using furthest_cursor_cases [OF f]
proof (elim disjE exE conjE)
  fix h old
  assume h: "bt_get (fp_handled s) a = Some h" "position (hc_cursor h) (pc_event_refs c) = Some old" "f = max at old"
  from ok h(1, 2) c have "proved_through c old"
    unfolding handled_ok_def handled_row_ok_def by fastforce
  with h at position_of_nth show ?thesis by (auto simp: max_def)
qed (use at position_of_nth in auto)

lemma claim_for_attempt_le:
  assumes "claims_ok s" "claims_ok s'" "claims_le s s'" "claim_for_attempt s a = Some c"
  shows "claim_for_attempt s' a = Some c"
  using assms claims_le_get by (fastforce simp: claim_for_attempt_iff)

lemma moves_handled_frame:
  "store_moves b s s' \<Longrightarrow> fp_handled s' = fp_handled s \<or>
     (\<exists>coverage replay claim at f. s' = with_ack s coverage replay
        \<and> \<not> handled_complete s (hc_attempt_id coverage) \<and> \<not> attempt_terminal s (hc_attempt_id coverage)
        \<and> claim_for_attempt s (hc_attempt_id coverage) = Some claim \<and> hc_signal_id coverage = pc_signal_id claim
        \<and> position (ap_cursor replay) (pc_event_refs claim) = Some at \<and> proved_through claim at
        \<and> furthest_cursor s (hc_attempt_id coverage) (pc_event_refs claim) at = Inr f
        \<and> hc_cursor coverage = pc_event_refs claim ! f
        \<and> (hc_covered_through_newest coverage \<longleftrightarrow> f = length (pc_event_refs claim) - 1))"
proof (induction rule: store_moves.induct)
  case (acknowledge replay coverage claim at payload proved furthest)
  then have "proved_through claim at" by (intro proved_ack_index_through) auto
  with acknowledge show ?case unfolding with_ack_def by (intro disjI2) blast
qed (auto simp: update_helper_grant_def bind_turn_ref_def conclude_reservation_def split: option.splits)

lemma handled_row_ok_le:
  assumes "handled_row_ok s a h" and "\<And>c. claim_for_attempt s a = Some c \<Longrightarrow> claim_for_attempt s' a = Some c"
  shows "handled_row_ok s' a h"
  using assms unfolding handled_row_ok_def by blast

lemma with_ack_claims [simp]:
  "fp_claims (with_ack s coverage replay) = fp_claims s"
  "claim_for_attempt (with_ack s coverage replay) a = claim_for_attempt s a"
  "facts_of (with_ack s coverage replay) a = facts_of s a"
  "fp_handled (with_ack s coverage replay) = bt_insert (hc_attempt_id coverage) coverage (fp_handled s)"
  by (simp_all add: with_ack_def claim_for_attempt_def facts_of_def)

lemma moves_handled:
  assumes ok: "handled_ok s" and m: "store_moves b s s'"
  shows "handled_ok s' \<and> handled_le s s'"
proof -
  have cl: "claims_ok s" "claims_ok s'" "claims_le s s'" "facts_le s s'"
    using ok moves_claims_ok [OF m] moves_claims_le [OF m] moves_facts_le [OF m] by (auto simp: handled_ok_def)
  note keep = claim_for_attempt_le [OF cl(1-3)]
  have rows: "handled_row_ok s' a h" if "bt_get (fp_handled s) a = Some h" for a h
    by (rule handled_row_ok_le [of s]) (use ok that keep in \<open>auto simp: handled_ok_def\<close>)
  from moves_handled_frame [OF m] show ?thesis
  proof (elim disjE exE conjE)
    assume eq: "fp_handled s' = fp_handled s"
    have "handled_ok s'"
      using cl(2) rows eq by (simp add: handled_ok_def)
    moreover have "handled_le s s'" using cl keep eq by (auto simp: handled_le_def)
    ultimately show ?thesis ..
  next
    fix v :: PersistedHandledCoverage and replay c at f
    let ?a = "hc_attempt_id v"
    assume s': "s' = with_ack s v replay" and open': "\<not> handled_complete s ?a" "\<not> attempt_terminal s ?a"
      and c: "claim_for_attempt s ?a = Some c" "hc_signal_id v = pc_signal_id c"
      and at: "position (ap_cursor replay) (pc_event_refs c) = Some at" "proved_through c at"
      and f: "furthest_cursor s ?a (pc_event_refs c) at = Inr f"
      and v: "hc_cursor v = pc_event_refs c ! f" "hc_covered_through_newest v \<longleftrightarrow> f = length (pc_event_refs c) - 1"
    have pf: "position (pc_event_refs c ! f) (pc_event_refs c) = Some f" "proved_through c f"
      using ack_furthest [OF ok c(1) at f] by auto
    have "handled_row_ok s' ?a v"
      using c v pf s' by (simp add: handled_row_ok_def)
    then have "handled_ok s'"
      using cl(2) rows s' by (auto simp: handled_ok_def tree_simps split: if_splits)
    moreover have "handled_le s s'"
      unfolding handled_le_def
    proof (intro conjI cl(3, 4) allI impI keep)
      fix a c' h i
      assume "bt_get (fp_handled s) a = Some h \<and> claim_for_attempt s a = Some c'
          \<and> position (hc_cursor h) (pc_event_refs c') = Some i"
      then show "\<exists>h' i'. bt_get (fp_handled s') a = Some h' \<and> position (hc_cursor h') (pc_event_refs c') = Some i'
             \<and> i \<le> i' \<and> (hc_covered_through_newest h \<longrightarrow> h' = h)"
        using c(1) furthest_cursor_cases [OF f] open'(1) v(1) pf(1) s'
        by (cases "a = ?a") (auto simp: handled_complete_def)
    next
      fix a
      assume "attempt_terminal s a"
      then show "bt_get (fp_handled s') a = bt_get (fp_handled s) a"
        using open'(2) s' by (auto simp: tree_simps)
    qed
    ultimately show ?thesis ..
  qed
qed

lemma handled_le_refl [simp]: "handled_le s s"
  by (simp add: handled_le_def)

lemma handled_le_trans: 
  assumes "handled_le s s'" "handled_le s' s''"
  shows "handled_le s s''"
proof -
  have "\<exists>h'' i''. bt_get (fp_handled s'') a = Some h'' \<and> position (hc_cursor h'') (pc_event_refs c) = Some i''
      \<and> i \<le> i'' \<and> (hc_covered_through_newest h \<longrightarrow> h'' = h)"
    if h: "bt_get (fp_handled s) a = Some h" "claim_for_attempt s a = Some c"
      "position (hc_cursor h) (pc_event_refs c) = Some i" for a c h i
  proof -
    from assms(1) h obtain h' i' where h': "bt_get (fp_handled s') a = Some h'"
      "position (hc_cursor h') (pc_event_refs c) = Some i'" "i \<le> i'" "hc_covered_through_newest h \<longrightarrow> h' = h"
      "claim_for_attempt s' a = Some c"
      unfolding handled_le_def by blast
    with assms(2) obtain h'' i'' where "bt_get (fp_handled s'') a = Some h''"
      "position (hc_cursor h'') (pc_event_refs c) = Some i''" "i' \<le> i''" "hc_covered_through_newest h' \<longrightarrow> h'' = h'"
      unfolding handled_le_def by blast
    with h' show ?thesis by auto
  qed
  moreover have "claims_le s s''" "facts_le s s''"
    using assms claims_le_trans facts_le_trans unfolding handled_le_def by blast+
  moreover have "bt_get (fp_handled s'') a = bt_get (fp_handled s) a" if "attempt_terminal s a" for a
    using assms that attempt_terminal_le unfolding handled_le_def by metis
  ultimately show ?thesis using assms unfolding handled_le_def by blast
qed

lemma handled_ok_default: "handled_ok (fake_persist_default key)"
  by (simp add: handled_ok_def claims_ok_default) (simp add: fake_persist_default_def)

lemma run_handled_ok: "handled_ok s \<Longrightarrow> handled_ok (store_run b k s ops)"
  by (rule store_run_keeps [where b = b]) (use moves_handled in blast)+

lemma run_handled_le: "handled_ok s \<Longrightarrow> handled_le s (store_run b k s ops)"
  by (rule store_run_grows [where I = handled_ok and b = b]) (auto dest: moves_handled elim: handled_le_trans)

text \<open>
  C12: handled coverage is backed by what was drained. In every store a run reaches, a handled
  cursor belongs to the claim of its attempt and is one of its event references; every reference
  up to it lies in the covered part of the provider drain (the first reference only, for a claim
  without coverage evidence); and the row says \<open>covered through newest\<close> exactly when the cursor is
  at the last reference.
\<close>

theorem handled_coverage_proved:
  assumes "bt_get (fp_handled (store_run b k (fake_persist_default key) ops)) a = Some h"
  shows "handled_row_ok (store_run b k (fake_persist_default key) ops) a h"
  using assms run_handled_ok [OF handled_ok_default] unfolding handled_ok_def by blast

lemma handled_coverage_proved_witness:
  "handled_row_ok (sample_run (sample_setup @ sample_dispatch @ sample_handling)) ''att''
    \<lparr>hc_attempt_id = ''att'', hc_signal_id = ''sig'', hc_cursor = ''e1'', hc_covered_through_newest = True\<rparr>"
  by (rule handled_coverage_proved)
    (simp add: store_eval sample_defs Let_def tree_simps cong: try_in_weak_cong bind_res_weak_cong)

text \<open>
  The handled cursor never moves back. Whatever operations follow, an attempt that has handled
  coverage keeps its claim and keeps coverage at the same or a later reference, and coverage through
  the newest reference is final.
\<close>

theorem handled_cursor_monotone:
  assumes "bt_get (fp_handled (store_run b k (fake_persist_default key) ops)) a = Some h"
  shows "\<exists>c h' i i'. claim_for_attempt (store_run b k (fake_persist_default key) (ops @ ops')) a = Some c
    \<and> bt_get (fp_handled (store_run b k (fake_persist_default key) (ops @ ops'))) a = Some h'
    \<and> position (hc_cursor h) (pc_event_refs c) = Some i \<and> position (hc_cursor h') (pc_event_refs c) = Some i'
    \<and> i \<le> i' \<and> (hc_covered_through_newest h \<longrightarrow> h' = h)"
proof -
  let ?s = "store_run b k (fake_persist_default key) ops"
  have ok: "handled_ok ?s" by (rule run_handled_ok [OF handled_ok_default])
  with assms obtain c i where c: "claim_for_attempt ?s a = Some c" "position (hc_cursor h) (pc_event_refs c) = Some i"
    unfolding handled_ok_def handled_row_ok_def by blast
  with run_handled_le [OF ok, of b k ops'] assms show ?thesis
    unfolding handled_le_def store_run_append by blast
qed

lemma handled_cursor_monotone_witness:
  "\<exists>c h' i i'. claim_for_attempt (sample_run ((sample_setup @ sample_dispatch @ sample_handling) @ [sample_terminal])) ''att'' = Some c
    \<and> bt_get (fp_handled (sample_run ((sample_setup @ sample_dispatch @ sample_handling) @ [sample_terminal]))) ''att'' = Some h'
    \<and> position ''e1'' (pc_event_refs c) = Some i \<and> position (hc_cursor h') (pc_event_refs c) = Some i' \<and> i \<le> i'"
proof -
  have "bt_get (fp_handled (sample_run (sample_setup @ sample_dispatch @ sample_handling))) ''att'' =
      Some \<lparr>hc_attempt_id = ''att'', hc_signal_id = ''sig'', hc_cursor = ''e1'', hc_covered_through_newest = True\<rparr>"
    by (simp add: store_eval sample_defs Let_def tree_simps cong: try_in_weak_cong bind_res_weak_cong)
  from handled_cursor_monotone [OF this, of "[sample_terminal]"] show ?thesis by auto
qed

section \<open>The join\<close>

definition rearmed_row_ok :: "FakePersist \<Rightarrow> string \<times> u64 \<times> string \<times> string \<Rightarrow> bool" where
  "rearmed_row_ok s key \<longleftrightarrow> (case key of (arm_id, generation, attempt_id, signal_id) \<Rightarrow>
     \<exists>c h. claim_for_attempt s attempt_id = Some c \<and> pc_arm_id c = arm_id \<and> pc_generation c = generation
       \<and> pc_signal_id c = signal_id
       \<and> bt_get (fp_handled s) attempt_id = Some h \<and> hc_signal_id h = signal_id \<and> hc_covered_through_newest h
       \<and> attempt_terminal s attempt_id)"

definition joined_ok :: "FakePersist \<Rightarrow> bool" where
  "joined_ok s \<longleftrightarrow> handled_ok s \<and> (\<forall>key. bs_member key (fp_rearmed s) \<longrightarrow> rearmed_row_ok s key)"

definition joined_le :: "FakePersist \<Rightarrow> FakePersist \<Rightarrow> bool" where
  "joined_le s s' \<longleftrightarrow> (\<forall>key. bs_member key (fp_rearmed s) \<longrightarrow> bs_member key (fp_rearmed s'))"

lemma joined_okD: "joined_ok s \<Longrightarrow> handled_ok s" "joined_ok s \<Longrightarrow> bs_member key (fp_rearmed s) \<Longrightarrow> rearmed_row_ok s key"
  unfolding joined_ok_def by blast+

lemma joined_leD: "joined_le s s' \<Longrightarrow> bs_member key (fp_rearmed s) \<Longrightarrow> bs_member key (fp_rearmed s')"
  unfolding joined_le_def by blast

lemma rearmed_row_ok_le:
  assumes "handled_ok s" and "handled_le s s'" and "rearmed_row_ok s key"
  shows "rearmed_row_ok s' key"
proof -
  obtain arm g a sid where key: "key = (arm, g, a, sid)" by (cases key)
  with assms(3) obtain c h where c: "claim_for_attempt s a = Some c" "pc_arm_id c = arm" "pc_generation c = g"
    "pc_signal_id c = sid" "bt_get (fp_handled s) a = Some h" "hc_signal_id h = sid"
    "hc_covered_through_newest h" "attempt_terminal s a"
    by (auto simp: rearmed_row_ok_def)
  from assms(2) c(1) have "claim_for_attempt s' a = Some c" unfolding handled_le_def by blast
  moreover from assms(2) c(5, 8) have "bt_get (fp_handled s') a = Some h" unfolding handled_le_def by simp
  moreover from assms(2) c(8) have "attempt_terminal s' a"
    unfolding handled_le_def using attempt_terminal_le by blast
  ultimately show ?thesis using c key by (auto simp: rearmed_row_ok_def)
qed

lemma scope_claim:
  assumes "handled_ok s" and "scope_matches_claim s scope"
  shows "\<exists>c. claim_for_attempt s (js_attempt_id scope) = Some c \<and> pc_arm_id c = js_arm_id scope
    \<and> pc_generation c = js_generation scope \<and> pc_signal_id c = js_signal_id scope"
  using assms unfolding scope_matches_claim_def handled_ok_def
  by (auto simp: list_ex_iff tree_simps claim_for_attempt_iff)

lemma moves_rearmed:
  "store_moves b s s' \<Longrightarrow> fp_rearmed s' = fp_rearmed s \<or>
     (\<exists>scope. s' = s\<lparr>fp_rearmed := bt_insert (rearm_key scope) () (fp_rearmed s)\<rparr>
        \<and> scope_matches_claim s scope \<and> handled_through_newest s scope \<and> attempt_terminal s (js_attempt_id scope))"
  by (induction rule: store_moves.induct)
    (auto simp: update_helper_grant_def bind_turn_ref_def conclude_reservation_def split: option.splits)

lemma joined_row_new:
  assumes "handled_ok s" and "scope_matches_claim s scope" and "handled_through_newest s scope"
    and "attempt_terminal s (js_attempt_id scope)"
  shows "rearmed_row_ok s (rearm_key scope)"
  using scope_claim [OF assms(1, 2)] assms(3, 4)
  by (auto simp: rearmed_row_ok_def rearm_key_def handled_through_newest_def split: option.splits)

lemma moves_joined:
  assumes ok: "joined_ok s" and m: "store_moves b s s'"
  shows "joined_ok s' \<and> joined_le s s'"
proof -
  from ok m have h: "handled_ok s" "handled_ok s'" "handled_le s s'"
    using moves_handled unfolding joined_ok_def by blast+
  have row: "rearmed_row_ok s key" if "bs_member key (fp_rearmed s')" for key
    using moves_rearmed [OF m]
  proof (elim disjE exE conjE)
    fix scope :: RearmJoinScope
    assume "s' = s\<lparr>fp_rearmed := bt_insert (rearm_key scope) () (fp_rearmed s)\<rparr>"
      and "scope_matches_claim s scope" "handled_through_newest s scope" "attempt_terminal s (js_attempt_id scope)"
    then show ?thesis
      using that joined_okD(2) [OF ok, of key] joined_row_new [OF h(1), of scope] by auto
  qed (use that joined_okD(2) [OF ok, of key] in simp)
  have "joined_ok s'"
    unfolding joined_ok_def using h(2) rearmed_row_ok_le [OF h(1, 3) row] by blast
  moreover have "joined_le s s'" using moves_rearmed [OF m] by (auto simp: joined_le_def)
  ultimately show ?thesis ..
qed

lemma joined_ok_default: "joined_ok (fake_persist_default key)"
  by (simp add: joined_ok_def handled_ok_default) (simp add: fake_persist_default_def)

lemma run_joined_ok: "joined_ok s \<Longrightarrow> joined_ok (store_run b k s ops)"
  by (rule store_run_keeps [where b = b]) (use moves_joined in blast)+

lemma run_joined_le: "joined_ok s \<Longrightarrow> joined_le s (store_run b k s ops)"
  by (rule store_run_grows [where I = joined_ok and b = b])
    (auto dest: moves_joined, auto simp: joined_le_def)

text \<open>The joins that re-arm coverage during a run.\<close>

definition joins_of :: "FakePersist \<Rightarrow> StoreOp \<Rightarrow> RearmJoinScope list" where
  "joins_of s op =
     (case op of Op_Join scope \<Rightarrow> if snd (try_rearm_join s scope) = Inr RJ_Rearmed then [scope] else [] | _ \<Rightarrow> [])"

fun joins_in ::
  "(bytes \<Rightarrow> bytes) \<Rightarrow> (bytes \<Rightarrow> bytes \<Rightarrow> bytes) \<Rightarrow> FakePersist \<Rightarrow> StoreOp list \<Rightarrow> RearmJoinScope list" where
  "joins_in b k s [] = []"
| "joins_in b k s (op # ops) = joins_of s op @ joins_in b k (store_step b k s op) ops"

lemma joins_of_new:
  assumes "scope \<in> set (joins_of s op)"
  shows "joins_of s op = [scope] \<and> \<not> bs_member (rearm_key scope) (fp_rearmed s)
    \<and> bs_member (rearm_key scope) (fp_rearmed (store_step b k s op))"
proof -
  from assms have "op = Op_Join scope" "snd (try_rearm_join s scope) = Inr RJ_Rearmed"
    by (auto simp: joins_of_def split: StoreOp.splits if_splits)
  then show ?thesis
    by (auto simp: joins_of_def try_rearm_join_def Let_def bs_insert_def split: if_splits)
qed

lemma joins_in_new:
  "joined_ok s \<Longrightarrow> scope \<in> set (joins_in b k s ops) \<Longrightarrow>
    \<not> bs_member (rearm_key scope) (fp_rearmed s) \<and> bs_member (rearm_key scope) (fp_rearmed (store_run b k s ops))"
proof (induction ops arbitrary: s)
  case Nil
  then show ?case by simp
next
  case (Cons op ops)
  have ok: "joined_ok (store_step b k s op)" and le: "joined_le s (store_step b k s op)"
    using run_joined_ok [OF Cons.prems(1), of b k "[op]"] run_joined_le [OF Cons.prems(1), of b k "[op]"] by simp_all
  show ?case
  proof (cases "scope \<in> set (joins_of s op)")
    case True
    from joins_of_new [OF this, of b k] joined_leD [OF run_joined_le [OF ok, of b k ops]] show ?thesis by simp
  next
    case False
    with Cons.prems have "scope \<in> set (joins_in b k (store_step b k s op) ops)" by simp
    from Cons.IH [OF ok this] joined_leD [OF le, of "rearm_key scope"] show ?thesis by auto
  qed
qed

lemma joins_in_distinct: "joined_ok s \<Longrightarrow> distinct (map rearm_key (joins_in b k s ops))"
proof (induction ops arbitrary: s)
  case Nil
  then show ?case by simp
next
  case (Cons op ops)
  have ok: "joined_ok (store_step b k s op)"
    using run_joined_ok [OF Cons.prems, of b k "[op]"] by simp
  show ?case
  proof (cases "joins_of s op")
    case Nil
    with Cons.IH [OF ok] show ?thesis by simp
  next
    case (Cons scope rest)
    with joins_of_new [of scope s op b k] have j: "joins_of s op = [scope]"
      "bs_member (rearm_key scope) (fp_rearmed (store_step b k s op))" by auto
    have "rearm_key scope \<notin> rearm_key ` set (joins_in b k (store_step b k s op) ops)"
      using joins_in_new [OF ok] j(2) by (metis imageE)
    with j(1) Cons.IH [OF ok] show ?thesis by simp
  qed
qed

text \<open>
  C13: coverage is re-armed once per attempt, and only when both sides are in. Over any run of a
  new store the joins that re-arm are for pairwise distinct attempts, and at the end each of
  them has a claim of its arm, generation and signal, coverage handled through the newest event
  and an exact terminal fact.
\<close>

theorem coverage_rearmed_once:
  "let js = joins_in b k (fake_persist_default key) ops; s = store_run b k (fake_persist_default key) ops in
     distinct (map js_attempt_id js) \<and> list_all (\<lambda>scope. rearmed_row_ok s (rearm_key scope)) js"
proof -
  let ?js = "joins_in b k (fake_persist_default key) ops" and ?s = "store_run b k (fake_persist_default key) ops"
  have rows: "rearmed_row_ok ?s (rearm_key scope)" if "scope \<in> set ?js" for scope
    using joins_in_new [OF joined_ok_default that] joined_okD(2) [OF run_joined_ok [OF joined_ok_default]] by blast
  have "rearm_key x = rearm_key y" if "x \<in> set ?js" "y \<in> set ?js" "js_attempt_id x = js_attempt_id y" for x y
    using rows [OF that(1)] rows [OF that(2)] that(3) by (auto simp: rearmed_row_ok_def rearm_key_def)
  moreover have "distinct ?js" "inj_on rearm_key (set ?js)"
    using joins_in_distinct [OF joined_ok_default, of b k key ops] unfolding distinct_map by blast+
  ultimately have "distinct (map js_attempt_id ?js)"
    unfolding distinct_map inj_on_def by blast
  with rows show ?thesis by (simp add: Let_def list_all_iff)
qed

text \<open>
  C14: an exact terminal closes the attempt for its helper. Once a terminal fact is recorded for an
  attempt whose batch is not handled through the newest event, no later operation changes its
  handled coverage, and every later join for it waits for handled coverage: coverage of that
  arm and generation is never re-armed through this attempt.
\<close>

theorem terminal_closes_helper:
  assumes "attempt_terminal (store_run b k (fake_persist_default key) ops) (js_attempt_id scope)"
    and "\<not> handled_complete (store_run b k (fake_persist_default key) ops) (js_attempt_id scope)"
  shows "let s = store_run b k (fake_persist_default key) (ops @ ops') in
    bt_get (fp_handled s) (js_attempt_id scope)
      = bt_get (fp_handled (store_run b k (fake_persist_default key) ops)) (js_attempt_id scope)
    \<and> try_rearm_join s scope = (s, Inr RJ_WaitingForHandled)"
proof -
  let ?s = "store_run b k (fake_persist_default key) ops" and ?a = "js_attempt_id scope"
  let ?t = "store_run b k ?s ops'"
  have ok: "joined_ok ?s" by (rule run_joined_ok [OF joined_ok_default])
  then have le: "handled_le ?s ?t" by (intro run_handled_le) (simp add: joined_ok_def)
  with assms(1) have same: "bt_get (fp_handled ?t) ?a = bt_get (fp_handled ?s) ?a"
    unfolding handled_le_def by blast
  with assms(2) have open': "\<not> handled_through_newest ?t scope"
    by (auto simp: handled_through_newest_def handled_complete_def split: option.splits)
  have "\<not> bs_member (rearm_key scope) (fp_rearmed ?t)"
    using joined_okD(2) [OF run_joined_ok [OF ok, of b k ops'], of "rearm_key scope"] open'
    by (auto simp: rearmed_row_ok_def rearm_key_def handled_through_newest_def)
  with open' have "try_rearm_join ?t scope = (?t, Inr RJ_WaitingForHandled)"
    by (simp add: try_rearm_join_def Let_def)
  with same show ?thesis by (simp add: Let_def store_run_append)
qed

lemma terminal_closes_helper_witness:
  "snd (try_rearm_join (sample_run ((sample_setup @ sample_dispatch @ [sample_terminal]) @ sample_handling)) sample_scope)
    = Inr RJ_WaitingForHandled"
proof -
  have "attempt_terminal (sample_run (sample_setup @ sample_dispatch @ [sample_terminal])) (js_attempt_id sample_scope)"
    "\<not> handled_complete (sample_run (sample_setup @ sample_dispatch @ [sample_terminal])) (js_attempt_id sample_scope)"
    by (simp_all add: store_eval sample_defs Let_def tree_simps cong: try_in_weak_cong bind_res_weak_cong)
  from terminal_closes_helper [OF this, of sample_handling] show ?thesis by (simp add: Let_def)
qed

section \<open>Revocation and rotation\<close>

text \<open>A grant reference that the grant of its attempt no longer honours.\<close>

definition dead_ref :: "FakePersist \<Rightarrow> bytes \<Rightarrow> string \<Rightarrow> bytes \<Rightarrow> bool" where
  "dead_ref s birth_id attempt_id ref \<longleftrightarrow>
     (\<exists>g. helper_grant s birth_id attempt_id = Some g \<and>
        (hg_revoked g \<or> hg_grant_ref g \<noteq> ref \<and> list_ex (\<lambda>r. rg_grant_ref r = ref) (fp_retired_grants s)))"

lemma find_append_Some: "List.find p xs = Some x \<Longrightarrow> List.find p (xs @ ys) = Some x"
  by (induction xs) (auto split: if_splits)

lemma find_append_None: "List.find p xs = None \<Longrightarrow> List.find p (xs @ ys) = List.find p ys"
  by (induction xs) (auto split: if_splits)

lemma helper_grant_update:
  assumes "\<And>g. grant_for birth_id attempt_id g \<Longrightarrow> grant_for birth_id attempt_id (f g)"
  shows "List.find (grant_for birth_id' attempt_id') (update_first (grant_for birth_id attempt_id) f gs) =
    (if birth_id' = birth_id \<and> attempt_id' = attempt_id
     then map_option f (List.find (grant_for birth_id attempt_id) gs)
     else List.find (grant_for birth_id' attempt_id') gs)"
proof (cases "birth_id' = birth_id \<and> attempt_id' = attempt_id")
  case True
  have "List.find (grant_for birth_id attempt_id) (update_first (grant_for birth_id attempt_id) f gs) =
      map_option f (List.find (grant_for birth_id attempt_id) gs)"
  proof (cases "List.find (grant_for birth_id attempt_id) gs")
    case None
    then show ?thesis by (simp add: update_first_find_None)
  next
    case (Some g)
    with find_SomeD [OF Some] assms show ?thesis by (simp add: find_update_first)
  qed
  with True show ?thesis by simp
next
  case False
  have "List.find (grant_for birth_id' attempt_id') (update_first (grant_for birth_id attempt_id) f gs) =
      List.find (grant_for birth_id' attempt_id') gs"
    by (rule find_update_first_other) (use assms False in \<open>auto simp: grant_for_def\<close>)
  with False show ?thesis by auto
qed

lemma helper_grant_frame:
  "fp_grants s' = fp_grants s \<Longrightarrow> helper_grant s' birth_id attempt_id = helper_grant s birth_id attempt_id"
  by (simp add: helper_grant_def)

lemma moves_dead_ref:
  "store_moves b s s' \<Longrightarrow> dead_ref s birth_id attempt_id ref \<Longrightarrow> dead_ref s' birth_id attempt_id ref"
proof (induction rule: store_moves.induct)
  case (grant g)
  then show ?case
    by (auto simp: dead_ref_def helper_grant_def find_append_Some)
next
  case (rotate g old)
  let ?s' = "s\<lparr>fp_grants := update_first (grant_for (hg_birth_id g) (hg_attempt_id g)) (\<lambda>_. g) (fp_grants s),
      fp_retired_grants := fp_retired_grants s @ [\<lparr>rg_grant_ref = hg_grant_ref old, rg_grant_verifier = hg_grant_verifier old\<rparr>]\<rparr>"
  have "helper_grant ?s' birth_id attempt_id =
      (if birth_id = hg_birth_id g \<and> attempt_id = hg_attempt_id g
       then map_option (\<lambda>_. g) (helper_grant s (hg_birth_id g) (hg_attempt_id g))
       else helper_grant s birth_id attempt_id)"
    unfolding helper_grant_def using helper_grant_update [of "hg_birth_id g" "hg_attempt_id g" "\<lambda>_. g"]
    by (simp add: grant_for_def)
  with rotate show ?case
    by (auto simp: dead_ref_def grant_identity_retired_def list_ex_iff split: if_splits)
next
  case (revoke_grant birth attempt)
  have "helper_grant (update_helper_grant s birth attempt (\<lambda>g. g\<lparr>hg_revoked := True\<rparr>)) birth_id attempt_id =
      (if birth_id = birth \<and> attempt_id = attempt
       then map_option (\<lambda>g. g\<lparr>hg_revoked := True\<rparr>) (helper_grant s birth attempt)
       else helper_grant s birth_id attempt_id)"
    unfolding helper_grant_def update_helper_grant_def
    using helper_grant_update [of birth attempt "\<lambda>g. g\<lparr>hg_revoked := True\<rparr>"] by (simp add: grant_for_def)
  then show ?case using revoke_grant
    by (auto simp: dead_ref_def update_helper_grant_def split: if_splits)
qed (auto simp: dead_ref_def helper_grant_def bind_turn_ref_def conclude_reservation_def split: option.splits)

lemma run_dead_ref:
  "dead_ref s birth_id attempt_id ref \<Longrightarrow> dead_ref (store_run b k s ops) birth_id attempt_id ref"
  by (rule store_run_keeps [where b = b]) (use moves_dead_ref in blast)+

text \<open>Nothing a helper can ask for is granted under a dead reference.\<close>

lemma dead_ref_refused:
  assumes "dead_ref s (hb_birth_id binding) (hb_attempt_id binding) (hb_grant_ref binding)"
  shows "authenticate_binding s binding operation = Inl Unauthorized \<or> enforce_unrevoked s binding = Inl Unauthorized"
  using assms
  by (auto simp: dead_ref_def authenticate_binding_def enforce_unrevoked_def bind_ensure)

lemma bind_res_Inl_iff: "bind_res m f = Inl e \<longleftrightarrow> m = Inl e \<or> (\<exists>x. m = Inr x \<and> f x = Inl e)"
  by (cases m) auto

lemma ok_or_Inl_iff: "ok_or v e = Inl e' \<longleftrightarrow> v = None \<and> e' = e"
  by (cases v) auto

lemma authenticate_Inl: "authenticate_binding s binding operation = Inl e \<Longrightarrow> e = Unauthorized"
  by (auto simp: authenticate_binding_def bind_res_Inl_iff ok_or_Inl_iff)

lemma dead_ref_calls:
  assumes "dead_ref s (hb_birth_id binding) (hb_attempt_id binding) (hb_grant_ref binding)"
  shows "record_retrieve_exchange b entropy s (x\<lparr>re_binding := binding\<rparr>) = (s, Inl Unauthorized)"
    and "materialize_claimed_batch b s binding permit = Inl Unauthorized"
    and "acknowledge_retrieved_batch b s binding q = (s, Inl Unauthorized)"
proof -
  have refused: "authenticate_binding s binding operation = Inl Unauthorized
      \<or> (\<exists>g. authenticate_binding s binding operation = Inr g \<and> enforce_unrevoked s binding = Inl Unauthorized)" for operation
    using dead_ref_refused [OF assms, of operation] authenticate_Inl [of s binding operation]
    by (cases "authenticate_binding s binding operation") auto
  show "record_retrieve_exchange b entropy s (x\<lparr>re_binding := binding\<rparr>) = (s, Inl Unauthorized)"
    using refused [of HO_Retrieve] by (elim disjE exE conjE) (simp_all add: record_retrieve_exchange_def Let_def)
  show "materialize_claimed_batch b s binding permit = Inl Unauthorized"
    using refused [of HO_Retrieve] by (elim disjE exE conjE) (simp_all add: materialize_claimed_batch_def)
  show "acknowledge_retrieved_batch b s binding q = (s, Inl Unauthorized)"
    using refused [of HO_Acknowledge] by (elim disjE exE conjE) (simp_all add: acknowledge_retrieved_batch_def Let_def)
qed

lemma revoke_makes_dead:
  assumes "revoke_helper_grant s scope = (s', Inr w)"
  shows "dead_ref s' (hv_birth_id scope) (hv_attempt_id scope) (hv_grant_ref scope)"
proof -
  from assms obtain g where g: "helper_grant s (hv_birth_id scope) (hv_attempt_id scope) = Some g"
    and s': "s' = s \<and> hg_revoked g \<or> s' = update_helper_grant s (hv_birth_id scope) (hv_attempt_id scope) (\<lambda>g. g\<lparr>hg_revoked := True\<rparr>)"
    by (auto simp: revoke_helper_grant_def result_simps split: if_splits)
  have "helper_grant (update_helper_grant s (hv_birth_id scope) (hv_attempt_id scope) (\<lambda>g. g\<lparr>hg_revoked := True\<rparr>))
      (hv_birth_id scope) (hv_attempt_id scope) = Some (g\<lparr>hg_revoked := True\<rparr>)"
    using g helper_grant_update [of "hv_birth_id scope" "hv_attempt_id scope" "\<lambda>g. g\<lparr>hg_revoked := True\<rparr>"]
    by (simp add: helper_grant_def update_helper_grant_def grant_for_def)
  with g s' show ?thesis by (auto simp: dead_ref_def)
qed

lemma rotate_makes_dead:
  assumes "persist_helper_grant s grant = (s', Inr ())"
    and "helper_grant s (hg_birth_id grant) (hg_attempt_id grant) = Some old" and "old \<noteq> grant"
  shows "dead_ref s' (hg_birth_id grant) (hg_attempt_id grant) (hg_grant_ref old)"
proof -
  have u: "List.find (grant_for (hg_birth_id grant) (hg_attempt_id grant))
      (update_first (grant_for (hg_birth_id grant) (hg_attempt_id grant)) (\<lambda>_. grant) (fp_grants s)) = Some grant"
    using assms(2) helper_grant_update [of "hg_birth_id grant" "hg_attempt_id grant" "\<lambda>_. grant"]
    by (simp add: helper_grant_def grant_for_def)
  from assms have "s' = (update_helper_grant s (hg_birth_id grant) (hg_attempt_id grant) (\<lambda>_. grant))
      \<lparr>fp_retired_grants := fp_retired_grants s @ [\<lparr>rg_grant_ref = hg_grant_ref old, rg_grant_verifier = hg_grant_verifier old\<rparr>]\<rparr>"
    "hg_grant_ref old \<noteq> hg_grant_ref grant"
    by (auto simp: persist_helper_grant_def Let_def result_simps update_helper_grant_def split: if_splits)
  with u show ?thesis by (auto simp: dead_ref_def helper_grant_def update_helper_grant_def)
qed

text \<open>
  C15: a grant that is revoked or rotated away is dead for good. After a revocation of a grant, or
  a re-issue that replaced it, whatever operations follow, re-issues and recoveries included, no
  retrieval, no materialization and no acknowledgement under a binding that carries its
  reference is served: each is refused as unauthorized, replays too, and changes nothing.
\<close>

theorem dead_grant_refused_forever:
  assumes "(\<exists>scope w. revoke_helper_grant s scope = (s', Inr w) \<and> hv_birth_id scope = hb_birth_id binding
        \<and> hv_attempt_id scope = hb_attempt_id binding \<and> hv_grant_ref scope = hb_grant_ref binding)
      \<or> (\<exists>grant old. persist_helper_grant s grant = (s', Inr ()) \<and> old \<noteq> grant
        \<and> helper_grant s (hb_birth_id binding) (hb_attempt_id binding) = Some old
        \<and> hg_birth_id grant = hb_birth_id binding \<and> hg_attempt_id grant = hb_attempt_id binding
        \<and> hg_grant_ref old = hb_grant_ref binding)"
  shows "let t = store_run b k s' ops in
    record_retrieve_exchange b entropy t (x\<lparr>re_binding := binding\<rparr>) = (t, Inl Unauthorized)
    \<and> materialize_claimed_batch b t binding permit = Inl Unauthorized
    \<and> acknowledge_retrieved_batch b t binding q = (t, Inl Unauthorized)"
proof -
  from assms revoke_makes_dead rotate_makes_dead
  have "dead_ref s' (hb_birth_id binding) (hb_attempt_id binding) (hb_grant_ref binding)" by metis
  from dead_ref_calls [OF run_dead_ref [OF this]] show ?thesis by (simp add: Let_def)
qed

definition sample_revocation :: HelperRevocationScope where
  "sample_revocation = \<lparr>hv_grant_ref = [12], hv_birth_id = [1], hv_attempt_id = ''att''\<rparr>"

lemma dead_grant_refused_forever_witness:
  "snd (record_retrieve_exchange sample_hash None
      (store_run sample_hash sample_mac (sample_run ((sample_setup @ sample_dispatch @ sample_handling) @ [Op_RevokeGrant sample_revocation]))
        [Op_Grant (sample_grant [17]), sample_terminal])
      (sample_exchange\<lparr>re_binding := sample_binding [12]\<rparr>)) = Inl Unauthorized"
proof -
  let ?s = "sample_run (sample_setup @ sample_dispatch @ sample_handling)"
  have r: "revoke_helper_grant ?s sample_revocation = (fst (revoke_helper_grant ?s sample_revocation), Inr IW_Recorded)"
    by (simp add: sample_revocation_def prod_eq_iff store_eval sample_defs Let_def tree_simps
        cong: try_in_weak_cong bind_res_weak_cong)
  have "hv_birth_id sample_revocation = hb_birth_id (sample_binding [12])
      \<and> hv_attempt_id sample_revocation = hb_attempt_id (sample_binding [12])
      \<and> hv_grant_ref sample_revocation = hb_grant_ref (sample_binding [12])"
    by (simp add: sample_revocation_def sample_binding_def)
  with r have "(\<exists>scope w. revoke_helper_grant ?s scope = (fst (revoke_helper_grant ?s sample_revocation), Inr w)
        \<and> hv_birth_id scope = hb_birth_id (sample_binding [12])
        \<and> hv_attempt_id scope = hb_attempt_id (sample_binding [12]) \<and> hv_grant_ref scope = hb_grant_ref (sample_binding [12]))" by blast
  from dead_grant_refused_forever [OF disjI1, OF this, of sample_hash sample_mac
      "[Op_Grant (sample_grant [17]), sample_terminal]" None sample_exchange]
  show ?thesis by (simp add: Let_def store_run_append del: RetrieveExchange.update_convs)
qed

section \<open>Replays\<close>

definition retrieve_recorded :: "FakePersist \<Rightarrow> bytes \<Rightarrow> PersistedRetrieveReplay \<Rightarrow> bool" where
  "retrieve_recorded s request_id row \<longleftrightarrow>
     bt_get (fp_retrieve_replays s) request_id = Some row \<and> bt_get (fp_ack_replays s) request_id = None"

lemma moves_retrieve_recorded:
  "store_moves b s s' \<Longrightarrow> retrieve_recorded s q row \<Longrightarrow> retrieve_recorded s' q row"
  by (induction rule: store_moves.induct)
    (auto simp: retrieve_recorded_def tree_simps update_helper_grant_def bind_turn_ref_def conclude_reservation_def
      split: option.splits)

lemma run_retrieve_recorded: "retrieve_recorded s q row \<Longrightarrow> retrieve_recorded (store_run b k s ops) q row"
  by (rule store_run_keeps [where b = b]) (use moves_retrieve_recorded in blast)+

lemma enforce_Inl: "enforce_unrevoked s binding = Inl e \<Longrightarrow> e = Unauthorized"
  by (auto simp: enforce_unrevoked_def bind_res_Inl_iff ok_or_Inl_iff)

lemma retrieve_again:
  assumes "retrieve_recorded s (re_request_id x) (retrieve_row b x result)"
    and "canonical_retrieve_body_digest b (canonical_binding_digest b (re_binding x)) (re_request_id x)
      = re_canonical_body_digest x"
  shows "record_retrieve_exchange b entropy s x =
    (s, if is_ok (authenticate_binding s (re_binding x) HO_Retrieve) \<and> enforce_unrevoked s (re_binding x) = Inr ()
        then Inr (IR_ExactReplay \<lparr>az_recorded = result,
          az_permit = mint_retrieve_permit b (re_binding x) (re_request_id x) result PP_ExactReplay\<rparr>)
        else Inl Unauthorized)"
proof (cases "authenticate_binding s (re_binding x) HO_Retrieve")
  case (Inl e)
  with authenticate_Inl [OF Inl] show ?thesis by (simp add: record_retrieve_exchange_def Let_def)
next
  case (Inr g)
  show ?thesis
  proof (cases "enforce_unrevoked s (re_binding x)")
    case (Inl e)
    with Inr enforce_Inl [OF Inl] show ?thesis by (simp add: record_retrieve_exchange_def Let_def)
  next
    case (Inr u)
    with \<open>authenticate_binding s (re_binding x) HO_Retrieve = Inr g\<close> assms show ?thesis
      by (simp add: record_retrieve_exchange_def Let_def retrieve_recorded_def bt_contains_def retrieve_row_def)
  qed
qed

text \<open>
  A retrieval is recorded once. Once a retrieve exchange was recorded, whatever operations
  follow, repeating it never records another: it answers with the same recorded result and a
  replay permit for the same retrieval as long as its grant authenticates and nothing it rests
  on was revoked, is refused as unauthorized otherwise, and changes nothing.
\<close>

theorem retrieve_recorded_once:
  assumes "record_retrieve_exchange b entropy s x = (s', Inr (IR_Recorded a))"
  shows "let t = store_run b k s' ops in
    record_retrieve_exchange b entropy' t x =
      (t, if is_ok (authenticate_binding t (re_binding x) HO_Retrieve) \<and> enforce_unrevoked t (re_binding x) = Inr ()
          then Inr (IR_ExactReplay (a\<lparr>az_permit := az_permit a\<lparr>mp_provenance := PP_ExactReplay\<rparr>\<rparr>))
          else Inl Unauthorized)"
proof -
  have o: "s' = with_retrieval s (retrieve_row b x (az_recorded a))" "bt_get (fp_ack_replays s) (re_request_id x) = None"
    "canonical_retrieve_body_digest b (canonical_binding_digest b (re_binding x)) (re_request_id x)
      = re_canonical_body_digest x"
    "az_permit a = mint_retrieve_permit b (re_binding x) (re_request_id x) (az_recorded a) PP_Fresh"
    using retrieve_outcome [where b = b and s = s and entropy = entropy and x = x] assms by auto
  then have "retrieve_recorded s' (re_request_id x) (retrieve_row b x (az_recorded a))"
    by (simp add: retrieve_recorded_def with_retrieval_def retrieve_row_def)
  from retrieve_again [OF run_retrieve_recorded [OF this] o(3)] o(4)
  show ?thesis by (simp add: Let_def mint_retrieve_permit_def)
qed

lemma retrieve_recorded_once_witness:
  "snd (record_retrieve_exchange sample_hash (Some [33])
      (sample_run (sample_setup @ sample_dispatch @ [Op_Grant (sample_grant [12]), Op_Retrieve (Some [22]) sample_exchange, sample_terminal]))
      sample_exchange)
    = Inr (IR_ExactReplay \<lparr>az_recorded = \<lparr>rv_retrieval_id = [22], rv_claim_payload_ref = [9], rv_newest_event_ref = ''e1'',
          rv_event_count = 1, rv_retrieved_at = 0\<rparr>,
        az_permit = \<lparr>mp_grant_ref = [12], mp_binding_digest = replicate 32 7, mp_request_id = [20], mp_retrieval_id = [22],
          mp_claim_digest = replicate 32 7, mp_payload_ref = [9], mp_provenance = PP_ExactReplay\<rparr>\<rparr>)"
proof -
  let ?s = "sample_run (sample_setup @ sample_dispatch @ [Op_Grant (sample_grant [12])])"
  have r: "record_retrieve_exchange sample_hash (Some [22]) ?s sample_exchange =
    (fst (record_retrieve_exchange sample_hash (Some [22]) ?s sample_exchange),
     Inr (IR_Recorded \<lparr>az_recorded = \<lparr>rv_retrieval_id = [22], rv_claim_payload_ref = [9], rv_newest_event_ref = ''e1'',
          rv_event_count = 1, rv_retrieved_at = 0\<rparr>,
        az_permit = \<lparr>mp_grant_ref = [12], mp_binding_digest = replicate 32 7, mp_request_id = [20], mp_retrieval_id = [22],
          mp_claim_digest = replicate 32 7, mp_payload_ref = [9], mp_provenance = PP_Fresh\<rparr>\<rparr>))"
    by (simp add: prod_eq_iff store_eval sample_defs Let_def tree_simps cong: try_in_weak_cong bind_res_weak_cong)
  let ?t = "sample_run (sample_setup @ sample_dispatch @ [Op_Grant (sample_grant [12]), Op_Retrieve (Some [22]) sample_exchange, sample_terminal])"
  have "is_ok (authenticate_binding ?t (re_binding sample_exchange) HO_Retrieve)"
    "enforce_unrevoked ?t (re_binding sample_exchange) = Inr ()"
    by (simp_all add: store_eval sample_defs Let_def tree_simps cong: try_in_weak_cong bind_res_weak_cong)
  with retrieve_recorded_once [OF r, of sample_mac "[sample_terminal]" "Some [33]"] show ?thesis
    by (simp add: Let_def store_run_append)
qed

section \<open>Materialization\<close>

lemma materialize_InrD:
  assumes "materialize_claimed_batch b s binding permit = Inr payload"
  shows "\<exists>c. claim_for_attempt s (hb_attempt_id binding) = Some c \<and> pc_claim_digest c = hb_claim_digest binding
    \<and> bt_get (fp_payloads s) (pc_payload_ref c) = Some payload"
  using assms authenticate_okD [of s binding HO_Retrieve]
  by (auto simp: materialize_claimed_batch_def result_simps)

text \<open>
  C16: what a helper reads is what was claimed. When a store that a run reached materializes a batch
  for a binding, the attempt of the binding has a claim with the binding's digest, the events are
  those of the claim's references in their order, and the claim digest recomputed over the claim
  and exactly this payload is the digest the binding carries, as long as the payload references
  of the claims are distinct.
\<close>

theorem materialized_batch_is_claimed:
  assumes "materialize_claimed_batch b (store_run b k (fake_persist_default key) ops) binding permit = Inr payload"
    and "payload_refs_distinct (store_run b k (fake_persist_default key) ops)"
  shows "\<exists>c. claim_for_attempt (store_run b k (fake_persist_default key) ops) (hb_attempt_id binding) = Some c
    \<and> map pv_event_ref (bp_events payload) = pc_event_refs c
    \<and> canonical_claim_digest b (pc_request_id c) (pc_arm_id c) (pc_generation c) (pc_signal_id c)
        (pc_event_refs c) payload (pc_coverage c) (pc_drain_witness c) = hb_claim_digest binding"
proof -
  let ?s = "store_run b k (fake_persist_default key) ops"
  from materialize_InrD [OF assms(1)] obtain c where c: "claim_for_attempt ?s (hb_attempt_id binding) = Some c"
    "pc_claim_digest c = hb_claim_digest binding" "bt_get (fp_payloads ?s) (pc_payload_ref c) = Some payload" by blast
  from run_payloads_backed [OF payloads_backed_default] assms(2) claim_for_attempt_Some [OF c(1)] c(3)
  have "claim_backed b c payload" unfolding payloads_backed_def by fastforce
  with c show ?thesis by (auto simp: claim_backed_def refs_match_def)
qed

lemma sample_distinct:
  "payload_refs_distinct (sample_run (sample_setup @ sample_dispatch @ sample_handling))"
  by (auto simp add: payload_refs_distinct_def store_eval sample_defs Let_def tree_simps
      cong: try_in_weak_cong bind_res_weak_cong split: if_splits)

definition sample_replay_permit :: ClaimMaterializationPermit where
  "sample_replay_permit = \<lparr>mp_grant_ref = [12], mp_binding_digest = replicate 32 7, mp_request_id = [20],
     mp_retrieval_id = [22], mp_claim_digest = replicate 32 7, mp_payload_ref = [9], mp_provenance = PP_ExactReplay\<rparr>"

lemma materialized_batch_is_claimed_witness:
  "\<exists>c. claim_for_attempt (sample_run (sample_setup @ sample_dispatch @ sample_handling)) ''att'' = Some c
    \<and> pc_event_refs c = [''e1'']"
proof -
  have "materialize_claimed_batch sample_hash (sample_run (sample_setup @ sample_dispatch @ sample_handling))
      (sample_binding [12]) sample_replay_permit
      = Inr \<lparr>bp_events = [sample_event_record ''e1''], bp_aggregate_body_bytes = 1\<rparr>"
    by (simp add: sample_replay_permit_def materialize_claimed_batch_def store_eval sample_defs Let_def tree_simps
        cong: try_in_weak_cong bind_res_weak_cong)
  from materialized_batch_is_claimed [OF this sample_distinct] show ?thesis
    by (auto simp: sample_binding_def sample_event_record_def)
qed

end
