(* ===== verification/Recovery_Properties.thy ===== *)
theory Recovery_Properties
  imports Store_Samples
begin

text \<open>
  What recovery guarantees: no native write is left in the air, no thread creation is left
  reserved, and recovering again changes nothing.
\<close>

section \<open>Settling interrupted writes\<close>

fun settled_evidence :: "NativeWriteEvidence \<Rightarrow> bool" where
  "settled_evidence WE_ProvenNotAccepted = True"
| "settled_evidence WE_Unknown = True"
| "settled_evidence _ = False"

lemma settle_noop: "settled_evidence (snd row) \<Longrightarrow> settle_interrupted s row = s"
  by (cases row; cases "snd row") auto

lemma settle_all_noop: "\<forall>row \<in> set rows. settled_evidence (snd row) \<Longrightarrow> fold (\<lambda>row s. settle_interrupted s row) rows s = s"
  by (induction rows arbitrary: s) (auto simp: settle_noop)

lemma settle_key:
  "bt_get (fp_turn_facts (settle_interrupted s (a, e))) a = None \<Longrightarrow>
   bt_get (fp_write_evidence s) a = Some e \<Longrightarrow>
   \<exists>e'. bt_get (fp_write_evidence (settle_interrupted s (a, e))) a = Some e' \<and> settled_evidence e'"
  by (cases e) auto

lemma settle_other:
  "a \<noteq> fst row \<Longrightarrow> bt_get (fp_turn_facts (settle_interrupted s row)) a = bt_get (fp_turn_facts s) a
     \<and> bt_get (fp_write_evidence (settle_interrupted s row)) a = bt_get (fp_write_evidence s) a"
  by (cases row; cases "snd row") (auto simp: tree_simps)

lemma settle_all_other:
  "a \<notin> fst ` set rows \<Longrightarrow>
   bt_get (fp_turn_facts (fold (\<lambda>row s. settle_interrupted s row) rows s)) a = bt_get (fp_turn_facts s) a
     \<and> bt_get (fp_write_evidence (fold (\<lambda>row s. settle_interrupted s row) rows s)) a = bt_get (fp_write_evidence s) a"
  by (induction rows arbitrary: s) (auto simp: settle_other)

lemma settle_all_settled:
  assumes "distinct (map fst rows)" and "\<forall>(a, e) \<in> set rows. bt_get (fp_write_evidence s) a = Some e"
    and "(a, e) \<in> set rows"
    and "bt_get (fp_turn_facts (fold (\<lambda>row s. settle_interrupted s row) rows s)) a = None"
  shows "\<exists>e'. bt_get (fp_write_evidence (fold (\<lambda>row s. settle_interrupted s row) rows s)) a = Some e' \<and> settled_evidence e'"
  using assms
proof (induction rows arbitrary: s)
  case Nil
  then show ?case by simp
next
  case (Cons row rows)
  have keep: "\<forall>(a', e') \<in> set rows. bt_get (fp_write_evidence (settle_interrupted s row)) a' = Some e'"
  proof clarify
    fix a' e'
    assume in': "(a', e') \<in> set rows"
    then have "a' \<in> fst ` set rows" by force
    moreover from Cons.prems(1) have "fst row \<notin> fst ` set rows" by simp
    ultimately have "a' \<noteq> fst row" by metis
    with in' Cons.prems(2) settle_other show "bt_get (fp_write_evidence (settle_interrupted s row)) a' = Some e'"
      by fastforce
  qed
  show ?case
  proof (cases "row = (a, e)")
    case True
    with Cons.prems(1) have "a \<notin> fst ` set rows" by auto
    with settle_all_other [OF this, of "settle_interrupted s row"] True Cons.prems(2, 4) settle_key [of s a e]
    show ?thesis by auto
  next
    case False
    with Cons.prems(3) have "(a, e) \<in> set rows" by simp
    from Cons.IH [OF _ keep this] Cons.prems show ?thesis by simp
  qed
qed

section \<open>Concluding unresolved reservations\<close>

lemma conclude_reservation_get:
  "bt_get (fp_reservations (conclude_reservation s a)) a' =
     (if a' = a then map_option (\<lambda>r. r\<lparr>nr_concluded := True\<rparr>) (bt_get (fp_reservations s) a)
      else bt_get (fp_reservations s) a')"
  by (auto simp: conclude_reservation_def tree_simps split: option.splits)

lemma conclude_unresolved_done:
  assumes "conclude_unresolved entropy s ids = (s', Inr ())"
  shows "(\<forall>a. bt_get (fp_write_evidence s') a =
      (if a \<in> set ids then Some WE_Unknown else bt_get (fp_write_evidence s) a))
    \<and> fp_turn_facts s' = fp_turn_facts s \<and> fp_ownership s' = fp_ownership s
    \<and> (\<forall>a r'. bt_get (fp_reservations s') a = Some r' \<longrightarrow>
        (\<exists>r. bt_get (fp_reservations s) a = Some r \<and> (nr_concluded r \<longrightarrow> nr_concluded r')))"
  using assms
proof (induction ids arbitrary: s)
  case Nil
  then show ?case by simp
next
  case (Cons a ids)
  then obtain ref where "entropy a = Some ref" by (cases "entropy a") auto
  with Cons.prems have run: "conclude_unresolved entropy (conclude_reservation
            (s\<lparr>fp_write_evidence := bt_insert a WE_Unknown (fp_write_evidence s),
               fp_write_evidence_refs := bt_insert a ref (fp_write_evidence_refs s)\<rparr>) a) ids = (s', Inr ())" by simp
  have own: "fp_ownership (conclude_reservation t a) = fp_ownership t" for t
    by (simp add: conclude_reservation_def split: option.splits)
  note ih = Cons.IH [OF run]
  have "\<exists>r. bt_get (fp_reservations s) a' = Some r \<and> (nr_concluded r \<longrightarrow> nr_concluded r')"
    if r': "bt_get (fp_reservations s') a' = Some r'" for a' r'
  proof -
    from ih r' obtain r1 where "bt_get (fp_reservations (conclude_reservation
            (s\<lparr>fp_write_evidence := bt_insert a WE_Unknown (fp_write_evidence s),
               fp_write_evidence_refs := bt_insert a ref (fp_write_evidence_refs s)\<rparr>) a)) a' = Some r1"
      "nr_concluded r1 \<longrightarrow> nr_concluded r'" by blast
    then show ?thesis by (auto simp: conclude_reservation_get split: if_splits)
  qed
  moreover have "bt_get (fp_write_evidence s') a' =
      (if a' \<in> set (a # ids) then Some WE_Unknown else bt_get (fp_write_evidence s) a')" for a'
    using ih by (simp add: tree_simps)
  ultimately show ?case using ih own by simp
qed

section \<open>Recovered stores\<close>

definition recovered :: "FakePersist \<Rightarrow> bool" where
  "recovered s \<longleftrightarrow>
     (\<forall>a r. bt_get (fp_reservations s) a = Some r \<longrightarrow> nr_concluded r \<or> bt_contains (fp_write_evidence s) a)
     \<and> (\<forall>a e. bt_get (fp_write_evidence s) a = Some e \<and> bt_get (fp_turn_facts s) a = None \<longrightarrow> settled_evidence e)
     \<and> (\<forall>i c. bt_get (fp_ownership s) i \<noteq> Some (OS_Reserved c))"

lemma interrupted_rows:
  "set (interrupted_facts s) = {(a, e). bt_get (fp_write_evidence s) a = Some e \<and> bt_get (fp_turn_facts s) a = None}"
  by (auto simp: interrupted_facts_def bt_entries_iff bt_contains_def)

lemma unresolved_mem:
  "a \<in> set (unresolved_reservations s) \<longleftrightarrow>
     (\<exists>r. bt_get (fp_reservations s) a = Some r \<and> \<not> nr_concluded r) \<and> \<not> bt_contains (fp_write_evidence s) a"
  by (force simp: unresolved_reservations_def bt_entries_iff)

lemma settle_all_facts_mono:
  "bt_get (fp_turn_facts s) a \<noteq> None \<Longrightarrow>
   bt_get (fp_turn_facts (fold (\<lambda>row s. settle_interrupted s row) rows s)) a \<noteq> None"
proof (induction rows arbitrary: s)
  case Nil
  then show ?case by simp
next
  case (Cons row rows)
  have "bt_get (fp_turn_facts (settle_interrupted s row)) a \<noteq> None"
    using Cons.prems by (cases row; cases "snd row") (auto simp: tree_simps)
  from Cons.IH [OF this] show ?case by simp
qed

lemma settle_ownership [simp]: "fp_ownership (settle_interrupted s row) = fp_ownership s"
  by (cases "(s, row)" rule: settle_interrupted.cases) auto

lemma settle_all_ownership: "fp_ownership (fold (\<lambda>row s. settle_interrupted s row) rows s) = fp_ownership s"
  by (induction rows arbitrary: s) auto

lemma settled_after:
  assumes "bt_get (fp_write_evidence (fold (\<lambda>row s. settle_interrupted s row) (interrupted_facts s) s)) a = Some e"
    and "bt_get (fp_turn_facts (fold (\<lambda>row s. settle_interrupted s row) (interrupted_facts s) s)) a = None"
  shows "settled_evidence e"
proof -
  have d: "distinct (map fst (interrupted_facts s))"
    by (simp add: interrupted_facts_def filter_fst_distinct bt_entries_fst_distinct)
  show ?thesis
  proof (cases "a \<in> fst ` set (interrupted_facts s)")
    case True
    then obtain e0 where "(a, e0) \<in> set (interrupted_facts s)" by force
    from settle_all_settled [OF d _ this assms(2)] assms(1) show ?thesis
      by (auto simp: interrupted_rows)
  next
    case False
    from settle_all_other [OF this, of s] assms have "bt_get (fp_write_evidence s) a = Some e" "bt_get (fp_turn_facts s) a = None"
      by simp_all
    with False show ?thesis by (force simp: interrupted_rows)
  qed
qed

lemma recovered_fixpoint:
  assumes "recovered s"
  shows "quarantine_reserved_ownership s = s"
    and "fold (\<lambda>row s. settle_interrupted s row) (interrupted_facts s) s = s" and "unresolved_reservations s = []"
proof -
  have "map_option quarantine (bt_get (fp_ownership s) i) = bt_get (fp_ownership s) i" for i
  proof (cases "bt_get (fp_ownership s) i")
    case (Some state)
    with assms show ?thesis unfolding recovered_def by (cases state) auto
  qed simp
  then have "bt_map (\<lambda>_. quarantine) (fp_ownership s) = fp_ownership s"
    by (intro bt_eqI) (simp add: bt_get_map)
  then show "quarantine_reserved_ownership s = s" by (simp add: quarantine_reserved_ownership_def)
  show "fold (\<lambda>row s. settle_interrupted s row) (interrupted_facts s) s = s"
    using assms by (intro settle_all_noop) (auto simp: interrupted_rows recovered_def)
  have "a \<notin> set (unresolved_reservations s)" for a
    using assms unfolding recovered_def unresolved_mem by blast
  then show "unresolved_reservations s = []" by (cases "unresolved_reservations s") auto
qed

lemma recovered_after:
  assumes "recover_authority_state b entropy s = (s', Inr sn)"
  shows "recovered s' \<and> \<not> helper_request_nonce_collision s' \<and> validate_recovered_coverage b s' = Inr () \<and> sn = snapshot_of s'"
proof -
  let ?s1 = "quarantine_reserved_ownership s"
  let ?s2 = "fold (\<lambda>row s. settle_interrupted s row) (interrupted_facts ?s1) ?s1"
  from assms have c: "conclude_unresolved entropy ?s2 (unresolved_reservations ?s2) = (s', Inr ())"
    and rest: "\<not> helper_request_nonce_collision s'" "validate_recovered_coverage b s' = Inr ()" "sn = snapshot_of s'"
    by (auto simp: recover_authority_state_def Let_def try_in_def split: prod.splits sum.splits if_splits)
  note done' = conclude_unresolved_done [OF c]
  have "nr_concluded r \<or> bt_contains (fp_write_evidence s') a" if r: "bt_get (fp_reservations s') a = Some r" for a r
  proof -
    from done' r obtain r0 where r0: "bt_get (fp_reservations ?s2) a = Some r0" "nr_concluded r0 \<longrightarrow> nr_concluded r" by blast
    show ?thesis
    proof (cases "a \<in> set (unresolved_reservations ?s2)")
      case True
      with done' show ?thesis by (simp add: bt_contains_def)
    next
      case False
      with r0 have "nr_concluded r0 \<or> bt_contains (fp_write_evidence ?s2) a" unfolding unresolved_mem by blast
      with r0 done' show ?thesis by (auto simp: bt_contains_def split: if_splits)
    qed
  qed
  moreover have "settled_evidence e" if "bt_get (fp_write_evidence s') a = Some e" "bt_get (fp_turn_facts s') a = None" for a e
    using that done' settled_after [of ?s1 a e] by (auto split: if_splits)
  moreover have "bt_get (fp_ownership s') i \<noteq> Some (OS_Reserved c)" for i c
  proof
    assume "bt_get (fp_ownership s') i = Some (OS_Reserved c)"
    with done' have "map_option quarantine (bt_get (fp_ownership s) i) = Some (OS_Reserved c)"
      by (simp add: settle_all_ownership quarantine_reserved_ownership_def bt_get_map)
    then obtain state where "quarantine state = OS_Reserved c" by auto
    then show False by (cases state) auto
  qed
  ultimately show ?thesis using rest unfolding recovered_def by blast
qed



end
