(* ===== verification/Authority.thy ===== *)
theory Authority
  imports Recovery Messages
begin

text \<open>
  The single-writer authority of one birth-bound managed controller,
  \<open>gearwit-host/src/authority.rs\<close>. The code is generic over a backend \<open>P: Persist\<close>; here the
  backend state is a type variable and its operations are a record of functions, which
  \<open>fake_port\<close> builds for \<open>FakePersist\<close>. A token that the code consumes once (a receipt, a
  prepared dispatch, a scope) is its value; entropy is an argument, \<open>None\<close> when the draw fails.
\<close>

section \<open>The backend\<close>

record 'p persist_port =
  ps_persist_arm :: "'p \<Rightarrow> PersistedArm \<Rightarrow> 'p \<times> (PersistError + unit)"
  ps_admit_claim :: "'p \<Rightarrow> ClaimAdmission \<Rightarrow> PersistedControllerAttachment
    \<Rightarrow> 'p \<times> (PersistError + AdmissionRecord)"
  ps_reserve_controller_birth :: "'p \<Rightarrow> PersistedControllerBirth \<Rightarrow> ThreadCreateReservation
    \<Rightarrow> 'p \<times> (PersistError + ReserveBirthOutcome)"
  ps_resolve_thread_create :: "'p \<Rightarrow> ThreadCreateCommit \<Rightarrow> 'p \<times> (PersistError + IdempotentWrite)"
  ps_thread_ownership_state :: "'p \<Rightarrow> bytes \<Rightarrow> PersistError + ThreadOwnershipState"
  ps_record_dispatch_prepared :: "'p \<Rightarrow> PreparedDispatchCommit \<Rightarrow> 'p \<times> (PersistError + IdempotentWrite)"
  ps_record_prewrite_conclusion :: "'p \<Rightarrow> PreWriteConclusionCommit \<Rightarrow> 'p \<times> (PersistError + IdempotentWrite)"
  ps_record_active_hold :: "'p \<Rightarrow> ActiveObservationProof \<Rightarrow> 'p \<times> (PersistError + IdempotentWrite)"
  ps_reserve_native_turn_write :: "'p \<Rightarrow> ValidatedIdlePermit \<Rightarrow> PersistedTurnCorrelation
    \<Rightarrow> 'p \<times> (PersistError + NativeWriteReservation)"
  ps_record_native_write_evidence :: "'p \<Rightarrow> NativeWriteEvidenceCommit \<Rightarrow> 'p \<times> (PersistError + IdempotentWrite)"
  ps_record_native_turn_fact :: "'p \<Rightarrow> NativeTurnFactCommit \<Rightarrow> 'p \<times> (PersistError + IdempotentWrite)"
  ps_record_reconciliation_fact :: "'p \<Rightarrow> ReconciliationScope \<Rightarrow> ReconciliationDisposition
    \<Rightarrow> 'p \<times> (PersistError + IdempotentWrite)"
  ps_revoke_controller_attachment :: "'p \<Rightarrow> ValidatedAttachmentScope \<Rightarrow> 'p \<times> (PersistError + IdempotentWrite)"
  ps_recover_authority_state :: "'p \<Rightarrow> 'p \<times> (PersistError + RecoverySnapshot)"

text \<open>
  \<open>impl Persist for FakePersist\<close>: \<open>payload_ref\<close> is what an admission would draw and
  \<open>evidence_ref\<close> what a recovery draws for each attempt it concludes.
\<close>

definition fake_port ::
  "(bytes \<Rightarrow> bytes) \<Rightarrow> (bytes \<Rightarrow> bytes \<Rightarrow> bytes) \<Rightarrow> bytes option \<Rightarrow> (string \<Rightarrow> bytes option)
    \<Rightarrow> FakePersist persist_port" where
  "fake_port blake3 keyed_blake3 payload_ref evidence_ref =
     \<lparr>ps_persist_arm = persist_arm,
      ps_admit_claim = admit_claim blake3 payload_ref,
      ps_reserve_controller_birth = reserve_controller_birth,
      ps_resolve_thread_create = resolve_thread_create,
      ps_thread_ownership_state = thread_ownership_state,
      ps_record_dispatch_prepared = record_dispatch_prepared,
      ps_record_prewrite_conclusion = record_prewrite_conclusion,
      ps_record_active_hold = record_active_hold keyed_blake3,
      ps_reserve_native_turn_write = reserve_native_turn_write,
      ps_record_native_write_evidence = record_native_write_evidence,
      ps_record_native_turn_fact = record_native_turn_fact,
      ps_record_reconciliation_fact = record_reconciliation_fact,
      ps_revoke_controller_attachment = revoke_controller_attachment,
      ps_recover_authority_state = recover_authority_state blake3 evidence_ref\<rparr>"

section \<open>Errors and requests\<close>

datatype AuthorityError =
  AE_UnknownArm | AE_NoOwnedController | AE_Conflict | AE_Unauthorized | AE_Storage
| AE_InvalidIdentifier | AE_Entropy | AE_ControllerProbe ControllerProbeError

fun authority_error_from :: "PersistError \<Rightarrow> AuthorityError" where
  "authority_error_from Conflict = AE_Conflict"
| "authority_error_from InvalidTransition = AE_Conflict"
| "authority_error_from Unauthorized = AE_Unauthorized"
| "authority_error_from PayloadUnavailable = AE_Storage"
| "authority_error_from StorageUnavailable = AE_Storage"

definition MAX_CLAIM_EVENTS :: nat where
  "MAX_CLAIM_EVENTS = 64"

definition IDLE_PERMIT_WINDOW :: int where
  "IDLE_PERMIT_WINDOW = seconds 5"

record ClaimRequest =
  cq_arm_id :: string
  cq_request_id :: string
  cq_signal_id :: string
  cq_events :: "ProviderEvent list"

record ManagedArmRegistration =
  mr_arm_id :: string
  mr_generation :: u64
  mr_seat_id :: string
  mr_coverage_until :: instant

text \<open>The \<open>map_err\<close> of every conversion of an identifier.\<close>

definition or_error :: "'e \<Rightarrow> 'd + 'a \<Rightarrow> 'e + 'a" where
  "or_error e r = (case r of Inl _ \<Rightarrow> Inl e | Inr x \<Rightarrow> Inr x)"

fun collect_claim_records ::
  "(string \<Rightarrow> instant option) \<Rightarrow> string bset \<Rightarrow> instant option \<Rightarrow> ProviderEvent list
    \<Rightarrow> AuthorityError + ProviderEventRecord list" where
  "collect_claim_records parse_time seen_refs previous [] = Inr []"
| "collect_claim_records parse_time seen_refs previous (event # events) =
     bind_res (or_error AE_InvalidIdentifier (event_record_try_from parse_time event)) (\<lambda>record'.
     case bs_insert (pv_event_ref record') seen_refs of (seen_refs, fresh) \<Rightarrow>
       if \<not> fresh then Inl AE_InvalidIdentifier
       else if (case previous of None \<Rightarrow> False | Some previous \<Rightarrow> pv_observed_at record' < previous)
       then Inl AE_Conflict
       else bind_res (collect_claim_records parse_time seen_refs (Some (pv_observed_at record')) events)
              (\<lambda>records. Inr (record' # records)))"

definition validated_claim_payload ::
  "(string \<Rightarrow> instant option) \<Rightarrow> ProviderEvent list \<Rightarrow> AuthorityError + string list \<times> BoundedClaimPayload"
where
  "validated_claim_payload parse_time events =
     (if events = [] \<or> length events > MAX_CLAIM_EVENTS then Inl AE_Conflict
      else bind_res (collect_claim_records parse_time bt_empty None events) (\<lambda>records.
        bind_res (or_error AE_Conflict (bounded_vec_try_from 1 64 (map pv_event_ref records))) (\<lambda>event_refs.
        bind_res (or_error AE_Conflict (claim_payload_try_from records)) (\<lambda>payload.
        Inr (event_refs, payload)))))"

section \<open>Tokens\<close>

record ControllerBirthReservation =
  bx_binding :: ControllerBirthBinding
  bx_create_attempt_id :: bytes

record QuarantinedBirthReservation =
  qb_birth_id :: bytes
  qb_create_attempt_id :: bytes

datatype CreateResolution =
  CR_Final IdempotentWrite
| CR_Unknown IdempotentWrite QuarantinedBirthReservation

record AdmissionReceipt =
  ax_attempt_id :: string

record AdmissionResult =
  ad_outcome :: AdmissionOutcome
  ad_attempt_id :: string
  ad_receipt :: "AdmissionReceipt option"

record PreparedDispatch =
  pq_attachment :: PersistedControllerAttachment
  pq_correlation :: PersistedTurnCorrelation
  pq_expected_probe_id :: bytes

record AuthorizedNativeWrite =
  aw_prepared :: PreparedDispatch
  aw_lane :: ControllerIdleGuard
  aw_command :: ControllerCommand

datatype ProbeAuthorization =
  PA_Ready AuthorizedNativeWrite
| PA_HeldBeforeNativeWrite
| PA_IdleStateUnproven

datatype ReconciliationPhase =
  RP_Reconciling
| RP_Observing ObservationScope
| RP_Closed

record ExactObservationRecord =
  xo_write :: IdempotentWrite
  xo_reconciliation :: "ReconciliationScope option"

record NativeWriteConclusion =
  cn_disposition :: NativeWriteDisposition
  cn_observation_scope :: "ObservationScope option"
  cn_reconciliation_scope :: "ReconciliationScope option"

record AuthorityRecovery =
  ay_snapshot :: RecoverySnapshot
  ay_observation_scopes :: "ObservationScope list"
  ay_reconciliation_scopes :: "ReconciliationScope list"

section \<open>The authority\<close>

record 'p DaemonAuthority =
  au_persist :: 'p
  au_arms :: "(string, PersistedArm) btree"
  au_births :: "(bytes, PersistedControllerBirth) btree"
  au_ownership :: "(bytes, ThreadOwnershipState) btree"
  au_claims :: "(string, PersistedClaimRecord) btree"
  au_attachments :: "(string, PersistedControllerAttachment) btree"
  au_attempt_seq :: u64
  au_now :: instant

definition daemon_authority_new :: "'p \<Rightarrow> instant \<Rightarrow> 'p DaemonAuthority" where
  "daemon_authority_new persist now =
     \<lparr>au_persist = persist, au_arms = bt_empty, au_births = bt_empty, au_ownership = bt_empty,
      au_claims = bt_empty, au_attachments = bt_empty, au_attempt_seq = 0, au_now = now\<rparr>"

definition authority_set_now :: "'p DaemonAuthority \<Rightarrow> instant \<Rightarrow> 'p DaemonAuthority" where
  "authority_set_now a now = a\<lparr>au_now := now\<rparr>"

text \<open>A call of the backend followed by \<open>?\<close>, with \<open>From<PersistError>\<close>.\<close>

definition on_persist ::
  "'p DaemonAuthority \<Rightarrow> ('p \<Rightarrow> 'p \<times> (PersistError + 'a))
    \<Rightarrow> ('p DaemonAuthority \<Rightarrow> 'a \<Rightarrow> 'p DaemonAuthority \<times> (AuthorityError + 'b))
    \<Rightarrow> 'p DaemonAuthority \<times> (AuthorityError + 'b)" where
  "on_persist a call f =
     (case call (au_persist a) of
        (p, Inl e) \<Rightarrow> (a\<lparr>au_persist := p\<rparr>, Inl (authority_error_from e))
      | (p, Inr x) \<Rightarrow> f (a\<lparr>au_persist := p\<rparr>) x)"

lemma on_persist_ok_iff [result_simps]:
  "on_persist a call f = (a', Inr y) \<longleftrightarrow>
    (\<exists>p x. call (au_persist a) = (p, Inr x) \<and> f (a\<lparr>au_persist := p\<rparr>) x = (a', Inr y))"
  by (auto simp: on_persist_def split: prod.splits sum.splits)

section \<open>Arms and controller births\<close>

definition register_managed_arm ::
  "'p persist_port \<Rightarrow> 'p DaemonAuthority \<Rightarrow> ManagedArmRegistration
    \<Rightarrow> 'p DaemonAuthority \<times> (AuthorityError + unit)" where
  "register_managed_arm port a arm =
     try_in a (or_error AE_InvalidIdentifier (bounded_id_new (mr_arm_id arm))) (\<lambda>arm_id.
     try_in a (or_error AE_InvalidIdentifier (bounded_id_new (mr_seat_id arm))) (\<lambda>seat_id.
     let record' = \<lparr>pm_arm_id = arm_id, pm_generation = mr_generation arm, pm_seat_id = seat_id,
           pm_capability = HandleClaimedSignal, pm_coverage_until = mr_coverage_until arm\<rparr> in
     on_persist a (\<lambda>p. ps_persist_arm port p record') (\<lambda>a _.
     (a\<lparr>au_arms := bt_insert arm_id record' (au_arms a)\<rparr>, Inr ()))))"

definition authority_reserve_birth ::
  "'p persist_port \<Rightarrow> bytes option \<Rightarrow> bytes option \<Rightarrow> bytes option \<Rightarrow> 'p DaemonAuthority \<Rightarrow> string
    \<Rightarrow> 'p DaemonAuthority \<times> (AuthorityError + ControllerBirthReservation)" where
  "authority_reserve_birth port birth_draw create_draw verifier_draw a arm_id =
     try_in a (or_error AE_InvalidIdentifier (bounded_id_new arm_id)) (\<lambda>arm_id.
     try_in a (ok_or (bt_get (au_arms a) arm_id) AE_UnknownArm) (\<lambda>arm.
     if pm_coverage_until arm \<le> au_now a then (a, Inl AE_Unauthorized)
     else if list_ex (\<lambda>birth. br_arm_id birth = arm_id \<and> br_generation birth = pm_generation arm)
         (bt_values (au_births a))
     then (a, Inl AE_Conflict)
     else
     try_in a (ok_or birth_draw AE_Entropy) (\<lambda>birth_id.
     try_in a (ok_or create_draw AE_Entropy) (\<lambda>create_attempt_id.
     try_in a (ok_or verifier_draw AE_Entropy) (\<lambda>verifier_ref.
     let birth = \<lparr>br_birth_id = birth_id, br_seat_id = pm_seat_id arm, br_arm_id = pm_arm_id arm,
           br_generation = pm_generation arm, br_capability = pm_capability arm,
           br_lease_until = pm_coverage_until arm, br_verifier_ref = verifier_ref,
           br_created_at = au_now a, br_revoked = False\<rparr>;
         create = \<lparr>tr_birth_id = birth_id, tr_create_attempt_id = create_attempt_id,
           tr_reserved_at = au_now a\<rparr> in
     on_persist a (\<lambda>p. ps_reserve_controller_birth port p birth create) (\<lambda>a outcome.
     if outcome \<noteq> RB_Reserved then (a, Inl AE_Conflict)
     else
       let binding = \<lparr>cb_birth_id = birth_id, cb_seat_id = br_seat_id birth,
             cb_arm_id = br_arm_id birth, cb_generation = br_generation birth,
             cb_capability = br_capability birth, cb_lease_until = br_lease_until birth,
             cb_verifier_ref = verifier_ref\<rparr> in
       (a\<lparr>au_births := bt_insert birth_id birth (au_births a),
          au_ownership := bt_insert birth_id (OS_Reserved create_attempt_id) (au_ownership a)\<rparr>,
        Inr \<lparr>bx_binding = binding, bx_create_attempt_id = create_attempt_id\<rparr>)))))))"

definition authority_resolve_create ::
  "'p persist_port \<Rightarrow> bytes option \<Rightarrow> 'p DaemonAuthority \<Rightarrow> ControllerBirthReservation
    \<Rightarrow> ThreadCreateResolution \<Rightarrow> 'p DaemonAuthority \<times> (AuthorityError + CreateResolution)" where
  "authority_resolve_create port draw a reservation resolution =
     try_in a (ok_or draw AE_Entropy) (\<lambda>evidence_ref.
     let birth_id = cb_birth_id (bx_binding reservation);
         create_attempt_id = bx_create_attempt_id reservation in
     on_persist a (\<lambda>p. ps_resolve_thread_create port p
         \<lparr>tm_birth_id = birth_id, tm_create_attempt_id = create_attempt_id,
          tm_resolution = resolution, tm_evidence_ref = evidence_ref\<rparr>) (\<lambda>a result.
     on_persist a (\<lambda>p. (p, ps_thread_ownership_state port p birth_id)) (\<lambda>a state.
     (a\<lparr>au_ownership := bt_insert birth_id state (au_ownership a)\<rparr>,
      Inr (if resolution = TR_Unknown
        then CR_Unknown result \<lparr>qb_birth_id = birth_id, qb_create_attempt_id = create_attempt_id\<rparr>
        else CR_Final result)))))"

definition authority_resolve_quarantined ::
  "'p persist_port \<Rightarrow> bytes option \<Rightarrow> 'p DaemonAuthority \<Rightarrow> QuarantinedBirthReservation
    \<Rightarrow> ThreadCreateResolution \<Rightarrow> 'p DaemonAuthority \<times> (AuthorityError + IdempotentWrite)" where
  "authority_resolve_quarantined port draw a reservation resolution =
     (if resolution = TR_Unknown then (a, Inl AE_Conflict)
      else try_in a (ok_or draw AE_Entropy) (\<lambda>evidence_ref.
      on_persist a (\<lambda>p. ps_resolve_thread_create port p
          \<lparr>tm_birth_id = qb_birth_id reservation,
           tm_create_attempt_id = qb_create_attempt_id reservation,
           tm_resolution = resolution, tm_evidence_ref = evidence_ref\<rparr>) (\<lambda>a result.
      on_persist a (\<lambda>p. (p, ps_thread_ownership_state port p (qb_birth_id reservation))) (\<lambda>a state.
      (a\<lparr>au_ownership := bt_insert (qb_birth_id reservation) state (au_ownership a)\<rparr>, Inr result)))))"

section \<open>Claims\<close>

definition attempt_name :: "u64 \<Rightarrow> string" where
  "attempt_name attempt_seq = ''attempt-'' @ decimal (unat attempt_seq)"

definition owned_birth_for :: "'p DaemonAuthority \<Rightarrow> string \<Rightarrow> PersistedArm \<Rightarrow> bytes option" where
  "owned_birth_for a arm_id arm =
     map_option fst (List.find (\<lambda>(birth_id, birth).
       br_arm_id birth = arm_id
       \<and> br_generation birth = pm_generation arm
       \<and> \<not> br_revoked birth
       \<and> br_lease_until birth > au_now a
       \<and> (case bt_get (au_ownership a) birth_id of Some (OS_Owned _ _) \<Rightarrow> True | _ \<Rightarrow> False))
       (bt_entries (au_births a)))"

definition authority_admit_claim ::
  "'p persist_port \<Rightarrow> (bytes \<Rightarrow> bytes) \<Rightarrow> (string \<Rightarrow> instant option) \<Rightarrow> bytes option
    \<Rightarrow> 'p DaemonAuthority \<Rightarrow> ClaimRequest \<Rightarrow> 'p DaemonAuthority \<times> (AuthorityError + AdmissionResult)" where
  "authority_admit_claim port blake3 parse_time verifier_draw a request =
     try_in a (validated_claim_payload parse_time (cq_events request)) (\<lambda>(event_refs, payload).
     try_in a (or_error AE_InvalidIdentifier (bounded_id_new (cq_arm_id request))) (\<lambda>arm_id.
     try_in a (ok_or (bt_get (au_arms a) arm_id) AE_UnknownArm) (\<lambda>arm.
     try_in a (ok_or (owned_birth_for a arm_id arm) AE_NoOwnedController) (\<lambda>birth_id.
     try_in a (or_error AE_InvalidIdentifier (bounded_id_new (cq_request_id request))) (\<lambda>request_id.
     try_in a (or_error AE_InvalidIdentifier (bounded_id_new (cq_signal_id request))) (\<lambda>signal_id.
     try_in a (ok_or (checked_add (au_attempt_seq a) 1) AE_Conflict) (\<lambda>attempt_seq.
     try_in a (or_error AE_InvalidIdentifier (bounded_id_new (attempt_name attempt_seq))) (\<lambda>attempt_id.
     try_in a (ok_or verifier_draw AE_Entropy) (\<lambda>verifier_ref.
     let attachment = \<lparr>pt_attempt_id = attempt_id, pt_birth_id = birth_id, pt_seat_id = pm_seat_id arm,
           pt_arm_id = pm_arm_id arm, pt_generation = pm_generation arm,
           pt_capability = HandleClaimedSignal, pt_lease_until = pm_coverage_until arm,
           pt_verifier_ref = verifier_ref, pt_revoked = False\<rparr>;
         claim_digest = canonical_claim_digest blake3 request_id (pm_arm_id arm) (pm_generation arm)
           signal_id event_refs payload None None;
         admission = \<lparr>cl_request_id = request_id, cl_arm_id = pm_arm_id arm,
           cl_generation = pm_generation arm, cl_signal_id = signal_id, cl_event_refs = event_refs,
           cl_claim_digest = claim_digest, cl_payload = payload, cl_claimed_at = au_now a,
           cl_coverage = None, cl_drain_witness = None\<rparr> in
     on_persist a (\<lambda>p. ps_admit_claim port p admission attachment) (\<lambda>a record'.
     if am_outcome record' = AO_ExactReplay
     then (a, Inr \<lparr>ad_outcome = AO_ExactReplay, ad_attempt_id = am_attempt_id record', ad_receipt = None\<rparr>)
     else
       let claim = \<lparr>pc_attempt_id = attempt_id, pc_request_id = request_id, pc_arm_id = pm_arm_id arm,
             pc_generation = pm_generation arm, pc_signal_id = signal_id, pc_event_refs = event_refs,
             pc_claim_digest = claim_digest, pc_payload_ref = am_payload_ref record',
             pc_claimed_at = cl_claimed_at admission, pc_coverage = None, pc_drain_witness = None\<rparr> in
       (a\<lparr>au_attempt_seq := attempt_seq,
          au_claims := bt_insert attempt_id claim (au_claims a),
          au_attachments := bt_insert attempt_id attachment (au_attachments a)\<rparr>,
        Inr \<lparr>ad_outcome = AO_Admitted, ad_attempt_id = attempt_id,
             ad_receipt = Some \<lparr>ax_attempt_id = attempt_id\<rparr>\<rparr>)))))))))))"

section \<open>Checks\<close>

definition validate_probe_binding ::
  "'p DaemonAuthority \<Rightarrow> PreparedDispatch \<Rightarrow> ProbeBinding \<Rightarrow> bytes \<Rightarrow> instant \<Rightarrow> AuthorityError + unit" where
  "validate_probe_binding a prepared binding probe_id observed_at =
     (let attached = pb_attachment binding; correlation = pq_correlation prepared;
          attachment = pq_attachment prepared in
      ensure (\<not> (ca_attempt_id attached \<noteq> tc_attempt_id correlation
         \<or> pb_signal_id binding \<noteq> tc_signal_id correlation
         \<or> ca_birth_id attached \<noteq> tc_birth_id correlation
         \<or> pb_thread_ref binding \<noteq> tc_thread_ref correlation
         \<or> pb_challenge_id binding \<noteq> pq_expected_probe_id prepared
         \<or> probe_id \<noteq> pq_expected_probe_id prepared
         \<or> ca_arm_id attached \<noteq> pt_arm_id attachment
         \<or> ca_generation attached \<noteq> pt_generation attachment
         \<or> ca_seat_id attached \<noteq> pt_seat_id attachment
         \<or> ca_capability attached \<noteq> pt_capability attachment
         \<or> ca_lease_until attached \<noteq> pt_lease_until attachment
         \<or> ca_verifier_ref attached \<noteq> pt_verifier_ref attachment
         \<or> observed_at > au_now a
         \<or> au_now a - observed_at \<ge> IDLE_PERMIT_WINDOW)) AE_Unauthorized)"

definition validate_active_proof ::
  "'p DaemonAuthority \<Rightarrow> PreparedDispatch \<Rightarrow> ActiveObservationProof \<Rightarrow> AuthorityError + unit" where
  "validate_active_proof a prepared proof' =
     (let correlation = pq_correlation prepared; attachment = pq_attachment prepared in
      bind_res (ok_or (bt_get (au_ownership a) (ao_birth_id proof')) AE_Unauthorized) (\<lambda>owned.
      ensure (\<not> (ao_attempt_id proof' \<noteq> tc_attempt_id correlation
         \<or> ao_signal_id proof' \<noteq> tc_signal_id correlation
         \<or> ao_birth_id proof' \<noteq> tc_birth_id correlation
         \<or> ao_thread_ref proof' \<noteq> tc_thread_ref correlation
         \<or> ao_probe_id proof' \<noteq> pq_expected_probe_id prepared
         \<or> ao_seat_id proof' \<noteq> pt_seat_id attachment
         \<or> ao_arm_id proof' \<noteq> pt_arm_id attachment
         \<or> ao_generation proof' \<noteq> pt_generation attachment
         \<or> ao_capability proof' \<noteq> pt_capability attachment
         \<or> ao_attachment_verifier_ref proof' \<noteq> pt_verifier_ref attachment
         \<or> ao_lease_until proof' \<noteq> pt_lease_until attachment
         \<or> ep_birth_id (ao_mutation_epoch proof') \<noteq> ao_birth_id proof'
         \<or> ao_observed_at proof' > au_now a
         \<or> au_now a - ao_observed_at proof' \<ge> IDLE_PERMIT_WINDOW
         \<or> ao_lease_until proof' \<le> au_now a
         \<or> ao_producer_version proof' \<noteq> ''codex-cli 0.152.1''
         \<or> ao_producer_dialect proof' \<noteq> ''thread/read-v2''
         \<or> \<not> (case owned of
               OS_Owned create_attempt_id thread_ref \<Rightarrow>
                 create_attempt_id = ao_create_attempt_id proof' \<and> thread_ref = ao_thread_ref proof'
             | _ \<Rightarrow> False))) AE_Unauthorized))"

definition validate_attachment ::
  "'p DaemonAuthority \<Rightarrow> PersistedControllerAttachment \<Rightarrow> AuthorityError + unit" where
  "validate_attachment a attachment =
     bind_res (ok_or (bt_get (au_attachments a) (pt_attempt_id attachment)) AE_Unauthorized) (\<lambda>current.
     bind_res (ok_or (bt_get (au_births a) (pt_birth_id attachment)) AE_Unauthorized) (\<lambda>birth.
     bind_res (ok_or (bt_get (au_arms a) (pt_arm_id attachment)) AE_UnknownArm) (\<lambda>arm.
     ensure (\<not> (current \<noteq> attachment
         \<or> pt_revoked current
         \<or> pt_revoked attachment
         \<or> br_revoked birth
         \<or> pt_lease_until attachment \<le> au_now a
         \<or> br_lease_until birth \<le> au_now a
         \<or> pt_seat_id attachment \<noteq> br_seat_id birth
         \<or> pt_arm_id attachment \<noteq> br_arm_id birth
         \<or> pt_generation attachment \<noteq> br_generation birth
         \<or> pt_generation attachment \<noteq> pm_generation arm
         \<or> pt_capability attachment \<noteq> HandleClaimedSignal)) AE_Unauthorized)))"

section \<open>Dispatch\<close>

definition controller_attachment :: "PersistedControllerAttachment \<Rightarrow> ControllerAttachment" where
  "controller_attachment attachment =
     \<lparr>ca_attempt_id = pt_attempt_id attachment, ca_birth_id = pt_birth_id attachment,
      ca_arm_id = pt_arm_id attachment, ca_generation = pt_generation attachment,
      ca_seat_id = pt_seat_id attachment, ca_capability = pt_capability attachment,
      ca_lease_until = pt_lease_until attachment, ca_verifier_ref = pt_verifier_ref attachment\<rparr>"

text \<open>An \<open>IdleProbeScope\<close> is the \<open>ProbeBinding\<close> it wraps.\<close>

definition prepare_handle_claimed_signal ::
  "'p persist_port \<Rightarrow> bytes option \<Rightarrow> bytes option \<Rightarrow> 'p DaemonAuthority \<Rightarrow> AdmissionReceipt
    \<Rightarrow> 'p DaemonAuthority \<times> (AuthorityError + PreparedDispatch \<times> ProbeBinding)" where
  "prepare_handle_claimed_signal port write_draw probe_draw a receipt =
     try_in a (ok_or (bt_get (au_claims a) (ax_attempt_id receipt)) AE_Conflict) (\<lambda>claim.
     try_in a (ok_or (bt_get (au_attachments a) (ax_attempt_id receipt)) AE_Unauthorized) (\<lambda>attachment.
     try_in a (validate_attachment a attachment) (\<lambda>_.
     try_in a (case bt_get (au_ownership a) (pt_birth_id attachment) of
         Some (OS_Owned _ thread_ref) \<Rightarrow> Inr thread_ref
       | _ \<Rightarrow> Inl AE_NoOwnedController) (\<lambda>thread_ref.
     try_in a (ok_or write_draw AE_Entropy) (\<lambda>turn_write_id.
     let correlation = \<lparr>tc_attempt_id = ax_attempt_id receipt, tc_signal_id = pc_signal_id claim,
           tc_birth_id = pt_birth_id attachment, tc_thread_ref = thread_ref,
           tc_turn_write_id = turn_write_id, tc_turn_ref = None\<rparr> in
     on_persist a (\<lambda>p. ps_record_dispatch_prepared port p \<lparr>pd_correlation = correlation\<rparr>) (\<lambda>a _.
     try_in a (ok_or probe_draw AE_Entropy) (\<lambda>expected_probe_id.
     (a, Inr (\<lparr>pq_attachment = attachment, pq_correlation = correlation,
             pq_expected_probe_id = expected_probe_id\<rparr>,
           \<lparr>pb_attachment = controller_attachment attachment, pb_signal_id = tc_signal_id correlation,
            pb_thread_ref = thread_ref, pb_challenge_id = expected_probe_id\<rparr>)))))))))"

text \<open>The permit an idle probe earns: it ends with the idle window or the lease, whichever is first.\<close>

definition idle_permit ::
  "PreparedDispatch \<Rightarrow> NativeMutationEpoch \<Rightarrow> bytes \<Rightarrow> instant \<Rightarrow> ValidatedIdlePermit" where
  "idle_permit prepared epoch probe_id observed_at =
     (let correlation = pq_correlation prepared; attachment = pq_attachment prepared in
      \<lparr>vp_attempt_id = tc_attempt_id correlation, vp_signal_id = tc_signal_id correlation,
       vp_birth_id = tc_birth_id correlation, vp_thread_ref = tc_thread_ref correlation,
       vp_arm_id = pt_arm_id attachment, vp_generation = pt_generation attachment,
       vp_capability = pt_capability attachment, vp_verifier_ref = pt_verifier_ref attachment,
       vp_mutation_epoch = epoch, vp_probe_id = probe_id, vp_observed_at = observed_at,
       vp_valid_until = min (observed_at + IDLE_PERMIT_WINDOW) (pt_lease_until attachment)\<rparr>)"

definition authority_authorize_probe ::
  "'p persist_port \<Rightarrow> 'p DaemonAuthority \<Rightarrow> PreparedDispatch \<Rightarrow> (ControllerProbeError + IdleProbeResult)
    \<Rightarrow> 'p DaemonAuthority \<times> (AuthorityError + ProbeAuthorization)" where
  "authority_authorize_probe port a prepared result =
     (let correlation = pq_correlation prepared in
      try_in a (validate_attachment a (pq_attachment prepared)) (\<lambda>_.
      try_in a (case result of Inl e \<Rightarrow> Inl (AE_ControllerProbe e) | Inr result \<Rightarrow> Inr result) (\<lambda>result.
      case result of
        Probe_Active proof' \<Rightarrow>
          try_in a (validate_active_proof a prepared proof') (\<lambda>_.
          on_persist a (\<lambda>p. ps_record_active_hold port p proof') (\<lambda>a _.
          (a, Inr PA_HeldBeforeNativeWrite)))
      | Probe_Unproven (Obs_Unproven binding probe_id observed_at) \<Rightarrow>
          try_in a (validate_probe_binding a prepared binding probe_id observed_at) (\<lambda>_.
          on_persist a (\<lambda>p. ps_record_prewrite_conclusion port p
              \<lparr>wc_attempt_id = tc_attempt_id correlation, wc_signal_id = tc_signal_id correlation,
               wc_conclusion = NW_IdleStateUnproven, wc_recorded_at = observed_at\<rparr>) (\<lambda>a _.
          (a, Inr PA_IdleStateUnproven)))
      | Probe_Idle (Obs_Idle binding probe_id epoch observed_at) lane \<Rightarrow>
          try_in a (validate_probe_binding a prepared binding probe_id observed_at) (\<lambda>_.
          if ig_probe_id lane \<noteq> probe_id \<or> ig_epoch lane \<noteq> epoch
             \<or> ep_birth_id epoch \<noteq> tc_birth_id correlation
          then (a, Inl AE_Unauthorized)
          else
            on_persist a (\<lambda>p. ps_reserve_native_turn_write port p
                (idle_permit prepared epoch probe_id observed_at) correlation) (\<lambda>a reservation.
            (a, Inr (PA_Ready
              \<lparr>aw_prepared = prepared, aw_lane = lane,
               aw_command = command_from_reservation (controller_attachment (pq_attachment prepared))
                 \<lparr>sg_signal_id = tc_signal_id correlation\<rparr> reservation\<rparr>))))
      | _ \<Rightarrow> (a, Inl AE_Unauthorized))))"

text \<open>What a granted write took: the checks that passed and the reservation that was made.\<close>

lemma authorize_ready_elim:
  assumes "authority_authorize_probe port a prepared result = (a', Inr (PA_Ready authorized))"
  obtains binding probe_id epoch observed_at p reservation where
    "result = Inr (Probe_Idle (Obs_Idle binding probe_id epoch observed_at) (aw_lane authorized))"
    "validate_attachment a (pq_attachment prepared) = Inr ()"
    "validate_probe_binding a prepared binding probe_id observed_at = Inr ()"
    "aw_lane authorized = \<lparr>ig_probe_id = probe_id, ig_epoch = epoch\<rparr>"
    "ep_birth_id epoch = tc_birth_id (pq_correlation prepared)"
    "ps_reserve_native_turn_write port (au_persist a) (idle_permit prepared epoch probe_id observed_at)
       (pq_correlation prepared) = (p, Inr reservation)"
    "a' = a\<lparr>au_persist := p\<rparr>"
    "aw_prepared authorized = prepared"
    "aw_command authorized = command_from_reservation (controller_attachment (pq_attachment prepared))
       \<lparr>sg_signal_id = tc_signal_id (pq_correlation prepared)\<rparr> reservation"
proof -
  obtain binding probe_id epoch observed_at lane where
      shape: "result = Inr (Probe_Idle (Obs_Idle binding probe_id epoch observed_at) lane)"
  proof (cases result)
    case (Inr probed)
    with assms that show thesis
    proof (cases probed)
      case (Probe_Idle observation lane)
      with assms Inr that show thesis
        by (cases observation) (auto simp: authority_authorize_probe_def Let_def result_simps)
    next
      case (Probe_Active proof')
      with assms Inr show thesis by (auto simp: authority_authorize_probe_def Let_def result_simps)
    next
      case (Probe_Unproven observation)
      with assms Inr show thesis
        by (cases observation) (auto simp: authority_authorize_probe_def Let_def result_simps)
    qed
  qed (use assms in \<open>auto simp: authority_authorize_probe_def Let_def result_simps\<close>)
  with assms that show thesis
    by (cases lane) (auto simp: authority_authorize_probe_def Let_def result_simps split: if_splits)
qed

section \<open>After the native write\<close>

fun write_evidence_of :: "bytes \<Rightarrow> NativeWriteDisposition \<Rightarrow> NativeWriteEvidence option" where
  "write_evidence_of write_id WD_ProvenNotAccepted = Some WE_ProvenNotAccepted"
| "write_evidence_of write_id (WD_Accepted _) = Some (WE_WriterAccepted write_id)"
| "write_evidence_of write_id (WD_ExactResponse fact') = Some (WE_ExactResponse fact')"
| "write_evidence_of write_id WD_Unknown = Some WE_Unknown"
| "write_evidence_of write_id (WD_IdleEpochInvalidated _ _ _) = None"

fun immediate_fact :: "NativeWriteDisposition \<Rightarrow> NativeTurnFact option" where
  "immediate_fact (WD_Accepted turn_ref) = Some (NF_Accepted turn_ref)"
| "immediate_fact (WD_ExactResponse fact') = Some fact'"
| "immediate_fact _ = None"

fun bind_disposition :: "NativeWriteDisposition \<Rightarrow> PersistedTurnCorrelation \<Rightarrow> PersistedTurnCorrelation" where
  "bind_disposition (WD_Accepted turn_ref) correlation = correlation\<lparr>tc_turn_ref := Some turn_ref\<rparr>"
| "bind_disposition (WD_ExactResponse fact') correlation =
     (case fact_turn_ref fact' of
        Some turn_ref \<Rightarrow> correlation\<lparr>tc_turn_ref := Some turn_ref\<rparr>
      | None \<Rightarrow> correlation)"
| "bind_disposition _ correlation = correlation"

definition observed_disposition :: "NativeWriteDisposition \<Rightarrow> bool" where
  "observed_disposition disposition =
     (case disposition of WD_Accepted _ \<Rightarrow> True | WD_ExactResponse _ \<Rightarrow> True | _ \<Rightarrow> False)"

text \<open>\<open>unreachable!()\<close> is the branch \<open>None\<close> of \<open>write_evidence_of\<close>, which the early return excludes.\<close>

definition authority_conclude_write ::
  "'p persist_port \<Rightarrow> bytes option \<Rightarrow> bytes option \<Rightarrow> 'p DaemonAuthority \<Rightarrow> PreparedDispatch
    \<Rightarrow> (ControllerWriteError + NativeWriteDisposition)
    \<Rightarrow> 'p DaemonAuthority \<times> (AuthorityError + NativeWriteConclusion)" where
  "authority_conclude_write port evidence_draw fact_draw a prepared disposition =
     (let prior = pq_correlation prepared in
      try_in a (or_error AE_Unauthorized disposition) (\<lambda>disposition.
      case disposition of
        WD_IdleEpochInvalidated probe_id expected_epoch observed_epoch \<Rightarrow>
          on_persist a (\<lambda>p. ps_record_prewrite_conclusion port p
              \<lparr>wc_attempt_id = tc_attempt_id prior, wc_signal_id = tc_signal_id prior,
               wc_conclusion = NW_IdleEpochInvalidated probe_id expected_epoch observed_epoch,
               wc_recorded_at = au_now a\<rparr>) (\<lambda>a _.
          (a, Inr \<lparr>cn_disposition = disposition, cn_observation_scope = None,
                cn_reconciliation_scope = None\<rparr>))
      | _ \<Rightarrow>
          let evidence = the (write_evidence_of (tc_turn_write_id prior) disposition) in
          try_in a (ok_or evidence_draw AE_Entropy) (\<lambda>evidence_ref.
          on_persist a (\<lambda>p. ps_record_native_write_evidence port p
              \<lparr>ec_correlation = prior, ec_evidence = evidence, ec_evidence_ref = evidence_ref\<rparr>) (\<lambda>a _.
          let correlation = bind_disposition disposition prior;
              conclusion = \<lparr>cn_disposition = disposition,
                cn_observation_scope = (if observed_disposition disposition
                  then Some \<lparr>os_correlation = correlation, os_evidence_ref = evidence_ref\<rparr> else None),
                cn_reconciliation_scope = (if disposition = WD_Unknown
                  then Some \<lparr>rs_correlation = correlation, rs_native_write_evidence_ref = evidence_ref\<rparr>
                  else None)\<rparr> in
          case immediate_fact disposition of
            None \<Rightarrow> (a, Inr conclusion)
          | Some fact' \<Rightarrow>
              try_in a (ok_or fact_draw AE_Entropy) (\<lambda>fact_ref.
              on_persist a (\<lambda>p. ps_record_native_turn_fact port p
                  \<lparr>fm_correlation = correlation, fm_fact = fact', fm_evidence_ref = fact_ref\<rparr>) (\<lambda>a _.
              (a, Inr conclusion)))))))"

definition record_exact_observation ::
  "'p persist_port \<Rightarrow> bytes option \<Rightarrow> 'p DaemonAuthority \<Rightarrow> ObservationScope \<Rightarrow> NativeTurnFact
    \<Rightarrow> 'p DaemonAuthority \<times> (AuthorityError + ExactObservationRecord)" where
  "record_exact_observation port draw a scope fact' =
     try_in a (ok_or draw AE_Entropy) (\<lambda>evidence_ref.
     on_persist a (\<lambda>p. ps_record_native_turn_fact port p
         \<lparr>fm_correlation = os_correlation scope, fm_fact = fact', fm_evidence_ref = evidence_ref\<rparr>) (\<lambda>a write.
     (a, Inr \<lparr>xo_write = write,
           xo_reconciliation = (if clouding fact'
             then Some \<lparr>rs_correlation = os_correlation scope,
                    rs_native_write_evidence_ref = os_evidence_ref scope\<rparr>
             else None)\<rparr>)))"

definition authority_record_reconciliation ::
  "'p persist_port \<Rightarrow> bytes option \<Rightarrow> 'p DaemonAuthority \<Rightarrow> ReconciliationScope
    \<Rightarrow> (ControllerReconcileError + ReconciliationDisposition)
    \<Rightarrow> 'p DaemonAuthority \<times> (AuthorityError + IdempotentWrite \<times> ReconciliationPhase)" where
  "authority_record_reconciliation port draw a scope disposition =
     try_in a (or_error AE_Unauthorized disposition) (\<lambda>disposition.
     on_persist a (\<lambda>p. ps_record_reconciliation_fact port p scope disposition) (\<lambda>a result.
     let bound = (\<lambda>turn_ref. (rs_correlation scope)\<lparr>tc_turn_ref := Some turn_ref\<rparr>);
         record_fact = (\<lambda>turn_ref fact' phase.
           try_in a (ok_or draw AE_Entropy) (\<lambda>evidence_ref.
           on_persist a (\<lambda>p. ps_record_native_turn_fact port p
               \<lparr>fm_correlation = bound turn_ref, fm_fact = fact', fm_evidence_ref = evidence_ref\<rparr>)
             (\<lambda>a _. (a, Inr (result, phase))))) in
     case disposition of
       RD_Unknown \<Rightarrow> (a, Inr (result, RP_Reconciling))
     | RD_ProvenNotAccepted \<Rightarrow> (a, Inr (result, RP_Closed))
     | RD_Accepted turn_ref \<Rightarrow> record_fact turn_ref (NF_Accepted turn_ref)
         (RP_Observing \<lparr>os_correlation = bound turn_ref,
            os_evidence_ref = rs_native_write_evidence_ref scope\<rparr>)
     | RD_Terminal turn_ref class' \<Rightarrow> record_fact turn_ref (NF_Terminal turn_ref class') RP_Closed))"

definition authority_revoke_attachment ::
  "'p persist_port \<Rightarrow> 'p DaemonAuthority \<Rightarrow> string \<Rightarrow> 'p DaemonAuthority \<times> (AuthorityError + IdempotentWrite)"
where
  "authority_revoke_attachment port a attempt_id =
     try_in a (ok_or (bt_get (au_attachments a) attempt_id) AE_Unauthorized) (\<lambda>attachment.
     on_persist a (\<lambda>p. ps_revoke_controller_attachment port p
         \<lparr>vs_attempt_id = pt_attempt_id attachment, vs_birth_id = pt_birth_id attachment,
          vs_arm_id = pt_arm_id attachment, vs_generation = pt_generation attachment,
          vs_verifier_ref = pt_verifier_ref attachment\<rparr>) (\<lambda>a result.
     (a\<lparr>au_attachments := bt_insert attempt_id (attachment\<lparr>pt_revoked := True\<rparr>) (au_attachments a)\<rparr>,
      Inr result)))"

section \<open>Recovery\<close>

fun is_terminal_fact :: "NativeTurnFact \<Rightarrow> bool" where
  "is_terminal_fact (NF_Terminal _ _) = True"
| "is_terminal_fact _ = False"

fun live_turn_ref :: "NativeTurnFact \<Rightarrow> bytes option" where
  "live_turn_ref (NF_Accepted turn_ref) = Some turn_ref"
| "live_turn_ref (NF_Started turn_ref) = Some turn_ref"
| "live_turn_ref _ = None"

fun find_map :: "('a \<Rightarrow> 'b option) \<Rightarrow> 'a list \<Rightarrow> 'b option" where
  "find_map f [] = None"
| "find_map f (x # xs) = (case f x of Some y \<Rightarrow> Some y | None \<Rightarrow> find_map f xs)"

datatype FollowupScope = FS_Observe ObservationScope | FS_Reconcile ReconciliationScope

text \<open>What one row of write evidence leaves to be followed up.\<close>

definition followup_scope ::
  "(string, ReconciliationDisposition) btree \<Rightarrow> (string, NativeTurnFact list) btree
    \<Rightarrow> PersistedNativeWriteEvidence \<Rightarrow> FollowupScope option" where
  "followup_scope reconciliations turn_facts record' =
     (let correlation = ne_correlation record'; attempt_id = tc_attempt_id correlation;
          facts = (case bt_get turn_facts attempt_id of None \<Rightarrow> [] | Some facts \<Rightarrow> facts);
          observe = (\<lambda>turn_ref. Some (FS_Observe
            \<lparr>os_correlation = correlation\<lparr>tc_turn_ref := Some turn_ref\<rparr>,
             os_evidence_ref = ne_evidence_ref record'\<rparr>)) in
      if list_ex is_terminal_fact facts then None
      else (case ne_evidence record' of
        WE_Unknown \<Rightarrow>
          (case bt_get reconciliations attempt_id of
             Some (RD_Accepted turn_ref) \<Rightarrow> observe turn_ref
           | Some (RD_Terminal _ _) \<Rightarrow> None
           | Some RD_ProvenNotAccepted \<Rightarrow> None
           | _ \<Rightarrow> Some (FS_Reconcile \<lparr>rs_correlation = correlation,
                 rs_native_write_evidence_ref = ne_evidence_ref record'\<rparr>))
      | WE_ProvenNotAccepted \<Rightarrow> None
      | _ \<Rightarrow> (case find_map live_turn_ref facts of
               None \<Rightarrow> None
             | Some turn_ref \<Rightarrow> observe turn_ref)))"

definition recovery_followup_scopes ::
  "RecoverySnapshot \<Rightarrow> AuthorityError + ObservationScope list \<times> ReconciliationScope list" where
  "recovery_followup_scopes snapshot =
     (let reconciliations = bt_of_list (map (\<lambda>r. (rl_attempt_id r, rl_disposition r)) (sn_reconciliations snapshot));
          turn_facts = bt_of_list (map (\<lambda>r. (nf_attempt_id r, nf_facts r)) (sn_native_turn_facts snapshot)) in
      if bt_len reconciliations \<noteq> length (sn_reconciliations snapshot)
         \<or> bt_len turn_facts \<noteq> length (sn_native_turn_facts snapshot)
      then Inl AE_Conflict
      else
        let scopes = List.map_filter (followup_scope reconciliations turn_facts)
              (sn_native_write_evidence snapshot) in
        Inr (List.map_filter (\<lambda>s. case s of FS_Observe scope \<Rightarrow> Some scope | _ \<Rightarrow> None) scopes,
             List.map_filter (\<lambda>s. case s of FS_Reconcile scope \<Rightarrow> Some scope | _ \<Rightarrow> None) scopes))"

definition authority_recover ::
  "'p persist_port \<Rightarrow> 'p DaemonAuthority \<Rightarrow> 'p DaemonAuthority \<times> (AuthorityError + AuthorityRecovery)" where
  "authority_recover port a =
     on_persist a (ps_recover_authority_state port) (\<lambda>a snapshot.
     try_in a (recovery_followup_scopes snapshot) (\<lambda>(observation_scopes, reconciliation_scopes).
     let births = bt_of_list (map (\<lambda>b. (br_birth_id b, b)) (sn_controller_births snapshot));
         ownership = bt_of_list (map (\<lambda>r. (po_birth_id r, po_state r)) (sn_ownership snapshot)) in
     if bt_len births \<noteq> length (sn_controller_births snapshot) then (a, Inl AE_Conflict)
     else if bt_len ownership \<noteq> length (sn_ownership snapshot)
        \<or> list_ex (\<lambda>birth_id. \<not> bt_contains births birth_id) (bt_keys ownership)
     then (a, Inl AE_Conflict)
     else
       (a\<lparr>au_arms := bt_of_list (map (\<lambda>r. (pm_arm_id r, r)) (sn_arms snapshot)),
          au_births := births, au_ownership := ownership,
          au_claims := bt_of_list (map (\<lambda>r. (pc_attempt_id r, r)) (sn_claims snapshot)),
          au_attachments := bt_of_list (map (\<lambda>r. (pt_attempt_id r, r)) (sn_attachments snapshot)),
          au_attempt_seq := sn_attempt_seq snapshot\<rparr>,
        Inr \<lparr>ay_snapshot = snapshot, ay_observation_scopes = observation_scopes,
             ay_reconciliation_scopes = reconciliation_scopes\<rparr>)))"

end
