(* ===== verification/Coordinator.thy ===== *)
theory Coordinator
  imports Authority
begin

text \<open>
  The split-phase coordinator of managed native writes, \<open>gearwit-host/src/coordinator.rs\<close>: it owns
  the authority and at most one dispatch in each phase (probing, writing, observing, reconciling).
  \<open>Option::take\<close> empties the slot even when the operation then fails. A controller is a state
  with the operations of the trait \<open>Controller\<close> that the coordinator calls, given as functions.
\<close>

record ReservedControllerWrite =
  rw_lane :: ControllerIdleGuard
  rw_command :: ControllerCommand

datatype CoordinatedProbe =
  CP_Ready ReservedControllerWrite
| CP_HeldBeforeNativeWrite
| CP_IdleStateUnproven

record 'p HostCoordinator =
  ho_authority :: "'p DaemonAuthority"
  ho_probing :: "PreparedDispatch option"
  ho_writing :: "PreparedDispatch option"
  ho_observing :: "ObservationScope option"
  ho_reconciling :: "ReconciliationScope option"

definition host_coordinator_new :: "'p DaemonAuthority \<Rightarrow> 'p HostCoordinator" where
  "host_coordinator_new authority =
     \<lparr>ho_authority = authority, ho_probing = None, ho_writing = None, ho_observing = None,
      ho_reconciling = None\<rparr>"

text \<open>A call of the authority followed by \<open>?\<close>.\<close>

definition on_authority ::
  "'p HostCoordinator \<Rightarrow> ('p DaemonAuthority \<Rightarrow> 'p DaemonAuthority \<times> (AuthorityError + 'a))
    \<Rightarrow> ('p HostCoordinator \<Rightarrow> 'a \<Rightarrow> 'p HostCoordinator \<times> (AuthorityError + 'b))
    \<Rightarrow> 'p HostCoordinator \<times> (AuthorityError + 'b)" where
  "on_authority c call f =
     (case call (ho_authority c) of
        (a, Inl e) \<Rightarrow> (c\<lparr>ho_authority := a\<rparr>, Inl e)
      | (a, Inr x) \<Rightarrow> f (c\<lparr>ho_authority := a\<rparr>) x)"

text \<open>\<open>observing.pop()\<close> takes the last element. A refused recovery drops the authority.\<close>

definition vec_pop :: "'a list \<Rightarrow> 'a option" where
  "vec_pop xs = (if xs = [] then None else Some (last xs))"

definition coordinator_recover ::
  "'p persist_port \<Rightarrow> 'p DaemonAuthority \<Rightarrow> AuthorityError + 'p HostCoordinator" where
  "coordinator_recover port authority =
     (case authority_recover port authority of
        (authority, Inl e) \<Rightarrow> Inl e
      | (authority, Inr recovery) \<Rightarrow>
          let observing = ay_observation_scopes recovery; reconciling = ay_reconciliation_scopes recovery in
          if length observing + length reconciling > 1 then Inl AE_Conflict
          else Inr \<lparr>ho_authority = authority, ho_probing = None, ho_writing = None,
                 ho_observing = vec_pop observing, ho_reconciling = vec_pop reconciling\<rparr>)"

definition coordinator_admit ::
  "'p persist_port \<Rightarrow> (bytes \<Rightarrow> bytes) \<Rightarrow> (string \<Rightarrow> instant option) \<Rightarrow> bytes option
    \<Rightarrow> 'p HostCoordinator \<Rightarrow> ClaimRequest \<Rightarrow> 'p HostCoordinator \<times> (AuthorityError + AdmissionResult)" where
  "coordinator_admit port blake3 parse_time draw c request =
     on_authority c (\<lambda>a. authority_admit_claim port blake3 parse_time draw a request) (\<lambda>c r. (c, Inr r))"

definition coordinator_reserve_birth ::
  "'p persist_port \<Rightarrow> bytes option \<Rightarrow> bytes option \<Rightarrow> bytes option \<Rightarrow> 'p HostCoordinator \<Rightarrow> string
    \<Rightarrow> 'p HostCoordinator \<times> (AuthorityError + ControllerBirthReservation)" where
  "coordinator_reserve_birth port d1 d2 d3 c arm_id =
     on_authority c (\<lambda>a. authority_reserve_birth port d1 d2 d3 a arm_id) (\<lambda>c r. (c, Inr r))"

definition coordinator_resolve_create ::
  "'p persist_port \<Rightarrow> bytes option \<Rightarrow> 'p HostCoordinator \<Rightarrow> ControllerBirthReservation
    \<Rightarrow> ThreadCreateResolution \<Rightarrow> 'p HostCoordinator \<times> (AuthorityError + CreateResolution)" where
  "coordinator_resolve_create port draw c reservation resolution =
     on_authority c (\<lambda>a. authority_resolve_create port draw a reservation resolution) (\<lambda>c r. (c, Inr r))"

definition coordinator_resolve_quarantined ::
  "'p persist_port \<Rightarrow> bytes option \<Rightarrow> 'p HostCoordinator \<Rightarrow> QuarantinedBirthReservation
    \<Rightarrow> ThreadCreateResolution \<Rightarrow> 'p HostCoordinator \<times> (AuthorityError + IdempotentWrite)" where
  "coordinator_resolve_quarantined port draw c reservation resolution =
     on_authority c (\<lambda>a. authority_resolve_quarantined port draw a reservation resolution) (\<lambda>c r. (c, Inr r))"

definition coordinator_set_now :: "'p HostCoordinator \<Rightarrow> instant \<Rightarrow> 'p HostCoordinator" where
  "coordinator_set_now c now = c\<lparr>ho_authority := authority_set_now (ho_authority c) now\<rparr>"

definition coordinator_prepare ::
  "'p persist_port \<Rightarrow> bytes option \<Rightarrow> bytes option \<Rightarrow> 'p HostCoordinator \<Rightarrow> AdmissionReceipt
    \<Rightarrow> 'p HostCoordinator \<times> (AuthorityError + ProbeBinding)" where
  "coordinator_prepare port write_draw probe_draw c receipt =
     (if ho_probing c \<noteq> None \<or> ho_writing c \<noteq> None then (c, Inl AE_Conflict)
      else on_authority c (\<lambda>a. prepare_handle_claimed_signal port write_draw probe_draw a receipt)
        (\<lambda>c (prepared, scope). (c\<lparr>ho_probing := Some prepared\<rparr>, Inr scope)))"

definition coordinator_authorize_probe ::
  "'p persist_port \<Rightarrow> 'p HostCoordinator \<Rightarrow> (ControllerProbeError + IdleProbeResult)
    \<Rightarrow> 'p HostCoordinator \<times> (AuthorityError + CoordinatedProbe)" where
  "coordinator_authorize_probe port c result =
     try_in c (ok_or (ho_probing c) AE_Conflict) (\<lambda>prepared.
     on_authority (c\<lparr>ho_probing := None\<rparr>) (\<lambda>a. authority_authorize_probe port a prepared result)
       (\<lambda>c authorization. case authorization of
          PA_Ready authorized \<Rightarrow>
            (c\<lparr>ho_writing := Some (aw_prepared authorized)\<rparr>,
             Inr (CP_Ready \<lparr>rw_lane = aw_lane authorized, rw_command = aw_command authorized\<rparr>))
        | PA_HeldBeforeNativeWrite \<Rightarrow> (c, Inr CP_HeldBeforeNativeWrite)
        | PA_IdleStateUnproven \<Rightarrow> (c, Inr CP_IdleStateUnproven)))"

definition coordinator_conclude_write ::
  "'p persist_port \<Rightarrow> bytes option \<Rightarrow> bytes option \<Rightarrow> 'p HostCoordinator
    \<Rightarrow> (ControllerWriteError + NativeWriteDisposition) \<Rightarrow> 'p HostCoordinator \<times> (AuthorityError + unit)"
where
  "coordinator_conclude_write port evidence_draw fact_draw c disposition =
     try_in c (ok_or (ho_writing c) AE_Conflict) (\<lambda>prepared.
     on_authority (c\<lparr>ho_writing := None\<rparr>)
       (\<lambda>a. authority_conclude_write port evidence_draw fact_draw a prepared disposition)
       (\<lambda>c conclusion.
         (c\<lparr>ho_observing := cn_observation_scope conclusion,
            ho_reconciling := cn_reconciliation_scope conclusion\<rparr>, Inr ())))"

text \<open>The result carries the controller's new state.\<close>

definition poll_and_record_exact ::
  "'p persist_port \<Rightarrow> ('c \<Rightarrow> ObservationScope \<Rightarrow> 'c \<times> NativeTurnFact option) \<Rightarrow> bytes option
    \<Rightarrow> 'p HostCoordinator \<Rightarrow> 'c
    \<Rightarrow> ('p HostCoordinator \<times> (AuthorityError + IdempotentWrite option)) \<times> 'c" where
  "poll_and_record_exact port poll draw c controller =
     (case ho_observing c of
        None \<Rightarrow> ((c, Inl AE_Conflict), controller)
      | Some scope \<Rightarrow>
          (case poll controller scope of
             (controller, None) \<Rightarrow> ((c, Inr None), controller)
           | (controller, Some fact') \<Rightarrow>
               (on_authority c (\<lambda>a. record_exact_observation port draw a scope fact') (\<lambda>c record'.
                  ((if is_terminal_fact fact' \<or> xo_reconciliation record' \<noteq> None
                    then c\<lparr>ho_observing := None\<rparr> else c)\<lparr>ho_reconciling := xo_reconciliation record'\<rparr>,
                   Inr (Some (xo_write record')))),
                controller)))"

definition reconcile_and_record ::
  "'p persist_port \<Rightarrow> ('c \<Rightarrow> ReconciliationScope \<Rightarrow> 'c \<times> (ControllerReconcileError + ReconciliationDisposition))
    \<Rightarrow> bytes option \<Rightarrow> 'p HostCoordinator \<Rightarrow> 'c
    \<Rightarrow> ('p HostCoordinator \<times> (AuthorityError + IdempotentWrite)) \<times> 'c" where
  "reconcile_and_record port reconcile draw c controller =
     (case ho_reconciling c of
        None \<Rightarrow> ((c, Inl AE_Conflict), controller)
      | Some scope \<Rightarrow>
          (case reconcile controller scope of
             (controller, disposition) \<Rightarrow>
               (on_authority c (\<lambda>a. authority_record_reconciliation port draw a scope disposition)
                  (\<lambda>c (result, phase).
                    (case phase of
                       RP_Reconciling \<Rightarrow> c
                     | RP_Observing scope \<Rightarrow> c\<lparr>ho_reconciling := None, ho_observing := Some scope\<rparr>
                     | RP_Closed \<Rightarrow> c\<lparr>ho_reconciling := None\<rparr>, Inr result)),
                controller)))"

definition has_pending_native_authority :: "'p HostCoordinator \<Rightarrow> bool" where
  "has_pending_native_authority c =
     (ho_probing c \<noteq> None \<or> ho_writing c \<noteq> None \<or> ho_observing c \<noteq> None \<or> ho_reconciling c \<noteq> None)"

end
