(* ===== verification/Authority_Moves.thy ===== *)
theory Authority_Moves
  imports Coordinator Store_Properties
begin

text \<open>
  The interface between the authority and its backend. \<open>port_moves\<close> is what the authority's
  calls do to the backend, in terms of a relation that every call of the port stays in;
  \<open>write_once_port\<close> adds the promise that a native write is reserved once. The authority's and
  the coordinator's operations are shown to stay in the relation whatever the backend, and the
  store is shown to provide both interfaces, with the sequences of its own operations as the
  relation.
\<close>

section \<open>The interface\<close>

text \<open>
  An operation of a native turn changes nothing of the authority but its backend, and that within
  \<open>moves\<close>; any operation changes the backend within \<open>moves\<close>.
\<close>

definition turned ::
  "('p \<Rightarrow> 'p \<Rightarrow> bool) \<Rightarrow> 'p DaemonAuthority \<Rightarrow> 'p DaemonAuthority \<times> 'r \<Rightarrow> bool" where
  "turned moves a r \<longleftrightarrow> (\<exists>p. fst r = a\<lparr>au_persist := p\<rparr> \<and> moves (au_persist a) p)"

definition moved ::
  "('p \<Rightarrow> 'p \<Rightarrow> bool) \<Rightarrow> 'p DaemonAuthority \<Rightarrow> 'p DaemonAuthority \<times> 'r \<Rightarrow> bool" where
  "moved moves a r \<longleftrightarrow> moves (au_persist a) (au_persist (fst r))"

lemma turned_moved: "turned moves a r \<Longrightarrow> moved moves a r"
  by (auto simp: turned_def moved_def)

locale turn_port =
  fixes port :: "'e \<Rightarrow> 'p persist_port"
    and moves :: "'p \<Rightarrow> 'p \<Rightarrow> bool"
  assumes moves_refl: "moves p p"
    and moves_trans: "moves p p' \<Longrightarrow> moves p' p'' \<Longrightarrow> moves p p''"
    and dispatch_prepared_moves: "moves p (fst (ps_record_dispatch_prepared (port e) p dispatch))"
    and prewrite_moves: "moves p (fst (ps_record_prewrite_conclusion (port e) p conclusion))"
    and active_hold_moves: "moves p (fst (ps_record_active_hold (port e) p proof'))"
    and reserve_write_moves: "moves p (fst (ps_reserve_native_turn_write (port e) p permit correlation))"
    and write_evidence_moves: "moves p (fst (ps_record_native_write_evidence (port e) p evidence))"
    and turn_fact_moves: "moves p (fst (ps_record_native_turn_fact (port e) p fact'))"
    and reconciliation_moves: "moves p (fst (ps_record_reconciliation_fact (port e) p scope disposition))"
begin

lemma turned_same [intro!]: "turned moves a (a, r)"
  by (auto simp: turned_def moves_refl intro: exI [of _ "au_persist a"])

lemma turned_try [intro!]: "(\<And>x. r = Inr x \<Longrightarrow> turned moves a (f x)) \<Longrightarrow> turned moves a (try_in a r f)"
  by (cases r) (auto simp: try_in_def)

lemma turned_on_persist [intro!]:
  assumes "\<And>p. moves p (fst (call p))" and "\<And>p x. turned moves (a\<lparr>au_persist := p\<rparr>) (f (a\<lparr>au_persist := p\<rparr>) x)"
  shows "turned moves a (on_persist a call f)"
proof (cases "call (au_persist a)")
  case (Pair p r)
  with assms(1) [of "au_persist a"] have p: "moves (au_persist a) p" by simp
  show ?thesis
  proof (cases r)
    case (Inl e)
    with p Pair show ?thesis by (auto simp: on_persist_def turned_def)
  next
    case (Inr x)
    from assms(2) [of p x] Pair Inr p show ?thesis
      by (auto simp: on_persist_def turned_def intro: moves_trans)
  qed
qed

lemmas turn_calls = dispatch_prepared_moves prewrite_moves active_hold_moves reserve_write_moves
  write_evidence_moves turn_fact_moves reconciliation_moves moves_refl

lemma prepare_turned: "turned moves a (prepare_handle_claimed_signal (port e) d1 d2 a receipt)"
  unfolding prepare_handle_claimed_signal_def Let_def by (auto simp: turn_calls)

lemma authorize_turned: "turned moves a (authority_authorize_probe (port e) a prepared result)"
  unfolding authority_authorize_probe_def Let_def
  by (auto simp: turn_calls split: IdleProbeResult.splits IdleProbeObservation.splits)

lemma conclude_turned: "turned moves a (authority_conclude_write (port e) d1 d2 a prepared disposition)"
  unfolding authority_conclude_write_def Let_def
  by (auto simp: turn_calls split: NativeWriteDisposition.splits option.splits)

lemma observe_turned: "turned moves a (record_exact_observation (port e) draw a scope fact')"
  unfolding record_exact_observation_def by (auto simp: turn_calls)

lemma reconcile_turned: "turned moves a (authority_record_reconciliation (port e) draw a scope disposition)"
  unfolding authority_record_reconciliation_def Let_def
  by (auto simp: turn_calls split: ReconciliationDisposition.splits)

end

locale port_moves = turn_port +
  assumes persist_arm_moves: "moves p (fst (ps_persist_arm (port e) p arm))"
    and admit_claim_moves: "moves p (fst (ps_admit_claim (port e) p admission attachment))"
    and reserve_birth_moves: "moves p (fst (ps_reserve_controller_birth (port e) p birth create))"
    and resolve_create_moves: "moves p (fst (ps_resolve_thread_create (port e) p create_commit))"
    and revoke_attachment_moves: "moves p (fst (ps_revoke_controller_attachment (port e) p attached))"
    and recover_moves: "moves p (fst (ps_recover_authority_state (port e) p))"
begin

lemma moved_same [intro!]: "au_persist a' = au_persist a \<Longrightarrow> moved moves a (a', r)"
  by (simp add: moved_def moves_refl)

lemma moved_try [intro!]: "(\<And>x. r = Inr x \<Longrightarrow> moved moves a (f x)) \<Longrightarrow> moved moves a (try_in a r f)"
  by (cases r) (auto simp: try_in_def)

lemma moved_on_persist [intro!]:
  assumes "\<And>p. moves p (fst (call p))" and "\<And>p x. moved moves (a\<lparr>au_persist := p\<rparr>) (f (a\<lparr>au_persist := p\<rparr>) x)"
  shows "moved moves a (on_persist a call f)"
  using assms(1) [of "au_persist a"] assms(2)
  by (auto simp: on_persist_def moved_def intro: moves_trans split: prod.splits sum.splits)

lemmas calls = persist_arm_moves admit_claim_moves reserve_birth_moves resolve_create_moves
  revoke_attachment_moves recover_moves moves_refl

lemmas turns_moved = prepare_turned [THEN turned_moved] authorize_turned [THEN turned_moved]
  conclude_turned [THEN turned_moved] observe_turned [THEN turned_moved] reconcile_turned [THEN turned_moved]

lemma register_moved: "moved moves a (register_managed_arm (port e) a arm)"
  unfolding register_managed_arm_def Let_def by (auto simp: calls)

lemma reserve_moved: "moved moves a (authority_reserve_birth (port e) d1 d2 d3 a arm_id)"
  unfolding authority_reserve_birth_def Let_def by (auto simp: calls)

lemma resolve_moved: "moved moves a (authority_resolve_create (port e) draw a reservation resolution)"
  unfolding authority_resolve_create_def Let_def by (auto simp: calls)

lemma quarantined_moved: "moved moves a (authority_resolve_quarantined (port e) draw a reservation resolution)"
  unfolding authority_resolve_quarantined_def by (auto simp: calls)

lemma admit_moved: "moved moves a (authority_admit_claim (port e) b parse_time draw a request)"
  unfolding authority_admit_claim_def Let_def by (auto simp: calls split: prod.splits)

lemma revoke_moved: "moved moves a (authority_revoke_attachment (port e) a attempt_id)"
  unfolding authority_revoke_attachment_def by (auto simp: calls)

lemma recover_moved: "moved moves a (authority_recover (port e) a)"
  unfolding authority_recover_def Let_def by (auto simp: calls split: prod.splits)

end

section \<open>Runs of a coordinator\<close>

text \<open>
  One call on a coordinator, or on the authority it holds, with the draws it makes. A token the
  caller hands in, a probe result and what a controller answers are arbitrary. \<open>CO_Restart\<close> is a
  crash followed by \<open>HostCoordinator::recover(DaemonAuthority::new(persist, now))\<close>, which may be
  refused: then nothing runs any more.
\<close>

datatype CoordinatorOp =
  CO_Register ManagedArmRegistration
| CO_RevokeAttachment string
| CO_SetNow instant
| CO_ReserveBirth "bytes option" "bytes option" "bytes option" string
| CO_ResolveCreate "bytes option" ControllerBirthReservation ThreadCreateResolution
| CO_ResolveQuarantined "bytes option" QuarantinedBirthReservation ThreadCreateResolution
| CO_Admit "bytes option" ClaimRequest
| CO_Prepare "bytes option" "bytes option" AdmissionReceipt
| CO_Authorize "ControllerProbeError + IdleProbeResult"
| CO_Conclude "bytes option" "bytes option" "ControllerWriteError + NativeWriteDisposition"
| CO_Poll "bytes option" "NativeTurnFact option"
| CO_Reconcile "bytes option" "ControllerReconcileError + ReconciliationDisposition"
| CO_Restart instant

abbreviation persisted :: "'p HostCoordinator \<Rightarrow> 'p" where
  "persisted c \<equiv> au_persist (ho_authority c)"

definition ready_commands :: "AuthorityError + CoordinatedProbe \<Rightarrow> ControllerCommand list" where
  "ready_commands r = (case r of Inr (CP_Ready w) \<Rightarrow> [rw_command w] | _ \<Rightarrow> [])"

fun coordinator_step ::
  "('e \<Rightarrow> 'p persist_port) \<Rightarrow> (bytes \<Rightarrow> bytes) \<Rightarrow> (string \<Rightarrow> instant option) \<Rightarrow> 'p HostCoordinator
    \<Rightarrow> 'e \<times> CoordinatorOp \<Rightarrow> 'p HostCoordinator option \<times> ControllerCommand list" where
  "coordinator_step port b pt c (e, CO_Register arm) =
     (Some (fst (on_authority c (\<lambda>a. register_managed_arm (port e) a arm) (\<lambda>c r. (c, Inr r)))), [])"
| "coordinator_step port b pt c (e, CO_RevokeAttachment attempt_id) =
     (Some (fst (on_authority c (\<lambda>a. authority_revoke_attachment (port e) a attempt_id) (\<lambda>c r. (c, Inr r)))), [])"
| "coordinator_step port b pt c (e, CO_SetNow now) = (Some (coordinator_set_now c now), [])"
| "coordinator_step port b pt c (e, CO_ReserveBirth d1 d2 d3 arm_id) =
     (Some (fst (coordinator_reserve_birth (port e) d1 d2 d3 c arm_id)), [])"
| "coordinator_step port b pt c (e, CO_ResolveCreate draw reservation resolution) =
     (Some (fst (coordinator_resolve_create (port e) draw c reservation resolution)), [])"
| "coordinator_step port b pt c (e, CO_ResolveQuarantined draw reservation resolution) =
     (Some (fst (coordinator_resolve_quarantined (port e) draw c reservation resolution)), [])"
| "coordinator_step port b pt c (e, CO_Admit draw request) =
     (Some (fst (coordinator_admit (port e) b pt draw c request)), [])"
| "coordinator_step port b pt c (e, CO_Prepare d1 d2 receipt) =
     (Some (fst (coordinator_prepare (port e) d1 d2 c receipt)), [])"
| "coordinator_step port b pt c (e, CO_Authorize result) =
     (case coordinator_authorize_probe (port e) c result of (c, r) \<Rightarrow> (Some c, ready_commands r))"
| "coordinator_step port b pt c (e, CO_Conclude d1 d2 disposition) =
     (Some (fst (coordinator_conclude_write (port e) d1 d2 c disposition)), [])"
| "coordinator_step port b pt c (e, CO_Poll draw answer) =
     (Some (fst (fst (poll_and_record_exact (port e) (\<lambda>_ _. ((), answer)) draw c ()))), [])"
| "coordinator_step port b pt c (e, CO_Reconcile draw answer) =
     (Some (fst (fst (reconcile_and_record (port e) (\<lambda>_ _. ((), answer)) draw c ()))), [])"
| "coordinator_step port b pt c (e, CO_Restart now) =
     (case coordinator_recover (port e) (daemon_authority_new (persisted c) now) of
        Inl _ \<Rightarrow> (None, []) | Inr c \<Rightarrow> (Some c, []))"

fun coordinator_run ::
  "('e \<Rightarrow> 'p persist_port) \<Rightarrow> (bytes \<Rightarrow> bytes) \<Rightarrow> (string \<Rightarrow> instant option) \<Rightarrow> 'p HostCoordinator
    \<Rightarrow> ('e \<times> CoordinatorOp) list \<Rightarrow> 'p HostCoordinator option \<times> ControllerCommand list" where
  "coordinator_run port b pt c [] = (Some c, [])"
| "coordinator_run port b pt c (op # ops) =
     (case coordinator_step port b pt c op of
        (None, out) \<Rightarrow> (None, out)
      | (Some c, out) \<Rightarrow> (case coordinator_run port b pt c ops of (r, rest) \<Rightarrow> (r, out @ rest)))"

text \<open>The durable reservation that a command carries.\<close>

definition command_reservation :: "ControllerCommand \<Rightarrow> NativeWriteReservation" where
  "command_reservation command =
     \<lparr>wr_correlation = cc_correlation command, wr_probe_id = cc_expected_probe_id command,
      wr_expected_epoch = cc_expected_epoch command\<rparr>"

lemma command_reservation_of [simp]:
  "command_reservation (command_from_reservation attachment action reservation) = reservation"
  by (simp add: command_reservation_def command_from_reservation_def)

abbreviation command_attempt :: "ControllerCommand \<Rightarrow> string" where
  "command_attempt command \<equiv> tc_attempt_id (cc_correlation command)"

section \<open>What a step does to the authority\<close>

inductive authority_step ::
  "('e \<Rightarrow> 'p persist_port) \<Rightarrow> (bytes \<Rightarrow> bytes) \<Rightarrow> (string \<Rightarrow> instant option)
    \<Rightarrow> 'p DaemonAuthority \<Rightarrow> 'p DaemonAuthority \<Rightarrow> bool" for port b pt a where
  stay: "authority_step port b pt a a"
| clock: "authority_step port b pt a (authority_set_now a now)"
| register: "authority_step port b pt a (fst (register_managed_arm (port e) a arm))"
| revoke: "authority_step port b pt a (fst (authority_revoke_attachment (port e) a attempt_id))"
| reserve: "authority_step port b pt a (fst (authority_reserve_birth (port e) d1 d2 d3 a arm_id))"
| resolve: "authority_step port b pt a (fst (authority_resolve_create (port e) draw a reservation resolution))"
| quarantined:
    "authority_step port b pt a (fst (authority_resolve_quarantined (port e) draw a quarantined resolution))"
| admit: "authority_step port b pt a (fst (authority_admit_claim (port e) b pt draw a request))"
| prepare: "authority_step port b pt a (fst (prepare_handle_claimed_signal (port e) d1 d2 a receipt))"
| authorize: "authority_step port b pt a (fst (authority_authorize_probe (port e) a prepared result))"
| conclude: "authority_step port b pt a (fst (authority_conclude_write (port e) d1 d2 a prepared disposition))"
| observe: "authority_step port b pt a (fst (record_exact_observation (port e) draw a scope fact'))"
| reconcile: "authority_step port b pt a (fst (authority_record_reconciliation (port e) draw a scope disposition'))"
| restart: "authority_step port b pt a a'"
  if "authority_recover (port e) (daemon_authority_new (au_persist a) now) = (a', Inr recovery)"

lemma on_authority_keeps:
  assumes "\<And>c' x. ho_authority (fst (f c' x)) = ho_authority c'"
  shows "ho_authority (fst (on_authority c call f)) = fst (call (ho_authority c))"
  using assms by (auto simp: on_authority_def split: prod.splits sum.splits)

lemma try_keeps:
  "(\<And>x. r = Inr x \<Longrightarrow> P (ho_authority (fst (f x)))) \<Longrightarrow> P (ho_authority c) \<Longrightarrow> P (ho_authority (fst (try_in c r f)))"
  by (cases r) (auto simp: try_in_def)

lemma coordinator_prepare_step:
  "authority_step port b pt (ho_authority c) (ho_authority (fst (coordinator_prepare (port e) d1 d2 c receipt)))"
  unfolding coordinator_prepare_def
  by (auto simp: on_authority_keeps intro: authority_step.intros split: prod.splits)

lemma coordinator_authorize_step:
  "authority_step port b pt (ho_authority c) (ho_authority (fst (coordinator_authorize_probe (port e) c result)))"
  unfolding coordinator_authorize_probe_def
  by (rule try_keeps) (auto simp: on_authority_keeps intro: authority_step.intros split: ProbeAuthorization.split)

lemma coordinator_conclude_step:
  "authority_step port b pt (ho_authority c)
    (ho_authority (fst (coordinator_conclude_write (port e) d1 d2 c disposition)))"
  unfolding coordinator_conclude_write_def
  by (rule try_keeps) (auto simp: on_authority_keeps intro: authority_step.intros)

lemma coordinator_poll_step:
  "authority_step port b pt (ho_authority c)
    (ho_authority (fst (fst (poll_and_record_exact (port e) poll draw c controller))))"
  unfolding poll_and_record_exact_def
  by (auto simp: on_authority_keeps intro: authority_step.intros split: option.splits prod.splits)

lemma coordinator_reconcile_step:
  "authority_step port b pt (ho_authority c)
    (ho_authority (fst (fst (reconcile_and_record (port e) reconcile draw c controller))))"
  unfolding reconcile_and_record_def
  by (auto simp: on_authority_keeps intro: authority_step.intros
      split: option.splits prod.splits ReconciliationPhase.splits)

lemma coordinator_recover_step:
  "coordinator_recover (port e) (daemon_authority_new (persisted c) now) = Inr c' \<Longrightarrow>
    authority_step port b pt (ho_authority c) (ho_authority c')"
  by (auto simp: coordinator_recover_def Let_def intro: authority_step.restart
      split: prod.splits sum.splits if_splits)

lemma coordinator_step_authority:
  assumes "coordinator_step port b pt c op = (Some c', out)"
  shows "authority_step port b pt (ho_authority c) (ho_authority c')"
proof -
  obtain e call where op: "op = (e, call)" by fastforce
  show ?thesis
  proof (cases call)
    case (CO_Restart now)
    with assms op coordinator_recover_step show ?thesis by (auto split: sum.splits)
  next
    case (CO_Authorize result)
    with assms op coordinator_authorize_step [of port b pt c e result] show ?thesis
      by (auto split: prod.splits)
  next
    case (CO_SetNow now)
    with assms op show ?thesis by (auto simp: coordinator_set_now_def intro: authority_step.intros)
  qed (use assms op in \<open>auto simp: on_authority_keeps coordinator_reserve_birth_def coordinator_resolve_create_def
      coordinator_resolve_quarantined_def coordinator_admit_def
      intro: authority_step.intros coordinator_prepare_step coordinator_conclude_step coordinator_poll_step
        coordinator_reconcile_step\<close>)
qed

lemma coordinator_run_keeps:
  assumes "\<And>a a'. I a \<Longrightarrow> authority_step port b pt a a' \<Longrightarrow> I a'"
    and "I (ho_authority c)" and "coordinator_run port b pt c ops = (Some c', out)"
  shows "I (ho_authority c')"
  using assms(2,3)
proof (induction ops arbitrary: c out)
  case (Cons op ops)
  then obtain d o1 o2 where step: "coordinator_step port b pt c op = (Some d, o1)"
    and rest: "coordinator_run port b pt d ops = (Some c', o2)"
    by (auto split: prod.splits option.splits)
  from assms(1) [OF Cons.prems(1) coordinator_step_authority [OF step]] Cons.IH [OF _ rest] show ?case by blast
qed simp

context port_moves begin

lemma authority_step_moves:
  "authority_step port b pt a a' \<Longrightarrow> moves (au_persist a) (au_persist a')"
proof (induction rule: authority_step.induct)
  case (restart e now a' recovery)
  with recover_moved [of "daemon_authority_new (au_persist a) now" e] show ?case
    by (simp add: moved_def daemon_authority_new_def)
qed (use register_moved revoke_moved reserve_moved resolve_moved quarantined_moved admit_moved turns_moved in
    \<open>auto simp: moved_def authority_set_now_def moves_refl\<close>)

lemma step_moves:
  "coordinator_step port b pt c op = (Some c', out) \<Longrightarrow> moves (persisted c) (persisted c')"
  by (rule authority_step_moves [OF coordinator_step_authority])

lemma run_moves:
  assumes "coordinator_run port b pt c ops = (Some c', out)"
  shows "moves (persisted c) (persisted c')"
  by (rule coordinator_run_keeps [where I = "\<lambda>a. moves (persisted c) (au_persist a)", OF _ _ assms])
    (auto intro: moves_trans authority_step_moves moves_refl)

end

section \<open>A backend that reserves each native write once\<close>

locale write_once_port = port_moves +
  fixes reserved :: "'p \<Rightarrow> string \<Rightarrow> bool"
    and records :: "'p \<Rightarrow> NativeWriteReservation \<Rightarrow> bool"
  assumes reserved_kept: "moves p p' \<Longrightarrow> reserved p attempt_id \<Longrightarrow> reserved p' attempt_id"
    and records_kept: "moves p p' \<Longrightarrow> records p reservation \<Longrightarrow> records p' reservation"
    and records_reserved: "records p reservation \<Longrightarrow> reserved p (tc_attempt_id (wr_correlation reservation))"
    and reserve_once: "ps_reserve_native_turn_write (port e) p permit correlation = (p', Inr reservation)
      \<Longrightarrow> \<not> reserved p (tc_attempt_id (wr_correlation reservation)) \<and> records p' reservation
        \<and> wr_correlation reservation = correlation \<and> wr_probe_id reservation = vp_probe_id permit
        \<and> wr_expected_epoch reservation = vp_mutation_epoch permit"
begin

lemma authorize_ready:
  assumes "authority_authorize_probe (port e) a prepared result = (a', Inr (PA_Ready authorized))"
  shows "\<not> reserved (au_persist a) (command_attempt (aw_command authorized))
    \<and> records (au_persist a') (command_reservation (aw_command authorized))"
proof (rule authorize_ready_elim [OF assms])
  fix binding probe_id epoch observed_at p reservation
  assume r: "ps_reserve_native_turn_write (port e) (au_persist a)
      (idle_permit prepared epoch probe_id observed_at) (pq_correlation prepared) = (p, Inr reservation)"
    and a': "a' = a\<lparr>au_persist := p\<rparr>"
    and c: "aw_command authorized = command_from_reservation (controller_attachment (pq_attachment prepared))
       \<lparr>sg_signal_id = tc_signal_id (pq_correlation prepared)\<rparr> reservation"
  have "command_attempt (aw_command authorized) = tc_attempt_id (wr_correlation reservation)"
    by (simp add: c command_from_reservation_def)
  with reserve_once [OF r] a' c show ?thesis by auto
qed

lemma step_commands:
  assumes "coordinator_step port b pt c op = (r, out)" and "command \<in> set out"
  shows "\<exists>c'. r = Some c' \<and> out = [command] \<and> \<not> reserved (persisted c) (command_attempt command)
    \<and> records (persisted c') (command_reservation command)"
proof -
  obtain e call where op: "op = (e, call)" by fastforce
  from assms op obtain result where call: "call = CO_Authorize result"
    by (cases call) (auto split: sum.splits)
  from assms op call obtain prepared a' authorized where
      auth: "authority_authorize_probe (port e) (ho_authority c) prepared result = (a', Inr (PA_Ready authorized))"
    and r: "r = Some (c\<lparr>ho_probing := None, ho_authority := a', ho_writing := Some (aw_prepared authorized)\<rparr>)"
    and out: "out = [aw_command authorized]" "command = aw_command authorized"
    by (auto simp: coordinator_authorize_probe_def ready_commands_def try_in_def ok_or_def on_authority_def
        split: prod.splits sum.splits option.splits ProbeAuthorization.splits)
  from authorize_ready [OF auth] r out show ?thesis by simp
qed

lemma run_commands:
  assumes "coordinator_run port b pt c ops = (r, out)"
  shows "distinct (map command_attempt out)
    \<and> (\<forall>command \<in> set out. \<not> reserved (persisted c) (command_attempt command)
        \<and> (\<forall>c'. r = Some c' \<longrightarrow> records (persisted c') (command_reservation command)))"
  using assms
proof (induction ops arbitrary: c out)
  case Nil
  then show ?case by simp
next
  case (Cons op ops)
  obtain d o1 where step: "coordinator_step port b pt c op = (d, o1)" by fastforce
  show ?case
  proof (cases d)
    case None
    with Cons.prems step have "r = None" "out = o1" by simp_all
    with step_commands [OF step] None show ?thesis by fastforce
  next
    case (Some c1)
    then obtain o2 where rest: "coordinator_run port b pt c1 ops = (r, o2)" and out: "out = o1 @ o2"
      using Cons.prems step by (auto split: prod.splits)
    have first: "o1 = [command] \<and> \<not> reserved (persisted c) (command_attempt command)
        \<and> records (persisted c1) (command_reservation command)" if "command \<in> set o1" for command
      using step_commands [OF step that] Some by blast
    note later = Cons.IH [OF rest]
    have kept: "\<not> reserved (persisted c) (command_attempt command)" if "command \<in> set o2" for command
      using later that reserved_kept [OF step_moves [OF step [unfolded Some]]] by blast
    have recorded: "records (persisted c') (command_reservation command)"
      if "command \<in> set o1" "r = Some c'" for command c'
      using first [OF that(1)] records_kept [OF run_moves [OF rest [unfolded that(2)]]] by blast
    have new: "command_attempt command \<notin> command_attempt ` set o2" if "command \<in> set o1" for command
    proof
      assume "command_attempt command \<in> command_attempt ` set o2"
      then obtain d where "d \<in> set o2" "command_attempt d = command_attempt command" by auto
      with later records_reserved [of "persisted c1" "command_reservation command"] first [OF that]
      show False by (simp add: command_reservation_def) metis
    qed
    show ?thesis
    proof (cases o1)
      case Nil
      with later kept out show ?thesis by simp
    next
      case (Cons command more)
      have m: "command \<in> set o1" using Cons by simp
      from first [OF m] have o1: "o1 = [command]" by blast
      have "\<not> reserved (persisted c) (command_attempt command)" using first [OF m] by blast
      moreover have "\<forall>c'. r = Some c' \<longrightarrow> records (persisted c') (command_reservation command)"
        using recorded [OF m] by blast
      moreover have "\<forall>d \<in> set o2. \<not> reserved (persisted c) (command_attempt d)
          \<and> (\<forall>c'. r = Some c' \<longrightarrow> records (persisted c') (command_reservation d))"
        using later kept by blast
      moreover have "distinct (map command_attempt (command # o2))"
        using new [OF m] later by simp
      ultimately show ?thesis unfolding out o1 by simp
    qed
  qed
qed

end

section \<open>The store provides the interface\<close>

definition fake_ports ::
  "(bytes \<Rightarrow> bytes) \<Rightarrow> (bytes \<Rightarrow> bytes \<Rightarrow> bytes) \<Rightarrow> bytes option \<times> (string \<Rightarrow> bytes option)
    \<Rightarrow> FakePersist persist_port" where
  "fake_ports b k e = fake_port b k (fst e) (snd e)"

definition store_runs_to :: "(bytes \<Rightarrow> bytes) \<Rightarrow> (bytes \<Rightarrow> bytes \<Rightarrow> bytes) \<Rightarrow> FakePersist \<Rightarrow> FakePersist \<Rightarrow> bool" where
  "store_runs_to b k s s' \<longleftrightarrow> (\<exists>ops. s' = store_run b k s ops)"

lemma store_runs_to_step: "store_runs_to b k s (store_step b k s op)"
  unfolding store_runs_to_def by (rule exI [of _ "[op]"]) simp

lemma store_runs_to_trans: "store_runs_to b k s s' \<Longrightarrow> store_runs_to b k s' s'' \<Longrightarrow> store_runs_to b k s s''"
  unfolding store_runs_to_def by (metis store_run_append)

interpretation stored: write_once_port "fake_ports b k" "store_runs_to b k"
  "\<lambda>s attempt_id. bt_contains (fp_reservations s) attempt_id" reserved_as
proof
  fix s s' s'' :: FakePersist
  show "store_runs_to b k s s" unfolding store_runs_to_def by (rule exI [of _ "[]"]) simp
  show "store_runs_to b k s s' \<Longrightarrow> store_runs_to b k s' s'' \<Longrightarrow> store_runs_to b k s s''"
    by (rule store_runs_to_trans)
next
  fix e s
  show "store_runs_to b k s (fst (ps_persist_arm (fake_ports b k e) s arm))" for arm
    using store_runs_to_step [of b k s "Op_PersistArm arm"] by (simp add: fake_ports_def fake_port_def)
  show "store_runs_to b k s (fst (ps_admit_claim (fake_ports b k e) s admission attachment))" for admission attachment
    using store_runs_to_step [of b k s "Op_Admit (fst e) admission attachment"]
    by (simp add: fake_ports_def fake_port_def)
  show "store_runs_to b k s (fst (ps_reserve_controller_birth (fake_ports b k e) s birth create))" for birth create
    using store_runs_to_step [of b k s "Op_ReserveBirth birth create"] by (simp add: fake_ports_def fake_port_def)
  show "store_runs_to b k s (fst (ps_resolve_thread_create (fake_ports b k e) s commit))" for commit
    using store_runs_to_step [of b k s "Op_ResolveCreate commit"] by (simp add: fake_ports_def fake_port_def)
  show "store_runs_to b k s (fst (ps_record_dispatch_prepared (fake_ports b k e) s commit))" for commit
    using store_runs_to_step [of b k s "Op_Prepare commit"] by (simp add: fake_ports_def fake_port_def)
  show "store_runs_to b k s (fst (ps_record_prewrite_conclusion (fake_ports b k e) s commit))" for commit
    using store_runs_to_step [of b k s "Op_Prewrite commit"] by (simp add: fake_ports_def fake_port_def)
  show "store_runs_to b k s (fst (ps_record_active_hold (fake_ports b k e) s commit))" for commit
    using store_runs_to_step [of b k s "Op_ActiveHold commit"] by (simp add: fake_ports_def fake_port_def)
  show "store_runs_to b k s (fst (ps_reserve_native_turn_write (fake_ports b k e) s permit correlation))"
    for permit correlation
    using store_runs_to_step [of b k s "Op_ReserveWrite permit correlation"]
    by (simp add: fake_ports_def fake_port_def)
  show "store_runs_to b k s (fst (ps_record_native_write_evidence (fake_ports b k e) s commit))" for commit
    using store_runs_to_step [of b k s "Op_WriteEvidence commit"] by (simp add: fake_ports_def fake_port_def)
  show "store_runs_to b k s (fst (ps_record_native_turn_fact (fake_ports b k e) s commit))" for commit
    using store_runs_to_step [of b k s "Op_TurnFact commit"] by (simp add: fake_ports_def fake_port_def)
  show "store_runs_to b k s (fst (ps_record_reconciliation_fact (fake_ports b k e) s scope disposition))"
    for scope disposition
    using store_runs_to_step [of b k s "Op_Reconcile scope disposition"] by (simp add: fake_ports_def fake_port_def)
  show "store_runs_to b k s (fst (ps_revoke_controller_attachment (fake_ports b k e) s scope))" for scope
    using store_runs_to_step [of b k s "Op_RevokeAttachment scope"] by (simp add: fake_ports_def fake_port_def)
  show "store_runs_to b k s (fst (ps_recover_authority_state (fake_ports b k e) s))"
    using store_runs_to_step [of b k s "Op_Recover (snd e)"] by (simp add: fake_ports_def fake_port_def)
next
  fix s s' attempt_id reservation
  assume "store_runs_to b k s s'"
  then have le: "reserved_le s s'" using run_reserved_le by (auto simp: store_runs_to_def)
  show "bt_contains (fp_reservations s) attempt_id \<Longrightarrow> bt_contains (fp_reservations s') attempt_id"
    using le unfolding reserved_le_def bt_contains_iff by blast
  show "reserved_as s reservation \<Longrightarrow> reserved_as s' reservation"
    using le reserved_as_le by blast
next
  fix s reservation
  show "reserved_as s reservation \<Longrightarrow> bt_contains (fp_reservations s) (tc_attempt_id (wr_correlation reservation))"
    by (auto simp: reserved_as_def tree_simps)
next
  fix e s permit correlation s' reservation
  assume "ps_reserve_native_turn_write (fake_ports b k e) s permit correlation = (s', Inr reservation)"
  then have r: "reserve_native_turn_write s permit correlation = (s', Inr reservation)"
    by (simp add: fake_ports_def fake_port_def)
  from reserve_Inr [OF this] have "\<not> bt_contains (fp_reservations s) (tc_attempt_id (wr_correlation reservation))
      \<and> reserved_as s' reservation" by (simp add: tree_simps)
  moreover from r have "wr_correlation reservation = correlation \<and> wr_probe_id reservation = vp_probe_id permit
      \<and> wr_expected_epoch reservation = vp_mutation_epoch permit"
    by (auto simp: reserve_native_turn_write_def result_simps split: if_splits)
  ultimately show "\<not> bt_contains (fp_reservations s) (tc_attempt_id (wr_correlation reservation))
      \<and> reserved_as s' reservation \<and> wr_correlation reservation = correlation
      \<and> wr_probe_id reservation = vp_probe_id permit \<and> wr_expected_epoch reservation = vp_mutation_epoch permit"
    by blast
qed

end
