(* ===== verification/Authority_Mirror.thy ===== *)
theory Authority_Mirror
  imports Authority_Moves Claim_Properties
begin

text \<open>
  The authority's caches are the store's tables: the rows of every table stand under their own
  key, the operations of a native turn touch no cached table, every other operation changes the
  cache as the store changes the table, and a restart reads back exactly the cache it lost.
\<close>

section \<open>Rows under their own key\<close>

definition keyed :: "FakePersist \<Rightarrow> bool" where
  "keyed s \<longleftrightarrow>
     (\<forall>k r. bt_get (fp_arms s) k = Some r \<longrightarrow> pm_arm_id r = k)
     \<and> (\<forall>k r. bt_get (fp_births s) k = Some r \<longrightarrow> br_birth_id r = k)
     \<and> (\<forall>k r. bt_get (fp_attachments s) k = Some r \<longrightarrow> pt_attempt_id r = k)
     \<and> (\<forall>k r. bt_get (fp_ownership s) k = Some r \<longrightarrow> (\<exists>birth. bt_get (fp_births s) k = Some birth))"

lemma moves_keyed: "store_moves b s s' \<Longrightarrow> keyed s \<Longrightarrow> keyed s'"
proof (induction rule: store_moves.induct)
  case (ownership ownership' refs)
  then show ?case by (auto simp: keyed_def) (metis not_Some_eq)
qed (auto simp: keyed_def tree_simps update_helper_grant_def conclude_reservation_def bind_turn_ref_def
    split: option.splits)

lemma run_keyed: "keyed s \<Longrightarrow> keyed (store_run b k s ops)"
  by (rule store_run_keeps [where b = b]) (auto intro: moves_keyed)

lemma keyed_default: "keyed (fake_persist_default key)"
  by (simp add: keyed_def fake_persist_default_def)

text \<open>A map collected from rows whose keys are distinct holds exactly the rows.\<close>

lemma bt_of_rows:
  assumes "inj_on key (set rows)"
  shows "bt_get (bt_of_list (map (\<lambda>r. (key r, value r)) rows)) k = Some v
    \<longleftrightarrow> (\<exists>r \<in> set rows. key r = k \<and> value r = v)"
proof -
  let ?kvs = "map (\<lambda>r. (key r, value r)) rows"
  have "v = w" if "(k, v) \<in> set ?kvs" "(k, w) \<in> set ?kvs" for v w
    using that assms by (auto dest: inj_onD)
  moreover have "map_of (rev ?kvs) k = Some v \<Longrightarrow> (k, v) \<in> set ?kvs" for v
    by (drule map_of_SomeD) simp
  moreover have "(k, v) \<in> set ?kvs \<Longrightarrow> \<exists>w. map_of (rev ?kvs) k = Some w" for v
    using weak_map_of_SomeI [of k v "rev ?kvs"] by simp
  ultimately have "map_of (rev ?kvs) k = Some v \<longleftrightarrow> (k, v) \<in> set ?kvs" by blast
  also have "\<dots> \<longleftrightarrow> (\<exists>r \<in> set rows. key r = k \<and> value r = v)" by auto
  finally show ?thesis unfolding bt_get_of_list .
qed

lemma option_ext: "(\<And>v. x = Some v \<longleftrightarrow> y = Some v) \<Longrightarrow> x = y"
  by (cases y) (auto simp: not_Some_eq [symmetric] simp del: not_Some_eq)

lemma bt_of_values:
  assumes "\<And>k v. bt_get m k = Some v \<Longrightarrow> f v = k"
  shows "bt_of_list (map (\<lambda>v. (f v, v)) (bt_values m)) = m"
proof (intro bt_eqI option_ext)
  fix k v
  have "inj_on f (set (bt_values m))"
    by (rule inj_onI) (use assms in \<open>force simp: tree_simps\<close>)
  then show "bt_get (bt_of_list (map (\<lambda>v. (f v, v)) (bt_values m))) k = Some v \<longleftrightarrow> bt_get m k = Some v"
    using assms by (auto simp: bt_of_rows tree_simps)
qed

lemma bt_of_entries: "bt_of_list (bt_entries m) = m"
proof (intro bt_eqI option_ext)
  fix k v
  have "inj_on fst (set (bt_entries m))"
    by (rule inj_onI) (auto simp: bt_entries_iff)
  from bt_of_rows [OF this, of snd k v]
  have "bt_get (bt_of_list (bt_entries m)) k = Some v \<longleftrightarrow> (\<exists>r \<in> set (bt_entries m). fst r = k \<and> snd r = v)"
    by simp
  also have "\<dots> \<longleftrightarrow> (k, v) \<in> set (bt_entries m)" by force
  finally show "bt_get (bt_of_list (bt_entries m)) k = Some v \<longleftrightarrow> bt_get m k = Some v"
    by (simp add: bt_entries_iff)
qed

section \<open>The mirror\<close>

definition mirrors :: "FakePersist DaemonAuthority \<Rightarrow> bool" where
  "mirrors a \<longleftrightarrow>
     au_arms a = fp_arms (au_persist a) \<and> au_births a = fp_births (au_persist a)
     \<and> au_ownership a = fp_ownership (au_persist a) \<and> au_attachments a = fp_attachments (au_persist a)
     \<and> au_attempt_seq a = fp_attempt_seq (au_persist a)
     \<and> (\<forall>attempt_id. bt_get (au_claims a) attempt_id = claim_for_attempt (au_persist a) attempt_id)"

definition same_tables :: "FakePersist \<Rightarrow> FakePersist \<Rightarrow> bool" where
  "same_tables s s' \<longleftrightarrow> fp_arms s' = fp_arms s \<and> fp_births s' = fp_births s
     \<and> fp_ownership s' = fp_ownership s \<and> fp_attachments s' = fp_attachments s
     \<and> fp_attempt_seq s' = fp_attempt_seq s \<and> fp_claims s' = fp_claims s"

lemma same_tables_refl [simp]: "same_tables s s"
  by (simp add: same_tables_def)

lemma same_tables_update [simp]:
  "same_tables s (fp_prepared_update f s') = same_tables s s'"
  "same_tables s (fp_reservations_update g s') = same_tables s s'"
  "same_tables s (fp_consumed_probes_update h s') = same_tables s s'"
  "same_tables s (fp_prewrite_update i s') = same_tables s s'"
  "same_tables s (fp_active_observations_update j s') = same_tables s s'"
  "same_tables s (fp_write_evidence_update k s') = same_tables s s'"
  "same_tables s (fp_write_evidence_refs_update l s') = same_tables s s'"
  "same_tables s (fp_turn_facts_update m s') = same_tables s s'"
  "same_tables s (fp_reconciliations_update n s') = same_tables s s'"
  by (simp_all add: same_tables_def)

lemma same_tables_conclude [simp]: "same_tables s (conclude_reservation s' attempt_id) = same_tables s s'"
  by (simp add: conclude_reservation_def split: option.splits)

lemma same_tables_bind [simp]: "same_tables s (bind_turn_ref s' attempt_id turn_ref) = same_tables s s'"
  by (simp add: bind_turn_ref_def split: option.splits)

lemma try_same_tables [intro!]:
  "(\<And>x. same_tables s (fst (f x))) \<Longrightarrow> same_tables s (fst (try_in s r f))"
  by (cases r) (auto simp: try_in_def)

interpretation tables: turn_port "fake_ports b k" same_tables
proof
  fix e s
  show "same_tables s (fst (ps_record_dispatch_prepared (fake_ports b k e) s commit))" for commit
    unfolding fake_ports_def fake_port_def record_dispatch_prepared_def Let_def by (auto split: option.splits)
  show "same_tables s (fst (ps_record_prewrite_conclusion (fake_ports b k e) s commit))" for commit
    unfolding fake_ports_def fake_port_def record_prewrite_conclusion_def Let_def by (auto split: option.splits)
  show "same_tables s (fst (ps_record_active_hold (fake_ports b k e) s commit))" for commit
    unfolding fake_ports_def fake_port_def record_active_hold_def Let_def
    by (auto simp: bs_insert_def split: option.splits)
  show "same_tables s (fst (ps_reserve_native_turn_write (fake_ports b k e) s permit correlation))"
    for permit correlation
    unfolding fake_ports_def fake_port_def reserve_native_turn_write_def by auto
  show "same_tables s (fst (ps_record_native_write_evidence (fake_ports b k e) s commit))" for commit
    unfolding fake_ports_def fake_port_def record_native_write_evidence_def Let_def by (auto split: option.splits)
  show "same_tables s (fst (ps_record_native_turn_fact (fake_ports b k e) s commit))" for commit
    unfolding fake_ports_def fake_port_def record_native_turn_fact_def Let_def by (auto split: option.splits)
  show "same_tables s (fst (ps_record_reconciliation_fact (fake_ports b k e) s scope disposition))"
    for scope disposition
    unfolding fake_ports_def fake_port_def record_reconciliation_fact_def Let_def by (auto split: option.splits)
qed (simp_all add: same_tables_def)

lemma mirrors_turned: "turned same_tables a r \<Longrightarrow> mirrors a \<Longrightarrow> mirrors (fst r)"
  by (auto simp: turned_def mirrors_def same_tables_def claim_for_attempt_def)

section \<open>Every step keeps the mirror\<close>

lemma mirrors_try:
  "(\<And>x. r = Inr x \<Longrightarrow> mirrors (fst (f x))) \<Longrightarrow> mirrors a \<Longrightarrow> mirrors (fst (try_in a r f))"
  by (cases r) (auto simp: try_in_def)

lemma mirrors_persist:
  assumes "\<And>p e. call (au_persist a) = (p, Inl e) \<Longrightarrow> mirrors (a\<lparr>au_persist := p\<rparr>)"
    and "\<And>p x. call (au_persist a) = (p, Inr x) \<Longrightarrow> mirrors (fst (f (a\<lparr>au_persist := p\<rparr>) x))"
  shows "mirrors (fst (on_persist a call f))"
  using assms by (auto simp: on_persist_def split: prod.splits sum.splits)

lemma mirrors_clock: "mirrors a \<Longrightarrow> mirrors (authority_set_now a now)"
  by (simp add: mirrors_def authority_set_now_def)

lemma mirrors_register:
  "mirrors a \<Longrightarrow> mirrors (fst (register_managed_arm (fake_ports b k e) a arm))"
  unfolding register_managed_arm_def Let_def
  by (intro mirrors_try)
    (auto simp: on_persist_def fake_ports_def fake_port_def persist_arm_def mirrors_def claim_for_attempt_def)

lemma mirrors_revoke:
  assumes "mirrors a" and "keyed (au_persist a)"
  shows "mirrors (fst (authority_revoke_attachment (fake_ports b k e) a attempt_id))"
proof (cases "bt_get (au_attachments a) attempt_id")
  case None
  with assms show ?thesis by (simp add: authority_revoke_attachment_def)
next
  case (Some attachment)
  with assms have s: "bt_get (fp_attachments (au_persist a)) attempt_id = Some attachment"
    and id: "pt_attempt_id attachment = attempt_id"
    by (auto simp: mirrors_def keyed_def)
  have idem: "bt_insert attempt_id (attachment\<lparr>pt_revoked := True\<rparr>) (au_attachments a) = au_attachments a"
    if "pt_revoked attachment" using that Some by (intro bt_insert_idem) simp
  show ?thesis
    using assms(1) Some s id idem
    by (auto simp: authority_revoke_attachment_def on_persist_def fake_ports_def fake_port_def
        revoke_controller_attachment_def mirrors_def claim_for_attempt_def split: if_splits)
qed

lemma mirrors_reserve:
  "mirrors a \<Longrightarrow> mirrors (fst (authority_reserve_birth (fake_ports b k e) d1 d2 d3 a arm_id))"
  unfolding authority_reserve_birth_def Let_def
  by (auto intro!: mirrors_try mirrors_persist simp: fake_ports_def fake_port_def reserve_controller_birth_def
      split: option.splits if_splits)
    (auto simp: mirrors_def claim_for_attempt_def)

lemma resolve_outcome:
  assumes "resolve_thread_create s commit = (s', r)"
  shows "s' = s \<and> (\<forall>w. r = Inr w \<longrightarrow> (\<exists>state. bt_get (fp_ownership s) (tm_birth_id commit) = Some state))
    \<or> (\<exists>refs state. s' = s\<lparr>fp_create_evidence_refs := refs,
          fp_ownership := bt_insert (tm_birth_id commit) state (fp_ownership s)\<rparr>)"
  using assms
  by (auto simp: resolve_thread_create_def try_in_def ok_or_def Let_def split: option.splits if_splits)

lemma ownership_state_ok [simp]: "thread_ownership_state s birth_id \<noteq> Inl e"
  by (simp add: thread_ownership_state_def)

lemma resolved_mirror:
  assumes r: "resolve_thread_create (au_persist a) commit = (p, Inr w)" and "mirrors a"
    and o: "thread_ownership_state p birth_id = Inr state" and key: "birth_id = tm_birth_id commit"
  shows "mirrors (a\<lparr>au_persist := p, au_ownership := bt_insert birth_id state (au_ownership a)\<rparr>)"
  using resolve_outcome [OF r]
proof (elim disjE conjE exE)
  assume "p = au_persist a" and "\<forall>w'. Inr w = Inr w' \<longrightarrow>
    (\<exists>state. bt_get (fp_ownership (au_persist a)) (tm_birth_id commit) = Some state)"
  then have "bt_get (fp_ownership p) birth_id = Some state"
    using o key by (auto simp: thread_ownership_state_def)
  with assms(2) \<open>p = au_persist a\<close> show ?thesis by (auto simp: mirrors_def intro: bt_insert_idem)
next
  fix refs state'
  assume "p = (au_persist a)\<lparr>fp_create_evidence_refs := refs,
    fp_ownership := bt_insert (tm_birth_id commit) state' (fp_ownership (au_persist a))\<rparr>"
  with assms show ?thesis
    by (auto simp: mirrors_def thread_ownership_state_def claim_for_attempt_def)
qed

lemma refused_mirror:
  assumes r: "resolve_thread_create (au_persist a) commit = (p, Inl err)" and "mirrors a"
  shows "mirrors (a\<lparr>au_persist := p\<rparr>)"
  using assms
  by (auto simp: resolve_thread_create_def try_in_def ok_or_def Let_def split: option.splits if_splits)

lemma mirrors_resolve:
  "mirrors a \<Longrightarrow> mirrors (fst (authority_resolve_create (fake_ports b k e) draw a reservation resolution))"
  unfolding authority_resolve_create_def Let_def fake_ports_def fake_port_def
  by (auto intro!: mirrors_try mirrors_persist elim!: refused_mirror) (rule resolved_mirror, assumption+, simp)

lemma mirrors_quarantined:
  "mirrors a \<Longrightarrow> mirrors (fst (authority_resolve_quarantined (fake_ports b k e) draw a reservation resolution))"
  unfolding authority_resolve_quarantined_def Let_def fake_ports_def fake_port_def
  by (auto intro!: mirrors_try mirrors_persist elim!: refused_mirror) (rule resolved_mirror, assumption+, simp)

lemma claim_for_attempt_insert:
  assumes ok: "claims_ok s" "claims_ok s'" and s': "fp_claims s' = bt_insert q c (fp_claims s)"
    and new: "bt_get (fp_claims s) q = None"
  shows "claim_for_attempt s' a = (if a = pc_attempt_id c then Some c else claim_for_attempt s a)"
proof (rule option_ext)
  fix d
  have kept: "(\<exists>r. bt_get (fp_claims s') r = Some d \<and> pc_attempt_id d = a)
      \<longleftrightarrow> d = c \<and> pc_attempt_id d = a \<or> (\<exists>r. bt_get (fp_claims s) r = Some d \<and> pc_attempt_id d = a)"
  proof -
    have "bt_get (fp_claims s') r = Some d \<longleftrightarrow> r = q \<and> d = c \<or> bt_get (fp_claims s) r = Some d" for r
      unfolding s' using new by (cases "r = q") auto
    then show ?thesis by metis
  qed
  have "d = c" if "bt_get (fp_claims s) r = Some d" "pc_attempt_id d = pc_attempt_id c" for r
  proof -
    have "r \<noteq> q" using that(1) new by auto
    with that(1) s' have "bt_get (fp_claims s') r = Some d" "bt_get (fp_claims s') q = Some c" by simp_all
    with claims_ok_unique [OF ok(2)] that(2) \<open>r \<noteq> q\<close> show ?thesis by blast
  qed
  then show "claim_for_attempt s' a = Some d
      \<longleftrightarrow> (if a = pc_attempt_id c then Some c else claim_for_attempt s a) = Some d"
    unfolding claim_for_attempt_iff [OF ok(2)] kept by (auto simp: claim_for_attempt_iff [OF ok(1)])
qed

lemma admit_claim_outcome:
  assumes "admit_claim b entropy s admission attachment = (s', r)"
  shows "s' = s \<and> (\<forall>record'. r = Inr record' \<longrightarrow> am_outcome record' = AO_ExactReplay)
    \<or> (\<exists>payload_ref.
        r = Inr \<lparr>am_outcome = AO_Admitted, am_attempt_id = pt_attempt_id attachment,
              am_verifier_ref = pt_verifier_ref attachment, am_payload_ref = payload_ref\<rparr>
        \<and> bt_get (fp_claims s) (cl_request_id admission) = None
        \<and> s' = s\<lparr>fp_claims := bt_insert (cl_request_id admission)
              \<lparr>pc_attempt_id = pt_attempt_id attachment, pc_request_id = cl_request_id admission,
               pc_arm_id = cl_arm_id admission, pc_generation = cl_generation admission,
               pc_signal_id = cl_signal_id admission, pc_event_refs = cl_event_refs admission,
               pc_claim_digest = cl_claim_digest admission, pc_payload_ref = payload_ref,
               pc_claimed_at = cl_claimed_at admission, pc_coverage = cl_coverage admission,
               pc_drain_witness = cl_drain_witness admission\<rparr> (fp_claims s),
            fp_payloads := bt_insert payload_ref (cl_payload admission) (fp_payloads s),
            fp_claim_attempts := bt_insert (cl_request_id admission) (pt_attempt_id attachment) (fp_claim_attempts s),
            fp_attachments := bt_insert (pt_attempt_id attachment) attachment (fp_attachments s),
            fp_attempt_seq := saturating_add (fp_attempt_seq s) 1\<rparr>)"
  using assms
  by (auto simp: admit_claim_def try_in_def ok_or_def Let_def split: if_splits option.splits)

lemma checked_saturating: "checked_add n m = Some k \<Longrightarrow> saturating_add n m = k"
  by (auto simp: checked_add_def saturating_add_def split: if_splits)

lemma mirrors_admitted:
  assumes m: "mirrors a" and ok: "claims_ok (au_persist a)"
    and r: "admit_claim b entropy (au_persist a) admission attachment = (p, Inr record')"
    and new: "am_outcome record' \<noteq> AO_ExactReplay" and seq: "checked_add (au_attempt_seq a) 1 = Some n"
    and c: "claim = \<lparr>pc_attempt_id = pt_attempt_id attachment, pc_request_id = cl_request_id admission,
        pc_arm_id = cl_arm_id admission, pc_generation = cl_generation admission,
        pc_signal_id = cl_signal_id admission, pc_event_refs = cl_event_refs admission,
        pc_claim_digest = cl_claim_digest admission, pc_payload_ref = am_payload_ref record',
        pc_claimed_at = cl_claimed_at admission, pc_coverage = cl_coverage admission,
        pc_drain_witness = cl_drain_witness admission\<rparr>"
    and id: "attempt_id = pt_attempt_id attachment"
  shows "mirrors (a\<lparr>au_persist := p, au_attempt_seq := n,
    au_claims := bt_insert attempt_id claim (au_claims a),
    au_attachments := bt_insert attempt_id attachment (au_attachments a)\<rparr>)"
proof -
  have "claims_ok p"
    using moves_claims_ok [OF admit_moves ok, of b entropy admission attachment] r by simp
  from admit_claim_outcome [OF r] new obtain payload_ref where
      rec: "am_payload_ref record' = payload_ref"
    and q: "bt_get (fp_claims (au_persist a)) (cl_request_id admission) = None"
    and p: "fp_claims p = bt_insert (cl_request_id admission) claim (fp_claims (au_persist a))"
      "fp_attachments p = bt_insert (pt_attempt_id attachment) attachment (fp_attachments (au_persist a))"
      "fp_attempt_seq p = saturating_add (fp_attempt_seq (au_persist a)) 1"
      "fp_arms p = fp_arms (au_persist a)" "fp_births p = fp_births (au_persist a)"
      "fp_ownership p = fp_ownership (au_persist a)"
    by (auto simp: c)
  from claim_for_attempt_insert [OF ok \<open>claims_ok p\<close> p(1) q] m checked_saturating [OF seq] p show ?thesis
    by (simp add: mirrors_def c id tree_simps)
qed

lemma mirrors_admit:
  assumes "mirrors a" and "claims_ok (au_persist a)"
  shows "mirrors (fst (authority_admit_claim (fake_ports b k e) b' pt draw a request))"
proof -
  have err: "mirrors (a\<lparr>au_persist := p\<rparr>)"
    if "admit_claim b entropy (au_persist a) admission attachment = (p, Inl e)" for entropy admission attachment p e
    using admit_claim_outcome [OF that] assms(1) by auto
  have replay: "mirrors (a\<lparr>au_persist := p\<rparr>)"
    if "admit_claim b entropy (au_persist a) admission attachment = (p, Inr record')"
      "am_outcome record' = AO_ExactReplay" for entropy admission attachment p record'
    using admit_claim_outcome [OF that(1)] that(2) assms(1) by auto
  show ?thesis
    unfolding authority_admit_claim_def Let_def fake_ports_def fake_port_def
    using assms
    by (auto intro!: mirrors_try mirrors_persist split: prod.splits)
      (rule err, assumption | rule replay, assumption, assumption
        | rule mirrors_admitted, assumption, assumption, assumption, assumption, assumption, simp, simp)+
qed

lemma recover_snapshot:
  assumes "recover_authority_state b entropy s = (s', Inr snapshot)"
  shows "snapshot = snapshot_of s'"
  using assms by (auto simp: recover_authority_state_def Let_def result_simps
      split: prod.splits sum.splits if_splits)

lemma mirrors_restart:
  assumes r: "authority_recover (fake_ports b k e) (daemon_authority_new s now) = (a', Inr recovery)"
    and ok: "claims_ok s" "keyed s"
  shows "mirrors a'"
proof -
  obtain p snapshot where rec: "recover_authority_state b (snd e) s = (p, Inr snapshot)"
    and a': "au_persist a' = p"
      "au_arms a' = bt_of_list (map (\<lambda>r. (pm_arm_id r, r)) (sn_arms snapshot))"
      "au_births a' = bt_of_list (map (\<lambda>b. (br_birth_id b, b)) (sn_controller_births snapshot))"
      "au_ownership a' = bt_of_list (map (\<lambda>r. (po_birth_id r, po_state r)) (sn_ownership snapshot))"
      "au_claims a' = bt_of_list (map (\<lambda>r. (pc_attempt_id r, r)) (sn_claims snapshot))"
      "au_attachments a' = bt_of_list (map (\<lambda>r. (pt_attempt_id r, r)) (sn_attachments snapshot))"
      "au_attempt_seq a' = sn_attempt_seq snapshot"
    using r by (auto simp: authority_recover_def Let_def result_simps daemon_authority_new_def fake_ports_def
        fake_port_def split: prod.splits if_splits)
  have moved: "store_moves_star b s p" using recover_moves [of b s "snd e"] rec by simp
  then have kept: "claims_ok p" "keyed p"
    using ok by (induction rule: rtranclp_induct) (auto dest: moves_claims_ok moves_keyed)
  note snapshot = recover_snapshot [OF rec]
  have arms: "au_arms a' = fp_arms p"
    using kept(2) by (simp add: a' snapshot snapshot_of_def) (rule bt_of_values, simp add: keyed_def)
  have births: "au_births a' = fp_births p"
    using kept(2) by (simp add: a' snapshot snapshot_of_def) (rule bt_of_values, simp add: keyed_def)
  have attachments: "au_attachments a' = fp_attachments p"
    using kept(2) by (simp add: a' snapshot snapshot_of_def) (rule bt_of_values, simp add: keyed_def)
  have ownership: "au_ownership a' = fp_ownership p"
    by (simp add: a' snapshot snapshot_of_def export_ownership_def comp_def case_prod_unfold bt_of_entries)
  have "bt_get (au_claims a') attempt_id = claim_for_attempt p attempt_id" for attempt_id
  proof (rule option_ext)
    fix c
    have "inj_on pc_attempt_id (set (bt_values (fp_claims p)))"
    proof (rule inj_onI)
      fix c d assume "c \<in> set (bt_values (fp_claims p))" "d \<in> set (bt_values (fp_claims p))"
        and same: "pc_attempt_id c = pc_attempt_id d"
      then obtain q r where c: "bt_get (fp_claims p) q = Some c" and d: "bt_get (fp_claims p) r = Some d"
        by (auto simp: tree_simps)
      from claims_ok_unique [OF kept(1) c d] same c d show "c = d" by simp
    qed
    then show "bt_get (au_claims a') attempt_id = Some c \<longleftrightarrow> claim_for_attempt p attempt_id = Some c"
      unfolding claim_for_attempt_iff [OF kept(1)]
      by (auto simp: a' snapshot snapshot_of_def bt_of_rows tree_simps)
  qed
  with arms births ownership attachments show ?thesis
    by (simp add: mirrors_def a' snapshot snapshot_of_def)
qed

section \<open>Runs\<close>

definition authority_ok :: "FakePersist DaemonAuthority \<Rightarrow> bool" where
  "authority_ok a \<longleftrightarrow> mirrors a \<and> claims_ok (au_persist a) \<and> keyed (au_persist a)"

lemma authority_ok_new: "authority_ok (daemon_authority_new (fake_persist_default key) now)"
proof -
  have "claim_for_attempt (fake_persist_default key) attempt_id = None" for attempt_id
    by (simp add: claim_for_attempt_def fake_persist_default_def bt_eval)
  then have "mirrors (daemon_authority_new (fake_persist_default key) now)"
    by (simp add: mirrors_def daemon_authority_new_def fake_persist_default_def)
  moreover have "au_persist (daemon_authority_new s now) = s" for s :: FakePersist
    by (simp add: daemon_authority_new_def)
  ultimately show ?thesis by (simp add: authority_ok_def claims_ok_default keyed_default)
qed

lemma authority_ok_step:
  assumes "authority_ok a" and "authority_step (fake_ports b k) b' pt a a'"
  shows "authority_ok a'"
proof -
  from assms(1) have m: "mirrors a" and c: "claims_ok (au_persist a)" and y: "keyed (au_persist a)"
    by (simp_all add: authority_ok_def)
  have "store_runs_to b k (au_persist a) (au_persist a')"
    using assms(2) by (rule stored.authority_step_moves)
  then have "claims_ok (au_persist a')" "keyed (au_persist a')"
    using run_claims_ok [OF c] run_keyed [OF y] by (auto simp: store_runs_to_def)
  moreover from assms(2) have "mirrors a'"
  proof cases
    case restart
    with mirrors_restart c y show ?thesis by blast
  qed (use m c y mirrors_clock mirrors_register mirrors_revoke mirrors_reserve mirrors_resolve mirrors_quarantined
      mirrors_admit mirrors_turned [OF tables.prepare_turned] mirrors_turned [OF tables.authorize_turned]
      mirrors_turned [OF tables.conclude_turned] mirrors_turned [OF tables.observe_turned]
      mirrors_turned [OF tables.reconcile_turned] in \<open>auto\<close>)
  ultimately show ?thesis by (simp add: authority_ok_def)
qed

lemma run_authority_ok:
  assumes "coordinator_run (fake_ports b k) b' pt c ops = (Some c', out)" and "authority_ok (ho_authority c)"
  shows "authority_ok (ho_authority c')"
  by (rule coordinator_run_keeps [where I = authority_ok, OF _ assms(2,1)]) (rule authority_ok_step)

end
