(* ===== verification/Authority_Properties.thy ===== *)
theory Authority_Properties
  imports Authority_Mirror
begin

text \<open>
  What the authority and its coordinator promise over every run on the store, restarts included:
  one native command per attempt, phases backed by durable records, caches equal to the store,
  and commands that a controller of the same birth accepts.
\<close>

section \<open>The slots of the coordinator\<close>

definition slots :: "'p HostCoordinator \<Rightarrow>
    PreparedDispatch option \<times> PreparedDispatch option \<times> ObservationScope option \<times> ReconciliationScope option" where
  "slots c = (ho_probing c, ho_writing c, ho_observing c, ho_reconciling c)"

text \<open>What a step can do to the slots, with the call of the authority that did it.\<close>

inductive slots_step ::
  "('e \<Rightarrow> 'p persist_port) \<Rightarrow> 'p HostCoordinator \<Rightarrow> 'p HostCoordinator \<Rightarrow> bool" for port c c' where
  kept: "slots_step port c c'" if "slots c' = slots c"
| prepared: "slots_step port c c'"
  if "ho_probing c = None" and "ho_writing c = None"
    and "prepare_handle_claimed_signal (port e) d1 d2 (ho_authority c) receipt = (ho_authority c', Inr (prepared, scope))"
    and "slots c' = (Some prepared, None, ho_observing c, ho_reconciling c)"
| probed: "slots_step port c c'" if "slots c' = (None, ho_writing c, ho_observing c, ho_reconciling c)"
| authorized: "slots_step port c c'"
  if "ho_probing c = Some prepared"
    and "authority_authorize_probe (port e) (ho_authority c) prepared result = (ho_authority c', Inr (PA_Ready granted))"
    and "slots c' = (None, Some (aw_prepared granted), ho_observing c, ho_reconciling c)"
| failed: "slots_step port c c'" if "slots c' = (ho_probing c, None, ho_observing c, ho_reconciling c)"
| concluded: "slots_step port c c'"
  if "ho_writing c = Some prepared"
    and "authority_conclude_write (port e) d1 d2 (ho_authority c) prepared disposition = (ho_authority c', Inr conclusion)"
    and "slots c' = (ho_probing c, None, cn_observation_scope conclusion, cn_reconciliation_scope conclusion)"
| observed: "slots_step port c c'"
  if "ho_observing c = Some scope"
    and "record_exact_observation (port e) draw (ho_authority c) scope fact' = (ho_authority c', Inr record')"
    and "slots c' = (ho_probing c, ho_writing c,
      if is_terminal_fact fact' \<or> xo_reconciliation record' \<noteq> None then None else Some scope,
      xo_reconciliation record')"
| reconciled: "slots_step port c c'"
  if "ho_reconciling c = Some scope"
    and "authority_record_reconciliation (port e) draw (ho_authority c) scope disposition' = (ho_authority c', Inr (write, phase))"
    and "slots c' = (ho_probing c, ho_writing c,
      (case phase of RP_Observing scope \<Rightarrow> Some scope | _ \<Rightarrow> ho_observing c),
      (case phase of RP_Reconciling \<Rightarrow> Some scope | _ \<Rightarrow> None))"
| restarted: "slots_step port c c'"
  if "coordinator_recover (port e) (daemon_authority_new (persisted c) now) = Inr c'"

lemma on_authority_slots:
  "(\<And>c' x. slots (fst (f c' x)) = slots c') \<Longrightarrow> slots (fst (on_authority c call f)) = slots c"
  by (auto simp: on_authority_def slots_def split: prod.splits sum.splits)

lemma coordinator_step_slots:
  assumes "coordinator_step port b pt c op = (Some c', out)"
  shows "slots_step port c c'"
proof -
  obtain e call where op: "op = (e, call)" by fastforce
  show ?thesis
  proof (cases call)
    case (CO_Prepare d1 d2 receipt)
    with assms op show ?thesis
      by (auto simp: coordinator_prepare_def on_authority_def slots_def
          intro: slots_step.kept slots_step.prepared split: if_splits prod.splits sum.splits)
  next
    case (CO_Authorize result)
    with assms op show ?thesis
      by (auto simp: coordinator_authorize_probe_def try_in_def ok_or_def on_authority_def slots_def
          intro: slots_step.kept slots_step.probed slots_step.authorized
          split: option.splits prod.splits sum.splits ProbeAuthorization.splits)
  next
    case (CO_Conclude d1 d2 disposition)
    with assms op show ?thesis
      by (auto simp: coordinator_conclude_write_def try_in_def ok_or_def on_authority_def slots_def
          intro: slots_step.kept slots_step.failed slots_step.concluded
          split: option.splits prod.splits sum.splits)
  next
    case (CO_Poll draw answer)
    with assms op show ?thesis
      by (auto simp: poll_and_record_exact_def on_authority_def slots_def
          intro: slots_step.kept slots_step.observed split: option.splits prod.splits sum.splits)
  next
    case (CO_Reconcile draw answer)
    with assms op show ?thesis
      by (auto simp: reconcile_and_record_def on_authority_def slots_def
          intro: slots_step.kept slots_step.reconciled
          split: option.splits prod.splits sum.splits ReconciliationPhase.splits)
  next
    case (CO_Restart now)
    with assms op show ?thesis by (auto intro: slots_step.restarted split: sum.splits)
  next
    case (CO_SetNow now)
    with assms op show ?thesis by (auto simp: coordinator_set_now_def slots_def intro: slots_step.kept)
  qed (use assms op in \<open>auto simp: coordinator_reserve_birth_def coordinator_resolve_create_def
      coordinator_resolve_quarantined_def coordinator_admit_def on_authority_slots
      intro!: slots_step.kept\<close>)
qed

section \<open>Evidence references\<close>

definition refs_ok :: "FakePersist \<Rightarrow> bool" where
  "refs_ok s \<longleftrightarrow> (\<forall>a r. bt_get (fp_write_evidence_refs s) a = Some r \<longrightarrow>
     (\<exists>evidence. bt_get (fp_write_evidence s) a = Some evidence))
     \<and> (\<forall>a row. bt_get (fp_reservations s) a = Some row \<longrightarrow> tc_attempt_id (nr_correlation row) = a)"

definition refs_le :: "FakePersist \<Rightarrow> FakePersist \<Rightarrow> bool" where
  "refs_le s s' \<longleftrightarrow> (\<forall>a r. bt_get (fp_write_evidence_refs s) a = Some r \<longrightarrow>
     bt_get (fp_write_evidence_refs s') a = Some r)"

lemma moves_refs: "store_moves b s s' \<Longrightarrow> refs_ok s \<Longrightarrow> refs_ok s' \<and> refs_le s s'"
  by (induction rule: store_moves.induct)
    (auto simp: refs_ok_def refs_le_def tree_simps update_helper_grant_def conclude_reservation_def bind_turn_ref_def
      split: option.splits)

lemma run_refs: "refs_ok s \<Longrightarrow> refs_ok (store_run b k s ops) \<and> refs_le s (store_run b k s ops)"
  using store_run_grows [where I = refs_ok and R = refs_le and b = b and k = k and s = s and ops = ops]
    store_run_keeps [where I = refs_ok and b = b and k = k and s = s and ops = ops] moves_refs
  by (auto simp: refs_le_def)

text \<open>A dispatch that the store has reserved, and a scope whose evidence the store has recorded.\<close>

definition dispatch_reserved :: "FakePersist \<Rightarrow> PersistedTurnCorrelation \<Rightarrow> bool" where
  "dispatch_reserved s correlation \<longleftrightarrow>
     (\<exists>row. bt_get (fp_reservations s) (tc_attempt_id correlation) = Some row
        \<and> same_dispatch (nr_correlation row) correlation)"

definition scope_backed :: "FakePersist \<Rightarrow> PersistedTurnCorrelation \<Rightarrow> bytes \<Rightarrow> bool" where
  "scope_backed s correlation evidence_ref \<longleftrightarrow> dispatch_reserved s correlation
     \<and> bt_get (fp_write_evidence_refs s) (tc_attempt_id correlation) = Some evidence_ref"

lemma same_dispatch_turn [simp]:
  "same_dispatch d (c\<lparr>tc_turn_ref := t\<rparr>) = same_dispatch d c"
  by (simp add: same_dispatch_def)

lemma same_dispatch_trans: "same_dispatch c d \<Longrightarrow> same_dispatch d e \<Longrightarrow> same_dispatch c e"
  by (simp add: same_dispatch_def)

lemma same_dispatch_sym: "same_dispatch c d \<Longrightarrow> same_dispatch d c"
  by (simp add: same_dispatch_def)

lemma same_dispatch_attempt: "same_dispatch c d \<Longrightarrow> tc_attempt_id c = tc_attempt_id d"
  unfolding same_dispatch_def by (drule arg_cong [where f = tc_attempt_id]) simp

lemma dispatch_reserved_le: "dispatch_reserved s c \<Longrightarrow> reserved_le s s' \<Longrightarrow> dispatch_reserved s' c"
  unfolding dispatch_reserved_def reserved_le_def reservation_le_def
  by (meson same_dispatch_sym same_dispatch_trans)

lemma scope_backed_le: "scope_backed s c r \<Longrightarrow> reserved_le s s' \<Longrightarrow> refs_le s s' \<Longrightarrow> scope_backed s' c r"
  using dispatch_reserved_le by (auto simp: scope_backed_def refs_le_def)

lemma backed_turn [simp]:
  "dispatch_reserved s (c\<lparr>tc_turn_ref := t\<rparr>) = dispatch_reserved s c"
  "scope_backed s (c\<lparr>tc_turn_ref := t\<rparr>) r = scope_backed s c r"
  by (simp_all add: dispatch_reserved_def scope_backed_def)

lemma evidence_backed:
  assumes "record_native_write_evidence s commit = (s', Inr w)"
  shows "scope_backed s' (ec_correlation commit) (ec_evidence_ref commit)"
  using assms
  by (auto simp: record_native_write_evidence_def Let_def result_simps scope_backed_def dispatch_reserved_def
      same_dispatch_def conclude_reservation_def tree_simps split: if_splits option.splits)

lemma bind_backed [simp]: "scope_backed s (bind_disposition disposition c) r = scope_backed s c r"
  by (cases disposition) (auto split: option.splits)

section \<open>Phases\<close>

definition phases_ok :: "FakePersist HostCoordinator \<Rightarrow> bool" where
  "phases_ok c \<longleftrightarrow> (let s = persisted c in
     (ho_probing c = None \<or> ho_writing c = None) \<and> (ho_observing c = None \<or> ho_reconciling c = None)
     \<and> (case ho_writing c of None \<Rightarrow> True | Some prepared \<Rightarrow> dispatch_reserved s (pq_correlation prepared))
     \<and> (case ho_observing c of None \<Rightarrow> True
        | Some scope \<Rightarrow> scope_backed s (os_correlation scope) (os_evidence_ref scope))
     \<and> (case ho_reconciling c of None \<Rightarrow> True
        | Some scope \<Rightarrow> scope_backed s (rs_correlation scope) (rs_native_write_evidence_ref scope)))"

text \<open>The parts of the invariant, as a statement on the slots.\<close>

definition slots_ok :: "FakePersist \<Rightarrow> PreparedDispatch option \<times> PreparedDispatch option
    \<times> ObservationScope option \<times> ReconciliationScope option \<Rightarrow> bool" where
  "slots_ok s sl \<longleftrightarrow> (case sl of (probing, writing, observing, reconciling) \<Rightarrow>
     (probing = None \<or> writing = None) \<and> (observing = None \<or> reconciling = None)
     \<and> (\<forall>prepared. writing = Some prepared \<longrightarrow> dispatch_reserved s (pq_correlation prepared))
     \<and> (\<forall>scope. observing = Some scope \<longrightarrow> scope_backed s (os_correlation scope) (os_evidence_ref scope))
     \<and> (\<forall>scope. reconciling = Some scope \<longrightarrow>
          scope_backed s (rs_correlation scope) (rs_native_write_evidence_ref scope)))"

lemma phases_slots: "phases_ok c \<longleftrightarrow> slots_ok (persisted c) (slots c)"
  by (auto simp: phases_ok_def slots_ok_def slots_def Let_def split: option.splits)

lemma slots_ok_le: "slots_ok s sl \<Longrightarrow> reserved_le s s' \<Longrightarrow> refs_le s s' \<Longrightarrow> slots_ok s' sl"
  by (auto simp: slots_ok_def dest: dispatch_reserved_le scope_backed_le)

lemma granted_reserved:
  assumes "authority_authorize_probe (fake_ports b k e) a prepared result = (a', Inr (PA_Ready granted))"
  shows "dispatch_reserved (au_persist a') (pq_correlation (aw_prepared granted))"
proof (rule authorize_ready_elim [OF assms])
  fix binding probe_id epoch observed_at p reservation
  assume "ps_reserve_native_turn_write (fake_ports b k e) (au_persist a)
      (idle_permit prepared epoch probe_id observed_at) (pq_correlation prepared) = (p, Inr reservation)"
    and "a' = a\<lparr>au_persist := p\<rparr>" and "aw_prepared granted = prepared"
  then show ?thesis
    by (auto simp: fake_ports_def fake_port_def dispatch_reserved_def same_dispatch_def
        reserve_native_turn_write_def result_simps idle_permit_def Let_def split: if_splits)
qed

lemma stored_le:
  assumes "store_runs_to b k s s'" and "refs_ok s"
  shows "reserved_le s s'" and "refs_le s s'" and "refs_ok s'"
  using assms run_reserved_le run_refs by (auto simp: store_runs_to_def)

lemma turn_fact_runs:
  "record_native_turn_fact s commit = (s', r) \<Longrightarrow> store_runs_to b k s s'"
  using store_runs_to_step [of b k s "Op_TurnFact commit"] by simp

lemma evidence_runs:
  "record_native_write_evidence s commit = (s', r) \<Longrightarrow> store_runs_to b k s s'"
  using store_runs_to_step [of b k s "Op_WriteEvidence commit"] by simp

lemma fact_keeps_scope:
  assumes "record_native_turn_fact s commit = (s', r)" and "refs_ok s" and "scope_backed s c ref"
  shows "scope_backed s' c ref"
  using stored_le [OF turn_fact_runs [OF assms(1)] assms(2)] scope_backed_le [OF assms(3)] by blast

lemma concluded_scopes:
  assumes "authority_conclude_write (fake_ports b k e) d1 d2 a prepared disposition = (a', Inr conclusion)"
    and "refs_ok (au_persist a)"
  shows "slots_ok (au_persist a') (None, None, cn_observation_scope conclusion, cn_reconciliation_scope conclusion)"
proof -
  have after: "scope_backed s' (ec_correlation commit) (ec_evidence_ref commit) \<and> refs_ok s'"
    if "record_native_write_evidence (au_persist a) commit = (s', Inr w)" for commit s' w
    using evidence_backed [OF that] stored_le [OF evidence_runs [OF that] assms(2)] by blast
  show ?thesis
    using assms(1)
    by (auto simp: authority_conclude_write_def Let_def result_simps fake_ports_def fake_port_def slots_ok_def
        observed_disposition_def dest!: after fact_keeps_scope
        split: NativeWriteDisposition.splits option.splits if_splits)
qed

lemma reconciled_scope:
  assumes "authority_record_reconciliation port draw a scope disposition = (a', Inr (write, RP_Observing next'))"
  shows "os_evidence_ref next' = rs_native_write_evidence_ref scope
    \<and> (\<exists>t. os_correlation next' = (rs_correlation scope)\<lparr>tc_turn_ref := t\<rparr>)"
proof -
  from assms obtain d where d: "disposition = Inr d"
    by (cases disposition) (auto simp: authority_record_reconciliation_def or_error_def)
  show ?thesis
    using assms
    by (cases d) (auto simp: d authority_record_reconciliation_def or_error_def Let_def result_simps)
qed

lemma observed_scope:
  "record_exact_observation port draw a scope fact' = (a', Inr record') \<Longrightarrow> xo_reconciliation record' = Some next'
    \<Longrightarrow> next' = \<lparr>rs_correlation = os_correlation scope, rs_native_write_evidence_ref = os_evidence_ref scope\<rparr>"
  by (auto simp: record_exact_observation_def result_simps split: if_splits)

lemma map_filter_mem: "y \<in> set (List.map_filter f xs) \<longleftrightarrow> (\<exists>x \<in> set xs. f x = Some y)"
  by (induction xs) (auto simp: List.map_filter_simps split: option.splits)

lemma evidence_row_backed:
  assumes "refs_ok s" and "row \<in> set (write_evidence_rows s)"
  shows "scope_backed s (ne_correlation row) (ne_evidence_ref row)"
  using assms
  by (auto simp: write_evidence_rows_def map_filter_mem scope_backed_def dispatch_reserved_def same_dispatch_def
      refs_ok_def split: option.splits)

lemma followup_backed:
  assumes "scope_backed s (ne_correlation row) (ne_evidence_ref row)"
  shows "followup_scope reconciliations turn_facts row = Some (FS_Observe scope)
      \<Longrightarrow> scope_backed s (os_correlation scope) (os_evidence_ref scope)"
    and "followup_scope reconciliations turn_facts row = Some (FS_Reconcile scope')
      \<Longrightarrow> scope_backed s (rs_correlation scope') (rs_native_write_evidence_ref scope')"
  using assms
  by (auto simp: followup_scope_def Let_def
      split: if_splits option.splits NativeWriteEvidence.splits ReconciliationDisposition.splits)

lemma followup_parts:
  "set (List.map_filter (\<lambda>s. case s of FS_Observe scope \<Rightarrow> Some scope | _ \<Rightarrow> None) xs) = {scope. FS_Observe scope \<in> set xs}"
  "set (List.map_filter (\<lambda>s. case s of FS_Reconcile scope \<Rightarrow> Some scope | _ \<Rightarrow> None) xs) = {scope. FS_Reconcile scope \<in> set xs}"
  by (induction xs) (auto simp: List.map_filter_simps split: FollowupScope.splits)

lemma followup_rows:
  assumes "recovery_followup_scopes snapshot = Inr (observing, reconciling)"
  obtains reconciliations turn_facts where
    "set observing = {scope. \<exists>row \<in> set (sn_native_write_evidence snapshot).
       followup_scope reconciliations turn_facts row = Some (FS_Observe scope)}"
    "set reconciling = {scope. \<exists>row \<in> set (sn_native_write_evidence snapshot).
       followup_scope reconciliations turn_facts row = Some (FS_Reconcile scope)}"
proof -
  let ?r = "bt_of_list (map (\<lambda>r. (rl_attempt_id r, rl_disposition r)) (sn_reconciliations snapshot))"
  let ?t = "bt_of_list (map (\<lambda>r. (nf_attempt_id r, nf_facts r)) (sn_native_turn_facts snapshot))"
  let ?s = "List.map_filter (followup_scope ?r ?t) (sn_native_write_evidence snapshot)"
  from assms have "observing = List.map_filter (\<lambda>s. case s of FS_Observe scope \<Rightarrow> Some scope | _ \<Rightarrow> None) ?s"
      "reconciling = List.map_filter (\<lambda>s. case s of FS_Reconcile scope \<Rightarrow> Some scope | _ \<Rightarrow> None) ?s"
    by (simp_all add: recovery_followup_scopes_def Let_def split: if_splits)
  then have "set observing = {scope. FS_Observe scope \<in> set ?s}"
      "set reconciling = {scope. FS_Reconcile scope \<in> set ?s}"
    by (simp_all only: followup_parts)
  then show thesis by (intro that [of ?r ?t]) (simp_all add: map_filter_mem)
qed

lemma restarted_slots:
  assumes r: "coordinator_recover (fake_ports b k e) (daemon_authority_new s now) = Inr c" and "refs_ok s"
  shows "slots_ok (persisted c) (slots c)"
proof -
  obtain a recovery where a: "authority_recover (fake_ports b k e) (daemon_authority_new s now) = (a, Inr recovery)"
    and short: "length (ay_observation_scopes recovery) + length (ay_reconciliation_scopes recovery) \<le> 1"
    and c: "c = \<lparr>ho_authority = a, ho_probing = None, ho_writing = None,
        ho_observing = vec_pop (ay_observation_scopes recovery),
        ho_reconciling = vec_pop (ay_reconciliation_scopes recovery)\<rparr>"
    using r by (auto simp: coordinator_recover_def Let_def split: prod.splits sum.splits if_splits)
  obtain p snapshot where rec: "recover_authority_state b (snd e) s = (p, Inr snapshot)"
    and p: "au_persist a = p"
    and scopes: "recovery_followup_scopes snapshot
      = Inr (ay_observation_scopes recovery, ay_reconciliation_scopes recovery)"
    using a by (auto simp: authority_recover_def Let_def result_simps daemon_authority_new_def fake_ports_def
        fake_port_def split: prod.splits if_splits)
  have "refs_ok p"
    using stored_le(3) [OF store_runs_to_step [of b undefined s "Op_Recover (snd e)"] assms(2)] rec by simp
  then have rows: "scope_backed p (ne_correlation row) (ne_evidence_ref row)"
    if "row \<in> set (sn_native_write_evidence snapshot)" for row
    using that evidence_row_backed by (auto simp: recover_snapshot [OF rec] snapshot_of_def)
  obtain reconciliations turn_facts where
      o: "set (ay_observation_scopes recovery) = {scope. \<exists>row \<in> set (sn_native_write_evidence snapshot).
        followup_scope reconciliations turn_facts row = Some (FS_Observe scope)}"
    and q: "set (ay_reconciliation_scopes recovery) = {scope. \<exists>row \<in> set (sn_native_write_evidence snapshot).
        followup_scope reconciliations turn_facts row = Some (FS_Reconcile scope)}"
    by (rule followup_rows [OF scopes])
  have obs: "scope_backed p (os_correlation scope) (os_evidence_ref scope)"
    if "scope \<in> set (ay_observation_scopes recovery)" for scope
    using that o followup_backed(1) [OF rows] by blast
  have recs: "scope_backed p (rs_correlation scope) (rs_native_write_evidence_ref scope)"
    if "scope \<in> set (ay_reconciliation_scopes recovery)" for scope
    using that q followup_backed(2) [OF rows] by blast
  have "ay_observation_scopes recovery = [] \<or> ay_reconciliation_scopes recovery = []"
    using short by (cases "ay_observation_scopes recovery"; cases "ay_reconciliation_scopes recovery") auto
  then show ?thesis
    using obs recs p by (auto simp: c slots_def slots_ok_def vec_pop_def)
qed

definition coordinator_ok :: "FakePersist HostCoordinator \<Rightarrow> bool" where
  "coordinator_ok c \<longleftrightarrow> refs_ok (persisted c) \<and> slots_ok (persisted c) (slots c)"

lemma coordinator_ok_step:
  assumes ok: "coordinator_ok c" and step: "coordinator_step (fake_ports b k) b' pt c op = (Some c', out)"
  shows "coordinator_ok c'"
proof -
  from ok have r: "refs_ok (persisted c)" and sl: "slots_ok (persisted c) (slots c)"
    by (simp_all add: coordinator_ok_def)
  note le = stored_le [OF stored.step_moves [OF step] r]
  note old = slots_ok_le [OF sl le(1,2)]
  from coordinator_step_slots [OF step] have "slots_ok (persisted c') (slots c')"
  proof cases
    case kept
    with old show ?thesis by simp
  next
    case (prepared e d1 d2 receipt prepared scope)
    with old show ?thesis by (auto simp: slots_ok_def slots_def)
  next
    case probed
    with old show ?thesis by (auto simp: slots_ok_def slots_def)
  next
    case (authorized prepared e result granted)
    with old granted_reserved [OF authorized(2)] show ?thesis by (auto simp: slots_ok_def slots_def)
  next
    case failed
    with old show ?thesis by (auto simp: slots_ok_def slots_def)
  next
    case (concluded prepared e d1 d2 disposition conclusion)
    with old concluded_scopes [OF concluded(2) r] show ?thesis by (auto simp: slots_ok_def slots_def)
  next
    case (observed scope e draw fact' record')
    with old observed_scope [OF observed(2)] show ?thesis
      by (auto simp: slots_ok_def slots_def split: if_splits)
  next
    case (reconciled scope e draw answer result phase)
    show ?thesis
    proof (cases phase)
      case (RP_Observing next')
      from reconciled_scope [OF reconciled(2) [unfolded RP_Observing]] old reconciled(1,3) RP_Observing
      show ?thesis by (auto simp: slots_ok_def slots_def)
    qed (use reconciled(1,3) old in \<open>auto simp: slots_ok_def slots_def\<close>)
  next
    case (restarted e now)
    with restarted_slots [OF restarted] r show ?thesis by blast
  qed
  with le(3) show ?thesis by (simp add: coordinator_ok_def)
qed

lemma coordinator_ok_run:
  "coordinator_run (fake_ports b k) b' pt c ops = (Some c', out) \<Longrightarrow> coordinator_ok c \<Longrightarrow> coordinator_ok c'"
proof (induction ops arbitrary: c out)
  case (Cons op ops)
  from Cons.prems(1) obtain d o1 o2 where step: "coordinator_step (fake_ports b k) b' pt c op = (Some d, o1)"
    and rest: "coordinator_run (fake_ports b k) b' pt d ops = (Some c', o2)"
    by (auto split: prod.splits option.splits)
  from Cons.IH [OF rest coordinator_ok_step [OF Cons.prems(2) step]] show ?case .
qed simp

text \<open>A coordinator over an empty store.\<close>

definition fresh_coordinator :: "bytes \<Rightarrow> instant \<Rightarrow> FakePersist HostCoordinator" where
  "fresh_coordinator key now = host_coordinator_new (daemon_authority_new (fake_persist_default key) now)"

lemma fresh_ok: "coordinator_ok (fresh_coordinator key now)" "authority_ok (ho_authority (fresh_coordinator key now))"
  using authority_ok_new
  by (simp_all add: coordinator_ok_def fresh_coordinator_def host_coordinator_new_def daemon_authority_new_def
      slots_def slots_ok_def refs_ok_def fake_persist_default_def)

section \<open>Granted commands\<close>

definition owned_le :: "FakePersist \<Rightarrow> FakePersist \<Rightarrow> bool" where
  "owned_le s s' \<longleftrightarrow> (\<forall>birth_id create thread_ref.
     bt_get (fp_ownership s) birth_id = Some (OS_Owned create thread_ref)
     \<longrightarrow> bt_get (fp_ownership s') birth_id = Some (OS_Owned create thread_ref))"

lemma owned_final [simp]: "\<not> ownership_transition (OS_Owned create thread_ref) new"
  by simp

lemma moves_owned: "store_moves b s s' \<Longrightarrow> keyed s \<Longrightarrow> owned_le s s'"
proof (induction rule: store_moves.induct)
  case (ownership ownership' refs)
  show ?case
    unfolding owned_le_def
  proof (intro allI impI)
    fix birth_id create thread_ref
    assume "bt_get (fp_ownership s) birth_id = Some (OS_Owned create thread_ref)"
    with ownership(1) [rule_format, of birth_id]
    show "bt_get (fp_ownership (s\<lparr>fp_create_evidence_refs := refs, fp_ownership := ownership'\<rparr>)) birth_id
      = Some (OS_Owned create thread_ref)" by auto
  qed
next
  case (birth birth creates create)
  then show ?case by (auto simp: owned_le_def keyed_def tree_simps)
qed (auto simp: owned_le_def tree_simps update_helper_grant_def conclude_reservation_def bind_turn_ref_def
    split: option.splits)

lemma owned_le_refl [simp]: "owned_le s s"
  by (simp add: owned_le_def)

lemma owned_le_trans: "owned_le s s' \<Longrightarrow> owned_le s' s'' \<Longrightarrow> owned_le s s''"
  by (simp add: owned_le_def)

lemma run_owned: "keyed s \<Longrightarrow> owned_le s (store_run b k s ops)"
  by (rule store_run_grows [where I = keyed and b = b]) (auto intro: moves_keyed moves_owned owned_le_trans)

text \<open>A probing dispatch is for a claim of the store and a thread the store says is owned.\<close>

definition prepared_ok :: "FakePersist \<Rightarrow> PreparedDispatch \<Rightarrow> bool" where
  "prepared_ok s prepared \<longleftrightarrow> (let c = pq_correlation prepared; attachment = pq_attachment prepared in
     tc_attempt_id c = pt_attempt_id attachment \<and> tc_birth_id c = pt_birth_id attachment
     \<and> (\<exists>claim. claim_for_attempt s (tc_attempt_id c) = Some claim \<and> pc_signal_id claim = tc_signal_id c)
     \<and> (\<exists>create. bt_get (fp_ownership s) (tc_birth_id c) = Some (OS_Owned create (tc_thread_ref c))))"

lemma prepared_ok_run:
  assumes "store_runs_to b k s s'" and "prepared_ok s prepared" and "claims_ok s" and "keyed s"
  shows "prepared_ok s' prepared"
proof -
  from assms(1) obtain ops where s': "s' = store_run b k s ops" by (auto simp: store_runs_to_def)
  from assms(2) claim_for_attempt_run [OF assms(3)] run_owned [OF assms(4)] show ?thesis
    unfolding s' prepared_ok_def owned_le_def Let_def by blast
qed

lemma owned_thread_iff [result_simps]:
  "(case x of Some (OS_Owned _ t) \<Rightarrow> Inr t | _ \<Rightarrow> Inl e) = Inr thread_ref
    \<longleftrightarrow> (\<exists>create. x = Some (OS_Owned create thread_ref))"
  by (auto split: option.splits ThreadOwnershipState.splits)

lemma prepare_ok:
  assumes ok: "authority_ok a"
    and p: "prepare_handle_claimed_signal (fake_ports b k e) d1 d2 a receipt = (a', Inr (prepared, scope))"
  shows "prepared_ok (au_persist a') prepared"
proof -
  have "turned same_tables a (prepare_handle_claimed_signal (fake_ports b k e) d1 d2 a receipt)"
    by (rule tables.prepare_turned)
  then have same: "same_tables (au_persist a) (au_persist a')" using p by (auto simp: turned_def)
  from ok have m: "mirrors a" and y: "keyed (au_persist a)" by (simp_all add: authority_ok_def)
  have "prepared_ok (au_persist a) prepared"
    using p m y
    by (auto simp: prepare_handle_claimed_signal_def Let_def result_simps prepared_ok_def mirrors_def keyed_def)
  with same show ?thesis by (simp add: prepared_ok_def same_tables_def claim_for_attempt_def)
qed

definition probing_ok :: "FakePersist HostCoordinator \<Rightarrow> bool" where
  "probing_ok c \<longleftrightarrow> authority_ok (ho_authority c)
     \<and> (\<forall>prepared. ho_probing c = Some prepared \<longrightarrow> prepared_ok (persisted c) prepared)"

lemma probing_ok_step:
  assumes ok: "probing_ok c" and step: "coordinator_step (fake_ports b k) b' pt c op = (Some c', out)"
  shows "probing_ok c'"
proof -
  from ok have a: "authority_ok (ho_authority c)" by (simp add: probing_ok_def)
  have a': "authority_ok (ho_authority c')"
    using authority_ok_step [OF a coordinator_step_authority [OF step]] .
  have old: "prepared_ok (persisted c') prepared" if "ho_probing c = Some prepared" for prepared
    using prepared_ok_run [OF stored.step_moves [OF step]] ok a that by (auto simp: probing_ok_def authority_ok_def)
  from coordinator_step_slots [OF step] have "prepared_ok (persisted c') prepared"
    if "ho_probing c' = Some prepared" for prepared
  proof cases
    case (prepared e d1 d2 receipt prepared' scope)
    with prepare_ok [OF a prepared(3)] that show ?thesis by (simp add: slots_def)
  next
    case (restarted e now)
    with that show ?thesis by (auto simp: coordinator_recover_def Let_def split: prod.splits sum.splits if_splits)
  qed (use old that in \<open>auto simp: slots_def\<close>)
  with a' show ?thesis by (simp add: probing_ok_def)
qed

lemma probing_ok_run:
  "coordinator_run (fake_ports b k) b' pt c ops = (Some c', out) \<Longrightarrow> probing_ok c \<Longrightarrow> probing_ok c'"
proof (induction ops arbitrary: c out)
  case (Cons op ops)
  from Cons.prems(1) obtain d o1 o2 where step: "coordinator_step (fake_ports b k) b' pt c op = (Some d, o1)"
    and rest: "coordinator_run (fake_ports b k) b' pt d ops = (Some c', o2)"
    by (auto split: prod.splits option.splits)
  from Cons.IH [OF rest probing_ok_step [OF Cons.prems(2) step]] show ?case .
qed simp

text \<open>The binding of a birth that its controller holds.\<close>

definition birth_binding :: "PersistedControllerBirth \<Rightarrow> ControllerBirthBinding" where
  "birth_binding birth =
     \<lparr>cb_birth_id = br_birth_id birth, cb_seat_id = br_seat_id birth, cb_arm_id = br_arm_id birth,
      cb_generation = br_generation birth, cb_capability = br_capability birth,
      cb_lease_until = br_lease_until birth, cb_verifier_ref = br_verifier_ref birth\<rparr>"

definition command_sound :: "FakePersist \<Rightarrow> instant \<Rightarrow> ReservedControllerWrite \<Rightarrow> bool" where
  "command_sound s now w \<longleftrightarrow> (let command = rw_command w; correlation = cc_correlation command in
     \<exists>claim birth create.
       claim_for_attempt s (tc_attempt_id correlation) = Some claim
       \<and> sg_signal_id (cc_action command) = pc_signal_id claim
       \<and> bt_get (fp_births s) (tc_birth_id correlation) = Some birth
       \<and> bt_get (fp_ownership s) (tc_birth_id correlation) = Some (OS_Owned create (tc_thread_ref correlation))
       \<and> lease_is_current command (birth_binding birth) now
       \<and> (validate_binding command (birth_binding birth) (tc_thread_ref correlation) now
           \<longleftrightarrow> ca_lease_until (cc_attachment command) \<le> br_lease_until birth)
       \<and> rw_lane w = \<lparr>ig_probe_id = cc_expected_probe_id command, ig_epoch = cc_expected_epoch command\<rparr>)"

lemma capability_single [simp]: "(c :: ManagedCapability) = d"
  by (cases c; cases d) simp

lemma granted_sound:
  assumes ok: "authority_ok a" and p: "prepared_ok (au_persist a) prepared"
    and g: "authority_authorize_probe (fake_ports b k e) a prepared result = (a', Inr (PA_Ready granted))"
  shows "command_sound (au_persist a) (au_now a) \<lparr>rw_lane = aw_lane granted, rw_command = aw_command granted\<rparr>"
proof (rule authorize_ready_elim [OF g])
  fix binding probe_id epoch observed_at p' reservation
  let ?at = "pq_attachment prepared" and ?c = "pq_correlation prepared"
  assume att: "validate_attachment a ?at = Inr ()"
    and lane: "aw_lane granted = \<lparr>ig_probe_id = probe_id, ig_epoch = epoch\<rparr>"
    and r: "ps_reserve_native_turn_write (fake_ports b k e) (au_persist a)
      (idle_permit prepared epoch probe_id observed_at) ?c = (p', Inr reservation)"
    and cmd: "aw_command granted = command_from_reservation (controller_attachment ?at)
      \<lparr>sg_signal_id = tc_signal_id ?c\<rparr> reservation"
  from ok have m: "mirrors a" and y: "keyed (au_persist a)" by (simp_all add: authority_ok_def)
  have res: "reservation = \<lparr>wr_correlation = ?c, wr_probe_id = probe_id, wr_expected_epoch = epoch\<rparr>"
    using r by (auto simp: fake_ports_def fake_port_def reserve_native_turn_write_def result_simps idle_permit_def
        Let_def split: if_splits)
  from att obtain birth where birth: "bt_get (au_births a) (pt_birth_id ?at) = Some birth"
    and leases: "au_now a < pt_lease_until ?at" "au_now a < br_lease_until birth"
    and same: "pt_seat_id ?at = br_seat_id birth" "pt_arm_id ?at = br_arm_id birth"
      "pt_generation ?at = br_generation birth"
    by (auto simp: validate_attachment_def result_simps)
  from birth m y have b: "bt_get (fp_births (au_persist a)) (pt_birth_id ?at) = Some birth"
    and id: "br_birth_id birth = pt_birth_id ?at"
    by (auto simp: mirrors_def keyed_def)
  from p obtain claim create where "claim_for_attempt (au_persist a) (tc_attempt_id ?c) = Some claim"
    "pc_signal_id claim = tc_signal_id ?c" "tc_attempt_id ?c = pt_attempt_id ?at" "tc_birth_id ?c = pt_birth_id ?at"
    "bt_get (fp_ownership (au_persist a)) (tc_birth_id ?c) = Some (OS_Owned create (tc_thread_ref ?c))"
    by (auto simp: prepared_ok_def Let_def)
  with b id leases same lane show ?thesis
    unfolding command_sound_def Let_def
    by (intro exI [of _ claim] exI [of _ birth] exI [of _ create])
      (auto simp: cmd res command_from_reservation_def lease_is_current_def birth_binding_def validate_binding_def
        validate_immutable_binding_def controller_attachment_def)
qed

section \<open>Refused probes\<close>

definition same_writes :: "FakePersist \<Rightarrow> FakePersist \<Rightarrow> bool" where
  "same_writes s s' \<longleftrightarrow>
     (\<forall>a. bt_contains (fp_reservations s') a = bt_contains (fp_reservations s) a)
     \<and> fp_write_evidence s' = fp_write_evidence s"

lemma same_writes_refl [simp]: "same_writes s s"
  by (simp add: same_writes_def)

lemma same_writes_conclude [simp]: "same_writes s (conclude_reservation s attempt_id)"
  by (auto simp: same_writes_def conclude_reservation_def tree_simps split: option.splits)

lemma same_writes_update [simp]:
  "same_writes s (fp_consumed_probes_update h s') = same_writes s s'"
  "same_writes s (fp_prewrite_update i s') = same_writes s s'"
  "same_writes s (fp_active_observations_update j s') = same_writes s s'"
  by (simp_all add: same_writes_def)

lemma same_writes_try [intro!]:
  "(\<And>x. same_writes s (fst (f x))) \<Longrightarrow> same_writes s (fst (try_in s r f))"
  by (cases r) (auto simp: try_in_def)

lemma hold_same_writes: "same_writes s (fst (record_active_hold k s proof'))"
  unfolding record_active_hold_def Let_def by (auto simp: bs_insert_def split: option.splits)

lemma prewrite_same_writes: "same_writes s (fst (record_prewrite_conclusion s commit))"
  unfolding record_prewrite_conclusion_def Let_def by (auto split: option.splits)

lemma reserve_refused: "reserve_native_turn_write s permit correlation = (s', Inl e) \<Longrightarrow> s' = s"
  by (auto simp: reserve_native_turn_write_def try_in_def ok_or_def split: if_splits option.splits)

lemma refused_try:
  "(\<And>x. r = Inr x \<Longrightarrow> P (f x)) \<Longrightarrow> (\<And>e. P (a, Inl e)) \<Longrightarrow> P (try_in a r f)"
  by (cases r) (auto simp: try_in_def)

definition refused_ok :: "FakePersist DaemonAuthority \<Rightarrow> FakePersist DaemonAuthority \<times> (AuthorityError + ProbeAuthorization) \<Rightarrow> bool" where
  "refused_ok a r \<longleftrightarrow> (\<exists>granted. snd r = Inr (PA_Ready granted)) \<or> same_writes (au_persist a) (au_persist (fst r))"

lemma refused_try_in [intro!]:
  "(\<And>x. r = Inr x \<Longrightarrow> refused_ok a (f x)) \<Longrightarrow> refused_ok a (try_in a r f)"
  by (cases r) (auto simp: try_in_def refused_ok_def)

lemma refused_same [intro!]: "refused_ok a (a, r)"
  by (simp add: refused_ok_def)

lemma refused_call:
  assumes "\<And>s. same_writes s (fst (call s))" and "\<And>a x. au_persist (fst (f a x)) = au_persist a"
  shows "refused_ok a (on_persist a call f)"
  using assms(1) [of "au_persist a"] assms(2)
  by (auto simp: on_persist_def refused_ok_def split: prod.splits sum.splits)

lemma refused_grant:
  "refused_ok a (on_persist a (\<lambda>p. reserve_native_turn_write p permit correlation) (\<lambda>a x. (a, Inr (PA_Ready (g x)))))"
  by (auto simp: on_persist_def refused_ok_def dest!: reserve_refused split: prod.splits sum.splits)

lemma authorize_refused: "refused_ok a (authority_authorize_probe (fake_ports b k e) a prepared result)"
  unfolding authority_authorize_probe_def Let_def fake_ports_def fake_port_def
  by (auto intro!: refused_grant refused_call simp: hold_same_writes prewrite_same_writes
      split: IdleProbeResult.splits IdleProbeObservation.splits)

section \<open>Properties\<close>

text \<open>
  C18: one native command per attempt. Over every run of a coordinator on the store, whatever
  tokens, probe results and controller answers it is given, and however often it crashes and
  recovers, the commands it hands out are for pairwise distinct attempts; each was unreserved
  when the run began, and at the end each is durably recorded with its dispatch, probe and epoch.
\<close>

theorem one_native_command_per_attempt:
  "case coordinator_run (fake_ports b k) b' pt c ops of (end_state, commands) \<Rightarrow>
     distinct (map command_attempt commands)
     \<and> list_all (\<lambda>command. \<not> bt_contains (fp_reservations (persisted c)) (command_attempt command)) commands
     \<and> (case end_state of None \<Rightarrow> True
        | Some c' \<Rightarrow> list_all (\<lambda>command. reserved_as (persisted c') (command_reservation command)) commands)"
proof (cases "coordinator_run (fake_ports b k) b' pt c ops")
  case (Pair end_state commands)
  from stored.run_commands [OF Pair] show ?thesis
    by (auto simp: Pair list_all_iff split: option.splits)
qed


text \<open>
  C21: the authority's caches are the store. After every run from an empty store, restarts
  included, the authority's arms, births, ownership, attachments and attempt sequence are the
  store's tables, and its claim of each attempt is the store's claim of that attempt.
\<close>

theorem authority_mirrors_store:
  "case coordinator_run (fake_ports b k) b' pt (fresh_coordinator key now) ops of
     (None, _) \<Rightarrow> True
   | (Some c', _) \<Rightarrow> mirrors (ho_authority c')"
proof (cases "coordinator_run (fake_ports b k) b' pt (fresh_coordinator key now) ops")
  case (Pair end_state commands)
  with run_authority_ok [of b k b' pt _ ops] fresh_ok(2) show ?thesis
    by (cases end_state) (auto simp: authority_ok_def)
qed

text \<open>
  C19: the phases of a coordinator. After every run from an empty store, a coordinator
  never holds both a dispatch to probe and one to write, nor both a scope to observe and one to
  reconcile; a dispatch being written is one
  the store has reserved, and a scope being observed or reconciled is one whose write the store
  has reserved and whose evidence reference is the recorded one.
\<close>

theorem coordinator_phases:
  "case coordinator_run (fake_ports b k) b' pt (fresh_coordinator key now) ops of
     (None, _) \<Rightarrow> True
   | (Some c', _) \<Rightarrow> phases_ok c'"
proof (cases "coordinator_run (fake_ports b k) b' pt (fresh_coordinator key now) ops")
  case (Pair end_state commands)
  with coordinator_ok_run [of b k b' pt _ ops] fresh_ok(1) show ?thesis
    by (cases end_state) (auto simp: coordinator_ok_def phases_slots)
qed

text \<open>
  What a granted command is. When a coordinator that ran from an empty store grants a command,
  its attempt is a claim of the store and its signal that claim's, its thread is the one the
  store says its birth owns, its leases have not run out, its lane is the one its own probe and
  epoch call for; and the controller of that birth finds the command's binding valid exactly if
  the attachment's lease does not outlast the birth's.
\<close>

theorem granted_command_sound:
  assumes run: "coordinator_run (fake_ports b k) b' pt (fresh_coordinator key now) ops = (Some c, out)"
    and granted: "coordinator_authorize_probe (fake_ports b k e) c result = (c', Inr (CP_Ready w))"
  shows "command_sound (persisted c) (au_now (ho_authority c)) w"
proof -
  have "probing_ok c"
    by (rule probing_ok_run [OF run]) (use fresh_ok in
      \<open>simp add: probing_ok_def fresh_coordinator_def host_coordinator_new_def\<close>)
  moreover from granted obtain prepared a' sent where "ho_probing c = Some prepared"
    and auth: "authority_authorize_probe (fake_ports b k e) (ho_authority c) prepared result = (a', Inr (PA_Ready sent))"
    and "w = \<lparr>rw_lane = aw_lane sent, rw_command = aw_command sent\<rparr>"
    by (auto simp: coordinator_authorize_probe_def try_in_def ok_or_def on_authority_def
        split: option.splits prod.splits sum.splits ProbeAuthorization.splits)
  ultimately show ?thesis using granted_sound [OF _ _ auth] by (simp add: probing_ok_def)
qed

text \<open>
  A probe that grants no command starts no sent. Whenever the validation of a probe ends
  otherwise than with a command, by an active or unproven probe or by any error, the store holds
  a reservation for exactly the attempts it held one for, no sent evidence has changed, nothing
  new is being written, and the probed dispatch is gone.
\<close>

theorem refused_probe_writes_nothing:
  "case coordinator_authorize_probe (fake_ports b k e) c result of
     (_, Inr (CP_Ready _)) \<Rightarrow> True
   | (c', _) \<Rightarrow> same_writes (persisted c) (persisted c') \<and> ho_writing c' = ho_writing c \<and> ho_probing c' = None"
proof (cases "ho_probing c")
  case None
  then show ?thesis by (simp add: coordinator_authorize_probe_def)
next
  case (Some prepared)
  with authorize_refused [of "ho_authority c" b k e prepared result] show ?thesis
    by (auto simp: coordinator_authorize_probe_def on_authority_def refused_ok_def
        split: prod.splits sum.splits ProbeAuthorization.splits CoordinatedProbe.splits)
qed

section \<open>Witness\<close>

definition sample_coordinator_ops :: "((bytes option \<times> (string \<Rightarrow> bytes option)) \<times> CoordinatorOp) list" where
  "sample_coordinator_ops = map (\<lambda>op. ((Some [9], \<lambda>_. None), op))
     [CO_Register \<lparr>mr_arm_id = ''arm'', mr_generation = 1, mr_seat_id = ''seat'', mr_coverage_until = 100\<rparr>,
      CO_ReserveBirth (Some [1]) (Some [3]) (Some [2]) ''arm'',
      CO_ResolveCreate (Some [13])
        \<lparr>bx_binding = \<lparr>cb_birth_id = [1], cb_seat_id = ''seat'', cb_arm_id = ''arm'', cb_generation = 1,
           cb_capability = HandleClaimedSignal, cb_lease_until = 100, cb_verifier_ref = [2]\<rparr>,
         bx_create_attempt_id = [3]\<rparr> (TR_Owned [4]),
      CO_Admit (Some [5]) \<lparr>cq_arm_id = ''arm'', cq_request_id = ''q1'', cq_signal_id = ''sig'',
        cq_events = [\<lparr>pe_provider = ''p'', pe_event_ref = ''e1'', pe_actor = None, pe_observed_at = ''t'',
          pe_body = ''b''\<rparr>]\<rparr>,
      CO_Prepare (Some [6]) (Some [7]) \<lparr>ax_attempt_id = ''attempt-1''\<rparr>]"

definition sample_probe :: "ControllerProbeError + IdleProbeResult" where
  "sample_probe = Inr (Probe_Idle (Obs_Idle
     \<lparr>pb_attachment = \<lparr>ca_attempt_id = ''attempt-1'', ca_birth_id = [1], ca_arm_id = ''arm'',
        ca_generation = 1, ca_seat_id = ''seat'', ca_capability = HandleClaimedSignal,
        ca_lease_until = 100, ca_verifier_ref = [5]\<rparr>,
      pb_signal_id = ''sig'', pb_thread_ref = [4], pb_challenge_id = [7]\<rparr>
     [7] \<lparr>ep_birth_id = [1], ep_sequence = 3\<rparr> 0)
     \<lparr>ig_probe_id = [7], ig_epoch = \<lparr>ep_birth_id = [1], ep_sequence = 3\<rparr>\<rparr>)"

abbreviation sample_ports :: "bytes option \<times> (string \<Rightarrow> bytes option) \<Rightarrow> FakePersist persist_port" where
  "sample_ports \<equiv> fake_ports sample_hash sample_mac"

lemmas authority_eval = fake_ports_def fake_port_def on_authority_def on_persist_def or_error_def
  register_managed_arm_def authority_reserve_birth_def authority_resolve_create_def
  thread_ownership_state_def coordinator_reserve_birth_def coordinator_resolve_create_def
  coordinator_admit_def authority_admit_claim_def validated_claim_payload_def MAX_CLAIM_EVENTS_def
  event_record_try_from_def bounded_id_new_def bounded_token_new_def bounded_body_new_def
  bounded_vec_try_from_def bounded_usize_try_from_def claim_payload_try_from_def id_byte_def
  is_ascii_alphanumeric_def is_ascii_uppercase_def is_ascii_lowercase_def is_ascii_digit_def in_range_def
  owned_birth_for_def attempt_name_def decimal.simps checked_add_def saturating_add_def
  coordinator_prepare_def prepare_handle_claimed_signal_def validate_attachment_def
  controller_attachment_def daemon_authority_new_def host_coordinator_new_def
  coordinator_authorize_probe_def authority_authorize_probe_def validate_probe_binding_def
  IDLE_PERMIT_WINDOW_def idle_permit_def fresh_coordinator_def

lemma char_of_49: "char_of (49 :: nat) = CHR ''1''"
  by code_simp

lemma sample_granted:
  "\<exists>c c' w. coordinator_run sample_ports sample_hash (\<lambda>_. Some 0) (fresh_coordinator [] 0) sample_coordinator_ops
       = (Some c, [])
     \<and> coordinator_authorize_probe (sample_ports (None, \<lambda>_. None)) c sample_probe = (c', Inr (CP_Ready w))"
  by (simp add: sample_coordinator_ops_def sample_probe_def authority_eval char_of_49 store_eval sample_hash_def
      Let_def tree_simps cong: try_in_weak_cong bind_res_weak_cong)

theorem granted_command_sound_witness:
  "\<exists>c c' w. coordinator_authorize_probe (sample_ports (None, \<lambda>_. None)) c sample_probe = (c', Inr (CP_Ready w))
     \<and> command_sound (persisted c) (au_now (ho_authority c)) w"
proof -
  from sample_granted obtain c c' w where
      "coordinator_run sample_ports sample_hash (\<lambda>_. Some 0) (fresh_coordinator [] 0) sample_coordinator_ops
        = (Some c, [])"
    and "coordinator_authorize_probe (sample_ports (None, \<lambda>_. None)) c sample_probe = (c', Inr (CP_Ready w))"
    by blast
  then show ?thesis using granted_command_sound by blast
qed

end
