(* ===== verification/Sanitize.thy ===== *)
theory Sanitize
  imports Strings
begin

text \<open>
  Paste-safe tokens and displayed bodies, \<open>gearwit-cli/src/sanitize.rs\<close>. A body, which the code
  takes apart by scalar and by grapheme, is the list of its Unicode scalar values; \<open>text_len\<close> is
  its length in UTF-8 and \<open>utf8\<close> its bytes. The graphemes of a text are those of the crate
  \<open>unicode-segmentation\<close>, a parameter.
\<close>

section \<open>Text\<close>

type_synonym scalar = nat
type_synonym utext = "scalar list"

definition utf8_len :: "scalar \<Rightarrow> nat" where
  "utf8_len c = (if c < 0x80 then 1 else if c < 0x800 then 2 else if c < 0x10000 then 3 else 4)"

definition text_len :: "utext \<Rightarrow> nat" where
  "text_len t = sum_list (map utf8_len t)"

definition utf8_scalar :: "scalar \<Rightarrow> string" where
  "utf8_scalar c =
     (if c < 0x80 then [char_of c]
      else if c < 0x800 then [char_of (0xC0 + c div 0x40), char_of (0x80 + c mod 0x40)]
      else if c < 0x10000 then
        [char_of (0xE0 + c div 0x1000), char_of (0x80 + c div 0x40 mod 0x40), char_of (0x80 + c mod 0x40)]
      else
        [char_of (0xF0 + c div 0x40000), char_of (0x80 + c div 0x1000 mod 0x40),
         char_of (0x80 + c div 0x40 mod 0x40), char_of (0x80 + c mod 0x40)])"

definition utf8 :: "utext \<Rightarrow> string" where
  "utf8 t = concat (map utf8_scalar t)"

text \<open>The scalars of a string literal, which is ASCII.\<close>

definition scalars_of :: "string \<Rightarrow> utext" where
  "scalars_of s = map of_char s"

text \<open>\<open>char::is_control\<close> and \<open>char::is_whitespace\<close>.\<close>

definition is_control :: "scalar \<Rightarrow> bool" where
  "is_control c = (c < 0x20 \<or> (0x7F \<le> c \<and> c < 0xA0))"

definition is_whitespace :: "scalar \<Rightarrow> bool" where
  "is_whitespace c =
     ((9 \<le> c \<and> c \<le> 13) \<or> c = 0x20 \<or> c = 0x85 \<or> c = 0xA0 \<or> c = 0x1680
      \<or> (0x2000 \<le> c \<and> c \<le> 0x200A) \<or> c = 0x2028 \<or> c = 0x2029 \<or> c = 0x202F \<or> c = 0x205F \<or> c = 0x3000)"

text \<open>\<open>split('\n')\<close>, and the slice \<open>&text[..end]\<close> at a scalar boundary.\<close>

fun split_at :: "scalar \<Rightarrow> utext \<Rightarrow> utext list" where
  "split_at sep [] = [[]]"
| "split_at sep (c # t) =
     (if c = sep then [] # split_at sep t
      else (case split_at sep t of line # lines \<Rightarrow> (c # line) # lines | [] \<Rightarrow> [[c]]))"

fun slice_to :: "utext \<Rightarrow> nat \<Rightarrow> utext" where
  "slice_to [] n = []"
| "slice_to (c # t) n = (if n = 0 then [] else c # slice_to t (n - utf8_len c))"

section \<open>Bounds\<close>

definition MAX_TERM :: nat where "MAX_TERM = 32"
definition MAX_ID :: nat where "MAX_ID = 128"
definition MAX_TIMEOUT :: nat where "MAX_TIMEOUT = 16"
definition MAX_BODY :: nat where "MAX_BODY = 4096"
definition MAX_BODY_BYTES :: nat where "MAX_BODY_BYTES = 4096"

definition PARTIAL_BODY_ADVISORY :: utext where
  "PARTIAL_BODY_ADVISORY = scalars_of ''Partial body; full post at source.''"

record LocalBodyLoss =
  lb_controls_removed :: nat
  lb_scalars_clipped :: nat
  lb_displayed_bytes :: nat

record PreparedBody =
  pb_body :: utext
  pb_local_loss :: "LocalBodyLoss option"

record BodyPrepareError =
  be_controls_removed :: nat
  be_scalars_clipped :: nat

section \<open>Fences\<close>

definition is_disallowed_control :: "scalar \<Rightarrow> bool" where
  "is_disallowed_control c = (is_control c \<and> c \<noteq> 9 \<and> c \<noteq> 10)"

text \<open>The marker of a fence line, its length and what follows it.\<close>

definition fence_marker :: "utext \<Rightarrow> (scalar \<times> nat \<times> utext) option" where
  "fence_marker line =
     (let indent = length (takeWhile (\<lambda>c. c = 0x20) line) in
      if indent > 3 then None
      else (case drop indent line of
          [] \<Rightarrow> None
        | marker # _ \<Rightarrow>
            let rest = drop indent line in
            if marker \<noteq> 0x60 \<and> marker \<noteq> 0x7E then None
            else
              let len = length (takeWhile (\<lambda>c. c = marker) rest) in
              if len \<ge> 3 then Some (marker, len, drop len rest) else None))"

definition fence_line :: "(scalar \<times> nat) option \<Rightarrow> utext \<Rightarrow> (scalar \<times> nat) option" where
  "fence_line open' line =
     (case fence_marker line of
        None \<Rightarrow> open'
      | Some (marker, len, remainder) \<Rightarrow>
          (case open' of
             Some (open_marker, open_length) \<Rightarrow>
               if marker = open_marker \<and> len \<ge> open_length \<and> list_all is_whitespace remainder
               then None else open'
           | None \<Rightarrow>
               if marker \<noteq> 0x60 \<or> 0x60 \<notin> set remainder then Some (marker, len) else open'))"

definition unclosed_fence :: "utext \<Rightarrow> (scalar \<times> nat) option" where
  "unclosed_fence t = fold (\<lambda>line open'. fence_line open' line) (split_at 10 t) None"

section \<open>Preparing a body\<close>

fun strip_controls :: "utext \<Rightarrow> utext \<times> nat" where
  "strip_controls [] = ([], 0)"
| "strip_controls (c # raw) =
     (case strip_controls raw of (clean, removed) \<Rightarrow>
        if is_disallowed_control c then (clean, removed + 1) else (c # clean, removed))"

text \<open>The loop over graphemes: the ends, in bytes and scalars, of the prefixes that leave room.\<close>

fun retained_ends :: "nat \<Rightarrow> nat \<Rightarrow> nat \<Rightarrow> nat \<Rightarrow> utext list \<Rightarrow> (nat \<times> nat) list" where
  "retained_ends max_scalars max_bytes scalars bytes' [] = []"
| "retained_ends max_scalars max_bytes scalars bytes' (grapheme # graphemes) =
     (if scalars + length grapheme + (2 + length PARTIAL_BODY_ADVISORY) > max_scalars
         \<or> bytes' + text_len grapheme + (2 + text_len PARTIAL_BODY_ADVISORY) > max_bytes
      then []
      else
        (bytes' + text_len grapheme, scalars + length grapheme)
        # retained_ends max_scalars max_bytes (scalars + length grapheme) (bytes' + text_len grapheme) graphemes)"

definition ends_with_newline :: "utext \<Rightarrow> bool" where
  "ends_with_newline t = (t \<noteq> [] \<and> last t = 10)"

definition push_newline :: "utext \<Rightarrow> utext" where
  "push_newline t = (if ends_with_newline t then t else t @ [10])"

definition with_advisory :: "utext \<Rightarrow> utext" where
  "with_advisory prefix =
     (let body = (case unclosed_fence prefix of
            None \<Rightarrow> prefix
          | Some (marker, len) \<Rightarrow> push_newline prefix @ replicate len marker @ [10])
      in push_newline body @ [10] @ PARTIAL_BODY_ADVISORY)"

text \<open>\<open>while let Some(..) = retained_ends.pop()\<close>: the longest prefix that fits, from the back.\<close>

fun longest_disclosed ::
  "nat \<Rightarrow> nat \<Rightarrow> utext \<Rightarrow> nat \<Rightarrow> (nat \<times> nat) list \<Rightarrow> PreparedBody option" where
  "longest_disclosed max_scalars max_bytes clean controls_removed [] = None"
| "longest_disclosed max_scalars max_bytes clean controls_removed ((byte_end, scalar_end) # ends) =
     (let prefix = slice_to clean byte_end; body = with_advisory prefix in
      if list_all is_whitespace prefix
      then longest_disclosed max_scalars max_bytes clean controls_removed ends
      else if length body \<le> max_scalars \<and> text_len body \<le> max_bytes
      then Some \<lparr>pb_body = body, pb_local_loss = Some
             \<lparr>lb_controls_removed = controls_removed,
              lb_scalars_clipped = length clean - scalar_end, lb_displayed_bytes = text_len body\<rparr>\<rparr>
      else longest_disclosed max_scalars max_bytes clean controls_removed ends)"

definition prepare_body_with_limits ::
  "(utext \<Rightarrow> utext list) \<Rightarrow> utext \<Rightarrow> nat \<Rightarrow> nat \<Rightarrow> BodyPrepareError + PreparedBody" where
  "prepare_body_with_limits graphemes raw max_scalars max_bytes =
     (case strip_controls raw of (clean, controls_removed) \<Rightarrow>
        if controls_removed = 0 \<and> length clean \<le> max_scalars \<and> text_len clean \<le> max_bytes
        then Inr \<lparr>pb_body = clean, pb_local_loss = None\<rparr>
        else
          (case longest_disclosed max_scalars max_bytes clean controls_removed
              (rev (retained_ends max_scalars max_bytes 0 0 (graphemes clean))) of
             Some prepared \<Rightarrow> Inr prepared
           | None \<Rightarrow> Inl \<lparr>be_controls_removed = controls_removed, be_scalars_clipped = length clean\<rparr>))"

definition prepare_body :: "(utext \<Rightarrow> utext list) \<Rightarrow> utext \<Rightarrow> BodyPrepareError + PreparedBody" where
  "prepare_body graphemes raw = prepare_body_with_limits graphemes raw MAX_BODY MAX_BODY_BYTES"

definition body_is_displayable :: "utext \<Rightarrow> bool" where
  "body_is_displayable body =
     (length body \<le> MAX_BODY \<and> text_len body \<le> MAX_BODY_BYTES \<and> \<not> list_ex is_disallowed_control body)"

section \<open>Tokens\<close>

text \<open>Tokens are UTF-8 strings; \<open>len\<close> counts their bytes.\<close>

definition paste_token :: "string \<Rightarrow> nat \<Rightarrow> string option" where
  "paste_token raw most =
     (if raw = [] \<or> length raw > most then None
      else if list_ex is_control (str_chars raw) then None else Some raw)"

definition paste_field :: "string \<Rightarrow> nat \<Rightarrow> string" where
  "paste_field raw most = (case paste_token raw most of None \<Rightarrow> ''rejected'' | Some token \<Rightarrow> token)"

section \<open>What a prepared body shows\<close>

lemma strip_controls_filter:
  "strip_controls raw =
     (filter (\<lambda>c. \<not> is_disallowed_control c) raw, length (filter is_disallowed_control raw))"
  by (induction raw) auto

lemma text_len_simps [simp]:
  "text_len [] = 0"
  "text_len (c # t) = utf8_len c + text_len t"
  "text_len (t @ u) = text_len t + text_len u"
  by (simp_all add: text_len_def)

lemma utf8_len_pos: "0 < utf8_len c"
  by (simp add: utf8_len_def)

lemma slice_to_prefix: "slice_to (t @ u) (text_len t) = t"
proof (induction t)
  case Nil
  then show ?case by (cases u) simp_all
next
  case (Cons c t)
  then show ?case using utf8_len_pos [of c] by simp
qed

text \<open>Every retained end is the end of a prefix, so the slice at it is that prefix.\<close>

lemma retained_ends_prefix:
  "(b, n) \<in> set (retained_ends ms mb (length t) (text_len t) gs) \<Longrightarrow>
   \<exists>kept rest. t @ concat gs = kept @ rest \<and> b = text_len kept \<and> n = length kept"
proof (induction gs arbitrary: t)
  case Nil
  then show ?case by simp
next
  case (Cons g gs)
  show ?case
  proof (cases "b = text_len (t @ g) \<and> n = length (t @ g)")
    case True
    then show ?thesis by (intro exI [of _ "t @ g"] exI [of _ "concat gs"]) simp
  next
    case False
    with Cons.prems have "(b, n) \<in> set (retained_ends ms mb (length (t @ g)) (text_len (t @ g)) gs)"
      by (auto split: if_splits)
    from Cons.IH [OF this] show ?thesis by simp
  qed
qed

lemma longest_disclosed_Some:
  "longest_disclosed ms mb clean k ends = Some p \<Longrightarrow>
   \<exists>e\<in>set ends. \<not> list_all is_whitespace (slice_to clean (fst e))
     \<and> pb_body p = with_advisory (slice_to clean (fst e))
     \<and> length (pb_body p) \<le> ms \<and> text_len (pb_body p) \<le> mb
     \<and> pb_local_loss p = Some \<lparr>lb_controls_removed = k, lb_scalars_clipped = length clean - snd e,
         lb_displayed_bytes = text_len (pb_body p)\<rparr>"
proof (induction ends)
  case Nil
  then show ?case by simp
next
  case (Cons e ends)
  obtain b n where e: "e = (b, n)" by (cases e)
  from Cons show ?case by (auto simp: e Let_def split: if_splits)
qed

lemma prepare_limits_disclosed:
  assumes "\<And>t. concat (graphemes t) = t"
    and "prepare_body_with_limits graphemes raw ms mb = Inr p"
    and "pb_local_loss p = Some loss"
  shows "\<exists>kept rest. filter (\<lambda>c. \<not> is_disallowed_control c) raw = kept @ rest
    \<and> \<not> list_all is_whitespace kept \<and> pb_body p = with_advisory kept
    \<and> length (pb_body p) \<le> ms \<and> text_len (pb_body p) \<le> mb
    \<and> loss = \<lparr>lb_controls_removed = length (filter is_disallowed_control raw),
        lb_scalars_clipped = length rest, lb_displayed_bytes = text_len (pb_body p)\<rparr>"
proof -
  let ?clean = "filter (\<lambda>c. \<not> is_disallowed_control c) raw"
  from assms(2,3) have "longest_disclosed ms mb ?clean (length (filter is_disallowed_control raw))
      (rev (retained_ends ms mb 0 0 (graphemes ?clean))) = Some p"
    by (auto simp: prepare_body_with_limits_def strip_controls_filter split: if_splits option.splits)
  from longest_disclosed_Some [OF this] obtain b n where
    ends: "(b, n) \<in> set (retained_ends ms mb 0 0 (graphemes ?clean))"
    and p: "\<not> list_all is_whitespace (slice_to ?clean b)"
      "pb_body p = with_advisory (slice_to ?clean b)"
      "length (pb_body p) \<le> ms" "text_len (pb_body p) \<le> mb"
      "pb_local_loss p = Some \<lparr>lb_controls_removed = length (filter is_disallowed_control raw),
         lb_scalars_clipped = length ?clean - n, lb_displayed_bytes = text_len (pb_body p)\<rparr>"
    by auto
  from ends retained_ends_prefix [of b n ms mb "[]" "graphemes ?clean"] assms(1)
  obtain kept rest where "?clean = kept @ rest" "b = text_len kept" "n = length kept" by auto
  with p assms(3) show ?thesis by (intro exI [of _ kept] exI [of _ rest]) (simp add: slice_to_prefix)
qed

lemma prepare_limits_untouched:
  "prepare_body_with_limits graphemes raw ms mb = Inr p \<Longrightarrow> pb_local_loss p = None \<Longrightarrow>
   pb_body p = raw \<and> length raw \<le> ms \<and> text_len raw \<le> mb \<and> \<not> list_ex is_disallowed_control raw"
  by (auto simp: prepare_body_with_limits_def strip_controls_filter filter_empty_conv list_ex_iff
      dest!: longest_disclosed_Some split: if_splits option.splits)

section \<open>The advisory stands outside every fence\<close>

lemma split_at_nonempty: "split_at s t \<noteq> []"
  by (induction t) (auto split: list.splits)

lemma split_at_append: "split_at s (t @ s # u) = split_at s t @ split_at s u"
  using split_at_nonempty [of s]
  by (induction t) (auto split: list.splits)

lemma split_at_line: "s \<notin> set t \<Longrightarrow> split_at s t = [t]"
  by (induction t) auto

definition fences_after :: "utext \<Rightarrow> (scalar \<times> nat) option \<Rightarrow> (scalar \<times> nat) option" where
  "fences_after t open' = fold (\<lambda>line open'. fence_line open' line) (split_at 10 t) open'"

lemma unclosed_fence_after: "unclosed_fence t = fences_after t None"
  by (simp add: unclosed_fence_def fences_after_def)

lemma fences_after_lines:
  "fences_after (t @ 10 # u) open' = fences_after u (fences_after t open')"
  by (simp add: fences_after_def split_at_append)

lemma fences_after_line: "10 \<notin> set t \<Longrightarrow> fences_after t open' = fence_line open' t"
  by (simp add: fences_after_def split_at_line)

lemma fence_line_nil [simp]: "fence_line open' [] = open'"
  by (simp add: fence_line_def fence_marker_def)

lemma fences_after_newline: "fences_after (t @ [10]) open' = fences_after t open'"
  using fences_after_lines [of t "[]"] by (simp add: fences_after_def)

lemma fences_after_push: "fences_after (push_newline t) open' = fences_after t open'"
  by (simp add: push_newline_def fences_after_newline)

lemma push_newline_ends: "\<exists>t'. push_newline t = t' @ [10]"
  by (cases t rule: rev_cases) (auto simp: push_newline_def ends_with_newline_def)

text \<open>An open fence always has a marker of at least three backticks or tildes.\<close>

definition fence_ok :: "(scalar \<times> nat) option \<Rightarrow> bool" where
  "fence_ok open' = (case open' of None \<Rightarrow> True | Some (m, n) \<Rightarrow> (m = 0x60 \<or> m = 0x7E) \<and> 3 \<le> n)"

lemma fence_marker_ok: "fence_marker line = Some (m, n, r) \<Longrightarrow> fence_ok (Some (m, n))"
  by (auto simp: fence_marker_def fence_ok_def Let_def split: if_splits list.splits)

lemma fence_line_ok: "fence_ok open' \<Longrightarrow> fence_ok (fence_line open' line)"
  using fence_marker_ok [of line]
  by (auto simp: fence_line_def split: option.splits prod.splits) (auto simp: fence_ok_def)

lemma fences_after_ok: "fence_ok open' \<Longrightarrow> fence_ok (fences_after t open')"
proof -
  have "fence_ok open' \<Longrightarrow> fence_ok (fold (\<lambda>line open'. fence_line open' line) ls open')" for ls
    by (induction ls arbitrary: open') (simp_all add: fence_line_ok)
  then show "fence_ok open' \<Longrightarrow> fence_ok (fences_after t open')" by (simp add: fences_after_def)
qed

lemma closing_line:
  assumes "fence_ok (Some (m, n))"
  shows "fence_line (Some (m, n)) (replicate n m) = None"
proof -
  from assms obtain k where n: "n = Suc k" by (cases n) (auto simp: fence_ok_def)
  have "fence_marker (replicate n m) = Some (m, n, [])"
    using assms by (auto simp: fence_marker_def fence_ok_def n Let_def)
  then show ?thesis by (simp add: fence_line_def)
qed

lemma fences_after_advisory: "fences_after PARTIAL_BODY_ADVISORY open' = open'"
proof -
  have "10 \<notin> set PARTIAL_BODY_ADVISORY"
    by (simp add: PARTIAL_BODY_ADVISORY_def scalars_of_def)
  moreover have "fence_marker PARTIAL_BODY_ADVISORY = None"
    by (simp add: PARTIAL_BODY_ADVISORY_def scalars_of_def fence_marker_def)
  ultimately show ?thesis by (simp add: fences_after_line fence_line_def)
qed

lemma with_advisory_closed: "unclosed_fence (with_advisory t) = None"
proof -
  let ?body = "case unclosed_fence t of None \<Rightarrow> t
    | Some (m, n) \<Rightarrow> push_newline t @ replicate n m @ [10]"
  have "fences_after ?body None = None"
  proof (cases "unclosed_fence t")
    case None
    then show ?thesis by (simp add: unclosed_fence_after)
  next
    case (Some f)
    obtain m n where f: "f = (m, n)" by (cases f)
    from Some f have ok: "fence_ok (Some (m, n))"
      using fences_after_ok [of None t] by (simp add: unclosed_fence_after) (simp add: fence_ok_def)
    obtain t' where t': "push_newline t = t' @ [10]" using push_newline_ends by blast
    have "fences_after t' None = Some (m, n)"
      using Some f fences_after_push [of t None] by (simp add: t' fences_after_newline unclosed_fence_after)
    moreover have "10 \<notin> set (replicate n m)" using ok by (auto simp: fence_ok_def)
    ultimately have "fences_after (t' @ 10 # replicate n m) None = None"
      using closing_line [OF ok] by (simp add: fences_after_lines fences_after_line)
    then have "fences_after ((t' @ 10 # replicate n m) @ [10]) None = None"
      by (simp only: fences_after_newline)
    then show ?thesis by (simp add: Some f t')
  qed
  then have "fences_after (push_newline ?body) None = None" by (simp add: fences_after_push)
  then show ?thesis
    by (simp add: unclosed_fence_after with_advisory_def Let_def fences_after_lines fences_after_advisory)
qed

lemma with_advisory_extends: "\<exists>closing. with_advisory t = t @ closing @ PARTIAL_BODY_ADVISORY"
  by (auto simp: with_advisory_def push_newline_def Let_def split: option.splits)

lemma with_advisory_allowed:
  assumes "\<not> list_ex is_disallowed_control t"
  shows "\<not> list_ex is_disallowed_control (with_advisory t)"
proof -
  have nl: "\<not> is_disallowed_control 10" by (simp add: is_disallowed_control_def)
  have adv: "\<not> list_ex is_disallowed_control PARTIAL_BODY_ADVISORY"
    by (simp add: PARTIAL_BODY_ADVISORY_def scalars_of_def is_disallowed_control_def is_control_def)
  have "unclosed_fence t = Some (m, n) \<Longrightarrow> \<not> is_disallowed_control m" for m n
    using fences_after_ok [of None t]
    by (auto simp: unclosed_fence_after fence_ok_def is_disallowed_control_def is_control_def)
  then show ?thesis
    using assms nl adv
    by (auto simp: with_advisory_def push_newline_def Let_def list_ex_iff split: option.splits if_splits)
qed

lemma displayable_untouched:
  assumes "body_is_displayable raw"
  shows "prepare_body graphemes raw = Inr \<lparr>pb_body = raw, pb_local_loss = None\<rparr>"
proof -
  from assms have "filter (\<lambda>c. \<not> is_disallowed_control c) raw = raw" "filter is_disallowed_control raw = []"
    by (auto simp: body_is_displayable_def list_ex_iff filter_id_conv filter_empty_conv)
  with assms show ?thesis
    by (simp add: prepare_body_def prepare_body_with_limits_def strip_controls_filter body_is_displayable_def)
qed

section \<open>The properties\<close>



text \<open>The advisory of a partial body is text of the host, never content of a fenced block the
  provider left open: no fence is open at the end of a body that discloses a loss.\<close>

theorem advisory_outside_fences:
  assumes "\<And>t. concat (graphemes t) = t"
    and "prepare_body_with_limits graphemes raw max_scalars max_bytes = Inr p"
    and "pb_local_loss p = Some loss"
  shows "unclosed_fence (pb_body p) = None"
  using prepare_limits_disclosed [OF assms] with_advisory_closed by auto

theorem advisory_outside_fences_witness:
  "unclosed_fence (scalars_of ''~~~'' @ [10, 65, 10] @ scalars_of ''~~~'' @ [10, 10] @ PARTIAL_BODY_ADVISORY) = None"
proof -
  have "prepare_body_with_limits (map (\<lambda>c. [c])) (scalars_of ''~~~'' @ [10, 65, 27]) 45 45 = Inr
      \<lparr>pb_body = scalars_of ''~~~'' @ [10, 65, 10] @ scalars_of ''~~~'' @ [10, 10] @ PARTIAL_BODY_ADVISORY,
       pb_local_loss = Some \<lparr>lb_controls_removed = 1, lb_scalars_clipped = 0, lb_displayed_bytes = 45\<rparr>\<rparr>"
    by code_simp
  from advisory_outside_fences [OF _ this] show ?thesis by simp
qed

end
