(* ===== verification/Wait_On.thy ===== *)
theory Wait_On
  imports Ordered_Map Interrupt Sanitize
begin

text \<open>
  The in-process wait, \<open>gearwit-cli/src/wait_on.rs\<close>: one interval runs \<open>chanvoy wait\<close>, drains the
  provider after a match, builds the lifecycle receipts and renders them; the watch loop runs
  intervals until one of them stops coverage. \<open>chanvoy\<close> is another program: a run of it is a
  parameter that gives an I/O error or the exit code, a drain one that gives the events or the
  reason why not. A \<open>serde_json::Value\<close> is seen through its accessors, a record of parameters.
\<close>

section \<open>Specification and outcome\<close>

record WaitOnSpec =
  wo_channel :: string
  wo_after :: "string option"
  wo_timeout :: string
  wo_team :: "string option"
  wo_source :: string
  wo_return_route :: DeliveryRoute
  wo_follow :: bool

datatype WaitResult = WR_Matched | WR_Timeout | WR_Error

definition WaitResult_from_code :: "int \<Rightarrow> WaitResult" where
  "WaitResult_from_code code = (if code = 0 then WR_Matched else if code = 1 then WR_Timeout else WR_Error)"

datatype WaiterState = WS_NotStarted | WS_Completed

record DrainedEvent =
  de_id :: string
  de_username :: string
  de_message :: utext
  de_local_loss :: "LocalBodyLoss option"

datatype DrainError =
  DE_MissingBaseline | DE_NonZeroExit | DE_Malformed | DE_Empty | DE_DuplicateId | DE_Io
| DE_AdvisoryCannotFit string nat nat

fun DrainError_as_str :: "DrainError \<Rightarrow> string" where
  "DrainError_as_str DE_MissingBaseline = ''missing_baseline''"
| "DrainError_as_str DE_NonZeroExit = ''nonzero_exit''"
| "DrainError_as_str DE_Malformed = ''malformed''"
| "DrainError_as_str DE_Empty = ''empty''"
| "DrainError_as_str DE_DuplicateId = ''duplicate_id''"
| "DrainError_as_str DE_Io = ''io''"
| "DrainError_as_str (DE_AdvisoryCannotFit _ _ _) = ''advisory_cannot_fit''"

record WaitOutcome =
  oc_waiter :: WaiterState
  oc_result :: WaitResult
  oc_chanvoy_exit :: "int option"
  oc_process_exit :: int
  oc_drained_events :: "DrainedEvent list"
  oc_newest_observed :: "string option"
  oc_drain_error :: "DrainError option"

definition spec_is_paste_safe :: "WaitOnSpec \<Rightarrow> bool" where
  "spec_is_paste_safe spec =
     (paste_token (wo_channel spec) MAX_ID \<noteq> None
      \<and> (case wo_after spec of None \<Rightarrow> False | Some after \<Rightarrow> paste_token after MAX_ID \<noteq> None)
      \<and> paste_token (wo_timeout spec) MAX_TIMEOUT \<noteq> None
      \<and> (case wo_team spec of None \<Rightarrow> True | Some team \<Rightarrow> paste_token team MAX_ID \<noteq> None))"

definition chanvoy_wait_args :: "WaitOnSpec \<Rightarrow> string list" where
  "chanvoy_wait_args spec =
     [''wait''] @ (case wo_team spec of None \<Rightarrow> [] | Some team \<Rightarrow> [''--team'', team])
     @ [wo_channel spec] @ (case wo_after spec of None \<Rightarrow> [] | Some after \<Rightarrow> [''--after'', after])
     @ [''--timeout'', wo_timeout spec, ''--json'']"

section \<open>Lifecycle receipts\<close>

definition append_fact ::
  "ReceiptLog \<Rightarrow> u64 \<Rightarrow> LifecycleFact \<Rightarrow> ReceiptSource \<Rightarrow> ReceiptLog \<times> (ReceiptError + u64)" where
  "append_fact log sequence f source =
     try_in log (lifecycle_receipt_try_new sequence f source) (\<lambda>receipt.
     case receipt_log_append log receipt of
       (log, Inl e) \<Rightarrow> (log, Inl e)
     | (log, Inr _) \<Rightarrow> (log, Inr (sequence + 1)))"

text \<open>The facts one after the other, from a sequence number on; the first error ends it.\<close>

fun append_facts ::
  "ReceiptLog \<Rightarrow> u64 \<Rightarrow> (LifecycleFact \<times> ReceiptSource) list \<Rightarrow> ReceiptError + ReceiptLog" where
  "append_facts log sequence [] = Inr log"
| "append_facts log sequence ((f, source) # fs) =
     (case append_fact log sequence f source of
        (log, Inl e) \<Rightarrow> Inl e
      | (log, Inr sequence) \<Rightarrow> append_facts log sequence fs)"

definition waiter_receipt_log :: "WaitOutcome \<Rightarrow> ReceiptError + ReceiptLog" where
  "waiter_receipt_log outcome =
     append_facts receipt_log_new 1
       (if oc_waiter outcome = WS_NotStarted
        then [(LF_CoverageEnded CE_RunnerNotStarted, RS_ControlPlane)]
        else (case oc_result outcome of
          WR_Matched \<Rightarrow>
            [(LF_WaitArmed, RS_WaiterProcess), (LF_WaiterCompleted WC_Matched, RS_WaiterProcess)]
        | WR_Timeout \<Rightarrow>
            [(LF_WaitArmed, RS_WaiterProcess),
             (LF_WaiterCompleted WC_DeadmanExpired, RS_WaiterProcess),
             (LF_CoverageEnded CE_DeadmanExpired, RS_WaiterProcess)]
        | WR_Error \<Rightarrow>
            [(LF_WaiterCompleted WC_Failed, RS_WaiterProcess),
             (LF_CoverageEnded CE_ProviderFailed, RS_WaiterProcess)]))"

definition u32_of_nat :: "nat \<Rightarrow> 32 word" where
  "u32_of_nat n = (if n < 2 ^ 32 then of_nat n else - 1)"

definition lifecycle_log :: "WaitOutcome \<Rightarrow> ReceiptError + ReceiptLog" where
  "lifecycle_log outcome =
     bind_res (waiter_receipt_log outcome) (\<lambda>log.
     let sequence = saturating_add (u64_of_nat (receipt_log_len log)) 1 in
     if oc_drain_error outcome \<noteq> None
     then append_facts log sequence [(LF_CoverageEnded CE_ProviderFailed, RS_ControlPlane)]
     else if oc_result outcome = WR_Matched \<and> oc_drained_events outcome \<noteq> []
     then append_facts log sequence
       [(LF_EventsDrained (u32_of_nat (length (oc_drained_events outcome))), RS_Provider)]
     else Inr log)"

section \<open>Draining the provider\<close>

record 'v json_value =
  jv_parse :: "string \<Rightarrow> 'v option"
  jv_array :: "'v \<Rightarrow> 'v list option"
  jv_get :: "'v \<Rightarrow> string \<Rightarrow> 'v option"
  jv_str :: "'v \<Rightarrow> utext option"

definition jv_field :: "'v json_value \<Rightarrow> 'v \<Rightarrow> string \<Rightarrow> utext option" where
  "jv_field j v key = Option.bind (jv_get j v key) (jv_str j)"

definition jv_token :: "'v json_value \<Rightarrow> 'v \<Rightarrow> string \<Rightarrow> string option" where
  "jv_token j v key = Option.bind (jv_field j v key) (\<lambda>t. paste_token (utf8 t) MAX_ID)"

fun parse_messages ::
  "'v json_value \<Rightarrow> (utext \<Rightarrow> utext list) \<Rightarrow> string bset \<Rightarrow> 'v list \<Rightarrow> DrainError + DrainedEvent list" where
  "parse_messages j graphemes seen [] = Inr []"
| "parse_messages j graphemes seen (message # messages) =
     bind_res (ok_or (jv_token j message ''id'') DE_Malformed) (\<lambda>event_id.
     case bs_insert event_id seen of (seen, fresh) \<Rightarrow>
     if \<not> fresh then Inl DE_DuplicateId
     else
       let username = (case jv_token j message ''username'' of None \<Rightarrow> ''unknown'' | Some name \<Rightarrow> name);
           body = (case jv_field j message ''message'' of None \<Rightarrow> [] | Some body \<Rightarrow> body) in
       case prepare_body graphemes body of
         Inl error \<Rightarrow>
           Inl (DE_AdvisoryCannotFit event_id (be_controls_removed error) (be_scalars_clipped error))
       | Inr prepared \<Rightarrow>
           bind_res (parse_messages j graphemes seen messages) (\<lambda>events.
           Inr (\<lparr>de_id = event_id, de_username = username, de_message = pb_body prepared,
                  de_local_loss = pb_local_loss prepared\<rparr> # events)))"

definition parse_drained_events ::
  "'v json_value \<Rightarrow> (utext \<Rightarrow> utext list) \<Rightarrow> string \<Rightarrow> DrainError + DrainedEvent list" where
  "parse_drained_events j graphemes json =
     bind_res (ok_or (jv_parse j json) DE_Malformed) (\<lambda>value.
     bind_res (ok_or (case jv_array j value of
           Some array \<Rightarrow> Some array
         | None \<Rightarrow> Option.bind (jv_get j value ''messages'') (jv_array j)) DE_Malformed) (\<lambda>messages.
     if messages = [] then Inl DE_Empty
     else parse_messages j graphemes bt_empty messages))"

text \<open>
  \<open>ChanvoyDrain\<close>: \<open>read\<close> stands for the run of \<open>chanvoy read\<close> with the given arguments; it gives
  an I/O error, or whether the status was success and the output as text.
\<close>

type_synonym chanvoy_read = "string list \<Rightarrow> string + (bool \<times> string)"
type_synonym event_drain = "WaitOnSpec \<Rightarrow> DrainError + DrainedEvent list"

definition chanvoy_drain_after ::
  "'v json_value \<Rightarrow> (utext \<Rightarrow> utext list) \<Rightarrow> chanvoy_read \<Rightarrow> event_drain" where
  "chanvoy_drain_after j graphemes read spec =
     bind_res (ok_or (wo_after spec) DE_MissingBaseline) (\<lambda>after.
     case read ([''read''] @ (case wo_team spec of None \<Rightarrow> [] | Some team \<Rightarrow> [''--team'', team])
                @ [wo_channel spec, ''--after'', after, ''--json'']) of
       Inl _ \<Rightarrow> Inl DE_Io
     | Inr (success, stdout) \<Rightarrow>
         if \<not> success then Inl DE_NonZeroExit else parse_drained_events j graphemes stdout)"

definition attach_drain :: "WaitOutcome \<Rightarrow> WaitOnSpec \<Rightarrow> event_drain \<Rightarrow> WaitOutcome" where
  "attach_drain outcome spec drain =
     (if oc_result outcome \<noteq> WR_Matched then outcome
      else if wo_after spec = None
      then outcome\<lparr>oc_drain_error := Some DE_MissingBaseline, oc_process_exit := 2\<rparr>
      else (case drain spec of
        Inr events \<Rightarrow>
          outcome\<lparr>oc_newest_observed := (if events = [] then None else Some (de_id (last events))),
            oc_drained_events := events, oc_drain_error := None\<rparr>
      | Inl error \<Rightarrow>
          outcome\<lparr>oc_drained_events := [], oc_newest_observed := None,
            oc_drain_error := Some error, oc_process_exit := 2\<rparr>))"

section \<open>One interval\<close>

text \<open>\<open>ExitStatus::code\<close> is \<open>None\<close> for a child that a signal ended.\<close>

type_synonym wait_runner = "string list \<Rightarrow> string + int option"

definition not_started :: WaitOutcome where
  "not_started = \<lparr>oc_waiter = WS_NotStarted, oc_result = WR_Error, oc_chanvoy_exit = None,
     oc_process_exit = 2, oc_drained_events = [], oc_newest_observed = None, oc_drain_error = None\<rparr>"

definition execute_wait_on :: "WaitOnSpec \<Rightarrow> wait_runner \<Rightarrow> WaitOutcome" where
  "execute_wait_on spec runner =
     (if \<not> spec_is_paste_safe spec then not_started
      else (case runner (chanvoy_wait_args spec) of
        Inr raw \<Rightarrow>
          let process_exit = (if raw = Some 0 then 0 else if raw = Some 1 then 1 else 2) in
          \<lparr>oc_waiter = WS_Completed, oc_result = WaitResult_from_code process_exit,
             oc_chanvoy_exit = raw, oc_process_exit = process_exit, oc_drained_events = [],
             oc_newest_observed = None, oc_drain_error = None\<rparr>
      | Inl _ \<Rightarrow> not_started))"

section \<open>The receipt\<close>

text \<open>
  The receipt is its lines, each ended by a line feed. \<open>serde_json\<close> renders a body as a JSON
  string and the diagnostic of an undisclosable body as a JSON object: parameters.
\<close>

record json_render =
  jr_string :: "utext \<Rightarrow> string option"
  jr_diagnostic :: "string \<Rightarrow> nat \<Rightarrow> nat \<Rightarrow> string"

definition unlines :: "string list \<Rightarrow> string" where
  "unlines ls = concat (map (\<lambda>l. l @ [CHR 0x0A]) ls)"

definition decimal_int :: "int \<Rightarrow> string" where
  "decimal_int n = (if n < 0 then ''-'' @ decimal (nat (- n)) else decimal (nat n))"

definition receipt_error_text :: "(ReceiptSource \<Rightarrow> string) \<Rightarrow> ReceiptError \<Rightarrow> string" where
  "receipt_error_text source_debug error =
     (case error of
        RE_ZeroSequence \<Rightarrow> ''receipt sequence must start at one''
      | RE_UnsupportedEvidence source phase \<Rightarrow>
          source_debug source @ '' cannot evidence '' @ InterruptPhase_as_str phase
      | RE_UnexpectedSequence expected actual \<Rightarrow>
          ''expected receipt sequence '' @ decimal (unat expected) @ '', received '' @ decimal (unat actual)
      | RE_DuplicatePhase phase \<Rightarrow> ''duplicate receipt phase '' @ InterruptPhase_as_str phase)"

text \<open>The derived \<open>Debug\<close> of a source is the name of its constructor.\<close>

fun ReceiptSource_debug :: "ReceiptSource \<Rightarrow> string" where
  "ReceiptSource_debug RS_ControlPlane = ''ControlPlane''"
| "ReceiptSource_debug RS_Provider = ''Provider''"
| "ReceiptSource_debug RS_WaiterProcess = ''WaiterProcess''"
| "ReceiptSource_debug RS_Harness = ''Harness''"
| "ReceiptSource_debug RS_Controller = ''Controller''"
| "ReceiptSource_debug RS_Seat = ''Seat''"
| "ReceiptSource_debug RS_Operator = ''Operator''"

definition format_phase_line :: "ReceiptLog \<Rightarrow> InterruptPhase \<Rightarrow> string" where
  "format_phase_line log phase =
     (case receipt_log_observe log phase of
        PO_Unknown \<Rightarrow> InterruptPhase_as_str phase @ '': unknown''
      | PO_Observed f source \<Rightarrow>
          InterruptPhase_as_str phase @ '': '' @
          (case f of
             LF_WaiterCompleted completion \<Rightarrow> WaiterCompletion_as_str completion
           | LF_CoverageEnded reason \<Rightarrow> CoverageEndReason_as_str reason
           | LF_EventsDrained drained \<Rightarrow> decimal (unat drained)
           | _ \<Rightarrow> ''observed'')
          @ ''  ('' @ ReceiptSource_as_str source @ '')'')"

definition drained_event_lines :: "json_render \<Rightarrow> DrainedEvent \<Rightarrow> string list" where
  "drained_event_lines r event =
     [''- id='' @ paste_field (de_id event) MAX_ID @ '' user='' @ paste_field (de_username event) MAX_ID,
      ''  body_json: '' @ (case jr_string r (de_message event) of
          None \<Rightarrow> [CHR 0x22] @ ''<unavailable>'' @ [CHR 0x22] | Some body \<Rightarrow> body),
      ''  body_notice_trust: untrusted-provider-text; the source may mimic this notice'']
     @ (case de_local_loss event of
          None \<Rightarrow> []
        | Some loss \<Rightarrow>
            [''  local_body_loss: controls_removed='' @ decimal (lb_controls_removed loss)
             @ '' scalars_clipped='' @ decimal (lb_scalars_clipped loss)
             @ '' displayed_bytes='' @ decimal (lb_displayed_bytes loss)])"

definition render_drained_events :: "json_render \<Rightarrow> DrainedEvent list \<Rightarrow> string list" where
  "render_drained_events r events =
     (if events = [] then [''drained_events: none'']
      else ''drained_events:'' # concat (map (drained_event_lines r) events))"

definition render_drain_diagnostic :: "json_render \<Rightarrow> DrainError option \<Rightarrow> string" where
  "render_drain_diagnostic r error =
     (case error of
        Some (DE_AdvisoryCannotFit event_ref controls_removed scalars_clipped) \<Rightarrow>
          jr_diagnostic r event_ref controls_removed scalars_clipped
      | _ \<Rightarrow> ''none'')"

definition optional_field :: "string option \<Rightarrow> string" where
  "optional_field v = (case v of None \<Rightarrow> ''unknown'' | Some s \<Rightarrow> paste_field s MAX_ID)"

definition render_wait_receipt :: "json_render \<Rightarrow> WaitOnSpec \<Rightarrow> WaitOutcome \<Rightarrow> string" where
  "render_wait_receipt r spec outcome =
     (case lifecycle_log outcome of
        Inl error \<Rightarrow> unlines
          [''gearwit self wait-on'',
           ''channel: '' @ paste_field (wo_channel spec) MAX_ID,
           ''after: '' @ optional_field (wo_after spec),
           ''timeout: '' @ paste_field (wo_timeout spec) MAX_TIMEOUT,
           ''durability: in_process'',
           ''receipt_error: '' @ receipt_error_text ReceiptSource_debug error,
           ''wait_armed: unknown'', ''signal_matched: unknown'', ''waiter_completed: unknown'',
           ''turn_started: unknown'', ''model_observed: unknown'', ''seat_acted: unknown'',
           ''coverage_rearmed: unknown'', ''coverage_ended: unknown'']
      | Inr log \<Rightarrow> unlines
          ([''gearwit self wait-on'',
            ''source: '' @ paste_field (wo_source spec) MAX_ID,
            ''channel: '' @ paste_field (wo_channel spec) MAX_ID,
            ''after: '' @ optional_field (wo_after spec),
            ''timeout: '' @ paste_field (wo_timeout spec) MAX_TIMEOUT,
            ''return: '' @ DeliveryRoute_as_str (wo_return_route spec) @ ''  (self_declared)'',
            ''durability: in_process'',
            ''chanvoy_exit: '' @ (case oc_chanvoy_exit outcome of
                None \<Rightarrow> ''unknown'' | Some code \<Rightarrow> decimal_int code),
            ''drain_error: '' @ (case oc_drain_error outcome of
                None \<Rightarrow> ''none'' | Some error \<Rightarrow> DrainError_as_str error),
            ''drain_diagnostic_json: '' @ render_drain_diagnostic r (oc_drain_error outcome),
            ''drain_failure_disposition: '' @ (if oc_drain_error outcome \<noteq> None
                then ''withheld_before_claim_or_dispatch; cursor_not_advanced'' else ''none''),
            ''drained_count: '' @ decimal (length (oc_drained_events outcome)),
            ''newest_observed: '' @ optional_field (oc_newest_observed outcome)]
           @ render_drained_events r (oc_drained_events outcome)
           @ map (format_phase_line log)
               [IP_WaitArmed, IP_SignalMatched, IP_WaiterCompleted, IP_EventsDrained, IP_TurnStarted,
                IP_ModelObserved, IP_SeatActed, IP_HandledCursorRecorded, IP_CoverageRearmed,
                IP_CoverageEnded]))"

section \<open>The watch loop\<close>

text \<open>
  One interval: the outcome, and the receipt that is printed and stored. The environment of an
  interval is the run of \<open>chanvoy wait\<close> and the drain behind it.
\<close>

record interval_env =
  ie_runner :: wait_runner
  ie_drain :: event_drain

definition run_wait_on_once ::
  "json_render \<Rightarrow> interval_env \<Rightarrow> WaitOnSpec \<Rightarrow> WaitOutcome \<times> string" where
  "run_wait_on_once r env spec =
     (let outcome = attach_drain (execute_wait_on spec (ie_runner env)) spec (ie_drain env);
          receipt = render_wait_receipt r spec outcome in
      (outcome, if wo_follow spec then receipt @ unlines [''coverage_mode: follow_newest_observed'']
                else receipt))"

datatype CoverageAdvance = CA_Continue string | CA_Stop int

definition coverage_advance :: "WaitOutcome \<Rightarrow> string \<Rightarrow> CoverageAdvance" where
  "coverage_advance outcome current_after =
     (case oc_result outcome of
        WR_Matched \<Rightarrow>
          (case oc_newest_observed outcome of
             Some newest \<Rightarrow> CA_Continue newest
           | None \<Rightarrow> CA_Stop 2)
      | WR_Timeout \<Rightarrow> CA_Continue current_after
      | WR_Error \<Rightarrow> CA_Stop (if oc_process_exit outcome = 0 then 2 else oc_process_exit outcome))"

definition after_or_default :: "WaitOnSpec \<Rightarrow> string" where
  "after_or_default spec = (case wo_after spec of None \<Rightarrow> '''' | Some after \<Rightarrow> after)"

text \<open>
  The loop from interval \<open>n\<close> on, against an environment for every interval: the exit code and the
  receipts of the intervals, or \<open>None\<close> when no interval ever stops it.
\<close>

partial_function (option) watch_from ::
  "json_render \<Rightarrow> (nat \<Rightarrow> interval_env) \<Rightarrow> nat \<Rightarrow> WaitOnSpec \<Rightarrow> (int \<times> string list) option" where
  "watch_from r env n spec =
     (case run_wait_on_once r (env n) spec of (outcome, receipt) \<Rightarrow>
      (case coverage_advance outcome (after_or_default spec) of
         CA_Stop exit \<Rightarrow> Some (exit, [receipt])
       | CA_Continue after \<Rightarrow>
           Option.bind (watch_from r env (Suc n) (spec\<lparr>wo_after := Some after\<rparr>)) (\<lambda>(exit, receipts).
           Some (exit, receipt # receipts))))"

definition run_watch_loop ::
  "json_render \<Rightarrow> (nat \<Rightarrow> interval_env) \<Rightarrow> WaitOnSpec \<Rightarrow> (int \<times> string list) option" where
  "run_watch_loop r env spec =
     watch_from r env 0 (spec\<lparr>wo_follow := True, wo_return_route := DR_NotifyOperator\<rparr>)"

definition run_wait_on ::
  "json_render \<Rightarrow> (nat \<Rightarrow> interval_env) \<Rightarrow> WaitOnSpec \<Rightarrow> (int \<times> string list) option" where
  "run_wait_on r env spec =
     (if wo_follow spec then run_watch_loop r env spec
      else (case run_wait_on_once r (env 0) spec of (outcome, receipt) \<Rightarrow>
        Some (oc_process_exit outcome, [receipt])))"

section \<open>The exit of the loop\<close>

lemma interval_stop:
  "coverage_advance (fst (run_wait_on_once r env spec)) after = CA_Stop e \<Longrightarrow> e = 2"
  by (auto simp: run_wait_on_once_def coverage_advance_def attach_drain_def execute_wait_on_def
      not_started_def WaitResult_from_code_def Let_def split: sum.splits if_splits option.splits)

text \<open>The specification that is armed for interval \<open>k + n\<close>, when no interval before stops.\<close>

fun watch_armed ::
  "json_render \<Rightarrow> (nat \<Rightarrow> interval_env) \<Rightarrow> nat \<Rightarrow> WaitOnSpec \<Rightarrow> nat \<Rightarrow> WaitOnSpec option" where
  "watch_armed r env k spec 0 = Some spec"
| "watch_armed r env k spec (Suc n) =
     (case coverage_advance (fst (run_wait_on_once r (env k) spec)) (after_or_default spec) of
        CA_Stop _ \<Rightarrow> None
      | CA_Continue after \<Rightarrow> watch_armed r env (Suc k) (spec\<lparr>wo_after := Some after\<rparr>) n)"

lemma watch_from_nonempty: "watch_from r env k spec = Some (e, rs) \<Longrightarrow> rs \<noteq> []"
  by (subst (asm) watch_from.simps) (auto split: prod.splits CoverageAdvance.splits bind_splits)

lemma watch_from_iff:
  "(\<exists>rs. watch_from r env k spec = Some (e, rs) \<and> length rs = Suc n) \<longleftrightarrow>
     e = 2 \<and> watch_armed r env k spec n \<noteq> None \<and> watch_armed r env k spec (Suc n) = None"
proof (induction n arbitrary: k spec)
  case 0
  show ?case
    using interval_stop [of r "env k" spec "after_or_default spec"]
    by (subst watch_from.simps)
      (auto split: prod.splits CoverageAdvance.splits bind_splits dest: watch_from_nonempty)
next
  case (Suc n)
  obtain outcome receipt where once: "run_wait_on_once r (env k) spec = (outcome, receipt)"
    by fastforce
  show ?case
  proof (cases "coverage_advance outcome (after_or_default spec)")
    case (CA_Continue after)
    let ?spec = "spec\<lparr>wo_after := Some after\<rparr>"
    have "watch_from r env k spec = Option.bind (watch_from r env (Suc k) ?spec)
        (\<lambda>(exit, receipts). Some (exit, receipt # receipts))"
      by (subst watch_from.simps) (simp add: once CA_Continue)
    then have "(\<exists>rs. watch_from r env k spec = Some (e, rs) \<and> length rs = Suc (Suc n)) \<longleftrightarrow>
        (\<exists>rs. watch_from r env (Suc k) ?spec = Some (e, rs) \<and> length rs = Suc n)"
      by (cases "watch_from r env (Suc k) ?spec") auto
    with Suc.IH [of "Suc k" ?spec] show ?thesis by (simp add: once CA_Continue)
  next
    case (CA_Stop e')
    have "watch_from r env k spec = Some (e', [receipt])"
      by (subst watch_from.simps) (simp add: once CA_Stop)
    then show ?thesis by (simp add: once CA_Stop)
  qed
qed


section \<open>The evidence of an interval\<close>

lemma interval_cases:
  "let outcome = fst (run_wait_on_once r env spec) in
     outcome = not_started
     \<or> (oc_waiter outcome = WS_Completed \<and> oc_result outcome \<noteq> WR_Matched
        \<and> oc_drain_error outcome = None \<and> oc_drained_events outcome = [])
     \<or> (oc_waiter outcome = WS_Completed \<and> oc_result outcome = WR_Matched
        \<and> (oc_drain_error outcome \<noteq> None \<longrightarrow> oc_drained_events outcome = []))"
  by (auto simp: run_wait_on_once_def attach_drain_def execute_wait_on_def not_started_def Let_def
      split: sum.splits if_splits)

lemmas lifecycle_eval = lifecycle_log_def waiter_receipt_log_def append_fact_def
  lifecycle_receipt_try_new_def receipt_log_new_def receipt_log_append_def receipt_log_observe_def
  receipt_log_len_def saturating_add_def u64_of_nat_def

text \<open>
  An interval yields evidence of the wait, and of nothing else. Its receipts can always be
  numbered and logged. They never say that a signal matched, a turn started, a model
  observed, a seat acted, a cursor was handled or coverage was re-armed. That the wait was armed is
  recorded exactly for a child that reported a match or a deadman; that coverage ended is left
  unknown exactly for a match whose drain did not fail; the number of drained events is recorded
  from the provider, exactly when there are any.
\<close>

theorem interval_evidence:
  "case lifecycle_log (fst (run_wait_on_once r env spec)) of
     Inl _ \<Rightarrow> False
   | Inr log \<Rightarrow>
       (let outcome = fst (run_wait_on_once r env spec) in
        list_all (\<lambda>p. receipt_log_observe log p = PO_Unknown)
          [IP_SignalMatched, IP_TurnStarted, IP_ModelObserved, IP_SeatActed, IP_HandledCursorRecorded,
           IP_CoverageRearmed]
        \<and> (receipt_log_observe log IP_WaitArmed \<noteq> PO_Unknown) = (oc_result outcome \<noteq> WR_Error)
        \<and> (receipt_log_observe log IP_CoverageEnded = PO_Unknown)
          = (oc_result outcome = WR_Matched \<and> oc_drain_error outcome = None)
        \<and> receipt_log_observe log IP_EventsDrained =
          (if oc_drained_events outcome = [] then PO_Unknown
           else PO_Observed (LF_EventsDrained (u32_of_nat (length (oc_drained_events outcome)))) RS_Provider))"
proof -
  let ?outcome = "fst (run_wait_on_once r env spec)"
  consider "?outcome = not_started"
    | "oc_waiter ?outcome = WS_Completed" "oc_result ?outcome \<noteq> WR_Matched"
      "oc_drain_error ?outcome = None" "oc_drained_events ?outcome = []"
    | "oc_waiter ?outcome = WS_Completed" "oc_result ?outcome = WR_Matched"
      "oc_drain_error ?outcome \<noteq> None \<longrightarrow> oc_drained_events ?outcome = []"
    using interval_cases [of r env spec] by (auto simp: Let_def)
  then show ?thesis
  proof cases
    case 1
    then show ?thesis by (simp add: lifecycle_eval not_started_def)
  next
    case 2
    then show ?thesis by (cases "oc_result ?outcome") (simp_all add: lifecycle_eval)
  next
    case 3
    then show ?thesis
      by (cases "oc_drain_error ?outcome"; cases "oc_drained_events ?outcome = []")
        (simp_all add: lifecycle_eval)
  qed
qed

section \<open>A receipt cannot be forged\<close>

abbreviation one_line :: "string \<Rightarrow> bool" where
  "one_line s \<equiv> CHR 0x0A \<notin> set s"

lemma unlines_count: "list_all one_line ls \<Longrightarrow> count_list (unlines ls) (CHR 0x0A) = length ls"
proof (induction ls)
  case (Cons l ls)
  then have "count_list l (CHR 0x0A) = 0" by (simp add: count_list_0_iff)
  with Cons show ?case by (simp add: unlines_def)
qed (simp add: unlines_def)

lemma digit_not_newline: "(n::nat) < 10 \<Longrightarrow> char_of (48 + n) \<noteq> CHR 0x0A"
proof
  assume "n < 10" "char_of (48 + n) = CHR 0x0A"
  then have "of_char (char_of (48 + n) :: char) = (of_char (CHR 0x0A) :: nat)" by simp
  with \<open>n < 10\<close> show False by (simp add: take_bit_eq_mod)
qed

lemma decimal_one_line [simp]: "one_line (decimal n)"
proof (induction n rule: decimal.induct)
  case (1 n)
  show ?case
    using 1 digit_not_newline [of n] digit_not_newline [of "n mod 10"]
    by (subst decimal.simps) auto
qed

lemma decimal_int_one_line [simp]: "one_line (decimal_int n)"
  by (simp add: decimal_int_def)

lemma paste_field_one_line [simp]:
  assumes "utf8_valid s"
  shows "one_line (paste_field s n)"
proof -
  have "list_ex is_control (str_chars s)" if "CHR 0x0A \<in> set s"
  proof -
    from that utf8_ascii_char [OF assms] have "10 \<in> set (str_chars s)" by fastforce
    moreover have "is_control 10" by (simp add: is_control_def)
    ultimately show ?thesis unfolding list_ex_iff by blast
  qed
  then show ?thesis by (auto simp: paste_field_def paste_token_def split: option.splits)
qed

lemma optional_field_one_line [simp]:
  "(case v of None \<Rightarrow> True | Some s \<Rightarrow> utf8_valid s) \<Longrightarrow> one_line (optional_field v)"
  by (cases v) (simp_all add: optional_field_def)

lemma token_one_line [simp]:
  "one_line (InterruptPhase_as_str p)" "one_line (WaiterCompletion_as_str c)"
  "one_line (CoverageEndReason_as_str e)" "one_line (ReceiptSource_as_str s)"
  "one_line (DeliveryRoute_as_str d)" "one_line (DrainError_as_str x)"
  subgoal by (cases p) simp_all
  subgoal by (cases c) simp_all
  subgoal by (cases e) simp_all
  subgoal by (cases s) simp_all
  subgoal by (cases d) simp_all
  subgoal by (cases x) simp_all
  done

lemma format_phase_one_line [simp]: "one_line (format_phase_line log p)"
  by (auto simp: format_phase_line_def split: PhaseObservation.splits LifecycleFact.splits)

definition event_utf8 :: "DrainedEvent \<Rightarrow> bool" where
  "event_utf8 event = (utf8_valid (de_id event) \<and> utf8_valid (de_username event))"

definition event_line_count :: "DrainedEvent \<Rightarrow> nat" where
  "event_line_count event = (if de_local_loss event = None then 3 else 4)"

lemma event_lines:
  assumes "event_utf8 event" "pred_option one_line (jr_string r (de_message event))"
  shows "list_all one_line (drained_event_lines r event)"
    "length (drained_event_lines r event) = event_line_count event"
  using assms
  by (auto simp: drained_event_lines_def event_utf8_def event_line_count_def split: option.splits)

lemma events_lines:
  assumes "list_all event_utf8 events" "\<And>t. pred_option one_line (jr_string r t)"
  shows "list_all one_line (render_drained_events r events)"
    "length (render_drained_events r events) = Suc (sum_list (map event_line_count events))"
proof -
  have "list_all one_line (concat (map (drained_event_lines r) events))"
    "length (concat (map (drained_event_lines r) events)) = sum_list (map event_line_count events)"
    using assms by (induction events) (simp_all add: event_lines)
  then show "list_all one_line (render_drained_events r events)"
    "length (render_drained_events r events) = Suc (sum_list (map event_line_count events))"
    by (auto simp: render_drained_events_def)
qed

definition spec_utf8 :: "WaitOnSpec \<Rightarrow> bool" where
  "spec_utf8 spec =
     (utf8_valid (wo_channel spec) \<and> utf8_valid (wo_source spec) \<and> utf8_valid (wo_timeout spec)
      \<and> (case wo_after spec of None \<Rightarrow> True | Some after \<Rightarrow> utf8_valid after))"

lemma receipt_lines:
  assumes "spec_utf8 spec" "lifecycle_log outcome = Inr log"
    and "list_all event_utf8 (oc_drained_events outcome)"
    and "case oc_newest_observed outcome of None \<Rightarrow> True | Some s \<Rightarrow> utf8_valid s"
    and "\<And>t. pred_option one_line (jr_string r t)" "\<And>e k c. one_line (jr_diagnostic r e k c)"
  shows "\<exists>ls. render_wait_receipt r spec outcome = unlines ls \<and> list_all one_line ls
    \<and> length ls = 24 + sum_list (map event_line_count (oc_drained_events outcome))"
proof -
  have "one_line (render_drain_diagnostic r x)" for x
    using assms(6) by (auto simp: render_drain_diagnostic_def split: option.splits DrainError.splits)
  with assms events_lines [OF assms(3,5)] show ?thesis
    by (auto simp: render_wait_receipt_def spec_utf8_def split: option.splits)
qed

lemma unlines_append: "unlines (ls @ ms) = unlines ls @ unlines ms"
  by (simp add: unlines_def)

lemma lifecycle_logged: "\<exists>log. lifecycle_log (fst (run_wait_on_once r env spec)) = Inr log"
proof -
  let ?outcome = "fst (run_wait_on_once r env spec)"
  from interval_cases [of r env spec] show ?thesis
    by (cases "oc_result ?outcome"; cases "oc_drain_error ?outcome"; cases "oc_drained_events ?outcome")
      (auto simp: lifecycle_eval not_started_def Let_def)
qed

text \<open>
  A receipt cannot be forged from the channel. Whatever the channel's posts say and whatever the
  arguments are, a receipt has the 24 lines of the program, one more when coverage follows, and
  three or four for each drained event: no text of another party ever starts a line of its
  own, when the JSON rendering of a text, which escapes control characters, is on one line.
\<close>

theorem receipt_line_count:
  assumes "spec_utf8 spec"
    and "\<And>events. ie_drain env spec = Inr events \<Longrightarrow> list_all event_utf8 events"
    and "\<And>t. pred_option one_line (jr_string r t)" "\<And>e k c. one_line (jr_diagnostic r e k c)"
  shows "count_list (snd (run_wait_on_once r env spec)) (CHR 0x0A) =
    24 + (if wo_follow spec then 1 else 0)
    + sum_list (map event_line_count (oc_drained_events (fst (run_wait_on_once r env spec))))"
proof -
  let ?outcome = "fst (run_wait_on_once r env spec)"
  have events: "list_all event_utf8 (oc_drained_events ?outcome)"
    and "case oc_newest_observed ?outcome of None \<Rightarrow> True | Some s \<Rightarrow> utf8_valid s"
    using assms(2)
    by (auto simp: run_wait_on_once_def attach_drain_def execute_wait_on_def not_started_def Let_def
        event_utf8_def list_all_iff split: sum.splits if_splits)
  with receipt_lines assms lifecycle_logged obtain ls where
    ls: "render_wait_receipt r spec ?outcome = unlines ls" "list_all one_line ls"
      "length ls = 24 + sum_list (map event_line_count (oc_drained_events ?outcome))"
    by metis
  let ?all = "ls @ (if wo_follow spec then [''coverage_mode: follow_newest_observed''] else [])"
  have "snd (run_wait_on_once r env spec) = unlines ?all"
    using ls(1) by (simp add: run_wait_on_once_def Let_def unlines_append) (simp add: unlines_def)
  moreover have "list_all one_line ?all" using ls(2) by simp
  ultimately show ?thesis using unlines_count [of ?all] ls(3) by simp
qed

definition sample_render :: json_render where
  "sample_render = \<lparr>jr_string = (\<lambda>_. None), jr_diagnostic = (\<lambda>_ _ _. [])\<rparr>"

definition sample_wait :: WaitOnSpec where
  "sample_wait = \<lparr>wo_channel = ''c'', wo_after = Some ''p0'', wo_timeout = ''20m'', wo_team = None,
     wo_source = ''chanvoy'', wo_return_route = DR_ReturnForeground, wo_follow = False\<rparr>"

definition sample_post :: DrainedEvent where
  "sample_post = \<lparr>de_id = ''p1'', de_username = ''ann'', de_message = scalars_of ''hi'', de_local_loss = None\<rparr>"

definition sample_interval :: interval_env where
  "sample_interval = \<lparr>ie_runner = (\<lambda>_. Inr (Some 0)), ie_drain = (\<lambda>_. Inr [sample_post])\<rparr>"

theorem receipt_line_count_witness:
  "count_list (snd (run_wait_on_once sample_render sample_interval sample_wait)) (CHR 0x0A) = 27"
proof -
  have "spec_utf8 sample_wait" and "event_utf8 sample_post"
    by (simp_all add: spec_utf8_def sample_wait_def event_utf8_def sample_post_def utf8_valid_ascii)
  moreover have "oc_drained_events (fst (run_wait_on_once sample_render sample_interval sample_wait)) = [sample_post]"
    by (simp add: run_wait_on_once_def attach_drain_def execute_wait_on_def sample_interval_def sample_wait_def
        spec_is_paste_safe_def paste_token_def str_chars_ascii is_control_def WaitResult_from_code_def
        MAX_ID_def MAX_TIMEOUT_def Let_def)
  ultimately show ?thesis
    using receipt_line_count [of sample_wait sample_interval sample_render]
    by (simp add: sample_interval_def sample_render_def event_line_count_def sample_post_def sample_wait_def)
qed

end
