(* ===== verification/Daemon.thy ===== *)
theory Daemon
  imports Deliver Wait_On
begin

text \<open>
  The waiting daemon, \<open>gearwit-cli/src/daemon.rs\<close> with the child slot of \<open>child.rs\<close>: it covers the
  provider with one \<open>chanvoy wait\<close> child, claims what a drain gives after a match, delivers the claim
  to the attached waiter, takes its result, and re-arms coverage when the claim is handled. An
  \<open>eprintln!\<close> is not modelled. \<open>format_time\<close> is \<open>format(Rfc3339)\<close> with its fallback, the process calls
  of \<open>std\<close> and the transport are parameters that give their results.
\<close>

section \<open>Claims and coverage\<close>

definition provider_events_from_drain :: "DrainedEvent list \<Rightarrow> string \<Rightarrow> ProviderEvent list" where
  "provider_events_from_drain events observed_at =
     map (\<lambda>event. \<lparr>pe_provider = ''mattermost'', pe_event_ref = de_id event,
        pe_actor = (if de_username event = [] then None else Some (de_username event)),
        pe_observed_at = observed_at, pe_body = utf8 (de_message event)\<rparr>) events"

record SignalClaim =
  sc_arm_id :: string
  sc_generation :: u64
  sc_signal_id :: string
  sc_event_refs :: "string list"
  sc_events :: "ProviderEvent list"

datatype ClaimError = OccupiedDifferent

datatype DaemonCoverage = DC_Rearm string | DC_Pause | DC_Halt int

record IngestOutcome =
  io_coverage :: DaemonCoverage
  io_claim :: "SignalClaim option"
  io_delivery_id :: "string option"
  io_delivery_attempted :: bool
  io_result_outcome :: "string option"
  io_waiter_attached :: bool

text \<open>\<open>DeliveryIo\<close>: what a send gives, and what reading the result after it gives.\<close>

record delivery_io =
  di_send :: "WaiterLink \<Rightarrow> string + unit"
  di_recv_result :: "string + WaiterLink"

definition claim_or_reuse ::
  "SignalClaim option \<Rightarrow> KnownArm \<Rightarrow> ProviderEvent list \<Rightarrow> string
    \<Rightarrow> SignalClaim option \<times> (ClaimError + SignalClaim)" where
  "claim_or_reuse current arm events mint_id =
     (case current of
        Some existing \<Rightarrow>
          (current,
           if sc_arm_id existing = ka_arm_id arm \<and> sc_generation existing = ka_generation arm
             \<and> sc_events existing = events
           then Inr existing else Inl OccupiedDifferent)
      | None \<Rightarrow>
          let claim = \<lparr>sc_arm_id = ka_arm_id arm, sc_generation = ka_generation arm,
                sc_signal_id = mint_id, sc_event_refs = map pe_event_ref events, sc_events = events\<rparr>
          in (Some claim, Inr claim))"

definition delivery_id_of :: "WaiterLink \<Rightarrow> string option" where
  "delivery_id_of message =
     (case message of DeliverEvents _ delivery_id _ _ _ _ _ _ _ _ \<Rightarrow> Some delivery_id | _ \<Rightarrow> None)"

definition retain_live_attach :: "ServeAttach \<Rightarrow> LinkTable \<Rightarrow> ServeAttach option \<Rightarrow> bool" where
  "retain_live_attach incoming table existing =
     (case sa_session incoming of
        None \<Rightarrow> False
      | Some session \<Rightarrow>
          (case lt_current table of
             None \<Rightarrow> False
           | Some current \<Rightarrow>
               if \<not> session_owns session current then False
               else \<not> (case Option.bind existing sa_session of
                   None \<Rightarrow> False | Some held \<Rightarrow> session_owns held current)))"

section \<open>The pipe\<close>

record DaemonPipe =
  dp_ledger :: DeliveryLedger
  dp_claim :: "SignalClaim option"
  dp_attempted :: bool

definition daemon_pipe_default :: DaemonPipe where
  "daemon_pipe_default = \<lparr>dp_ledger = ledger_default, dp_claim = None, dp_attempted = False\<rparr>"

definition pipe_snapshot :: "DaemonPipe \<Rightarrow> DaemonCoverage \<Rightarrow> bool \<Rightarrow> IngestOutcome" where
  "pipe_snapshot pipe coverage waiter_attached =
     \<lparr>io_coverage = coverage, io_claim = dp_claim pipe,
      io_delivery_id = map_option pd_delivery_id (dl_pending (dp_ledger pipe)),
      io_delivery_attempted = dp_attempted pipe, io_result_outcome = None,
      io_waiter_attached = waiter_attached\<rparr>"

datatype ResultApply = RA_Keep | RA_RevokeLost | RA_RevokeTerminal

definition apply_waiter_result ::
  "(string \<Rightarrow> instant option) \<Rightarrow> DaemonPipe \<Rightarrow> WaiterLink \<Rightarrow> DaemonPipe \<times> ResultApply" where
  "apply_waiter_result parse_time pipe result =
     (case record_delivery_result parse_time (dp_ledger pipe) result of
        (ledger, Inr _) \<Rightarrow>
          (case result of
             DeliveryResult _ _ _ _ outcome _ \<Rightarrow>
               if outcome = ''link_lost''
               then (pipe\<lparr>dp_ledger := ledger, dp_attempted := False\<rparr>, RA_RevokeLost)
               else if outcome = ''return_completed'' \<or> outcome = ''return_failed''
               then (pipe\<lparr>dp_ledger := ledger\<rparr>, RA_RevokeTerminal)
               else (pipe\<lparr>dp_ledger := ledger\<rparr>, RA_Keep)
           | _ \<Rightarrow> (pipe\<lparr>dp_ledger := ledger\<rparr>, RA_Keep))
      | (ledger, Inl _) \<Rightarrow> (pipe\<lparr>dp_ledger := ledger, dp_attempted := False\<rparr>, RA_RevokeLost))"

definition on_transport_loss ::
  "(string \<Rightarrow> instant option) \<Rightarrow> (instant \<Rightarrow> string) \<Rightarrow> DaemonPipe \<Rightarrow> LinkTable \<Rightarrow> LinkSession option
    \<Rightarrow> instant \<Rightarrow> DaemonPipe \<times> LinkTable" where
  "on_transport_loss parse_time format_time pipe table session now =
     (let ledger =
        (case dl_pending (dp_ledger pipe) of
           None \<Rightarrow> dp_ledger pipe
         | Some pending \<Rightarrow>
             if dp_attempted pipe \<and> pd_attempt pending = DA_Awaiting
             then (case pd_message pending of
                 DeliverEvents _ delivery_id link_id _ _ signal_id _ _ _ _ \<Rightarrow>
                   fst (record_delivery_result parse_time (dp_ledger pipe)
                     (DeliveryResult SCHEMA delivery_id link_id signal_id ''link_lost'' (format_time now)))
               | _ \<Rightarrow> dp_ledger pipe)
             else dp_ledger pipe)
      in (pipe\<lparr>dp_ledger := ledger, dp_attempted := False\<rparr>,
          case session of None \<Rightarrow> table | Some session \<Rightarrow> drop_session table session))"

definition lease_expired :: "instant \<Rightarrow> instant \<Rightarrow> bool" where
  "lease_expired lease_until now = (now \<ge> lease_until)"

text \<open>The timeout in milliseconds.\<close>

definition poll_timeout :: "instant \<Rightarrow> instant \<Rightarrow> int option" where
  "poll_timeout lease_until now =
     (if lease_expired lease_until now then None
      else Some (max 1 (min 50 ((lease_until - now) div 1000000))))"

section \<open>Ingesting a match\<close>

definition drained_event_is_displayable :: "DrainedEvent \<Rightarrow> bool" where
  "drained_event_is_displayable event =
     (body_is_displayable (de_message event)
      \<and> (case de_local_loss event of
           None \<Rightarrow> True
         | Some loss \<Rightarrow> lb_displayed_bytes loss = text_len (de_message event)
             \<and> drop (length (de_message event) - length PARTIAL_BODY_ADVISORY) (de_message event)
                 = PARTIAL_BODY_ADVISORY))"

definition local_body_loss_diagnostic :: "DrainedEvent \<Rightarrow> string option" where
  "local_body_loss_diagnostic event =
     map_option (\<lambda>loss.
       ''gearwit: local provider-body loss: ref='' @ paste_field (de_id event) MAX_ID
       @ '' controls_removed='' @ decimal (lb_controls_removed loss)
       @ '' scalars_clipped='' @ decimal (lb_scalars_clipped loss)
       @ '' displayed_bytes='' @ decimal (lb_displayed_bytes loss)
       @ '' advisory=untrusted-spoofable'') (de_local_loss event)"

definition update_ack_visibility_after_result :: "AckStore \<Rightarrow> WaiterLink \<Rightarrow> AckStore" where
  "update_ack_visibility_after_result acks result =
     (case result of
        DeliveryResult _ _ _ signal_id outcome _ \<Rightarrow>
          if outcome = ''return_completed'' then fst (note_return_completed acks signal_id) else acks
      | _ \<Rightarrow> acks)"

definition apply_waiter_result_with_ack_visibility ::
  "(string \<Rightarrow> instant option) \<Rightarrow> DaemonPipe \<Rightarrow> AckStore \<Rightarrow> WaiterLink \<Rightarrow> DaemonPipe \<times> AckStore \<times> ResultApply" where
  "apply_waiter_result_with_ack_visibility parse_time pipe acks result =
     (case apply_waiter_result parse_time pipe result of
        (pipe, applied) \<Rightarrow>
          (pipe, if applied = RA_RevokeTerminal then update_ack_visibility_after_result acks result else acks,
           applied))"

definition daemon_coverage :: "WaitResult \<Rightarrow> string \<Rightarrow> DaemonCoverage" where
  "daemon_coverage wait current_after =
     (case wait of
        WR_Timeout \<Rightarrow> DC_Rearm current_after
      | WR_Error \<Rightarrow> DC_Halt 2
      | WR_Matched \<Rightarrow> DC_Pause)"

section \<open>Delivering a claim\<close>

text \<open>
  \<open>deliver_claimed\<close> in three parts. The last reads the result after a send: the ledger, and the
  result with its outcome when the ledger took it.
\<close>

definition await_result ::
  "(string \<Rightarrow> instant option) \<Rightarrow> DeliveryLedger \<Rightarrow> delivery_io
    \<Rightarrow> DeliveryLedger \<times> (WaiterLink \<times> string) option" where
  "await_result parse_time ledger io =
     (case di_recv_result io of
        Inl _ \<Rightarrow> (ledger, None)
      | Inr result \<Rightarrow>
          (case record_delivery_result parse_time ledger result of
             (ledger, Inl _) \<Rightarrow> (ledger, None)
           | (ledger, Inr _) \<Rightarrow>
               (ledger, case result of
                  DeliveryResult _ _ _ _ outcome _ \<Rightarrow> Some (result, outcome) | _ \<Rightarrow> None)))"

text \<open>The part from the prepared message on.\<close>

definition send_claimed ::
  "(string \<Rightarrow> instant option) \<Rightarrow> SignalClaim \<Rightarrow> DaemonPipe \<Rightarrow> AckStore \<Rightarrow> WaiterLink
    \<Rightarrow> delivery_io option \<Rightarrow> DaemonCoverage \<Rightarrow> IngestOutcome \<times> DaemonPipe \<times> AckStore" where
  "send_claimed parse_time live pipe acks message io coverage =
     (let outcome = (\<lambda>claim attempted result.
            \<lparr>io_coverage = coverage, io_claim = claim, io_delivery_id = delivery_id_of message,
             io_delivery_attempted = attempted, io_result_outcome = result, io_waiter_attached = True\<rparr>);
          unsent = (outcome (Some live) False None, pipe\<lparr>dp_attempted := False\<rparr>, acks) in
      case io of
        None \<Rightarrow> unsent
      | Some io \<Rightarrow>
          if dp_attempted pipe \<and> (case dl_pending (dp_ledger pipe) of
              None \<Rightarrow> False | Some pending \<Rightarrow> pd_attempt pending = DA_Awaiting)
          then (outcome (Some live) True None, pipe, acks)
          else (case di_send io message of
            Inl _ \<Rightarrow> unsent
          | Inr _ \<Rightarrow>
              (case note_delivered acks (sc_signal_id live)
                  (case message of DeliverEvents _ _ _ _ _ _ _ events _ _ \<Rightarrow>
                     map pe_event_ref events | _ \<Rightarrow> []) (sc_event_refs live) of
                 (acks, Inl _) \<Rightarrow> (pipe_snapshot pipe (DC_Halt 2) True, pipe, acks)
               | (acks, Inr _) \<Rightarrow>
                   let claim = (case dp_claim pipe of None \<Rightarrow> Some live | c \<Rightarrow> c) in
                   (case await_result parse_time (dp_ledger pipe) io of
                      (ledger, None) \<Rightarrow>
                        (outcome claim True None, pipe\<lparr>dp_ledger := ledger, dp_attempted := True\<rparr>, acks)
                    | (ledger, Some (result, result_outcome)) \<Rightarrow>
                        (outcome claim True (Some result_outcome),
                         pipe\<lparr>dp_ledger := ledger, dp_attempted := (result_outcome \<noteq> ''link_lost'')\<rparr>,
                         update_ack_visibility_after_result acks result)))))"

text \<open>\<open>delivery_id\<close> is the ULID of a batch that is prepared anew.\<close>

definition deliver_claimed ::
  "(string \<Rightarrow> instant option) \<Rightarrow> (instant \<Rightarrow> string) \<Rightarrow> string \<Rightarrow> SignalClaim \<Rightarrow> AdmittedLink option
    \<Rightarrow> DaemonPipe \<Rightarrow> AckStore \<Rightarrow> instant \<Rightarrow> delivery_io option \<Rightarrow> DaemonCoverage
    \<Rightarrow> IngestOutcome \<times> DaemonPipe \<times> AckStore" where
  "deliver_claimed parse_time format_time delivery_id live link pipe acks now io coverage =
     (case link of
        None \<Rightarrow>
          (\<lparr>io_coverage = coverage, io_claim = Some live, io_delivery_id = None,
            io_delivery_attempted = False, io_result_outcome = None, io_waiter_attached = False\<rparr>,
           pipe, acks)
      | Some link \<Rightarrow>
          (case (if should_redeliver (dp_ledger pipe)
                 then redeliver_pending parse_time format_time (dp_ledger pipe) link now
                 else prepare_delivery parse_time format_time delivery_id (dp_ledger pipe) link
                   (sc_signal_id live) (sc_events live) now) of
             (ledger, Inl _) \<Rightarrow>
               let pipe = pipe\<lparr>dp_ledger := ledger\<rparr> in (pipe_snapshot pipe coverage True, pipe, acks)
           | (ledger, Inr message) \<Rightarrow>
               send_claimed parse_time live (pipe\<lparr>dp_ledger := ledger\<rparr>) acks message io coverage))"

text \<open>
  \<open>mint\<close> is the ULID that \<open>mint_signal\<close> draws. A match is only a hint: the events come from the
  drain.
\<close>

record ingest_request =
  ir_spec :: WaitOnSpec
  ir_wait :: WaitResult
  ir_drain :: event_drain
  ir_arm :: KnownArm
  ir_link :: "AdmittedLink option"
  ir_now :: instant

text \<open>The part of \<open>ingest_match\<close> from the claim on.\<close>

definition claim_drained ::
  "(string \<Rightarrow> instant option) \<Rightarrow> (instant \<Rightarrow> string) \<Rightarrow> string \<Rightarrow> string \<Rightarrow> ingest_request
    \<Rightarrow> ProviderEvent list \<Rightarrow> bool \<Rightarrow> DaemonPipe \<Rightarrow> AckStore \<Rightarrow> delivery_io option
    \<Rightarrow> IngestOutcome \<times> DaemonPipe \<times> AckStore" where
  "claim_drained parse_time format_time mint delivery_id request events requires_return_completed pipe acks io =
     (let waiter_attached = (ir_link request \<noteq> None);
          is_new = (dp_claim pipe = None) in
      case claim_or_reuse (dp_claim pipe) (ir_arm request) events mint of
        (claim, Inl OccupiedDifferent) \<Rightarrow>
          let pipe = pipe\<lparr>dp_claim := claim\<rparr> in (pipe_snapshot pipe DC_Pause waiter_attached, pipe, acks)
      | (claim, Inr live) \<Rightarrow>
          let pipe = pipe\<lparr>dp_claim := claim\<rparr> in
          (case (if is_new then note_claimed acks (sc_signal_id live) else (acks, Inr ())) of
             (acks, Inl _) \<Rightarrow> (pipe_snapshot pipe (DC_Halt 2) waiter_attached, pipe, acks)
           | (acks, Inr _) \<Rightarrow>
               (case (if is_new \<and> requires_return_completed
                      then require_return_completed_before_handled acks (sc_signal_id live)
                      else (acks, Inr ())) of
                  (acks, Inl _) \<Rightarrow> (pipe_snapshot pipe (DC_Halt 2) waiter_attached, pipe, acks)
                | (acks, Inr _) \<Rightarrow>
                    deliver_claimed parse_time format_time delivery_id live (ir_link request) pipe acks
                      (ir_now request) io DC_Pause)))"

definition hinted :: WaitOutcome where
  "hinted = \<lparr>oc_waiter = WS_Completed, oc_result = WR_Matched, oc_chanvoy_exit = Some 0,
     oc_process_exit = 0, oc_drained_events = [], oc_newest_observed = None, oc_drain_error = None\<rparr>"

definition ingest_match ::
  "(string \<Rightarrow> instant option) \<Rightarrow> (instant \<Rightarrow> string) \<Rightarrow> string \<Rightarrow> string \<Rightarrow> ingest_request \<Rightarrow> DaemonPipe
    \<Rightarrow> AckStore \<Rightarrow> delivery_io option \<Rightarrow> IngestOutcome \<times> DaemonPipe \<times> AckStore" where
  "ingest_match parse_time format_time mint delivery_id request pipe acks io =
     (let spec = ir_spec request;
          waiter_attached = (ir_link request \<noteq> None);
          halted = (pipe_snapshot pipe (DC_Halt 2) waiter_attached, pipe, acks) in
      if ir_wait request \<noteq> WR_Matched
      then (pipe_snapshot pipe (daemon_coverage (ir_wait request) (after_or_default spec)) waiter_attached,
            pipe, acks)
      else
        (case attach_drain hinted spec (ir_drain request) of drained \<Rightarrow>
           if oc_drain_error drained \<noteq> None then halted
           else if oc_newest_observed drained = None then halted
           else if list_ex (\<lambda>event. \<not> drained_event_is_displayable event) (oc_drained_events drained)
           then halted
           else claim_drained parse_time format_time mint delivery_id request
             (provider_events_from_drain (oc_drained_events drained) (format_time (ir_now request)))
             (list_ex (\<lambda>event. de_local_loss event \<noteq> None) (oc_drained_events drained))
             pipe acks io))"

text \<open>\<open>LANYTE_AGENT_ROLE\<close>, when it is the name of a seat.\<close>

definition seat_id :: "string option \<Rightarrow> string" where
  "seat_id role =
     (case role of
        None \<Rightarrow> ''gearwit-seat''
      | Some role \<Rightarrow>
          if 1 \<le> length role \<and> length role \<le> 63 \<and> in_range (CHR ''a'') (CHR ''z'') (hd role)
            \<and> list_all (\<lambda>b. in_range (CHR ''a'') (CHR ''z'') b \<or> in_range (CHR ''0'') (CHR ''9'') b
                \<or> b = CHR ''-'') role
          then role else ''gearwit-seat'')"

section \<open>The child slot\<close>

text \<open>
  A process id, and the results of the process calls: \<open>spawn\<close> for a program and its arguments,
  \<open>try_wait\<close> (still running, or exited with a code if no signal ended it), \<open>kill\<close>, \<open>wait\<close>, and the
  \<open>try_wait\<close> after a failed \<open>kill\<close>. Of an I/O error only its kind matters.
\<close>

datatype io_kind = IK_AlreadyExists | IK_InvalidInput | IK_NotFound | IK_Other

record child_os =
  co_spawn :: "string \<Rightarrow> string list \<Rightarrow> io_kind + nat"
  co_try_wait :: "io_kind + (int option) option"
  co_kill :: "io_kind + unit"
  co_wait :: "io_kind + unit"
  co_try_wait_killed :: "io_kind + (int option) option"

type_synonym ChildSlot = "nat option"

record KillReap =
  kr_killed :: bool
  kr_reaped :: bool

definition child_occupied :: "ChildSlot \<Rightarrow> bool" where
  "child_occupied slot = (slot \<noteq> None)"

definition child_spawn :: "child_os \<Rightarrow> ChildSlot \<Rightarrow> string \<Rightarrow> string list \<Rightarrow> ChildSlot \<times> (io_kind + nat)" where
  "child_spawn os slot program args =
     (if slot \<noteq> None then (slot, Inl IK_AlreadyExists)
      else (case co_spawn os program args of
        Inl e \<Rightarrow> (slot, Inl e)
      | Inr pid \<Rightarrow> (Some pid, Inr pid)))"

definition child_try_wait :: "child_os \<Rightarrow> ChildSlot \<Rightarrow> ChildSlot \<times> (io_kind + (int option) option)" where
  "child_try_wait os slot =
     (case slot of
        None \<Rightarrow> (slot, Inr None)
      | Some _ \<Rightarrow>
          (case co_try_wait os of
             Inl e \<Rightarrow> (slot, Inl e)
           | Inr (Some status) \<Rightarrow> (None, Inr (Some status))
           | Inr None \<Rightarrow> (slot, Inr None)))"

definition already_exited :: "io_kind \<Rightarrow> bool" where
  "already_exited error = (error = IK_InvalidInput \<or> error = IK_NotFound)"

definition child_kill_and_reap :: "child_os \<Rightarrow> ChildSlot \<Rightarrow> ChildSlot \<times> (io_kind + KillReap)" where
  "child_kill_and_reap os slot =
     (case slot of
        None \<Rightarrow> (None, Inr \<lparr>kr_killed = False, kr_reaped = False\<rparr>)
      | Some child \<Rightarrow>
          (case co_kill os of
             Inr _ \<Rightarrow> (None, bind_res (co_wait os) (\<lambda>_. Inr \<lparr>kr_killed = True, kr_reaped = True\<rparr>))
           | Inl error \<Rightarrow>
               (case co_try_wait_killed os of
                  Inr (Some _) \<Rightarrow> (None, Inr \<lparr>kr_killed = already_exited error, kr_reaped = True\<rparr>)
                | Inr None \<Rightarrow> (Some child, Inl error)
                | Inl wait_error \<Rightarrow> (Some child, Inl wait_error))))"

definition spawn_chanvoy :: "child_os \<Rightarrow> ChildSlot \<Rightarrow> WaitOnSpec \<Rightarrow> ChildSlot \<times> (int + nat)" where
  "spawn_chanvoy os slot spec =
     (case child_spawn os slot ''chanvoy'' (chanvoy_wait_args spec) of
        (slot, Inl _) \<Rightarrow> (slot, Inl 2)
      | (slot, Inr pid) \<Rightarrow> (slot, Inr pid))"

section \<open>The daemon\<close>

text \<open>
  The locals of \<open>run_daemon_wait\<close>, and the table and acknowledgements it shares with the accept
  thread. The reader and writer of the attached waiter are results in the environment of a call.
\<close>

record Daemon =
  dm_spec :: WaitOnSpec
  dm_arm :: KnownArm
  dm_pipe :: DaemonPipe
  dm_served :: "ServeAttach option"
  dm_children :: ChildSlot
  dm_table :: LinkTable
  dm_acks :: AckStore

record daemon_host =
  dh_parse_time :: "string \<Rightarrow> instant option"
  dh_format_time :: "instant \<Rightarrow> string"
  dh_json :: json_codec
  dh_command :: u16

text \<open>
  What one turn of the loop meets: the clock (once for the turn, once for the ingest), the drain, the
  attached waiter's transport, the processes, and the two ULIDs that may be drawn.
\<close>

record loop_env =
  le_now :: instant
  le_ingest_now :: instant
  le_drain :: event_drain
  le_send :: frame_send
  le_read :: frame_read
  le_set_timeout :: "int \<Rightarrow> bool"
  le_child :: child_os
  le_signal_id :: string
  le_delivery_id :: string

text \<open>\<open>LinkIo\<close>: results are not read here but polled by the loop.\<close>

definition link_io :: "daemon_host \<Rightarrow> loop_env \<Rightarrow> delivery_io" where
  "link_io h env =
     \<lparr>di_send = (\<lambda>message.
        map_err (\<lambda>_. ''send'') (send_delivery (dh_parse_time h) (dh_json h) (dh_command h) (le_send env) message)),
      di_recv_result = Inl ''deferred''\<rparr>"

definition set_poll_timeout :: "loop_env \<Rightarrow> instant \<Rightarrow> instant \<Rightarrow> bool" where
  "set_poll_timeout env lease_until now =
     (case poll_timeout lease_until now of None \<Rightarrow> False | Some timeout \<Rightarrow> le_set_timeout env timeout)"

definition is_read_idle :: "LinkError \<Rightarrow> bool" where
  "is_read_idle error = (error = LE_Frame FE_IoTimedOut \<or> error = LE_Frame FE_IoWouldBlock)"

definition flush_attached ::
  "daemon_host \<Rightarrow> loop_env \<Rightarrow> AdmittedLink option \<Rightarrow> DaemonPipe \<Rightarrow> AckStore \<Rightarrow> instant
    \<Rightarrow> bool \<times> DaemonPipe \<times> AckStore" where
  "flush_attached h env link pipe acks now =
     (if (case dl_pending (dp_ledger pipe) of
            None \<Rightarrow> False
          | Some pending \<Rightarrow> (case pd_attempt pending of DA_Terminal _ \<Rightarrow> True | _ \<Rightarrow> False))
      then (False, pipe, acks)
      else (case dp_claim pipe of
        None \<Rightarrow> (False, pipe, acks)
      | Some live \<Rightarrow>
          (case link of
             None \<Rightarrow> (False, pipe, acks)
           | Some link' \<Rightarrow>
               if lease_expired (al_lease_until link') now then (True, pipe, acks)
               else (case deliver_claimed (dh_parse_time h) (dh_format_time h) (le_delivery_id env) live
                   link pipe acks now (Some (link_io h env)) DC_Pause of
                 (outcome, pipe, acks) \<Rightarrow>
                   (io_delivery_id outcome \<noteq> None \<and> \<not> io_delivery_attempted outcome, pipe, acks)))))"

definition flush_current :: "daemon_host \<Rightarrow> loop_env \<Rightarrow> Daemon \<Rightarrow> Daemon \<times> bool" where
  "flush_current h env d =
     (if dm_served d = None then (d, False)
      else (case flush_attached h env (lt_current (dm_table d)) (dm_pipe d) (dm_acks d) (le_now env) of
        (failed, pipe, acks) \<Rightarrow> (d\<lparr>dm_pipe := pipe, dm_acks := acks\<rparr>, failed)))"

definition revoke_exact :: "daemon_host \<Rightarrow> loop_env \<Rightarrow> Daemon \<Rightarrow> bool \<Rightarrow> Daemon" where
  "revoke_exact h env d mark_lost =
     (let session = Option.bind (dm_served d) sa_session in
      if mark_lost
      then (case on_transport_loss (dh_parse_time h) (dh_format_time h) (dm_pipe d) (dm_table d) session
          (le_now env) of
        (pipe, table) \<Rightarrow> d\<lparr>dm_pipe := pipe, dm_table := table, dm_served := None\<rparr>)
      else d\<lparr>dm_table := (case session of None \<Rightarrow> dm_table d | Some s \<Rightarrow> drop_session (dm_table d) s),
             dm_served := None\<rparr>)"

definition read_result :: "daemon_host \<Rightarrow> loop_env \<Rightarrow> Daemon \<Rightarrow> Daemon" where
  "read_result h env d =
     (case read_waiter_link (dh_parse_time h) (dh_json h) (dh_command h) (le_read env) of
        Inr result \<Rightarrow>
          (case apply_waiter_result_with_ack_visibility (dh_parse_time h) (dm_pipe d) (dm_acks d) result of
             (pipe, acks, applied) \<Rightarrow>
               let d = d\<lparr>dm_pipe := pipe, dm_acks := acks\<rparr> in
               (case applied of
                  RA_Keep \<Rightarrow> d
                | RA_RevokeLost \<Rightarrow> revoke_exact h env d True
                | RA_RevokeTerminal \<Rightarrow> revoke_exact h env d False))
      | Inl error \<Rightarrow> if is_read_idle error then d else revoke_exact h env d True)"

definition poll_result :: "daemon_host \<Rightarrow> loop_env \<Rightarrow> Daemon \<Rightarrow> Daemon" where
  "poll_result h env d =
     (case dm_served d of
        None \<Rightarrow> d
      | Some served \<Rightarrow>
          (case (sa_session served, lt_current (dm_table d)) of
             (Some session, Some link) \<Rightarrow>
               if \<not> session_owns session link then revoke_exact h env d True
               else if lease_expired (al_lease_until link) (le_now env) then revoke_exact h env d True
               else if \<not> set_poll_timeout env (al_lease_until link) (le_now env)
               then revoke_exact h env d True
               else read_result h env d
           | (Some session, None) \<Rightarrow> revoke_exact h env d True
           | (None, _) \<Rightarrow> read_result h env d))"

definition adopt_attached :: "daemon_host \<Rightarrow> loop_env \<Rightarrow> ServeAttach \<Rightarrow> Daemon \<Rightarrow> Daemon" where
  "adopt_attached h env incoming d =
     (if \<not> retain_live_attach incoming (dm_table d) (dm_served d) then d
      else
        let d = (case Option.bind (dm_served d) sa_session of
              None \<Rightarrow> d\<lparr>dm_served := None\<rparr>
            | Some old_session \<Rightarrow>
                (case on_transport_loss (dh_parse_time h) (dh_format_time h) (dm_pipe d) (dm_table d)
                    (Some old_session) (le_now env) of
                  (pipe, table) \<Rightarrow> d\<lparr>dm_pipe := pipe, dm_table := table, dm_served := None\<rparr>));
            timeout_failed = (case lt_current (dm_table d) of
              None \<Rightarrow> False
            | Some link \<Rightarrow> \<not> set_poll_timeout env (al_lease_until link) (le_now env)
                \<or> lease_expired (al_lease_until link) (le_now env));
            d = d\<lparr>dm_served := Some incoming\<rparr> in
        if timeout_failed then revoke_exact h env d True
        else (case flush_current h env d of
          (d, failed) \<Rightarrow> if failed then revoke_exact h env d True else d))"

section \<open>Re-arming coverage\<close>

definition take_coverage_rearm :: "Daemon \<Rightarrow> AckRearm \<Rightarrow> Daemon \<times> bool" where
  "take_coverage_rearm d rearm =
     (if ka_generation (dm_arm d) = ar_generation rearm \<and> wo_after (dm_spec d) = Some (ar_after rearm)
        \<and> dp_claim (dm_pipe d) = None \<and> dl_pending (dp_ledger (dm_pipe d)) = None
      then (d, False)
      else
        (d\<lparr>dm_arm := (dm_arm d)\<lparr>ka_generation := ar_generation rearm\<rparr>,
           dm_spec := (dm_spec d)\<lparr>wo_after := Some (ar_after rearm)\<rparr>,
           dm_pipe := \<lparr>dp_ledger = ledger_default, dp_claim = None, dp_attempted = False\<rparr>\<rparr>, True))"

definition revoke_older_generation :: "Daemon \<Rightarrow> u64 \<Rightarrow> Daemon" where
  "revoke_older_generation d generation =
     (let d = (case Option.bind (dm_served d) sa_session of
            None \<Rightarrow> d
          | Some session \<Rightarrow>
              if ls_generation session < generation
              then d\<lparr>dm_served := None, dm_table := drop_session (dm_table d) session\<rparr> else d)
      in (case lt_current (dm_table d) of
            None \<Rightarrow> d
          | Some current \<Rightarrow>
              if al_generation current < generation
              then d\<lparr>dm_table := drop_current (dm_table d)\<rparr> else d))"

datatype RearmFollowup = RF_Unchanged | RF_Paused | RF_Waiting

definition restart_after_ack ::
  "daemon_host \<Rightarrow> loop_env \<Rightarrow> Daemon \<Rightarrow> AckRearm \<Rightarrow> Daemon \<times> (int + RearmFollowup)" where
  "restart_after_ack h env d rearm =
     (case take_coverage_rearm d rearm of
        (d, False) \<Rightarrow> (d, Inr RF_Unchanged)
      | (d, True) \<Rightarrow>
          let d = revoke_older_generation d (ar_generation rearm) in
          (case child_kill_and_reap (le_child env) (dm_children d) of
             (slot, Inl _) \<Rightarrow> (d\<lparr>dm_children := slot\<rparr>, Inl 2)
           | (slot, Inr _) \<Rightarrow>
               let d = d\<lparr>dm_children := slot\<rparr> in
               (case le_drain env (dm_spec d) of
                  Inl _ \<Rightarrow> (d, Inl 2)
                | Inr events \<Rightarrow>
                    if events = []
                    then (case spawn_chanvoy (le_child env) (dm_children d) (dm_spec d) of
                        (slot, Inl code) \<Rightarrow> (d\<lparr>dm_children := slot\<rparr>, Inl code)
                      | (slot, Inr _) \<Rightarrow> (d\<lparr>dm_children := slot\<rparr>, Inr RF_Waiting))
                    else (case ingest_match (dh_parse_time h) (dh_format_time h) (le_signal_id env)
                        (le_delivery_id env)
                        \<lparr>ir_spec = dm_spec d, ir_wait = WR_Matched, ir_drain = (\<lambda>_. Inr events),
                         ir_arm = dm_arm d, ir_link = None, ir_now = le_now env\<rparr>
                        (dm_pipe d) (dm_acks d) None of
                      (outcome, pipe, acks) \<Rightarrow>
                        (d\<lparr>dm_pipe := pipe, dm_acks := acks\<rparr>,
                         case io_coverage outcome of
                           DC_Halt exit \<Rightarrow> Inl exit
                         | _ \<Rightarrow> Inr RF_Paused)))))"

section \<open>Ending\<close>

text \<open>
  \<open>shutdown_daemon\<close> and \<open>halt\<close> stop the accept thread, kill the child and drop the live session; what
  they return is the report, or the exit code.
\<close>

definition drop_live :: "LinkTable \<Rightarrow> LinkTable" where
  "drop_live table =
     drop_current (case lt_current table of
        None \<Rightarrow> table | Some current \<Rightarrow> drop_session table (session_of current))"

record ShutdownReport =
  sr_child_reaped :: bool
  sr_link_live :: bool

definition shutdown_daemon ::
  "child_os \<Rightarrow> LinkTable \<Rightarrow> ChildSlot \<Rightarrow> LinkTable \<times> ChildSlot \<times> (io_kind + ShutdownReport)" where
  "shutdown_daemon os table children =
     (case child_kill_and_reap os children of
        (children, Inl e) \<Rightarrow> (table, children, Inl e)
      | (children, Inr child) \<Rightarrow>
          let table = drop_live table in
          (table, children, Inr \<lparr>sr_child_reaped = (kr_reaped child \<or> \<not> child_occupied children),
             sr_link_live = (lt_current table \<noteq> None)\<rparr>))"

definition halt :: "child_os \<Rightarrow> Daemon \<Rightarrow> int \<Rightarrow> Daemon \<times> int" where
  "halt os d code =
     (case child_kill_and_reap os (dm_children d) of
        (children, child) \<Rightarrow>
          (d\<lparr>dm_children := children, dm_table := drop_live (dm_table d)\<rparr>,
           if is_ok child then code else 2))"

section \<open>The loop\<close>

definition ingest_child_exit ::
  "daemon_host \<Rightarrow> loop_env \<Rightarrow> Daemon \<Rightarrow> int option \<Rightarrow> Daemon \<times> DaemonCoverage" where
  "ingest_child_exit h env d status =
     (case ingest_match (dh_parse_time h) (dh_format_time h) (le_signal_id env) (le_delivery_id env)
         \<lparr>ir_spec = dm_spec d,
          ir_wait = WaitResult_from_code (case status of None \<Rightarrow> 2 | Some code \<Rightarrow> code),
          ir_drain = le_drain env, ir_arm = dm_arm d, ir_link = lt_current (dm_table d),
          ir_now = le_ingest_now env\<rparr> (dm_pipe d) (dm_acks d) None of
       (outcome, pipe, acks) \<Rightarrow> (d\<lparr>dm_pipe := pipe, dm_acks := acks\<rparr>, io_coverage outcome))"

definition poll_chanvoy :: "daemon_host \<Rightarrow> loop_env \<Rightarrow> Daemon \<Rightarrow> Daemon \<times> int option" where
  "poll_chanvoy h env d =
     (case child_try_wait (le_child env) (dm_children d) of
        (children, Inr (Some status)) \<Rightarrow>
          (case ingest_child_exit h env (d\<lparr>dm_children := children\<rparr>) status of
             (d, DC_Rearm after) \<Rightarrow>
               let d = d\<lparr>dm_spec := (dm_spec d)\<lparr>wo_after := Some after\<rparr>\<rparr> in
               (case spawn_chanvoy (le_child env) (dm_children d) (dm_spec d) of
                  (children, Inl code) \<Rightarrow> (d\<lparr>dm_children := children\<rparr>, Some code)
                | (children, Inr _) \<Rightarrow> (d\<lparr>dm_children := children\<rparr>, None))
           | (d, DC_Pause) \<Rightarrow>
               (case flush_current h env d of
                  (d, failed) \<Rightarrow> (if failed then revoke_exact h env d True else d, None))
           | (d, DC_Halt exit) \<Rightarrow> (d, Some exit))
      | (children, Inr None) \<Rightarrow> (d\<lparr>dm_children := children\<rparr>, None)
      | (children, Inl _) \<Rightarrow> (d\<lparr>dm_children := children\<rparr>, Some 2))"

datatype DaemonEvent = DV_Attached ServeAttach | DV_CoverageRearm AckRearm

text \<open>What the channel gives within its timeout: an event, nothing, or that the accept thread is gone.\<close>

datatype ChannelRecv = CR_Event DaemonEvent | CR_Timeout | CR_Disconnected

definition handle_event ::
  "daemon_host \<Rightarrow> loop_env \<Rightarrow> ChannelRecv \<Rightarrow> Daemon \<Rightarrow> Daemon \<times> int option" where
  "handle_event h env recv d =
     (case recv of
        CR_Event (DV_Attached incoming) \<Rightarrow> (adopt_attached h env incoming d, None)
      | CR_Event (DV_CoverageRearm rearm) \<Rightarrow>
          (case restart_after_ack h env d rearm of
             (d, Inl code) \<Rightarrow> (d, Some code)
           | (d, Inr _) \<Rightarrow> (d, None))
      | CR_Timeout \<Rightarrow> (d, None)
      | CR_Disconnected \<Rightarrow> (d, Some 2))"

text \<open>One turn of the loop: the exit code, if the turn ended the daemon.\<close>

definition loop_turn :: "daemon_host \<Rightarrow> loop_env \<Rightarrow> ChannelRecv \<Rightarrow> Daemon \<Rightarrow> Daemon \<times> int option" where
  "loop_turn h env recv d =
     (let stop = (\<lambda>d code. case halt (le_child env) d code of (d, code) \<Rightarrow> (d, Some code)) in
      if le_now env \<ge> ka_coverage_until (dm_arm d) then stop d 1
      else (case handle_event h env recv d of
        (d, Some code) \<Rightarrow> stop d code
      | (d, None) \<Rightarrow>
          (case poll_chanvoy h env (poll_result h env d) of
             (d, Some code) \<Rightarrow> stop d code
           | (d, None) \<Rightarrow> (d, None))))"

text \<open>\<open>bind_runtime\<close> and the start: the arm the daemon mints and the first child.\<close>

definition runtime_arm :: "string option \<Rightarrow> string \<Rightarrow> instant \<Rightarrow> KnownArm" where
  "runtime_arm role arm_id now =
     \<lparr>ka_arm_id = arm_id, ka_generation = 1, ka_seat_id = seat_id role,
      ka_route = DeliveryRoute_as_str DR_CompleteBackgroundTool, ka_coverage_until = now + minutes 20\<rparr>"

definition daemon_start :: "child_os \<Rightarrow> WaitOnSpec \<Rightarrow> KnownArm \<Rightarrow> Daemon \<times> int option" where
  "daemon_start os spec arm =
     (let d = \<lparr>dm_spec = spec\<lparr>wo_follow := True\<rparr>, dm_arm = arm, dm_pipe = daemon_pipe_default,
            dm_served = None, dm_children = None, dm_table = link_table_default, dm_acks = with_arm arm\<rparr> in
      case spawn_chanvoy os (dm_children d) (dm_spec d) of
        (children, Inl _) \<Rightarrow>
          (case halt os (d\<lparr>dm_children := children\<rparr>) 2 of (d, code) \<Rightarrow> (d, Some code))
      | (children, Inr _) \<Rightarrow> (d\<lparr>dm_children := children\<rparr>, None))"

section \<open>Beside the accept thread\<close>

text \<open>
  The daemon as a whole: the locals and shared state, the channel between the threads, the attach the
  accept thread has in flight, and the exit code once the loop has ended. The accept thread serves
  one connection at a time: it prepares an attach under the table's lock, writes the reply without
  it and commits under it again, or it records an acknowledgement under its lock; its steps
  fall between the three parts of a turn of the loop.
\<close>

record DaemonWorld =
  dw_daemon :: Daemon
  dw_queue :: "DaemonEvent list"
  dw_inflight :: "PreparedAttach option"
  dw_exit :: "int option"

datatype DaemonOp =
  AcceptPrepare string WaiterLink instant nat
| AcceptCommit bool
| AcceptHandled HandledCursor instant
| LoopEvent loop_env
| LoopResult loop_env
| LoopChild loop_env
| LoopExpired loop_env
| LoopDisconnected loop_env

definition end_with :: "loop_env \<Rightarrow> DaemonWorld \<Rightarrow> Daemon \<times> int option \<Rightarrow> DaemonWorld" where
  "end_with env w r =
     (case r of
        (d, None) \<Rightarrow> w\<lparr>dw_daemon := d\<rparr>
      | (d, Some code) \<Rightarrow>
          (case halt (le_child env) d code of
             (d, code) \<Rightarrow> w\<lparr>dw_daemon := d, dw_inflight := None, dw_exit := Some code\<rparr>))"

fun daemon_op :: "daemon_host \<Rightarrow> DaemonWorld \<Rightarrow> DaemonOp \<Rightarrow> DaemonWorld" where
  "daemon_op h w (AcceptPrepare link_id request now elapsed) =
     (let d = dw_daemon w; arms = (case as_arm (dm_acks d) of None \<Rightarrow> [] | Some arm \<Rightarrow> [arm]) in
      if dw_inflight w \<noteq> None then w
      else (case prepare_attach (dh_parse_time h) (dh_format_time h) link_id (dm_table d) request now
          elapsed arms of
        (table, Inl _) \<Rightarrow> w\<lparr>dw_daemon := d\<lparr>dm_table := table\<rparr>\<rparr>
      | (table, Inr prepared) \<Rightarrow>
          w\<lparr>dw_daemon := d\<lparr>dm_table := table\<rparr>, dw_inflight := Some prepared\<rparr>))"
| "daemon_op h w (AcceptCommit write_ok) =
     (case dw_inflight w of
        None \<Rightarrow> w
      | Some prepared \<Rightarrow>
          (case commit_prepared_attach (dm_table (dw_daemon w)) prepared write_ok of
             (table, served) \<Rightarrow>
               w\<lparr>dw_daemon := (dw_daemon w)\<lparr>dm_table := table\<rparr>, dw_inflight := None,
                 dw_queue := dw_queue w @ (case served of None \<Rightarrow> [] | Some s \<Rightarrow> [DV_Attached s])\<rparr>))"
| "daemon_op h w (AcceptHandled request now) =
     (if dw_inflight w \<noteq> None then w
      else (case record_ack (dh_parse_time h) (dh_format_time h) (dm_acks (dw_daemon w)) request now of
        (acks, Inl _) \<Rightarrow> w\<lparr>dw_daemon := (dw_daemon w)\<lparr>dm_acks := acks\<rparr>\<rparr>
      | (acks, Inr served) \<Rightarrow>
          w\<lparr>dw_daemon := (dw_daemon w)\<lparr>dm_acks := acks\<rparr>,
            dw_queue := dw_queue w @ (case hs_rearm served of None \<Rightarrow> [] | Some r \<Rightarrow> [DV_CoverageRearm r])\<rparr>))"
| "daemon_op h w (LoopEvent env) =
     (case dw_queue w of
        [] \<Rightarrow> end_with env w (handle_event h env CR_Timeout (dw_daemon w))
      | event # queue \<Rightarrow>
          end_with env (w\<lparr>dw_queue := queue\<rparr>) (handle_event h env (CR_Event event) (dw_daemon w)))"
| "daemon_op h w (LoopResult env) = w\<lparr>dw_daemon := poll_result h env (dw_daemon w)\<rparr>"
| "daemon_op h w (LoopChild env) = end_with env w (poll_chanvoy h env (dw_daemon w))"
| "daemon_op h w (LoopExpired env) = end_with env w (dw_daemon w, Some 1)"
| "daemon_op h w (LoopDisconnected env) = end_with env w (handle_event h env CR_Disconnected (dw_daemon w))"

definition daemon_step :: "daemon_host \<Rightarrow> DaemonWorld \<Rightarrow> DaemonOp \<Rightarrow> DaemonWorld" where
  "daemon_step h w op = (if dw_exit w \<noteq> None then w else daemon_op h w op)"

abbreviation daemon_run :: "daemon_host \<Rightarrow> DaemonWorld \<Rightarrow> DaemonOp list \<Rightarrow> DaemonWorld" where
  "daemon_run h \<equiv> foldl (daemon_step h)"

definition daemon_world :: "child_os \<Rightarrow> WaitOnSpec \<Rightarrow> KnownArm \<Rightarrow> DaemonWorld" where
  "daemon_world os spec arm =
     (case daemon_start os spec arm of
        (d, code) \<Rightarrow> \<lparr>dw_daemon = d, dw_queue = [], dw_inflight = None, dw_exit = code\<rparr>)"

end
