(* ===== verification/Daemon_Properties.thy ===== *)
theory Daemon_Properties
  imports Daemon
begin

text \<open>
  What holds of the daemon however the accept thread and the loop interleave: the acknowledgements and the
  table are those of their own components, coverage runs exactly while nothing is unhandled, what
  is pending is the claim, for the claim's own generation, and the cursor moves to what was handled.
\<close>

section \<open>The acknowledgements of a handler\<close>

definition acks_reach :: "daemon_host \<Rightarrow> AckStore \<Rightarrow> AckStore \<Rightarrow> bool" where
  "acks_reach h s s' \<longleftrightarrow> (\<exists>ops. s' = ack_run (dh_parse_time h) (dh_format_time h) s ops)"

lemma acks_reach_refl [simp, intro]: "acks_reach h s s"
  unfolding acks_reach_def by (rule exI [of _ "[]"]) simp

lemma acks_reach_trans: "acks_reach h s s' \<Longrightarrow> acks_reach h s' s'' \<Longrightarrow> acks_reach h s s''"
  unfolding acks_reach_def by (metis foldl_append)

lemma acks_reach_step: "acks_reach h s (ack_advance (dh_parse_time h) (dh_format_time h) s op)"
  unfolding acks_reach_def by (rule exI [of _ "[op]"]) simp

lemma acks_reach_ops:
  "acks_reach h s (fst (note_delivered s k delivered snapshot))"
  "acks_reach h s (fst (note_claimed s k))"
  "acks_reach h s (fst (require_return_completed_before_handled s k))"
  "acks_reach h s (fst (note_return_completed s k))"
  using acks_reach_step [of h s "OpNoteDelivered k delivered snapshot"]
    acks_reach_step [of h s "OpNoteClaimed k"] acks_reach_step [of h s "OpRequireReturn k"]
    acks_reach_step [of h s "OpNoteReturn k"]
  by simp_all

abbreviation acks_ok :: "daemon_host \<Rightarrow> AckStore \<Rightarrow> bool" where
  "acks_ok h \<equiv> store_ok (dh_parse_time h)"

lemma acks_reach_ok: "acks_reach h s s' \<Longrightarrow> acks_ok h s \<Longrightarrow> acks_ok h s' \<and> store_le s s'"
  unfolding acks_reach_def using ack_run_ok by blast

text \<open>Which signals are new after an operation: at most the one it names.\<close>

definition signals_from :: "string set \<Rightarrow> AckStore \<Rightarrow> AckStore \<Rightarrow> bool" where
  "signals_from new s s' \<longleftrightarrow>
     as_arm s' = as_arm s
     \<and> (\<forall>k b'. bt_get (as_signals s') k = Some b' \<longrightarrow>
          k \<in> new \<or> (\<exists>b. bt_get (as_signals s) k = Some b \<and> sb_generation b' = sb_generation b))"

lemma signals_from_refl [simp, intro]: "signals_from new s s"
  by (auto simp: signals_from_def)

lemma signals_from_trans: "signals_from new s s' \<Longrightarrow> signals_from new s' s'' \<Longrightarrow> signals_from new s s''"
  unfolding signals_from_def by metis

lemma signals_from_ops:
  "signals_from {k} s (fst (note_delivered s k delivered snapshot))"
  "signals_from {k} s (fst (note_claimed s k))"
  "signals_from new s (fst (require_return_completed_before_handled s k))"
  "signals_from new s (fst (note_return_completed s k))"
  by (auto simp: signals_from_def note_delivered_def note_claimed_def Let_def
      require_return_completed_before_handled_def note_return_completed_def bt_get_insert_eq
      split: option.splits sum.splits if_splits)

lemma note_claimed_ok:
  assumes "note_claimed s k = (s', Inr u)"
  shows "\<exists>arm b. as_arm s = Some arm \<and> bt_get (as_signals s') k = Some b \<and> sb_generation b = ka_generation arm"
  using assms by (auto simp: note_claimed_def split: option.splits if_splits)

lemma update_visibility:
  "acks_reach h s (update_ack_visibility_after_result s m)"
  "signals_from new s (update_ack_visibility_after_result s m)"
  by (auto simp: update_ack_visibility_after_result_def acks_reach_ops signals_from_ops split: WaiterLink.splits)

section \<open>The ledger of a claim\<close>

definition carries :: "SignalClaim \<Rightarrow> WaiterLink \<Rightarrow> bool" where
  "carries c m \<longleftrightarrow>
     (\<exists>schema delivery link route newest at.
        m = DeliverEvents schema delivery link (sc_arm_id c) (sc_generation c) (sc_signal_id c) route
              (sc_events c) newest at)"

definition ledger_of :: "SignalClaim \<Rightarrow> DeliveryLedger \<Rightarrow> bool" where
  "ledger_of c l \<longleftrightarrow> (\<forall>p. dl_pending l = Some p \<longrightarrow> carries c (pd_message p))"

definition link_of :: "SignalClaim \<Rightarrow> AdmittedLink \<Rightarrow> bool" where
  "link_of c link \<longleftrightarrow> al_arm_id link = sc_arm_id c \<and> al_generation link = sc_generation c"

lemma ledger_prepare:
  assumes "ledger_of c l" "link_of c link"
  shows "ledger_of c (fst (prepare_delivery parse_time format_time d l link (sc_signal_id c) (sc_events c) now))"
  using assms
  by (auto simp: prepare_delivery_def ledger_of_def link_of_def carries_def Let_def
      split: option.splits sum.splits)

lemma ledger_redeliver:
  assumes "ledger_of c l"
  shows "ledger_of c (fst (redeliver_pending parse_time format_time l link now))"
  using assms
  by (auto simp: redeliver_pending_def ledger_of_def carries_def Let_def
      split: option.splits sum.splits WaiterLink.splits DeliveryAttempt.splits)

lemma ledger_result:
  assumes "ledger_of c l"
  shows "ledger_of c (fst (record_delivery_result parse_time l m))"
  using assms
  by (auto simp: record_delivery_result_def ledger_of_def
      split: option.splits sum.splits WaiterLink.splits DeliveryAttempt.splits)

text \<open>Without a pending batch a result records nothing.\<close>

lemma result_empty: "dl_pending l = None \<Longrightarrow> fst (record_delivery_result parse_time l m) = l"
  by (auto simp: record_delivery_result_def split: sum.splits WaiterLink.splits)

section \<open>What the handlers keep\<close>

text \<open>
  The pipe and the acknowledgements of an arm: a claim is of the arm's generation, carries what was
  drained, is known to the acknowledgements, and what is pending is the claim; without a claim
  nothing is pending. The acknowledgements are at the arm's generation, or one ahead of it when the
  claim has been handled but the loop has not heard of it; their open signal is the claim's.
\<close>

definition claim_ok :: "KnownArm \<Rightarrow> AckStore \<Rightarrow> SignalClaim \<Rightarrow> bool" where
  "claim_ok arm acks c \<longleftrightarrow>
     sc_arm_id c = ka_arm_id arm \<and> sc_generation c = ka_generation arm
     \<and> sc_event_refs c = map pe_event_ref (sc_events c) \<and> sc_events c \<noteq> []
     \<and> (\<exists>b. bt_get (as_signals acks) (sc_signal_id c) = Some b \<and> sb_generation b = sc_generation c)"

definition pipe_ok :: "KnownArm \<Rightarrow> AckStore \<Rightarrow> DaemonPipe \<Rightarrow> bool" where
  "pipe_ok arm acks pipe \<longleftrightarrow>
     (case dp_claim pipe of
        None \<Rightarrow> dl_pending (dp_ledger pipe) = None
      | Some c \<Rightarrow> claim_ok arm acks c \<and> ledger_of c (dp_ledger pipe))"

definition acks_of :: "KnownArm \<Rightarrow> AckStore \<Rightarrow> SignalClaim option \<Rightarrow> bool" where
  "acks_of arm acks claim \<longleftrightarrow>
     (\<exists>a. as_arm acks = Some a \<and> ka_arm_id a = ka_arm_id arm
        \<and> (ka_generation a = ka_generation arm
           \<or> claim \<noteq> None \<and> checked_add (ka_generation arm) 1 = Some (ka_generation a))
        \<and> (\<forall>k b. bt_get (as_signals acks) k = Some b \<longrightarrow> sb_generation b = ka_generation a \<longrightarrow>
             (\<exists>c. claim = Some c \<and> sc_signal_id c = k)))"

definition held :: "daemon_host \<Rightarrow> KnownArm \<Rightarrow> AckStore \<Rightarrow> DaemonPipe \<Rightarrow> bool" where
  "held h arm acks pipe \<longleftrightarrow> acks_ok h acks \<and> pipe_ok arm acks pipe \<and> acks_of arm acks (dp_claim pipe)"

lemma claim_ok_le: "claim_ok arm acks c \<Longrightarrow> store_le acks acks' \<Longrightarrow> claim_ok arm acks' c"
  by (fastforce simp: claim_ok_def store_le_def batch_le_def)

lemma acks_of_from:
  assumes "acks_of arm acks claim" "signals_from new acks acks'"
    and "\<And>k. k \<in> new \<Longrightarrow> \<exists>c. claim = Some c \<and> sc_signal_id c = k"
  shows "acks_of arm acks' claim"
  using assms unfolding acks_of_def signals_from_def by (metis (no_types, lifting))

text \<open>A handler that keeps the claim.\<close>

lemma held_keep:
  assumes "held h arm acks pipe" "dp_claim pipe = Some c" "dp_claim pipe' = Some c"
    and "ledger_of c (dp_ledger pipe')" "acks_reach h acks acks'" "signals_from {sc_signal_id c} acks acks'"
  shows "held h arm acks' pipe'"
  using assms acks_reach_ok [OF assms(5)]
  by (auto simp: held_def pipe_ok_def intro: claim_ok_le acks_of_from)

lemma held_idle:
  assumes "held h arm acks pipe" "dp_claim pipe = None" "dp_claim pipe' = None"
    and "dl_pending (dp_ledger pipe') = None" "acks_reach h acks acks'" "signals_from {} acks acks'"
  shows "held h arm acks' pipe'"
  using assms acks_reach_ok [OF assms(5)]
  by (auto simp: held_def pipe_ok_def intro: acks_of_from)

text \<open>Delivering a claim keeps it.\<close>

lemma await_result_ledger:
  "await_result parse_time l io = (l', r) \<Longrightarrow> ledger_of c l \<Longrightarrow> ledger_of c l'"
  using ledger_result [of c l parse_time]
  by (auto simp: await_result_def split: sum.splits prod.splits) (metis fst_conv)+

lemma send_claimed_keeps:
  assumes "send_claimed (dh_parse_time h) live pipe acks message io coverage = (outcome, pipe', acks')"
    and "ledger_of live (dp_ledger pipe)"
  shows "dp_claim pipe' = dp_claim pipe \<and> ledger_of live (dp_ledger pipe')
    \<and> acks_reach h acks acks' \<and> signals_from {sc_signal_id live} acks acks'
    \<and> (io = None \<longrightarrow> io_coverage outcome = coverage)"
proof -
  have nd: "acks_reach h acks s1 \<and> signals_from {sc_signal_id live} acks s1"
    if "note_delivered acks (sc_signal_id live) delivered refs = (s1, n)" for s1 n delivered refs
    using acks_reach_ops(1) signals_from_ops(1) that by (metis fst_conv)
  have up: "acks_reach h acks (update_ack_visibility_after_result s1 m)
      \<and> signals_from {sc_signal_id live} acks (update_ack_visibility_after_result s1 m)"
    if "acks_reach h acks s1 \<and> signals_from {sc_signal_id live} acks s1" for s1 m
    using that update_visibility by (blast intro: acks_reach_trans signals_from_trans)
  show ?thesis
  proof (cases io)
    case None
    with assms show ?thesis by (auto simp: send_claimed_def Let_def)
  next
    case (Some io')
    obtain s1 n where noted: "note_delivered acks (sc_signal_id live)
        (case message of DeliverEvents _ _ _ _ _ _ _ events _ _ \<Rightarrow> map pe_event_ref events | _ \<Rightarrow> [])
        (sc_event_refs live) = (s1, n)" by fastforce
    obtain ledger r where await: "await_result (dh_parse_time h) (dp_ledger pipe) io' = (ledger, r)"
      by fastforce
    note kept = nd [OF noted] up [OF nd [OF noted]] await_result_ledger [OF await assms(2)]
    show ?thesis
      using assms kept
      by (auto simp: send_claimed_def Let_def Some noted await
          split: if_splits sum.splits option.splits prod.splits)
  qed
qed

lemma deliver_claimed_keeps:
  assumes "deliver_claimed (dh_parse_time h) (dh_format_time h) d live link pipe acks now io coverage
      = (outcome, pipe', acks')"
    and "ledger_of live (dp_ledger pipe)" and "\<And>l. link = Some l \<Longrightarrow> link_of live l"
  shows "dp_claim pipe' = dp_claim pipe \<and> ledger_of live (dp_ledger pipe')
    \<and> acks_reach h acks acks' \<and> signals_from {sc_signal_id live} acks acks'
    \<and> (io = None \<longrightarrow> io_coverage outcome = coverage)"
proof (cases link)
  case None
  with assms show ?thesis by (auto simp: deliver_claimed_def)
next
  case (Some l)
  let ?parse = "dh_parse_time h" and ?format = "dh_format_time h"
  obtain ledger r where led: "(if should_redeliver (dp_ledger pipe)
      then redeliver_pending ?parse ?format (dp_ledger pipe) l now
      else prepare_delivery ?parse ?format d (dp_ledger pipe) l (sc_signal_id live) (sc_events live) now)
      = (ledger, r)" by fastforce
  have l1: "ledger_of live ledger"
    using led ledger_redeliver [OF assms(2), of ?parse ?format l now]
      ledger_prepare [OF assms(2) assms(3) [OF Some], of ?parse ?format d now]
    by (auto split: if_splits)
  show ?thesis
  proof (cases r)
    case (Inl e)
    with assms(1) led l1 Some show ?thesis
      by (auto simp: deliver_claimed_def Let_def pipe_snapshot_def)
  next
    case (Inr m)
    with assms(1) led Some
    have "send_claimed ?parse live (pipe\<lparr>dp_ledger := ledger\<rparr>) acks m io coverage = (outcome, pipe', acks')"
      by (simp add: deliver_claimed_def)
    from send_claimed_keeps [OF this] l1 show ?thesis by simp
  qed
qed

section \<open>Ingesting\<close>

text \<open>What the drain behind a match gives: nothing, or at least one event.\<close>

lemma attach_drain_newest:
  assumes "attach_drain outcome spec drain = drained" "oc_result outcome = WR_Matched"
    and "oc_drain_error drained = None" "oc_newest_observed drained \<noteq> None"
    and "oc_newest_observed outcome = None"
  shows "oc_drained_events drained \<noteq> []"
  using assms by (auto simp: attach_drain_def split: if_splits sum.splits)

lemma held_claim:
  assumes "held h arm acks pipe" "dp_claim pipe = None"
    and "claim_or_reuse None arm events mint = (claim, Inr live)" "events \<noteq> []"
    and "note_claimed acks (sc_signal_id live) = (acks1, Inr u)"
  shows "held h arm acks1 (pipe\<lparr>dp_claim := claim\<rparr>) \<and> claim = Some live"
proof -
  have live: "claim = Some live" "sc_arm_id live = ka_arm_id arm" "sc_generation live = ka_generation arm"
    "sc_event_refs live = map pe_event_ref (sc_events live)" "sc_events live = events"
    using assms(3) by (auto simp: claim_or_reuse_def Let_def)
  have new: "signals_from {sc_signal_id live} acks acks1" and reach: "acks_reach h acks acks1"
    using signals_from_ops(2) acks_reach_ops(2) assms(5) by (metis fst_conv)+
  from assms(1,2) obtain a where a: "as_arm acks = Some a" "ka_arm_id a = ka_arm_id arm"
    "ka_generation a = ka_generation arm"
    and none: "\<And>k b. bt_get (as_signals acks) k = Some b \<Longrightarrow> sb_generation b \<noteq> ka_generation a"
    by (auto simp: held_def acks_of_def)
  from note_claimed_ok [OF assms(5)] a obtain b where
    "bt_get (as_signals acks1) (sc_signal_id live) = Some b" "sb_generation b = sc_generation live"
    by (auto simp: live)
  then have "claim_ok arm acks1 live" using live assms(4) by (simp add: claim_ok_def)
  moreover have "ledger_of live (dp_ledger pipe)"
    using assms(1,2) by (simp add: held_def pipe_ok_def ledger_of_def)
  moreover have "acks_of arm acks1 (Some live)"
    using new none a unfolding acks_of_def signals_from_def by fastforce
  moreover have "acks_ok h acks1" using acks_reach_ok [OF reach] assms(1) by (simp add: held_def)
  ultimately show ?thesis by (simp add: held_def pipe_ok_def live)
qed

text \<open>From an idle pipe, without a writer.\<close>

lemma claim_drained_keeps:
  assumes "claim_drained (dh_parse_time h) (dh_format_time h) mint d request events req pipe acks None
      = (outcome, pipe', acks')" "events \<noteq> []"
    and "held h (ir_arm request) acks pipe" "dp_claim pipe = None"
    and "\<And>l. ir_link request = Some l \<Longrightarrow>
      al_arm_id l = ka_arm_id (ir_arm request) \<and> al_generation l = ka_generation (ir_arm request)"
  shows "(\<exists>e. io_coverage outcome = DC_Halt e)
    \<or> io_coverage outcome = DC_Pause \<and> held h (ir_arm request) acks' pipe'
      \<and> acks_reach h acks acks' \<and> as_arm acks' = as_arm acks"
proof -
  obtain claim live where cl: "claim_or_reuse None (ir_arm request) events mint = (claim, Inr live)"
    by (auto simp: claim_or_reuse_def Let_def)
  obtain acks1 n where n: "note_claimed acks (sc_signal_id live) = (acks1, n)" by fastforce
  obtain acks2 q where q: "(if req then require_return_completed_before_handled acks1 (sc_signal_id live)
      else (acks1, Inr ())) = (acks2, q)" by fastforce
  show ?thesis
  proof (cases "is_ok n \<and> is_ok q")
    case False
    with assms(1,4) n q cl show ?thesis
      by (auto simp: claim_drained_def Let_def pipe_snapshot_def is_ok_def split: sum.splits if_splits)
  next
    case True
    then obtain u v where u: "n = Inr u" and v: "q = Inr v" by (auto simp: is_ok_iff)
    let ?pipe = "pipe\<lparr>dp_claim := claim\<rparr>"
    have d: "deliver_claimed (dh_parse_time h) (dh_format_time h) d live (ir_link request) ?pipe acks2
        (ir_now request) None DC_Pause = (outcome, pipe', acks')"
      using assms(1,4) n q cl u v by (simp add: claim_drained_def Let_def)
    have held1: "held h (ir_arm request) acks1 ?pipe" and live: "claim = Some live"
      using held_claim [OF assms(3,4) cl assms(2) n [unfolded u]] by blast+
    have r1: "acks_reach h acks acks1" "as_arm acks1 = as_arm acks"
      using acks_reach_ops(2) [of h acks "sc_signal_id live"] signals_from_ops(2) [of "sc_signal_id live" acks] n
      by (simp_all add: signals_from_def)
    have r2: "acks_reach h acks1 acks2" "signals_from {sc_signal_id live} acks1 acks2"
      using q acks_reach_ops(3) [of h acks1 "sc_signal_id live"]
        signals_from_ops(3) [of "{sc_signal_id live}" acks1 "sc_signal_id live"]
      by (auto split: if_splits)
    have l: "link_of live l" if "ir_link request = Some l" for l
      using held1 live assms(5) [OF that] by (auto simp: held_def pipe_ok_def link_of_def claim_ok_def)
    have led: "ledger_of live (dp_ledger ?pipe)" using held1 live by (simp add: held_def pipe_ok_def)
    from deliver_claimed_keeps [OF d led l] have k: "dp_claim pipe' = Some live"
      "ledger_of live (dp_ledger pipe')" "acks_reach h acks2 acks'"
      "signals_from {sc_signal_id live} acks2 acks'" "io_coverage outcome = DC_Pause"
      using live by simp_all
    have r: "acks_reach h acks1 acks'" "signals_from {sc_signal_id live} acks1 acks'"
      using r2 k by (blast intro: acks_reach_trans signals_from_trans)+
    have "held h (ir_arm request) acks' pipe'"
      using held_keep [OF held1 _ k(1,2) r] live by simp
    moreover have "acks_reach h acks acks'" using r1(1) r(1) by (rule acks_reach_trans)
    moreover have "as_arm acks' = as_arm acks" using r(2) r1(2) by (simp add: signals_from_def)
    ultimately show ?thesis using k(5) by simp
  qed
qed

lemma ingest_keeps:
  assumes "ingest_match (dh_parse_time h) (dh_format_time h) mint d request pipe acks None
      = (outcome, pipe', acks')"
    and "held h (ir_arm request) acks pipe" "dp_claim pipe = None"
    and "\<And>l. ir_link request = Some l \<Longrightarrow>
      al_arm_id l = ka_arm_id (ir_arm request) \<and> al_generation l = ka_generation (ir_arm request)"
  shows "(\<exists>e. io_coverage outcome = DC_Halt e)
    \<or> io_coverage outcome = DC_Pause \<and> held h (ir_arm request) acks' pipe'
      \<and> acks_reach h acks acks' \<and> as_arm acks' = as_arm acks
    \<or> io_coverage outcome = DC_Rearm (after_or_default (ir_spec request)) \<and> pipe' = pipe \<and> acks' = acks"
proof (cases "ir_wait request = WR_Matched")
  case False
  with assms(1) show ?thesis
    by (cases "ir_wait request") (auto simp: ingest_match_def daemon_coverage_def pipe_snapshot_def Let_def)
next
  case True
  let ?drained = "attach_drain hinted (ir_spec request) (ir_drain request)"
  show ?thesis
  proof (cases "oc_drain_error ?drained \<noteq> None \<or> oc_newest_observed ?drained = None
      \<or> list_ex (\<lambda>event. \<not> drained_event_is_displayable event) (oc_drained_events ?drained)")
    case stop: True
    with assms(1) True show ?thesis
      by (auto simp: ingest_match_def Let_def pipe_snapshot_def split: if_splits)
  next
    case go: False
    then have "oc_drained_events ?drained \<noteq> []"
      using attach_drain_newest [of hinted "ir_spec request" "ir_drain request" ?drained]
      by (simp add: hinted_def)
    then have ne: "provider_events_from_drain (oc_drained_events ?drained) at \<noteq> []" for at
      by (simp add: provider_events_from_drain_def)
    from assms(1) True go have "claim_drained (dh_parse_time h) (dh_format_time h) mint d request
        (provider_events_from_drain (oc_drained_events ?drained) (dh_format_time h (ir_now request)))
        (list_ex (\<lambda>event. de_local_loss event \<noteq> None) (oc_drained_events ?drained)) pipe acks None
        = (outcome, pipe', acks')"
      by (auto simp: ingest_match_def Let_def)
    from claim_drained_keeps [OF this ne assms(2-4)] show ?thesis by blast
  qed
qed

section \<open>Quiet handlers\<close>

text \<open>
  A handler is quiet when it moves neither the cursor nor the generation, starts no child, keeps
  the claim and what is held of it, and does at most drop the live link.
\<close>

definition quiet :: "daemon_host \<Rightarrow> Daemon \<Rightarrow> Daemon \<Rightarrow> bool" where
  "quiet h d d' \<longleftrightarrow>
     dm_spec d' = dm_spec d \<and> dm_arm d' = dm_arm d \<and> dm_children d' = dm_children d
     \<and> dp_claim (dm_pipe d') = dp_claim (dm_pipe d)
     \<and> as_arm (dm_acks d') = as_arm (dm_acks d) \<and> acks_reach h (dm_acks d) (dm_acks d')
     \<and> dm_table d' \<in> {dm_table d, drop_current (dm_table d)}
     \<and> (held h (dm_arm d) (dm_acks d) (dm_pipe d) \<longrightarrow> held h (dm_arm d) (dm_acks d') (dm_pipe d'))"

lemma quiet_refl [simp, intro]: "quiet h d d"
  by (simp add: quiet_def)

lemma drop_current_idem [simp]: "drop_current (drop_current t) = drop_current t"
  by (simp add: drop_current_def)

lemma quiet_trans: "quiet h d d' \<Longrightarrow> quiet h d' d'' \<Longrightarrow> quiet h d d''"
  unfolding quiet_def by (auto intro: acks_reach_trans)

lemma drop_session_table: "drop_session t s \<in> {t, drop_current t}"
  by (auto simp: drop_session_def drop_current_def split: option.splits)

lemma held_ledger:
  assumes "held h arm acks pipe" "dp_claim pipe' = dp_claim pipe"
    and "\<And>c. ledger_of c (dp_ledger pipe) \<Longrightarrow> ledger_of c (dp_ledger pipe')"
    and "dl_pending (dp_ledger pipe) = None \<Longrightarrow> dl_pending (dp_ledger pipe') = None"
  shows "held h arm acks pipe'"
  using assms by (auto simp: held_def pipe_ok_def split: option.splits)

lemma transport_loss_quiet:
  assumes "on_transport_loss (dh_parse_time h) (dh_format_time h) pipe table session now = (pipe', table')"
  shows "dp_claim pipe' = dp_claim pipe \<and> table' \<in> {table, drop_current table}
    \<and> (held h arm acks pipe \<longrightarrow> held h arm acks pipe')"
proof -
  have "dp_ledger pipe' = dp_ledger pipe
      \<or> (\<exists>m. dp_ledger pipe' = fst (record_delivery_result (dh_parse_time h) (dp_ledger pipe) m))"
    using assms by (auto simp: on_transport_loss_def Let_def split: option.splits WaiterLink.splits if_splits)
  moreover have "dp_claim pipe' = dp_claim pipe" "table' \<in> {table, drop_current table}"
    using assms drop_session_table [of table]
    by (auto simp: on_transport_loss_def Let_def split: option.splits)
  ultimately show ?thesis
    by (auto intro!: held_ledger [of h arm acks pipe pipe'] ledger_result simp: result_empty)
qed

lemma revoke_exact_quiet: "quiet h d (revoke_exact h env d lost)"
proof (cases lost)
  case True
  obtain pipe' table' where l: "on_transport_loss (dh_parse_time h) (dh_format_time h) (dm_pipe d) (dm_table d)
      (Option.bind (dm_served d) sa_session) (le_now env) = (pipe', table')" by fastforce
  from transport_loss_quiet [OF l] True show ?thesis
    by (auto simp: revoke_exact_def quiet_def l)
next
  case False
  with drop_session_table [of "dm_table d"] show ?thesis
    by (auto simp: revoke_exact_def quiet_def Let_def split: option.splits)
qed

lemma waiter_result_quiet:
  assumes "apply_waiter_result_with_ack_visibility (dh_parse_time h) (dm_pipe d) (dm_acks d) m = (pipe', acks', r)"
  shows "quiet h d (d\<lparr>dm_pipe := pipe', dm_acks := acks'\<rparr>)"
proof -
  let ?d1 = "d\<lparr>dm_pipe := pipe'\<rparr>"
  have pipe: "dp_claim pipe' = dp_claim (dm_pipe d)"
    "dp_ledger pipe' = fst (record_delivery_result (dh_parse_time h) (dp_ledger (dm_pipe d)) m)"
    and acks: "acks' = dm_acks d \<or> acks' = update_ack_visibility_after_result (dm_acks d) m"
    using assms
    by (auto simp: apply_waiter_result_with_ack_visibility_def apply_waiter_result_def
        split: prod.splits sum.splits WaiterLink.splits if_splits)
  have held1: "held h arm s (dm_pipe d) \<Longrightarrow> held h arm s pipe'" for arm s
    using pipe by (auto intro!: held_ledger [of h arm s "dm_pipe d" pipe'] ledger_result simp: result_empty)
  have from': "signals_from new (dm_acks d) acks'" "acks_reach h (dm_acks d) acks'" for new
    using acks update_visibility by auto
  have "held h (dm_arm d) acks' pipe'" if "held h (dm_arm d) (dm_acks d) (dm_pipe d)"
  proof (cases "dp_claim pipe'")
    case None
    with held1 [OF that] show ?thesis
      using held_idle [OF held1 [OF that] None None _ from'(2,1)] by (simp add: held_def pipe_ok_def)
  next
    case (Some c)
    with held1 [OF that] show ?thesis
      using held_keep [OF held1 [OF that] Some Some _ from'(2,1)] by (simp add: held_def pipe_ok_def)
  qed
  with pipe(1) from' show ?thesis by (auto simp: quiet_def signals_from_def)
qed

lemma read_result_quiet: "quiet h d (read_result h env d)"
proof (cases "read_waiter_link (dh_parse_time h) (dh_json h) (dh_command h) (le_read env)")
  case (Inl e)
  then show ?thesis by (simp add: read_result_def revoke_exact_quiet)
next
  case (Inr m)
  obtain pipe' acks' r where a: "apply_waiter_result_with_ack_visibility (dh_parse_time h) (dm_pipe d)
      (dm_acks d) m = (pipe', acks', r)" by (cases rule: prod_cases3)
  from waiter_result_quiet [OF a] show ?thesis
    by (cases r) (auto simp: read_result_def Inr a Let_def intro: quiet_trans revoke_exact_quiet)
qed

lemma poll_result_quiet: "quiet h d (poll_result h env d)"
  by (auto simp: poll_result_def revoke_exact_quiet read_result_quiet split: option.splits)

text \<open>A flush is quiet when the live link, if any, is the claim's.\<close>

definition live_link_ok :: "Daemon \<Rightarrow> bool" where
  "live_link_ok d \<longleftrightarrow>
     (\<forall>l. lt_current (dm_table d) = Some l \<longrightarrow>
        al_arm_id l = ka_arm_id (dm_arm d) \<and> al_generation l = ka_generation (dm_arm d))"

lemma flush_current_quiet:
  assumes "flush_current h env d = (d', failed)" "live_link_ok d"
    and "held h (dm_arm d) (dm_acks d) (dm_pipe d)"
  shows "quiet h d d'"
proof (cases "d' = d")
  case False
  with assms(1) obtain live l outcome pipe' acks' where
    f: "dp_claim (dm_pipe d) = Some live" "lt_current (dm_table d) = Some l"
      "deliver_claimed (dh_parse_time h) (dh_format_time h) (le_delivery_id env) live (Some l)
        (dm_pipe d) (dm_acks d) (le_now env) (Some (link_io h env)) DC_Pause = (outcome, pipe', acks')"
      "d' = d\<lparr>dm_pipe := pipe', dm_acks := acks'\<rparr>"
    by (auto simp: flush_current_def flush_attached_def split: if_splits option.splits prod.splits)
  from assms(3) f(1) have c: "claim_ok (dm_arm d) (dm_acks d) live" "ledger_of live (dp_ledger (dm_pipe d))"
    by (simp_all add: held_def pipe_ok_def)
  with assms(2) f(2) have "link_of live l" by (simp add: live_link_ok_def link_of_def claim_ok_def)
  with deliver_claimed_keeps [OF f(3) c(2)] have k: "dp_claim pipe' = Some live" "ledger_of live (dp_ledger pipe')"
    "acks_reach h (dm_acks d) acks'" "signals_from {sc_signal_id live} (dm_acks d) acks'"
    by (simp_all add: f(1))
  with held_keep [OF assms(3) f(1) k] show ?thesis by (simp add: quiet_def f signals_from_def)
qed simp

lemma quiet_keeps:
  assumes "quiet h d d'"
  shows "live_link_ok d \<Longrightarrow> live_link_ok d'"
    "held h (dm_arm d) (dm_acks d) (dm_pipe d) \<Longrightarrow> held h (dm_arm d') (dm_acks d') (dm_pipe d')"
  using assms by (auto simp: quiet_def live_link_ok_def drop_current_def)

text \<open>An adopted attach is that of the live link, so flushing to it is quiet.\<close>

lemma adopt_attached_quiet:
  assumes "live_link_ok d \<or> \<not> retain_live_attach incoming (dm_table d) (dm_served d)"
    and "held h (dm_arm d) (dm_acks d) (dm_pipe d)"
  shows "quiet h d (adopt_attached h env incoming d)"
proof (cases "retain_live_attach incoming (dm_table d) (dm_served d)")
  case False
  then show ?thesis by (simp add: adopt_attached_def)
next
  case True
  define d1 where "d1 = (case Option.bind (dm_served d) sa_session of
      None \<Rightarrow> d\<lparr>dm_served := None\<rparr>
    | Some old_session \<Rightarrow>
        (case on_transport_loss (dh_parse_time h) (dh_format_time h) (dm_pipe d) (dm_table d)
            (Some old_session) (le_now env) of
          (pipe, table) \<Rightarrow> d\<lparr>dm_pipe := pipe, dm_table := table, dm_served := None\<rparr>))"
  let ?d2 = "d1\<lparr>dm_served := Some incoming\<rparr>"
  have q1: "quiet h d d1"
    using transport_loss_quiet [of h "dm_pipe d" "dm_table d"]
    by (auto simp: d1_def quiet_def split: option.splits prod.splits)
  have q2: "quiet h d1 ?d2" by (simp add: quiet_def)
  have ok2: "live_link_ok ?d2" "held h (dm_arm ?d2) (dm_acks ?d2) (dm_pipe ?d2)"
    using quiet_keeps [OF quiet_trans [OF q1 q2]] assms True by simp_all
  obtain d3 failed where f: "flush_current h env ?d2 = (d3, failed)" by fastforce
  have q3: "quiet h ?d2 d3" by (rule flush_current_quiet [OF f ok2])
  have "quiet h ?d2 (adopt_attached h env incoming d)"
    using True f q3
    by (auto simp: adopt_attached_def Let_def d1_def [symmetric] intro: revoke_exact_quiet quiet_trans)
  then show ?thesis using q1 q2 by (blast intro: quiet_trans)
qed

section \<open>The whole daemon\<close>

text \<open>
  The channel: an attached session is not ahead of the generation it will be handled at, and a re-arm
  is to the next generation, for a cursor that was handled; \<open>g'\<close> is the generation after the last.
\<close>

fun queue_ok :: "AckStore \<Rightarrow> u64 \<Rightarrow> DaemonEvent list \<Rightarrow> u64 \<Rightarrow> bool" where
  "queue_ok acks g [] g' = (g = g')"
| "queue_ok acks g (DV_Attached s # queue) g' =
     ((case sa_session s of None \<Rightarrow> True | Some session \<Rightarrow> ls_generation session \<le> g)
      \<and> queue_ok acks g queue g')"
| "queue_ok acks g (DV_CoverageRearm r # queue) g' =
     (checked_add g 1 = Some (ar_generation r) \<and> rearm_backed acks r
      \<and> queue_ok acks (ar_generation r) queue g')"

lemma queue_ok_mono: "queue_ok acks g queue g' \<Longrightarrow> store_le acks acks' \<Longrightarrow> queue_ok acks' g queue g'"
  by (induction acks g queue g' rule: queue_ok.induct) (auto intro: rearm_backed_le)

lemma queue_ok_le: "queue_ok acks g queue g' \<Longrightarrow> g \<le> g'"
  by (induction acks g queue g' rule: queue_ok.induct)
    (auto dest!: checked_add_one_less intro: order.trans less_imp_le)

lemma queue_ok_append:
  "queue_ok acks g (queue @ queue') g' \<longleftrightarrow> (\<exists>g0. queue_ok acks g queue g0 \<and> queue_ok acks g0 queue' g')"
  by (induction acks g queue g' rule: queue_ok.induct) auto

definition links_ok :: "KnownArm \<Rightarrow> u64 \<Rightarrow> LinkTable \<Rightarrow> bool" where
  "links_ok arm g t \<longleftrightarrow>
     (\<forall>l. lt_current t = Some l \<longrightarrow>
        al_arm_id l = ka_arm_id arm \<and> ka_generation arm \<le> al_generation l \<and> al_generation l \<le> g)"

definition prepared_for :: "KnownArm \<Rightarrow> u64 \<Rightarrow> PreparedAttach \<Rightarrow> bool" where
  "prepared_for arm g p \<longleftrightarrow>
     (\<forall>s. pa_session p = Some s \<longrightarrow> ls_generation s \<le> g)
     \<and> (\<forall>l. pa_pending p = PC_Accept l \<longrightarrow> al_arm_id l = ka_arm_id arm \<and> al_generation l = g)"

text \<open>Where the cursor is: where it was at the start, or at a handled reference.\<close>

definition cursor_ok :: "string option \<Rightarrow> AckStore \<Rightarrow> string option \<Rightarrow> bool" where
  "cursor_ok start acks after \<longleftrightarrow>
     after = start \<or> start = None \<and> after = Some []
     \<or> (\<exists>r. rearm_backed acks r \<and> after = Some (ar_after r))"

lemma cursor_ok_mono: "cursor_ok start acks after \<Longrightarrow> store_le acks acks' \<Longrightarrow> cursor_ok start acks' after"
  by (auto simp: cursor_ok_def intro: rearm_backed_le)

lemma cursor_ok_again:
  "cursor_ok start acks (wo_after spec) \<Longrightarrow> cursor_ok start acks (Some (after_or_default spec))"
  by (cases "wo_after spec") (auto simp: cursor_ok_def after_or_default_def)

definition daemon_ok :: "daemon_host \<Rightarrow> string option \<Rightarrow> Daemon \<Rightarrow> bool" where
  "daemon_ok h start d \<longleftrightarrow>
     held h (dm_arm d) (dm_acks d) (dm_pipe d)
     \<and> (child_occupied (dm_children d) \<longrightarrow> dp_claim (dm_pipe d) = None)
     \<and> cursor_ok start (dm_acks d) (wo_after (dm_spec d))"

definition around_ok :: "Daemon \<Rightarrow> DaemonEvent list \<Rightarrow> PreparedAttach option \<Rightarrow> bool" where
  "around_ok d queue inflight \<longleftrightarrow>
     (\<exists>a. as_arm (dm_acks d) = Some a
        \<and> queue_ok (dm_acks d) (ka_generation (dm_arm d)) queue (ka_generation a)
        \<and> links_ok (dm_arm d) (ka_generation a) (dm_table d)
        \<and> (\<forall>p. inflight = Some p \<longrightarrow> prepared_for (dm_arm d) (ka_generation a) p))"

definition composed :: "daemon_host \<Rightarrow> KnownArm \<Rightarrow> Daemon \<Rightarrow> PreparedAttach option \<Rightarrow> bool" where
  "composed h arm d inflight \<longleftrightarrow>
     acks_reach h (with_arm arm) (dm_acks d)
     \<and> link_reach (dh_parse_time h) (dh_format_time h) \<lparr>lw_table = dm_table d, lw_inflight = inflight\<rparr>"

definition world_ok :: "daemon_host \<Rightarrow> KnownArm \<Rightarrow> string option \<Rightarrow> DaemonWorld \<Rightarrow> bool" where
  "world_ok h arm start w \<longleftrightarrow>
     (dw_exit w = None \<longrightarrow>
        daemon_ok h start (dw_daemon w) \<and> around_ok (dw_daemon w) (dw_queue w) (dw_inflight w)
        \<and> composed h arm (dw_daemon w) (dw_inflight w))"

text \<open>Dropping the live link is a step of the link component.\<close>

lemma composed_drop:
  "composed h arm d inflight \<Longrightarrow> acks_reach h (dm_acks d) (dm_acks d') \<Longrightarrow>
   dm_table d' \<in> {dm_table d, drop_current (dm_table d)} \<Longrightarrow> composed h arm d' inflight"
  using link_reach.step [OF _ link_step.loop_drop_current]
  by (auto simp: composed_def intro: acks_reach_trans)

lemma links_ok_drop: "links_ok arm g t \<Longrightarrow> t' \<in> {t, drop_current t} \<Longrightarrow> links_ok arm g t'"
  by (auto simp: links_ok_def drop_current_def)

text \<open>A quiet handler keeps it all.\<close>

lemma quiet_ok:
  assumes "quiet h d d'" and "daemon_ok h start d" "around_ok d queue inflight" "composed h arm d inflight"
  shows "daemon_ok h start d' \<and> around_ok d' queue inflight \<and> composed h arm d' inflight"
proof -
  from assms(1,2) have reach: "acks_reach h (dm_acks d) (dm_acks d')" and ok: "acks_ok h (dm_acks d)"
    by (auto simp: quiet_def daemon_ok_def held_def)
  from acks_reach_ok [OF this] have le: "store_le (dm_acks d) (dm_acks d')" by simp
  have "daemon_ok h start d'"
    using assms(1,2) le by (auto simp: quiet_def daemon_ok_def intro: cursor_ok_mono)
  moreover have "around_ok d' queue inflight"
    using assms(1,3) le by (auto simp: quiet_def around_ok_def intro: queue_ok_mono links_ok_drop)
  moreover have "composed h arm d' inflight"
    using assms(1,4) by (auto simp: quiet_def intro: composed_drop)
  ultimately show ?thesis by blast
qed

text \<open>Without a claim the acknowledgements are at the arm's generation, and so is the live link.\<close>

lemma idle_link:
  assumes "held h (dm_arm d) (dm_acks d) (dm_pipe d)" "dp_claim (dm_pipe d) = None"
    and "around_ok d queue inflight"
  shows "live_link_ok d"
  using assms
  by (auto simp: held_def acks_of_def around_ok_def links_ok_def live_link_ok_def)

lemma end_with_ok:
  assumes "\<And>d. r = (d, None) \<Longrightarrow>
    daemon_ok h start d \<and> around_ok d (dw_queue w) (dw_inflight w) \<and> composed h arm d (dw_inflight w)"
  shows "world_ok h arm start (end_with env w r)"
proof (cases r)
  case (Pair d code)
  show ?thesis
  proof (cases code)
    case None
    with assms Pair show ?thesis by (simp add: end_with_def world_ok_def)
  next
    case (Some c)
    obtain d' c' where "halt (le_child env) d c = (d', c')" by fastforce
    with Pair Some show ?thesis by (simp add: end_with_def world_ok_def)
  qed
qed

section \<open>The loop's steps\<close>

lemma child_loop_step:
  assumes "poll_chanvoy h env d = (d', None)"
    and "daemon_ok h start d" "around_ok d queue inflight" "composed h arm d inflight"
  shows "daemon_ok h start d' \<and> around_ok d' queue inflight \<and> composed h arm d' inflight"
proof -
  obtain children w where tw: "child_try_wait (le_child env) (dm_children d) = (children, w)" by fastforce
  let ?d1 = "d\<lparr>dm_children := children\<rparr>"
  show ?thesis
  proof (cases "w = Inr None \<or> \<not> is_ok w")
    case True
    with assms(1) tw have "w = Inr None" "d' = ?d1"
      by (auto simp: poll_chanvoy_def is_ok_def split: sum.splits)
    with tw have "d' = d" by (auto simp: child_try_wait_def split: option.splits sum.splits)
    with assms show ?thesis by simp
  next
    case False
    then have "is_ok w" "w \<noteq> Inr None" by simp_all
    moreover from this(1) obtain x where "w = Inr x" by (auto simp: is_ok_iff)
    ultimately obtain status where w: "w = Inr (Some status)" by (cases x) auto
    with tw have ch: "child_occupied (dm_children d)" "children = None"
      by (auto simp: child_try_wait_def child_occupied_def split: option.splits sum.splits)
    with assms(2) have idle: "dp_claim (dm_pipe d) = None" and h: "held h (dm_arm d) (dm_acks d) (dm_pipe d)"
      by (simp_all add: daemon_ok_def)
    have live: "live_link_ok d" using idle_link [OF h idle assms(3)] .
    let ?request = "\<lparr>ir_spec = dm_spec d,
          ir_wait = WaitResult_from_code (case status of None \<Rightarrow> 2 | Some code \<Rightarrow> code),
          ir_drain = le_drain env, ir_arm = dm_arm d, ir_link = lt_current (dm_table d),
          ir_now = le_ingest_now env\<rparr>"
    obtain outcome pipe' acks' where i: "ingest_match (dh_parse_time h) (dh_format_time h) (le_signal_id env)
        (le_delivery_id env) ?request (dm_pipe d) (dm_acks d) None = (outcome, pipe', acks')"
      by (cases rule: prod_cases3)
    let ?d2 = "?d1\<lparr>dm_pipe := pipe', dm_acks := acks'\<rparr>"
    have ing: "ingest_child_exit h env ?d1 status = (?d2, io_coverage outcome)"
      by (simp add: ingest_child_exit_def i)
    have "al_arm_id l = ka_arm_id (dm_arm d) \<and> al_generation l = ka_generation (dm_arm d)"
      if "lt_current (dm_table d) = Some l" for l
      using live that by (simp add: live_link_ok_def)
    with ingest_keeps [OF i] h idle consider
        (halted) e where "io_coverage outcome = DC_Halt e"
      | (paused) "io_coverage outcome = DC_Pause" "held h (dm_arm d) acks' pipe'"
          "acks_reach h (dm_acks d) acks'" "as_arm acks' = as_arm (dm_acks d)"
      | (rearmed) "io_coverage outcome = DC_Rearm (after_or_default (dm_spec d))" "pipe' = dm_pipe d"
          "acks' = dm_acks d"
      by auto
    then show ?thesis
    proof cases
      case halted
      with assms(1) tw w ing show ?thesis by (simp add: poll_chanvoy_def)
    next
      case paused
      have le: "store_le (dm_acks d) acks'"
        using acks_reach_ok [OF paused(3)] h by (simp add: held_def)
      have d2: "daemon_ok h start ?d2" "around_ok ?d2 queue inflight" "composed h arm ?d2 inflight"
        using assms(2-4) paused ch le composed_drop [OF assms(4), of ?d2]
        by (auto simp: daemon_ok_def around_ok_def child_occupied_def intro: cursor_ok_mono queue_ok_mono)
      have live2: "live_link_ok ?d2" using live by (simp add: live_link_ok_def)
      obtain d3 failed where f: "flush_current h env ?d2 = (d3, failed)" by fastforce
      have "quiet h ?d2 d3" using flush_current_quiet [OF f live2] d2(1) by (simp add: daemon_ok_def)
      moreover have "d' = (if failed then revoke_exact h env d3 True else d3)"
        using assms(1) tw w ing paused(1) f by (simp add: poll_chanvoy_def)
      ultimately have "quiet h ?d2 d'" by (auto intro: quiet_trans revoke_exact_quiet)
      then show ?thesis using d2 by (rule quiet_ok)
    next
      case rearmed
      let ?spec = "(dm_spec d)\<lparr>wo_after := Some (after_or_default (dm_spec d))\<rparr>"
      obtain children' where d': "d' = ?d2\<lparr>dm_spec := ?spec, dm_children := children'\<rparr>"
        using assms(1) tw w ing rearmed(1) by (auto simp: poll_chanvoy_def Let_def split: prod.splits sum.splits)
      have d: "daemon_ok h start d'"
        using assms(2) rearmed idle by (auto simp: d' daemon_ok_def intro: cursor_ok_again)
      have "around_ok d' queue inflight" using assms(3) rearmed by (simp add: d' around_ok_def)
      moreover have "composed h arm d' inflight" using assms(4) rearmed by (simp add: d' composed_def)
      ultimately show ?thesis using d by blast
    qed
  qed
qed

text \<open>
  Hearing of the re-arm: the claim is gone, the arm is at the generation of the acknowledgements, which
  have no open signal.
\<close>

lemma rearmed_state:
  assumes "daemon_ok h start d" "around_ok d (DV_CoverageRearm r # queue) inflight"
    and "take_coverage_rearm d r = (d', taken)"
  shows "taken \<and> dm_children d' = dm_children d \<and> dm_acks d' = dm_acks d \<and> dm_table d' = dm_table d
    \<and> dm_served d' = dm_served d
    \<and> held h (dm_arm d') (dm_acks d) (dm_pipe d') \<and> dp_claim (dm_pipe d') = None
    \<and> cursor_ok start (dm_acks d) (wo_after (dm_spec d'))
    \<and> ka_arm_id (dm_arm d') = ka_arm_id (dm_arm d) \<and> ka_generation (dm_arm d') = ar_generation r
    \<and> (\<exists>a. as_arm (dm_acks d) = Some a \<and> ka_generation a = ar_generation r)"
proof -
  from assms(2) obtain a where a: "as_arm (dm_acks d) = Some a"
    and q: "checked_add (ka_generation (dm_arm d)) 1 = Some (ar_generation r)"
      "rearm_backed (dm_acks d) r" "queue_ok (dm_acks d) (ar_generation r) queue (ka_generation a)"
    by (auto simp: around_ok_def)
  have less: "ka_generation (dm_arm d) < ar_generation r" using q(1) by (rule checked_add_one_less)
  with queue_ok_le [OF q(3)] have ne: "ka_generation a \<noteq> ka_generation (dm_arm d)" by auto
  from assms(1) have h: "acks_ok h (dm_acks d)" "pipe_ok (dm_arm d) (dm_acks d) (dm_pipe d)"
    "acks_of (dm_arm d) (dm_acks d) (dp_claim (dm_pipe d))"
    by (simp_all add: daemon_ok_def held_def)
  from h(3) a ne have g: "ka_arm_id a = ka_arm_id (dm_arm d)" "ka_generation a = ar_generation r"
    and open': "\<And>k b. bt_get (as_signals (dm_acks d)) k = Some b \<Longrightarrow> sb_generation b = ka_generation a \<Longrightarrow>
      \<exists>c. dp_claim (dm_pipe d) = Some c \<and> sc_signal_id c = k"
    using q(1) by (auto simp: acks_of_def)
  have closed: "sb_generation b \<noteq> ka_generation a" if "bt_get (as_signals (dm_acks d)) k = Some b" for k b
  proof
    assume gen: "sb_generation b = ka_generation a"
    with open' [OF that] obtain c where "dp_claim (dm_pipe d) = Some c" "sc_signal_id c = k" by blast
    with h(2) that have "sb_generation b = ka_generation (dm_arm d)"
      by (auto simp: pipe_ok_def claim_ok_def)
    with gen ne show False by simp
  qed
  from less assms(3) have d': "taken"
    "d' = d\<lparr>dm_arm := (dm_arm d)\<lparr>ka_generation := ar_generation r\<rparr>,
       dm_spec := (dm_spec d)\<lparr>wo_after := Some (ar_after r)\<rparr>,
       dm_pipe := \<lparr>dp_ledger = ledger_default, dp_claim = None, dp_attempted = False\<rparr>\<rparr>"
    by (auto simp: take_coverage_rearm_def split: if_splits)
  have "acks_of ((dm_arm d)\<lparr>ka_generation := ar_generation r\<rparr>) (dm_acks d) None"
    using a g closed by (auto simp: acks_of_def)
  then show ?thesis
    using d' h(1) a g(2) q(2) by (auto simp: held_def pipe_ok_def ledger_default_def cursor_ok_def)
qed

lemma revoke_older_keeps:
  "revoke_older_generation d g = d' \<Longrightarrow>
     dm_children d' = dm_children d \<and> dm_acks d' = dm_acks d \<and> dm_spec d' = dm_spec d
     \<and> dm_arm d' = dm_arm d \<and> dm_pipe d' = dm_pipe d
     \<and> dm_table d' \<in> {dm_table d, drop_current (dm_table d)}
     \<and> (\<forall>l. lt_current (dm_table d') = Some l \<longrightarrow> g \<le> al_generation l)"
  by (auto simp: revoke_older_generation_def Let_def drop_session_def drop_current_def not_less
      split: option.splits if_splits)

lemma kill_reaped: "child_kill_and_reap os slot = (slot', Inr r) \<Longrightarrow> slot' = None"
  by (auto simp: child_kill_and_reap_def split: option.splits sum.splits)

lemma rearm_loop_step:
  assumes "restart_after_ack h env d r = (d', Inr followup)"
    and "daemon_ok h start d" "around_ok d (DV_CoverageRearm r # queue) inflight" "composed h arm d inflight"
  shows "daemon_ok h start d' \<and> around_ok d' queue inflight \<and> composed h arm d' inflight"
proof -
  obtain d1 taken where t: "take_coverage_rearm d r = (d1, taken)" by fastforce
  note taken = rearmed_state [OF assms(2,3) t]
  obtain d2 where v: "revoke_older_generation d1 (ar_generation r) = d2" by blast
  note revoked = revoke_older_keeps [OF v]
  obtain slot k where kill: "child_kill_and_reap (le_child env) (dm_children d2) = (slot, k)" by fastforce
  with assms(1) t v taken have "is_ok k"
    by (auto simp: restart_after_ack_def Let_def is_ok_def split: sum.splits)
  then have slot: "slot = None" using kill_reaped kill by (auto simp: is_ok_iff)
  let ?d3 = "d2\<lparr>dm_children := slot\<rparr>"
  from assms(3) obtain a where a: "as_arm (dm_acks d) = Some a"
    "queue_ok (dm_acks d) (ar_generation r) queue (ka_generation a)"
    "links_ok (dm_arm d) (ka_generation a) (dm_table d)"
    "\<forall>p. inflight = Some p \<longrightarrow> prepared_for (dm_arm d) (ka_generation a) p"
    by (auto simp: around_ok_def)
  have "links_ok (dm_arm ?d3) (ka_generation a) (dm_table ?d3)"
    using a(3) taken revoked by (auto simp: links_ok_def drop_current_def)
  moreover have "\<forall>p. inflight = Some p \<longrightarrow> prepared_for (dm_arm ?d3) (ka_generation a) p"
    using a(4) taken revoked by (simp add: prepared_for_def)
  ultimately have around: "around_ok ?d3 queue inflight"
    using a taken revoked by (auto simp: around_ok_def)
  have comp: "composed h arm ?d3 inflight"
    by (rule composed_drop [OF assms(4)]) (use taken revoked in auto)
  have held3: "held h (dm_arm ?d3) (dm_acks ?d3) (dm_pipe ?d3)" "dp_claim (dm_pipe ?d3) = None"
    "cursor_ok start (dm_acks ?d3) (wo_after (dm_spec ?d3))"
    using taken revoked by simp_all
  from assms(1) t v taken kill \<open>is_ok k\<close> obtain events where ev: "le_drain env (dm_spec ?d3) = Inr events"
    by (auto simp: restart_after_ack_def Let_def is_ok_iff split: sum.splits)
  show ?thesis
  proof (cases "events = []")
    case True
    with assms(1) t v taken kill ev \<open>is_ok k\<close> obtain slot' where d': "d' = ?d3\<lparr>dm_children := slot'\<rparr>"
      by (auto simp: restart_after_ack_def Let_def is_ok_iff split: sum.splits prod.splits)
    with held3 around comp show ?thesis
      by (auto simp: daemon_ok_def around_ok_def composed_def)
  next
    case False
    let ?request = "\<lparr>ir_spec = dm_spec ?d3, ir_wait = WR_Matched, ir_drain = (\<lambda>_. Inr events),
      ir_arm = dm_arm ?d3, ir_link = None, ir_now = le_now env\<rparr>"
    obtain outcome pipe' acks' where i: "ingest_match (dh_parse_time h) (dh_format_time h) (le_signal_id env)
        (le_delivery_id env) ?request (dm_pipe ?d3) (dm_acks ?d3) None = (outcome, pipe', acks')"
      by (cases rule: prod_cases3)
    have d': "d' = ?d3\<lparr>dm_pipe := pipe', dm_acks := acks'\<rparr>" "\<not> (\<exists>e. io_coverage outcome = DC_Halt e)"
      using assms(1) t v taken kill ev False i \<open>is_ok k\<close>
      by (auto simp: restart_after_ack_def Let_def is_ok_iff split: DaemonCoverage.splits)
    from ingest_keeps [OF i] held3 d'(2) have new: "held h (dm_arm ?d3) acks' pipe'"
      "acks_reach h (dm_acks ?d3) acks'" "as_arm acks' = as_arm (dm_acks ?d3)"
      by auto
    have le: "store_le (dm_acks ?d3) acks'"
      using acks_reach_ok [OF new(2)] held3(1) by (simp add: held_def)
    have "daemon_ok h start d'"
      using new(1) held3(3) le slot by (auto simp: d' daemon_ok_def child_occupied_def intro: cursor_ok_mono)
    moreover have "around_ok d' queue inflight"
      using around new(3) le by (auto simp: d' around_ok_def intro: queue_ok_mono)
    moreover have "composed h arm d' inflight"
      by (rule composed_drop [OF comp]) (use new(2) in \<open>auto simp: d'\<close>)
    ultimately show ?thesis by blast
  qed
qed

lemma event_loop_step:
  assumes "handle_event h env (CR_Event event) d = (d', None)"
    and "daemon_ok h start d" "around_ok d (event # queue) inflight" "composed h arm d inflight"
  shows "daemon_ok h start d' \<and> around_ok d' queue inflight \<and> composed h arm d' inflight"
proof (cases event)
  case (DV_CoverageRearm r)
  with assms(1) obtain followup where "restart_after_ack h env d r = (d', Inr followup)"
    by (auto simp: handle_event_def split: prod.splits sum.splits)
  from rearm_loop_step [OF this assms(2)] assms(3,4) DV_CoverageRearm show ?thesis by simp
next
  case (DV_Attached s)
  from assms(3) obtain a where a: "as_arm (dm_acks d) = Some a"
    "case sa_session s of None \<Rightarrow> True | Some session \<Rightarrow> ls_generation session \<le> ka_generation (dm_arm d)"
    "links_ok (dm_arm d) (ka_generation a) (dm_table d)" and around: "around_ok d queue inflight"
    by (auto simp: around_ok_def DV_Attached)
  have "live_link_ok d \<or> \<not> retain_live_attach s (dm_table d) (dm_served d)"
    using a by (auto simp: retain_live_attach_def live_link_ok_def links_ok_def session_owns_def
        split: option.splits if_splits)
  moreover have "d' = adopt_attached h env s d" using assms(1) by (simp add: handle_event_def DV_Attached)
  ultimately have "quiet h d d'" using adopt_attached_quiet assms(2) by (simp add: daemon_ok_def)
  then show ?thesis using assms(2) around assms(4) by (rule quiet_ok)
qed

section \<open>The accept thread's steps\<close>

definition signals_kept :: "AckStore \<Rightarrow> AckStore \<Rightarrow> bool" where
  "signals_kept s s' \<longleftrightarrow>
     (\<forall>k b'. bt_get (as_signals s') k = Some b' \<longrightarrow>
        (\<exists>b. bt_get (as_signals s) k = Some b \<and> sb_generation b = sb_generation b'))"

lemma signals_kept_trans: "signals_kept s s' \<Longrightarrow> signals_kept s' s'' \<Longrightarrow> signals_kept s s''"
  unfolding signals_kept_def by metis

lemma signals_kept_record: "signals_kept s (fst (record_handled parse_time format_time s q now))"
proof (cases rule: record_handled_cases [of parse_time format_time s q now])
  case (fresh s' reply)
  from fresh(3) show ?thesis
    by (cases rule: decide_handled_cases [of q s "format_time now"])
      (use fresh(1,2) in \<open>auto simp: signals_kept_def bt_get_insert_eq\<close>)
qed (simp_all add: signals_kept_def)

lemma signals_kept_rearm: "signals_kept s (fst (rearm_from_handled s k))"
  by (auto simp: signals_kept_def rearm_from_handled_def bt_get_insert_eq split: option.splits)

lemma signals_kept_apply: "signals_kept s (fst (apply_handled_request parse_time format_time s q now))"
proof -
  let ?s = "fst (record_handled parse_time format_time s q now)"
  have r: "signals_kept s ?s" by (rule signals_kept_record)
  moreover have "signals_kept s (fst (rearm_from_handled ?s k))" for k
    by (rule signals_kept_trans [OF r signals_kept_rearm])
  ultimately show ?thesis using apply_handled_state [of parse_time format_time s q now] by auto
qed

text \<open>Recording an acknowledgement is a step of its component; its re-arm is that step's.\<close>

lemma record_ack_step:
  assumes "record_ack parse_time format_time s q now = (s', r)"
  shows "s' = s \<and> \<not> is_ok r
    \<or> s' = fst (apply_handled_request parse_time format_time s q now)
      \<and> ack_step parse_time format_time s (OpApply q now)
        = (s', case r of Inl _ \<Rightarrow> None | Inr served \<Rightarrow> hs_rearm served)"
proof (cases "\<exists>a b c d e f g i. q = HC_Request a b c d e f g i")
  case True
  obtain s1 r1 where ap: "apply_handled_request parse_time format_time s q now = (s1, r1)" by fastforce
  from True assms ap have "s' = s1" "r = map_err LE_Handled r1" by (auto simp: record_ack_def)
  with ap show ?thesis by (cases r1) simp_all
next
  case False
  with assms show ?thesis by (cases q) (auto simp: record_ack_def)
qed

text \<open>The re-armed signal was open, so it is the claim's, and the loop is at its generation.\<close>

lemma rearm_acks:
  assumes "held h arm acks pipe" "as_arm acks = Some a"
    and "ack_step (dh_parse_time h) (dh_format_time h) acks (OpApply q now) = (acks', Some r)"
  shows "ka_generation a = ka_generation arm \<and> acks_of arm acks' (dp_claim pipe)
    \<and> checked_add (ka_generation a) 1 = Some (ar_generation r) \<and> rearm_backed acks' r
    \<and> as_arm acks' = Some (a\<lparr>ka_generation := ar_generation r\<rparr>)"
proof -
  have ok: "acks_ok h acks" "pipe_ok arm acks pipe" "acks_of arm acks (dp_claim pipe)"
    using assms(1) by (simp_all add: held_def)
  from ack_step_Some [OF assms(3) ok(1)] assms(2) have
    bump: "checked_add (ka_generation a) 1 = Some (ar_generation r)" and
    arm': "as_arm acks' = Some (a\<lparr>ka_generation := ar_generation r\<rparr>)" and backed: "rearm_backed acks' r"
    by auto
  have kept: "signals_kept acks acks'"
    using signals_kept_apply [of acks "dh_parse_time h" "dh_format_time h" q now] assms(3)
    by (auto split: prod.splits sum.splits)
  from backed obtain b' where b': "bt_get (as_signals acks') (ar_signal_id r) = Some b'"
    "unat (ar_generation r) = Suc (unat (sb_generation b'))"
    by (auto simp: rearm_backed_def)
  with kept obtain b where b: "bt_get (as_signals acks) (ar_signal_id r) = Some b"
    "sb_generation b = sb_generation b'"
    by (auto simp: signals_kept_def)
  have "unat (sb_generation b) = unat (ka_generation a)"
    using checked_add_SomeD [OF bump] b(2) b'(2) by simp
  then have gen: "sb_generation b = ka_generation a" by (rule unsigned_word_eqI)
  with ok(3) assms(2) b(1) obtain c where c: "dp_claim pipe = Some c" "sc_signal_id c = ar_signal_id r"
    by (auto simp: acks_of_def)
  with ok(2) b(1) have "sb_generation b = ka_generation arm" by (auto simp: pipe_ok_def claim_ok_def)
  with gen have g: "ka_generation a = ka_generation arm" by simp
  have "sb_generation x' \<noteq> ar_generation r" if "bt_get (as_signals acks') k = Some x'" for k x'
  proof -
    from kept that obtain x where x: "bt_get (as_signals acks) k = Some x" "sb_generation x = sb_generation x'"
      by (auto simp: signals_kept_def)
    from ok(1) assms(2) have "signals_ok a (as_signals acks)" by (auto simp: store_ok_def)
    from signals_okD [OF this x(1)] x(2) have "sb_generation x' \<le> ka_generation a"
      by (simp add: batch_ok_def)
    with checked_add_one_less [OF bump] show ?thesis by auto
  qed
  with arm' g bump c ok(3) assms(2) have "acks_of arm acks' (dp_claim pipe)"
    by (auto simp: acks_of_def)
  with g bump backed arm' show ?thesis by blast
qed

lemma handled_accept_step:
  assumes "record_ack (dh_parse_time h) (dh_format_time h) (dm_acks d) q now = (acks', r)"
    and "daemon_ok h start d" "around_ok d queue None" "composed h arm d None"
  shows "let d' = d\<lparr>dm_acks := acks'\<rparr>;
      new = (case r of Inl _ \<Rightarrow> [] | Inr served \<Rightarrow>
        (case hs_rearm served of None \<Rightarrow> [] | Some x \<Rightarrow> [DV_CoverageRearm x])) in
    daemon_ok h start d' \<and> around_ok d' (queue @ new) None \<and> composed h arm d' None"
proof -
  from record_ack_step [OF assms(1)] consider
      (same) e where "acks' = dm_acks d" "r = Inl e"
    | (step) "acks' = fst (apply_handled_request (dh_parse_time h) (dh_format_time h) (dm_acks d) q now)"
        "ack_step (dh_parse_time h) (dh_format_time h) (dm_acks d) (OpApply q now)
          = (acks', case r of Inl _ \<Rightarrow> None | Inr served \<Rightarrow> hs_rearm served)"
    by (cases r) auto
  then show ?thesis
  proof cases
    case same
    with assms show ?thesis by (simp add: Let_def)
  next
    case step
    have reach: "acks_reach h (dm_acks d) acks'"
      using acks_reach_step [of h "dm_acks d" "OpApply q now"] step(2) by simp
    from assms(2) have held: "held h (dm_arm d) (dm_acks d) (dm_pipe d)" by (simp add: daemon_ok_def)
    from acks_reach_ok [OF reach] held have le: "store_le (dm_acks d) acks'" and ok': "acks_ok h acks'"
      by (simp_all add: held_def)
    from assms(3) obtain a where a: "as_arm (dm_acks d) = Some a"
      "queue_ok (dm_acks d) (ka_generation (dm_arm d)) queue (ka_generation a)"
      "links_ok (dm_arm d) (ka_generation a) (dm_table d)"
      by (auto simp: around_ok_def)
    have q': "queue_ok acks' (ka_generation (dm_arm d)) queue (ka_generation a)"
      using a(2) le by (rule queue_ok_mono)
    have comp: "composed h arm (d\<lparr>dm_acks := acks'\<rparr>) None"
      by (rule composed_drop [OF assms(4)]) (simp_all add: reach)
    have pipe': "pipe_ok (dm_arm d) acks' (dm_pipe d)"
      using held le by (auto simp: held_def pipe_ok_def intro: claim_ok_le split: option.splits)
    have rest: "(child_occupied (dm_children d) \<longrightarrow> dp_claim (dm_pipe d) = None)
        \<and> cursor_ok start acks' (wo_after (dm_spec d))"
      using assms(2) le by (auto simp: daemon_ok_def intro: cursor_ok_mono)
    show ?thesis
    proof (cases "case r of Inl _ \<Rightarrow> None | Inr served \<Rightarrow> hs_rearm served")
      case None
      with step(2) have arm: "as_arm acks' = as_arm (dm_acks d)" using ack_step_None by metis
      have kept: "signals_kept (dm_acks d) acks'" unfolding step(1) by (rule signals_kept_apply)
      have "signals_from {} (dm_acks d) acks'"
        using arm kept unfolding signals_from_def signals_kept_def by metis
      with held have "acks_of (dm_arm d) acks' (dp_claim (dm_pipe d))"
        by (auto simp: held_def intro: acks_of_from)
      with None rest comp pipe' ok' a q' arm show ?thesis
        by (auto simp: Let_def daemon_ok_def held_def around_ok_def split: sum.splits)
    next
      case (Some x)
      have "ack_step (dh_parse_time h) (dh_format_time h) (dm_acks d) (OpApply q now) = (acks', Some x)"
        using step(2) unfolding Some .
      from rearm_acks [OF held a(1) this] have n: "acks_of (dm_arm d) acks' (dp_claim (dm_pipe d))"
        "checked_add (ka_generation a) 1 = Some (ar_generation x)" "rearm_backed acks' x"
        "as_arm acks' = Some (a\<lparr>ka_generation := ar_generation x\<rparr>)"
        by blast+
      have "ka_generation a \<le> ar_generation x" using checked_add_one_less [OF n(2)] by simp
      with a(3) have "links_ok (dm_arm d) (ar_generation x) (dm_table d)"
        by (auto simp: links_ok_def)
      moreover have "queue_ok acks' (ka_generation (dm_arm d)) (queue @ [DV_CoverageRearm x]) (ar_generation x)"
        using q' n(2,3) by (auto simp: queue_ok_append)
      ultimately show ?thesis
        using Some rest comp pipe' ok' n
        by (auto simp: Let_def daemon_ok_def held_def around_ok_def split: sum.splits)
    qed
  qed
qed

lemma prepared_session:
  assumes "prepare_attach parse_time format_time link_id t request now elapsed arms = (t', Inr p)"
    and "links_ok arm g t" "arms = [a]" "ka_generation a = g" "ka_arm_id a = ka_arm_id arm"
  shows "prepared_for arm g p"
proof -
  let ?t = "drop_expired t (decision_instant now elapsed)"
  have t: "links_ok arm g ?t"
    by (rule links_ok_drop [OF assms(2)]) (auto simp: drop_expired_def drop_current_def split: option.splits)
  show ?thesis
    using assms(1,3-5) t
    by (auto simp: prepare_attach_def Let_def prepared_for_def session_of_def decide_attach_Accept_iff
        grantable_def granted_link_def links_ok_def decide_attach_def result_simps
        split: sum.splits AttachDecision.splits option.splits if_splits WaiterLink.splits)
qed

section \<open>Every step\<close>

lemma prepare_link_step:
  assumes "prepare_attach parse_time format_time link_id t request now elapsed arms = (t', r)"
    and "link_reach parse_time format_time \<lparr>lw_table = t, lw_inflight = None\<rparr>"
  shows "link_reach parse_time format_time
    \<lparr>lw_table = t', lw_inflight = (case r of Inl _ \<Rightarrow> None | Inr p \<Rightarrow> Some p)\<rparr>"
proof (cases r)
  case (Inl e)
  with link_reach.step [OF assms(2) link_step.refused] assms(1) show ?thesis by simp
next
  case (Inr p)
  with link_reach.step [OF assms(2) link_step.prepared] assms(1) show ?thesis by simp
qed

lemma prepare_table:
  "prepare_attach parse_time format_time link_id t request now elapsed arms = (t', r) \<Longrightarrow>
    t' \<in> {t, drop_current t}"
  by (auto simp: prepare_attach_def Let_def drop_expired_def drop_current_def
      split: sum.splits AttachDecision.splits option.splits if_splits)

lemma prepare_accept_step:
  assumes "prepare_attach (dh_parse_time h) (dh_format_time h) link_id (dm_table d) request now elapsed
      (case as_arm (dm_acks d) of None \<Rightarrow> [] | Some arm \<Rightarrow> [arm]) = (t', r)"
    and "daemon_ok h start d" "around_ok d queue None" "composed h arm d None"
  shows "let d' = d\<lparr>dm_table := t'\<rparr>; inflight = (case r of Inl _ \<Rightarrow> None | Inr p \<Rightarrow> Some p) in
    daemon_ok h start d' \<and> around_ok d' queue inflight \<and> composed h arm d' inflight"
proof -
  from assms(3) obtain a where a: "as_arm (dm_acks d) = Some a"
    "queue_ok (dm_acks d) (ka_generation (dm_arm d)) queue (ka_generation a)"
    "links_ok (dm_arm d) (ka_generation a) (dm_table d)"
    by (auto simp: around_ok_def)
  from assms(2) a(1) have "ka_arm_id a = ka_arm_id (dm_arm d)"
    by (auto simp: daemon_ok_def held_def acks_of_def)
  then have "prepared_for (dm_arm d) (ka_generation a) p" if "r = Inr p" for p
    using prepared_session [of _ _ _ _ _ _ _ "[a]" t' p "dm_arm d" "ka_generation a" a] assms(1) a that
    by simp
  moreover have "links_ok (dm_arm d) (ka_generation a) t'"
    using links_ok_drop [OF a(3) prepare_table [OF assms(1)]] .
  ultimately have "around_ok (d\<lparr>dm_table := t'\<rparr>) queue (case r of Inl _ \<Rightarrow> None | Inr p \<Rightarrow> Some p)"
    using a by (auto simp: around_ok_def split: sum.splits)
  moreover have "composed h arm (d\<lparr>dm_table := t'\<rparr>) (case r of Inl _ \<Rightarrow> None | Inr p \<Rightarrow> Some p)"
    using assms(4) prepare_link_step [OF assms(1)] by (simp add: composed_def)
  ultimately show ?thesis using assms(2) by (simp add: Let_def daemon_ok_def)
qed

lemma commit_table:
  "commit_prepared_attach t p ok = (t', s) \<Longrightarrow>
     lt_current t' = lt_current t \<or> (\<exists>l. pa_pending p = PC_Accept l \<and> lt_current t' = Some l)"
  by (auto simp: commit_prepared_attach_def commit_attach_def commit_reject_def Let_def
      split: PendingCommit.splits if_splits option.splits WaiterLink.splits)

lemma commit_session: "commit_prepared_attach t p ok = (t', Some s) \<Longrightarrow> sa_session s = pa_session p"
  by (auto simp: commit_prepared_attach_def Let_def split: PendingCommit.splits if_splits option.splits)

lemma commit_accept_step:
  assumes "commit_prepared_attach (dm_table d) p write_ok = (t', s)"
    and "daemon_ok h start d" "around_ok d queue (Some p)" "composed h arm d (Some p)"
  shows "let d' = d\<lparr>dm_table := t'\<rparr> in
    daemon_ok h start d' \<and> composed h arm d' None
    \<and> around_ok d' (queue @ (case s of None \<Rightarrow> [] | Some s \<Rightarrow> [DV_Attached s])) None"
proof -
  from assms(3) obtain a where a: "as_arm (dm_acks d) = Some a"
    "queue_ok (dm_acks d) (ka_generation (dm_arm d)) queue (ka_generation a)"
    "links_ok (dm_arm d) (ka_generation a) (dm_table d)" "prepared_for (dm_arm d) (ka_generation a) p"
    by (auto simp: around_ok_def)
  have "links_ok (dm_arm d) (ka_generation a) t'"
    using commit_table [OF assms(1)] a(3,4) queue_ok_le [OF a(2)]
    by (auto simp: links_ok_def prepared_for_def)
  moreover have "queue_ok (dm_acks d) (ka_generation (dm_arm d))
      (queue @ (case s of None \<Rightarrow> [] | Some s \<Rightarrow> [DV_Attached s])) (ka_generation a)"
    using a(2,4) commit_session [of "dm_table d" p write_ok t'] assms(1)
    by (auto simp: queue_ok_append prepared_for_def split: option.splits)
  moreover have "composed h arm (d\<lparr>dm_table := t'\<rparr>) None"
    using assms(1,4) link_reach.step [OF _ link_step.commit]
    by (auto simp: composed_def) (metis fst_conv)
  ultimately show ?thesis
    using assms(2) a(1) by (simp add: Let_def daemon_ok_def around_ok_def)
qed

lemma world_step:
  assumes "world_ok h arm start w"
  shows "world_ok h arm start (daemon_step h w op)"
proof (cases "dw_exit w")
  case (Some code)
  then show ?thesis by (simp add: daemon_step_def world_ok_def)
next
  case None
  let ?d = "dw_daemon w"
  from assms None have ok: "daemon_ok h start ?d" "around_ok ?d (dw_queue w) (dw_inflight w)"
    "composed h arm ?d (dw_inflight w)"
    by (simp_all add: world_ok_def)
  have "world_ok h arm start (daemon_op h w op)"
  proof (cases op)
    case (AcceptPrepare link_id request now elapsed)
    obtain t' r where p: "prepare_attach (dh_parse_time h) (dh_format_time h) link_id (dm_table ?d) request
        now elapsed (case as_arm (dm_acks ?d) of None \<Rightarrow> [] | Some arm \<Rightarrow> [arm]) = (t', r)" by fastforce
    show ?thesis
    proof (cases "dw_inflight w")
      case None
      with prepare_accept_step [OF p ok(1)] ok(2,3) \<open>dw_exit w = None\<close> show ?thesis
        by (cases r) (simp_all add: AcceptPrepare p Let_def world_ok_def)
    qed (use assms in \<open>simp add: AcceptPrepare\<close>)
  next
    case (AcceptCommit write_ok)
    show ?thesis
    proof (cases "dw_inflight w")
      case (Some p)
      obtain t' s where c: "commit_prepared_attach (dm_table ?d) p write_ok = (t', s)" by fastforce
      from commit_accept_step [OF c ok(1)] ok(2,3) Some \<open>dw_exit w = None\<close> show ?thesis
        by (simp add: AcceptCommit c Let_def world_ok_def)
    qed (use assms in \<open>simp add: AcceptCommit\<close>)
  next
    case (AcceptHandled request now)
    obtain acks r where c: "record_ack (dh_parse_time h) (dh_format_time h) (dm_acks ?d) request now = (acks, r)"
      by fastforce
    show ?thesis
    proof (cases "dw_inflight w")
      case None
      with handled_accept_step [OF c ok(1)] ok(2,3) \<open>dw_exit w = None\<close> show ?thesis
        by (cases r) (simp_all add: AcceptHandled c Let_def world_ok_def)
    qed (use assms in \<open>simp add: AcceptHandled\<close>)
  next
    case (LoopEvent env)
    show ?thesis
    proof (cases "dw_queue w")
      case Nil
      have "world_ok h arm start (end_with env w (handle_event h env CR_Timeout ?d))"
        by (rule end_with_ok) (use ok in \<open>simp add: handle_event_def\<close>)
      then show ?thesis by (simp add: LoopEvent Nil)
    next
      case (Cons event queue)
      have "world_ok h arm start
          (end_with env (w\<lparr>dw_queue := queue\<rparr>) (handle_event h env (CR_Event event) ?d))"
        by (rule end_with_ok) (use event_loop_step ok Cons in auto)
      then show ?thesis by (simp add: LoopEvent Cons)
    qed
  next
    case (LoopResult env)
    from quiet_ok [OF poll_result_quiet ok] show ?thesis by (simp add: LoopResult world_ok_def)
  next
    case (LoopChild env)
    have "world_ok h arm start (end_with env w (poll_chanvoy h env ?d))"
      by (rule end_with_ok) (use child_loop_step ok in blast)
    then show ?thesis by (simp add: LoopChild)
  next
    case (LoopExpired env)
    have "world_ok h arm start (end_with env w (?d, Some 1))" by (rule end_with_ok) simp
    then show ?thesis by (simp add: LoopExpired)
  next
    case (LoopDisconnected env)
    have "world_ok h arm start (end_with env w (handle_event h env CR_Disconnected ?d))"
      by (rule end_with_ok) (simp add: handle_event_def)
    then show ?thesis by (simp add: LoopDisconnected)
  qed
  then show ?thesis by (simp add: daemon_step_def None)
qed

lemma world_start: "world_ok h arm (wo_after spec) (daemon_world os spec arm)"
proof -
  obtain children r where s: "spawn_chanvoy os None (spec\<lparr>wo_follow := True\<rparr>) = (children, r)" by fastforce
  have "acks_of arm (with_arm arm) None" by (simp add: acks_of_def with_arm_def)
  then have "held h arm (with_arm arm) daemon_pipe_default"
    using with_arm_ok by (simp add: held_def pipe_ok_def daemon_pipe_default_def ledger_default_def)
  then show ?thesis
    using s link_reach.start
    by (auto simp: daemon_world_def daemon_start_def Let_def world_ok_def daemon_ok_def around_ok_def
        composed_def cursor_ok_def links_ok_def link_table_default_def with_arm_def daemon_pipe_default_def
        split: prod.splits sum.splits)
qed

lemma world_run: "world_ok h arm (wo_after spec) (daemon_run h (daemon_world os spec arm) ops)"
proof -
  have "world_ok h arm start w \<Longrightarrow> world_ok h arm start (daemon_run h w ops)" for start w
    by (induction ops arbitrary: w) (simp_all add: world_step)
  then show ?thesis by (simp add: world_start)
qed

section \<open>The properties\<close>



text \<open>
  C25: the cursor moves only over what was handled. While the daemon runs, the cursor its coverage starts
  after is the one it was started with, or a reference that was delivered for a signal and is
  not after the one the signal was handled through.
\<close>

theorem daemon_cursor_handled:
  "case dw_exit (daemon_run h (daemon_world os spec arm) ops) of
     Some _ \<Rightarrow> True
   | None \<Rightarrow>
       (let d = dw_daemon (daemon_run h (daemon_world os spec arm) ops) in
        wo_after (dm_spec d) \<in> {wo_after spec, Some (after_or_default spec)}
        \<or> (\<exists>k b cursor through. wo_after (dm_spec d) = Some cursor
             \<and> bt_get (as_signals (dm_acks d)) k = Some b \<and> sb_closed b
             \<and> sb_handled b = Some through \<and> not_before (sb_delivered b) cursor through))"
  using world_run [of h arm spec os ops]
  by (fastforce simp: world_ok_def daemon_ok_def cursor_ok_def rearm_backed_def after_or_default_def
      Let_def split: option.splits)

lemma parse_messages_nonempty: "ms \<noteq> [] \<Longrightarrow> parse_messages j graphemes seen ms \<noteq> Inr []"
  by (cases ms) (auto simp: bind_res_def Let_def split: sum.split prod.split)

lemma parse_drained_nonempty: "parse_drained_events j graphemes json \<noteq> Inr []"
  by (auto simp: parse_drained_events_def bind_res_def parse_messages_nonempty split: sum.split)

lemma chanvoy_drain_nonempty: "chanvoy_drain_after j graphemes read spec \<noteq> Inr []"
  by (auto simp: chanvoy_drain_after_def bind_res_def parse_drained_nonempty split: sum.split)

text \<open>
  A quiet channel ends the daemon. The drain of \<open>chanvoy\<close> reports an empty page as the error
  \<open>empty\<close>, never as no events, so after an accepted acknowledgement the branch that starts the successor
  wait is never taken: when nothing was posted after the handled cursor, the restart fails with
  code 2, on which the loop halts.
\<close>

lemma restart_never_waits:
  "case restart_after_ack h (env\<lparr>le_drain := chanvoy_drain_after j graphemes read\<rparr>) d r of (d', result) \<Rightarrow>
     result \<noteq> Inr RF_Waiting
     \<and> (case take_coverage_rearm d r of
          (_, False) \<Rightarrow> True
        | (d1, True) \<Rightarrow>
            (if chanvoy_drain_after j graphemes read (dm_spec d1) = Inl DE_Empty then result = Inl 2 else True))"
proof -
  obtain d1 taken where t: "take_coverage_rearm d r = (d1, taken)" by fastforce
  have spec: "dm_spec (revoke_older_generation d1 g) = dm_spec d1" for g
    using revoke_older_keeps by blast
  show ?thesis
    using chanvoy_drain_nonempty [of j graphemes read "dm_spec d1"]
    by (cases taken)
      (auto simp: restart_after_ack_def t spec Let_def split: sum.splits prod.splits DaemonCoverage.splits)
qed

section \<open>A run\<close>

text \<open>A daemon that starts a child, sees it match, claims the drained post and goes on.\<close>

definition sample_child :: child_os where
  "sample_child = \<lparr>co_spawn = (\<lambda>_ _. Inr 7), co_try_wait = Inr (Some (Some 0)), co_kill = Inr (),
     co_wait = Inr (), co_try_wait_killed = Inr None\<rparr>"

definition sample_turn :: loop_env where
  "sample_turn = \<lparr>le_now = 0, le_ingest_now = 0, le_drain = (\<lambda>_. Inr [sample_post]),
     le_send = (\<lambda>_ _. Inr ()), le_read = Inl FE_IoTimedOut, le_set_timeout = (\<lambda>_. True),
     le_child = sample_child, le_signal_id = sample_ulid (CHR ''S''), le_delivery_id = sample_ulid (CHR ''D'')\<rparr>"

definition sample_host :: "json_codec \<Rightarrow> daemon_host" where
  "sample_host j = \<lparr>dh_parse_time = unary_parse, dh_format_time = unary_format, dh_json = j, dh_command = 1\<rparr>"

lemma sample_daemon_run:
  "case daemon_run (sample_host j) (daemon_world sample_child sample_wait sample_arm) [LoopChild sample_turn] of w \<Rightarrow>
     dw_exit w = None \<and> dp_claim (dm_pipe (dw_daemon w)) \<noteq> None"
proof -
  have "drained_event_is_displayable sample_post"
    by (simp add: sample_post_def drained_event_is_displayable_def body_is_displayable_def scalars_of_def
        is_disallowed_control_def is_control_def text_len_def utf8_len_def MAX_BODY_def MAX_BODY_BYTES_def)
  then show ?thesis
    by (simp add: daemon_world_def daemon_start_def spawn_chanvoy_def child_spawn_def sample_child_def
        sample_turn_def daemon_step_def poll_chanvoy_def child_try_wait_def ingest_child_exit_def
        ingest_match_def WaitResult_from_code_def attach_drain_def hinted_def sample_wait_def
        claim_drained_def claim_or_reuse_def daemon_pipe_default_def note_claimed_def with_arm_def
        open_signal_def sample_host_def provider_events_from_drain_def deliver_claimed_def link_table_default_def
        flush_current_def end_with_def sample_arm_def bt_eval sample_post_def Let_def)
qed

end
