(* ===== verification/Codex_Io.thy ===== *)
theory Codex_Io
  imports Controller Sanitize
begin

text \<open>
  The byte level of the Codex transport, \<open>gearwit-host/src/codex_transport.rs\<close>: bounds, errors, the
  bounded frame buffer, and the loops that read a line and write a frame over non-blocking pipes.

  The operating system is a parameter: a world of any type with the calls the code makes on it. A
  \<open>Conduit\<close> is that world together with what this program has put on the writer and taken from the
  reader so far. A loop that need not end is a \<open>partial_function\<close>, \<open>None\<close> for a run that never
  returns. Wiping a buffer (\<open>zeroize\<close>) is emptying it.
\<close>

section \<open>Results that need not come\<close>

text \<open>
  \<open>?\<close> on a call that returns a state and a \<open>Result\<close>, if it returns; and the assertion that a call,
  if it returns, ends in a state and a result of a given kind.
\<close>

definition and_then :: "('s \<times> ('e + 'a)) option \<Rightarrow> ('s \<Rightarrow> 'a \<Rightarrow> ('s \<times> ('e + 'b)) option)
    \<Rightarrow> ('s \<times> ('e + 'b)) option" where
  "and_then m f = Option.bind m (\<lambda>(s, r). case r of Inl e \<Rightarrow> Some (s, Inl e) | Inr x \<Rightarrow> f s x)"

definition ends :: "('s \<times> 'r) option \<Rightarrow> ('s \<Rightarrow> 'r \<Rightarrow> bool) \<Rightarrow> bool" where
  "ends m Q \<longleftrightarrow> (\<forall>s r. m = Some (s, r) \<longrightarrow> Q s r)"

lemma and_then_simps [simp]:
  "and_then None f = None"
  "and_then (Some (s, Inl e)) f = Some (s, Inl e)"
  "and_then (Some (s, Inr x)) f = f s x"
  by (simp_all add: and_then_def)

lemma and_then_mono [partial_function_mono]:
  fixes m :: "('c \<Rightarrow> 'd option) \<Rightarrow> ('s \<times> ('e + 'a)) option"
  assumes "mono_option m" and "\<And>s x. mono_option (\<lambda>f. g s x f)"
  shows "mono_option (\<lambda>f. and_then (m f) (\<lambda>s x. g s x f))"
  unfolding and_then_def
proof (rule bind_mono [OF assms(1)])
  fix p :: "'s \<times> ('e + 'a)"
  obtain s r where "p = (s, r)" by (cases p)
  then show "mono_option (\<lambda>f. case p of (s, r) \<Rightarrow> case r of Inl e \<Rightarrow> Some (s, Inl e) | Inr x \<Rightarrow> g s x f)"
    using assms(2) by (cases r) (simp_all add: option.const_mono)
qed

lemma ends_simps [simp]:
  "ends None Q"
  "ends (Some (s, r)) Q \<longleftrightarrow> Q s r"
  by (simp_all add: ends_def)

lemma endsI [intro?]: "(\<And>s r. m = Some (s, r) \<Longrightarrow> Q s r) \<Longrightarrow> ends m Q"
  by (simp add: ends_def)

lemma endsD: "ends m Q \<Longrightarrow> m = Some (s, r) \<Longrightarrow> Q s r"
  by (simp add: ends_def)

lemma ends_weaken: "ends m P \<Longrightarrow> (\<And>s r. P s r \<Longrightarrow> Q s r) \<Longrightarrow> ends m Q"
  by (simp add: ends_def)

lemma ends_and_then:
  assumes "ends m P" and "\<And>s e. P s (Inl e) \<Longrightarrow> Q s (Inl e)"
    and "\<And>s x. P s (Inr x) \<Longrightarrow> ends (f s x) Q"
  shows "ends (and_then m f) Q"
proof (cases m)
  case (Some p)
  obtain s r where p: "p = (s, r)" by (cases p)
  with Some assms show ?thesis by (cases r) (simp_all add: ends_def)
qed simp

section \<open>Bounds and errors\<close>

definition CODEX_VERSION :: string where "CODEX_VERSION = ''codex-cli 0.152.1''"
definition CODEX_DIALECT :: string where "CODEX_DIALECT = ''thread/read-v2''"
definition CLIENT_NAME :: string where "CLIENT_NAME = ''gearwit''"

definition MAX_VERSION :: nat where "MAX_VERSION = 1024"
definition MAX_LINE :: nat where "MAX_LINE = 1024 * 1024"
definition MAX_FRAME :: nat where "MAX_FRAME = 1024 * 1024"
definition MAX_STDOUT :: nat where "MAX_STDOUT = 1024 * 1024"
definition MAX_STDERR :: nat where "MAX_STDERR = 16 * 1024"
definition MAX_NATIVE_REF :: nat where "MAX_NATIVE_REF = 1024"
definition MAX_QUEUE :: nat where "MAX_QUEUE = 64"
definition MAX_PENDING :: nat where "MAX_PENDING = 64"
definition IO_DEADLINE :: int where "IO_DEADLINE = seconds 8"
definition CLEANUP_DEADLINE :: int where "CLEANUP_DEADLINE = 200000000"
definition GRACE_INTERVAL :: int where "GRACE_INTERVAL = 50000000"
definition POLL_INTERVAL :: int where "POLL_INTERVAL = 5000000"

datatype CodexError =
  XE_Bounds | XE_Malformed | XE_Version | XE_Identity | XE_Group | XE_Correlation | XE_Ambiguous
| XE_Deadline | XE_Closed | XE_Preflight | XE_Cleanup | XE_Unsupported | XE_Native | XE_Degraded
| XE_InconsistentTerminal

fun CodexError_fmt :: "CodexError \<Rightarrow> string" where
  "CodexError_fmt XE_Bounds = ''transport bound exceeded''"
| "CodexError_fmt XE_Malformed = ''malformed transport frame''"
| "CodexError_fmt XE_Version = ''unsupported Codex version''"
| "CodexError_fmt XE_Identity = ''executable identity could not be proven''"
| "CodexError_fmt XE_Group = ''process group could not be proven''"
| "CodexError_fmt XE_Correlation = ''response correlation failed''"
| "CodexError_fmt XE_Ambiguous = ''outbound frame acceptance is ambiguous''"
| "CodexError_fmt XE_Deadline = ''transport deadline expired''"
| "CodexError_fmt XE_Closed = ''transport stream is closed''"
| "CodexError_fmt XE_Preflight = ''Codex version preflight failed''"
| "CodexError_fmt XE_Cleanup = ''process cleanup could not be proven''"
| "CodexError_fmt XE_Unsupported = ''Codex transport is unsupported on this platform''"
| "CodexError_fmt XE_Native = ''Codex returned a native error''"
| "CodexError_fmt XE_Degraded = ''transport notification delivery is degraded''"
| "CodexError_fmt XE_InconsistentTerminal = ''Codex returned an inconsistent terminal status''"

section \<open>Pipes\<close>

text \<open>
  An answer of \<open>Read::read\<close>, \<open>Write::write\<close> and \<open>Write::flush\<close>: success, \<open>WouldBlock\<close>, or any other
  error. \<open>RA_Bytes []\<close> is \<open>Ok(0)\<close>, the end of the stream; a read fills at most the buffer it is given,
  a write takes at most the bytes it is given.
\<close>

datatype ReadAnswer = RA_Bytes bytes | RA_WouldBlock | RA_Failed
datatype WriteAnswer = WA_Wrote nat | WA_WouldBlock | WA_Failed
datatype FlushAnswer = FA_Done | FA_WouldBlock | FA_Failed

record 'w clock =
  ck_now :: "'w \<Rightarrow> 'w \<times> instant"
  ck_sleep :: "int \<Rightarrow> 'w \<Rightarrow> 'w"

type_synonym 'w reader = "nat \<Rightarrow> 'w \<Rightarrow> 'w \<times> ReadAnswer"

record 'w writer =
  wt_write :: "bytes \<Rightarrow> 'w \<Rightarrow> 'w \<times> WriteAnswer"
  wt_flush :: "'w \<Rightarrow> 'w \<times> FlushAnswer"

record 'w Conduit =
  cd_world :: 'w
  cd_wire :: bytes
  cd_heard :: bytes
  cd_children :: "nat list"

text \<open>A call on the world.\<close>

definition on_world :: "('w \<Rightarrow> 'w \<times> 'a) \<Rightarrow> 'w Conduit \<Rightarrow> 'w Conduit \<times> 'a" where
  "on_world call c = (case call (cd_world c) of (w, x) \<Rightarrow> (c\<lparr>cd_world := w\<rparr>, x))"

definition conduit_now :: "'w clock \<Rightarrow> 'w Conduit \<Rightarrow> 'w Conduit \<times> instant" where
  "conduit_now k c = on_world (ck_now k) c"

definition conduit_sleep :: "'w clock \<Rightarrow> int \<Rightarrow> 'w Conduit \<Rightarrow> 'w Conduit" where
  "conduit_sleep k d c = c\<lparr>cd_world := ck_sleep k d (cd_world c)\<rparr>"

definition conduit_read :: "'w reader \<Rightarrow> nat \<Rightarrow> 'w Conduit \<Rightarrow> 'w Conduit \<times> ReadAnswer" where
  "conduit_read rd space c =
     (case rd space (cd_world c) of
        (w, RA_Bytes bs) \<Rightarrow>
          (c\<lparr>cd_world := w, cd_heard := cd_heard c @ take space bs\<rparr>, RA_Bytes (take space bs))
      | (w, answer) \<Rightarrow> (c\<lparr>cd_world := w\<rparr>, answer))"

definition conduit_write :: "'w writer \<Rightarrow> bytes \<Rightarrow> 'w Conduit \<Rightarrow> 'w Conduit \<times> WriteAnswer" where
  "conduit_write wr frame c =
     (case wt_write wr frame (cd_world c) of
        (w, answer) \<Rightarrow>
          (c\<lparr>cd_world := w, cd_wire := cd_wire c @ (case answer of WA_Wrote n \<Rightarrow> take n frame | _ \<Rightarrow> [])\<rparr>, answer))"

definition conduit_flush :: "'w writer \<Rightarrow> 'w Conduit \<Rightarrow> 'w Conduit \<times> FlushAnswer" where
  "conduit_flush wr c = on_world (wt_flush wr) c"

section \<open>Reading\<close>

text \<open>
  \<open>read_line_until\<close>: one byte at a time up to a line feed, which is consumed and counted but not
  kept; the line keeps what was read before an error. The reader fills a buffer of one byte.
\<close>

partial_function (option) read_line_loop ::
  "'w clock \<Rightarrow> 'w reader \<Rightarrow> instant \<Rightarrow> bytes \<Rightarrow> nat \<Rightarrow> 'w Conduit
    \<Rightarrow> (('w Conduit \<times> bytes) \<times> (CodexError + nat)) option" where [code]:
  "read_line_loop k rd until line consumed c =
     (case conduit_read rd 1 c of (c, answer) \<Rightarrow>
      (case answer of
         RA_Bytes bs \<Rightarrow>
           (case bs of
              [] \<Rightarrow> Some ((c, line), Inl (if line = [] then XE_Closed else XE_Malformed))
            | b # _ \<Rightarrow>
                if b = 10 then Some ((c, line), Inr (consumed + 1))
                else if length line = MAX_LINE then Some ((c, line), Inl XE_Bounds)
                else read_line_loop k rd until (line @ [b]) (consumed + 1) c)
       | RA_WouldBlock \<Rightarrow>
           (case conduit_now k c of (c, now) \<Rightarrow>
              if until \<le> now then Some ((c, line), Inl XE_Deadline)
              else read_line_loop k rd until line consumed (conduit_sleep k POLL_INTERVAL c))
       | RA_Failed \<Rightarrow> Some ((c, line), Inl XE_Closed)))"

definition read_line_until ::
  "'w clock \<Rightarrow> 'w reader \<Rightarrow> int \<Rightarrow> 'w Conduit \<Rightarrow> (('w Conduit \<times> bytes) \<times> (CodexError + nat)) option" where
  "read_line_until k rd deadline c =
     (case conduit_now k c of (c, now) \<Rightarrow> read_line_loop k rd (now + deadline) [] 0 c)"

section \<open>Writing\<close>

datatype WriteReceipt = WP_ProvenNotWritten | WP_PossiblyWritten | WP_Written

record WriteFailure =
  wf_error :: CodexError
  wf_receipt :: WriteReceipt

definition write_failure :: "CodexError \<Rightarrow> bool \<Rightarrow> WriteFailure" where
  "write_failure e wrote_bytes =
     \<lparr>wf_error = e, wf_receipt = (if wrote_bytes then WP_PossiblyWritten else WP_ProvenNotWritten)\<rparr>"

definition failed_write_disposition :: "WriteFailure \<Rightarrow> NativeWriteDisposition" where
  "failed_write_disposition failure =
     (if wf_receipt failure = WP_ProvenNotWritten then WD_ProvenNotAccepted else WD_Unknown)"

partial_function (option) flush_loop ::
  "'w clock \<Rightarrow> 'w writer \<Rightarrow> instant \<Rightarrow> 'w Conduit \<Rightarrow> ('w Conduit \<times> (WriteFailure + WriteReceipt)) option"
where [code]:
  "flush_loop k wr until c =
     (case conduit_flush wr c of (c, answer) \<Rightarrow>
      (case answer of
         FA_Done \<Rightarrow> Some (c, Inr WP_Written)
       | FA_WouldBlock \<Rightarrow>
           (case conduit_now k c of (c, now) \<Rightarrow>
              if until \<le> now then Some (c, Inl \<lparr>wf_error = XE_Deadline, wf_receipt = WP_PossiblyWritten\<rparr>)
              else flush_loop k wr until (conduit_sleep k POLL_INTERVAL c))
       | FA_Failed \<Rightarrow> Some (c, Inl \<lparr>wf_error = XE_Ambiguous, wf_receipt = WP_PossiblyWritten\<rparr>)))"

partial_function (option) write_loop ::
  "'w clock \<Rightarrow> 'w writer \<Rightarrow> instant \<Rightarrow> bytes \<Rightarrow> bool \<Rightarrow> 'w Conduit
    \<Rightarrow> ('w Conduit \<times> (WriteFailure + WriteReceipt)) option" where [code]:
  "write_loop k wr until frame wrote_bytes c =
     (if frame = [] then flush_loop k wr until c
      else (case conduit_write wr frame c of (c, answer) \<Rightarrow>
        (case answer of
           WA_Wrote written \<Rightarrow>
             if written = 0 then Some (c, Inl (write_failure XE_Ambiguous wrote_bytes))
             else write_loop k wr until (drop written frame) True c
         | WA_WouldBlock \<Rightarrow>
             (case conduit_now k c of (c, now) \<Rightarrow>
                if until \<le> now then Some (c, Inl (write_failure XE_Deadline wrote_bytes))
                else write_loop k wr until frame wrote_bytes (conduit_sleep k POLL_INTERVAL c))
         | WA_Failed \<Rightarrow> Some (c, Inl (write_failure XE_Closed wrote_bytes)))))"

definition write_all_until ::
  "'w clock \<Rightarrow> 'w writer \<Rightarrow> bytes \<Rightarrow> int \<Rightarrow> 'w Conduit
    \<Rightarrow> ('w Conduit \<times> (WriteFailure + WriteReceipt)) option" where
  "write_all_until k wr frame deadline c =
     (case conduit_now k c of (c, now) \<Rightarrow> write_loop k wr (now + deadline) frame False c)"

section \<open>The frame buffer\<close>

text \<open>
  \<open>serde_json::to_writer\<close> hands the encoding to the buffer in pieces; \<open>encode\<close> appends a line feed.
  The buffer is left as the failed write left it.
\<close>

definition frame_write :: "bytes \<Rightarrow> bytes \<Rightarrow> unit + bytes" where
  "frame_write buffer bs =
     (if length bs > MAX_FRAME - length buffer then Inl () else Inr (buffer @ bs))"

fun frame_pieces :: "bytes \<Rightarrow> bytes list \<Rightarrow> bytes \<times> (unit + unit)" where
  "frame_pieces buffer [] = (buffer, Inr ())"
| "frame_pieces buffer (piece # pieces) =
     (case frame_write buffer piece of
        Inl _ \<Rightarrow> (buffer, Inl ())
      | Inr buffer \<Rightarrow> frame_pieces buffer pieces)"

definition frame_encode :: "bytes list \<Rightarrow> bytes \<times> (CodexError + unit)" where
  "frame_encode pieces =
     (case frame_pieces [] (pieces @ [[10]]) of
        (buffer, Inl _) \<Rightarrow> (buffer, Inl XE_Bounds)
      | (buffer, Inr _) \<Rightarrow> (buffer, Inr ()))"

section \<open>Bounded probes\<close>

text \<open>\<open>parse_version_until\<close> and \<open>drain_bounded\<close>, which read in chunks until the end of the stream.\<close>

partial_function (option) version_loop ::
  "'w clock \<Rightarrow> 'w reader \<Rightarrow> instant \<Rightarrow> bytes \<Rightarrow> 'w Conduit \<Rightarrow> ('w Conduit \<times> (CodexError + unit)) option"
where [code]:
  "version_loop k rd until output c =
     (case conduit_read rd 64 c of (c, answer) \<Rightarrow>
      (case answer of
         RA_Bytes chunk \<Rightarrow>
           if chunk = [] then
             Some (c, ensure (output = string_bytes (CODEX_VERSION @ [CHR 0x0A])) XE_Version)
           else if length chunk > MAX_VERSION - length output then Some (c, Inl XE_Bounds)
           else version_loop k rd until (output @ chunk) c
       | RA_WouldBlock \<Rightarrow>
           (case conduit_now k c of (c, now) \<Rightarrow>
              if until \<le> now then Some (c, Inl XE_Deadline)
              else version_loop k rd until output (conduit_sleep k POLL_INTERVAL c))
       | RA_Failed \<Rightarrow> Some (c, Inl XE_Preflight)))"

definition parse_version_until ::
  "'w clock \<Rightarrow> 'w reader \<Rightarrow> int \<Rightarrow> 'w Conduit \<Rightarrow> ('w Conduit \<times> (CodexError + unit)) option" where
  "parse_version_until k rd deadline c =
     (case conduit_now k c of (c, now) \<Rightarrow> version_loop k rd (now + deadline) [] c)"

partial_function (option) drain_loop ::
  "'w clock \<Rightarrow> 'w reader \<Rightarrow> nat \<Rightarrow> instant \<Rightarrow> nat \<Rightarrow> 'w Conduit \<Rightarrow> ('w Conduit \<times> (CodexError + unit)) option"
where [code]:
  "drain_loop k rd maximum until sum_read c =
     (case conduit_read rd 128 c of (c, answer) \<Rightarrow>
      (case answer of
         RA_Bytes chunk \<Rightarrow>
           if chunk = [] then Some (c, Inr ())
           else if sum_read + length chunk \<le> maximum
           then drain_loop k rd maximum until (sum_read + length chunk) c
           else Some (c, Inl XE_Bounds)
       | RA_WouldBlock \<Rightarrow>
           (case conduit_now k c of (c, now) \<Rightarrow>
              if until \<le> now then Some (c, Inl XE_Deadline)
              else drain_loop k rd maximum until sum_read (conduit_sleep k POLL_INTERVAL c))
       | RA_Failed \<Rightarrow> Some (c, Inl XE_Preflight)))"

definition drain_bounded ::
  "'w clock \<Rightarrow> 'w reader \<Rightarrow> nat \<Rightarrow> 'w Conduit \<Rightarrow> ('w Conduit \<times> (CodexError + unit)) option" where
  "drain_bounded k rd maximum c =
     (case conduit_now k c of (c, now) \<Rightarrow> drain_loop k rd maximum (now + IO_DEADLINE) 0 c)"

section \<open>What the loops do to the pipes\<close>

lemma on_world_keeps [simp]:
  "cd_wire (fst (on_world call c)) = cd_wire c" "cd_heard (fst (on_world call c)) = cd_heard c"
  "cd_children (fst (on_world call c)) = cd_children c"
  by (simp_all add: on_world_def split: prod.split)

lemma on_worldD:
  "on_world call c = (c', x) \<Longrightarrow> cd_wire c' = cd_wire c \<and> cd_heard c' = cd_heard c \<and> cd_children c' = cd_children c"
  using on_world_keeps [of call c] by simp

lemma conduit_now_keeps [simp]:
  "cd_wire (fst (conduit_now k c)) = cd_wire c" "cd_heard (fst (conduit_now k c)) = cd_heard c"
  by (simp_all add: conduit_now_def)

lemma conduit_sleep_keeps [simp]:
  "cd_wire (conduit_sleep k d c) = cd_wire c" "cd_heard (conduit_sleep k d c) = cd_heard c"
  by (simp_all add: conduit_sleep_def)

lemma conduit_nowD:
  "conduit_now k c = (c', now) \<Longrightarrow> cd_wire c' = cd_wire c \<and> cd_heard c' = cd_heard c"
  using conduit_now_keeps [of k c] by simp

lemma conduit_readD:
  "conduit_read rd space c = (c', answer) \<Longrightarrow> cd_wire c' = cd_wire c
    \<and> cd_heard c' = cd_heard c @ (case answer of RA_Bytes bs \<Rightarrow> bs | _ \<Rightarrow> [])
    \<and> (\<forall>bs. answer = RA_Bytes bs \<longrightarrow> length bs \<le> space)"
  by (auto simp: conduit_read_def split: prod.splits ReadAnswer.splits)

lemma conduit_writeD:
  "conduit_write wr frame c = (c', answer) \<Longrightarrow> cd_heard c' = cd_heard c
    \<and> cd_wire c' = cd_wire c @ (case answer of WA_Wrote n \<Rightarrow> take n frame | _ \<Rightarrow> [])"
  by (auto simp: conduit_write_def split: prod.splits)

lemma conduit_flushD:
  "conduit_flush wr c = (c', answer) \<Longrightarrow> cd_wire c' = cd_wire c \<and> cd_heard c' = cd_heard c"
  by (auto simp: conduit_flush_def dest: on_worldD)

text \<open>A line that was read is exactly the bytes heard up to its line feed, and within its bound.\<close>

definition line_heard ::
  "bytes \<Rightarrow> nat \<Rightarrow> 'w Conduit \<Rightarrow> ('w Conduit \<times> bytes) \<times> (CodexError + nat) \<Rightarrow> bool" where
  "line_heard line consumed c p \<longleftrightarrow> (case p of ((c', line'), r) \<Rightarrow>
     cd_wire c' = cd_wire c \<and> (\<exists>bs. line' = line @ bs \<and> 10 \<notin> set bs
     \<and> (length line \<le> MAX_LINE \<longrightarrow> length line' \<le> MAX_LINE)
     \<and> (\<forall>n. r = Inr n \<longrightarrow> cd_heard c' = cd_heard c @ bs @ [10] \<and> n = consumed + length bs + 1)))"

lemma line_heard_wait:
  "line_heard line consumed c1 p \<Longrightarrow> cd_wire c1 = cd_wire c \<Longrightarrow> cd_heard c1 = cd_heard c
    \<Longrightarrow> line_heard line consumed c p"
  by (auto simp: line_heard_def split: prod.splits)

lemma line_heard_byte:
  assumes "line_heard (line @ [b]) (consumed + 1) c1 p" "cd_wire c1 = cd_wire c"
    "cd_heard c1 = cd_heard c @ [b]" "b \<noteq> 10" "length line \<noteq> MAX_LINE"
  shows "line_heard line consumed c p"
proof -
  obtain c' line' r where p: "p = ((c', line'), r)" by (cases p) auto
  with assms(1) obtain bs where bs: "cd_wire c' = cd_wire c1" "line' = (line @ [b]) @ bs" "10 \<notin> set bs"
    "length (line @ [b]) \<le> MAX_LINE \<longrightarrow> length line' \<le> MAX_LINE"
    "\<forall>n. r = Inr n \<longrightarrow> cd_heard c' = cd_heard c1 @ bs @ [10] \<and> n = consumed + 1 + length bs + 1"
    by (auto simp: line_heard_def)
  show ?thesis
    unfolding line_heard_def p prod.case
    using assms(2-5) bs by (intro conjI exI [of _ "b # bs"]) auto
qed

lemma line_heard_error: "cd_wire c' = cd_wire c \<Longrightarrow> line_heard line consumed c ((c', line), Inl e)"
  by (simp add: line_heard_def)

lemma line_heard_end:
  "cd_wire c' = cd_wire c \<Longrightarrow> cd_heard c' = cd_heard c @ [10]
    \<Longrightarrow> line_heard line consumed c ((c', line), Inr (Suc consumed))"
  by (simp add: line_heard_def)

lemma read_line_loop_heard:
  assumes "read_line_loop k rd until line consumed c = Some p"
  shows "line_heard line consumed c p"
proof (rule read_line_loop.raw_induct
    [where P = "\<lambda>k rd until line consumed c p. line_heard line consumed c p", OF _ assms], goal_cases)
  case (1 loop k rd until line consumed c p)
  obtain c1 answer where rd: "conduit_read rd 1 c = (c1, answer)" by (cases "conduit_read rd 1 c")
  note heard = conduit_readD [OF rd]
  show ?case
  proof (cases answer)
    case (RA_Bytes bs)
    with heard have one: "bs = [] \<or> (\<exists>b. bs = [b])" by (cases bs) auto
    show ?thesis
    proof (cases "bs = []")
      case True
      with 1(2) rd heard RA_Bytes show ?thesis by (auto intro: line_heard_error)
    next
      case False
      with one obtain b where b: "bs = [b]" by blast
      show ?thesis
        using 1(2) rd heard RA_Bytes b
        by (auto intro: line_heard_error line_heard_end line_heard_byte [OF 1(1)] split: if_splits)
    qed
  next
    case RA_WouldBlock
    obtain c2 now where now: "conduit_now k c1 = (c2, now)" by (cases "conduit_now k c1")
    show ?thesis
      using 1(2) rd heard RA_WouldBlock now conduit_nowD [OF now]
      by (auto split: if_splits intro: line_heard_error line_heard_wait [OF 1(1)])
  next
    case RA_Failed
    with 1(2) rd heard show ?thesis by (auto intro: line_heard_error)
  qed
qed

lemma read_line_until_heard:
  assumes "read_line_until k rd deadline c = Some p"
  shows "line_heard [] 0 c p"
proof -
  obtain c1 now where now: "conduit_now k c = (c1, now)" by (cases "conduit_now k c")
  with assms show ?thesis
    using read_line_loop_heard [of k rd "now + deadline" "[]" 0 c1 p] conduit_nowD [OF now]
    by (auto simp: read_line_until_def intro: line_heard_wait)
qed

lemma read_line_loop_grows:
  assumes "read_line_loop k rd until line consumed c = Some p"
  shows "\<exists>bs. cd_heard (fst (fst p)) = cd_heard c @ bs"
proof (rule read_line_loop.raw_induct
    [where P = "\<lambda>k rd until line consumed c p. \<exists>bs. cd_heard (fst (fst p)) = cd_heard c @ bs", OF _ assms], goal_cases)
  case (1 loop k rd until line consumed c p)
  obtain c1 answer where rd: "conduit_read rd 1 c = (c1, answer)" by (cases "conduit_read rd 1 c")
  obtain c2 now where now: "conduit_now k c1 = (c2, now)" by (cases "conduit_now k c1")
  show ?case
    using 1(2) rd now conduit_readD [OF rd] conduit_nowD [OF now]
    by (auto dest!: 1(1) split: ReadAnswer.splits list.splits if_splits)
qed

lemma read_line_until_grows:
  assumes "read_line_until k rd deadline c = Some ((c', line), r)"
  shows "\<exists>bs. cd_heard c' = cd_heard c @ bs"
proof -
  obtain c1 now where now: "conduit_now k c = (c1, now)" by (cases "conduit_now k c")
  with assms show ?thesis
    using read_line_loop_grows [of k rd "now + deadline" "[]" 0 c1 "((c', line), r)"] conduit_nowD [OF now]
    by (auto simp: read_line_until_def)
qed

text \<open>
  What a write put on the wire is a prefix of the frame: all of it on success, nothing when the
  receipt says so, and less than all or an unflushed whole otherwise.
\<close>

definition frame_sent ::
  "bytes \<Rightarrow> bool \<Rightarrow> 'w Conduit \<Rightarrow> 'w Conduit \<times> (WriteFailure + WriteReceipt) \<Rightarrow> bool" where
  "frame_sent frame wrote c p \<longleftrightarrow> (case p of (c', r) \<Rightarrow>
     cd_heard c' = cd_heard c \<and> (\<exists>n. cd_wire c' = cd_wire c @ take n frame)
     \<and> (\<forall>receipt. r = Inr receipt \<longrightarrow> receipt = WP_Written \<and> cd_wire c' = cd_wire c @ frame)
     \<and> (\<forall>failure. r = Inl failure \<longrightarrow> wf_receipt failure \<noteq> WP_Written
         \<and> (wf_receipt failure = WP_ProvenNotWritten \<longrightarrow> \<not> wrote \<and> cd_wire c' = cd_wire c)))"

lemma frame_sent_wait:
  "frame_sent frame wrote c1 p \<Longrightarrow> cd_wire c1 = cd_wire c \<Longrightarrow> cd_heard c1 = cd_heard c
    \<Longrightarrow> frame_sent frame wrote c p"
  by (auto simp: frame_sent_def split: prod.splits)

lemma frame_sent_more:
  assumes "frame_sent (drop n frame) True c1 p" "cd_wire c1 = cd_wire c @ take n frame" "cd_heard c1 = cd_heard c"
  shows "frame_sent frame wrote c p"
proof -
  obtain c' r where p: "p = (c', r)" by (cases p)
  with assms obtain m where "cd_wire c' = cd_wire c @ take n frame @ take m (drop n frame)"
    by (auto simp: frame_sent_def)
  then have "cd_wire c' = cd_wire c @ take (n + m) frame" by (simp add: take_add)
  moreover have "cd_wire c1 @ drop n frame = cd_wire c @ frame" using assms(2) by simp
  ultimately show ?thesis using assms p by (auto simp: frame_sent_def)
qed

lemma frame_sent_failed:
  assumes "cd_wire c' = cd_wire c" "cd_heard c' = cd_heard c" "wf_receipt failure \<noteq> WP_Written"
    "wf_receipt failure = WP_ProvenNotWritten \<Longrightarrow> \<not> wrote"
  shows "frame_sent frame wrote c (c', Inl failure)"
  using assms by (auto simp: frame_sent_def intro: exI [of _ 0])

lemma frame_sent_flushed:
  "cd_wire c' = cd_wire c \<Longrightarrow> cd_heard c' = cd_heard c \<Longrightarrow> frame_sent [] wrote c (c', Inr WP_Written)"
  by (simp add: frame_sent_def)

lemma flush_loop_sent:
  assumes "flush_loop k wr until c = Some p"
  shows "frame_sent [] wrote c p"
proof (rule flush_loop.raw_induct
    [where P = "\<lambda>k wr until c p. frame_sent [] wrote c p", OF _ assms], goal_cases)
  case (1 loop k wr until c p)
  obtain c1 answer where fl: "conduit_flush wr c = (c1, answer)" by (cases "conduit_flush wr c")
  obtain c2 now where now: "conduit_now k c1 = (c2, now)" by (cases "conduit_now k c1")
  show ?case
    using 1(2) fl now conduit_flushD [OF fl] conduit_nowD [OF now]
    by (auto split: FlushAnswer.splits if_splits
        intro: frame_sent_failed frame_sent_flushed frame_sent_wait [OF 1(1)])
qed

lemma write_loop_sent:
  assumes "write_loop k wr until frame wrote c = Some p"
  shows "frame_sent frame wrote c p"
proof (rule write_loop.raw_induct
    [where P = "\<lambda>k wr until frame wrote c p. frame_sent frame wrote c p", OF _ assms], goal_cases)
  case (1 loop k wr until frame wrote c p)
  show ?case
  proof (cases "frame = []")
    case True
    with 1(2) show ?thesis by (auto intro: flush_loop_sent)
  next
    case False
    obtain c1 answer where out: "conduit_write wr frame c = (c1, answer)" by (cases "conduit_write wr frame c")
    obtain c2 now where now: "conduit_now k c1 = (c2, now)" by (cases "conduit_now k c1")
    show ?thesis
      using 1(2) False out now conduit_writeD [OF out] conduit_nowD [OF now]
      by (auto simp: write_failure_def split: WriteAnswer.splits if_splits
          intro: frame_sent_failed frame_sent_wait [OF 1(1)] frame_sent_more [OF 1(1)])
  qed
qed

lemma write_all_until_sent:
  assumes "write_all_until k wr frame deadline c = Some p"
  shows "frame_sent frame False c p"
proof -
  obtain c1 now where now: "conduit_now k c = (c1, now)" by (cases "conduit_now k c")
  with assms show ?thesis
    using write_loop_sent [of k wr "now + deadline" frame False c1 p] conduit_nowD [OF now]
    by (auto simp: write_all_until_def intro: frame_sent_wait)
qed

text \<open>The frame buffer takes exactly the encodings that fit with their line feed.\<close>

lemma frame_pieces_eq:
  "length buffer \<le> MAX_FRAME \<Longrightarrow> frame_pieces buffer pieces = (b, r) \<Longrightarrow>
    length b \<le> MAX_FRAME
    \<and> (case r of Inr _ \<Rightarrow> b = buffer @ concat pieces
       | Inl _ \<Rightarrow> length buffer + length (concat pieces) > MAX_FRAME)"
  by (induction buffer pieces arbitrary: b r rule: frame_pieces.induct)
    (force simp: frame_write_def split: if_splits sum.splits)+

lemma frame_encode_iff:
  "frame_encode pieces = (b, Inr ()) \<longleftrightarrow>
     b = concat pieces @ [10] \<and> length (concat pieces) < MAX_FRAME"
proof -
  obtain b' r where eq: "frame_pieces [] (pieces @ [[10]]) = (b', r)"
    by (cases "frame_pieces [] (pieces @ [[10]])")
  from frame_pieces_eq [OF _ eq] show ?thesis
    by (auto simp: frame_encode_def eq split: sum.splits)
qed

lemma frame_encode_bound: "frame_encode pieces = (b, r) \<Longrightarrow> length b \<le> MAX_FRAME"
  using frame_pieces_eq [of "[]" "pieces @ [[10]]"]
  by (auto simp: frame_encode_def split: prod.splits sum.splits)

end
