(* ===== verification/Codex_Messages.thy ===== *)
theory Codex_Messages
  imports Codex_Io Claims
begin

text \<open>
  The messages of the Codex transport, \<open>gearwit-host/src/codex_transport.rs\<close>: the requests it sends
  as JSON values, the classification of an inbound line, the response to each kind of request, and
  the reading of a thread's state. \<open>serde_json\<close>'s parsing and rendering are parameters that give the
  fields of the code's structs; \<open>blake3\<close> is a parameter. A native reference is its string.
\<close>

section \<open>JSON values and the parsed structs\<close>

datatype Json =
  JS_Null | JS_Bool bool | JS_Number string | JS_String string
| JS_Array "Json list" | JS_Object "(string \<times> Json) list"

record BorrowedEnvelope =
  be_id :: "string option"
  be_method :: "string option"
  be_result :: "string option"
  be_error :: "string option"

record BorrowedTurn =
  bn_id :: "string option"
  bn_status :: "string option"

record BorrowedThreadStatus =
  bh_kind :: string
  bh_active_flags :: "string list option"

record BorrowedThread =
  bd_id :: string
  bd_status :: "BorrowedThreadStatus option"
  bd_turns :: "BorrowedTurn list option"

record BorrowedNotification =
  bf_method :: string
  bf_thread_id :: string
  bf_turn :: BorrowedTurn

text \<open>
  A raw value is its text. \<open>cj_pieces\<close> are the writes \<open>to_writer\<close> makes for a value; a derived
  \<open>Serialize\<close> writes an object with the struct's fields in order, \<open>json!\<close> one with sorted keys.
\<close>

record codex_json =
  cj_envelope :: "bytes \<Rightarrow> BorrowedEnvelope option"
  cj_u64 :: "string \<Rightarrow> u64 option"
  cj_value :: "string \<Rightarrow> Json option"
  cj_thread_ref :: "string \<Rightarrow> string option"
  cj_turn_ref :: "string \<Rightarrow> string option"
  cj_thread :: "string \<Rightarrow> BorrowedThread option"
  cj_notification :: "bytes \<Rightarrow> BorrowedNotification option"
  cj_pieces :: "Json \<Rightarrow> bytes list"

section \<open>Native references\<close>

definition native_ref_parse :: "string \<Rightarrow> CodexError + string" where
  "native_ref_parse value =
     (if value \<noteq> [] \<and> length value \<le> MAX_NATIVE_REF then Inr value else Inl XE_Bounds)"

section \<open>Received messages\<close>

datatype CodexTerminalClass = XT_Succeeded | XT_Interrupted | XT_Failed

datatype Notification =
  NT_Signal
| NT_TurnStarted (nt_thread: string) (nt_turn: string)
| NT_Terminal (nt_thread: string) (nt_turn: string) (nt_class: CodexTerminalClass)
| NT_DegradedTerminal (nt_thread: string) (nt_turn: string)

datatype ThreadState = TH_Idle | TH_ActiveTurn bytes | TH_Unproven

datatype Received =
  RX_Initialized
| RX_ThreadStarted string
| RX_ThreadResumed ThreadState
| RX_ThreadRead ThreadState
| RX_TurnStarted string
| RX_Notification Notification
| RX_ServerRequestRejected

datatype Inbound =
  IN_Response u64
| IN_NativeError u64
| IN_Notification Notification
| IN_ServerRequest Json

datatype RequestKind = RK_Initialize | RK_ThreadStart | RK_ThreadResume | RK_ThreadRead | RK_TurnStart

record Pending =
  pd_id :: u64
  pd_kind :: RequestKind
  pd_thread :: "string option"

section \<open>Classifying a line\<close>

text \<open>\<open>value.get().trim_start().starts_with('{')\<close>.\<close>

definition raw_object :: "string \<Rightarrow> bool" where
  "raw_object value =
     (case dropWhile is_whitespace (str_chars value) of [] \<Rightarrow> False | c # _ \<Rightarrow> c = 0x7B)"

definition classify_notification :: "codex_json \<Rightarrow> bytes \<Rightarrow> string \<Rightarrow> CodexError + Notification" where
  "classify_notification j line method =
     (if method \<noteq> ''turn/started'' \<and> method \<noteq> ''turn/completed'' then Inr NT_Signal
      else
        bind_res (ok_or (cj_notification j line) XE_Malformed) (\<lambda>notification.
        bind_res (native_ref_parse (bf_thread_id notification)) (\<lambda>thread.
        bind_res (ok_or (bn_id (bf_turn notification)) XE_Malformed) (\<lambda>turn_id.
        bind_res (native_ref_parse turn_id) (\<lambda>turn.
        if bf_method notification = ''turn/started'' then Inr (NT_TurnStarted thread turn)
        else if bn_status (bf_turn notification) = Some ''completed'' then Inr (NT_Terminal thread turn XT_Succeeded)
        else if bn_status (bf_turn notification) = Some ''interrupted'' then Inr (NT_Terminal thread turn XT_Interrupted)
        else if bn_status (bf_turn notification) = Some ''failed'' then Inr (NT_Terminal thread turn XT_Failed)
        else Inr (NT_DegradedTerminal thread turn))))))"

definition classify :: "codex_json \<Rightarrow> bytes \<Rightarrow> CodexError + Inbound" where
  "classify j line =
     bind_res (ok_or (cj_envelope j line) XE_Malformed) (\<lambda>envelope.
     case be_method envelope of
       Some method \<Rightarrow>
         (case be_id envelope of
            Some raw \<Rightarrow> bind_res (ok_or (cj_value j raw) XE_Malformed) (\<lambda>request_id. Inr (IN_ServerRequest request_id))
          | None \<Rightarrow> bind_res (classify_notification j line method) (\<lambda>n. Inr (IN_Notification n)))
     | None \<Rightarrow>
         bind_res (ok_or (case Option.bind (be_id envelope) (cj_u64 j) of
              Some n \<Rightarrow> if n > 0 then Some n else None | None \<Rightarrow> None) XE_Malformed) (\<lambda>response_id.
         if (case be_result envelope of Some result \<Rightarrow> raw_object result | None \<Rightarrow> False)
         then Inr (IN_Response response_id)
         else (case be_error envelope of
             Some error \<Rightarrow> if raw_object error then Inr (IN_NativeError response_id) else Inl XE_Malformed
           | None \<Rightarrow> Inl XE_Malformed)))"

section \<open>The state of a thread\<close>

definition terminal_status :: "string option \<Rightarrow> bool" where
  "terminal_status status =
     (status = Some ''completed'' \<or> status = Some ''interrupted'' \<or> status = Some ''failed'')"

definition parse_idle_thread :: "BorrowedThread \<Rightarrow> ThreadState" where
  "parse_idle_thread thread =
     (case bd_turns thread of
        None \<Rightarrow> TH_Unproven
      | Some turns \<Rightarrow>
          if length turns > MAX_QUEUE
             \<or> list_ex (\<lambda>turn. (case bn_id turn of None \<Rightarrow> True | Some i \<Rightarrow> \<not> is_ok (native_ref_parse i))
                 \<or> \<not> terminal_status (bn_status turn)) turns
          then TH_Unproven else TH_Idle)"

fun find_active :: "string option \<Rightarrow> BorrowedTurn list \<Rightarrow> string option" where
  "find_active active [] = active"
| "find_active active (turn # turns) =
     (case bn_id turn of
        None \<Rightarrow> None
      | Some i \<Rightarrow>
          if \<not> is_ok (native_ref_parse i) then None
          else if terminal_status (bn_status turn) then find_active active turns
          else if bn_status turn = Some ''inProgress'' \<and> active = None then find_active (Some i) turns
          else None)"

definition parse_active_thread :: "BorrowedThread \<Rightarrow> string list \<Rightarrow> string option" where
  "parse_active_thread thread active_flags =
     (if list_ex (\<lambda>flag. flag \<noteq> ''waitingOnApproval'' \<and> flag \<noteq> ''waitingOnUserInput'') active_flags then None
      else (case bd_turns thread of
          None \<Rightarrow> None
        | Some turns \<Rightarrow> if length turns > MAX_QUEUE then None else find_active None turns))"

text \<open>The bytes the hasher of an exact active observation takes; \<open>hash_field\<close> puts a length first.\<close>

definition hash_field :: "string \<Rightarrow> bytes" where
  "hash_field value = u64_le (of_nat (length value)) @ string_bytes value"

definition active_prehash_input :: "string \<Rightarrow> string \<Rightarrow> string \<Rightarrow> string list \<Rightarrow> BorrowedTurn list \<Rightarrow> string \<Rightarrow> bytes"
where
  "active_prehash_input requested returned kind active_flags turns active_turn =
     string_bytes ''gearwit.codex-exact-active.v1'' @ [0]
     @ hash_field requested @ hash_field returned @ hash_field kind
     @ concat (map hash_field active_flags)
     @ concat (map (\<lambda>turn. hash_field (the (bn_id turn)) @ hash_field (the (bn_status turn))) turns)
     @ hash_field ''exactly-one-active-turn'' @ hash_field active_turn
     @ hash_field CODEX_VERSION @ hash_field CODEX_DIALECT"

definition parse_thread_state ::
  "codex_json \<Rightarrow> (bytes \<Rightarrow> bytes) \<Rightarrow> string \<Rightarrow> string \<Rightarrow> CodexError + ThreadState" where
  "parse_thread_state j blake3 result requested =
     bind_res (ok_or (cj_thread j result) XE_Malformed) (\<lambda>thread.
     bind_res (native_ref_parse (bd_id thread)) (\<lambda>returned.
     bind_res (ensure (returned = requested) XE_Correlation) (\<lambda>_.
     case bd_status thread of
       None \<Rightarrow> Inr TH_Unproven
     | Some status \<Rightarrow>
         if bh_kind status = ''idle'' then Inr (parse_idle_thread thread)
         else if bh_kind status = ''active'' then
           (case bh_active_flags status of
              None \<Rightarrow> Inr TH_Unproven
            | Some active_flags \<Rightarrow>
                (case parse_active_thread thread active_flags of
                   None \<Rightarrow> Inr TH_Unproven
                 | Some active_turn \<Rightarrow>
                     Inr (TH_ActiveTurn (blake3 (active_prehash_input requested returned (bh_kind status)
                       active_flags (case bd_turns thread of None \<Rightarrow> [] | Some turns \<Rightarrow> turns) active_turn)))))
         else Inr TH_Unproven)))"

definition parse_response ::
  "codex_json \<Rightarrow> (bytes \<Rightarrow> bytes) \<Rightarrow> bytes \<Rightarrow> Pending \<Rightarrow> CodexError + Received" where
  "parse_response j blake3 line pending =
     bind_res (ok_or (cj_envelope j line) XE_Malformed) (\<lambda>envelope.
     bind_res (ok_or (be_result envelope) XE_Malformed) (\<lambda>result.
     case pd_kind pending of
       RK_Initialize \<Rightarrow> Inr RX_Initialized
     | RK_ThreadStart \<Rightarrow>
         bind_res (ok_or (cj_thread_ref j result) XE_Malformed) (\<lambda>thread.
         bind_res (native_ref_parse thread) (\<lambda>thread. Inr (RX_ThreadStarted thread)))
     | RK_ThreadResume \<Rightarrow>
         bind_res (ok_or (pd_thread pending) XE_Correlation) (\<lambda>requested.
         bind_res (parse_thread_state j blake3 result requested) (\<lambda>state. Inr (RX_ThreadResumed state)))
     | RK_ThreadRead \<Rightarrow>
         bind_res (ok_or (pd_thread pending) XE_Correlation) (\<lambda>requested.
         bind_res (parse_thread_state j blake3 result requested) (\<lambda>state. Inr (RX_ThreadRead state)))
     | RK_TurnStart \<Rightarrow>
         bind_res (ok_or (cj_turn_ref j result) XE_Malformed) (\<lambda>turn.
         bind_res (native_ref_parse turn) (\<lambda>turn. Inr (RX_TurnStarted turn)))))"

section \<open>Outbound messages\<close>

definition client_request :: "u64 \<Rightarrow> string \<Rightarrow> Json \<Rightarrow> Json" where
  "client_request request_id method params =
     JS_Object [(''id'', JS_Number (decimal (unat request_id))), (''method'', JS_String method), (''params'', params)]"

definition initialize_request :: "string \<Rightarrow> Json" where
  "initialize_request client_version =
     client_request 1 ''initialize''
       (JS_Object [(''clientInfo'', JS_Object [(''name'', JS_String CLIENT_NAME), (''version'', JS_String client_version)])])"

definition initialized_notification :: Json where
  "initialized_notification = JS_Object [(''method'', JS_String ''initialized''), (''params'', JS_Object [])]"

definition rejection :: "Json \<Rightarrow> Json" where
  "rejection request_id =
     JS_Object [(''error'', JS_Object [(''code'', JS_Number ''-32601''),
                  (''message'', JS_String ''server requests unsupported'')]),
                (''id'', request_id)]"

definition attached_params :: "string \<Rightarrow> string option \<Rightarrow> Json" where
  "attached_params helper thread =
     JS_Object ([(''config'', JS_Object [(''mcp_servers'', JS_Object [(''gearwit_claimed_batch'',
         JS_Object [(''args'', JS_Array []), (''command'', JS_String helper)])])])]
       @ (case thread of None \<Rightarrow> [] | Some thread \<Rightarrow> [(''threadId'', JS_String thread)]))"

definition resume_params :: "string \<Rightarrow> string \<Rightarrow> Json" where
  "resume_params thread helper =
     JS_Object [(''threadId'', JS_String thread),
       (''config'', JS_Object [(''mcp_servers'', JS_Object [(''gearwit_claimed_batch'',
          JS_Object [(''command'', JS_String helper), (''args'', JS_Array [])])])])]"

definition read_params :: "string \<Rightarrow> Json" where
  "read_params thread = JS_Object [(''threadId'', JS_String thread), (''includeTurns'', JS_Bool True)]"

definition turn_params :: "string \<Rightarrow> string \<Rightarrow> Json" where
  "turn_params thread managed_input =
     JS_Object [(''threadId'', JS_String thread),
       (''input'', JS_Array [JS_Object [(''type'', JS_String ''text''), (''text'', JS_String managed_input)]])]"

end
