(* ===== verification/Codex_State.thy ===== *)
theory Codex_State
  imports Codex_Messages
begin

text \<open>
  The transport state machine of \<open>gearwit-host/src/codex_transport.rs\<close>: at most one request in
  flight, its response correlated by number and kind, a bounded queue of the notifications that
  come first, and the ambiguity of a request whose fate is unknown. Every operation takes the
  conduit it reads and writes and returns it.
\<close>

section \<open>The environment\<close>

record FileMetadata =
  fm_is_file :: bool
  fm_device :: u64
  fm_inode :: u64
  fm_length :: u64
  fm_modified_seconds :: int
  fm_modified_nanoseconds :: int

record 'w files =
  fs_canonicalize :: "string \<Rightarrow> 'w \<Rightarrow> 'w \<times> string option"
  fs_metadata :: "string \<Rightarrow> 'w \<Rightarrow> 'w \<times> FileMetadata option"

record 'w codex_env =
  ce_clock :: "'w clock"
  ce_reader :: "'w reader"
  ce_writer :: "'w writer"
  ce_files :: "'w files"
  ce_json :: codex_json
  ce_blake3 :: "bytes \<Rightarrow> bytes"
  ce_client_version :: string

section \<open>File identity\<close>

record FileIdentity =
  fi_device :: u64
  fi_inode :: u64
  fi_length :: u64
  fi_modified_seconds :: int
  fi_modified_nanoseconds :: int

definition conduit_metadata :: "'w files \<Rightarrow> string \<Rightarrow> 'w Conduit \<Rightarrow> 'w Conduit \<times> FileMetadata option" where
  "conduit_metadata fs path c = on_world (fs_metadata fs path) c"

definition conduit_canonicalize :: "'w files \<Rightarrow> string \<Rightarrow> 'w Conduit \<Rightarrow> 'w Conduit \<times> string option" where
  "conduit_canonicalize fs path c = on_world (fs_canonicalize fs path) c"

definition file_identity :: "'w files \<Rightarrow> string \<Rightarrow> 'w Conduit \<Rightarrow> 'w Conduit \<times> (CodexError + FileIdentity)" where
  "file_identity fs path c =
     (case conduit_metadata fs path c of
        (c, None) \<Rightarrow> (c, Inl XE_Identity)
      | (c, Some m) \<Rightarrow>
          if fm_is_file m
          then (c, Inr \<lparr>fi_device = fm_device m, fi_inode = fm_inode m, fi_length = fm_length m,
                        fi_modified_seconds = fm_modified_seconds m,
                        fi_modified_nanoseconds = fm_modified_nanoseconds m\<rparr>)
          else (c, Inl XE_Identity))"

text \<open>\<open>Path::is_absolute\<close> on Unix is a leading slash.\<close>

definition resolve_path :: "'w files \<Rightarrow> string \<Rightarrow> 'w Conduit \<Rightarrow> 'w Conduit \<times> (CodexError + string)" where
  "resolve_path fs path c =
     (if (case path of [] \<Rightarrow> True | ch # _ \<Rightarrow> ch \<noteq> CHR ''/'') then (c, Inl XE_Identity)
      else (case conduit_canonicalize fs path c of
          (c, None) \<Rightarrow> (c, Inl XE_Identity)
        | (c, Some path) \<Rightarrow>
            (case conduit_metadata fs path c of
               (c, None) \<Rightarrow> (c, Inl XE_Identity)
             | (c, Some m) \<Rightarrow> if fm_is_file m then (c, Inr path) else (c, Inl XE_Identity))))"

record ThreadToolAttachment =
  ta_helper :: string
  ta_identity :: FileIdentity

definition tool_attachment_at ::
  "'w files \<Rightarrow> string \<Rightarrow> 'w Conduit \<Rightarrow> 'w Conduit \<times> (CodexError + ThreadToolAttachment)" where
  "tool_attachment_at fs helper c =
     (case resolve_path fs helper c of (c, r) \<Rightarrow> try_in c r (\<lambda>helper.
      if length helper > MAX_NATIVE_REF then (c, Inl XE_Identity)
      else (case file_identity fs helper c of (c, r) \<Rightarrow> try_in c r (\<lambda>identity.
        (c, Inr \<lparr>ta_helper = helper, ta_identity = identity\<rparr>)))))"

text \<open>The check both attached requests start with: the helper is still the file it was.\<close>

definition attachment_helper ::
  "'w files \<Rightarrow> ThreadToolAttachment \<Rightarrow> 'w Conduit \<Rightarrow> 'w Conduit \<times> (CodexError + string)" where
  "attachment_helper fs attachment c =
     (case file_identity fs (ta_helper attachment) c of (c, r) \<Rightarrow> try_in c r (\<lambda>identity.
      if identity \<noteq> ta_identity attachment then (c, Inl XE_Identity)
      else if \<not> utf8_valid (ta_helper attachment) then (c, Inl XE_Identity)
      else (c, Inr (ta_helper attachment))))"

section \<open>The state\<close>

record TransportState =
  ts_line :: bytes
  ts_frame :: bytes
  ts_stdout :: nat
  ts_pending :: "Pending list"
  ts_notifications :: "Notification list"
  ts_ambiguous :: bool
  ts_initialized :: bool
  ts_next_id :: u64

definition transport_state_new :: TransportState where
  "transport_state_new = \<lparr>ts_line = [], ts_frame = [], ts_stdout = 0, ts_pending = [],
     ts_notifications = [], ts_ambiguous = False, ts_initialized = False, ts_next_id = 2\<rparr>"

type_synonym ('w, 'e, 'a) transported = "(('w Conduit \<times> TransportState) \<times> ('e + 'a)) option"

section \<open>Sending\<close>

definition transport_write ::
  "'w codex_env \<Rightarrow> Json \<Rightarrow> 'w Conduit \<Rightarrow> TransportState \<Rightarrow> ('w, WriteFailure, WriteReceipt) transported" where
  "transport_write env value c t =
     (case frame_encode (cj_pieces (ce_json env) value) of
        (frame, Inl e) \<Rightarrow>
          Some ((c, t\<lparr>ts_frame := frame\<rparr>), Inl \<lparr>wf_error = e, wf_receipt = WP_ProvenNotWritten\<rparr>)
      | (frame, Inr _) \<Rightarrow>
          (case write_all_until (ce_clock env) (ce_writer env) frame IO_DEADLINE c of
             None \<Rightarrow> None
           | Some (c, r) \<Rightarrow> Some ((c, t\<lparr>ts_frame := []\<rparr>), r)))"

definition transport_send ::
  "'w codex_env \<Rightarrow> Json \<Rightarrow> 'w Conduit \<Rightarrow> TransportState \<Rightarrow> ('w, CodexError, WriteReceipt) transported" where
  "transport_send env value c t =
     (if ts_ambiguous t then Some ((c, t), Inl XE_Ambiguous)
      else (case transport_write env value c t of
          None \<Rightarrow> None
        | Some ((c, t), r) \<Rightarrow>
            (case r of
               Inr receipt \<Rightarrow> Some ((c, t), Inr receipt)
             | Inl failure \<Rightarrow>
                 if wf_receipt failure = WP_PossiblyWritten
                 then Some ((c, t\<lparr>ts_ambiguous := True\<rparr>), Inl XE_Ambiguous)
                 else Some ((c, t), Inl (wf_error failure)))))"

definition push_pending :: "Pending \<Rightarrow> TransportState \<Rightarrow> TransportState" where
  "push_pending pending t = t\<lparr>ts_pending := ts_pending t @ [pending]\<rparr>"

definition transport_initialize ::
  "'w codex_env \<Rightarrow> 'w Conduit \<Rightarrow> TransportState \<Rightarrow> ('w, CodexError, unit) transported" where
  "transport_initialize env c t =
     (if ts_ambiguous t then Some ((c, t), Inl XE_Ambiguous)
      else if ts_initialized t \<or> ts_pending t \<noteq> [] then Some ((c, t), Inl XE_Bounds)
      else and_then (transport_send env (initialize_request (ce_client_version env)) c t) (\<lambda>(c, t) _.
        Some ((c, push_pending \<lparr>pd_id = 1, pd_kind = RK_Initialize, pd_thread = None\<rparr> t), Inr ())))"

text \<open>The guards of a request, which take its number.\<close>

definition take_request_id :: "TransportState \<Rightarrow> TransportState \<times> (CodexError + u64)" where
  "take_request_id t =
     (if ts_ambiguous t then (t, Inl XE_Ambiguous)
      else if \<not> ts_initialized t then (t, Inl XE_Preflight)
      else if ts_pending t \<noteq> [] then (t, Inl XE_Bounds)
      else (case checked_add (ts_next_id t) 1 of
          None \<Rightarrow> (t, Inl XE_Bounds)
        | Some n \<Rightarrow> (t\<lparr>ts_next_id := n\<rparr>, Inr (ts_next_id t))))"

fun request_method :: "RequestKind \<Rightarrow> string option" where
  "request_method RK_Initialize = None"
| "request_method RK_ThreadStart = Some ''thread/start''"
| "request_method RK_ThreadResume = Some ''thread/resume''"
| "request_method RK_ThreadRead = Some ''thread/read''"
| "request_method RK_TurnStart = Some ''turn/start''"

definition send_request ::
  "'w codex_env \<Rightarrow> RequestKind \<Rightarrow> Json \<Rightarrow> string option \<Rightarrow> 'w Conduit \<Rightarrow> TransportState
    \<Rightarrow> ('w, CodexError, unit) transported" where
  "send_request env kind params thread c t =
     (case take_request_id t of
        (t, Inl e) \<Rightarrow> Some ((c, t), Inl e)
      | (t, Inr request_id) \<Rightarrow>
          (case request_method kind of
             None \<Rightarrow> Some ((c, t), Inl XE_Unsupported)
           | Some method \<Rightarrow>
               and_then (transport_send env (client_request request_id method params) c t) (\<lambda>(c, t) _.
               Some ((c, push_pending \<lparr>pd_id = request_id, pd_kind = kind, pd_thread = thread\<rparr> t), Inr ()))))"

definition start_thread :: "'w codex_env \<Rightarrow> 'w Conduit \<Rightarrow> TransportState \<Rightarrow> ('w, CodexError, unit) transported" where
  "start_thread env = send_request env RK_ThreadStart (JS_Object []) None"

definition start_attached_thread ::
  "'w codex_env \<Rightarrow> ThreadToolAttachment \<Rightarrow> 'w Conduit \<Rightarrow> TransportState \<Rightarrow> ('w, CodexError, unit) transported" where
  "start_attached_thread env attachment c t =
     (case attachment_helper (ce_files env) attachment c of
        (c, Inl e) \<Rightarrow> Some ((c, t), Inl e)
      | (c, Inr helper) \<Rightarrow> send_request env RK_ThreadStart (attached_params helper None) None c t)"

definition resume_thread ::
  "'w codex_env \<Rightarrow> string \<Rightarrow> ThreadToolAttachment \<Rightarrow> 'w Conduit \<Rightarrow> TransportState
    \<Rightarrow> ('w, CodexError, unit) transported" where
  "resume_thread env thread attachment c t =
     (case attachment_helper (ce_files env) attachment c of
        (c, Inl e) \<Rightarrow> Some ((c, t), Inl e)
      | (c, Inr helper) \<Rightarrow> send_request env RK_ThreadResume (resume_params thread helper) (Some thread) c t)"

definition read_thread ::
  "'w codex_env \<Rightarrow> string \<Rightarrow> 'w Conduit \<Rightarrow> TransportState \<Rightarrow> ('w, CodexError, unit) transported" where
  "read_thread env thread = send_request env RK_ThreadRead (read_params thread) (Some thread)"

definition start_turn ::
  "'w codex_env \<Rightarrow> string \<Rightarrow> string \<Rightarrow> 'w Conduit \<Rightarrow> TransportState \<Rightarrow> ('w, CodexError, unit) transported" where
  "start_turn env thread managed_input = send_request env RK_TurnStart (turn_params thread managed_input) None"

section \<open>A prepared turn\<close>

text \<open>\<open>PreparedTurn\<close> is its number; the frame waits in the state until it is dispatched or discarded.\<close>

definition turn_request :: "u64 \<Rightarrow> string \<Rightarrow> string \<Rightarrow> Json" where
  "turn_request request_id thread managed_input =
     client_request request_id ''turn/start'' (turn_params thread managed_input)"

definition prepare_turn ::
  "codex_json \<Rightarrow> string \<Rightarrow> string \<Rightarrow> TransportState \<Rightarrow> TransportState \<times> (CodexError + u64)" where
  "prepare_turn j thread managed_input t =
     (case take_request_id t of
        (t, Inl e) \<Rightarrow> (t, Inl e)
      | (t, Inr request_id) \<Rightarrow>
          (case frame_encode (cj_pieces j (turn_request request_id thread managed_input)) of
             (frame, Inl e) \<Rightarrow> (t\<lparr>ts_frame := []\<rparr>, Inl e)
           | (frame, Inr _) \<Rightarrow> (t\<lparr>ts_frame := frame\<rparr>, Inr request_id)))"

definition discard_prepared_turn :: "TransportState \<Rightarrow> TransportState" where
  "discard_prepared_turn t = t\<lparr>ts_frame := []\<rparr>"

definition dispatch_prepared_turn ::
  "'w codex_env \<Rightarrow> u64 \<Rightarrow> 'w Conduit \<Rightarrow> TransportState \<Rightarrow> ('w, WriteFailure, WriteReceipt) transported" where
  "dispatch_prepared_turn env request_id c t =
     (case write_all_until (ce_clock env) (ce_writer env) (ts_frame t) IO_DEADLINE c of
        None \<Rightarrow> None
      | Some (c, r) \<Rightarrow>
          let t = t\<lparr>ts_frame := []\<rparr>;
              in_flight = (case r of
                  Inr receipt \<Rightarrow> receipt = WP_Written
                | Inl failure \<Rightarrow> wf_receipt failure = WP_PossiblyWritten)
          in Some ((c, if in_flight
               then push_pending \<lparr>pd_id = request_id, pd_kind = RK_TurnStart, pd_thread = None\<rparr>
                      (t\<lparr>ts_ambiguous := \<not> is_ok r\<rparr>)
               else t), r))"

section \<open>Receiving\<close>

definition suspect :: "TransportState \<Rightarrow> TransportState" where
  "suspect t = t\<lparr>ts_ambiguous := ts_ambiguous t \<or> ts_pending t \<noteq> []\<rparr>"

definition handle_response ::
  "'w codex_env \<Rightarrow> u64 \<Rightarrow> 'w Conduit \<Rightarrow> TransportState \<Rightarrow> ('w, CodexError, Received option) transported" where
  "handle_response env response_id c t =
     (case ts_pending t of
        [] \<Rightarrow> Some ((c, t), Inl XE_Correlation)
      | pending # rest \<Rightarrow>
          if pd_id pending \<noteq> response_id then Some ((c, suspect t), Inl XE_Correlation)
          else (case parse_response (ce_json env) (ce_blake3 env) (ts_line t) pending of
              Inl e \<Rightarrow> Some ((c, t\<lparr>ts_ambiguous := True\<rparr>), Inl e)
            | Inr received \<Rightarrow>
                (let t = t\<lparr>ts_ambiguous := False\<rparr>;
                     done' = (\<lambda>t. t\<lparr>ts_pending := tl (ts_pending t)\<rparr>)
                 in if received = RX_Initialized
                    then and_then (transport_send env initialized_notification c t) (\<lambda>(c, t) _.
                      Some ((c, done' (t\<lparr>ts_initialized := True\<rparr>)), Inr (Some received)))
                    else Some ((c, done' t), Inr (Some received)))))"

definition handle_inbound ::
  "'w codex_env \<Rightarrow> Inbound \<Rightarrow> 'w Conduit \<Rightarrow> TransportState \<Rightarrow> ('w, CodexError, Received option) transported" where
  "handle_inbound env inbound c t =
     (case inbound of
        IN_Response response_id \<Rightarrow> handle_response env response_id c t
      | IN_NativeError error_id \<Rightarrow>
          (case ts_pending t of
             [] \<Rightarrow> Some ((c, suspect t), Inl XE_Correlation)
           | pending # rest \<Rightarrow>
               if pd_id pending = error_id
               then Some ((c, t\<lparr>ts_ambiguous := False, ts_pending := rest\<rparr>), Inl XE_Native)
               else Some ((c, suspect t), Inl XE_Correlation))
      | IN_Notification notification \<Rightarrow>
          if \<not> ts_initialized t then Some ((c, suspect t), Inl XE_Correlation)
          else if ts_pending t = [] then Some ((c, t), Inr (Some (RX_Notification notification)))
          else if length (ts_notifications t) = MAX_QUEUE then Some ((c, t), Inl XE_Degraded)
          else Some ((c, t\<lparr>ts_notifications := ts_notifications t @ [notification]\<rparr>), Inr None)
      | IN_ServerRequest request_id \<Rightarrow>
          and_then (transport_send env (rejection request_id) c t) (\<lambda>(c, t) _.
          Some ((c, t), Inr (if ts_pending t = [] then Some RX_ServerRequestRejected else None))))"

text \<open>One turn of the loop of \<open>next_until\<close>: a line within the deadline, counted, classified, handled.\<close>

definition wiped_line :: "TransportState \<Rightarrow> TransportState" where
  "wiped_line t = t\<lparr>ts_line := []\<rparr>"

definition receive_line ::
  "'w codex_env \<Rightarrow> instant \<Rightarrow> 'w Conduit \<Rightarrow> TransportState \<Rightarrow> ('w, CodexError, unit) transported" where
  "receive_line env until c t =
     (case conduit_now (ce_clock env) c of (c, now) \<Rightarrow>
      (case read_line_until (ce_clock env) (ce_reader env) (max 0 (until - now)) c of
         None \<Rightarrow> None
       | Some ((c, line), r) \<Rightarrow>
           (let t = t\<lparr>ts_line := line\<rparr> in
            case r of
              Inl e \<Rightarrow>
                if ts_pending t \<noteq> [] then Some ((c, t\<lparr>ts_ambiguous := True\<rparr>), Inl XE_Ambiguous)
                else Some ((c, t), Inl e)
            | Inr consumed \<Rightarrow>
                if ts_stdout t + consumed \<le> MAX_STDOUT
                then Some ((c, t\<lparr>ts_stdout := ts_stdout t + consumed\<rparr>), Inr ())
                else Some ((c, t), Inl XE_Bounds))))"

definition receive_step ::
  "'w codex_env \<Rightarrow> instant \<Rightarrow> 'w Conduit \<Rightarrow> TransportState \<Rightarrow> ('w, CodexError, Received option) transported" where
  "receive_step env until c t =
     and_then (receive_line env until c t) (\<lambda>(c, t) _.
     case classify (ce_json env) (ts_line t) of
       Inl e \<Rightarrow> Some ((c, wiped_line (suspect t)), Inl e)
     | Inr inbound \<Rightarrow>
         (case handle_inbound env inbound c t of
            None \<Rightarrow> None
          | Some ((c, t), outcome) \<Rightarrow> Some ((c, wiped_line t), outcome)))"

partial_function (option) next_loop ::
  "'w codex_env \<Rightarrow> instant \<Rightarrow> 'w Conduit \<Rightarrow> TransportState
    \<Rightarrow> (('w Conduit \<times> TransportState) \<times> (CodexError + Received)) option" where [code]:
  "next_loop env until c t =
     and_then (receive_step env until c t) (\<lambda>s outcome. case s of (c, t) \<Rightarrow> (case outcome of
       Some received \<Rightarrow> Some ((c, t), Inr received)
     | None \<Rightarrow> next_loop env until c t))"

definition next_until ::
  "'w codex_env \<Rightarrow> int \<Rightarrow> 'w Conduit \<Rightarrow> TransportState \<Rightarrow> ('w, CodexError, Received) transported" where
  "next_until env deadline c t =
     (if ts_pending t = [] \<and> ts_notifications t \<noteq> []
      then Some ((c, t\<lparr>ts_notifications := tl (ts_notifications t)\<rparr>), Inr (RX_Notification (hd (ts_notifications t))))
      else (case conduit_now (ce_clock env) c of (c, now) \<Rightarrow> next_loop env (now + deadline) c t))"

end
