(* ===== verification/Codex_Process.thy ===== *)
theory Codex_Process
  imports Codex_State
begin

text \<open>
  The processes behind the Codex transport, \<open>gearwit-host/src/codex_transport.rs\<close>: the anchor that
  holds the process group, the version preflight, the app server, its bounded standard error, and
  the cleanup that terminates the group and reaps both children. The process calls (spawning,
  waiting, signalling, looking at a process) are parameters; the children this program has and
  has not reaped are a field of the conduit.
\<close>

section \<open>Calls on processes\<close>

record SpawnCommand =
  sp_program :: string
  sp_args :: "string list"
  sp_group :: nat
  sp_env_cleared :: bool
  sp_stdin_piped :: bool
  sp_stdout_piped :: bool
  sp_stderr_piped :: bool

record SpawnedChild =
  sc_pid :: nat
  sc_stdin :: bool
  sc_stdout :: bool
  sc_stderr :: bool

text \<open>
  \<open>pr_try_wait\<close>: \<open>None\<close> for an error, \<open>Some None\<close> while the child runs, \<open>Some (Some ok)\<close> once it has
  been reaped, with \<open>ExitStatus::success\<close>. \<open>pr_start_time\<close> is the start time of a process that can be
  looked at. \<open>pr_stderr_bad\<close> samples the two flags the draining thread sets. A join that never
  returns is \<open>None\<close>.
\<close>

record 'w processes =
  pr_spawn :: "SpawnCommand \<Rightarrow> 'w \<Rightarrow> 'w \<times> SpawnedChild option"
  pr_try_wait :: "nat \<Rightarrow> 'w \<Rightarrow> 'w \<times> bool option option"
  pr_start_time :: "nat \<Rightarrow> 'w \<Rightarrow> 'w \<times> u64 option"
  pr_getpgid :: "nat \<Rightarrow> 'w \<Rightarrow> 'w \<times> nat option"
  pr_getsid :: "nat \<Rightarrow> 'w \<Rightarrow> 'w \<times> nat option"
  pr_is_fully_gone :: "nat \<Rightarrow> 'w \<Rightarrow> 'w \<times> bool option"
  pr_terminate_group :: "nat \<Rightarrow> 'w \<Rightarrow> 'w \<times> bool"
  pr_force_kill_group :: "nat \<Rightarrow> 'w \<Rightarrow> 'w \<times> bool"
  pr_close_stdin :: "nat \<Rightarrow> 'w \<Rightarrow> 'w"
  pr_set_nonblocking :: "nat \<Rightarrow> nat \<Rightarrow> 'w \<Rightarrow> 'w \<times> bool"
  pr_stdout_reader :: "nat \<Rightarrow> 'w reader"
  pr_stderr_reader :: "nat \<Rightarrow> 'w reader"
  pr_stderr_bad :: "'w \<Rightarrow> 'w \<times> (bool \<times> bool)"
  pr_join_stderr :: "'w \<Rightarrow> 'w option"
  pr_utc_now :: "'w \<Rightarrow> 'w \<times> instant"

type_synonym ('w, 'a) run = "('w Conduit \<times> (CodexError + 'a)) option"

definition spawn_child :: "'w processes \<Rightarrow> SpawnCommand \<Rightarrow> 'w Conduit \<Rightarrow> 'w Conduit \<times> SpawnedChild option" where
  "spawn_child os command c =
     (case on_world (pr_spawn os command) c of
        (c, None) \<Rightarrow> (c, None)
      | (c, Some child) \<Rightarrow> (c\<lparr>cd_children := sc_pid child # cd_children c\<rparr>, Some child))"

definition try_wait :: "'w processes \<Rightarrow> nat \<Rightarrow> 'w Conduit \<Rightarrow> 'w Conduit \<times> bool option option" where
  "try_wait os pid c =
     (case on_world (pr_try_wait os pid) c of
        (c, Some (Some success)) \<Rightarrow> (c\<lparr>cd_children := remove1 pid (cd_children c)\<rparr>, Some (Some success))
      | (c, r) \<Rightarrow> (c, r))"

definition close_stdin :: "'w processes \<Rightarrow> nat \<Rightarrow> 'w Conduit \<Rightarrow> 'w Conduit" where
  "close_stdin os pid c = c\<lparr>cd_world := pr_close_stdin os pid (cd_world c)\<rparr>"

section \<open>Polling a process\<close>

text \<open>
  The loop the waiting functions share: try, give up at the deadline, sleep. \<open>None\<close> as the answer
  of an attempt means to try again.
\<close>

partial_function (option) poll_until ::
  "'w clock \<Rightarrow> ('w Conduit \<Rightarrow> 'w Conduit \<times> (CodexError + 'a) option) \<Rightarrow> CodexError \<Rightarrow> instant \<Rightarrow> 'w Conduit
    \<Rightarrow> ('w, 'a) run" where [code]:
  "poll_until k attempt timeout until c =
     (case attempt c of (c, answer) \<Rightarrow>
      (case answer of
         Some r \<Rightarrow> Some (c, r)
       | None \<Rightarrow>
           (case conduit_now k c of (c, now) \<Rightarrow>
              if until \<le> now then Some (c, Inl timeout)
              else poll_until k attempt timeout until (conduit_sleep k POLL_INTERVAL c))))"

definition poll_for ::
  "'w clock \<Rightarrow> ('w Conduit \<Rightarrow> 'w Conduit \<times> (CodexError + 'a) option) \<Rightarrow> CodexError \<Rightarrow> 'w Conduit \<Rightarrow> ('w, 'a) run"
where
  "poll_for k attempt timeout c =
     (case conduit_now k c of (c, now) \<Rightarrow> poll_until k attempt timeout (now + CLEANUP_DEADLINE) c)"

definition prove_group_member :: "'w processes \<Rightarrow> nat \<Rightarrow> nat \<Rightarrow> 'w Conduit \<Rightarrow> 'w Conduit \<times> (CodexError + unit)" where
  "prove_group_member os pid process_group c =
     (case on_world (pr_getpgid os pid) c of
        (c, None) \<Rightarrow> (c, Inl XE_Group)
      | (c, Some observed) \<Rightarrow>
          (case on_world (pr_getsid os pid) c of
             (c, None) \<Rightarrow> (c, Inl XE_Group)
           | (c, Some session) \<Rightarrow> (c, ensure (observed = process_group \<and> session > 0) XE_Group)))"

definition process_birth_token :: "'w clock \<Rightarrow> 'w processes \<Rightarrow> nat \<Rightarrow> 'w Conduit \<Rightarrow> ('w, u64) run" where
  "process_birth_token k os pid =
     poll_for k (\<lambda>c. case on_world (pr_start_time os pid) c of (c, token) \<Rightarrow> (c, map_option Inr token)) XE_Group"

record Anchor =
  an_child :: nat
  an_input :: bool
  an_group :: nat
  an_birth_token :: u64

definition reprove_anchor :: "'w clock \<Rightarrow> 'w processes \<Rightarrow> Anchor \<Rightarrow> 'w Conduit \<Rightarrow> ('w, unit) run" where
  "reprove_anchor k os anchor =
     poll_for k (\<lambda>c. case on_world (pr_start_time os (an_group anchor)) c of (c, token) \<Rightarrow>
       if token = Some (an_birth_token anchor)
       then (case prove_group_member os (an_group anchor) (an_group anchor) c of
           (c, r) \<Rightarrow> (c, if is_ok r then Some (Inr ()) else None))
       else (c, None)) XE_Group"

definition wait_for_reap :: "'w clock \<Rightarrow> 'w processes \<Rightarrow> nat \<Rightarrow> 'w Conduit \<Rightarrow> ('w, bool) run" where
  "wait_for_reap k os pid =
     poll_for k (\<lambda>c. case try_wait os pid c of
         (c, None) \<Rightarrow> (c, Some (Inl XE_Cleanup))
       | (c, Some status) \<Rightarrow> (c, map_option Inr status)) XE_Cleanup"

definition verify_reaped :: "'w clock \<Rightarrow> 'w processes \<Rightarrow> nat \<Rightarrow> nat \<Rightarrow> 'w Conduit \<Rightarrow> ('w, unit) run" where
  "verify_reaped k os pid child c =
     and_then (wait_for_reap k os child c) (\<lambda>c _.
     poll_for k (\<lambda>c. case on_world (pr_is_fully_gone os pid) c of
         (c, None) \<Rightarrow> (c, Some (Inl XE_Cleanup))
       | (c, Some gone) \<Rightarrow> (c, if gone then Some (Inr ()) else None)) XE_Cleanup c)"

text \<open>\<open>anchor.input.take()\<close> closes the anchor's standard input if it is still open.\<close>

definition drop_anchor_input :: "'w processes \<Rightarrow> Anchor \<Rightarrow> 'w Conduit \<Rightarrow> 'w Conduit" where
  "drop_anchor_input os anchor c = (if an_input anchor then close_stdin os (an_child anchor) c else c)"

definition close_and_reap_anchor :: "'w clock \<Rightarrow> 'w processes \<Rightarrow> Anchor \<Rightarrow> 'w Conduit \<Rightarrow> ('w, unit) run" where
  "close_and_reap_anchor k os anchor c =
     verify_reaped k os (an_group anchor) (an_child anchor) (drop_anchor_input os anchor c)"

section \<open>The anchor\<close>

definition ANCHOR_SCRIPT :: string where
  "ANCHOR_SCRIPT = ''trap '' @ [CHR 0x27, CHR 0x27] @ '' TERM; while IFS= read -r _; do :; done''"

definition anchor_command :: "string \<Rightarrow> SpawnCommand" where
  "anchor_command executable =
     \<lparr>sp_program = executable, sp_args = [''-c'', ANCHOR_SCRIPT], sp_group = 0, sp_env_cleared = True,
      sp_stdin_piped = True, sp_stdout_piped = False, sp_stderr_piped = False\<rparr>"

text \<open>After the spawn: the birth token, the grace interval, the group; a failed proof drops the child.\<close>

definition prove_anchor :: "'w clock \<Rightarrow> 'w processes \<Rightarrow> SpawnedChild \<Rightarrow> 'w Conduit \<Rightarrow> ('w, Anchor) run" where
  "prove_anchor k os child c =
     (case process_birth_token k os (sc_pid child) c of
        None \<Rightarrow> None
      | Some (c, birth_token) \<Rightarrow>
          (let c = conduit_sleep k GRACE_INTERVAL c;
               (c, proved) = (case birth_token of
                   Inl _ \<Rightarrow> (c, None)
                 | Inr token \<Rightarrow>
                     (case prove_group_member os (sc_pid child) (sc_pid child) c of
                        (c, r) \<Rightarrow> (c, if is_ok r then Some token else None)))
           in case proved of
                Some token \<Rightarrow>
                  Some (c, Inr \<lparr>an_child = sc_pid child, an_input = sc_stdin child, an_group = sc_pid child,
                                an_birth_token = token\<rparr>)
              | None \<Rightarrow>
                  (let c = (if sc_stdin child then close_stdin os (sc_pid child) c else c) in
                   case verify_reaped k os (sc_pid child) (sc_pid child) c of
                     None \<Rightarrow> None
                   | Some (c, _) \<Rightarrow> Some (c, Inl XE_Group))))"

definition spawn_anchor :: "'w clock \<Rightarrow> 'w files \<Rightarrow> 'w processes \<Rightarrow> 'w Conduit \<Rightarrow> ('w, Anchor) run" where
  "spawn_anchor k fs os c =
     (case resolve_path fs ''/bin/sh'' c of (c, r) \<Rightarrow> and_then (Some (c, r)) (\<lambda>c executable.
      case file_identity fs executable c of (c, r) \<Rightarrow> and_then (Some (c, r)) (\<lambda>c identity.
      case file_identity fs executable c of (c, r) \<Rightarrow> and_then (Some (c, r)) (\<lambda>c again.
      if again \<noteq> identity then Some (c, Inl XE_Identity)
      else (case spawn_child os (anchor_command executable) c of
          (c, None) \<Rightarrow> Some (c, Inl XE_Preflight)
        | (c, Some child) \<Rightarrow> prove_anchor k os child c)))))"

text \<open>
  A child spawned in the anchor's group, or the anchor reaped. \<open>i32::try_from(anchor.group)\<close> fails
  for a number no process has; both callers then reap the anchor.
\<close>

definition spawn_app_server ::
  "'w clock \<Rightarrow> 'w processes \<Rightarrow> Anchor \<Rightarrow> SpawnCommand \<Rightarrow> 'w Conduit \<Rightarrow> ('w, SpawnedChild) run" where
  "spawn_app_server k os anchor command c =
     (case spawn_child os command c of
        (c, Some child) \<Rightarrow> Some (c, Inr child)
      | (c, None) \<Rightarrow> and_then (close_and_reap_anchor k os anchor c) (\<lambda>c _. Some (c, Inl XE_Preflight)))"

text \<open>
  Terminate, wait, kill: the group is signalled only while the anchor is proved to hold it.
\<close>

definition reap_group ::
  "'w clock \<Rightarrow> 'w processes \<Rightarrow> Anchor \<Rightarrow> nat \<Rightarrow> bool \<Rightarrow> 'w Conduit \<Rightarrow> ('w, unit) run" where
  "reap_group k os anchor child signalled c =
     (case verify_reaped k os child child c of
        None \<Rightarrow> None
      | Some (c, child_result) \<Rightarrow>
          (case verify_reaped k os (an_group anchor) (an_child anchor) c of
             None \<Rightarrow> None
           | Some (c, anchor_result) \<Rightarrow>
               Some (c, ensure (signalled \<and> is_ok child_result \<and> is_ok anchor_result) XE_Cleanup)))"

definition terminate_anchored ::
  "'w clock \<Rightarrow> 'w processes \<Rightarrow> Anchor \<Rightarrow> nat \<Rightarrow> 'w Conduit
    \<Rightarrow> (('w Conduit \<times> Anchor) \<times> (CodexError + unit)) option" where
  "terminate_anchored k os anchor child c =
     (case reprove_anchor k os anchor c of
        None \<Rightarrow> None
      | Some (c, Inl _) \<Rightarrow> Some ((c, anchor), Inl XE_Cleanup)
      | Some (c, Inr _) \<Rightarrow>
          (case on_world (pr_terminate_group os (an_group anchor)) c of (c, terminated) \<Rightarrow>
           (case reprove_anchor k os anchor (conduit_sleep k GRACE_INTERVAL c) of
              None \<Rightarrow> None
            | Some (c, Inl _) \<Rightarrow> Some ((c, anchor), Inl XE_Cleanup)
            | Some (c, Inr _) \<Rightarrow>
                (case on_world (pr_force_kill_group os (an_group anchor)) c of (c, killed) \<Rightarrow>
                 (case reap_group k os anchor child (terminated \<and> killed) (drop_anchor_input os anchor c) of
                    None \<Rightarrow> None
                  | Some (c, r) \<Rightarrow> Some ((c, anchor\<lparr>an_input := False\<rparr>), r))))))"

text \<open>The same for an anchor that goes out of scope with the call.\<close>

definition terminate_group_and_reap ::
  "'w clock \<Rightarrow> 'w processes \<Rightarrow> Anchor \<Rightarrow> nat \<Rightarrow> 'w Conduit \<Rightarrow> ('w, unit) run" where
  "terminate_group_and_reap k os anchor child c =
     map_option (\<lambda>((c, _), r). (c, r)) (terminate_anchored k os anchor child c)"

definition join_group :: "'w processes \<Rightarrow> nat \<Rightarrow> Anchor \<Rightarrow> 'w Conduit \<Rightarrow> 'w Conduit \<times> (CodexError + unit)" where
  "join_group os child anchor c = prove_group_member os child (an_group anchor) c"

section \<open>Preflight\<close>

definition reject_probe ::
  "'w clock \<Rightarrow> 'w processes \<Rightarrow> Anchor \<Rightarrow> nat \<Rightarrow> CodexError \<Rightarrow> 'w Conduit \<Rightarrow> ('w, 'a) run" where
  "reject_probe k os anchor child error c =
     (case terminate_group_and_reap k os anchor child c of
        None \<Rightarrow> None
      | Some (c, Inl _) \<Rightarrow> Some (c, Inl XE_Cleanup)
      | Some (c, Inr _) \<Rightarrow> Some (c, Inl error))"

definition close_with :: "'w clock \<Rightarrow> 'w processes \<Rightarrow> Anchor \<Rightarrow> CodexError \<Rightarrow> 'w Conduit \<Rightarrow> ('w, 'a) run" where
  "close_with k os anchor error c = and_then (close_and_reap_anchor k os anchor c) (\<lambda>c _. Some (c, Inl error))"

definition terminate_with ::
  "'w clock \<Rightarrow> 'w processes \<Rightarrow> Anchor \<Rightarrow> nat \<Rightarrow> CodexError \<Rightarrow> 'w Conduit \<Rightarrow> ('w, 'a) run" where
  "terminate_with k os anchor child error c =
     and_then (terminate_group_and_reap k os anchor child c) (\<lambda>c _. Some (c, Inl error))"

text \<open>What \<open>preflight\<close> and \<open>start\<close> share: the child in the anchor's group, from the same executable.\<close>

definition spawn_in_group ::
  "'w codex_env \<Rightarrow> 'w processes \<Rightarrow> FileIdentity \<Rightarrow> Anchor \<Rightarrow> SpawnCommand \<Rightarrow> 'w Conduit \<Rightarrow> ('w, SpawnedChild) run"
where
  "spawn_in_group env os qualified anchor command c =
     (if an_group anchor \<ge> 2 ^ 31 then close_with (ce_clock env) os anchor XE_Group c
      else (case file_identity (ce_files env) (sp_program command) c of
          (c, identity) \<Rightarrow>
            if identity \<noteq> Inr qualified then close_with (ce_clock env) os anchor XE_Identity c
            else
              and_then (spawn_app_server (ce_clock env) os anchor (command\<lparr>sp_group := an_group anchor\<rparr>) c) (\<lambda>c child.
              case join_group os (sc_pid child) anchor c of
                (c, Inl _) \<Rightarrow> terminate_with (ce_clock env) os anchor (sc_pid child) XE_Group c
              | (c, Inr _) \<Rightarrow> Some (c, Inr child))))"

definition piped_command :: "string \<Rightarrow> string list \<Rightarrow> bool \<Rightarrow> SpawnCommand" where
  "piped_command executable args stdin =
     \<lparr>sp_program = executable, sp_args = args, sp_group = 0, sp_env_cleared = False,
      sp_stdin_piped = stdin, sp_stdout_piped = True, sp_stderr_piped = True\<rparr>"

text \<open>\<open>set_nonblocking\<close> of two handles, the second only after the first; descriptors 0, 1 and 2.\<close>

definition set_nonblocking_both :: "'w processes \<Rightarrow> nat \<Rightarrow> nat \<Rightarrow> nat \<Rightarrow> 'w Conduit \<Rightarrow> 'w Conduit \<times> (CodexError + unit)"
where
  "set_nonblocking_both os pid h1 h2 c =
     (case on_world (pr_set_nonblocking os pid h1) c of
        (c, False) \<Rightarrow> (c, Inl XE_Preflight)
      | (c, True) \<Rightarrow>
          (case on_world (pr_set_nonblocking os pid h2) c of (c, ok) \<Rightarrow> (c, ensure ok XE_Preflight)))"

definition probe_version :: "'w codex_env \<Rightarrow> 'w processes \<Rightarrow> nat \<Rightarrow> 'w Conduit \<Rightarrow> ('w, unit) run" where
  "probe_version env os pid c =
     and_then (parse_version_until (ce_clock env) (pr_stdout_reader os pid) IO_DEADLINE c) (\<lambda>c _.
     drain_bounded (ce_clock env) (pr_stderr_reader os pid) MAX_VERSION c)"

definition preflight_probe ::
  "'w codex_env \<Rightarrow> 'w processes \<Rightarrow> FileIdentity \<Rightarrow> string \<Rightarrow> Anchor \<Rightarrow> SpawnedChild \<Rightarrow> 'w Conduit \<Rightarrow> ('w, FileIdentity) run"
where
  "preflight_probe env os qualified executable anchor child c =
     (let k = ce_clock env; pid = sc_pid child; reject = reject_probe k os anchor pid in
      if \<not> sc_stdout child \<or> \<not> sc_stderr child then reject XE_Preflight c
      else (case set_nonblocking_both os pid 1 2 c of
          (c, Inl error) \<Rightarrow> reject error c
        | (c, Inr _) \<Rightarrow>
            (case probe_version env os pid c of
               None \<Rightarrow> None
             | Some (c, Inl error) \<Rightarrow> reject error c
             | Some (c, Inr _) \<Rightarrow>
                 (case wait_for_reap k os pid c of
                    None \<Rightarrow> None
                  | Some (c, Inl _) \<Rightarrow> reject XE_Preflight c
                  | Some (c, Inr success) \<Rightarrow>
                      if \<not> success then close_with k os anchor XE_Preflight c
                      else (case file_identity (ce_files env) executable c of
                          (c, identity) \<Rightarrow>
                            if identity \<noteq> Inr qualified then close_with k os anchor XE_Identity c
                            else and_then (close_and_reap_anchor k os anchor c) (\<lambda>c _. Some (c, Inr qualified)))))))"

definition preflight :: "'w codex_env \<Rightarrow> 'w processes \<Rightarrow> string \<Rightarrow> 'w Conduit \<Rightarrow> ('w, FileIdentity) run" where
  "preflight env os executable c =
     (case file_identity (ce_files env) executable c of (c, r) \<Rightarrow> and_then (Some (c, r)) (\<lambda>c qualified.
      and_then (spawn_anchor (ce_clock env) (ce_files env) os c) (\<lambda>c anchor.
      and_then (spawn_in_group env os qualified anchor (piped_command executable [''--version''] False) c) (\<lambda>c child.
      preflight_probe env os qualified executable anchor child c))))"

section \<open>Standard error\<close>

text \<open>
  One read of the draining thread: the count stays within its maximum, an excess and a failed read
  (the pipe blocks) are flagged. The second component says whether the thread goes on.
\<close>

record Stderr =
  sr_bytes :: nat
  sr_overflow :: bool
  sr_failed :: bool

definition stderr_read :: "ReadAnswer \<Rightarrow> Stderr \<Rightarrow> Stderr \<times> bool" where
  "stderr_read answer s =
     (case answer of
        RA_Bytes bs \<Rightarrow>
          if bs = [] then (s, False)
          else (s\<lparr>sr_bytes := min (sr_bytes s + length bs) MAX_STDERR,
                  sr_overflow := sr_overflow s \<or> sr_bytes s + length bs > MAX_STDERR\<rparr>, True)
      | _ \<Rightarrow> (s\<lparr>sr_failed := True\<rparr>, False))"

fun drain_stderr :: "Stderr \<Rightarrow> ReadAnswer list \<Rightarrow> Stderr" where
  "drain_stderr s [] = s"
| "drain_stderr s (answer # answers) =
     (case stderr_read answer s of (s, goes_on) \<Rightarrow> if goes_on then drain_stderr s answers else s)"

section \<open>The transport\<close>

record CodexTransport =
  ct_child :: nat
  ct_input :: bool
  ct_anchor :: Anchor
  ct_stderr :: bool
  ct_state :: TransportState
  ct_cleaned :: bool

type_synonym ('w, 'a) codex_run = "(('w Conduit \<times> CodexTransport) \<times> (CodexError + 'a)) option"

text \<open>
  \<open>cleanup\<close>, and what dropping a transport does: another cleanup unless one has succeeded.
\<close>

definition transport_cleanup ::
  "'w codex_env \<Rightarrow> 'w processes \<Rightarrow> 'w Conduit \<Rightarrow> CodexTransport \<Rightarrow> ('w, unit) codex_run" where
  "transport_cleanup env os c x =
     (if ct_cleaned x then Some ((c, x), Inr ())
      else
        let c = (if ct_input x then close_stdin os (ct_child x) c else c) in
        case terminate_anchored (ce_clock env) os (ct_anchor x) (ct_child x) c of
          None \<Rightarrow> None
        | Some ((c, anchor), result) \<Rightarrow>
            (case (if ct_stderr x \<and> is_ok result then pr_join_stderr os (cd_world c) else Some (cd_world c)) of
               None \<Rightarrow> None
             | Some w \<Rightarrow>
                 Some ((c\<lparr>cd_world := w\<rparr>,
                        x\<lparr>ct_input := False, ct_anchor := anchor, ct_stderr := False, ct_cleaned := is_ok result\<rparr>),
                       result)))"

definition drop_transport :: "'w codex_env \<Rightarrow> 'w processes \<Rightarrow> 'w Conduit \<Rightarrow> CodexTransport \<Rightarrow> 'w Conduit option" where
  "drop_transport env os c x = map_option (\<lambda>((c, _), _). c) (transport_cleanup env os c x)"

text \<open>\<open>transport.cleanup()?; return Err(error)\<close>: the transport is dropped either way.\<close>

definition transport_fail ::
  "'w codex_env \<Rightarrow> 'w processes \<Rightarrow> CodexError \<Rightarrow> 'w Conduit \<Rightarrow> CodexTransport \<Rightarrow> ('w, 'a) run" where
  "transport_fail env os error c x =
     (case transport_cleanup env os c x of
        None \<Rightarrow> None
      | Some ((c, x), r) \<Rightarrow>
          map_option (\<lambda>c. (c, case r of Inl e \<Rightarrow> Inl e | Inr _ \<Rightarrow> Inl error)) (drop_transport env os c x))"

definition on_state ::
  "CodexTransport \<Rightarrow> ('w, CodexError, 'a) transported \<Rightarrow> ('w, 'a) codex_run" where
  "on_state x m = map_option (\<lambda>((c, t), r). ((c, x\<lparr>ct_state := t\<rparr>), r)) m"

definition start_initialize ::
  "'w codex_env \<Rightarrow> 'w processes \<Rightarrow> 'w Conduit \<Rightarrow> CodexTransport \<Rightarrow> ('w, CodexTransport) run" where
  "start_initialize env os c x =
     (case try_wait os (ct_child x) c of
        (c, None) \<Rightarrow> transport_fail env os XE_Closed c x
      | (c, Some (Some _)) \<Rightarrow> transport_fail env os XE_Closed c x
      | (c, Some None) \<Rightarrow>
          (case (if ct_input x then on_state x (transport_initialize env c (ct_state x))
                 else Some ((c, x), Inl XE_Closed)) of
             None \<Rightarrow> None
           | Some ((c, x), Inl error) \<Rightarrow> transport_fail env os error c x
           | Some ((c, x), Inr _) \<Rightarrow> Some (c, Inr x)))"

definition start_piped ::
  "'w codex_env \<Rightarrow> 'w processes \<Rightarrow> (nat \<Rightarrow> 'w Conduit \<Rightarrow> 'w Conduit \<times> (CodexError + unit)) \<Rightarrow> Anchor \<Rightarrow> SpawnedChild
    \<Rightarrow> 'w Conduit \<Rightarrow> ('w, CodexTransport) run" where
  "start_piped env os before_initialize anchor child c =
     (let k = ce_clock env; pid = sc_pid child in
      if \<not> sc_stdin child \<or> \<not> sc_stdout child \<or> \<not> sc_stderr child
      then terminate_with k os anchor pid XE_Preflight c
      else (case set_nonblocking_both os pid 0 1 c of
          (c, Inl error) \<Rightarrow> terminate_with k os anchor pid error c
        | (c, Inr _) \<Rightarrow>
            (let x = \<lparr>ct_child = pid, ct_input = True, ct_anchor = anchor, ct_stderr = True,
                      ct_state = transport_state_new, ct_cleaned = False\<rparr> in
             case before_initialize pid c of
               (c, Inl error) \<Rightarrow> transport_fail env os error c x
             | (c, Inr _) \<Rightarrow> start_initialize env os c x)))"

definition start_with_before_initialize ::
  "'w codex_env \<Rightarrow> 'w processes \<Rightarrow> (nat \<Rightarrow> 'w Conduit \<Rightarrow> 'w Conduit \<times> (CodexError + unit)) \<Rightarrow> string
    \<Rightarrow> 'w Conduit \<Rightarrow> ('w, CodexTransport) run" where
  "start_with_before_initialize env os before_initialize executable c =
     (case resolve_path (ce_files env) executable c of (c, r) \<Rightarrow> and_then (Some (c, r)) (\<lambda>c executable.
      and_then (preflight env os executable c) (\<lambda>c qualified.
      and_then (spawn_anchor (ce_clock env) (ce_files env) os c) (\<lambda>c anchor.
      and_then (spawn_in_group env os qualified anchor (piped_command executable [''app-server''] True) c) (\<lambda>c child.
      start_piped env os before_initialize anchor child c)))))"

definition transport_start :: "'w codex_env \<Rightarrow> 'w processes \<Rightarrow> string \<Rightarrow> 'w Conduit \<Rightarrow> ('w, CodexTransport) run" where
  "transport_start env os = start_with_before_initialize env os (\<lambda>_ c. (c, Inr ()))"

section \<open>Operations of the transport\<close>

definition receive_until ::
  "'w codex_env \<Rightarrow> 'w processes \<Rightarrow> int \<Rightarrow> 'w Conduit \<Rightarrow> CodexTransport \<Rightarrow> ('w, Received) codex_run" where
  "receive_until env os deadline c x =
     (case (if ct_stderr x then on_world (pr_stderr_bad os) c else (c, (False, False))) of
        (c, (overflow, failed)) \<Rightarrow>
          if overflow \<or> failed then Some ((c, x), Inl XE_Bounds)
          else if \<not> ct_input x then Some ((c, x), Inl XE_Closed)
          else on_state x (next_until env deadline c (ct_state x)))"

definition transport_receive ::
  "'w codex_env \<Rightarrow> 'w processes \<Rightarrow> 'w Conduit \<Rightarrow> CodexTransport \<Rightarrow> ('w, Received) codex_run" where
  "transport_receive env os = receive_until env os IO_DEADLINE"

definition ensure_child_live :: "'w processes \<Rightarrow> 'w Conduit \<Rightarrow> CodexTransport \<Rightarrow> 'w Conduit \<times> (CodexError + unit)" where
  "ensure_child_live os c x =
     (case try_wait os (ct_child x) c of (c, status) \<Rightarrow> (c, ensure (status = Some None) XE_Closed))"

text \<open>A request of a live child whose input is open.\<close>

definition live_request ::
  "'w processes \<Rightarrow> ('w Conduit \<Rightarrow> TransportState \<Rightarrow> ('w, CodexError, 'a) transported) \<Rightarrow> 'w Conduit \<Rightarrow> CodexTransport
    \<Rightarrow> ('w, 'a) codex_run" where
  "live_request os request c x =
     (case ensure_child_live os c x of
        (c, Inl e) \<Rightarrow> Some ((c, x), Inl e)
      | (c, Inr _) \<Rightarrow>
          if \<not> ct_input x then Some ((c, x), Inl XE_Closed) else on_state x (request c (ct_state x)))"

definition transport_start_thread where
  "transport_start_thread env os = live_request os (start_thread env)"

definition transport_start_attached where
  "transport_start_attached env os attachment = live_request os (start_attached_thread env attachment)"

definition transport_resume_thread where
  "transport_resume_thread env os thread attachment = live_request os (resume_thread env thread attachment)"

definition transport_read_thread where
  "transport_read_thread env os thread = live_request os (read_thread env thread)"

definition transport_start_turn where
  "transport_start_turn env os thread managed_input = live_request os (start_turn env thread managed_input)"

definition prepare_turn_frame ::
  "'w codex_env \<Rightarrow> 'w processes \<Rightarrow> string \<Rightarrow> string \<Rightarrow> 'w Conduit \<Rightarrow> CodexTransport \<Rightarrow> ('w, u64) codex_run" where
  "prepare_turn_frame env os thread managed_input =
     live_request os (\<lambda>c t. case prepare_turn (ce_json env) thread managed_input t of (t, r) \<Rightarrow> Some ((c, t), r))"

end
