(* ===== verification/Codex_Controller.thy ===== *)
theory Codex_Controller
  imports Codex_Process Codec Authority
begin

text \<open>
  \<open>CodexController\<close> of \<open>gearwit-host/src/codex_transport.rs\<close>: the controller that owns one Codex
  thread. It creates or resumes the thread, proves it idle, writes one reserved turn into it, and
  reports the exact observations of that turn. Its store is a parameter with the four calls it
  makes on it. Native references sealed in the store are byte strings, opened ones text.
\<close>

section \<open>The store as the controller sees it\<close>

text \<open>A seal draws fresh references until one is free; \<open>None\<close> is a seal that never ends.\<close>

record 'p coordinate_port =
  kp_thread_ownership_state :: "'p \<Rightarrow> bytes \<Rightarrow> PersistError + ThreadOwnershipState"
  kp_seal :: "'p \<Rightarrow> NativeCoordinateScope \<Rightarrow> SecretNativeCoordinate \<Rightarrow> ('p \<times> (PersistError + bytes)) option"
  kp_open :: "'p \<Rightarrow> NativeCoordinateScope \<Rightarrow> bytes \<Rightarrow> PersistError + bytes"
  kp_recover :: "'p \<Rightarrow> 'p \<times> (PersistError + RecoverySnapshot)"

definition fake_coordinates ::
  "(bytes \<Rightarrow> bytes) \<Rightarrow> bytes option list \<Rightarrow> (string \<Rightarrow> bytes option) \<Rightarrow> FakePersist coordinate_port" where
  "fake_coordinates blake3 draws evidence_ref =
     \<lparr>kp_thread_ownership_state = thread_ownership_state,
      kp_seal = seal_native_coordinate draws,
      kp_open = open_native_coordinate,
      kp_recover = recover_authority_state blake3 evidence_ref\<rparr>"

fun map_persist_error :: "PersistError \<Rightarrow> CodexError" where
  "map_persist_error StorageUnavailable = XE_Closed"
| "map_persist_error Conflict = XE_Correlation"
| "map_persist_error InvalidTransition = XE_Correlation"
| "map_persist_error Unauthorized = XE_Correlation"
| "map_persist_error PayloadUnavailable = XE_Correlation"

text \<open>\<open>OpenedNativeCoordinate::as_str\<close>: the text of the bytes, if they are UTF-8.\<close>

definition opened_as_str :: "bytes \<Rightarrow> CodexError + string" where
  "opened_as_str plaintext =
     (let text' = map (\<lambda>b. char_of (unat b)) plaintext in
      if utf8_valid text' then Inr text' else Inl XE_Malformed)"

fun terminal_class :: "CodexTerminalClass \<Rightarrow> TerminalClass" where
  "terminal_class XT_Succeeded = TC_Succeeded"
| "terminal_class XT_Failed = TC_Failed"
| "terminal_class XT_Interrupted = TC_NativeInterrupted"

section \<open>The controller\<close>

record 'p CodexController =
  xc_persist :: 'p
  xc_transport :: CodexTransport
  xc_attachment :: ThreadToolAttachment
  xc_birth :: ControllerBirthBinding
  xc_create_attempt_id :: bytes
  xc_thread_ref :: bytes
  xc_epoch :: u64
  xc_lane_probe :: "bytes option"
  xc_started_turn :: "bytes option"
  xc_pending_terminal :: "(bytes \<times> CodexTerminalClass) option"
  xc_reconciling :: "PersistedTurnCorrelation option"
  xc_terminal :: bool
  xc_lost_reported :: bool
  xc_degraded_reported :: bool

definition from_owned_parts ::
  "'p \<Rightarrow> CodexTransport \<Rightarrow> ThreadToolAttachment \<Rightarrow> ControllerBirthBinding \<Rightarrow> bytes \<Rightarrow> bytes \<Rightarrow> 'p CodexController" where
  "from_owned_parts persist transport attachment birth create_attempt_id thread_ref =
     \<lparr>xc_persist = persist, xc_transport = transport, xc_attachment = attachment, xc_birth = birth,
      xc_create_attempt_id = create_attempt_id, xc_thread_ref = thread_ref, xc_epoch = 0,
      xc_lane_probe = None, xc_started_turn = None, xc_pending_terminal = None, xc_reconciling = None,
      xc_terminal = False, xc_lost_reported = False, xc_degraded_reported = False\<rparr>"

type_synonym ('w, 'p, 'r) controlled = "(('w Conduit \<times> 'p CodexController) \<times> 'r) option"

definition on_transport :: "'p CodexController \<Rightarrow> ('w, 'a) codex_run \<Rightarrow> ('w, 'p, CodexError + 'a) controlled" where
  "on_transport x m = map_option (\<lambda>((c, tr), r). ((c, x\<lparr>xc_transport := tr\<rparr>), r)) m"

definition controller_thread_scope :: "'p CodexController \<Rightarrow> NativeCoordinateScope" where
  "controller_thread_scope x = Scope_Thread (cb_birth_id (xc_birth x)) (xc_create_attempt_id x)"

definition bump_epoch :: "'p CodexController \<Rightarrow> 'p CodexController" where
  "bump_epoch x = x\<lparr>xc_epoch := saturating_add (xc_epoch x) 1\<rparr>"

definition controller_receive ::
  "'w codex_env \<Rightarrow> 'w processes \<Rightarrow> int \<Rightarrow> 'w Conduit \<Rightarrow> 'p CodexController
    \<Rightarrow> ('w, 'p, CodexError + Received) controlled" where
  "controller_receive env os deadline c x = on_transport x (receive_until env os deadline c (xc_transport x))"

partial_function (option) drain_before_mutation ::
  "'w codex_env \<Rightarrow> 'w processes \<Rightarrow> 'w Conduit \<Rightarrow> 'p CodexController
    \<Rightarrow> (('w Conduit \<times> 'p CodexController) \<times> (CodexError + unit)) option" where [code]:
  "drain_before_mutation env os c x =
     (case controller_receive env os 0 c x of
        None \<Rightarrow> None
      | Some (s, r) \<Rightarrow> (case s of (c, x) \<Rightarrow>
          (case r of
             Inl e \<Rightarrow> Some ((c, x), if e = XE_Deadline then Inr () else Inl e)
           | Inr received \<Rightarrow> drain_before_mutation env os c (bump_epoch x))))"

definition opened_thread :: "'p coordinate_port \<Rightarrow> 'p CodexController \<Rightarrow> CodexError + bytes" where
  "opened_thread port x =
     map_err map_persist_error (kp_open port (xc_persist x) (controller_thread_scope x) (xc_thread_ref x))"

definition opened_thread_str :: "'p coordinate_port \<Rightarrow> 'p CodexController \<Rightarrow> CodexError + string" where
  "opened_thread_str port x = bind_res (opened_thread port x) opened_as_str"

definition seal_turn ::
  "'p coordinate_port \<Rightarrow> NativeCoordinateScope \<Rightarrow> string \<Rightarrow> 'p CodexController
    \<Rightarrow> ('p CodexController \<times> (CodexError + bytes)) option" where
  "seal_turn port scope turn x =
     (case secret_coordinate_new Kind_Turn turn of
        Inl _ \<Rightarrow> Some (x, Inl XE_Bounds)
      | Inr secret \<Rightarrow>
          map_option (\<lambda>(p, r). (x\<lparr>xc_persist := p\<rparr>, map_err map_persist_error r))
            (kp_seal port (xc_persist x) scope secret))"

section \<open>Creating a thread\<close>

datatype QuarantinedCreateState = QC_Pending | QC_ExactThread string

record 'p QuarantinedCreate =
  qc_persist :: 'p
  qc_transport :: CodexTransport
  qc_attachment :: ThreadToolAttachment
  qc_birth :: ControllerBirthBinding
  qc_create_attempt_id :: bytes
  qc_state :: QuarantinedCreateState

datatype 'p CodexCreateOutcome =
  CO_Owned ControllerBirthReservation "'p CodexController"
| CO_ProvenNotAccepted ControllerBirthReservation 'p
| CO_Unknown ControllerBirthReservation "'p QuarantinedCreate"
| CO_NotReserved ControllerBirthReservation 'p

datatype 'p LateCreateOutcome =
  LO_Owned QuarantinedBirthReservation "'p CodexController"
| LO_ProvenNotAccepted QuarantinedBirthReservation 'p
| LO_StillUnknown QuarantinedBirthReservation "'p QuarantinedCreate"

text \<open>A transport that goes out of scope with a result.\<close>

definition dropping ::
  "'w codex_env \<Rightarrow> 'w processes \<Rightarrow> 'r \<Rightarrow> 'w Conduit \<Rightarrow> CodexTransport \<Rightarrow> ('w Conduit \<times> 'r) option" where
  "dropping env os result c tr = map_option (\<lambda>c. (c, result)) (drop_transport env os c tr)"

text \<open>The thread is known: seal it and own it, or keep it in quarantine.\<close>

definition seal_thread ::
  "'p coordinate_port \<Rightarrow> string \<Rightarrow> 'p QuarantinedCreate \<Rightarrow> ('p QuarantinedCreate + 'p CodexController) option" where
  "seal_thread port thread q =
     (let keep = (\<lambda>q. Inl (q\<lparr>qc_state := QC_ExactThread thread\<rparr>)) in
      case secret_coordinate_new Kind_Thread thread of
        Inl _ \<Rightarrow> Some (keep q)
      | Inr secret \<Rightarrow>
          (case kp_seal port (qc_persist q)
               (Scope_Thread (cb_birth_id (qc_birth q)) (qc_create_attempt_id q)) secret of
             None \<Rightarrow> None
           | Some (p, Inl _) \<Rightarrow> Some (keep (q\<lparr>qc_persist := p\<rparr>))
           | Some (p, Inr thread_ref) \<Rightarrow>
               Some (Inr (from_owned_parts p (qc_transport q) (qc_attachment q) (qc_birth q)
                 (qc_create_attempt_id q) thread_ref))))"

definition create_on_transport ::
  "'w codex_env \<Rightarrow> 'w processes \<Rightarrow> 'p coordinate_port \<Rightarrow> 'p \<Rightarrow> ThreadToolAttachment \<Rightarrow> ControllerBirthReservation
    \<Rightarrow> 'w Conduit \<Rightarrow> CodexTransport \<Rightarrow> ('w Conduit \<times> 'p CodexCreateOutcome) option" where
  "create_on_transport env os port persist attachment reservation c tr =
     (let not_accepted = dropping env os (CO_ProvenNotAccepted reservation persist);
          quarantine = (\<lambda>tr. \<lparr>qc_persist = persist, qc_transport = tr, qc_attachment = attachment,
            qc_birth = bx_binding reservation, qc_create_attempt_id = bx_create_attempt_id reservation,
            qc_state = QC_Pending\<rparr>)
      in case transport_receive env os c tr of
        None \<Rightarrow> None
      | Some ((c, tr), r) \<Rightarrow>
          if r \<noteq> Inr RX_Initialized then not_accepted c tr
          else (case transport_start_attached env os attachment c tr of
              None \<Rightarrow> None
            | Some ((c, tr), Inl error) \<Rightarrow>
                if error = XE_Ambiguous then Some (c, CO_Unknown reservation (quarantine tr))
                else not_accepted c tr
            | Some ((c, tr), Inr _) \<Rightarrow>
                (case transport_receive env os c tr of
                   None \<Rightarrow> None
                 | Some ((c, tr), Inl error) \<Rightarrow>
                     if error = XE_Native then not_accepted c tr
                     else Some (c, CO_Unknown reservation (quarantine tr))
                 | Some ((c, tr), Inr received) \<Rightarrow>
                     (case received of
                        RX_ThreadStarted thread \<Rightarrow>
                          map_option (\<lambda>r. (c, case r of
                              Inl q \<Rightarrow> CO_Unknown reservation q
                            | Inr controller \<Rightarrow> CO_Owned reservation controller))
                            (seal_thread port thread (quarantine tr))
                      | _ \<Rightarrow> Some (c, CO_Unknown reservation (quarantine tr))))))"

definition create_owned ::
  "'w codex_env \<Rightarrow> 'w processes \<Rightarrow> 'p coordinate_port \<Rightarrow> 'p \<Rightarrow> string \<Rightarrow> string \<Rightarrow> ControllerBirthReservation
    \<Rightarrow> 'w Conduit \<Rightarrow> ('w Conduit \<times> 'p CodexCreateOutcome) option" where
  "create_owned env os port persist executable helper reservation c =
     (if kp_thread_ownership_state port persist (cb_birth_id (bx_binding reservation))
         \<noteq> Inr (OS_Reserved (bx_create_attempt_id reservation))
      then Some (c, CO_NotReserved reservation persist)
      else (case tool_attachment_at (ce_files env) helper c of
          (c, Inl _) \<Rightarrow> Some (c, CO_ProvenNotAccepted reservation persist)
        | (c, Inr attachment) \<Rightarrow>
            (case transport_start env os executable c of
               None \<Rightarrow> None
             | Some (c, Inl _) \<Rightarrow> Some (c, CO_ProvenNotAccepted reservation persist)
             | Some (c, Inr tr) \<Rightarrow> create_on_transport env os port persist attachment reservation c tr)))"

definition receive_late ::
  "'w codex_env \<Rightarrow> 'w processes \<Rightarrow> 'p coordinate_port \<Rightarrow> 'p QuarantinedCreate \<Rightarrow> QuarantinedBirthReservation
    \<Rightarrow> 'w Conduit \<Rightarrow> ('w Conduit \<times> 'p LateCreateOutcome) option" where
  "receive_late env os port q reservation c =
     (if qb_birth_id reservation \<noteq> cb_birth_id (qc_birth q)
         \<or> qb_create_attempt_id reservation \<noteq> qc_create_attempt_id q
         \<or> kp_thread_ownership_state port (qc_persist q) (cb_birth_id (qc_birth q))
             \<noteq> Inr (OS_Unknown (qc_create_attempt_id q))
      then Some (c, LO_StillUnknown reservation q)
      else
        let own = (\<lambda>c thread q. map_option (\<lambda>r. (c, case r of
                Inl q \<Rightarrow> LO_StillUnknown reservation q
              | Inr controller \<Rightarrow> LO_Owned reservation controller)) (seal_thread port thread q))
        in case qc_state q of
          QC_ExactThread thread \<Rightarrow> own c thread (q\<lparr>qc_state := QC_Pending\<rparr>)
        | QC_Pending \<Rightarrow>
            (case transport_receive env os c (qc_transport q) of
               None \<Rightarrow> None
             | Some ((c, tr), Inl error) \<Rightarrow>
                 if error = XE_Native then dropping env os (LO_ProvenNotAccepted reservation (qc_persist q)) c tr
                 else Some (c, LO_StillUnknown reservation (q\<lparr>qc_transport := tr\<rparr>))
             | Some ((c, tr), Inr received) \<Rightarrow>
                 (case received of
                    RX_ThreadStarted thread \<Rightarrow> own c thread (q\<lparr>qc_transport := tr\<rparr>)
                  | _ \<Rightarrow> Some (c, LO_StillUnknown reservation (q\<lparr>qc_transport := tr\<rparr>)))))"

section \<open>Resuming a thread\<close>

text \<open>What follows the start; an error drops the transport.\<close>

definition resume_on_transport ::
  "'w codex_env \<Rightarrow> 'w processes \<Rightarrow> 'p coordinate_port \<Rightarrow> 'p \<Rightarrow> ThreadToolAttachment \<Rightarrow> NativeCoordinateScope \<Rightarrow> bytes
    \<Rightarrow> 'w Conduit \<Rightarrow> CodexTransport \<Rightarrow> ('w, unit) codex_run" where
  "resume_on_transport env os port persist attachment scope thread_ref c tr =
     and_then (transport_receive env os c tr) (\<lambda>(c, tr) received.
     if received \<noteq> RX_Initialized then Some ((c, tr), Inl XE_Correlation)
     else (case bind_res (map_err map_persist_error (kp_open port persist scope thread_ref)) opened_as_str of
         Inl e \<Rightarrow> Some ((c, tr), Inl e)
       | Inr thread \<Rightarrow>
           and_then (transport_resume_thread env os thread attachment c tr) (\<lambda>(c, tr) _.
           and_then (transport_receive env os c tr) (\<lambda>(c, tr) received.
           Some ((c, tr), case received of RX_ThreadResumed _ \<Rightarrow> Inr () | _ \<Rightarrow> Inl XE_Correlation)))))"

definition resume_owned ::
  "'w codex_env \<Rightarrow> 'w processes \<Rightarrow> 'p coordinate_port \<Rightarrow> 'p \<Rightarrow> string \<Rightarrow> string \<Rightarrow> ControllerBirthBinding \<Rightarrow> bytes
    \<Rightarrow> bytes \<Rightarrow> 'w Conduit \<Rightarrow> ('w Conduit \<times> (CodexError + 'p CodexController)) option" where
  "resume_owned env os port persist executable helper birth create_attempt_id thread_ref c =
     (case kp_thread_ownership_state port persist (cb_birth_id birth) of
        Inl e \<Rightarrow> Some (c, Inl (map_persist_error e))
      | Inr state \<Rightarrow>
          if state \<noteq> OS_Owned create_attempt_id thread_ref then Some (c, Inl XE_Correlation)
          else (case tool_attachment_at (ce_files env) helper c of
              (c, Inl e) \<Rightarrow> Some (c, Inl e)
            | (c, Inr attachment) \<Rightarrow>
                and_then (transport_start env os executable c) (\<lambda>c tr.
                case resume_on_transport env os port persist attachment
                    (Scope_Thread (cb_birth_id birth) create_attempt_id) thread_ref c tr of
                  None \<Rightarrow> None
                | Some ((c, tr), Inl e) \<Rightarrow> dropping env os (Inl e) c tr
                | Some ((c, tr), Inr _) \<Rightarrow>
                    Some (c, Inr (from_owned_parts persist tr attachment birth create_attempt_id thread_ref)))))"

section \<open>Observing a turn\<close>

definition degraded_once :: "'p CodexController \<Rightarrow> 'p CodexController \<times> NativeTurnFact option" where
  "degraded_once x =
     (if xc_degraded_reported x then (x, None)
      else (x\<lparr>xc_degraded_reported := True\<rparr>, Some NF_DegradedTerminalObservation))"

definition unknown_once :: "'p CodexController \<Rightarrow> 'p CodexController \<times> NativeTurnFact option" where
  "unknown_once x =
     (if xc_degraded_reported x then (x, None)
      else (x\<lparr>xc_degraded_reported := True\<rparr>, Some NF_Unknown))"

text \<open>A receive error; \<open>Deadline\<close> means that nothing is there yet.\<close>

definition observe_error :: "CodexError \<Rightarrow> 'p CodexController \<Rightarrow> 'p CodexController \<times> NativeTurnFact option" where
  "observe_error e x =
     (if (e = XE_Closed \<or> e = XE_Ambiguous) \<and> \<not> xc_lost_reported x
      then (x\<lparr>xc_lost_reported := True\<rparr>, Some NF_ControllerLost)
      else if e = XE_Malformed \<or> e = XE_Bounds \<or> e = XE_Degraded \<or> e = XE_Correlation then degraded_once x
      else if e = XE_Deadline then (x, None)
      else unknown_once x)"

text \<open>One notification; \<open>None\<close> means to look at the next one.\<close>

definition observe_notification ::
  "bytes \<Rightarrow> string \<Rightarrow> string \<Rightarrow> Notification \<Rightarrow> 'p CodexController
    \<Rightarrow> 'p CodexController \<times> NativeTurnFact option option" where
  "observe_notification turn_ref expected_thread expected_turn notification x =
     (case notification of
        NT_Signal \<Rightarrow> (x, None)
      | NT_TurnStarted thread turn \<Rightarrow>
          if thread \<noteq> expected_thread \<or> turn \<noteq> expected_turn \<or> xc_started_turn x = Some turn_ref then (x, None)
          else (x\<lparr>xc_started_turn := Some turn_ref\<rparr>, Some (Some (NF_Started turn_ref)))
      | NT_Terminal thread turn class' \<Rightarrow>
          if thread \<noteq> expected_thread \<or> turn \<noteq> expected_turn \<or> xc_terminal x then (x, None)
          else if xc_started_turn x \<noteq> Some turn_ref then
            (if xc_pending_terminal x = None then (x\<lparr>xc_pending_terminal := Some (turn_ref, class')\<rparr>, None)
             else (case degraded_once x of (x, fact') \<Rightarrow> (x, Some fact')))
          else (x\<lparr>xc_terminal := True\<rparr>, Some (Some (NF_Terminal turn_ref (terminal_class class'))))
      | NT_DegradedTerminal thread turn \<Rightarrow>
          if thread \<noteq> expected_thread \<or> turn \<noteq> expected_turn then (x, None)
          else (x, Some (Some NF_DegradedTerminalObservation)))"

partial_function (option) notification_loop ::
  "'w codex_env \<Rightarrow> 'w processes \<Rightarrow> bytes \<Rightarrow> string \<Rightarrow> string \<Rightarrow> 'w Conduit \<Rightarrow> 'p CodexController
    \<Rightarrow> (('w Conduit \<times> 'p CodexController) \<times> NativeTurnFact option) option" where [code]:
  "notification_loop env os turn_ref expected_thread expected_turn c x =
     (case controller_receive env os 0 c x of
        None \<Rightarrow> None
      | Some (s, r) \<Rightarrow> (case s of (c, x) \<Rightarrow>
          (case r of
             Inl e \<Rightarrow> (case observe_error e x of (x, fact') \<Rightarrow> Some ((c, x), fact'))
           | Inr received \<Rightarrow>
               (case received of
                  RX_Notification notification \<Rightarrow>
                    (case observe_notification turn_ref expected_thread expected_turn notification (bump_epoch x) of
                       (x, answer) \<Rightarrow>
                         (case answer of
                            Some fact' \<Rightarrow> Some ((c, x), fact')
                          | None \<Rightarrow> notification_loop env os turn_ref expected_thread expected_turn c x))
                | _ \<Rightarrow> (case degraded_once x of (x, fact') \<Rightarrow> Some ((c, x), fact'))))))"

definition observe_stream ::
  "'w codex_env \<Rightarrow> 'w processes \<Rightarrow> 'p coordinate_port \<Rightarrow> bytes \<Rightarrow> NativeCoordinateScope \<Rightarrow> 'w Conduit
    \<Rightarrow> 'p CodexController \<Rightarrow> ('w, 'p, NativeTurnFact option) controlled" where
  "observe_stream env os port turn_ref scope c x =
     (case (opened_thread_str port x,
         bind_res (map_err map_persist_error (kp_open port (xc_persist x) scope turn_ref)) opened_as_str) of
        (Inr expected_thread, Inr expected_turn) \<Rightarrow>
          notification_loop env os turn_ref expected_thread expected_turn c x
      | _ \<Rightarrow> (case degraded_once x of (x, fact') \<Rightarrow> Some ((c, x), fact')))"

definition exact_notification ::
  "'w codex_env \<Rightarrow> 'w processes \<Rightarrow> 'p coordinate_port \<Rightarrow> PersistedTurnCorrelation \<Rightarrow> NativeCoordinateScope
    \<Rightarrow> 'w Conduit \<Rightarrow> 'p CodexController \<Rightarrow> ('w, 'p, NativeTurnFact option) controlled" where
  "exact_notification env os port correlation scope c x =
     (case tc_turn_ref correlation of
        None \<Rightarrow> Some ((c, x), None)
      | Some turn_ref \<Rightarrow>
          (case (if xc_started_turn x = Some turn_ref then xc_pending_terminal x else None) of
             Some (pending_turn, class') \<Rightarrow>
               let x = x\<lparr>xc_pending_terminal := None\<rparr> in
               if pending_turn = turn_ref
               then Some ((c, x\<lparr>xc_terminal := True\<rparr>), Some (NF_Terminal pending_turn (terminal_class class')))
               else (case degraded_once x of (x, fact') \<Rightarrow> Some ((c, x), fact'))
           | None \<Rightarrow> observe_stream env os port turn_ref scope c x))"

definition codex_poll_exact_observation ::
  "'w codex_env \<Rightarrow> 'w processes \<Rightarrow> 'p coordinate_port \<Rightarrow> ObservationScope \<Rightarrow> 'w Conduit \<Rightarrow> 'p CodexController
    \<Rightarrow> ('w, 'p, NativeTurnFact option) controlled" where
  "codex_poll_exact_observation env os port scope c x =
     (let correlation = os_correlation scope in
      if tc_birth_id correlation \<noteq> cb_birth_id (xc_birth x) \<or> tc_thread_ref correlation \<noteq> xc_thread_ref x
      then Some ((c, x), None)
      else if xc_lost_reported x then Some ((c, x), None)
      else exact_notification env os port correlation (observation_turn_scope scope) c x)"

section \<open>Proving the thread idle\<close>

partial_function (option) read_loop ::
  "'w codex_env \<Rightarrow> 'w processes \<Rightarrow> 'w Conduit \<Rightarrow> 'p CodexController
    \<Rightarrow> (('w Conduit \<times> 'p CodexController) \<times> (CodexError + ThreadState \<times> u64)) option" where [code]:
  "read_loop env os c x =
     (case controller_receive env os IO_DEADLINE c x of
        None \<Rightarrow> None
      | Some (s, r) \<Rightarrow> (case s of (c, x) \<Rightarrow>
          (case r of
             Inl e \<Rightarrow> Some ((c, x), Inl e)
           | Inr received \<Rightarrow>
               (case received of
                  RX_ThreadRead state \<Rightarrow> Some ((c, x), Inr (state, xc_epoch x))
                | RX_Notification _ \<Rightarrow> read_loop env os c (bump_epoch x)
                | RX_ServerRequestRejected \<Rightarrow> read_loop env os c (bump_epoch x)
                | _ \<Rightarrow> Some ((c, x), Inl XE_Correlation)))))"

definition read_state ::
  "'w codex_env \<Rightarrow> 'w processes \<Rightarrow> 'p coordinate_port \<Rightarrow> 'w Conduit \<Rightarrow> 'p CodexController
    \<Rightarrow> ('w, 'p, CodexError + ThreadState \<times> u64) controlled" where
  "read_state env os port c x =
     (case opened_thread_str port x of
        Inl e \<Rightarrow> Some ((c, x), Inl e)
      | Inr thread \<Rightarrow>
          and_then (on_transport x (transport_read_thread env os thread c (xc_transport x))) (\<lambda>(c, x) _.
          read_loop env os c x))"

definition idle_probe_result ::
  "ProbeBinding \<Rightarrow> instant \<Rightarrow> CodexError + ThreadState \<times> u64 \<Rightarrow> 'p CodexController
    \<Rightarrow> 'p CodexController \<times> IdleProbeResult" where
  "idle_probe_result binding observed_at state x =
     (let probe_id = pb_challenge_id binding;
          epoch = (\<lambda>n. \<lparr>ep_birth_id = cb_birth_id (xc_birth x), ep_sequence = n\<rparr>)
      in case state of
        Inr (TH_Idle, response_epoch) \<Rightarrow>
          (x\<lparr>xc_lane_probe := Some probe_id\<rparr>,
           Probe_Idle (Obs_Idle binding probe_id (epoch response_epoch) observed_at)
             \<lparr>ig_probe_id = probe_id, ig_epoch = epoch response_epoch\<rparr>)
      | Inr (TH_ActiveTurn prehash, response_epoch) \<Rightarrow>
          (x, Probe_Active (active_observation_from_binding binding (xc_create_attempt_id x)
             (epoch response_epoch) observed_at prehash CODEX_VERSION CODEX_DIALECT))
      | _ \<Rightarrow> (x, Probe_Unproven (Obs_Unproven binding probe_id observed_at)))"

text \<open>The drain after an answer: the answer counts only while nothing else has arrived.\<close>

definition confirm_idle ::
  "'w codex_env \<Rightarrow> 'w processes \<Rightarrow> ProbeBinding \<Rightarrow> instant \<Rightarrow> CodexError + ThreadState \<times> u64 \<Rightarrow> 'w Conduit
    \<Rightarrow> 'p CodexController \<Rightarrow> ('w, 'p, ControllerProbeError + IdleProbeResult) controlled" where
  "confirm_idle env os binding observed_at state c x =
     (case state of
        Inl e \<Rightarrow> (case idle_probe_result binding observed_at (Inl e) x of (x, result) \<Rightarrow> Some ((c, x), Inr result))
      | Inr (thread_state, response_epoch) \<Rightarrow>
          (case drain_before_mutation env os c x of
             None \<Rightarrow> None
           | Some ((c, x), drain) \<Rightarrow>
               if xc_epoch x \<noteq> response_epoch then Some ((c, x), Inl CPE_EpochInvalidated)
               else if \<not> is_ok drain then
                 Some ((c, x), Inr (Probe_Unproven (Obs_Unproven binding (pb_challenge_id binding) observed_at)))
               else (case idle_probe_result binding observed_at (Inr (thread_state, response_epoch)) x of
                   (x, result) \<Rightarrow> Some ((c, x), Inr result))))"

definition codex_probe_idle ::
  "'w codex_env \<Rightarrow> 'w processes \<Rightarrow> 'p coordinate_port \<Rightarrow> ProbeBinding \<Rightarrow> 'w Conduit \<Rightarrow> 'p CodexController
    \<Rightarrow> ('w, 'p, ControllerProbeError + IdleProbeResult) controlled" where
  "codex_probe_idle env os port binding c x =
     (case on_world (pr_utc_now os) c of (c, observed_at) \<Rightarrow>
      if ca_birth_id (pb_attachment binding) \<noteq> cb_birth_id (xc_birth x)
         \<or> pb_thread_ref binding \<noteq> xc_thread_ref x \<or> xc_lane_probe x \<noteq> None
      then Some ((c, x), Inl CPE_BindingRejected)
      else (case drain_before_mutation env os c x of
          None \<Rightarrow> None
        | Some ((c, x), Inl _) \<Rightarrow>
            Some ((c, x), Inr (Probe_Unproven (Obs_Unproven binding (pb_challenge_id binding) observed_at)))
        | Some ((c, x), Inr _) \<Rightarrow>
            (case read_state env os port c x of
               None \<Rightarrow> None
             | Some ((c, x), state) \<Rightarrow> confirm_idle env os binding observed_at state c x)))"

section \<open>Writing the reserved turn\<close>

text \<open>The lane is given up and, where a frame is prepared, the frame with it.\<close>

definition give_up_lane :: "'p CodexController \<Rightarrow> 'p CodexController" where
  "give_up_lane x = x\<lparr>xc_lane_probe := None\<rparr>"

definition discard_turn :: "'p CodexController \<Rightarrow> 'p CodexController" where
  "discard_turn x =
     give_up_lane (x\<lparr>xc_transport := (xc_transport x)
       \<lparr>ct_state := discard_prepared_turn (ct_state (xc_transport x))\<rparr>\<rparr>)"

text \<open>What the answer to the dispatched turn means; unknown leaves the turn to be reconciled.\<close>

definition settle_write ::
  "ControllerCommand \<Rightarrow> NativeWriteDisposition \<Rightarrow> 'p CodexController \<Rightarrow> 'p CodexController" where
  "settle_write command disposition x =
     give_up_lane (x\<lparr>xc_reconciling := if disposition = WD_Unknown then Some (cc_correlation command) else None\<rparr>)"

definition await_turn ::
  "'w codex_env \<Rightarrow> 'w processes \<Rightarrow> 'p coordinate_port \<Rightarrow> ControllerCommand \<Rightarrow> 'w Conduit \<Rightarrow> 'p CodexController
    \<Rightarrow> ('w, 'p, NativeWriteDisposition) controlled" where
  "await_turn env os port command c x =
     (case controller_receive env os IO_DEADLINE c x of
        None \<Rightarrow> None
      | Some ((c, x), Inl e) \<Rightarrow>
          (let d = (if e = XE_Native then WD_ProvenNotAccepted else WD_Unknown) in
           Some ((c, settle_write command d x), d))
      | Some ((c, x), Inr received) \<Rightarrow>
          (case received of
             RX_TurnStarted turn \<Rightarrow>
               (case seal_turn port (command_turn_scope command) turn x of
                  None \<Rightarrow> None
                | Some (x, r) \<Rightarrow>
                    (let d = (case r of Inl _ \<Rightarrow> WD_Unknown | Inr turn_ref \<Rightarrow> WD_Accepted turn_ref) in
                     Some ((c, settle_write command d x), d)))
           | _ \<Rightarrow> Some ((c, settle_write command WD_Unknown x), WD_Unknown)))"

definition dispatch_turn ::
  "'w codex_env \<Rightarrow> 'w processes \<Rightarrow> 'p coordinate_port \<Rightarrow> ControllerCommand \<Rightarrow> u64 \<Rightarrow> 'w Conduit \<Rightarrow> 'p CodexController
    \<Rightarrow> ('w, 'p, NativeWriteDisposition) controlled" where
  "dispatch_turn env os port command prepared c x =
     (case dispatch_prepared_turn env prepared c (ct_state (xc_transport x)) of
        None \<Rightarrow> None
      | Some ((c, t), r) \<Rightarrow>
          (let x = x\<lparr>xc_transport := (xc_transport x)\<lparr>ct_state := t\<rparr>\<rparr> in
           case r of
             Inl failure \<Rightarrow>
               (let disposition = failed_write_disposition failure;
                    x = give_up_lane x
                in Some ((c, if disposition = WD_Unknown then x\<lparr>xc_reconciling := Some (cc_correlation command)\<rparr> else x),
                         disposition))
           | Inr _ \<Rightarrow> await_turn env os port command c x))"

text \<open>The final checks on a prepared turn, after the last drain.\<close>

definition final_checks ::
  "'w codex_env \<Rightarrow> 'w processes \<Rightarrow> 'p coordinate_port \<Rightarrow> ControllerCommand \<Rightarrow> u64 \<Rightarrow> 'w Conduit \<Rightarrow> 'p CodexController
    \<Rightarrow> ('w, 'p, ControllerWriteError + NativeWriteDisposition) controlled" where
  "final_checks env os port command prepared c x =
     (let observed_epoch = \<lparr>ep_birth_id = cb_birth_id (xc_birth x), ep_sequence = xc_epoch x\<rparr> in
      if observed_epoch \<noteq> cc_expected_epoch command
      then Some ((c, discard_turn x), Inr (WD_IdleEpochInvalidated (cc_expected_probe_id command)
             (cc_expected_epoch command) observed_epoch))
      else (case on_world (pr_utc_now os) c of (c, final_now) \<Rightarrow>
        if \<not> validate_immutable_binding command (xc_birth x) (xc_thread_ref x)
        then Some ((c, discard_turn x), Inl CWE_BindingRejected)
        else if \<not> lease_is_current command (xc_birth x) final_now
        then Some ((c, discard_turn x), Inr WD_ProvenNotAccepted)
        else map_option (\<lambda>(s, d). (s, Inr d)) (dispatch_turn env os port command prepared c x)))"

definition prepare_and_drain ::
  "'w codex_env \<Rightarrow> 'w processes \<Rightarrow> string \<Rightarrow> ControllerCommand \<Rightarrow> 'w Conduit \<Rightarrow> 'p CodexController
    \<Rightarrow> ('w, 'p, unit + u64) controlled" where
  "prepare_and_drain env os thread command c x =
     (case on_transport x (prepare_turn_frame env os thread (fixed_turn command) c (xc_transport x)) of
        None \<Rightarrow> None
      | Some ((c, x), Inl _) \<Rightarrow> Some ((c, give_up_lane x), Inl ())
      | Some ((c, x), Inr prepared) \<Rightarrow>
          (case drain_before_mutation env os c x of
             None \<Rightarrow> None
           | Some ((c, x), Inl _) \<Rightarrow> Some ((c, discard_turn x), Inl ())
           | Some ((c, x), Inr _) \<Rightarrow> Some ((c, x), Inr prepared)))"

definition codex_write_reserved_turn ::
  "'w codex_env \<Rightarrow> 'w processes \<Rightarrow> 'p coordinate_port \<Rightarrow> ControllerIdleGuard \<Rightarrow> ControllerCommand \<Rightarrow> 'w Conduit
    \<Rightarrow> 'p CodexController \<Rightarrow> ('w, 'p, ControllerWriteError + NativeWriteDisposition) controlled" where
  "codex_write_reserved_turn env os port lane command c x =
     (if xc_lane_probe x \<noteq> Some (cc_expected_probe_id command)
         \<or> ig_probe_id lane \<noteq> cc_expected_probe_id command \<or> ig_epoch lane \<noteq> cc_expected_epoch command
      then Some ((c, give_up_lane x), Inl CWE_BindingRejected)
      else (case opened_thread_str port x of
          Inl _ \<Rightarrow> Some ((c, give_up_lane x), Inr WD_ProvenNotAccepted)
        | Inr thread \<Rightarrow>
            (case prepare_and_drain env os thread command c x of
               None \<Rightarrow> None
             | Some ((c, x), Inl _) \<Rightarrow> Some ((c, x), Inr WD_ProvenNotAccepted)
             | Some ((c, x), Inr prepared) \<Rightarrow> final_checks env os port command prepared c x)))"

section \<open>Reconciling a turn of unknown fate\<close>

definition durable_unknown :: "RecoverySnapshot \<Rightarrow> ReconciliationScope \<Rightarrow> bool" where
  "durable_unknown snapshot scope =
     list_ex (\<lambda>row. ne_correlation row = rs_correlation scope
       \<and> ne_evidence_ref row = rs_native_write_evidence_ref scope \<and> ne_evidence row = WE_Unknown)
       (sn_native_write_evidence snapshot)"

definition codex_reconcile_exact ::
  "'w codex_env \<Rightarrow> 'w processes \<Rightarrow> 'p coordinate_port \<Rightarrow> ReconciliationScope \<Rightarrow> 'w Conduit \<Rightarrow> 'p CodexController
    \<Rightarrow> ('w, 'p, ControllerReconcileError + ReconciliationDisposition) controlled" where
  "codex_reconcile_exact env os port scope c x =
     (case kp_recover port (xc_persist x) of (p, recovered) \<Rightarrow>
      let x = x\<lparr>xc_persist := p\<rparr>;
          correlation = rs_correlation scope;
          durable_binding = (case recovered of Inl _ \<Rightarrow> False | Inr snapshot \<Rightarrow> durable_unknown snapshot scope)
      in if (case xc_reconciling x of Some expected \<Rightarrow> expected \<noteq> correlation | None \<Rightarrow> False)
           \<or> \<not> durable_binding \<or> tc_birth_id correlation \<noteq> cb_birth_id (xc_birth x)
           \<or> tc_thread_ref correlation \<noteq> xc_thread_ref x
      then Some ((c, x), Inl CRE_BindingRejected)
      else (case controller_receive env os 0 c x of
          None \<Rightarrow> None
        | Some ((c, x), Inl e) \<Rightarrow>
            Some ((c, x), Inr (if e = XE_Native then RD_ProvenNotAccepted else RD_Unknown))
        | Some ((c, x), Inr received) \<Rightarrow>
            (case received of
               RX_TurnStarted turn \<Rightarrow>
                 map_option (\<lambda>(x, r). ((c, x), Inr (case r of Inl _ \<Rightarrow> RD_Unknown | Inr turn_ref \<Rightarrow> RD_Accepted turn_ref)))
                   (seal_turn port (reconciliation_turn_scope scope) turn x)
             | _ \<Rightarrow> Some ((c, x), Inr RD_Unknown))))"

section \<open>Induction over the loops\<close>

lemmas drain_induct =
  drain_before_mutation.raw_induct [where xa = "(((env, os), c), x)" for env os c x, unfolded prod.case]

lemmas read_loop_induct =
  read_loop.raw_induct [where xa = "(((env, os), c), x)" for env os c x, unfolded prod.case]

lemmas notification_induct =
  notification_loop.raw_induct
    [where xa = "((((((env, os), turn_ref), thread), turn), c), x)" for env os turn_ref thread turn c x,
     unfolded prod.case]

end
