(* ===== verification/Codex_Wire.thy ===== *)
theory Codex_Wire
  imports Codex_Controller
begin

text \<open>
  What the transport's operations put on the wire and keep of its state: the invariant of the
  transport, the frames a send and a receive write, and that receiving sends nothing but replies.
\<close>

section \<open>The invariant of the transport\<close>

definition pending_ok :: "bool \<Rightarrow> u64 \<Rightarrow> Pending \<Rightarrow> bool" where
  "pending_ok initialized next_id p \<longleftrightarrow> 0 < pd_id p \<and> pd_id p < next_id
     \<and> (pd_kind p = RK_Initialize \<longleftrightarrow> \<not> initialized)
     \<and> (pd_kind p \<in> {RK_ThreadResume, RK_ThreadRead} \<longleftrightarrow> pd_thread p \<noteq> None)"

definition transport_ok :: "TransportState \<Rightarrow> bool" where
  "transport_ok t \<longleftrightarrow> length (ts_line t) \<le> MAX_LINE \<and> length (ts_frame t) \<le> MAX_FRAME
     \<and> ts_stdout t \<le> MAX_STDOUT \<and> length (ts_notifications t) \<le> MAX_QUEUE
     \<and> length (ts_pending t) \<le> 1 \<and> 2 \<le> ts_next_id t \<and> list_all (pending_ok (ts_initialized t) (ts_next_id t)) (ts_pending t)
     \<and> (ts_notifications t = [] \<or> ts_initialized t)"

lemma transport_ok_new: "transport_ok transport_state_new"
  by (simp add: transport_ok_def transport_state_new_def)

lemma transport_ok_scratch [simp]:
  "transport_ok (t\<lparr>ts_ambiguous := a\<rparr>) = transport_ok t"
  "transport_ok (suspect t) = transport_ok t"
  by (simp_all add: transport_ok_def pending_ok_def suspect_def)

lemma suspect_keeps [simp]:
  "ts_pending (suspect t) = ts_pending t" "ts_next_id (suspect t) = ts_next_id t"
  "ts_initialized (suspect t) = ts_initialized t" "ts_line (suspect t) = ts_line t"
  "ts_frame (suspect t) = ts_frame t"
  by (simp_all add: suspect_def)

lemma transport_ok_frame: "transport_ok t \<Longrightarrow> length f \<le> MAX_FRAME \<Longrightarrow> transport_ok (t\<lparr>ts_frame := f\<rparr>)"
  by (simp add: transport_ok_def pending_ok_def)

lemma transport_ok_line: "transport_ok t \<Longrightarrow> length l \<le> MAX_LINE \<Longrightarrow> transport_ok (t\<lparr>ts_line := l\<rparr>)"
  by (simp add: transport_ok_def pending_ok_def)

lemma transport_ok_wiped: "transport_ok t \<Longrightarrow> transport_ok (wiped_line t)"
  by (simp add: wiped_line_def transport_ok_line)

section \<open>Sending\<close>

definition message_frame :: "'w codex_env \<Rightarrow> Json \<Rightarrow> bytes" where
  "message_frame env m = concat (cj_pieces (ce_json env) m) @ [10]"

text \<open>The parts of the state a send leaves alone.\<close>

definition same_dialogue :: "TransportState \<Rightarrow> TransportState \<Rightarrow> bool" where
  "same_dialogue t t' \<longleftrightarrow> ts_line t' = ts_line t \<and> ts_stdout t' = ts_stdout t
     \<and> ts_pending t' = ts_pending t \<and> ts_notifications t' = ts_notifications t
     \<and> ts_initialized t' = ts_initialized t \<and> ts_next_id t' = ts_next_id t"

lemma same_dialogue_refl: "same_dialogue t t"
  by (simp add: same_dialogue_def)

lemma same_dialogue_ok:
  "same_dialogue t t' \<Longrightarrow> transport_ok t \<Longrightarrow> length (ts_frame t') \<le> MAX_FRAME \<Longrightarrow> transport_ok t'"
  by (simp add: same_dialogue_def transport_ok_def list_all_iff pending_ok_def)

lemma transport_write_sent:
  assumes "transport_write env m c t = Some ((c', t'), r)"
  shows "same_dialogue t t'" "ts_ambiguous t' = ts_ambiguous t" "length (ts_frame t') \<le> MAX_FRAME"
    "cd_heard c' = cd_heard c" "\<exists>n. cd_wire c' = cd_wire c @ take n (message_frame env m)"
    "\<And>receipt. r = Inr receipt \<Longrightarrow> cd_wire c' = cd_wire c @ message_frame env m \<and> length (message_frame env m) \<le> MAX_FRAME"
    "\<And>failure. r = Inl failure \<Longrightarrow> wf_receipt failure \<noteq> WP_Written
      \<and> (wf_receipt failure = WP_ProvenNotWritten \<longrightarrow> cd_wire c' = cd_wire c)"
proof -
  obtain frame e where enc: "frame_encode (cj_pieces (ce_json env) m) = (frame, e)"
    by (cases "frame_encode (cj_pieces (ce_json env) m)")
  have bound: "length frame \<le> MAX_FRAME" using enc by (rule frame_encode_bound)
  have "same_dialogue t t' \<and> ts_ambiguous t' = ts_ambiguous t \<and> length (ts_frame t') \<le> MAX_FRAME
    \<and> cd_heard c' = cd_heard c \<and> (\<exists>n. cd_wire c' = cd_wire c @ take n (message_frame env m))
    \<and> (\<forall>receipt. r = Inr receipt \<longrightarrow>
         cd_wire c' = cd_wire c @ message_frame env m \<and> length (message_frame env m) \<le> MAX_FRAME)
    \<and> (\<forall>failure. r = Inl failure \<longrightarrow> wf_receipt failure \<noteq> WP_Written
         \<and> (wf_receipt failure = WP_ProvenNotWritten \<longrightarrow> cd_wire c' = cd_wire c))"
  proof (cases e)
    case (Inl a)
    with assms enc bound show ?thesis
      by (auto simp: transport_write_def same_dialogue_def intro: exI [of _ 0])
  next
    case (Inr u)
    then have frame: "frame = message_frame env m"
      using enc by (simp add: frame_encode_iff message_frame_def)
    obtain p where w: "write_all_until (ce_clock env) (ce_writer env) frame IO_DEADLINE c = Some p"
      using assms enc Inr by (auto simp: transport_write_def split: option.splits)
    obtain c1 r1 where p: "p = (c1, r1)" by (cases p)
    have eq: "c' = c1" "r = r1" "t' = t\<lparr>ts_frame := []\<rparr>"
      using assms enc Inr w p by (simp_all add: transport_write_def)
    show ?thesis
      using write_all_until_sent [OF w] p eq frame bound
      by (auto simp: frame_sent_def same_dialogue_def)
  qed
  then show "same_dialogue t t'" "ts_ambiguous t' = ts_ambiguous t" "length (ts_frame t') \<le> MAX_FRAME"
    "cd_heard c' = cd_heard c" "\<exists>n. cd_wire c' = cd_wire c @ take n (message_frame env m)"
    "\<And>receipt. r = Inr receipt \<Longrightarrow> cd_wire c' = cd_wire c @ message_frame env m \<and> length (message_frame env m) \<le> MAX_FRAME"
    "\<And>failure. r = Inl failure \<Longrightarrow> wf_receipt failure \<noteq> WP_Written
      \<and> (wf_receipt failure = WP_ProvenNotWritten \<longrightarrow> cd_wire c' = cd_wire c)"
    by blast+
qed

lemma transport_send_sent:
  assumes "transport_send env m c t = Some ((c', t'), r)" and "length (ts_frame t) \<le> MAX_FRAME"
  shows "same_dialogue t t' \<and> length (ts_frame t') \<le> MAX_FRAME \<and> cd_heard c' = cd_heard c
    \<and> (\<exists>n. cd_wire c' = cd_wire c @ take n (message_frame env m))
    \<and> (case r of
         Inr _ \<Rightarrow> \<not> ts_ambiguous t' \<and> cd_wire c' = cd_wire c @ message_frame env m
       | Inl e \<Rightarrow> (ts_ambiguous t' \<and> e = XE_Ambiguous) \<or> (\<not> ts_ambiguous t' \<and> cd_wire c' = cd_wire c))
    \<and> (ts_ambiguous t \<longrightarrow> cd_wire c' = cd_wire c \<and> r = Inl XE_Ambiguous)"
proof (cases "ts_ambiguous t")
  case True
  with assms show ?thesis
    by (auto simp: transport_send_def same_dialogue_refl intro: exI [of _ 0])
next
  case False
  obtain c1 t1 r1 where w: "transport_write env m c t = Some ((c1, t1), r1)"
    using assms False by (auto simp: transport_send_def split: option.splits prod.splits)
  note sent = transport_write_sent [OF w]
  show ?thesis
  proof (cases r1)
    case (Inr receipt)
    with assms(1) False w sent show ?thesis by (auto simp: transport_send_def)
  next
    case (Inl failure)
    have "wf_receipt failure = WP_ProvenNotWritten \<or> wf_receipt failure = WP_PossiblyWritten"
      using sent(7) [OF Inl] by (cases "wf_receipt failure") auto
    with assms(1) False w sent Inl show ?thesis
      by (auto simp: transport_send_def same_dialogue_def split: if_splits)
  qed
qed

section \<open>The errors each part can report\<close>

lemma read_line_loop_errors:
  assumes "read_line_loop k rd until line consumed c = Some p"
  shows "\<forall>e. snd p = Inl e \<longrightarrow> e \<in> {XE_Closed, XE_Malformed, XE_Bounds, XE_Deadline}"
proof (rule read_line_loop.raw_induct [where P = "\<lambda>k rd until line consumed c p.
    \<forall>e. snd p = Inl e \<longrightarrow> e \<in> {XE_Closed, XE_Malformed, XE_Bounds, XE_Deadline}", OF _ assms], goal_cases)
  case (1 loop k rd until line consumed c p)
  show ?case
    using 1(2) by (auto dest: 1(1) split: prod.splits ReadAnswer.splits list.splits if_splits)
qed

lemma read_line_until_errors:
  "read_line_until k rd deadline c = Some (s, Inl e) \<Longrightarrow> e \<in> {XE_Closed, XE_Malformed, XE_Bounds, XE_Deadline}"
  by (auto simp: read_line_until_def dest!: read_line_loop_errors split: prod.splits)

lemma flush_loop_errors:
  assumes "flush_loop k wr until c = Some p"
  shows "\<forall>f. snd p = Inl f \<longrightarrow> wf_error f \<in> {XE_Ambiguous, XE_Deadline, XE_Closed}"
proof (rule flush_loop.raw_induct [where P = "\<lambda>k wr until c p.
    \<forall>f. snd p = Inl f \<longrightarrow> wf_error f \<in> {XE_Ambiguous, XE_Deadline, XE_Closed}", OF _ assms], goal_cases)
  case (1 loop k wr until c p)
  show ?case
    using 1(2) by (auto dest: 1(1) split: prod.splits FlushAnswer.splits if_splits)
qed

lemma write_loop_errors:
  assumes "write_loop k wr until frame wrote c = Some p"
  shows "\<forall>f. snd p = Inl f \<longrightarrow> wf_error f \<in> {XE_Ambiguous, XE_Deadline, XE_Closed}"
proof (rule write_loop.raw_induct [where P = "\<lambda>k wr until frame wrote c p.
    \<forall>f. snd p = Inl f \<longrightarrow> wf_error f \<in> {XE_Ambiguous, XE_Deadline, XE_Closed}", OF _ assms], goal_cases)
  case (1 loop k wr until frame wrote c p)
  show ?case
    using 1(2)
    by (auto simp: write_failure_def dest: 1(1) dest!: flush_loop_errors
        split: prod.splits WriteAnswer.splits if_splits)
qed

lemma transport_send_errors:
  "transport_send env m c t = Some (s, Inl e) \<Longrightarrow> e \<in> {XE_Ambiguous, XE_Deadline, XE_Closed, XE_Bounds}"
  by (auto simp: transport_send_def transport_write_def write_all_until_def frame_encode_def
      dest!: write_loop_errors split: prod.splits option.splits sum.splits if_splits)

definition only_errors :: "'e set \<Rightarrow> 'e + 'a \<Rightarrow> bool" where
  "only_errors E r \<longleftrightarrow> (\<forall>e. r = Inl e \<longrightarrow> e \<in> E)"

lemma only_errorsI [intro!]:
  "only_errors E (Inr x)"
  "e \<in> E \<Longrightarrow> only_errors E (Inl e)"
  "e \<in> E \<Longrightarrow> only_errors E (ok_or v e)"
  "e \<in> E \<Longrightarrow> only_errors E (ensure b e)"
  "XE_Bounds \<in> E' \<Longrightarrow> only_errors E' (native_ref_parse s)"
  by (auto simp: only_errors_def ok_or_def ensure_def native_ref_parse_def split: option.splits if_splits)

lemma only_errors_bind [intro!]:
  "only_errors E m \<Longrightarrow> (\<And>x. m = Inr x \<Longrightarrow> only_errors E (f x)) \<Longrightarrow> only_errors E (bind_res m f)"
  by (cases m) (simp_all add: only_errors_def)

lemma classify_errors: "only_errors {XE_Malformed, XE_Bounds} (classify j line)"
  unfolding classify_def classify_notification_def
  by (auto split: option.split)

lemma parse_thread_state_errors:
  "only_errors {XE_Malformed, XE_Bounds, XE_Correlation} (parse_thread_state j b result requested)"
  unfolding parse_thread_state_def by (auto split: option.split)

lemma parse_response_errors: "only_errors {XE_Malformed, XE_Bounds, XE_Correlation} (parse_response j b line p)"
  unfolding parse_response_def
  by (cases "pd_kind p") (auto intro: parse_thread_state_errors)

text \<open>The kind of a response is the kind of the request it answers.\<close>

lemma parse_response_kind:
  assumes "parse_response j b line p = Inr r"
  shows "r = RX_Initialized \<longleftrightarrow> pd_kind p = RK_Initialize"
    "(\<exists>thread. r = RX_ThreadStarted thread) \<longleftrightarrow> pd_kind p = RK_ThreadStart"
    "(\<exists>turn. r = RX_TurnStarted turn) \<longleftrightarrow> pd_kind p = RK_TurnStart"
  using assms by (cases "pd_kind p"; auto simp: parse_response_def result_simps)+

section \<open>Receiving\<close>

text \<open>Replies on the wire: rejections of the server's requests and the closing of the handshake.\<close>

definition is_reply :: "Json \<Rightarrow> bool" where
  "is_reply m \<longleftrightarrow> m = initialized_notification \<or> (\<exists>i. m = rejection i)"

definition replies :: "'w codex_env \<Rightarrow> bytes \<Rightarrow> bool" where
  "replies env bs \<longleftrightarrow> (\<exists>ms. (\<forall>(m, n) \<in> set ms. is_reply m)
     \<and> bs = concat (map (\<lambda>(m, n). take n (message_frame env m)) ms))"

lemma replies_Nil [simp]: "replies env []"
  by (auto simp: replies_def intro: exI [of _ "[]"])

lemma replies_append: "replies env a \<Longrightarrow> replies env b \<Longrightarrow> replies env (a @ b)"
  unfolding replies_def
proof (elim exE conjE, goal_cases)
  case (1 ms ms')
  then show ?case by (intro exI [of _ "ms @ ms'"]) auto
qed

lemma replies_one: "is_reply m \<Longrightarrow> replies env (take n (message_frame env m))"
  unfolding replies_def by (intro exI [of _ "[(m, n)]"]) auto

text \<open>What receiving keeps: the requests' numbers, the invariant, and a wire with only replies more.\<close>

definition listened ::
  "'w codex_env \<Rightarrow> 'w Conduit \<Rightarrow> TransportState \<Rightarrow> 'w Conduit \<Rightarrow> TransportState \<Rightarrow> bool" where
  "listened env c t c' t' \<longleftrightarrow> (transport_ok t \<longrightarrow> transport_ok t'
       \<and> (ts_pending t' = ts_pending t \<or> ts_pending t' = []))
     \<and> ts_next_id t' = ts_next_id t \<and> (ts_initialized t \<longrightarrow> ts_initialized t')
     \<and> (\<exists>bs. replies env bs \<and> cd_wire c' = cd_wire c @ bs) \<and> (\<exists>bs. cd_heard c' = cd_heard c @ bs)"

lemma listened_refl: "listened env c t c t"
  by (auto simp: listened_def intro: exI [of _ "[]"])

lemma listened_trans:
  assumes "listened env c1 t1 c2 t2" "listened env c2 t2 c3 t3"
  shows "listened env c1 t1 c3 t3"
proof -
  obtain a b where "replies env a" "cd_wire c2 = cd_wire c1 @ a" "replies env b" "cd_wire c3 = cd_wire c2 @ b"
    using assms by (auto simp: listened_def)
  then have "replies env (a @ b) \<and> cd_wire c3 = cd_wire c1 @ a @ b" by (simp add: replies_append)
  then show ?thesis using assms by (auto simp: listened_def)
qed

lemma listened_state:
  assumes "transport_ok t \<Longrightarrow> transport_ok t' \<and> (ts_pending t' = ts_pending t \<or> ts_pending t' = [])"
    "ts_next_id t' = ts_next_id t" "ts_initialized t \<Longrightarrow> ts_initialized t'"
    "cd_wire c' = cd_wire c" "cd_heard c' = cd_heard c"
  shows "listened env c t c' t'"
  using assms by (auto simp: listened_def intro: exI [of _ "[]"])

lemma listened_send:
  assumes "transport_send env m c t = Some ((c', t'), r)" "is_reply m" "transport_ok t"
  shows "listened env c t c' t'"
proof -
  have "length (ts_frame t) \<le> MAX_FRAME" using assms(3) by (simp add: transport_ok_def)
  from transport_send_sent [OF assms(1) this]
  have sent: "same_dialogue t t'" "length (ts_frame t') \<le> MAX_FRAME" "cd_heard c' = cd_heard c"
    "\<exists>n. cd_wire c' = cd_wire c @ take n (message_frame env m)" by blast+
  then show ?thesis
    using same_dialogue_ok [OF sent(1) assms(3) sent(2)] replies_one [OF assms(2)]
    by (auto simp: listened_def same_dialogue_def)
qed

text \<open>The rest of a queue that holds one request at most.\<close>

lemma transport_ok_pending: "transport_ok t \<Longrightarrow> ts_pending t = p # rest \<Longrightarrow> rest = []"
  by (auto simp: transport_ok_def)

lemma transport_ok_idle:
  "transport_ok t \<Longrightarrow> ts_pending t = p # rest \<Longrightarrow> ts_initialized t' \<longleftrightarrow> ts_initialized t \<or> pd_kind p = RK_Initialize
    \<Longrightarrow> ts_line t' = ts_line t \<Longrightarrow> length (ts_frame t') \<le> MAX_FRAME \<Longrightarrow> ts_stdout t' = ts_stdout t
    \<Longrightarrow> ts_notifications t' = ts_notifications t \<Longrightarrow> ts_next_id t' = ts_next_id t \<Longrightarrow> ts_pending t' = []
    \<Longrightarrow> transport_ok t'"
  by (auto simp: transport_ok_def)

text \<open>
  One inbound message. A response or a native error that is accepted answers the request in
  flight and takes it off the queue; without a request in flight nothing is awaited.
\<close>

definition inbound_post ::
  "'w codex_env \<Rightarrow> Inbound \<Rightarrow> 'w Conduit \<Rightarrow> TransportState \<Rightarrow> 'w Conduit \<times> TransportState
    \<Rightarrow> CodexError + Received option \<Rightarrow> bool" where
  "inbound_post env inbound c t s r \<longleftrightarrow> (case s of (c', t') \<Rightarrow>
     listened env c t c' t' \<and> cd_heard c' = cd_heard c \<and> ts_line t' = ts_line t
     \<and> (r = Inl XE_Native \<longrightarrow> (\<exists>p. ts_pending t = [p] \<and> inbound = IN_NativeError (pd_id p)
          \<and> cd_wire c' = cd_wire c \<and> ts_pending t' = [] \<and> \<not> ts_ambiguous t'))
     \<and> (r = Inr None \<longrightarrow> ts_pending t \<noteq> [] \<and> ts_pending t' = ts_pending t)
     \<and> (\<forall>turn. r = Inr (Some (RX_TurnStarted turn)) \<longrightarrow> (\<exists>p. ts_pending t = [p]
          \<and> inbound = IN_Response (pd_id p) \<and> pd_kind p = RK_TurnStart \<and> cd_wire c' = cd_wire c
          \<and> ts_pending t' = [] \<and> \<not> ts_ambiguous t')))"

lemma handle_response_post:
  assumes ok: "transport_ok t" and run: "handle_response env i c t = Some (s, r)"
  shows "inbound_post env (IN_Response i) c t s r"
proof (cases "ts_pending t")
  case Nil
  with run show ?thesis by (auto simp: handle_response_def inbound_post_def listened_refl)
next
  case (Cons p rest)
  note rest = transport_ok_pending [OF ok Cons]
  show ?thesis
  proof (cases "pd_id p = i")
    case False
    with run Cons show ?thesis
      by (auto simp: handle_response_def inbound_post_def intro!: listened_state)
  next
    case match: True
    let ?parsed = "parse_response (ce_json env) (ce_blake3 env) (ts_line t) p"
    show ?thesis
    proof (cases ?parsed)
      case (Inl e)
      then have "e \<noteq> XE_Native" using parse_response_errors by (force simp: only_errors_def)
      with run Cons match Inl show ?thesis
        by (auto simp: handle_response_def inbound_post_def intro: listened_state)
    next
      case (Inr received)
      note kind = parse_response_kind [OF Inr]
      have init: "ts_initialized t \<longleftrightarrow> pd_kind p \<noteq> RK_Initialize"
        using ok Cons by (auto simp: transport_ok_def pending_ok_def)
      show ?thesis
      proof (cases "received = RX_Initialized")
        case False
        have "transport_ok (t\<lparr>ts_ambiguous := False, ts_pending := []\<rparr>)"
          using transport_ok_idle [OF ok Cons] ok False kind(1) by (auto simp: transport_ok_def)
        with run Cons match Inr False rest kind(3) show ?thesis
          by (auto simp: handle_response_def inbound_post_def Let_def intro: listened_state)
      next
        case True
        let ?t = "t\<lparr>ts_ambiguous := False\<rparr>"
        obtain c1 t1 r1 where send: "transport_send env initialized_notification c ?t = Some ((c1, t1), r1)"
          using run Cons match Inr True
          by (auto simp: handle_response_def Let_def and_then_def split: bind_splits)
        have ok': "transport_ok ?t" using ok by simp
        have listen: "listened env c ?t c1 t1"
          by (rule listened_send [OF send _ ok']) (simp add: is_reply_def)
        have "length (ts_frame ?t) \<le> MAX_FRAME" using ok' by (simp add: transport_ok_def)
        note sent = transport_send_sent [OF send this]
        have keep: "ts_pending t1 = ts_pending t" "ts_line t1 = ts_line t" "cd_heard c1 = cd_heard c"
          "same_dialogue ?t t1"
          using sent by (auto simp: same_dialogue_def)
        show ?thesis
        proof (cases r1)
          case (Inl e)
          have "e \<noteq> XE_Native" using transport_send_errors [of env initialized_notification c ?t "(c1, t1)" e] send Inl by auto
          with run Cons match Inr True send Inl listen keep show ?thesis
            by (auto simp: handle_response_def inbound_post_def Let_def listened_def)
        next
          case (Inr receipt)
          have "transport_ok t1" using listen ok' by (simp add: listened_def)
          then have "transport_ok (t1\<lparr>ts_initialized := True, ts_pending := []\<rparr>)"
            using transport_ok_idle [of t1 p rest] keep Cons init True kind(1)
            by (auto simp: transport_ok_def)
          with run Cons match \<open>?parsed = Inr received\<close> True send Inr listen keep rest show ?thesis
            by (auto simp: handle_response_def inbound_post_def Let_def listened_def same_dialogue_def)
        qed
      qed
    qed
  qed
qed

lemma handle_inbound_post:
  assumes ok: "transport_ok t" and run: "handle_inbound env inbound c t = Some (s, r)"
  shows "inbound_post env inbound c t s r"
proof (cases inbound)
  case (IN_Response i)
  with handle_response_post [OF ok] run show ?thesis by (simp add: handle_inbound_def)
next
  case (IN_NativeError i)
  show ?thesis
  proof (cases "ts_pending t")
    case Nil
    with run IN_NativeError show ?thesis
      by (auto simp: handle_inbound_def inbound_post_def intro!: listened_state)
  next
    case (Cons p rest)
    note rest = transport_ok_pending [OF ok Cons]
    have "transport_ok (t\<lparr>ts_ambiguous := False, ts_pending := []\<rparr>)"
      using ok by (auto simp: transport_ok_def)
    with run IN_NativeError Cons rest show ?thesis
      by (auto simp: handle_inbound_def inbound_post_def split: if_splits intro!: listened_state)
  qed
next
  case (IN_Notification n)
  have "ts_initialized t \<Longrightarrow> length (ts_notifications t) \<noteq> MAX_QUEUE
    \<Longrightarrow> transport_ok (t\<lparr>ts_notifications := ts_notifications t @ [n]\<rparr>)"
    using ok by (auto simp: transport_ok_def)
  with run IN_Notification show ?thesis
    by (auto simp: handle_inbound_def inbound_post_def split: if_splits intro!: listened_state)
next
  case (IN_ServerRequest i)
  then obtain c1 t1 r1 where send: "transport_send env (rejection i) c t = Some ((c1, t1), r1)"
    using run by (auto simp: handle_inbound_def and_then_def split: bind_splits)
  have listen: "listened env c t c1 t1"
    by (rule listened_send [OF send _ ok]) (auto simp: is_reply_def)
  have "length (ts_frame t) \<le> MAX_FRAME" using ok by (simp add: transport_ok_def)
  note sent = transport_send_sent [OF send this]
  have keep: "ts_pending t1 = ts_pending t" "ts_line t1 = ts_line t" "cd_heard c1 = cd_heard c"
    using sent by (auto simp: same_dialogue_def)
  have "r1 \<noteq> Inl XE_Native" using transport_send_errors [of env "rejection i" c t "(c1, t1)" XE_Native] send by auto
  with run IN_ServerRequest send listen keep show ?thesis
    by (cases r1) (auto simp: handle_inbound_def inbound_post_def split: if_splits)
qed

text \<open>
  A whole receive. The last line heard is the one that decides it: a native error or the start of a
  turn answers the request in flight, and with none in flight nothing is awaited any more.
\<close>

definition decided :: "'w codex_env \<Rightarrow> 'w Conduit \<Rightarrow> 'w Conduit \<Rightarrow> Inbound \<Rightarrow> bool" where
  "decided env c c' inbound \<longleftrightarrow> (\<exists>line before. classify (ce_json env) line = Inr inbound
     \<and> cd_heard c' = cd_heard c @ before @ line @ [10])"

lemma decided_later: "cd_heard c1 = cd_heard c @ bs \<Longrightarrow> decided env c1 c' inbound \<Longrightarrow> decided env c c' inbound"
  unfolding decided_def
proof (elim exE conjE, goal_cases)
  case (1 line before)
  then show ?case by (intro exI [of _ line] exI [of _ "bs @ before"]) simp
qed

definition receive_post ::
  "'w codex_env \<Rightarrow> 'w Conduit \<Rightarrow> TransportState \<Rightarrow> 'w Conduit \<Rightarrow> TransportState \<Rightarrow> CodexError + 'r
    \<Rightarrow> (string \<Rightarrow> 'r) \<Rightarrow> bool" where
  "receive_post env c t c' t' r turned \<longleftrightarrow>
     listened env c t c' t'
     \<and> (r = Inl XE_Native \<longrightarrow> (\<exists>p. ts_pending t = [p] \<and> ts_pending t' = [] \<and> \<not> ts_ambiguous t'
          \<and> decided env c c' (IN_NativeError (pd_id p))))
     \<and> (\<forall>turn. r = Inr (turned turn) \<longrightarrow> (\<exists>p. ts_pending t = [p] \<and> ts_pending t' = []
          \<and> \<not> ts_ambiguous t' \<and> pd_kind p = RK_TurnStart \<and> decided env c c' (IN_Response (pd_id p))))"

lemma receive_post_later:
  assumes "listened env c t c1 t1" "ts_pending t1 = ts_pending t" "receive_post env c1 t1 c' t' r turned"
  shows "receive_post env c t c' t' r turned"
proof -
  obtain bs where heard: "cd_heard c1 = cd_heard c @ bs" using assms(1) by (auto simp: listened_def)
  have "listened env c t c' t'"
    using listened_trans [OF assms(1)] assms(3) by (simp add: receive_post_def)
  with assms(2,3) show ?thesis
    unfolding receive_post_def using decided_later [OF heard] by (metis (no_types, lifting))
qed

lemma receive_post_quiet:
  "listened env c t c' t' \<Longrightarrow> r \<noteq> Inl XE_Native \<Longrightarrow> (\<And>x. r \<noteq> Inr x) \<Longrightarrow> receive_post env c t c' t' r turned"
  by (simp add: receive_post_def)

text \<open>A line within its bound, counted.\<close>

lemma receive_line_post:
  assumes ok: "transport_ok t" and run: "receive_line env until c t = Some ((c', t'), r)"
  shows "listened env c t c' t' \<and> ts_pending t' = ts_pending t \<and> r \<noteq> Inl XE_Native
    \<and> ts_frame t' = ts_frame t \<and> cd_wire c' = cd_wire c
    \<and> (\<forall>u. r = Inr u \<longrightarrow> cd_heard c' = cd_heard c @ ts_line t' @ [10])"
proof -
  obtain c1 now where now: "conduit_now (ce_clock env) c = (c1, now)" by (cases "conduit_now (ce_clock env) c")
  obtain c2 line r2 where read: "read_line_until (ce_clock env) (ce_reader env) (max 0 (until - now)) c1 = Some ((c2, line), r2)"
    using run now by (auto simp: receive_line_def split: option.splits prod.splits)
  note heard = read_line_until_heard [OF read, unfolded line_heard_def prod.case]
  have line: "length line \<le> MAX_LINE" "cd_wire c2 = cd_wire c" using heard conduit_nowD [OF now] by simp_all
  have ok_line: "transport_ok (t\<lparr>ts_line := line\<rparr>)" using ok line(1) by (rule transport_ok_line)
  have count: "ts_stdout t + n \<le> MAX_STDOUT \<Longrightarrow> transport_ok (t\<lparr>ts_line := line, ts_stdout := ts_stdout t + n\<rparr>)" for n
    using ok_line by (simp add: transport_ok_def)
  have grown: "\<exists>bs. cd_heard c2 = cd_heard c @ bs"
    using read_line_until_grows [OF read] conduit_nowD [OF now] by simp
  show ?thesis
  proof (cases r2)
    case (Inl e)
    with read have "e \<noteq> XE_Native" by (auto dest: read_line_until_errors)
    with run now read Inl ok_line line grown show ?thesis
      by (auto simp: receive_line_def Let_def listened_def split: if_splits intro: exI [of _ "[]"])
  next
    case (Inr n)
    with run now read ok_line line count [of n] heard grown conduit_nowD [OF now] show ?thesis
      by (auto simp: receive_line_def Let_def listened_def split: if_splits intro: exI [of _ "[]"])
  qed
qed

lemma receive_step_post:
  assumes ok: "transport_ok t" and run: "receive_step env until c t = Some ((c', t'), r)"
  shows "receive_post env c t c' t' r (\<lambda>turn. Some (RX_TurnStarted turn))
    \<and> (r = Inr None \<longrightarrow> ts_pending t \<noteq> [] \<and> ts_pending t' = ts_pending t)"
proof -
  obtain c1 t1 r1 where line: "receive_line env until c t = Some ((c1, t1), r1)"
    using run by (auto simp: receive_step_def and_then_def split: bind_splits)
  note post = receive_line_post [OF ok line]
  show ?thesis
  proof (cases r1)
    case (Inl e)
    with run line post show ?thesis by (auto simp: receive_step_def intro: receive_post_quiet)
  next
    case (Inr u)
    have ok1: "transport_ok t1" using post ok by (simp add: listened_def)
    show ?thesis
    proof (cases "classify (ce_json env) (ts_line t1)")
      case (Inl e)
      then have "e \<noteq> XE_Native" using classify_errors [of "ce_json env" "ts_line t1"] by (auto simp: only_errors_def)
      moreover have "listened env c1 t1 c1 (wiped_line (suspect t1))"
        by (rule listened_state) (simp_all add: transport_ok_wiped, simp_all add: wiped_line_def)
      ultimately show ?thesis
        using run line Inl \<open>r1 = Inr u\<close> post
        by (auto simp: receive_step_def intro!: receive_post_quiet intro: listened_trans)
    next
      case (Inr inbound)
      obtain c2 t2 r2 where inb: "handle_inbound env inbound c1 t1 = Some ((c2, t2), r2)"
        using run line Inr \<open>r1 = Inr u\<close> by (auto simp: receive_step_def split: option.splits)
      have eq: "c' = c2" "t' = wiped_line t2" "r = r2"
        using run line Inr \<open>r1 = Inr u\<close> inb by (simp_all add: receive_step_def)
      note done' = handle_inbound_post [OF ok1 inb, unfolded inbound_post_def prod.case]
      have wiped: "listened env c2 t2 c2 (wiped_line t2)"
        by (rule listened_state) (simp_all add: transport_ok_wiped, simp_all add: wiped_line_def)
      have listen: "listened env c t c' t'"
        unfolding eq using listened_trans [OF listened_trans [OF conjunct1 [OF post] conjunct1 [OF done']] wiped] .
      have heard: "decided env c c' inbound"
        unfolding decided_def using post done' \<open>r1 = Inr u\<close> Inr
        by (intro exI [of _ "ts_line t1"] exI [of _ "[]"]) (simp add: eq)
      have keep: "ts_pending (wiped_line t2) = ts_pending t2" "ts_ambiguous (wiped_line t2) = ts_ambiguous t2"
        by (simp_all add: wiped_line_def)
      have p1: "ts_pending t1 = ts_pending t" using post by simp
      have "receive_post env c t c' t' r (\<lambda>turn. Some (RX_TurnStarted turn))"
        unfolding receive_post_def using listen done' heard keep p1 by (auto simp: eq)
      moreover have "r = Inr None \<longrightarrow> ts_pending t \<noteq> [] \<and> ts_pending t' = ts_pending t"
        using done' keep p1 by (auto simp: eq)
      ultimately show ?thesis by simp
    qed
  qed
qed

lemma next_loop_post:
  assumes "next_loop env until c t = Some p" "transport_ok t"
  shows "receive_post env c t (fst (fst p)) (snd (fst p)) (snd p) RX_TurnStarted"
proof -
  have "transport_ok t \<longrightarrow> receive_post env c t (fst (fst p)) (snd (fst p)) (snd p) RX_TurnStarted"
  proof (rule next_loop.raw_induct [where P = "\<lambda>env until c t p. transport_ok t \<longrightarrow>
      receive_post env c t (fst (fst p)) (snd (fst p)) (snd p) RX_TurnStarted", OF _ assms(1)], goal_cases)
    case (1 loop env until c t p)
    show ?case
    proof
      assume ok: "transport_ok t"
      obtain c1 t1 r1 where step: "receive_step env until c t = Some ((c1, t1), r1)"
        using 1(2) by (auto simp: and_then_def split: bind_splits)
      note post = receive_step_post [OF ok step]
      show "receive_post env c t (fst (fst p)) (snd (fst p)) (snd p) RX_TurnStarted"
      proof (cases r1)
        case (Inl e)
        with 1(2) step post show ?thesis by (auto simp: receive_post_def)
      next
        case (Inr outcome)
        show ?thesis
        proof (cases outcome)
          case None
          have ok1: "transport_ok t1" using post ok by (simp add: receive_post_def listened_def)
          have "loop env until c1 t1 = Some p" using 1(2) step Inr None by simp
          from 1(1) [OF this] ok1 post Inr None show ?thesis
            by (intro receive_post_later [of env c t c1 t1]) (auto simp: receive_post_def)
        next
          case (Some received)
          with 1(2) step Inr post show ?thesis by (auto simp: receive_post_def)
        qed
      qed
    qed
  qed
  with assms(2) show ?thesis by blast
qed

theorem next_until_post:
  assumes ok: "transport_ok t" and run: "next_until env deadline c t = Some ((c', t'), r)"
  shows "receive_post env c t c' t' r RX_TurnStarted"
proof (cases "ts_pending t = [] \<and> ts_notifications t \<noteq> []")
  case True
  then have "transport_ok (t\<lparr>ts_notifications := tl (ts_notifications t)\<rparr>)"
    using ok by (auto simp: transport_ok_def)
  with True run show ?thesis
    by (auto simp: next_until_def receive_post_def intro!: listened_state)
next
  case False
  obtain c1 now where now: "conduit_now (ce_clock env) c = (c1, now)" by (cases "conduit_now (ce_clock env) c")
  have "next_loop env (now + deadline) c1 t = Some ((c', t'), r)" using run False now by (auto simp: next_until_def)
  from next_loop_post [OF this ok] have post: "receive_post env c1 t c' t' r RX_TurnStarted" by simp
  have "listened env c t c1 t" by (rule listened_state) (use conduit_nowD [OF now] in auto)
  then show ?thesis by (rule receive_post_later [OF _ _ post]) simp
qed

section \<open>Receiving while nothing is in flight\<close>

lemma transport_send_deadline:
  assumes "transport_send env m c t = Some ((c', t'), r)" "r = Inl XE_Deadline \<or> (\<exists>x. r = Inr x)"
  shows "ts_frame t' = []"
  using assms
  by (auto simp: transport_send_def transport_write_def frame_encode_def split: prod.splits option.splits sum.splits if_splits)

lemma idle_step:
  assumes ok: "transport_ok t" and idle: "ts_pending t = []"
    and run: "receive_step env until c t = Some ((c', t'), r)" and r: "r = Inl XE_Deadline \<or> (\<exists>x. r = Inr x)"
  shows "ts_frame t' = ts_frame t \<or> ts_frame t' = []"
proof -
  obtain c1 t1 r1 where line: "receive_line env until c t = Some ((c1, t1), r1)"
    using run by (auto simp: receive_step_def and_then_def split: bind_splits)
  note post = receive_line_post [OF ok line]
  show ?thesis
  proof (cases r1)
    case (Inl e)
    with run line post show ?thesis by (auto simp: receive_step_def)
  next
    case (Inr u)
    show ?thesis
    proof (cases "classify (ce_json env) (ts_line t1)")
      case (Inl e)
      then show ?thesis
        using run line Inr post classify_errors [of "ce_json env" "ts_line t1"]
        by (auto simp: receive_step_def wiped_line_def)
    next
      case inb: (Inr inbound)
      have p1: "ts_pending t1 = []" using post idle by simp
      obtain c2 t2 r2 where h: "handle_inbound env inbound c1 t1 = Some ((c2, t2), r2)" "t' = wiped_line t2" "r = r2"
        using run line Inr inb by (auto simp: receive_step_def split: option.splits)
      have "ts_frame t2 = ts_frame t1 \<or> ts_frame t2 = []"
      proof (cases inbound)
        case (IN_ServerRequest i)
        obtain s3 r3 where send: "transport_send env (rejection i) c1 t1 = Some (s3, r3)"
          using h(1) IN_ServerRequest by (auto simp: handle_inbound_def and_then_def split: bind_splits)
        obtain c3 t3 where s3: "s3 = (c3, t3)" by (cases s3)
        have "t2 = t3" "r3 = Inl XE_Deadline \<or> (\<exists>x. r3 = Inr x)"
          using h(1,3) r IN_ServerRequest send s3 by (cases r3; auto simp: handle_inbound_def)+
        with transport_send_deadline [OF send [unfolded s3]] show ?thesis by simp
      qed (use h(1) p1 in \<open>auto simp: handle_inbound_def handle_response_def split: if_splits\<close>)
      with h post show ?thesis by (auto simp: wiped_line_def)
    qed
  qed
qed

theorem idle_receive:
  assumes ok: "transport_ok t" and idle: "ts_pending t = []"
    and run: "next_until env deadline c t = Some ((c', t'), r)" and r: "r = Inl XE_Deadline \<or> (\<exists>x. r = Inr x)"
  shows "ts_frame t' = ts_frame t \<or> ts_frame t' = []"
proof (cases "ts_notifications t = []")
  case False
  with idle run show ?thesis by (auto simp: next_until_def)
next
  case True
  obtain c1 now where now: "conduit_now (ce_clock env) c = (c1, now)" by (cases "conduit_now (ce_clock env) c")
  have loop: "next_loop env (now + deadline) c1 t = Some ((c', t'), r)" using run True now by (auto simp: next_until_def)
  note loop' = loop [unfolded next_loop.simps [of env "now + deadline" c1 t]]
  obtain c2 t2 r2 where step: "receive_step env (now + deadline) c1 t = Some ((c2, t2), r2)"
    using loop' by (cases "receive_step env (now + deadline) c1 t") (auto simp: and_then_def)
  have "r2 \<noteq> Inr None" using receive_step_post [OF ok step] idle by auto
  then have "t2 = t' \<and> (r2 = Inl XE_Deadline \<or> (\<exists>x. r2 = Inr x))"
    using loop' step r by (cases r2) (auto split: option.splits)
  with idle_step [OF ok idle step] show ?thesis by simp
qed

end
