(* ===== verification/Codex_Properties.thy ===== *)
theory Codex_Properties
  imports Codex_Wire
begin

text \<open>
  What holds of a Codex controller on every run: its transport stays within its bounds, it writes a
  reserved turn at most once and only under its checks, and what it says about the write agrees
  with the bytes on the wire and the lines heard.
\<close>

section \<open>Receiving through the controller\<close>

abbreviation xc_state :: "'p CodexController \<Rightarrow> TransportState" where
  "xc_state x \<equiv> ct_state (xc_transport x)"

text \<open>A controller after work on its transport: the same owner, the epoch possibly further.\<close>

definition same_owner :: "'p CodexController \<Rightarrow> 'p CodexController \<Rightarrow> bool" where
  "same_owner x x' \<longleftrightarrow> (\<exists>tr epoch. x' = x\<lparr>xc_transport := tr, xc_epoch := epoch\<rparr>)"

lemma same_owner_refl [intro!]: "same_owner x x"
  unfolding same_owner_def by (intro exI [of _ "xc_transport x"] exI [of _ "xc_epoch x"]) simp

lemma same_owner_trans: "same_owner x y \<Longrightarrow> same_owner y z \<Longrightarrow> same_owner x z"
  by (force simp: same_owner_def)

lemma same_owner_keeps:
  assumes "same_owner x x'"
  shows "xc_persist x' = xc_persist x" "xc_birth x' = xc_birth x" "xc_thread_ref x' = xc_thread_ref x"
    "xc_create_attempt_id x' = xc_create_attempt_id x" "xc_lane_probe x' = xc_lane_probe x"
    "xc_reconciling x' = xc_reconciling x" "xc_started_turn x' = xc_started_turn x"
    "xc_pending_terminal x' = xc_pending_terminal x" "xc_terminal x' = xc_terminal x"
    "xc_lost_reported x' = xc_lost_reported x" "xc_degraded_reported x' = xc_degraded_reported x"
  using assms by (auto simp: same_owner_def)

text \<open>What no operation but an observation changes.\<close>

definition same_view :: "'p CodexController \<Rightarrow> 'p CodexController \<Rightarrow> bool" where
  "same_view x x' \<longleftrightarrow> xc_birth x' = xc_birth x \<and> xc_thread_ref x' = xc_thread_ref x
     \<and> xc_started_turn x' = xc_started_turn x \<and> xc_pending_terminal x' = xc_pending_terminal x
     \<and> xc_terminal x' = xc_terminal x \<and> xc_lost_reported x' = xc_lost_reported x"

lemma same_view_refl: "same_view x x"
  by (simp add: same_view_def)

lemma same_view_trans: "same_view x y \<Longrightarrow> same_view y z \<Longrightarrow> same_view x z"
  by (simp add: same_view_def)

lemma same_owner_view: "same_owner x x' \<Longrightarrow> same_view x x'"
  by (simp add: same_view_def same_owner_keeps)

lemma same_view_give_up [simp]:
  "same_view x (give_up_lane y) = same_view x y" "same_view x (discard_turn y) = same_view x y"
  by (simp_all add: same_view_def give_up_lane_def discard_turn_def)

lemma receive_until_post:
  assumes ok: "transport_ok (ct_state tr)" and run: "receive_until env os d c tr = Some ((c', tr'), r)"
  shows "receive_post env c (ct_state tr) c' (ct_state tr') r RX_TurnStarted
    \<and> (ts_pending (ct_state tr) = [] \<and> (r = Inl XE_Deadline \<or> (\<exists>x. r = Inr x))
       \<longrightarrow> ts_frame (ct_state tr') = ts_frame (ct_state tr) \<or> ts_frame (ct_state tr') = [])"
proof -
  obtain c1 b where flags: "(if ct_stderr tr then on_world (pr_stderr_bad os) c else (c, (False, False))) = (c1, b)"
    by (cases "if ct_stderr tr then on_world (pr_stderr_bad os) c else (c, (False, False))")
  have keep: "cd_wire c1 = cd_wire c" "cd_heard c1 = cd_heard c"
    using flags by (auto split: if_splits dest: on_worldD)
  have listen: "listened env c (ct_state tr) c1 (ct_state tr)"
    by (rule listened_state) (use keep in auto)
  obtain overflow failed where b: "b = (overflow, failed)" by (cases b)
  show ?thesis
  proof (cases "overflow \<or> failed \<or> \<not> ct_input tr")
    case True
    then have "r = Inl XE_Bounds \<or> r = Inl XE_Closed" "c' = c1" "tr' = tr"
      using run flags b by (auto simp: receive_until_def split: if_splits)
    then show ?thesis using listen by (auto intro: receive_post_quiet)
  next
    case False
    then obtain t' where next': "next_until env d c1 (ct_state tr) = Some ((c', t'), r)" and tr': "tr' = tr\<lparr>ct_state := t'\<rparr>"
      using run flags b by (auto simp: receive_until_def on_state_def)
    note post = next_until_post [OF ok next']
    have "receive_post env c (ct_state tr) c' t' r RX_TurnStarted"
      by (rule receive_post_later [OF listen _ post]) simp
    then show ?thesis using idle_receive [OF ok _ next'] tr' by auto
  qed
qed

lemma controller_receive_post:
  assumes ok: "transport_ok (xc_state x)" and run: "controller_receive env os d c x = Some ((c', x'), r)"
  shows "receive_post env c (xc_state x) c' (xc_state x') r RX_TurnStarted \<and> (\<exists>tr. x' = x\<lparr>xc_transport := tr\<rparr>)
    \<and> (ts_pending (xc_state x) = [] \<and> (r = Inl XE_Deadline \<or> (\<exists>v. r = Inr v))
       \<longrightarrow> ts_frame (xc_state x') = ts_frame (xc_state x) \<or> ts_frame (xc_state x') = [])"
proof -
  obtain tr' where "receive_until env os d c (xc_transport x) = Some ((c', tr'), r)" "x' = x\<lparr>xc_transport := tr'\<rparr>"
    using run by (auto simp: controller_receive_def on_transport_def)
  with receive_until_post [OF ok this(1)] show ?thesis by auto
qed

lemma receive_post_listened: "receive_post env c t c' t' r turned \<Longrightarrow> listened env c t c' t'"
  by (simp add: receive_post_def)

lemma listened_ok: "listened env c t c' t' \<Longrightarrow> transport_ok t \<Longrightarrow> transport_ok t'"
  by (simp add: listened_def)

section \<open>The drain\<close>

text \<open>
  Draining adds replies at most; one that finds nothing leaves a prepared frame as it was, unless a
  reply took its place.
\<close>

definition drained ::
  "'w codex_env \<Rightarrow> 'w Conduit \<Rightarrow> 'p CodexController \<Rightarrow> 'w Conduit \<Rightarrow> 'p CodexController \<Rightarrow> CodexError + unit \<Rightarrow> bool" where
  "drained env c x c' x' r \<longleftrightarrow> listened env c (xc_state x) c' (xc_state x') \<and> same_owner x x'
     \<and> (ts_pending (xc_state x) = [] \<and> r = Inr ()
        \<longrightarrow> ts_frame (xc_state x') = ts_frame (xc_state x) \<or> ts_frame (xc_state x') = [])"

lemma drain_before_mutation_post:
  assumes "drain_before_mutation env os c x = Some p" "transport_ok (xc_state x)"
  shows "drained env c x (fst (fst p)) (snd (fst p)) (snd p)"
proof -
  have "transport_ok (xc_state x) \<longrightarrow> drained env c x (fst (fst p)) (snd (fst p)) (snd p)"
  proof (rule drain_induct [where P = "\<lambda>env os c x p.
      transport_ok (xc_state x) \<longrightarrow> drained env c x (fst (fst p)) (snd (fst p)) (snd p)", OF _ assms(1)], goal_cases)
    case (1 loop env os c x p)
    show ?case
    proof
      assume ok: "transport_ok (xc_state x)"
      obtain c1 x1 r1 where recv: "controller_receive env os 0 c x = Some ((c1, x1), r1)"
        using 1(2) by (auto split: option.splits)
      note post = controller_receive_post [OF ok recv]
      have listen: "listened env c (xc_state x) c1 (xc_state x1)" using post by (simp add: receive_post_def)
      have owner: "same_owner x x1"
        using post unfolding same_owner_def by (auto intro!: exI [of _ "xc_epoch x"])
      show "drained env c x (fst (fst p)) (snd (fst p)) (snd p)"
      proof (cases r1)
        case (Inl e)
        with 1(2) recv post listen owner show ?thesis
          by (auto simp: drained_def split: if_splits)
      next
        case (Inr received)
        let ?x = "bump_epoch x1"
        have bump: "xc_state ?x = xc_state x1" "same_owner x1 ?x"
          by (auto simp: bump_epoch_def same_owner_def intro!: exI [of _ "xc_transport x1"])
        have "loop env os c1 ?x = Some p" using 1(2) recv Inr by simp
        from 1(1) [OF this] have rest: "drained env c1 ?x (fst (fst p)) (snd (fst p)) (snd p)"
          using listened_ok [OF listen ok] bump(1) by simp
        have idle: "ts_pending (xc_state x1) = []" if "ts_pending (xc_state x) = []"
          using that listen ok by (auto simp: listened_def)
        show ?thesis
          unfolding drained_def
        proof (intro conjI impI)
          show "listened env c (xc_state x) (fst (fst p)) (xc_state (snd (fst p)))"
            using listened_trans [OF listen] rest bump(1) by (simp add: drained_def)
          show "same_owner x (snd (fst p))"
            using owner bump(2) rest by (auto simp: drained_def intro: same_owner_trans)
          show "ts_frame (xc_state (snd (fst p))) = ts_frame (xc_state x) \<or> ts_frame (xc_state (snd (fst p))) = []"
            if "ts_pending (xc_state x) = [] \<and> snd p = Inr ()"
            using that idle rest post Inr bump(1) by (auto simp: drained_def)
        qed
      qed
    qed
  qed
  with assms(2) show ?thesis by blast
qed

section \<open>Requests\<close>

text \<open>A step that neither writes nor reads.\<close>

definition silent :: "'w Conduit \<Rightarrow> 'w Conduit \<Rightarrow> bool" where
  "silent c c' \<longleftrightarrow> cd_wire c' = cd_wire c \<and> cd_heard c' = cd_heard c"

lemma silent_refl [simp]: "silent c c"
  by (simp add: silent_def)

lemma silent_trans: "silent a b \<Longrightarrow> silent b c \<Longrightarrow> silent a c"
  by (simp add: silent_def)

lemma on_world_silent: "on_world call c = (c', v) \<Longrightarrow> silent c c'"
  by (drule on_worldD) (simp add: silent_def)

lemma try_wait_silent: "try_wait os pid c = (c', v) \<Longrightarrow> silent c c'"
  using on_world_silent [of "pr_try_wait os pid" c]
  by (cases "on_world (pr_try_wait os pid) c")
    (auto simp: try_wait_def silent_def split: option.splits)

lemma listened_silent: "silent c c' \<Longrightarrow> listened env c t c' t"
  by (rule listened_state) (simp_all add: silent_def)

lemma take_request_id_post:
  assumes "take_request_id t = (t', r)" and ok: "transport_ok t"
  shows "transport_ok t' \<and> ts_frame t' = ts_frame t \<and> ts_pending t' = ts_pending t
    \<and> ts_initialized t' = ts_initialized t
    \<and> (\<forall>e. r = Inl e \<longrightarrow> t' = t)
    \<and> (\<forall>i. r = Inr i \<longrightarrow> i = ts_next_id t \<and> ts_pending t = [] \<and> ts_initialized t \<and> \<not> ts_ambiguous t
         \<and> i < ts_next_id t' \<and> \<not> ts_ambiguous t')"
proof -
  have "2 \<le> n" if "checked_add (ts_next_id t) 1 = Some n" for n
    using checked_add_one_less [OF that] ok by (auto simp: transport_ok_def intro: order_trans less_imp_le)
  then show ?thesis
    using assms by (auto simp: take_request_id_def transport_ok_def checked_add_one_less split: if_splits option.splits)
qed

lemma prepare_turn_post:
  assumes run: "prepare_turn j thread text' t = (t', r)" and ok: "transport_ok t"
  shows "transport_ok t' \<and> (\<forall>i. r = Inr i \<longrightarrow> i = ts_next_id t \<and> ts_pending t = [] \<and> ts_initialized t
     \<and> ts_pending t' = [] \<and> ts_initialized t' \<and> i < ts_next_id t'
     \<and> ts_frame t' = concat (cj_pieces j (turn_request i thread text')) @ [10])"
proof -
  obtain t1 r1 where take': "take_request_id t = (t1, r1)" by (cases "take_request_id t")
  note post = take_request_id_post [OF take' ok]
  show ?thesis
  proof (cases r1)
    case (Inl e)
    with run take' post show ?thesis by (auto simp: prepare_turn_def)
  next
    case (Inr i)
    obtain frame e where enc: "frame_encode (cj_pieces j (turn_request i thread text')) = (frame, e)"
      by (cases "frame_encode (cj_pieces j (turn_request i thread text'))")
    note bound = frame_encode_bound [OF enc]
    show ?thesis
    proof (cases e)
      case (Inl a)
      with run take' Inr enc post show ?thesis by (auto simp: prepare_turn_def intro: transport_ok_frame)
    next
      case e: (Inr u)
      then have "frame = concat (cj_pieces j (turn_request i thread text')) @ [10]"
        using enc by (simp add: frame_encode_iff)
      with run take' Inr enc e post bound show ?thesis
        by (auto simp: prepare_turn_def intro: transport_ok_frame)
    qed
  qed
qed

definition turn_frame :: "'w codex_env \<Rightarrow> 'p CodexController \<Rightarrow> string \<Rightarrow> ControllerCommand \<Rightarrow> bytes" where
  "turn_frame env x thread command =
     message_frame env (turn_request (ts_next_id (xc_state x)) thread (fixed_turn command))"

lemma prepare_turn_frame_post:
  assumes run: "on_transport x (prepare_turn_frame env os thread (fixed_turn command) c (xc_transport x)) = Some ((c', x'), r)"
    and ok: "transport_ok (xc_state x)"
  shows "silent c c' \<and> same_owner x x' \<and> transport_ok (xc_state x')
    \<and> (\<forall>i. r = Inr i \<longrightarrow> i = ts_next_id (xc_state x) \<and> ts_initialized (xc_state x)
       \<and> ts_pending (xc_state x') = [] \<and> ts_initialized (xc_state x') \<and> i < ts_next_id (xc_state x')
       \<and> ts_frame (xc_state x') = turn_frame env x thread command)"
proof -
  obtain c1 live where w: "ensure_child_live os c (xc_transport x) = (c1, live)"
    by (cases "ensure_child_live os c (xc_transport x)")
  have s: "silent c c1"
    using w try_wait_silent [of os "ct_child (xc_transport x)" c]
    by (auto simp: ensure_child_live_def split: prod.splits)
  have owner: "same_owner x (x\<lparr>xc_transport := tr\<rparr>)" for tr
    unfolding same_owner_def by (intro exI [of _ tr] exI [of _ "xc_epoch x"]) simp
  show ?thesis
  proof (cases "live = Inr () \<and> ct_input (xc_transport x)")
    case False
    then have "\<exists>e. r = Inl e" "c' = c1" "x' = x"
      using run w by (cases live; auto simp: prepare_turn_frame_def live_request_def on_transport_def split: if_splits)+
    with s ok show ?thesis by auto
  next
    case True
    obtain t' r' where prep: "prepare_turn (ce_json env) thread (fixed_turn command) (xc_state x) = (t', r')"
      by (cases "prepare_turn (ce_json env) thread (fixed_turn command) (xc_state x)")
    have eq: "c' = c1" "r = r'" "x' = x\<lparr>xc_transport := (xc_transport x)\<lparr>ct_state := t'\<rparr>\<rparr>"
      using run w True prep by (simp_all add: prepare_turn_frame_def live_request_def on_transport_def on_state_def)
    with prepare_turn_post [OF prep ok] s owner show ?thesis
      by (auto simp: turn_frame_def message_frame_def)
  qed
qed

lemma prepare_and_drain_post:
  assumes run: "prepare_and_drain env os thread command c x = Some ((c', x'), r)" and ok: "transport_ok (xc_state x)"
  shows "transport_ok (xc_state x') \<and> (\<exists>w1. replies env w1 \<and> cd_wire c' = cd_wire c @ w1)
    \<and> (\<exists>bs. cd_heard c' = cd_heard c @ bs) \<and> same_view x x'
    \<and> (case r of
         Inl _ \<Rightarrow> xc_lane_probe x' = None
       | Inr i \<Rightarrow> xc_lane_probe x' = xc_lane_probe x \<and> i = ts_next_id (xc_state x) \<and> ts_pending (xc_state x') = []
           \<and> ts_initialized (xc_state x') \<and> i < ts_next_id (xc_state x')
           \<and> (ts_frame (xc_state x') = turn_frame env x thread command \<or> ts_frame (xc_state x') = []))"
proof -
  obtain c1 x1 r1 where prep: "on_transport x (prepare_turn_frame env os thread (fixed_turn command) c (xc_transport x)) = Some ((c1, x1), r1)"
    using run by (auto simp: prepare_and_drain_def split: option.splits prod.splits)
  note post = prepare_turn_frame_post [OF prep ok]
  show ?thesis
  proof (cases r1)
    case (Inl e)
    with run prep post same_owner_view [of x x1] show ?thesis
      by (auto simp: prepare_and_drain_def silent_def intro: exI [of _ "[]"]) (simp_all add: give_up_lane_def)
  next
    case (Inr i)
    obtain c2 x2 r2 where drain: "drain_before_mutation env os c1 x1 = Some ((c2, x2), r2)"
      using run prep Inr by (auto simp: prepare_and_drain_def split: option.splits prod.splits)
    have d: "drained env c1 x1 c2 x2 r2" using drain_before_mutation_post [OF drain] post by simp
    have "listened env c (xc_state x1) c1 (xc_state x1)" using post by (intro listened_silent) simp
    moreover have "listened env c1 (xc_state x1) c2 (xc_state x2)" using d by (simp add: drained_def)
    ultimately have listen: "listened env c (xc_state x1) c2 (xc_state x2)" by (rule listened_trans)
    have owner: "same_owner x x2" using post d by (auto simp: drained_def intro: same_owner_trans)
    have ok2: "transport_ok (xc_state x2)" using listened_ok [OF listen] post by simp
    have keep: "ts_pending (xc_state x2) = []" "ts_next_id (xc_state x2) = ts_next_id (xc_state x1)"
      "ts_initialized (xc_state x2)"
      using listen post Inr by (auto simp: listened_def)
    have wire: "\<exists>w1. replies env w1 \<and> cd_wire c2 = cd_wire c @ w1" "\<exists>bs. cd_heard c2 = cd_heard c @ bs"
      using listen by (auto simp: listened_def)
    show ?thesis
    proof (cases r2)
      case (Inl e)
      have "transport_ok (xc_state (discard_turn x2))"
        using ok2 by (auto simp: discard_turn_def give_up_lane_def discard_prepared_turn_def intro: transport_ok_frame)
      with run prep Inr drain Inl wire same_owner_view [OF owner] show ?thesis
        by (auto simp: prepare_and_drain_def) (simp add: discard_turn_def give_up_lane_def)
    next
      case r2: (Inr u)
      have frame: "ts_frame (xc_state x2) = turn_frame env x thread command \<or> ts_frame (xc_state x2) = []"
        using d post Inr r2 by (auto simp: drained_def)
      with run prep Inr drain r2 wire owner same_owner_view [OF owner] ok2 keep post show ?thesis
        by (auto simp: prepare_and_drain_def same_owner_keeps)
    qed
  qed
qed

section \<open>The reserved turn\<close>

text \<open>
  Where a turn ends: how much of its frame the wire got between replies, and what its disposition
  then says. \<open>n\<close> bytes of \<open>frame\<close>, for the request of the number \<open>i\<close>.
\<close>

definition turn_settled ::
  "'w codex_env \<Rightarrow> u64 \<Rightarrow> bytes \<Rightarrow> nat \<Rightarrow> 'w Conduit \<Rightarrow> 'w Conduit \<Rightarrow> NativeWriteDisposition \<Rightarrow> bool" where
  "turn_settled env i frame n c c' d \<longleftrightarrow> (case d of
     WD_ProvenNotAccepted \<Rightarrow> n = 0 \<or> decided env c c' (IN_NativeError i)
   | WD_Accepted _ \<Rightarrow> (n = 0 \<or> length frame \<le> n) \<and> decided env c c' (IN_Response i)
   | WD_Unknown \<Rightarrow> True
   | WD_IdleEpochInvalidated _ _ _ \<Rightarrow> n = 0
   | WD_ExactResponse _ \<Rightarrow> False)"

definition turn_outcome ::
  "'w codex_env \<Rightarrow> u64 \<Rightarrow> bytes \<Rightarrow> ControllerCommand \<Rightarrow> 'w Conduit \<Rightarrow> 'p CodexController \<Rightarrow> 'w Conduit \<Rightarrow> 'p CodexController
    \<Rightarrow> NativeWriteDisposition \<Rightarrow> bool" where
  "turn_outcome env i frame command c x c' x' d \<longleftrightarrow> transport_ok (xc_state x')
     \<and> xc_lane_probe x' = None \<and> xc_epoch x' = xc_epoch x
     \<and> (d = WD_Unknown \<longrightarrow> xc_reconciling x' = Some (cc_correlation command))
     \<and> (\<exists>bs. cd_heard c' = cd_heard c @ bs)
     \<and> (\<exists>n w2. replies env w2 \<and> cd_wire c' = cd_wire c @ take n frame @ w2 \<and> turn_settled env i frame n c c' d)"

lemma turn_outcomeI:
  assumes "transport_ok (xc_state x')" "xc_lane_probe x' = None" "xc_epoch x' = xc_epoch x"
    "d = WD_Unknown \<Longrightarrow> xc_reconciling x' = Some (cc_correlation command)"
    "cd_heard c' = cd_heard c" "cd_wire c' = cd_wire c @ take n frame" "turn_settled env i frame n c c' d"
  shows "turn_outcome env i frame command c x c' x' d"
  unfolding turn_outcome_def
  using assms by (auto intro!: exI [of _ n] exI [of _ "[]"])

lemma settle_write_keeps [simp]:
  "xc_state (settle_write command d x) = xc_state x" "xc_lane_probe (settle_write command d x) = None"
  "xc_epoch (settle_write command d x) = xc_epoch x"
  "xc_reconciling (settle_write command d x) = (if d = WD_Unknown then Some (cc_correlation command) else None)"
  by (simp_all add: settle_write_def give_up_lane_def)

lemma seal_turn_keeps:
  "seal_turn port scope turn x = Some (x', r) \<Longrightarrow> xc_transport x' = xc_transport x \<and> xc_epoch x' = xc_epoch x"
  by (auto simp: seal_turn_def split: sum.splits)

lemma await_turn_post:
  assumes run: "await_turn env os port command c x = Some ((c', x'), d)" and ok: "transport_ok (xc_state x)"
    and flight: "ts_pending (xc_state x) = [p]"
  shows "transport_ok (xc_state x') \<and> xc_lane_probe x' = None \<and> xc_epoch x' = xc_epoch x
    \<and> (d = WD_Unknown \<longrightarrow> xc_reconciling x' = Some (cc_correlation command))
    \<and> (\<exists>bs. cd_heard c' = cd_heard c @ bs) \<and> (\<exists>w2. replies env w2 \<and> cd_wire c' = cd_wire c @ w2)
    \<and> (case d of WD_ProvenNotAccepted \<Rightarrow> decided env c c' (IN_NativeError (pd_id p))
        | WD_Accepted _ \<Rightarrow> decided env c c' (IN_Response (pd_id p))
        | WD_Unknown \<Rightarrow> True | _ \<Rightarrow> False)"
proof -
  obtain c1 x1 r1 where recv: "controller_receive env os IO_DEADLINE c x = Some ((c1, x1), r1)"
    using run by (auto simp: await_turn_def split: option.splits)
  note post = controller_receive_post [OF ok recv]
  have listen: "listened env c (xc_state x) c1 (xc_state x1)" using post by (simp add: receive_post_def)
  have ok1: "transport_ok (xc_state x1)" using listened_ok [OF listen ok] .
  have epoch: "xc_epoch x1 = xc_epoch x" using post by auto
  have wire: "\<exists>bs. cd_heard c1 = cd_heard c @ bs" "\<exists>w2. replies env w2 \<and> cd_wire c1 = cd_wire c @ w2"
    using listen by (auto simp: listened_def)
  show ?thesis
  proof (cases "\<exists>turn. r1 = Inr (RX_TurnStarted turn)")
    case True
    then obtain turn where turn: "r1 = Inr (RX_TurnStarted turn)" by blast
    have "decided env c c1 (IN_Response (pd_id p))" using post turn flight by (auto simp: receive_post_def)
    with run recv turn ok1 epoch wire show ?thesis
      by (auto simp: await_turn_def Let_def dest!: seal_turn_keeps split: option.splits sum.splits)
  next
    case False
    have native: "r1 = Inl XE_Native \<Longrightarrow> decided env c c1 (IN_NativeError (pd_id p))"
      using post flight by (auto simp: receive_post_def)
    with run recv False ok1 epoch wire show ?thesis
      by (cases r1) (auto simp: await_turn_def Let_def split: if_splits Received.splits)
  qed
qed

lemma turn_pushed_ok:
  assumes "transport_ok t" "ts_pending t = []" "ts_initialized t" "0 < i" "i < ts_next_id t"
  shows "transport_ok (push_pending \<lparr>pd_id = i, pd_kind = RK_TurnStart, pd_thread = None\<rparr> (t\<lparr>ts_frame := [], ts_ambiguous := a\<rparr>))"
  using assms by (simp add: transport_ok_def push_pending_def pending_ok_def)

lemma dispatch_turn_post:
  assumes run: "dispatch_turn env os port command i c x = Some ((c', x'), d)" and ok: "transport_ok (xc_state x)"
    and idle: "ts_pending (xc_state x) = []" "ts_initialized (xc_state x)" "0 < i" "i < ts_next_id (xc_state x)"
    and frame: "ts_frame (xc_state x) = frame \<or> ts_frame (xc_state x) = []"
  shows "turn_outcome env i frame command c x c' x' d"
proof -
  obtain c1 r1 where w: "write_all_until (ce_clock env) (ce_writer env) (ts_frame (xc_state x)) IO_DEADLINE c = Some (c1, r1)"
    using run by (auto simp: dispatch_turn_def dispatch_prepared_turn_def split: option.splits)
  note sent = write_all_until_sent [OF w, unfolded frame_sent_def prod.case]
  have part: "\<exists>n. take m (ts_frame (xc_state x)) = take n frame" for m
    using frame by (auto intro: exI [of _ 0])
  show ?thesis
  proof (cases r1)
    case (Inl failure)
    have heard: "cd_heard c1 = cd_heard c" using sent by simp
    have plain: "transport_ok ((xc_state x)\<lparr>ts_frame := []\<rparr>)" using ok by (simp add: transport_ok_frame)
    show ?thesis
    proof (cases "wf_receipt failure = WP_ProvenNotWritten")
      case True
      then have "cd_wire c1 = cd_wire c @ take 0 frame" using sent Inl by simp
      with run w Inl True heard plain show ?thesis
        by (intro turn_outcomeI [where n = 0])
          (auto simp: dispatch_turn_def dispatch_prepared_turn_def Let_def turn_settled_def
            failed_write_disposition_def give_up_lane_def)
    next
      case False
      then have possible: "wf_receipt failure = WP_PossiblyWritten" using sent Inl by (cases "wf_receipt failure") auto
      obtain n where "cd_wire c1 = cd_wire c @ take n frame" using sent part by metis
      with run w Inl possible heard turn_pushed_ok [OF ok idle, of True] show ?thesis
        by (intro turn_outcomeI [where n = n])
          (auto simp: dispatch_turn_def dispatch_prepared_turn_def Let_def turn_settled_def
            failed_write_disposition_def give_up_lane_def)
    qed
  next
    case (Inr receipt)
    let ?p = "\<lparr>pd_id = i, pd_kind = RK_TurnStart, pd_thread = None\<rparr>"
    let ?t = "push_pending ?p ((xc_state x)\<lparr>ts_frame := [], ts_ambiguous := False\<rparr>)"
    let ?x = "x\<lparr>xc_transport := (xc_transport x)\<lparr>ct_state := ?t\<rparr>\<rparr>"
    have receipt: "receipt = WP_Written" "cd_wire c1 = cd_wire c @ ts_frame (xc_state x)" "cd_heard c1 = cd_heard c"
      using sent Inr by auto
    have await: "await_turn env os port command c1 ?x = Some ((c', x'), d)"
      using run w Inr receipt(1) by (simp add: dispatch_turn_def dispatch_prepared_turn_def Let_def)
    have "ts_pending (xc_state ?x) = [?p]" using idle(1) by (simp add: push_pending_def)
    from await_turn_post [OF await _ this, unfolded Pending.select_convs] turn_pushed_ok [OF ok idle]
    have post: "transport_ok (xc_state x')" "xc_lane_probe x' = None" "xc_epoch x' = xc_epoch x"
      "d = WD_Unknown \<longrightarrow> xc_reconciling x' = Some (cc_correlation command)"
      "\<exists>bs. cd_heard c' = cd_heard c1 @ bs" "\<exists>w2. replies env w2 \<and> cd_wire c' = cd_wire c1 @ w2"
      "case d of WD_ProvenNotAccepted \<Rightarrow> decided env c1 c' (IN_NativeError i)
        | WD_Accepted _ \<Rightarrow> decided env c1 c' (IN_Response i) | WD_Unknown \<Rightarrow> True | _ \<Rightarrow> False"
      by simp_all
    obtain n where n: "ts_frame (xc_state x) = take n frame" "n = 0 \<or> length frame \<le> n"
      using frame by (metis take_0 take_all order_refl)
    have same: "decided env c1 c' v = decided env c c' v" for v by (simp add: decided_def receipt)
    show ?thesis
      unfolding turn_outcome_def turn_settled_def
      using post n receipt by (auto simp: same split: NativeWriteDisposition.splits)
  qed
qed

lemma turn_settled_later:
  assumes "cd_heard c1 = cd_heard c @ bs" "turn_settled env i frame n c1 c' d"
  shows "turn_settled env i frame n c c' d"
  using assms(2) decided_later [OF assms(1)]
  by (auto simp: turn_settled_def split: NativeWriteDisposition.splits)

lemma final_checks_post:
  assumes run: "final_checks env os port command i c x = Some ((c', x'), r)" and ok: "transport_ok (xc_state x)"
    and idle: "ts_pending (xc_state x) = []" "ts_initialized (xc_state x)" "0 < i" "i < ts_next_id (xc_state x)"
    and frame: "ts_frame (xc_state x) = frame \<or> ts_frame (xc_state x) = []"
  shows "transport_ok (xc_state x') \<and> xc_lane_probe x' = None
    \<and> (r = Inr WD_Unknown \<longrightarrow> xc_reconciling x' = Some (cc_correlation command))
    \<and> (\<exists>n w2. replies env w2 \<and> cd_wire c' = cd_wire c @ take n frame @ w2
       \<and> (n = 0 \<or> cc_expected_epoch command = \<lparr>ep_birth_id = cb_birth_id (xc_birth x), ep_sequence = xc_epoch x'\<rparr>
            \<and> validate_immutable_binding command (xc_birth x) (xc_thread_ref x)
            \<and> (\<exists>now. lease_is_current command (xc_birth x) now))
       \<and> (case r of Inl _ \<Rightarrow> n = 0 | Inr d \<Rightarrow> turn_settled env i frame n c c' d))"
proof -
  have plain: "transport_ok (xc_state (discard_turn x))" "xc_lane_probe (discard_turn x) = None"
    using ok by (auto simp: discard_turn_def give_up_lane_def discard_prepared_turn_def intro: transport_ok_frame)
  let ?observed = "\<lparr>ep_birth_id = cb_birth_id (xc_birth x), ep_sequence = xc_epoch x\<rparr>"
  obtain c1 now where utc: "on_world (pr_utc_now os) c = (c1, now)" by (cases "on_world (pr_utc_now os) c")
  have same: "cd_wire c1 = cd_wire c" "cd_heard c1 = cd_heard c" using on_worldD [OF utc] by auto
  show ?thesis
  proof (cases "?observed = cc_expected_epoch command
      \<and> validate_immutable_binding command (xc_birth x) (xc_thread_ref x)
      \<and> lease_is_current command (xc_birth x) now")
    case False
    then have "c' = c \<or> c' = c1" "x' = discard_turn x"
      "r = Inl CWE_BindingRejected \<or> r = Inr WD_ProvenNotAccepted \<or> (\<exists>a b e. r = Inr (WD_IdleEpochInvalidated a b e))"
      using run utc by (auto simp: final_checks_def Let_def split: if_splits)
    with plain same show ?thesis
      by (auto simp: turn_settled_def intro!: exI [of _ 0] exI [of _ "[]"])
  next
    case True
    then obtain d where d: "dispatch_turn env os port command i c1 x = Some ((c', x'), d)" "r = Inr d"
      using run utc by (auto simp: final_checks_def Let_def)
    from dispatch_turn_post [OF d(1) ok idle frame] obtain n w2 where out: "transport_ok (xc_state x')"
      "xc_lane_probe x' = None" "xc_epoch x' = xc_epoch x"
      "d = WD_Unknown \<longrightarrow> xc_reconciling x' = Some (cc_correlation command)" "replies env w2"
      "cd_wire c' = cd_wire c1 @ take n frame @ w2" "turn_settled env i frame n c1 c' d"
      unfolding turn_outcome_def by blast
    have "turn_settled env i frame n c c' d" by (rule turn_settled_later [OF _ out(7), of _ "[]"]) (simp add: same)
    with out same True d(2) show ?thesis
      by (intro conjI exI [of _ n] exI [of _ w2]) auto
  qed
qed

text \<open>The reserved turn, for any controller whose transport is within its invariant.\<close>

definition turn_written ::
  "'w codex_env \<Rightarrow> 'p coordinate_port \<Rightarrow> ControllerIdleGuard \<Rightarrow> ControllerCommand \<Rightarrow> 'w Conduit \<Rightarrow> 'p CodexController
    \<Rightarrow> 'w Conduit \<Rightarrow> 'p CodexController \<Rightarrow> ControllerWriteError + NativeWriteDisposition \<Rightarrow> bool" where
  "turn_written env port lane command c x c' x' r \<longleftrightarrow> xc_lane_probe x' = None
     \<and> (r = Inr WD_Unknown \<longrightarrow> xc_reconciling x' = Some (cc_correlation command))
     \<and> (\<exists>thread n w1 w2. replies env w1 \<and> replies env w2
       \<and> cd_wire c' = cd_wire c @ w1 @ take n (turn_frame env x thread command) @ w2
       \<and> (n = 0 \<or> xc_lane_probe x = Some (cc_expected_probe_id command)
            \<and> ig_probe_id lane = cc_expected_probe_id command \<and> ig_epoch lane = cc_expected_epoch command
            \<and> opened_thread_str port x = Inr thread
            \<and> cc_expected_epoch command = \<lparr>ep_birth_id = cb_birth_id (xc_birth x), ep_sequence = xc_epoch x'\<rparr>
            \<and> validate_immutable_binding command (xc_birth x) (xc_thread_ref x)
            \<and> (\<exists>now. lease_is_current command (xc_birth x) now))
       \<and> (case r of
            Inl _ \<Rightarrow> n = 0
          | Inr d \<Rightarrow> turn_settled env (ts_next_id (xc_state x)) (turn_frame env x thread command) n c c' d))"

lemma turn_writtenI:
  assumes "cd_wire c' = cd_wire c @ w1" "replies env w1" "xc_lane_probe x' = None"
    "r = Inl e \<or> r = Inr WD_ProvenNotAccepted"
  shows "turn_written env port lane command c x c' x' r"
  unfolding turn_written_def
  using assms
  by (intro conjI exI [of _ "[]::string"] exI [of _ 0] exI [of _ w1] exI [of _ "[]::bytes"])
    (auto simp: turn_settled_def)

theorem write_reserved_turn_post:
  assumes run: "codex_write_reserved_turn env os port lane command c x = Some ((c', x'), r)"
    and ok: "transport_ok (xc_state x)"
  shows "transport_ok (xc_state x') \<and> turn_written env port lane command c x c' x' r"
proof -
  let ?guard = "xc_lane_probe x = Some (cc_expected_probe_id command)
    \<and> ig_probe_id lane = cc_expected_probe_id command \<and> ig_epoch lane = cc_expected_epoch command"
  show ?thesis
  proof (cases "\<not> ?guard \<or> (\<exists>e. opened_thread_str port x = Inl e)")
    case True
    then have "c' = c" "x' = give_up_lane x" "(\<exists>e. r = Inl e) \<or> r = Inr WD_ProvenNotAccepted"
      using run by (auto simp: codex_write_reserved_turn_def split: if_splits)
    with ok show ?thesis
      by (auto simp: give_up_lane_def intro!: turn_writtenI [of _ _ "[]"])
  next
    case False
    then obtain thread where guard: ?guard and thread: "opened_thread_str port x = Inr thread"
      by (cases "opened_thread_str port x") auto
    obtain c1 x1 r1 where prep: "prepare_and_drain env os thread command c x = Some ((c1, x1), r1)"
      using run guard thread by (auto simp: codex_write_reserved_turn_def split: option.splits)
    note post = prepare_and_drain_post [OF prep ok]
    obtain w1 where w1: "replies env w1" "cd_wire c1 = cd_wire c @ w1" using post by blast
    show ?thesis
    proof (cases r1)
      case (Inl e)
      with run guard thread prep post w1 show ?thesis
        by (auto simp: codex_write_reserved_turn_def intro!: turn_writtenI)
    next
      case (Inr i)
      have fin: "final_checks env os port command i c1 x1 = Some ((c', x'), r)"
        using run guard thread prep Inr by (simp add: codex_write_reserved_turn_def)
      have owner: "xc_birth x1 = xc_birth x" "xc_thread_ref x1 = xc_thread_ref x"
        using post by (auto simp: same_view_def)
      have i: "i = ts_next_id (xc_state x)" "0 < i"
        using post Inr ok by (auto simp: transport_ok_def word_less_nat_alt word_le_nat_alt)
      have pre: "transport_ok (xc_state x1)" "ts_pending (xc_state x1) = []" "ts_initialized (xc_state x1)"
        "i < ts_next_id (xc_state x1)"
        "ts_frame (xc_state x1) = turn_frame env x thread command \<or> ts_frame (xc_state x1) = []"
        using post Inr by auto
      obtain bs where heard: "cd_heard c1 = cd_heard c @ bs" using post by blast
      from final_checks_post [OF fin pre(1-3) i(2) pre(4,5)]
      obtain n w2 where fin': "transport_ok (xc_state x')" "xc_lane_probe x' = None"
        "r = Inr WD_Unknown \<longrightarrow> xc_reconciling x' = Some (cc_correlation command)" "replies env w2"
        "cd_wire c' = cd_wire c1 @ take n (turn_frame env x thread command) @ w2"
        "n = 0 \<or> cc_expected_epoch command = \<lparr>ep_birth_id = cb_birth_id (xc_birth x1), ep_sequence = xc_epoch x'\<rparr>
            \<and> validate_immutable_binding command (xc_birth x1) (xc_thread_ref x1)
            \<and> (\<exists>now. lease_is_current command (xc_birth x1) now)"
        "case r of Inl _ \<Rightarrow> n = 0 | Inr d \<Rightarrow> turn_settled env i (turn_frame env x thread command) n c1 c' d"
        by blast
      have "case r of Inl _ \<Rightarrow> n = 0 | Inr d \<Rightarrow> turn_settled env (ts_next_id (xc_state x)) (turn_frame env x thread command) n c c' d"
        using fin'(7) turn_settled_later [OF heard] i(1) by (auto split: sum.splits)
      then show ?thesis
        unfolding turn_written_def
        using fin' w1 guard thread owner
        by (intro conjI exI [of _ thread] exI [of _ n] exI [of _ w1] exI [of _ w2]) auto
    qed
  qed
qed

end
