(* ===== verification/Codex_Runs.thy ===== *)
theory Codex_Runs
  imports Codex_Properties
begin

text \<open>
  Runs of a Codex controller: created by \<open>create_owned\<close>, then any sequence of the controller's
  operations. On every run the transport is within its invariant, each write settles as its
  disposition says, and the facts of a turn come in an order the abstract observer accepts.
\<close>

section \<open>Requests and the start keep the invariant\<close>

lemma transport_ok_push:
  assumes "transport_ok t" "ts_pending t = []" "0 < i" "i < ts_next_id t"
    "kind = RK_Initialize \<longleftrightarrow> \<not> ts_initialized t" "kind \<in> {RK_ThreadResume, RK_ThreadRead} \<longleftrightarrow> thread \<noteq> None"
  shows "transport_ok (push_pending \<lparr>pd_id = i, pd_kind = kind, pd_thread = thread\<rparr> t)"
  using assms by (simp add: transport_ok_def push_pending_def pending_ok_def)

lemma transport_send_ok:
  assumes "transport_send env m c t = Some ((c', t'), r)" and ok: "transport_ok t"
  shows "transport_ok t' \<and> same_dialogue t t'"
proof -
  have "length (ts_frame t) \<le> MAX_FRAME" using ok by (simp add: transport_ok_def)
  from transport_send_sent [OF assms(1) this] show ?thesis
    using same_dialogue_ok [OF _ ok] by blast
qed

lemma send_request_ok:
  assumes run: "send_request env kind params thread c t = Some ((c', t'), r)" and ok: "transport_ok t"
    and kind: "kind \<in> {RK_ThreadResume, RK_ThreadRead} \<longleftrightarrow> thread \<noteq> None"
  shows "transport_ok t'"
proof -
  obtain t1 r1 where take': "take_request_id t = (t1, r1)" by (cases "take_request_id t")
  note post = take_request_id_post [OF take' ok]
  show ?thesis
  proof (cases "request_method kind")
    case None
    with run take' post show ?thesis by (auto simp: send_request_def split: sum.splits)
  next
    case (Some request)
    show ?thesis
    proof (cases r1)
      case (Inl e)
      with run take' post show ?thesis by (auto simp: send_request_def)
    next
      case (Inr i)
      obtain c2 t2 r2 where send: "transport_send env (client_request i request params) c t1 = Some ((c2, t2), r2)"
        using run take' Inr Some by (auto simp: send_request_def and_then_def split: bind_splits)
      have keep: "transport_ok t2" "same_dialogue t1 t2" using transport_send_ok [OF send] post by auto
      have i: "0 < i" using post Inr ok by (auto simp: transport_ok_def word_less_nat_alt word_le_nat_alt)
      have k: "kind \<noteq> RK_Initialize" using Some by (cases kind) auto
      have "transport_ok (push_pending \<lparr>pd_id = i, pd_kind = kind, pd_thread = thread\<rparr> t2)"
        using keep post Inr i kind k by (intro transport_ok_push) (auto simp: same_dialogue_def)
      with run take' Inr Some send keep show ?thesis
        by (cases r2) (auto simp: send_request_def)
    qed
  qed
qed

lemma transport_initialize_ok:
  assumes run: "transport_initialize env c t = Some ((c', t'), r)" and ok: "transport_ok t"
  shows "transport_ok t'"
proof (cases "ts_ambiguous t \<or> ts_initialized t \<or> ts_pending t \<noteq> []")
  case True
  with run ok show ?thesis by (auto simp: transport_initialize_def split: if_splits)
next
  case False
  then obtain c2 t2 r2 where send: "transport_send env (initialize_request (ce_client_version env)) c t = Some ((c2, t2), r2)"
    using run by (auto simp: transport_initialize_def and_then_def split: bind_splits)
  have keep: "transport_ok t2" "same_dialogue t t2" using transport_send_ok [OF send ok] by auto
  have "2 \<le> ts_next_id t2" using keep by (simp add: transport_ok_def)
  then have "(1::u64) < ts_next_id t2" by (simp add: word_less_nat_alt word_le_nat_alt)
  then have "transport_ok (push_pending \<lparr>pd_id = 1, pd_kind = RK_Initialize, pd_thread = None\<rparr> t2)"
    using keep False by (intro transport_ok_push) (auto simp: same_dialogue_def)
  with run False send keep show ?thesis by (cases r2) (auto simp: transport_initialize_def)
qed

text \<open>A request through the transport, and a start.\<close>

lemma live_request_ok:
  assumes run: "live_request os request c tr = Some ((c', tr'), r)" and ok: "transport_ok (ct_state tr)"
    and req: "\<And>c c' t t' r. request c t = Some ((c', t'), r) \<Longrightarrow> transport_ok t \<Longrightarrow> transport_ok t'"
  shows "transport_ok (ct_state tr')"
  using run ok
  by (auto simp: live_request_def on_state_def split: prod.splits sum.splits if_splits dest: req)

lemma read_thread_ok: "read_thread env thread c t = Some ((c', t'), r) \<Longrightarrow> transport_ok t \<Longrightarrow> transport_ok t'"
  by (auto simp: read_thread_def intro: send_request_ok)

lemma start_attached_thread_ok:
  "start_attached_thread env attachment c t = Some ((c', t'), r) \<Longrightarrow> transport_ok t \<Longrightarrow> transport_ok t'"
  by (auto simp: start_attached_thread_def split: prod.splits sum.splits intro: send_request_ok)

lemma start_initialize_ok:
  assumes "start_initialize env os c x = Some (c', Inr x')" "transport_ok (ct_state x)"
  shows "transport_ok (ct_state x')"
  using assms
  by (auto simp: start_initialize_def transport_fail_def on_state_def
      split: prod.splits option.splits sum.splits if_splits dest: transport_initialize_ok)

lemma transport_start_ok:
  assumes "transport_start env os executable c = Some (c', Inr x)"
  shows "transport_ok (ct_state x)"
  using assms
  by (auto simp: transport_start_def start_with_before_initialize_def start_piped_def terminate_with_def and_then_def
      Let_def transport_ok_new
      split: prod.splits bind_splits sum.splits if_splits dest!: start_initialize_ok)

section \<open>Creation\<close>

lemma seal_thread_state:
  assumes "seal_thread port thread q = Some r"
  shows "case r of Inl q' \<Rightarrow> qc_transport q' = qc_transport q
    | Inr x \<Rightarrow> xc_transport x = qc_transport q \<and> \<not> xc_terminal x \<and> xc_started_turn x = None
        \<and> xc_pending_terminal x = None \<and> \<not> xc_lost_reported x"
  using assms by (auto simp: seal_thread_def Let_def from_owned_parts_def split: sum.splits option.splits)

definition fresh_controller :: "'p CodexController \<Rightarrow> bool" where
  "fresh_controller x \<longleftrightarrow> transport_ok (xc_state x) \<and> \<not> xc_terminal x \<and> xc_started_turn x = None
     \<and> xc_pending_terminal x = None \<and> \<not> xc_lost_reported x"

lemma transport_receive_ok:
  "transport_receive env os c tr = Some ((c', tr'), r) \<Longrightarrow> transport_ok (ct_state tr) \<Longrightarrow> transport_ok (ct_state tr')"
  using receive_until_post [of tr env os IO_DEADLINE c c' tr' r]
  by (auto simp: transport_receive_def receive_post_def listened_def)

lemma create_on_transport_ok:
  assumes run: "create_on_transport env os port persist attachment reservation c tr = Some (c', CO_Owned res x)"
    and ok: "transport_ok (ct_state tr)"
  shows "fresh_controller x"
proof -
  obtain c1 tr1 r1 where recv: "transport_receive env os c tr = Some ((c1, tr1), r1)"
    using run by (auto simp: create_on_transport_def Let_def split: option.splits)
  have ok1: "transport_ok (ct_state tr1)" using transport_receive_ok [OF recv ok] .
  have init: "r1 = Inr RX_Initialized"
    using run recv by (auto simp: create_on_transport_def Let_def dropping_def split: if_splits)
  obtain c2 tr2 r2 where start: "transport_start_attached env os attachment c1 tr1 = Some ((c2, tr2), r2)"
    using run recv init by (auto simp: create_on_transport_def Let_def split: option.splits)
  have ok2: "transport_ok (ct_state tr2)"
    using live_request_ok [OF start [unfolded transport_start_attached_def] ok1 start_attached_thread_ok] .
  have "\<exists>u. r2 = Inr u"
    using run recv init start by (cases r2) (auto simp: create_on_transport_def Let_def dropping_def split: if_splits)
  then obtain u where r2: "r2 = Inr u" by blast
  obtain c3 tr3 r3 where recv3: "transport_receive env os c2 tr2 = Some ((c3, tr3), r3)"
    using run recv init start r2 by (auto simp: create_on_transport_def Let_def split: option.splits)
  have ok3: "transport_ok (ct_state tr3)" using transport_receive_ok [OF recv3 ok2] .
  have "\<exists>thread. r3 = Inr (RX_ThreadStarted thread)"
    using run recv init start r2 recv3
    by (cases r3) (auto simp: create_on_transport_def Let_def dropping_def split: if_splits Received.splits)
  then obtain thread where r3: "r3 = Inr (RX_ThreadStarted thread)" by blast
  let ?q = "\<lparr>qc_persist = persist, qc_transport = tr3, qc_attachment = attachment,
    qc_birth = bx_binding reservation, qc_create_attempt_id = bx_create_attempt_id reservation, qc_state = QC_Pending\<rparr>"
  obtain q where seal: "seal_thread port thread ?q = Some q"
    using run recv init start r2 recv3 r3 by (auto simp: create_on_transport_def Let_def)
  then have "q = Inr x"
    using run recv init start r2 recv3 r3 by (cases q) (auto simp: create_on_transport_def Let_def)
  with seal_thread_state [OF seal] ok3 show ?thesis by (simp add: fresh_controller_def)
qed

lemma create_owned_fresh:
  assumes "create_owned env os port persist executable helper reservation c = Some (c', CO_Owned res x)"
  shows "fresh_controller x"
  using assms
  by (auto simp: create_owned_def split: if_splits prod.splits sum.splits option.splits
      intro: create_on_transport_ok transport_start_ok)

section \<open>Operations and runs\<close>

text \<open>
  The operations of the \<open>Controller\<close> trait on one controller; the observations are those of one turn.
  Every operation has the store calls it finds, so that the draws of its seals may differ. The store
  is shared: between two operations its other holders may change it in any way.
\<close>

datatype 'p CodexOp =
  XO_Probe "'p coordinate_port" ProbeBinding
| XO_Write "'p coordinate_port" ControllerIdleGuard ControllerCommand
| XO_Poll "'p coordinate_port"
| XO_Reconcile "'p coordinate_port" ReconciliationScope
| XO_Store "'p \<Rightarrow> 'p"

definition codex_step ::
  "'w codex_env \<Rightarrow> 'w processes \<Rightarrow> ObservationScope \<Rightarrow> 'w Conduit \<times> 'p CodexController \<Rightarrow> 'p CodexOp
    \<Rightarrow> ('w, 'p, NativeTurnFact list) controlled" where
  "codex_step env os scope s op = (case s of (c, x) \<Rightarrow> (case op of
     XO_Probe port binding \<Rightarrow> map_option (\<lambda>(s, r). (s, [])) (codex_probe_idle env os port binding c x)
   | XO_Write port lane command \<Rightarrow> map_option (\<lambda>(s, r). (s, [])) (codex_write_reserved_turn env os port lane command c x)
   | XO_Poll port \<Rightarrow> map_option (\<lambda>(s, fact'). (s, case fact' of None \<Rightarrow> [] | Some f \<Rightarrow> [f]))
       (codex_poll_exact_observation env os port scope c x)
   | XO_Reconcile port rscope \<Rightarrow> map_option (\<lambda>(s, r). (s, [])) (codex_reconcile_exact env os port rscope c x)
   | XO_Store change \<Rightarrow> Some ((c, x\<lparr>xc_persist := change (xc_persist x)\<rparr>), [])))"

fun codex_run ::
  "'w codex_env \<Rightarrow> 'w processes \<Rightarrow> ObservationScope \<Rightarrow> 'w Conduit \<times> 'p CodexController \<Rightarrow> 'p CodexOp list
    \<Rightarrow> ('w, 'p, NativeTurnFact list) controlled" where
  "codex_run env os scope s [] = Some (s, [])"
| "codex_run env os scope s (op # ops) =
     (case codex_step env os scope s op of
        None \<Rightarrow> None
      | Some (s, facts) \<Rightarrow> map_option (\<lambda>(s, later). (s, facts @ later)) (codex_run env os scope s ops))"

text \<open>A run from the creation of the controller, if the creation ends in ownership.\<close>

definition created_run ::
  "'w codex_env \<Rightarrow> 'w processes \<Rightarrow> 'p coordinate_port \<Rightarrow> 'p \<Rightarrow> string \<Rightarrow> string \<Rightarrow> ControllerBirthReservation
    \<Rightarrow> 'w Conduit \<Rightarrow> ObservationScope \<Rightarrow> 'p CodexOp list \<Rightarrow> ('w, 'p, NativeTurnFact list) controlled" where
  "created_run env os port persist executable helper reservation c scope ops =
     (case create_owned env os port persist executable helper reservation c of
        Some (c, CO_Owned _ x) \<Rightarrow> codex_run env os scope (c, x) ops
      | _ \<Rightarrow> None)"

section \<open>What an operation does to the observer\<close>

text \<open>
  The abstract observer of one turn: it has seen the turn start, end, or the controller lost.
  \<open>observes\<close> is what it accepts next.
\<close>

record TurnView =
  tv_started :: bool
  tv_ended :: bool
  tv_lost :: bool

fun observes :: "bytes \<Rightarrow> TurnView \<Rightarrow> NativeTurnFact \<Rightarrow> TurnView option" where
  "observes turn_ref v (NF_Accepted _) = None"
| "observes turn_ref v (NF_Started r) =
     (if r = turn_ref \<and> \<not> tv_started v \<and> \<not> tv_lost v then Some (v\<lparr>tv_started := True\<rparr>) else None)"
| "observes turn_ref v (NF_Terminal r _) =
     (if r = turn_ref \<and> tv_started v \<and> \<not> tv_ended v \<and> \<not> tv_lost v then Some (v\<lparr>tv_ended := True\<rparr>) else None)"
| "observes turn_ref v NF_DegradedTerminalObservation = (if tv_lost v then None else Some v)"
| "observes turn_ref v NF_ControllerLost = (if tv_lost v then None else Some (v\<lparr>tv_lost := True\<rparr>))"
| "observes turn_ref v NF_Unknown = (if tv_lost v then None else Some v)"

fun observes_next :: "bytes \<Rightarrow> TurnView \<Rightarrow> NativeTurnFact option \<Rightarrow> TurnView option" where
  "observes_next turn_ref v None = Some v"
| "observes_next turn_ref v (Some f) = observes turn_ref v f"

fun observes_all :: "bytes \<Rightarrow> TurnView \<Rightarrow> NativeTurnFact list \<Rightarrow> TurnView option" where
  "observes_all turn_ref v [] = Some v"
| "observes_all turn_ref v (f # fs) = Option.bind (observes turn_ref v f) (\<lambda>v. observes_all turn_ref v fs)"

definition view_of :: "bytes \<Rightarrow> 'p CodexController \<Rightarrow> TurnView" where
  "view_of turn_ref x = \<lparr>tv_started = (xc_started_turn x = Some turn_ref), tv_ended = xc_terminal x,
     tv_lost = xc_lost_reported x\<rparr>"

text \<open>What the controller keeps of the one turn it observes.\<close>

fun held_ok :: "bytes \<Rightarrow> bool \<Rightarrow> (bytes \<times> CodexTerminalClass) option \<Rightarrow> bool" where
  "held_ok turn_ref ended None = True"
| "held_ok turn_ref ended (Some (r, _)) = (r = turn_ref \<and> \<not> ended)"

definition observer_ok :: "bytes \<Rightarrow> 'p CodexController \<Rightarrow> bool" where
  "observer_ok turn_ref x \<longleftrightarrow> transport_ok (xc_state x)
     \<and> xc_started_turn x \<in> {None, Some turn_ref}
     \<and> (xc_terminal x \<longrightarrow> xc_started_turn x = Some turn_ref)
     \<and> held_ok turn_ref (xc_terminal x) (xc_pending_terminal x)"

definition observed_as :: "bytes \<Rightarrow> 'p CodexController \<Rightarrow> NativeTurnFact option \<Rightarrow> 'p CodexController \<Rightarrow> bool" where
  "observed_as turn_ref x fact' x' \<longleftrightarrow> observer_ok turn_ref x'
     \<and> observes_next turn_ref (view_of turn_ref x) fact' = Some (view_of turn_ref x')"

lemma observer_ok_same:
  assumes "observer_ok turn_ref x" "same_owner x x'" "transport_ok (xc_state x')"
  shows "observer_ok turn_ref x' \<and> view_of turn_ref x' = view_of turn_ref x"
  using assms same_owner_keeps [OF assms(2)] by (simp add: observer_ok_def view_of_def)

lemma once_observed:
  assumes "observer_ok turn_ref x" "\<not> xc_lost_reported x"
  shows "degraded_once x = (x', fact') \<Longrightarrow> observed_as turn_ref x fact' x'"
    "unknown_once x = (x', fact') \<Longrightarrow> observed_as turn_ref x fact' x'"
    "observe_error e x = (x', fact') \<Longrightarrow> observed_as turn_ref x fact' x'"
  using assms
  by (auto simp: degraded_once_def unknown_once_def observe_error_def observed_as_def observer_ok_def view_of_def
      split: if_splits)

text \<open>A held terminal of a turn that has started is reported before anything else is looked at.\<close>

definition nothing_held :: "bytes \<Rightarrow> 'p CodexController \<Rightarrow> bool" where
  "nothing_held turn_ref x \<longleftrightarrow> xc_started_turn x = Some turn_ref \<longrightarrow> xc_pending_terminal x = None"

lemma notification_observed:
  assumes "observe_notification turn_ref thread turn n x = (x', answer)" "observer_ok turn_ref x" "\<not> xc_lost_reported x"
    "nothing_held turn_ref x"
  shows "observed_as turn_ref x (case answer of None \<Rightarrow> None | Some f \<Rightarrow> f) x' \<and> \<not> xc_lost_reported x'
    \<and> (answer = None \<longrightarrow> nothing_held turn_ref x')"
  using assms
  by (cases n) (auto simp: observe_notification_def degraded_once_def observed_as_def observer_ok_def view_of_def
      nothing_held_def split: if_splits option.splits)

lemma bump_epoch_observer [simp]:
  "observer_ok turn_ref (bump_epoch x) = observer_ok turn_ref x"
  "view_of turn_ref (bump_epoch x) = view_of turn_ref x"
  "xc_lost_reported (bump_epoch x) = xc_lost_reported x"
  "nothing_held turn_ref (bump_epoch x) = nothing_held turn_ref x"
  "xc_state (bump_epoch x) = xc_state x"
  by (simp_all add: bump_epoch_def observer_ok_def view_of_def nothing_held_def)

lemma controller_receive_observer:
  assumes "controller_receive env os d c x = Some ((c', x'), r)" "observer_ok turn_ref x"
  shows "observer_ok turn_ref x' \<and> view_of turn_ref x' = view_of turn_ref x \<and> xc_lost_reported x' = xc_lost_reported x
    \<and> nothing_held turn_ref x' = nothing_held turn_ref x"
proof -
  have ok: "transport_ok (xc_state x)" using assms(2) by (simp add: observer_ok_def)
  note post = controller_receive_post [OF ok assms(1)]
  then obtain tr where x': "x' = x\<lparr>xc_transport := tr\<rparr>" by blast
  have "transport_ok (xc_state x')" using post ok by (auto simp: receive_post_def listened_def)
  with x' assms(2) show ?thesis by (simp add: observer_ok_def view_of_def nothing_held_def)
qed

lemma observed_as_later:
  "view_of turn_ref x1 = view_of turn_ref x \<Longrightarrow> observed_as turn_ref x1 f x' \<Longrightarrow> observed_as turn_ref x f x'"
  by (simp add: observed_as_def)

lemma notification_loop_observed:
  assumes "notification_loop env os turn_ref thread turn c x = Some p" "observer_ok turn_ref x" "\<not> xc_lost_reported x"
    "nothing_held turn_ref x"
  shows "observed_as turn_ref x (snd p) (snd (fst p))"
proof -
  have "observer_ok turn_ref x \<and> \<not> xc_lost_reported x \<and> nothing_held turn_ref x \<longrightarrow> observed_as turn_ref x (snd p) (snd (fst p))"
  proof (rule notification_induct [where P = "\<lambda>env os turn_ref thread turn c x p.
      observer_ok turn_ref x \<and> \<not> xc_lost_reported x \<and> nothing_held turn_ref x \<longrightarrow> observed_as turn_ref x (snd p) (snd (fst p))", OF _ assms(1)], goal_cases)
    case (1 loop env os turn_ref thread turn c x p)
    show ?case
    proof (intro impI)
      assume pre: "observer_ok turn_ref x \<and> \<not> xc_lost_reported x \<and> nothing_held turn_ref x"
      obtain c1 x1 r1 where recv: "controller_receive env os 0 c x = Some ((c1, x1), r1)"
        using 1(2) by (auto split: option.splits)
      have mid: "observer_ok turn_ref x1" "view_of turn_ref x1 = view_of turn_ref x" "\<not> xc_lost_reported x1"
        "nothing_held turn_ref x1" using controller_receive_observer [OF recv] pre by auto
      show "observed_as turn_ref x (snd p) (snd (fst p))"
      proof (cases "\<exists>n. r1 = Inr (RX_Notification n)")
        case False
        then have "observed_as turn_ref x1 (snd p) (snd (fst p))"
          using 1(2) recv once_observed [OF mid(1,3)]
          by (auto split: sum.splits Received.splits prod.splits)
        then show ?thesis by (rule observed_as_later [OF mid(2)])
      next
        case True
        then obtain n where n: "r1 = Inr (RX_Notification n)" by blast
        obtain x2 answer where obs: "observe_notification turn_ref thread turn n (bump_epoch x1) = (x2, answer)"
          by (cases "observe_notification turn_ref thread turn n (bump_epoch x1)")
        note post = notification_observed [OF obs] 
        show ?thesis
        proof (cases answer)
          case (Some f)
          with 1(2) recv n obs post mid show ?thesis by (auto simp: observed_as_def)
        next
          case None
          have loop: "loop env os turn_ref thread turn c1 x2 = Some p" using 1(2) recv n obs None by simp
          from post mid None have "observed_as turn_ref (bump_epoch x1) None x2 \<and> \<not> xc_lost_reported x2
              \<and> nothing_held turn_ref x2" by simp
          then have next': "observer_ok turn_ref x2" "\<not> xc_lost_reported x2" "nothing_held turn_ref x2"
            and view: "view_of turn_ref x2 = view_of turn_ref x1"
            by (simp_all add: observed_as_def)
          from 1(1) [OF loop] next' have "observed_as turn_ref x2 (snd p) (snd (fst p))" by blast
          then show ?thesis by (rule observed_as_later [OF view [THEN trans, OF mid(2)]])
        qed
      qed
    qed
  qed
  with assms(2-4) show ?thesis by blast
qed

lemma poll_observed:
  assumes run: "codex_poll_exact_observation env os port scope c x = Some ((c', x'), fact')"
    and turn: "tc_turn_ref (os_correlation scope) = Some turn_ref" and ok: "observer_ok turn_ref x"
  shows "observed_as turn_ref x fact' x'"
proof (cases "xc_lost_reported x \<or> tc_birth_id (os_correlation scope) \<noteq> cb_birth_id (xc_birth x)
    \<or> tc_thread_ref (os_correlation scope) \<noteq> xc_thread_ref x")
  case True
  with run ok show ?thesis
    by (auto simp: codex_poll_exact_observation_def Let_def observed_as_def split: if_splits)
next
  case False
  let ?pending = "if xc_started_turn x = Some turn_ref then xc_pending_terminal x else None"
  have exact: "exact_notification env os port (os_correlation scope) (observation_turn_scope scope) c x = Some ((c', x'), fact')"
    using run False by (simp add: codex_poll_exact_observation_def Let_def)
  show ?thesis
  proof (cases ?pending)
    case (Some q)
    obtain r cls where q: "q = (r, cls)" by (cases q)
    with Some ok have "r = turn_ref" "\<not> xc_terminal x" "xc_started_turn x = Some turn_ref"
      by (auto simp: observer_ok_def split: if_splits)
    with exact turn Some q False ok show ?thesis
      by (auto simp: exact_notification_def Let_def observed_as_def observer_ok_def view_of_def)
  next
    case None
    then have stream: "observe_stream env os port turn_ref (observation_turn_scope scope) c x = Some ((c', x'), fact')"
      using exact turn by (simp add: exact_notification_def)
    have lost: "\<not> xc_lost_reported x" using False by simp
    have held: "nothing_held turn_ref x" using None by (auto simp: nothing_held_def split: if_splits)
    from stream show ?thesis
      using once_observed [OF ok lost] notification_loop_observed [OF _ ok lost held]
      by (auto simp: observe_stream_def split: sum.splits prod.splits)
  qed
qed

section \<open>The other operations leave the observer alone\<close>

text \<open>A call of the controller that keeps its transport within the invariant and its view of the turn.\<close>

definition unobserved :: "'p CodexController \<Rightarrow> 'p CodexController \<Rightarrow> bool" where
  "unobserved x x' \<longleftrightarrow> same_view x x' \<and> (transport_ok (xc_state x) \<longrightarrow> transport_ok (xc_state x'))"

lemma unobserved_refl: "unobserved x x"
  by (simp add: unobserved_def same_view_refl)

lemma unobserved_trans: "unobserved x y \<Longrightarrow> unobserved y z \<Longrightarrow> unobserved x z"
  by (auto simp: unobserved_def intro: same_view_trans)

lemma unobserved_simps [simp]:
  "unobserved x (give_up_lane y) = unobserved x y"
  "unobserved x (y\<lparr>xc_lane_probe := l\<rparr>) = unobserved x y"
  "unobserved x (y\<lparr>xc_reconciling := q\<rparr>) = unobserved x y"
  "unobserved x (y\<lparr>xc_persist := p\<rparr>) = unobserved x y"
  "unobserved (x\<lparr>xc_persist := p\<rparr>) y = unobserved x y"
  "unobserved x (bump_epoch y) = unobserved x y"
  "unobserved x (settle_write command d y) = unobserved x y"
  by (simp_all add: unobserved_def same_view_def give_up_lane_def bump_epoch_def settle_write_def)

lemma unobserved_discard: "unobserved x y \<Longrightarrow> unobserved x (discard_turn y)"
  by (auto simp: unobserved_def discard_turn_def give_up_lane_def discard_prepared_turn_def same_view_def
      intro: transport_ok_frame)

lemma unobserved_transport:
  "(transport_ok (xc_state x) \<Longrightarrow> transport_ok (ct_state tr)) \<Longrightarrow> unobserved x (x\<lparr>xc_transport := tr\<rparr>)"
  by (simp add: unobserved_def same_view_def)

lemma controller_receive_unobserved:
  assumes "controller_receive env os d c x = Some ((c', x'), r)"
  shows "unobserved x x'"
proof -
  obtain tr where tr: "receive_until env os d c (xc_transport x) = Some ((c', tr), r)" "x' = x\<lparr>xc_transport := tr\<rparr>"
    using assms by (auto simp: controller_receive_def on_transport_def)
  from receive_until_post [OF _ tr(1)] tr(2) show ?thesis
    by (auto simp: receive_post_def listened_def intro: unobserved_transport)
qed

lemma drain_unobserved:
  assumes "drain_before_mutation env os c x = Some ((c', x'), r)" "transport_ok (xc_state x)"
  shows "unobserved x x'"
  using drain_before_mutation_post [OF assms] assms(2)
  by (auto simp: drained_def unobserved_def listened_def intro: same_owner_view)

lemma read_loop_unobserved:
  assumes "read_loop env os c x = Some p"
  shows "unobserved x (snd (fst p))"
proof (rule read_loop_induct [where P = "\<lambda>env os c x p. unobserved x (snd (fst p))", OF _ assms], goal_cases)
  case (1 loop env os c x p)
  obtain c1 x1 r1 where recv: "controller_receive env os IO_DEADLINE c x = Some ((c1, x1), r1)"
    using 1(2) by (auto split: option.splits)
  note step = controller_receive_unobserved [OF recv]
  have again: "loop env os c1 (bump_epoch x1) = Some p \<Longrightarrow> unobserved x (snd (fst p))"
    using 1(1) [of env os c1 "bump_epoch x1" p] step by (auto intro: unobserved_trans [of x "bump_epoch x1"])
  show ?case
    using 1(2) recv step again by (auto split: sum.splits Received.splits)
qed

lemma read_state_unobserved:
  assumes "read_state env os port c x = Some ((c', x'), r)"
  shows "unobserved x x'"
proof (cases "opened_thread_str port x")
  case (Inl e)
  with assms show ?thesis by (simp add: read_state_def unobserved_refl)
next
  case (Inr thread)
  obtain c1 tr1 r1 where req: "transport_read_thread env os thread c (xc_transport x) = Some ((c1, tr1), r1)"
    using assms Inr by (auto simp: read_state_def on_transport_def and_then_def split: bind_splits)
  have x1: "unobserved x (x\<lparr>xc_transport := tr1\<rparr>)"
    by (rule unobserved_transport, rule live_request_ok [OF req [unfolded transport_read_thread_def]])
      (auto dest: read_thread_ok)
  show ?thesis
  proof (cases r1)
    case (Inl e)
    with assms Inr req x1 show ?thesis by (simp add: read_state_def on_transport_def)
  next
    case r1: (Inr u)
    with assms Inr req have "read_loop env os c1 (x\<lparr>xc_transport := tr1\<rparr>) = Some ((c', x'), r)"
      by (simp add: read_state_def on_transport_def)
    from read_loop_unobserved [OF this] x1 show ?thesis by (auto intro: unobserved_trans)
  qed
qed

lemma idle_probe_result_unobserved: "idle_probe_result binding at state x = (x', result) \<Longrightarrow> unobserved x x'"
  by (auto simp: idle_probe_result_def Let_def unobserved_refl split: sum.splits prod.splits ThreadState.splits)

lemma confirm_idle_unobserved:
  assumes "confirm_idle env os binding at state c x = Some ((c', x'), r)" "transport_ok (xc_state x)"
  shows "unobserved x x'"
proof (cases state)
  case (Inl e)
  with assms show ?thesis
    by (auto simp: confirm_idle_def split: prod.splits intro: idle_probe_result_unobserved)
next
  case (Inr a)
  obtain ts n where a: "a = (ts, n)" by (cases a)
  obtain c1 x1 r1 where drain: "drain_before_mutation env os c x = Some ((c1, x1), r1)"
    using assms(1) Inr a by (auto simp: confirm_idle_def split: option.splits prod.splits)
  have step: "unobserved x x1" by (rule drain_unobserved [OF drain assms(2)])
  show ?thesis
    using assms(1) Inr a drain step
    by (auto simp: confirm_idle_def split: prod.splits if_splits
        intro: unobserved_trans dest!: idle_probe_result_unobserved)
qed

lemma probe_unobserved:
  assumes run: "codex_probe_idle env os port binding c x = Some ((c', x'), r)" and ok: "transport_ok (xc_state x)"
  shows "unobserved x x'"
proof -
  obtain c1 now where utc: "on_world (pr_utc_now os) c = (c1, now)" by (cases "on_world (pr_utc_now os) c")
  show ?thesis
  proof (cases "ca_birth_id (pb_attachment binding) \<noteq> cb_birth_id (xc_birth x)
      \<or> pb_thread_ref binding \<noteq> xc_thread_ref x \<or> xc_lane_probe x \<noteq> None")
    case True
    with run utc show ?thesis by (auto simp: codex_probe_idle_def unobserved_refl split: if_splits)
  next
    case False
    obtain c2 x2 r2 where drain: "drain_before_mutation env os c1 x = Some ((c2, x2), r2)"
      using run utc False by (auto simp: codex_probe_idle_def split: option.splits prod.splits)
    have d: "unobserved x x2" by (rule drain_unobserved [OF drain ok])
    show ?thesis
    proof (cases r2)
      case (Inl e)
      with run utc False drain d show ?thesis by (auto simp: codex_probe_idle_def)
    next
      case (Inr u)
      obtain c3 x3 state where read: "read_state env os port c2 x2 = Some ((c3, x3), state)"
        using run utc False drain Inr by (auto simp: codex_probe_idle_def split: option.splits prod.splits)
      have confirm: "confirm_idle env os binding now state c3 x3 = Some ((c', x'), r)"
        using run utc False drain Inr read by (simp add: codex_probe_idle_def)
      have s: "unobserved x x3" using d read_state_unobserved [OF read] by (rule unobserved_trans)
      with ok have "transport_ok (xc_state x3)" by (simp add: unobserved_def)
      from confirm_idle_unobserved [OF confirm this] s show ?thesis by (auto intro: unobserved_trans)
    qed
  qed
qed

lemma seal_turn_unobserved: "seal_turn port scope turn x = Some (x', r) \<Longrightarrow> unobserved x x'"
  by (auto simp: seal_turn_def unobserved_refl split: sum.splits)

lemma await_turn_unobserved:
  assumes "await_turn env os port command c x = Some ((c', x'), d)"
  shows "unobserved x x'"
proof -
  obtain c1 x1 r1 where recv: "controller_receive env os IO_DEADLINE c x = Some ((c1, x1), r1)"
    using assms by (auto simp: await_turn_def split: option.splits)
  from controller_receive_unobserved [OF recv] assms recv show ?thesis
    by (auto simp: await_turn_def Let_def split: sum.splits Received.splits option.splits
        dest!: seal_turn_unobserved intro: unobserved_trans)
qed

lemma write_unobserved:
  assumes run: "codex_write_reserved_turn env os port lane command c x = Some ((c', x'), r)"
    and ok: "transport_ok (xc_state x)"
  shows "unobserved x x'"
proof (cases "xc_lane_probe x \<noteq> Some (cc_expected_probe_id command)
    \<or> ig_probe_id lane \<noteq> cc_expected_probe_id command \<or> ig_epoch lane \<noteq> cc_expected_epoch command
    \<or> (\<exists>e. opened_thread_str port x = Inl e)")
  case True
  with run show ?thesis
    by (auto simp: codex_write_reserved_turn_def unobserved_refl split: if_splits)
next
  case False
  then obtain thread where thread: "opened_thread_str port x = Inr thread" by (cases "opened_thread_str port x") auto
  obtain c1 x1 r1 where prep: "prepare_and_drain env os thread command c x = Some ((c1, x1), r1)"
    using run False thread by (auto simp: codex_write_reserved_turn_def split: option.splits)
  have u: "unobserved x x1" using prepare_and_drain_post [OF prep ok] by (simp add: unobserved_def)
  show ?thesis
  proof (cases r1)
    case (Inl e)
    with run False thread prep u show ?thesis by (simp add: codex_write_reserved_turn_def)
  next
    case (Inr i)
    have "final_checks env os port command i c1 x1 = Some ((c', x'), r)"
      using run False thread prep Inr by (simp add: codex_write_reserved_turn_def)
    then have "same_view x1 x'"
      by (auto simp: final_checks_def Let_def dispatch_turn_def same_view_refl
          split: prod.splits if_splits option.splits sum.splits dest!: await_turn_unobserved)
        (simp_all add: unobserved_def same_view_def give_up_lane_def)
    with u write_reserved_turn_post [OF run ok] show ?thesis
      by (auto simp: unobserved_def intro: same_view_trans)
  qed
qed

lemma reconcile_unobserved:
  assumes "codex_reconcile_exact env os port scope c x = Some ((c', x'), r)"
  shows "unobserved x x'"
proof -
  obtain p recovered where rec: "kp_recover port (xc_persist x) = (p, recovered)" by (cases "kp_recover port (xc_persist x)")
  show ?thesis
  proof (cases "\<exists>c1 x1 turn. controller_receive env os 0 c (x\<lparr>xc_persist := p\<rparr>) = Some ((c1, x1), Inr (RX_TurnStarted turn))")
    case False
    with assms rec show ?thesis
      by (auto simp: codex_reconcile_exact_def Let_def unobserved_refl split: if_splits option.splits sum.splits Received.splits
          dest: controller_receive_unobserved)
  next
    case True
    then obtain c1 x1 turn where recv: "controller_receive env os 0 c (x\<lparr>xc_persist := p\<rparr>) = Some ((c1, x1), Inr (RX_TurnStarted turn))"
      by blast
    have x1: "unobserved x x1" using controller_receive_unobserved [OF recv] by simp
    have "x' = x\<lparr>xc_persist := p\<rparr> \<or> (\<exists>q. seal_turn port (reconciliation_turn_scope scope) turn x1 = Some (x', q))"
      using assms rec recv by (auto simp: codex_reconcile_exact_def Let_def split: if_splits)
    with x1 show ?thesis by (auto simp: unobserved_refl dest!: seal_turn_unobserved intro: unobserved_trans)
  qed
qed

end
