(* ===== verification/Codex_Children.thy ===== *)
theory Codex_Children
  imports Codex_Process "HOL-Library.Multiset"
begin

text \<open>
  The processes a Codex transport leaves behind. A small calculus of the runs of \<open>Codex_Process\<close>:
  what a run leaves among the children when it ends in an error, and when it ends in a value. Two
  errors say that the cleanup could not be proved: \<open>Cleanup\<close>, and \<open>Group\<close> from the proof of a new
  anchor, whose reaping is only tried.
\<close>

section \<open>Calls that leave the children alone\<close>

abbreviation kids :: "'w Conduit \<Rightarrow> nat multiset" where
  "kids c \<equiv> mset (cd_children c)"

lemma children_call:
  "on_world call c = (c', x) \<Longrightarrow> cd_children c' = cd_children c"
  "conduit_now k c = (c', now) \<Longrightarrow> cd_children c' = cd_children c"
  "conduit_read rd space c = (c', ra) \<Longrightarrow> cd_children c' = cd_children c"
  "conduit_write wr frame c = (c', wa) \<Longrightarrow> cd_children c' = cd_children c"
  "conduit_flush wr c = (c', fa) \<Longrightarrow> cd_children c' = cd_children c"
  by (auto simp: on_world_def conduit_now_def conduit_read_def conduit_write_def conduit_flush_def
      split: prod.splits ReadAnswer.splits)

lemma children_sleep [simp]: "cd_children (conduit_sleep k d c) = cd_children c"
  by (simp add: conduit_sleep_def)

lemma children_close [simp]:
  "cd_children (close_stdin os pid c) = cd_children c"
  "cd_children (drop_anchor_input os anchor c) = cd_children c"
  by (simp_all add: close_stdin_def drop_anchor_input_def)

lemma children_files:
  "file_identity fs path c = (c', r) \<Longrightarrow> cd_children c' = cd_children c"
  "resolve_path fs path c = (c', r') \<Longrightarrow> cd_children c' = cd_children c"
  by (auto simp: file_identity_def resolve_path_def conduit_metadata_def conduit_canonicalize_def
      split: prod.splits option.splits if_splits dest!: children_call(1))

lemma children_proofs:
  "prove_group_member os pid group' c = (c', r) \<Longrightarrow> cd_children c' = cd_children c"
  "join_group os pid anchor c = (c', r) \<Longrightarrow> cd_children c' = cd_children c"
  "set_nonblocking_both os pid h1 h2 c = (c', r) \<Longrightarrow> cd_children c' = cd_children c"
  by (auto simp: prove_group_member_def join_group_def set_nonblocking_both_def
      split: prod.splits option.splits bool.splits dest!: children_call(1))

lemma flush_loop_children:
  assumes "flush_loop k wr until c = Some p"
  shows "cd_children (fst p) = cd_children c"
proof (rule flush_loop.raw_induct [where P = "\<lambda>k wr until c p. cd_children (fst p) = cd_children c", OF _ assms], goal_cases)
  case (1 loop k wr until c p)
  show ?case
    using 1(2) by (auto dest!: 1(1) children_call split: prod.splits FlushAnswer.splits if_splits)
qed

lemma write_loop_children:
  assumes "write_loop k wr until frame wrote c = Some p"
  shows "cd_children (fst p) = cd_children c"
proof (rule write_loop.raw_induct [where P = "\<lambda>k wr until frame wrote c p. cd_children (fst p) = cd_children c", OF _ assms], goal_cases)
  case (1 loop k wr until frame wrote c p)
  show ?case
    using 1(2)
    by (auto dest!: 1(1) children_call flush_loop_children split: prod.splits WriteAnswer.splits if_splits)
qed

lemma version_loop_children:
  assumes "version_loop k rd until seen c = Some p"
  shows "cd_children (fst p) = cd_children c"
proof (rule version_loop.raw_induct [where P = "\<lambda>k rd until seen c p. cd_children (fst p) = cd_children c", OF _ assms], goal_cases)
  case (1 loop k rd until seen c p)
  show ?case
    using 1(2) by (auto dest!: 1(1) children_call split: prod.splits ReadAnswer.splits if_splits)
qed

lemma drain_loop_children:
  assumes "drain_loop k rd maximum until sum_read c = Some p"
  shows "cd_children (fst p) = cd_children c"
proof (rule drain_loop.raw_induct [where P = "\<lambda>k rd maximum until sum_read c p. cd_children (fst p) = cd_children c", OF _ assms], goal_cases)
  case (1 loop k rd maximum until sum_read c p)
  show ?case
    using 1(2) by (auto dest!: 1(1) children_call split: prod.splits ReadAnswer.splits if_splits)
qed

lemma transport_initialize_children:
  "transport_initialize env c t = Some ((c', t'), r) \<Longrightarrow> cd_children c' = cd_children c"
  by (auto simp: transport_initialize_def transport_send_def transport_write_def write_all_until_def and_then_def
      split: if_splits prod.splits option.splits sum.splits bind_splits
      dest!: write_loop_children children_call(2))

section \<open>What a run leaves\<close>

definition excused :: "CodexError \<Rightarrow> bool" where
  "excused e \<longleftrightarrow> e = XE_Cleanup \<or> e = XE_Group"

text \<open>
  A run with an error that is not excused leaves no children beyond \<open>K\<close>; one with a value \<open>x\<close> none
  beyond \<open>L x\<close>.
\<close>

definition leaves :: "nat multiset \<Rightarrow> ('a \<Rightarrow> nat multiset) \<Rightarrow> ('w, 'a) run \<Rightarrow> bool" where
  "leaves K L m \<longleftrightarrow> ends m (\<lambda>c r. case r of
     Inl e \<Rightarrow> excused e \<or> kids c \<subseteq># K
   | Inr x \<Rightarrow> kids c \<subseteq># L x)"

lemma leaves_simps [simp]:
  "leaves K L None"
  "leaves K L (Some (c, Inl e)) \<longleftrightarrow> excused e \<or> kids c \<subseteq># K"
  "leaves K L (Some (c, Inr x)) \<longleftrightarrow> kids c \<subseteq># L x"
  by (simp_all add: leaves_def)

lemma leaves_and_then:
  assumes "leaves K L m" "\<And>c x. kids c \<subseteq># L x \<Longrightarrow> leaves K M (f c x)"
  shows "leaves K M (and_then m f)"
proof (cases m)
  case (Some p)
  obtain c r where p: "p = (c, r)" by (cases p)
  with Some assms show ?thesis by (cases r) simp_all
qed simp

lemma leavesD: "leaves K L m \<Longrightarrow> m = Some (c, r) \<Longrightarrow> (case r of Inl e \<Rightarrow> excused e \<or> kids c \<subseteq># K | Inr x \<Rightarrow> kids c \<subseteq># L x)"
  by (simp add: leaves_def ends_def)

lemma leaves_mono: "leaves K L m \<Longrightarrow> K \<subseteq># K' \<Longrightarrow> (\<And>x. L x \<subseteq># L' x) \<Longrightarrow> leaves K' L' m"
  unfolding leaves_def
  by (erule ends_weaken) (auto split: sum.splits intro: subset_mset.order_trans)

text \<open>Polling: every attempt keeps within the children; the one that gives a value, within \<open>L\<close>.\<close>

lemma poll_until_leaves:
  assumes run: "poll_until k attempt timeout until c = Some p"
    and att: "\<And>c c' a. attempt c = (c', a) \<Longrightarrow> kids c' \<subseteq># kids c
      \<and> (\<forall>x. a = Some (Inr x) \<longrightarrow> kids c' \<subseteq># kids c - D) \<and> (\<forall>e. a = Some (Inl e) \<longrightarrow> e = timeout)"
  shows "kids (fst p) \<subseteq># kids c \<and> (\<forall>x. snd p = Inr x \<longrightarrow> kids (fst p) \<subseteq># kids c - D) \<and> (\<forall>e. snd p = Inl e \<longrightarrow> e = timeout)"
proof (rule poll_until.raw_induct [where P = "\<lambda>k' attempt' timeout' until c p. attempt' = attempt \<longrightarrow> timeout' = timeout
    \<longrightarrow> kids (fst p) \<subseteq># kids c \<and> (\<forall>x. snd p = Inr x \<longrightarrow> kids (fst p) \<subseteq># kids c - D) \<and> (\<forall>e. snd p = Inl e \<longrightarrow> e = timeout)",
    OF _ run, THEN mp, OF _ refl, THEN mp, OF _ refl], goal_cases)
  case (1 loop k' attempt' timeout' until c p)
  show ?case
  proof (intro impI)
    assume eq: "attempt' = attempt" "timeout' = timeout"
    obtain c1 a where try': "attempt c = (c1, a)" by (cases "attempt c")
    note step = att [OF try']
    show "kids (fst p) \<subseteq># kids c \<and> (\<forall>x. snd p = Inr x \<longrightarrow> kids (fst p) \<subseteq># kids c - D) \<and> (\<forall>e. snd p = Inl e \<longrightarrow> e = timeout)"
    proof (cases a)
      case (Some r)
      with 1(2) eq try' step show ?thesis by auto
    next
      case None
      obtain c2 now where now: "conduit_now k' c1 = (c2, now)" by (cases "conduit_now k' c1")
      have kids2: "kids c2 \<subseteq># kids c" using step children_call(2) [OF now] by simp
      show ?thesis
      proof (cases "until \<le> now")
        case True
        with 1(2) eq try' None now kids2 show ?thesis by auto
      next
        case False
        let ?c = "conduit_sleep k' POLL_INTERVAL c2"
        have "loop k' attempt timeout until ?c = Some p" using 1(2) eq try' None now False by simp
        from 1(1) [OF this] have
          "kids (fst p) \<subseteq># kids c2 \<and> (\<forall>x. snd p = Inr x \<longrightarrow> kids (fst p) \<subseteq># kids c2 - D) \<and> (\<forall>e. snd p = Inl e \<longrightarrow> e = timeout)"
          by simp
        moreover have "kids c2 - D \<subseteq># kids c - D" using kids2 by (simp add: subseteq_mset_def diff_le_mono)
        ultimately show ?thesis using kids2 by (auto intro: subset_mset.order_trans)
      qed
    qed
  qed
qed

lemma poll_for_leaves:
  assumes "\<And>c c' a. attempt c = (c', a) \<Longrightarrow> kids c' \<subseteq># kids c
      \<and> (\<forall>x. a = Some (Inr x) \<longrightarrow> kids c' \<subseteq># kids c - D) \<and> (\<forall>e. a = Some (Inl e) \<longrightarrow> e = timeout)"
    and "poll_for k attempt timeout c = Some (c', r)"
  shows "kids c' \<subseteq># kids c" "\<And>x. r = Inr x \<Longrightarrow> kids c' \<subseteq># kids c - D" "\<And>e. r = Inl e \<Longrightarrow> e = timeout"
proof -
  obtain c1 now where now: "conduit_now k c = (c1, now)" by (cases "conduit_now k c")
  with assms(2) have "poll_until k attempt timeout (now + CLEANUP_DEADLINE) c1 = Some (c', r)" by (simp add: poll_for_def)
  from poll_until_leaves [OF this assms(1)] children_call(2) [OF now]
  show "kids c' \<subseteq># kids c" "\<And>x. r = Inr x \<Longrightarrow> kids c' \<subseteq># kids c - D" "\<And>e. r = Inl e \<Longrightarrow> e = timeout" by auto
qed

section \<open>Waiting and reaping\<close>

lemma try_wait_kids:
  assumes "try_wait os pid c = (c', s)"
  shows "kids c' \<subseteq># kids c" "\<And>ok. s = Some (Some ok) \<Longrightarrow> kids c' = kids c - {#pid#}"
  using assms
  by (auto simp: try_wait_def split: prod.splits option.splits dest!: children_call(1))

lemma process_birth_token_kids:
  "process_birth_token k os pid c = Some (c', r) \<Longrightarrow> kids c' \<subseteq># kids c"
  unfolding process_birth_token_def
  by (rule poll_for_leaves(1) [where D = "{#}"]) (auto split: prod.splits dest: children_call(1))

lemma reprove_anchor_kids:
  "reprove_anchor k os anchor c = Some (c', r) \<Longrightarrow> kids c' \<subseteq># kids c"
  unfolding reprove_anchor_def
  by (rule poll_for_leaves(1) [where D = "{#}"])
    (auto split: prod.splits if_splits dest!: children_call(1) children_proofs(1))

lemma wait_for_reap_kids:
  assumes "wait_for_reap k os pid c = Some (c', r)"
  shows "kids c' \<subseteq># kids c \<and> (\<forall>x. r = Inr x \<longrightarrow> kids c' \<subseteq># kids c - {#pid#}) \<and> (\<forall>e. r = Inl e \<longrightarrow> e = XE_Cleanup)"
proof -
  have att: "kids c' \<subseteq># kids c \<and> (\<forall>x. a = Some (Inr x) \<longrightarrow> kids c' \<subseteq># kids c - {#pid#}) \<and> (\<forall>e. a = Some (Inl e) \<longrightarrow> e = XE_Cleanup)"
    if "(case try_wait os pid c of (c, None) \<Rightarrow> (c, Some (Inl XE_Cleanup)) | (c, Some status) \<Rightarrow> (c, map_option Inr status)) = (c', a)"
    for c c' and a :: "(CodexError + bool) option"
    using that try_wait_kids [of os pid c] by (auto split: prod.splits option.splits)
  from poll_for_leaves [OF att assms [unfolded wait_for_reap_def]] show ?thesis by blast
qed

lemma verify_reaped_kids:
  assumes "verify_reaped k os pid child c = Some (c', r)"
  shows "kids c' \<subseteq># kids c \<and> (\<forall>x. r = Inr x \<longrightarrow> kids c' \<subseteq># kids c - {#child#}) \<and> (\<forall>e. r = Inl e \<longrightarrow> e = XE_Cleanup)"
proof -
  obtain c1 r1 where w: "wait_for_reap k os child c = Some (c1, r1)"
    using assms by (auto simp: verify_reaped_def and_then_def split: bind_splits)
  note first = wait_for_reap_kids [OF w]
  show ?thesis
  proof (cases r1)
    case (Inl e)
    with assms w first show ?thesis by (auto simp: verify_reaped_def)
  next
    case (Inr ok)
    let ?attempt = "\<lambda>c. case on_world (pr_is_fully_gone os pid) c of
        (c, None) \<Rightarrow> (c, Some (Inl XE_Cleanup)) | (c, Some gone) \<Rightarrow> (c, if gone then Some (Inr ()) else None)"
    have run: "poll_for k ?attempt XE_Cleanup c1 = Some (c', r)"
      using assms w Inr by (simp add: verify_reaped_def)
    have att: "kids c' \<subseteq># kids c \<and> (\<forall>x. a = Some (Inr x) \<longrightarrow> kids c' \<subseteq># kids c - {#}) \<and> (\<forall>e. a = Some (Inl e) \<longrightarrow> e = XE_Cleanup)"
      if "?attempt c = (c', a)" for c c' a
      using that by (auto split: prod.splits option.splits if_splits dest!: children_call(1))
    from poll_for_leaves [OF att run] first Inr show ?thesis by (auto intro: subset_mset.order_trans)
  qed
qed

lemma subset_remove: "K \<subseteq># L - A \<Longrightarrow> K \<subseteq># (L :: 'a multiset)"
  using diff_subset_eq_self subset_mset.order_trans by blast

lemma diff_single_mono: "K \<subseteq># L \<Longrightarrow> K - A \<subseteq># (L :: 'a multiset) - A"
  by (simp add: subseteq_mset_def diff_le_mono)

lemma subset_added: "K \<subseteq># L + A \<Longrightarrow> K - A \<subseteq># (L :: 'a multiset)"
  by (simp add: subset_eq_diff_conv)

lemma close_and_reap_anchor_kids:
  assumes "close_and_reap_anchor k os anchor c = Some (c', r)"
  shows "kids c' \<subseteq># kids c \<and> (\<forall>x. r = Inr x \<longrightarrow> kids c' \<subseteq># kids c - {#an_child anchor#}) \<and> (\<forall>e. r = Inl e \<longrightarrow> e = XE_Cleanup)"
  using verify_reaped_kids [OF assms [unfolded close_and_reap_anchor_def]] by simp

lemma close_with_leaves:
  assumes "kids c \<subseteq># K + {#an_child anchor#}"
  shows "leaves K L (close_with k os anchor error c)"
proof -
  have "leaves K (\<lambda>_. K) (close_and_reap_anchor k os anchor c)"
    unfolding leaves_def
  proof
    fix c' r
    assume "close_and_reap_anchor k os anchor c = Some (c', r)"
    from close_and_reap_anchor_kids [OF this] subset_added [OF assms]
    show "case r of Inl e \<Rightarrow> excused e \<or> kids c' \<subseteq># K | Inr x \<Rightarrow> kids c' \<subseteq># K"
      by (auto simp: excused_def split: sum.split intro: subset_mset.order_trans dest: diff_single_mono)
  qed
  then show ?thesis unfolding close_with_def by (rule leaves_and_then) simp
qed

text \<open>The group: both of its children go, or the error is \<open>Cleanup\<close>.\<close>

lemma reap_group_kids:
  assumes "reap_group k os anchor child signalled c = Some (c', r)"
  shows "kids c' \<subseteq># kids c \<and> (\<forall>x. r = Inr x \<longrightarrow> kids c' \<subseteq># kids c - {#child, an_child anchor#}) \<and> (\<forall>e. r = Inl e \<longrightarrow> e = XE_Cleanup)"
proof -
  obtain c1 r1 where one: "verify_reaped k os child child c = Some (c1, r1)"
    using assms by (auto simp: reap_group_def split: option.splits)
  obtain c2 r2 where two: "verify_reaped k os (an_group anchor) (an_child anchor) c1 = Some (c2, r2)"
    using assms one by (auto simp: reap_group_def split: option.splits)
  have eq: "c' = c2" "r = ensure (signalled \<and> is_ok r1 \<and> is_ok r2) XE_Cleanup"
    using assms one two by (simp_all add: reap_group_def)
  note a = verify_reaped_kids [OF one] and b = verify_reaped_kids [OF two]
  have "kids c2 \<subseteq># kids c - {#child, an_child anchor#}" if "is_ok r1" "is_ok r2"
  proof -
    have "kids c2 \<subseteq># kids c1 - {#an_child anchor#}" using b that(2) by (cases r2) auto
    moreover have "kids c1 \<subseteq># kids c - {#child#}" using a that(1) by (cases r1) auto
    ultimately show ?thesis using diff_single_mono [of "kids c1" "kids c - {#child#}" "{#an_child anchor#}"]
      by (auto simp: add_mset_commute intro: subset_mset.order_trans)
  qed
  then show ?thesis
    using a b eq by (auto simp: ensure_def intro: subset_mset.order_trans split: if_splits)
qed

lemma terminate_anchored_kids:
  assumes "terminate_anchored k os anchor child c = Some ((c', anchor'), r)"
  shows "an_child anchor' = an_child anchor \<and> kids c' \<subseteq># kids c
    \<and> (\<forall>x. r = Inr x \<longrightarrow> kids c' \<subseteq># kids c - {#child, an_child anchor#}) \<and> (\<forall>e. r = Inl e \<longrightarrow> e = XE_Cleanup)"
proof -
  obtain c1 r1 where first: "reprove_anchor k os anchor c = Some (c1, r1)"
    using assms by (auto simp: terminate_anchored_def split: option.splits)
  have k1: "kids c1 \<subseteq># kids c" using first by (rule reprove_anchor_kids)
  show ?thesis
  proof (cases r1)
    case (Inl e)
    with assms first k1 show ?thesis by (auto simp: terminate_anchored_def)
  next
    case r1: (Inr u)
    obtain c2 terminated where term': "on_world (pr_terminate_group os (an_group anchor)) c1 = (c2, terminated)"
      by (cases "on_world (pr_terminate_group os (an_group anchor)) c1")
    obtain c3 r3 where second: "reprove_anchor k os anchor (conduit_sleep k GRACE_INTERVAL c2) = Some (c3, r3)"
      using assms first r1 term' by (auto simp: terminate_anchored_def split: option.splits)
    have k3: "kids c3 \<subseteq># kids c"
      using reprove_anchor_kids [OF second] children_call(1) [OF term'] k1 by (auto intro: subset_mset.order_trans)
    show ?thesis
    proof (cases r3)
      case (Inl e)
      with assms first r1 term' second k3 show ?thesis by (auto simp: terminate_anchored_def)
    next
      case r3: (Inr u)
      obtain c4 killed where kill: "on_world (pr_force_kill_group os (an_group anchor)) c3 = (c4, killed)"
        by (cases "on_world (pr_force_kill_group os (an_group anchor)) c3")
      have k4: "kids c4 \<subseteq># kids c" using k3 children_call(1) [OF kill] by simp
      obtain c5 r5 where reap: "reap_group k os anchor child (terminated \<and> killed) (drop_anchor_input os anchor c4) = Some (c5, r5)"
        using assms first r1 term' second r3 kill by (auto simp: terminate_anchored_def split: option.splits)
      have "c' = c5" "r = r5" "anchor' = anchor\<lparr>an_input := False\<rparr>"
        using assms first r1 term' second r3 kill reap by (auto simp: terminate_anchored_def)
      with reap_group_kids [OF reap] k4 show ?thesis
        by (auto intro: subset_mset.order_trans dest: diff_single_mono)
    qed
  qed
qed

lemma terminate_group_kids:
  assumes "terminate_group_and_reap k os anchor child c = Some (c', r)"
  shows "kids c' \<subseteq># kids c \<and> (\<forall>x. r = Inr x \<longrightarrow> kids c' \<subseteq># kids c - {#child, an_child anchor#}) \<and> (\<forall>e. r = Inl e \<longrightarrow> e = XE_Cleanup)"
proof -
  obtain anchor' where "terminate_anchored k os anchor child c = Some ((c', anchor'), r)"
    using assms by (auto simp: terminate_group_and_reap_def)
  from terminate_anchored_kids [OF this] show ?thesis by blast
qed

lemma terminate_group_leaves:
  assumes "kids c \<subseteq># K + {#child, an_child anchor#}"
  shows "leaves K (\<lambda>_. K) (terminate_group_and_reap k os anchor child c)"
  unfolding leaves_def
proof
  fix c' r
  assume "terminate_group_and_reap k os anchor child c = Some (c', r)"
  from terminate_group_kids [OF this] subset_added [OF assms]
  show "case r of Inl e \<Rightarrow> excused e \<or> kids c' \<subseteq># K | Inr x \<Rightarrow> kids c' \<subseteq># K"
    by (auto simp: excused_def split: sum.split intro: subset_mset.order_trans)
qed

lemma terminate_with_leaves:
  "kids c \<subseteq># K + {#child, an_child anchor#} \<Longrightarrow> leaves K L (terminate_with k os anchor child error c)"
  unfolding terminate_with_def by (rule leaves_and_then [OF terminate_group_leaves]) simp_all

lemma reject_probe_leaves:
  assumes "kids c \<subseteq># K + {#child, an_child anchor#}"
  shows "leaves K L (reject_probe k os anchor child error c)"
  using terminate_group_leaves [OF assms, of k os]
  by (auto simp: reject_probe_def excused_def split: option.split prod.split sum.split)

section \<open>Spawning\<close>

lemma spawn_child_kids:
  "spawn_child os command c = (c', child) \<Longrightarrow>
    kids c' = kids c + (case child of None \<Rightarrow> {#} | Some s \<Rightarrow> {#sc_pid s#})"
  by (auto simp: spawn_child_def split: prod.splits option.splits dest!: children_call(1))

lemma prove_anchor_leaves:
  assumes "kids c \<subseteq># K + {#sc_pid child#}"
  shows "leaves K (\<lambda>anchor. K + {#an_child anchor#}) (prove_anchor k os child c)"
proof (cases "process_birth_token k os (sc_pid child) c")
  case (Some p)
  obtain c1 token where p: "p = (c1, token)" by (cases p)
  have "kids c1 \<subseteq># K + {#sc_pid child#}"
    using process_birth_token_kids [of k os "sc_pid child" c c1 token] Some p assms by (auto intro: subset_mset.order_trans)
  with Some p show ?thesis
    by (auto simp: prove_anchor_def Let_def excused_def split: sum.split prod.split option.split if_splits
        dest!: children_proofs(1))
qed (simp add: prove_anchor_def)

lemma spawn_anchor_leaves:
  assumes "kids c \<subseteq># K"
  shows "leaves K (\<lambda>anchor. K + {#an_child anchor#}) (spawn_anchor k fs os c)"
proof -
  obtain c1 path where a: "resolve_path fs ''/bin/sh'' c = (c1, path)" by (cases "resolve_path fs ''/bin/sh'' c")
  note k1 = children_files(2) [OF a]
  show ?thesis
  proof (cases path)
    case (Inl e)
    with a k1 assms show ?thesis by (simp add: spawn_anchor_def)
  next
    case path: (Inr executable)
    obtain c2 i where b: "file_identity fs executable c1 = (c2, i)" by (cases "file_identity fs executable c1")
    obtain c3 i' where d: "file_identity fs executable c2 = (c3, i')" by (cases "file_identity fs executable c2")
    note k2 = children_files(1) [OF b] and k3 = children_files(1) [OF d]
    obtain c4 child where sp: "spawn_child os (anchor_command executable) c3 = (c4, child)"
      by (cases "spawn_child os (anchor_command executable) c3")
    have k4: "kids c4 \<subseteq># K + (case child of None \<Rightarrow> {#} | Some s \<Rightarrow> {#sc_pid s#})"
      using spawn_child_kids [OF sp] k1 k2 k3 assms by simp
    show ?thesis
      using a path b d sp k1 k2 k3 assms k4
      by (cases i; cases i'; cases child) (simp_all add: spawn_anchor_def prove_anchor_leaves [simplified])
  qed
qed

lemma spawn_app_server_leaves:
  assumes "kids c \<subseteq># K + {#an_child anchor#}"
  shows "leaves K (\<lambda>child. K + {#sc_pid child, an_child anchor#}) (spawn_app_server k os anchor command c)"
proof -
  obtain c1 child where sp: "spawn_child os command c = (c1, child)" by (cases "spawn_child os command c")
  show ?thesis
  proof (cases child)
    case (Some s)
    with sp spawn_child_kids [OF sp] assms show ?thesis by (simp add: spawn_app_server_def)
  next
    case None
    with sp spawn_child_kids [OF sp] assms have "kids c1 \<subseteq># K + {#an_child anchor#}" by simp
    from close_with_leaves [OF this] sp None show ?thesis
      by (simp add: spawn_app_server_def close_with_def)
  qed
qed

lemma spawn_in_group_leaves:
  assumes "kids c \<subseteq># K + {#an_child anchor#}"
  shows "leaves K (\<lambda>child. K + {#sc_pid child, an_child anchor#}) (spawn_in_group env os qualified anchor command c)"
proof (cases "an_group anchor \<ge> 2 ^ 31")
  case True
  with close_with_leaves [OF assms] show ?thesis by (simp add: spawn_in_group_def)
next
  case False
  obtain c1 i where id': "file_identity (ce_files env) (sp_program command) c = (c1, i)"
    by (cases "file_identity (ce_files env) (sp_program command) c")
  have k1: "kids c1 \<subseteq># K + {#an_child anchor#}" using children_files(1) [OF id'] assms by simp
  show ?thesis
  proof (cases "i = Inr qualified")
    case False
    with \<open>\<not> an_group anchor \<ge> 2 ^ 31\<close> id' close_with_leaves [OF k1] show ?thesis by (simp add: spawn_in_group_def)
  next
    case True
    have joined: "leaves K (\<lambda>child. K + {#sc_pid child, an_child anchor#})
        (case join_group os (sc_pid child) anchor c of
           (c, Inl _) \<Rightarrow> terminate_with (ce_clock env) os anchor (sc_pid child) XE_Group c
         | (c, Inr _) \<Rightarrow> Some (c, Inr child))"
      if "kids c \<subseteq># K + {#sc_pid child, an_child anchor#}" for c child
      using that by (auto split: prod.split sum.split dest: children_proofs(2) intro!: terminate_with_leaves)
    from leaves_and_then [OF spawn_app_server_leaves [OF k1] joined] show ?thesis
      using False True id' by (simp add: spawn_in_group_def)
  qed
qed

lemma probe_version_children:
  assumes "probe_version env os pid c = Some (c', r)"
  shows "cd_children c' = cd_children c"
  using assms
  by (auto simp: probe_version_def parse_version_until_def drain_bounded_def and_then_def
      split: prod.splits sum.splits bind_splits
      dest!: version_loop_children drain_loop_children children_call(2))

lemma preflight_probe_leaves:
  assumes "kids c \<subseteq># K + {#sc_pid child, an_child anchor#}"
  shows "leaves K (\<lambda>_. K) (preflight_probe env os qualified executable anchor child c)"
proof (cases "\<not> sc_stdout child \<or> \<not> sc_stderr child")
  case True
  with reject_probe_leaves [OF assms] show ?thesis by (auto simp: preflight_probe_def Let_def)
next
  case False
  obtain c1 n where nb: "set_nonblocking_both os (sc_pid child) 1 2 c = (c1, n)"
    by (cases "set_nonblocking_both os (sc_pid child) 1 2 c")
  have k1: "kids c1 \<subseteq># K + {#sc_pid child, an_child anchor#}" using children_proofs(3) [OF nb] assms by simp
  show ?thesis
  proof (cases "probe_version env os (sc_pid child) c1")
    case None
    with False nb reject_probe_leaves [OF k1] show ?thesis
      by (auto simp: preflight_probe_def Let_def split: sum.split)
  next
    case (Some p)
    obtain c2 v where p: "p = (c2, v)" by (cases p)
    have k2: "kids c2 \<subseteq># K + {#sc_pid child, an_child anchor#}"
      using probe_version_children [of env os "sc_pid child" c1 c2 v] Some p k1 by simp
    have waited: "leaves K (\<lambda>_. K) (case wait_for_reap (ce_clock env) os (sc_pid child) c2 of
        None \<Rightarrow> None
      | Some (c, Inl _) \<Rightarrow> reject_probe (ce_clock env) os anchor (sc_pid child) XE_Preflight c
      | Some (c, Inr success) \<Rightarrow>
          if \<not> success then close_with (ce_clock env) os anchor XE_Preflight c
          else (case file_identity (ce_files env) executable c of
              (c, identity) \<Rightarrow>
                if identity \<noteq> Inr qualified then close_with (ce_clock env) os anchor XE_Identity c
                else and_then (close_and_reap_anchor (ce_clock env) os anchor c) (\<lambda>c _. Some (c, Inr qualified))))"
    proof (cases "wait_for_reap (ce_clock env) os (sc_pid child) c2")
      case (Some q)
      obtain c3 w where q: "q = (c3, w)" by (cases q)
      note k = wait_for_reap_kids [OF Some [unfolded q]]
      show ?thesis
      proof (cases w)
        case (Inl e)
        have "kids c3 \<subseteq># K + {#sc_pid child, an_child anchor#}" using k k2 by (auto intro: subset_mset.order_trans)
        from reject_probe_leaves [OF this] Some q Inl show ?thesis by simp
      next
        case (Inr success)
        have "kids c3 \<subseteq># kids c2 - {#sc_pid child#}" using k Inr by simp
        moreover have "kids c2 - {#sc_pid child#} \<subseteq># K + {#an_child anchor#}"
          using diff_single_mono [OF k2, of "{#sc_pid child#}"] by simp
        ultimately have k3: "kids c3 \<subseteq># K + {#an_child anchor#}" by (rule subset_mset.order_trans)
        obtain c4 i where fi: "file_identity (ce_files env) executable c3 = (c4, i)"
          by (cases "file_identity (ce_files env) executable c3")
        have k4: "kids c4 \<subseteq># K + {#an_child anchor#}" using children_files(1) [OF fi] k3 by simp
        have "leaves K (\<lambda>_. K) (close_and_reap_anchor (ce_clock env) os anchor c4)"
          unfolding leaves_def
        proof
          fix c' r
          assume "close_and_reap_anchor (ce_clock env) os anchor c4 = Some (c', r)"
          from close_and_reap_anchor_kids [OF this] subset_added [OF k4]
          show "case r of Inl e \<Rightarrow> excused e \<or> kids c' \<subseteq># K | Inr x \<Rightarrow> kids c' \<subseteq># K"
            by (auto simp: excused_def split: sum.split intro: subset_mset.order_trans)
        qed
        then have "leaves K (\<lambda>_. K) (and_then (close_and_reap_anchor (ce_clock env) os anchor c4) (\<lambda>c _. Some (c, Inr qualified)))"
          by (rule leaves_and_then) simp
        with Some q Inr fi show ?thesis by (simp add: close_with_leaves [OF k3] close_with_leaves [OF k4])
      qed
    qed simp
    with False nb Some p reject_probe_leaves [OF k1] reject_probe_leaves [OF k2] show ?thesis
      by (cases n; cases v) (simp_all add: preflight_probe_def Let_def)
  qed
qed

lemma preflight_leaves:
  assumes "kids c \<subseteq># K"
  shows "leaves K (\<lambda>_. K) (preflight env os executable c)"
proof -
  obtain c1 i where fi: "file_identity (ce_files env) executable c = (c1, i)"
    by (cases "file_identity (ce_files env) executable c")
  have k1: "kids c1 \<subseteq># K" using children_files(1) [OF fi] assms by simp
  show ?thesis
  proof (cases i)
    case (Inl e)
    with fi k1 show ?thesis by (simp add: preflight_def)
  next
    case (Inr identity)
    have "leaves K (\<lambda>_. K) (and_then (spawn_anchor (ce_clock env) (ce_files env) os c1) (\<lambda>c anchor.
      and_then (spawn_in_group env os identity anchor (piped_command executable [''--version''] False) c) (\<lambda>c child.
      preflight_probe env os identity executable anchor child c)))"
      by (rule leaves_and_then [OF spawn_anchor_leaves [OF k1]])
        (rule leaves_and_then [OF spawn_in_group_leaves], assumption, rule preflight_probe_leaves)
    with fi Inr show ?thesis by (simp add: preflight_def)
  qed
qed

section \<open>The transport\<close>

lemma transport_cleanup_kids:
  assumes run: "transport_cleanup env os c x = Some ((c', x'), r)"
  shows "kids c' \<subseteq># kids c \<and> (\<forall>u. r = Inr u \<longrightarrow> ct_cleaned x' \<and> (ct_cleaned x
      \<or> kids c' \<subseteq># kids c - {#ct_child x, an_child (ct_anchor x)#}))
    \<and> (\<forall>e. r = Inl e \<longrightarrow> e = XE_Cleanup)"
proof (cases "ct_cleaned x")
  case True
  with run show ?thesis by (auto simp: transport_cleanup_def)
next
  case False
  let ?c = "if ct_input x then close_stdin os (ct_child x) c else c"
  obtain c1 anchor r1 where term': "terminate_anchored (ce_clock env) os (ct_anchor x) (ct_child x) ?c = Some ((c1, anchor), r1)"
    using run False by (auto simp: transport_cleanup_def Let_def split: option.splits)
  have kids: "kids ?c = kids c" by simp
  have eq: "r = r1" "cd_children c' = cd_children c1" "is_ok r1 \<Longrightarrow> ct_cleaned x'"
    using run False term' by (auto simp: transport_cleanup_def Let_def split: option.splits)
  with terminate_anchored_kids [OF term'] kids show ?thesis by auto
qed

lemma drop_transport_kids: "drop_transport env os c x = Some c' \<Longrightarrow> kids c' \<subseteq># kids c"
  by (auto simp: drop_transport_def dest: transport_cleanup_kids)

lemma transport_fail_leaves:
  assumes "kids c \<subseteq># K + {#ct_child x, an_child (ct_anchor x)#}" "\<not> ct_cleaned x"
  shows "leaves K L (transport_fail env os error c x)"
proof (cases "transport_cleanup env os c x")
  case (Some p)
  obtain c1 x1 r where p: "p = ((c1, x1), r)" by (cases p) auto
  note clean = transport_cleanup_kids [OF Some [unfolded p]]
  show ?thesis
  proof (cases "drop_transport env os c1 x1")
    case None
    with Some p show ?thesis by (simp add: transport_fail_def)
  next
    case d: (Some c2)
    have "kids c2 \<subseteq># K" if "is_ok r"
      using clean that drop_transport_kids [OF d] assms subset_added [OF assms(1)]
      by (cases r) (auto intro: subset_mset.order_trans)
    with Some p d clean show ?thesis
      by (cases r) (auto simp: transport_fail_def excused_def)
  qed
qed (simp add: transport_fail_def)

abbreviation owned_by :: "CodexTransport \<Rightarrow> nat multiset" where
  "owned_by x \<equiv> {#ct_child x, an_child (ct_anchor x)#}"

lemma start_initialize_leaves:
  assumes "kids c \<subseteq># K + owned_by x" "\<not> ct_cleaned x"
  shows "leaves K (\<lambda>x. K + owned_by x) (start_initialize env os c x)"
proof -
  obtain c1 s where tw: "try_wait os (ct_child x) c = (c1, s)" by (cases "try_wait os (ct_child x) c")
  have k1: "kids c1 \<subseteq># K + owned_by x" using try_wait_kids(1) [OF tw] assms(1) by (auto intro: subset_mset.order_trans)
  show ?thesis
  proof (cases "s = Some None")
    case False
    with tw transport_fail_leaves [OF k1 assms(2)] show ?thesis
      by (auto simp: start_initialize_def split: option.split)
  next
    case True
    let ?init = "if ct_input x then on_state x (transport_initialize env c1 (ct_state x)) else Some ((c1, x), Inl XE_Closed)"
    have same: "kids c2 \<subseteq># K + owned_by x \<and> \<not> ct_cleaned x2 \<and> ct_child x2 = ct_child x \<and> ct_anchor x2 = ct_anchor x"
      if "?init = Some ((c2, x2), r2)" for c2 x2 r2
      using that k1 assms(2) by (auto simp: on_state_def dest!: transport_initialize_children split: if_splits)
    show ?thesis
    proof (cases ?init)
      case None
      with tw True show ?thesis by (simp add: start_initialize_def)
    next
      case (Some p)
      obtain c2 x2 r2 where p: "p = ((c2, x2), r2)" by (cases p) auto
      note k2 = same [OF Some [unfolded p]]
      have "leaves K (\<lambda>x. K + owned_by x) (transport_fail env os e c2 x2)" for e
        using k2 by (intro transport_fail_leaves) auto
      with tw True Some p k2 show ?thesis
        by (cases r2) (simp_all add: start_initialize_def)
    qed
  qed
qed

lemma start_piped_leaves:
  assumes "kids c \<subseteq># K + {#sc_pid child, an_child anchor#}"
    and before: "\<And>pid c c' r. before_initialize pid c = (c', r) \<Longrightarrow> cd_children c' = cd_children c"
  shows "leaves K (\<lambda>x. K + owned_by x) (start_piped env os before_initialize anchor child c)"
proof (cases "\<not> sc_stdin child \<or> \<not> sc_stdout child \<or> \<not> sc_stderr child")
  case True
  with terminate_with_leaves [OF assms(1)] show ?thesis by (auto simp: start_piped_def Let_def)
next
  case False
  obtain c1 n where nb: "set_nonblocking_both os (sc_pid child) 0 1 c = (c1, n)"
    by (cases "set_nonblocking_both os (sc_pid child) 0 1 c")
  have k1: "kids c1 \<subseteq># K + {#sc_pid child, an_child anchor#}" using children_proofs(3) [OF nb] assms by simp
  obtain c2 b where be: "before_initialize (sc_pid child) c1 = (c2, b)" by (cases "before_initialize (sc_pid child) c1")
  have k2: "kids c2 \<subseteq># K + {#sc_pid child, an_child anchor#}" using before [OF be] k1 by simp
  let ?x = "\<lparr>ct_child = sc_pid child, ct_input = True, ct_anchor = anchor, ct_stderr = True,
    ct_state = transport_state_new, ct_cleaned = False\<rparr>"
  have "leaves K (\<lambda>x. K + owned_by x) (transport_fail env os e c2 ?x)" for e
    using k2 by (intro transport_fail_leaves) auto
  moreover have "leaves K (\<lambda>x. K + owned_by x) (start_initialize env os c2 ?x)"
    using k2 by (intro start_initialize_leaves) auto
  ultimately show ?thesis
    using False nb be terminate_with_leaves [OF k1]
    by (cases n; cases b) (simp_all add: start_piped_def Let_def)
qed

lemma transport_start_leaves:
  assumes "kids c \<subseteq># K"
  shows "leaves K (\<lambda>x. K + owned_by x) (transport_start env os executable c)"
proof -
  obtain c1 path where rp: "resolve_path (ce_files env) executable c = (c1, path)"
    by (cases "resolve_path (ce_files env) executable c")
  have k1: "kids c1 \<subseteq># K" using children_files(2) [OF rp] assms by simp
  show ?thesis
  proof (cases path)
    case (Inl e)
    with rp k1 show ?thesis by (simp add: transport_start_def start_with_before_initialize_def)
  next
    case (Inr exe)
    have "leaves K (\<lambda>x. K + owned_by x) (and_then (preflight env os exe c1) (\<lambda>c qualified.
      and_then (spawn_anchor (ce_clock env) (ce_files env) os c) (\<lambda>c anchor.
      and_then (spawn_in_group env os qualified anchor (piped_command exe [''app-server''] True) c) (\<lambda>c child.
      start_piped env os (\<lambda>_ c. (c, Inr ())) anchor child c))))"
      by (rule leaves_and_then [OF preflight_leaves [OF k1]], rule leaves_and_then [OF spawn_anchor_leaves], assumption,
        rule leaves_and_then [OF spawn_in_group_leaves], assumption, rule start_piped_leaves) simp_all
    with rp Inr show ?thesis by (simp add: transport_start_def start_with_before_initialize_def)
  qed
qed

lemma start_initialize_uncleaned:
  "start_initialize env os c x = Some (c', Inr x') \<Longrightarrow> \<not> ct_cleaned x \<Longrightarrow> \<not> ct_cleaned x'"
  by (auto simp: start_initialize_def transport_fail_def on_state_def
      split: prod.splits option.splits sum.splits if_splits)

lemma transport_start_uncleaned:
  "transport_start env os executable c = Some (c', Inr x) \<Longrightarrow> \<not> ct_cleaned x"
  by (auto simp: transport_start_def start_with_before_initialize_def start_piped_def terminate_with_def and_then_def Let_def
      split: prod.splits bind_splits sum.splits if_splits dest!: start_initialize_uncleaned)

lemma transport_start_kids:
  "transport_start env os executable c = Some (c', r) \<Longrightarrow>
    (case r of Inl e \<Rightarrow> excused e \<or> kids c' \<subseteq># kids c | Inr x \<Rightarrow> kids c' \<subseteq># kids c + owned_by x)"
  by (rule leavesD [OF transport_start_leaves]) simp_all

lemma transport_cleanup_started:
  assumes "transport_cleanup env os c x = Some ((c', x'), Inr u)" "\<not> ct_cleaned x" "kids c \<subseteq># K + owned_by x"
  shows "kids c' \<subseteq># K"
  using transport_cleanup_kids [OF assms(1)] assms(2) subset_added [OF assms(3)]
  by (auto intro: subset_mset.order_trans)

end
