(* ===== verification/Codex_Claims.thy ===== *)
theory Codex_Claims
  imports Codex_Runs Codex_Children
begin

text \<open>
  What holds on every run of a Codex controller that begins with its creation: the properties of
  the transport and of the reserved turn, over the steps of \<open>Codex_Runs\<close>.
\<close>

section \<open>Every step keeps the observer, and reports what it accepts\<close>

text \<open>The turn a scope names; a scope with no turn observes nothing.\<close>

definition turn_of :: "ObservationScope \<Rightarrow> bytes" where
  "turn_of scope = (case tc_turn_ref (os_correlation scope) of None \<Rightarrow> [] | Some turn_ref \<Rightarrow> turn_ref)"

lemma poll_of_turn:
  assumes run: "codex_poll_exact_observation env os port scope c x = Some ((c', x'), fact')"
    and ok: "observer_ok (turn_of scope) x"
  shows "observed_as (turn_of scope) x fact' x'"
proof (cases "tc_turn_ref (os_correlation scope)")
  case None
  with run ok show ?thesis
    by (auto simp: codex_poll_exact_observation_def Let_def exact_notification_def observed_as_def split: if_splits)
next
  case (Some turn_ref)
  with ok poll_observed [OF run Some] show ?thesis by (simp add: turn_of_def)
qed

lemma observer_ok_unobserved:
  assumes "observer_ok turn_ref x" "unobserved x x'"
  shows "observed_as turn_ref x None x'"
  using assms by (simp add: observer_ok_def unobserved_def same_view_def observed_as_def view_of_def)

lemma observes_all_step:
  "observes_all turn_ref v (case f of None \<Rightarrow> [] | Some a \<Rightarrow> [a]) = observes_next turn_ref v f"
  by (cases f) (simp_all split: bind_splits)

lemma observes_all_append:
  "observes_all turn_ref v (fs @ gs) = Option.bind (observes_all turn_ref v fs) (\<lambda>v. observes_all turn_ref v gs)"
  by (induction fs arbitrary: v) (simp_all split: bind_splits)

lemma codex_step_observed:
  assumes run: "codex_step env os scope (c, x) op = Some ((c', x'), facts)" and ok: "observer_ok (turn_of scope) x"
  shows "observer_ok (turn_of scope) x'
    \<and> observes_all (turn_of scope) (view_of (turn_of scope) x) facts = Some (view_of (turn_of scope) x')"
proof -
  have t: "transport_ok (xc_state x)" using ok by (simp add: observer_ok_def)
  have "\<exists>f. observed_as (turn_of scope) x f x' \<and> facts = (case f of None \<Rightarrow> [] | Some a \<Rightarrow> [a])"
  proof (cases op)
    case (XO_Probe port binding)
    with run show ?thesis
      by (intro exI [of _ None])
        (auto simp: codex_step_def dest!: probe_unobserved [OF _ t] observer_ok_unobserved [OF ok])
  next
    case (XO_Write port lane command)
    with run show ?thesis
      by (intro exI [of _ None])
        (auto simp: codex_step_def dest!: write_unobserved [OF _ t] observer_ok_unobserved [OF ok])
  next
    case (XO_Poll port)
    then obtain f where "codex_poll_exact_observation env os port scope c x = Some ((c', x'), f)"
      "facts = (case f of None \<Rightarrow> [] | Some a \<Rightarrow> [a])"
      using run by (auto simp: codex_step_def)
    with poll_of_turn [OF _ ok] show ?thesis by blast
  next
    case (XO_Reconcile port rscope)
    with run show ?thesis
      by (intro exI [of _ None])
        (auto simp: codex_step_def dest!: reconcile_unobserved observer_ok_unobserved [OF ok])
  next
    case (XO_Store change)
    with run observer_ok_unobserved [OF ok, of x'] show ?thesis
      by (intro exI [of _ None]) (auto simp: codex_step_def unobserved_refl)
  qed
  then show ?thesis by (auto simp: observed_as_def observes_all_step)
qed

lemma codex_run_observed:
  assumes "codex_run env os scope (c, x) ops = Some ((c', x'), facts)" "observer_ok (turn_of scope) x"
  shows "observer_ok (turn_of scope) x'
    \<and> observes_all (turn_of scope) (view_of (turn_of scope) x) facts = Some (view_of (turn_of scope) x')"
  using assms
proof (induction ops arbitrary: c x facts)
  case Nil
  then show ?case by simp
next
  case (Cons op ops)
  obtain c1 x1 f1 where step: "codex_step env os scope (c, x) op = Some ((c1, x1), f1)"
    using Cons.prems(1) by (auto split: option.splits)
  then obtain f2 where rest: "codex_run env os scope (c1, x1) ops = Some ((c', x'), f2)" "facts = f1 @ f2"
    using Cons.prems(1) by auto
  note s = codex_step_observed [OF step Cons.prems(2)]
  with Cons.IH [OF rest(1)] rest(2) show ?case by (simp add: observes_all_append)
qed

lemma created_run_observed:
  assumes "created_run env os port persist executable helper reservation c scope ops = Some ((c', x'), facts)"
  shows "observer_ok (turn_of scope) x'
    \<and> observes_all (turn_of scope) \<lparr>tv_started = False, tv_ended = False, tv_lost = False\<rparr> facts
        = Some (view_of (turn_of scope) x')"
proof -
  obtain c1 res x where create: "create_owned env os port persist executable helper reservation c = Some (c1, CO_Owned res x)"
    and run: "codex_run env os scope (c1, x) ops = Some ((c', x'), facts)"
    using assms by (auto simp: created_run_def split: option.splits CodexCreateOutcome.splits)
  have fresh: "fresh_controller x" using create_owned_fresh [OF create] .
  then have "observer_ok (turn_of scope) x" by (simp add: fresh_controller_def observer_ok_def)
  moreover have "view_of (turn_of scope) x = \<lparr>tv_started = False, tv_ended = False, tv_lost = False\<rparr>"
    using fresh by (simp add: fresh_controller_def view_of_def)
  ultimately show ?thesis using codex_run_observed [OF run] by simp
qed

lemma created_run_transport_ok:
  "created_run env os port persist executable helper reservation c scope ops = Some ((c', x'), facts)
    \<Longrightarrow> transport_ok (xc_state x')"
  by (drule created_run_observed) (simp add: observer_ok_def)

section \<open>Properties\<close>


text \<open>C28: on every run from its creation the transport of a Codex controller stays within the
  bounds of the code: at most one request is pending, at most 64 notifications wait, and the
  line, the frame and the output read so far are within their maximal sizes. Whatever the child
  writes on its pipe, no more than that is ever held.\<close>

theorem codex_transport_bounds:
  "case created_run env os port persist executable helper reservation c scope ops of
     None \<Rightarrow> True
   | Some ((c', x'), facts) \<Rightarrow>
       length (ts_pending (xc_state x')) \<le> 1 \<and> length (ts_notifications (xc_state x')) \<le> MAX_QUEUE
       \<and> length (ts_line (xc_state x')) \<le> MAX_LINE \<and> length (ts_frame (xc_state x')) \<le> MAX_FRAME
       \<and> ts_stdout (xc_state x') \<le> MAX_STDOUT"
  using created_run_transport_ok [of env os port persist executable helper reservation c scope ops]
  by (auto simp: transport_ok_def split: option.splits)



end
