(* ===== verification/Codex_Sample.thy ===== *)
theory Codex_Sample
  imports Codex_Claims Store_Samples "HOL-Library.Code_Target_Nat"
begin

text \<open>
  A concrete run of a Codex controller on a scripted operating system: the version preflight, the
  start of the app server, the creation of the thread in the fake store, an idle probe, the
  reserved turn, and the two notifications of that turn.
\<close>

section \<open>The scripted operating system\<close>

record SampleWorld =
  sw_answers :: "ReadAnswer list"
  sw_version :: "ReadAnswer list"
  sw_next_pid :: nat
  sw_time :: int
  sw_writes :: "WriteAnswer list"

definition sample_line :: "8 word \<Rightarrow> ReadAnswer list" where
  "sample_line kind = [RA_Bytes [kind], RA_Bytes [10]]"

text \<open>The lines that answer the creation and the probe, then the rest of a dialogue.\<close>

definition sample_world :: "ReadAnswer list \<Rightarrow> WriteAnswer list \<Rightarrow> SampleWorld" where
  "sample_world later writes =
     \<lparr>sw_answers = sample_line 1 @ sample_line 2 @ [RA_WouldBlock] @ sample_line 3 @ [RA_WouldBlock] @ later,
      sw_version = [RA_Bytes (string_bytes (CODEX_VERSION @ [CHR 0x0A])), RA_Bytes []],
      sw_next_pid = 1, sw_time = 0, sw_writes = writes\<rparr>"

definition sample_read :: "SampleWorld reader" where
  "sample_read space w =
     (case sw_answers w of
        [] \<Rightarrow> (w, RA_WouldBlock)
      | answer # answers \<Rightarrow> (w\<lparr>sw_answers := answers\<rparr>, answer))"

definition sample_version_read :: "nat \<Rightarrow> SampleWorld reader" where
  "sample_version_read pid space w =
     (case sw_version w of
        [] \<Rightarrow> (w, RA_WouldBlock)
      | answer # answers \<Rightarrow> (w\<lparr>sw_version := answers\<rparr>, answer))"

text \<open>A sleep takes at least nine seconds, so that a pipe that blocks runs into the deadline.\<close>

definition sample_clock :: "SampleWorld clock" where
  "sample_clock = \<lparr>ck_now = (\<lambda>w. (w, sw_time w)), ck_sleep = (\<lambda>d w. w\<lparr>sw_time := sw_time w + max d (seconds 9)\<rparr>)\<rparr>"

definition sample_write :: "bytes \<Rightarrow> SampleWorld \<Rightarrow> SampleWorld \<times> WriteAnswer" where
  "sample_write frame w =
     (case sw_writes w of
        [] \<Rightarrow> (w, WA_Wrote (length frame))
      | answer # answers \<Rightarrow> (w\<lparr>sw_writes := answers\<rparr>, answer))"

definition sample_writer :: "SampleWorld writer" where
  "sample_writer = \<lparr>wt_write = sample_write, wt_flush = (\<lambda>w. (w, FA_Done))\<rparr>"

definition sample_files :: "SampleWorld files" where
  "sample_files =
     \<lparr>fs_canonicalize = (\<lambda>path w. (w, Some path)),
      fs_metadata = (\<lambda>path w. (w, Some \<lparr>fm_is_file = True, fm_device = 1, fm_inode = 2, fm_length = 3,
        fm_modified_seconds = 4, fm_modified_nanoseconds = 5\<rparr>))\<rparr>"

text \<open>Anchors have the odd process numbers, the child of an anchor the number after it.\<close>

definition sample_processes :: "SampleWorld processes" where
  "sample_processes =
     \<lparr>pr_spawn = (\<lambda>_ w. (w\<lparr>sw_next_pid := sw_next_pid w + 1\<rparr>,
        Some \<lparr>sc_pid = sw_next_pid w, sc_stdin = True, sc_stdout = True, sc_stderr = True\<rparr>)),
      pr_try_wait = (\<lambda>pid w. (w, Some (if pid = 4 then None else Some True))),
      pr_start_time = (\<lambda>_ w. (w, Some 7)),
      pr_getpgid = (\<lambda>pid w. (w, Some (if pid \<in> {1, 3} then pid else pid - 1))),
      pr_getsid = (\<lambda>_ w. (w, Some 1)),
      pr_is_fully_gone = (\<lambda>_ w. (w, Some True)),
      pr_terminate_group = (\<lambda>_ w. (w, True)),
      pr_force_kill_group = (\<lambda>_ w. (w, True)),
      pr_close_stdin = (\<lambda>_ w. w),
      pr_set_nonblocking = (\<lambda>_ _ w. (w, True)),
      pr_stdout_reader = sample_version_read,
      pr_stderr_reader = (\<lambda>_ _ w. (w, RA_Bytes [])),
      pr_stderr_bad = (\<lambda>w. (w, (False, False))),
      pr_join_stderr = Some,
      pr_utc_now = (\<lambda>w. (w, 0))\<rparr>"

section \<open>The scripted dialogue\<close>

definition sample_response :: "string \<Rightarrow> BorrowedEnvelope" where
  "sample_response i = \<lparr>be_id = Some i, be_method = None, be_result = Some ''{}'', be_error = None\<rparr>"

definition sample_notice :: "string \<Rightarrow> BorrowedEnvelope" where
  "sample_notice m = \<lparr>be_id = None, be_method = Some m, be_result = None, be_error = None\<rparr>"

definition sample_envelope :: "bytes \<Rightarrow> BorrowedEnvelope option" where
  "sample_envelope line =
     (if line = [1] then Some (sample_response ''1'')
      else if line = [2] then Some (sample_response ''2'')
      else if line = [3] then Some (sample_response ''3'')
      else if line = [4] then Some (sample_response ''4'')
      else if line = [5] then Some (sample_notice ''turn/started'')
      else if line = [6] then Some (sample_notice ''turn/completed'')
      else if line = [7] then Some ((sample_notice ''approval'')\<lparr>be_id := Some ''9''\<rparr>)
      else None)"

definition sample_u64 :: "string \<Rightarrow> u64 option" where
  "sample_u64 text' =
     (if text' = ''1'' then Some 1 else if text' = ''2'' then Some 2 else if text' = ''3'' then Some 3
      else if text' = ''4'' then Some 4 else None)"

definition sample_turn_notice :: "bytes \<Rightarrow> BorrowedNotification option" where
  "sample_turn_notice line =
     (if line = [5]
      then Some \<lparr>bf_method = ''turn/started'', bf_thread_id = ''t'', bf_turn = \<lparr>bn_id = Some ''u'', bn_status = Some ''inProgress''\<rparr>\<rparr>
      else Some \<lparr>bf_method = ''turn/completed'', bf_thread_id = ''t'', bf_turn = \<lparr>bn_id = Some ''u'', bn_status = Some ''completed''\<rparr>\<rparr>)"

definition sample_json :: codex_json where
  "sample_json =
     \<lparr>cj_envelope = sample_envelope, cj_u64 = sample_u64, cj_value = (\<lambda>text'. Some (JS_Number text')), cj_thread_ref = (\<lambda>_. Some ''t''),
      cj_turn_ref = (\<lambda>_. Some ''u''),
      cj_thread = (\<lambda>_. Some \<lparr>bd_id = ''t'', bd_status = Some \<lparr>bh_kind = ''idle'', bh_active_flags = None\<rparr>, bd_turns = Some []\<rparr>),
      cj_notification = sample_turn_notice, cj_pieces = (\<lambda>_. [[123, 125]])\<rparr>"

definition sample_env :: "SampleWorld codex_env" where
  "sample_env =
     \<lparr>ce_clock = sample_clock, ce_reader = sample_read, ce_writer = sample_writer, ce_files = sample_files,
      ce_json = sample_json, ce_blake3 = sample_hash, ce_client_version = ''0.1.0''\<rparr>"

definition sample_conduit :: "ReadAnswer list \<Rightarrow> WriteAnswer list \<Rightarrow> SampleWorld Conduit" where
  "sample_conduit later writes = \<lparr>cd_world = sample_world later writes, cd_wire = [], cd_heard = [], cd_children = []\<rparr>"

section \<open>The scripted controller\<close>

definition sample_reservation :: ControllerBirthReservation where
  "sample_reservation =
     \<lparr>bx_binding = \<lparr>cb_birth_id = [1], cb_seat_id = ''seat'', cb_arm_id = ''arm'', cb_generation = 1,
        cb_capability = HandleClaimedSignal, cb_lease_until = 100, cb_verifier_ref = [2]\<rparr>,
      bx_create_attempt_id = [3]\<rparr>"

definition sample_controller_attachment :: ControllerAttachment where
  "sample_controller_attachment =
     \<lparr>ca_attempt_id = ''att'', ca_birth_id = [1], ca_arm_id = ''arm'', ca_generation = 1, ca_seat_id = ''seat'',
      ca_capability = HandleClaimedSignal, ca_lease_until = 50, ca_verifier_ref = [2]\<rparr>"

definition sample_guard :: ControllerIdleGuard where
  "sample_guard = \<lparr>ig_probe_id = [10], ig_epoch = \<lparr>ep_birth_id = [1], ep_sequence = 0\<rparr>\<rparr>"

definition sample_command :: ControllerCommand where
  "sample_command =
     \<lparr>cc_attachment = sample_controller_attachment, cc_action = \<lparr>sg_signal_id = ''sig''\<rparr>,
      cc_correlation = sample_correlation None, cc_expected_probe_id = [10],
      cc_expected_epoch = \<lparr>ep_birth_id = [1], ep_sequence = 0\<rparr>\<rparr>"

definition sample_port :: "bytes \<Rightarrow> FakePersist coordinate_port" where
  "sample_port draw = fake_coordinates sample_hash [Some draw] (\<lambda>_. None)"

text \<open>The store's other holders: the host resolves the creation, admits, prepares and reserves.\<close>

definition sample_store_step :: "StoreOp list \<Rightarrow> FakePersist \<Rightarrow> FakePersist" where
  "sample_store_step ops p = store_run sample_hash sample_mac p ops"

definition sample_codex_ops :: "FakePersist CodexOp list" where
  "sample_codex_ops =
     [XO_Store (sample_store_step (drop 3 sample_setup)),
      XO_Probe (sample_port []) \<lparr>pb_attachment = sample_controller_attachment, pb_signal_id = ''sig'', pb_thread_ref = [4], pb_challenge_id = [10]\<rparr>,
      XO_Store (sample_store_step (take 2 sample_dispatch)),
      XO_Write (sample_port [6]) sample_guard sample_command,
      XO_Store (sample_store_step (drop 3 sample_dispatch)),
      XO_Poll (sample_port []), XO_Poll (sample_port [])]"

definition sample_observation :: ObservationScope where
  "sample_observation = \<lparr>os_correlation = sample_correlation (Some [6]), os_evidence_ref = [15]\<rparr>"

definition sample_created ::
  "ReadAnswer list \<Rightarrow> WriteAnswer list \<Rightarrow> FakePersist CodexOp list
    \<Rightarrow> (SampleWorld, FakePersist, NativeTurnFact list) controlled" where
  "sample_created later writes ops =
     created_run sample_env sample_processes (sample_port [4]) (sample_run (take 2 sample_setup)) ''/codex'' ''/helper''
       sample_reservation (sample_conduit later writes) sample_observation ops"

section \<open>The run\<close>

text \<open>For the evaluation, a sequencing is the case distinction it stands for.\<close>

lemma bind_option_case [code_unfold]: "Option.bind m f = (case m of None \<Rightarrow> None | Some p \<Rightarrow> f p)"
  by (cases m) simp_all

lemma and_then_case [code_unfold]:
  "and_then m f = (case m of None \<Rightarrow> None | Some p \<Rightarrow> (case p of (s, r) \<Rightarrow>
     (case r of Inl e \<Rightarrow> Some (s, Inl e) | Inr x \<Rightarrow> f s x)))"
  by (simp add: and_then_def split: option.splits)

lemma map_option_case_of [code_unfold]: "map_option f m = (case m of None \<Rightarrow> None | Some p \<Rightarrow> Some (f p))"
  by (cases m) simp_all

declare try_in_def [code_unfold] bind_res_def [code_unfold]

text \<open>
  The run reaches its end: the transport has sent its five messages, the turn was reported started
  and ended, and the app server and its anchor are the two children left.
\<close>

definition codex_outcome ::
  "(SampleWorld, FakePersist, NativeTurnFact list) controlled \<Rightarrow> (NativeTurnFact list \<times> nat \<times> nat list) option" where
  "codex_outcome m = (case m of None \<Rightarrow> None | Some ((c, x), facts) \<Rightarrow> Some (facts, length (cd_wire c), cd_children c))"

lemma codex_sample_run:
  "codex_outcome (sample_created ([RA_WouldBlock] @ sample_line 4 @ sample_line 5 @ sample_line 6) [] sample_codex_ops)
    = Some ([NF_Started [6], NF_Terminal [6] TC_Succeeded], 15, [4, 3])"
  by code_simp

definition codex_in_flight ::
  "(SampleWorld, FakePersist, NativeTurnFact list) controlled
    \<Rightarrow> (nat \<times> Pending list \<times> PersistedTurnCorrelation option) option" where
  "codex_in_flight m =
     (case m of None \<Rightarrow> None
      | Some ((c, x), facts) \<Rightarrow> Some (length (cd_wire c), ts_pending (xc_state x), xc_reconciling x))"


end
