(* ===== verification/Clients.thy ===== *)
theory Clients
  imports Link Sanitize Codex_Messages
begin

text \<open>
  The two clients of the daemon's socket: \<open>gearwit-cli/src/attach.rs\<close> attaches a waiter, waits for
  one delivery, prints it and reports the outcome; \<open>gearwit-cli/src/ack_handled.rs\<close> sends one
  handled-cursor request and correlates the reply. Each makes a fixed sequence of calls, so what the
  operating system, the clock and the random source answer is a record with one field per call, and
  what the client does to the outside is the list of its effects. Rendering a JSON value and the
  text of a frame error are parameters (\<open>serde_json\<close>, \<open>ipcprims\<close>).
\<close>

section \<open>The text of errors\<close>

definition quoted :: "string \<Rightarrow> string" where
  "quoted s = CHR 0x22 # s @ [CHR 0x22]"

fun WaiterLinkError_text :: "WaiterLinkError \<Rightarrow> string" where
  "WaiterLinkError_text (WL_Json error) = ''waiter-link json: '' @ error"
| "WaiterLinkError_text (WL_Semantic error) = ''waiter-link: '' @ error"

fun HandledCursorError_text :: "HandledCursorError \<Rightarrow> string" where
  "HandledCursorError_text (HE_Json error) = ''handled-cursor json: '' @ error"
| "HandledCursorError_text (HE_Semantic error) = ''handled-cursor: '' @ error"

fun PayloadError_text :: "PayloadError \<Rightarrow> string" where
  "PayloadError_text PE_Empty = ''empty waiter-link payload''"
| "PayloadError_text (PE_TooLarge n) =
     ''waiter-link payload '' @ decimal n @ '' exceeds '' @ decimal MAX_PAYLOAD"
| "PayloadError_text (PE_Message error) = WaiterLinkError_text error"
| "PayloadError_text (PE_Handled error) = HandledCursorError_text error"
| "PayloadError_text PE_UnknownSchema = ''unknown interrupt schema''"
| "PayloadError_text PE_InvalidUtf8 = ''waiter-link payload is not utf-8''"

fun LinkError_text :: "(FrameError \<Rightarrow> string) \<Rightarrow> LinkError \<Rightarrow> string" where
  "LinkError_text frame (LE_Frame error) = frame error"
| "LinkError_text frame (LE_Payload error) = PayloadError_text error"
| "LinkError_text frame (LE_WrongChannel channel) =
     ''waiter-link requires COMMAND channel, got '' @ decimal (unat channel)"
| "LinkError_text frame (LE_Message error) = WaiterLinkError_text error"
| "LinkError_text frame (LE_Transport error) = error"
| "LinkError_text frame (LE_Handled error) = HandledCursorError_text error"

section \<open>What a client does, and what it is given\<close>

datatype ClientEvent =
  CL_Waiter WaiterLink bool
| CL_Handled HandledCursor bool
| CL_Printed string bool
| CL_Timeout nat
| CL_Stored string

text \<open>
  \<open>CL_Waiter m ok\<close>: the frame of \<open>m\<close> was handed to the transport, which took it when \<open>ok\<close>;
  \<open>CL_Printed t ok\<close>: \<open>t\<close> was written and flushed, completely when \<open>ok\<close>.
\<close>

record client_port =
  cp_parse_time :: "string \<Rightarrow> instant option"
  cp_format_time :: "instant \<Rightarrow> string"
  cp_json :: json_codec
  cp_command :: u16
  cp_frame_text :: "FrameError \<Rightarrow> string"
  cp_render :: "Json \<Rightarrow> string + string"

definition client_write ::
  "client_port \<Rightarrow> frame_send \<Rightarrow> WaiterLink \<Rightarrow> ClientEvent list \<Rightarrow> ClientEvent list \<times> (string + unit)" where
  "client_write port send m evs =
     (let r = write_waiter_link (cp_parse_time port) (cp_json port) (cp_command port) send m in
      (if is_ok (encode_payload (cp_parse_time port) (cp_json port) m) then evs @ [CL_Waiter m (is_ok r)] else evs,
       map_err (LinkError_text (cp_frame_text port)) r))"

definition client_read :: "client_port \<Rightarrow> frame_read \<Rightarrow> string + WaiterLink" where
  "client_read port read =
     map_err (LinkError_text (cp_frame_text port))
       (read_waiter_link (cp_parse_time port) (cp_json port) (cp_command port) read)"

text \<open>\<open>json!\<close> of an object: a sorted map.\<close>

definition json_object :: "(string \<times> Json) list \<Rightarrow> Json" where
  "json_object kvs = JS_Object (fold (\<lambda>(k, v) m. entries_insert k v m) kvs [])"

section \<open>The attached waiter\<close>

record AttachSpec =
  at_arm_id :: string
  at_generation :: u64
  at_seat_id :: string
  at_route :: string

record Accepted =
  ac_request_id :: string
  ac_link_id :: string
  ac_arm_id :: string
  ac_generation :: u64
  ac_route :: string
  ac_lease_until :: instant

record attach_env =
  ae_request_ulid :: string
  ae_waiter_ulid :: string
  ae_request_now :: instant
  ae_connect :: "string + unit"
  ae_clone :: "string + unit"
  ae_send_request :: frame_send
  ae_reply :: frame_read
  ae_accept_now :: instant
  ae_set_timeout :: "nat \<Rightarrow> string + unit"
  ae_delivery :: frame_read
  ae_delivery_now :: instant
  ae_print :: "string \<Rightarrow> string + unit"
  ae_result_now :: instant
  ae_send_result :: frame_send

definition attach_request :: "client_port \<Rightarrow> attach_env \<Rightarrow> AttachSpec \<Rightarrow> WaiterLink" where
  "attach_request port env spec =
     AttachWaiter SCHEMA (ae_request_ulid env) (ae_waiter_ulid env) (at_arm_id spec) (at_generation spec)
       (at_seat_id spec) (at_route spec) (cp_format_time port (ae_request_now env))"

definition correlate_accept :: "client_port \<Rightarrow> WaiterLink \<Rightarrow> WaiterLink \<Rightarrow> string + Accepted" where
  "correlate_accept port request reply =
     (case request of
        AttachWaiter _ request_id _ arm_id generation _ route _ \<Rightarrow>
          (case reply of
             AttachRejected _ rejected_id code _ \<Rightarrow>
               if rejected_id \<noteq> request_id then Inl ''attach reject request_id mismatch''
               else Inl (''attach rejected: '' @ code)
           | AttachAccepted _ accepted_id link_id accepted_arm accepted_generation accepted_route _ lease_until \<Rightarrow>
               if accepted_id \<noteq> request_id \<or> accepted_arm \<noteq> arm_id \<or> accepted_generation \<noteq> generation
                 \<or> accepted_route \<noteq> route
               then Inl ''attach accept mismatch''
               else (case cp_parse_time port lease_until of
                   None \<Rightarrow> Inl ''invalid lease_until''
                 | Some lease \<Rightarrow>
                     Inr \<lparr>ac_request_id = request_id, ac_link_id = link_id, ac_arm_id = arm_id,
                       ac_generation = generation, ac_route = route, ac_lease_until = lease\<rparr>)
           | _ \<Rightarrow> Inl ''expected attach reply'')
      | _ \<Rightarrow> Inl ''expected attach_waiter'')"

definition correlate_delivery :: "Accepted \<Rightarrow> WaiterLink \<Rightarrow> string + unit" where
  "correlate_delivery accepted delivery =
     (case delivery of
        DeliverEvents _ _ link_id arm_id generation _ route _ _ _ \<Rightarrow>
          if link_id \<noteq> ac_link_id accepted \<or> arm_id \<noteq> ac_arm_id accepted
            \<or> generation \<noteq> ac_generation accepted \<or> route \<noteq> ac_route accepted
          then Inl ''delivery authority mismatch'' else Inr ()
      | _ \<Rightarrow> Inl ''expected deliver_events'')"

definition remaining_lease :: "instant \<Rightarrow> instant \<Rightarrow> string + nat" where
  "remaining_lease lease_until now =
     (if lease_until \<le> now then Inl ''lease expired''
      else let nanos = lease_until - now in
        if nanos = 0 \<or> nanos < 0 \<or> 2 ^ 64 \<le> nanos then Inl ''lease expired'' else Inr (nat nanos))"

definition event_json :: "ProviderEvent \<Rightarrow> Json" where
  "event_json event = json_object
     [(''provider'', JS_String (pe_provider event)),
      (''event_ref'', JS_String (pe_event_ref event)),
      (''actor'', case pe_actor event of None \<Rightarrow> JS_Null | Some actor \<Rightarrow> JS_String actor),
      (''observed_at'', JS_String (pe_observed_at event)),
      (''body'', JS_String (pe_body event))]"

text \<open>\<open>display\<close> is \<open>Display\<close> of a JSON value.\<close>

definition render_attach_receipt :: "(Json \<Rightarrow> string) \<Rightarrow> WaiterLink \<Rightarrow> string" where
  "render_attach_receipt display delivery =
     (case delivery of
        DeliverEvents _ delivery_id _ arm_id generation signal_id _ events newest_event_ref _ \<Rightarrow>
          display (json_object
            [(''waiter_completed'', JS_Bool True),
             (''wait_outcome'', JS_String ''matched''),
             (''turn_started'', JS_String ''unknown''),
             (''delivery_id'', JS_String (paste_field delivery_id MAX_ID)),
             (''arm_id'', JS_String (paste_field arm_id MAX_ID)),
             (''generation'', JS_Number (decimal (unat generation))),
             (''signal_id'', JS_String (paste_field signal_id MAX_ID)),
             (''newest_observed'', JS_String (paste_field newest_event_ref MAX_ID)),
             (''event_count'', JS_Number (decimal (length (map event_json events)))),
             (''body_notice_trust'', JS_String ''untrusted-provider-text; the source may mimic any notice''),
             (''untrusted_provider_data'', JS_Array (map event_json events))]) @ [CHR 0x0A]
      | _ \<Rightarrow>
          ''{'' @ quoted ''waiter_completed'' @ '':true,'' @ quoted ''wait_outcome'' @ '':'' @ quoted ''error''
          @ '','' @ quoted ''turn_started'' @ '':'' @ quoted ''unknown'' @ ''}'' @ [CHR 0x0A])"

definition send_result ::
  "client_port \<Rightarrow> attach_env \<Rightarrow> WaiterLink \<Rightarrow> string \<Rightarrow> ClientEvent list \<Rightarrow> ClientEvent list \<times> (string + unit)"
  where
  "send_result port env delivery outcome evs =
     (case delivery of
        DeliverEvents _ delivery_id link_id _ _ signal_id _ _ _ _ \<Rightarrow>
          client_write port (ae_send_result env)
            (DeliveryResult SCHEMA delivery_id link_id signal_id outcome
               (cp_format_time port (ae_result_now env))) evs
      | _ \<Rightarrow> (evs, Inl ''expected deliver_events''))"

text \<open>The receipt is printed first; the result says what became of it.\<close>

definition report_delivery ::
  "client_port \<Rightarrow> (Json \<Rightarrow> string) \<Rightarrow> attach_env \<Rightarrow> WaiterLink \<Rightarrow> ClientEvent list
    \<Rightarrow> ClientEvent list \<times> (string + WaiterLink)" where
  "report_delivery port display env delivery evs =
     (let receipt = render_attach_receipt display delivery;
          printed = ae_print env receipt;
          evs = evs @ [CL_Printed receipt (is_ok printed)]
      in case printed of
           Inr _ \<Rightarrow>
             (case send_result port env delivery ''return_completed'' (evs @ [CL_Stored receipt]) of
                (evs, Inl e) \<Rightarrow> (evs, Inl e)
              | (evs, Inr _) \<Rightarrow> (evs, Inr delivery))
         | Inl error \<Rightarrow> (fst (send_result port env delivery ''return_failed'' evs), Inl error))"

definition await_delivery ::
  "client_port \<Rightarrow> (Json \<Rightarrow> string) \<Rightarrow> attach_env \<Rightarrow> Accepted \<Rightarrow> ClientEvent list
    \<Rightarrow> ClientEvent list \<times> (string + WaiterLink)" where
  "await_delivery port display env accepted evs =
     try_in evs (remaining_lease (ac_lease_until accepted) (ae_accept_now env)) (\<lambda>timeout.
     try_in (evs @ [CL_Timeout timeout]) (ae_set_timeout env timeout) (\<lambda>_.
     try_in (evs @ [CL_Timeout timeout]) (client_read port (ae_delivery env)) (\<lambda>delivery.
     try_in (evs @ [CL_Timeout timeout]) (remaining_lease (ac_lease_until accepted) (ae_delivery_now env)) (\<lambda>_.
     try_in (evs @ [CL_Timeout timeout]) (correlate_delivery accepted delivery) (\<lambda>_.
     report_delivery port display env delivery (evs @ [CL_Timeout timeout]))))))"

definition run_attach_session_to ::
  "client_port \<Rightarrow> (Json \<Rightarrow> string) \<Rightarrow> attach_env \<Rightarrow> AttachSpec \<Rightarrow> ClientEvent list \<times> (string + WaiterLink)" where
  "run_attach_session_to port display env spec =
     try_in [] (ae_connect env) (\<lambda>_.
     try_in [] (ae_clone env) (\<lambda>_.
     let request = attach_request port env spec in
     case client_write port (ae_send_request env) request [] of
       (evs, Inl e) \<Rightarrow> (evs, Inl e)
     | (evs, Inr _) \<Rightarrow>
         try_in evs (client_read port (ae_reply env)) (\<lambda>reply.
         try_in evs (correlate_accept port request reply) (\<lambda>accepted.
         await_delivery port display env accepted evs))))"

section \<open>The handled-cursor request\<close>

definition EXIT_ACCEPTED :: nat where "EXIT_ACCEPTED = 0"
definition EXIT_REJECTED :: nat where "EXIT_REJECTED = 1"
definition EXIT_ERROR :: nat where "EXIT_ERROR = 2"

record AckHandledSpec =
  ah_arm_id :: string
  ah_generation :: u64
  ah_seat_id :: string
  ah_signal_id :: string
  ah_cursor :: string
  ah_request_id :: "string option"
  ah_observed_at :: "string option"

record AckHandledReport =
  rp_request :: HandledCursor
  rp_reply :: HandledCursor
  rp_exit :: nat

text \<open>
  \<open>ce_now\<close> is the formatted current time, or the fixed fallback where formatting fails;
  \<open>ce_value\<close> is \<open>serde_json::to_value\<close> of a message, \<open>ce_print\<close> the line written and flushed.
\<close>

record ack_env =
  ce_ulid :: string
  ce_now :: "string option"
  ce_value :: "HandledCursor \<Rightarrow> string + Json"
  ce_print :: "string \<Rightarrow> string + unit"
  ce_connect :: "string + unit"
  ce_read_timeout :: "string + unit"
  ce_write_timeout :: "string + unit"
  ce_clone :: "string + unit"
  ce_send :: frame_send
  ce_reply :: frame_read

definition build_request :: "client_port \<Rightarrow> ack_env \<Rightarrow> AckHandledSpec \<Rightarrow> string + HandledCursor" where
  "build_request port env spec =
     (let request = HC_Request HANDLED_SCHEMA
            (case ah_request_id spec of None \<Rightarrow> ce_ulid env | Some i \<Rightarrow> i)
            (ah_arm_id spec) (ah_generation spec) (ah_seat_id spec) (ah_signal_id spec) (ah_cursor spec)
            (case ah_observed_at spec of
               None \<Rightarrow> (case ce_now env of None \<Rightarrow> ''1970-01-01T00:00:00Z'' | Some t \<Rightarrow> t)
             | Some t \<Rightarrow> t)
      in bind_res (map_err HandledCursorError_text (validate_handled (cp_parse_time port) request)) (\<lambda>_.
         bind_res (map_err PayloadError_text
           (encode_handled_payload (cp_parse_time port) (cp_json port) request)) (\<lambda>_.
         Inr request)))"

definition phase_value :: "string \<Rightarrow> Json \<Rightarrow> Json" where
  "phase_value phase v =
     (case v of
        JS_Object m \<Rightarrow>
          JS_Object (entries_insert ''rearm_claimed'' (JS_Bool False)
            (entries_insert ''turn_started'' (JS_String ''unknown'')
              (entries_insert ''phase'' (JS_String phase) m)))
      | _ \<Rightarrow> v)"

definition write_phase ::
  "client_port \<Rightarrow> ack_env \<Rightarrow> string \<Rightarrow> HandledCursor \<Rightarrow> ClientEvent list \<Rightarrow> ClientEvent list \<times> (string + unit)"
  where
  "write_phase port env phase message evs =
     try_in evs (ce_value env message) (\<lambda>v.
     try_in evs (cp_render port (phase_value phase v)) (\<lambda>line.
     let r = ce_print env (line @ [CHR 0x0A]) in (evs @ [CL_Printed (line @ [CHR 0x0A]) (is_ok r)], r)))"

definition correlate :: "HandledCursor \<Rightarrow> HandledCursor \<Rightarrow> string + nat" where
  "correlate request reply =
     (case request of
        HC_Request _ request_id arm_id generation _ signal_id cursor _ \<Rightarrow>
          (case reply of
             HC_Accepted _ reply_id reply_arm reply_gen reply_signal reply_cursor _ \<Rightarrow>
               if reply_id \<noteq> request_id \<or> reply_arm \<noteq> arm_id \<or> reply_gen \<noteq> generation
                 \<or> reply_signal \<noteq> signal_id \<or> reply_cursor \<noteq> cursor
               then Inl ''accepted reply did not echo the request'' else Inr EXIT_ACCEPTED
           | HC_Rejected _ reply_id _ _ \<Rightarrow>
               if reply_id \<noteq> request_id then Inl ''rejected reply request_id mismatch''
               else Inr EXIT_REJECTED
           | HC_Request _ _ _ _ _ _ _ _ \<Rightarrow> Inl ''expected reply'')
      | _ \<Rightarrow> Inl ''expected request'')"

definition send_handled ::
  "client_port \<Rightarrow> ack_env \<Rightarrow> HandledCursor \<Rightarrow> ClientEvent list \<Rightarrow> ClientEvent list \<times> (string + unit)" where
  "send_handled port env request evs =
     (let r = write_handled (cp_parse_time port) (cp_json port) (cp_command port) (ce_send env) request in
      (if is_ok (encode_handled_payload (cp_parse_time port) (cp_json port) request)
       then evs @ [CL_Handled request (is_ok r)] else evs,
       map_err (LinkError_text (cp_frame_text port)) r))"

definition read_reply :: "client_port \<Rightarrow> ack_env \<Rightarrow> string + HandledCursor" where
  "read_reply port env =
     bind_res (map_err (LinkError_text (cp_frame_text port))
         (read_incoming (cp_parse_time port) (cp_json port) (cp_command port) (ce_reply env)))
       (\<lambda>incoming. case incoming of IncomingHandled reply \<Rightarrow> Inr reply
          | IncomingWaiter _ \<Rightarrow> Inl ''expected handled-cursor reply'')"

definition exchange_handled ::
  "client_port \<Rightarrow> ack_env \<Rightarrow> HandledCursor \<Rightarrow> ClientEvent list \<Rightarrow> ClientEvent list \<times> (string + AckHandledReport)"
  where
  "exchange_handled port env request evs =
     (case send_handled port env request evs of
        (evs, Inl e) \<Rightarrow> (evs, Inl e)
      | (evs, Inr _) \<Rightarrow>
          try_in evs (read_reply port env) (\<lambda>reply.
          try_in evs (correlate request reply) (\<lambda>exit.
          case write_phase port env ''reply'' reply evs of
            (evs, Inl e) \<Rightarrow> (evs, Inl e)
          | (evs, Inr _) \<Rightarrow> (evs, Inr \<lparr>rp_request = request, rp_reply = reply, rp_exit = exit\<rparr>))))"

definition run_ack_handled_to ::
  "client_port \<Rightarrow> ack_env \<Rightarrow> AckHandledSpec \<Rightarrow> ClientEvent list \<times> (string + AckHandledReport)" where
  "run_ack_handled_to port env spec =
     try_in [] (build_request port env spec) (\<lambda>request.
     case write_phase port env ''request'' request [] of
       (evs, Inl e) \<Rightarrow> (evs, Inl e)
     | (evs, Inr _) \<Rightarrow>
         try_in evs (ce_connect env) (\<lambda>_.
         try_in evs (ce_read_timeout env) (\<lambda>_.
         try_in evs (ce_write_timeout env) (\<lambda>_.
         try_in evs (ce_clone env) (\<lambda>_.
         exchange_handled port env request evs)))))"

end
