(* ===== verification/Client_Properties.thy ===== *)
theory Client_Properties
  imports Clients "HOL-Library.Code_Target_Nat"
begin

text \<open>
  What the clients promise: an attached waiter reports a completed return only after the whole
  receipt was printed, for the link it was granted and within its lease; a handled-cursor client
  exits with what the daemon's store decided.
\<close>

section \<open>The attached waiter\<close>

lemma correlate_accept_Inr_iff:
  "correlate_accept port request reply = Inr accepted \<longleftrightarrow>
     (\<exists>s rid w arm g seat route obs s' link acc lease_text lease.
        request = AttachWaiter s rid w arm g seat route obs
        \<and> reply = AttachAccepted s' rid link arm g route acc lease_text
        \<and> cp_parse_time port lease_text = Some lease
        \<and> accepted = \<lparr>ac_request_id = rid, ac_link_id = link, ac_arm_id = arm, ac_generation = g,
            ac_route = route, ac_lease_until = lease\<rparr>)"
  by (auto simp: correlate_accept_def split: WaiterLink.splits option.splits if_splits)

lemma correlate_delivery_Inr_iff:
  "correlate_delivery accepted delivery = Inr u \<longleftrightarrow>
     (\<exists>s d signal events newest at_time.
        delivery = DeliverEvents s d (ac_link_id accepted) (ac_arm_id accepted) (ac_generation accepted)
          signal (ac_route accepted) events newest at_time)"
  by (cases delivery) (auto simp: correlate_delivery_def)

lemma remaining_lease_Inr_iff:
  "remaining_lease lease now = Inr n \<longleftrightarrow> now < lease \<and> lease - now < 2 ^ 64 \<and> int n = lease - now"
  by (auto simp: remaining_lease_def Let_def)

lemma is_ok_map_err [simp]: "is_ok (map_err f r) = is_ok r"
  by (cases r) simp_all

lemma client_write_cases:
  assumes "client_write port send m evs = (evs', r)"
  obtains (sent) ok where "evs' = evs @ [CL_Waiter m ok]" "is_ok r = ok"
    | (refused) e where "evs' = evs" "r = Inl e"
proof (cases "encode_payload (cp_parse_time port) (cp_json port) m")
  case (Inl e)
  from assms have "evs' = evs" "r = Inl (LinkError_text (cp_frame_text port) (link_error_of_payload e))"
    by (simp_all add: client_write_def write_waiter_link_def Inl)
  then show ?thesis by (rule refused)
next
  case (Inr p)
  from assms have "evs' = evs @ [CL_Waiter m (is_ok r)]"
    by (auto simp: client_write_def Let_def Inr)
  then show ?thesis using sent by blast
qed

text \<open>The events of a session that came to a delivery, and those of one that did not.\<close>

definition result_of :: "WaiterLink \<Rightarrow> string \<Rightarrow> string \<Rightarrow> WaiterLink" where
  "result_of delivery outcome time =
     DeliveryResult SCHEMA (de_delivery_id delivery) (de_link_id delivery) (de_signal_id delivery) outcome time"

definition granted_delivery :: "client_port \<Rightarrow> attach_env \<Rightarrow> AttachSpec \<Rightarrow> WaiterLink \<Rightarrow> bool" where
  "granted_delivery port env spec delivery \<longleftrightarrow>
     (\<exists>accepted reply.
        client_read port (ae_reply env) = Inr reply
        \<and> correlate_accept port (attach_request port env spec) reply = Inr accepted
        \<and> client_read port (ae_delivery env) = Inr delivery
        \<and> correlate_delivery accepted delivery = Inr ()
        \<and> ae_accept_now env < ac_lease_until accepted \<and> ae_delivery_now env < ac_lease_until accepted)"

lemma send_result_cases:
  assumes "send_result port env delivery outcome evs = (evs', r)"
  obtains (sent) ok where
      "evs' = evs @ [CL_Waiter (result_of delivery outcome (cp_format_time port (ae_result_now env))) ok]"
      "is_ok r = ok"
    | (refused) e where "evs' = evs" "r = Inl e"
  using assms
  by (auto simp: send_result_def result_of_def split: WaiterLink.splits elim!: client_write_cases)

text \<open>
  The end of a session: nothing is printed, or the receipt is printed in part and at most a failed
  return is reported, or it is printed in full and stored and at most a completed return is reported.
\<close>

definition session_end ::
  "client_port \<Rightarrow> (Json \<Rightarrow> string) \<Rightarrow> attach_env \<Rightarrow> AttachSpec \<Rightarrow> ClientEvent list \<Rightarrow> (string + WaiterLink) \<Rightarrow> bool"
  where
  "session_end port display env spec tail r \<longleftrightarrow>
     (tail = [] \<and> \<not> is_ok r)
     \<or> (\<exists>delivery receipt time ok.
          granted_delivery port env spec delivery \<and> receipt = render_attach_receipt display delivery
          \<and> (tail = [CL_Printed receipt False] \<and> \<not> is_ok r
             \<or> tail = [CL_Printed receipt False, CL_Waiter (result_of delivery ''return_failed'' time) ok]
                 \<and> \<not> is_ok r
             \<or> tail = [CL_Printed receipt True, CL_Stored receipt] \<and> \<not> is_ok r
             \<or> tail = [CL_Printed receipt True, CL_Stored receipt,
                   CL_Waiter (result_of delivery ''return_completed'' time) ok]
                 \<and> (ok \<longrightarrow> r = Inr delivery) \<and> (\<not> ok \<longrightarrow> \<not> is_ok r)))"

lemma report_delivery_end:
  assumes "report_delivery port display env delivery evs = (evs', r)"
    and "granted_delivery port env spec delivery"
  shows "\<exists>tail. evs' = evs @ tail \<and> session_end port display env spec tail r"
proof -
  let ?receipt = "render_attach_receipt display delivery"
  show ?thesis
  proof (cases "ae_print env ?receipt")
    case (Inl e)
    with assms(1) have r: "r = Inl e" "evs' = fst (send_result port env delivery ''return_failed''
        (evs @ [CL_Printed ?receipt False]))"
      by (auto simp: report_delivery_def Let_def)
    obtain evs2 r2 where s: "send_result port env delivery ''return_failed'' (evs @ [CL_Printed ?receipt False])
        = (evs2, r2)" by (cases "send_result port env delivery ''return_failed'' (evs @ [CL_Printed ?receipt False])")
    from s show ?thesis
      using r s assms(2) by (cases rule: send_result_cases) (auto simp: session_end_def)
  next
    case (Inr u)
    let ?before = "evs @ [CL_Printed ?receipt True, CL_Stored ?receipt]"
    obtain evs2 r2 where s: "send_result port env delivery ''return_completed'' ?before = (evs2, r2)"
      by (cases "send_result port env delivery ''return_completed'' ?before")
    with Inr assms(1) have r: "evs' = evs2" "r = (case r2 of Inl e \<Rightarrow> Inl e | Inr _ \<Rightarrow> Inr delivery)"
      by (auto simp: report_delivery_def Let_def split: sum.splits)
    from s show ?thesis
      using r assms(2) by (cases rule: send_result_cases) (auto simp: session_end_def split: sum.splits)
  qed
qed

lemma await_delivery_end:
  assumes "await_delivery port display env accepted evs = (evs', r)"
    and "client_read port (ae_reply env) = Inr reply"
    and "correlate_accept port (attach_request port env spec) reply = Inr accepted"
  shows "\<exists>mid tail. evs' = evs @ mid @ tail \<and> (mid = [] \<or> (\<exists>n. mid = [CL_Timeout n]
      \<and> int n = ac_lease_until accepted - ae_accept_now env))
    \<and> session_end port display env spec tail r"
proof (cases "remaining_lease (ac_lease_until accepted) (ae_accept_now env)")
  case (Inl e)
  with assms(1) show ?thesis by (auto simp: await_delivery_def session_end_def)
next
  case (Inr n)
  then have n: "ae_accept_now env < ac_lease_until accepted"
    "int n = ac_lease_until accepted - ae_accept_now env"
    by (simp_all add: remaining_lease_Inr_iff)
  let ?evs = "evs @ [CL_Timeout n]"
  have stop: ?thesis if "evs' = ?evs" "\<not> is_ok r"
    using that n(2) by (intro exI [of _ "[CL_Timeout n]"] exI [of _ "[]"]) (simp add: session_end_def)
  from assms(1) Inr have
    "try_in ?evs (ae_set_timeout env n) (\<lambda>_. try_in ?evs (client_read port (ae_delivery env)) (\<lambda>delivery.
      try_in ?evs (remaining_lease (ac_lease_until accepted) (ae_delivery_now env)) (\<lambda>_.
      try_in ?evs (correlate_delivery accepted delivery) (\<lambda>_.
      report_delivery port display env delivery ?evs)))) = (evs', r)"
    by (simp add: await_delivery_def)
  then show ?thesis
  proof (elim try_in_cases, goal_cases)
    case (5 u delivery left v)
    then have "granted_delivery port env spec delivery"
      using assms(2,3) n(1) unfolding granted_delivery_def remaining_lease_Inr_iff
      by (intro exI [of _ accepted] exI [of _ reply]) simp
    from report_delivery_end [OF 5(5) this] n(2) show ?case
      by (metis append.assoc)
  qed (rule stop; simp)+
qed

definition session_start :: "client_port \<Rightarrow> attach_env \<Rightarrow> AttachSpec \<Rightarrow> ClientEvent list \<Rightarrow> bool" where
  "session_start port env spec evs \<longleftrightarrow>
     evs = [] \<or> (\<exists>ok. evs = [CL_Waiter (attach_request port env spec) ok])
     \<or> (\<exists>n. evs = [CL_Waiter (attach_request port env spec) True, CL_Timeout n])"


section \<open>The handled-cursor client against the daemon's store\<close>

text \<open>Every call the client makes of its surroundings succeeds.\<close>

definition ack_calls_ok :: "client_port \<Rightarrow> ack_env \<Rightarrow> bool" where
  "ack_calls_ok port env \<longleftrightarrow>
     (\<forall>m. is_ok (ce_value env m)) \<and> (\<forall>v. is_ok (cp_render port v)) \<and> (\<forall>line. is_ok (ce_print env line))
     \<and> is_ok (ce_connect env) \<and> is_ok (ce_read_timeout env) \<and> is_ok (ce_write_timeout env)
     \<and> is_ok (ce_clone env) \<and> (\<forall>channel payload. is_ok (ce_send env channel payload))"

definition handled_exit :: "HandledCursor \<Rightarrow> nat" where
  "handled_exit reply = (case reply of HC_Accepted _ _ _ _ _ _ _ \<Rightarrow> EXIT_ACCEPTED | _ \<Rightarrow> EXIT_REJECTED)"

lemma is_ok_unit: "is_ok (r :: 'e + unit) \<longleftrightarrow> r = Inr ()"
  by (cases r) simp_all

lemma write_phase_ok:
  assumes "ack_calls_ok port env"
  shows "\<exists>line. write_phase port env phase m evs = (evs @ [CL_Printed line True], Inr ())"
proof -
  from assms have "is_ok (ce_value env m)" by (simp add: ack_calls_ok_def)
  then obtain v where v: "ce_value env m = Inr v" unfolding is_ok_iff ..
  from assms have "is_ok (cp_render port (phase_value phase v))" by (simp add: ack_calls_ok_def)
  then obtain line where l: "cp_render port (phase_value phase v) = Inr line" unfolding is_ok_iff ..
  from assms have "ce_print env (line @ [CHR 0x0A]) = Inr ()" by (simp add: ack_calls_ok_def is_ok_unit)
  with v l show ?thesis by (auto simp: write_phase_def)
qed

lemma payload_decodes:
  assumes "json_faithful j" and "schema_readable j"
    and "encode_handled_payload parse_time j h = Inr p"
  shows "decode_incoming parse_time j p = Inr (IncomingHandled h)"
  using assms handled_valid_schema [of parse_time h]
  by (auto simp: encode_handled_payload_Inr_iff decode_incoming_handled_iff json_faithful_def
      schema_readable_def)

lemma entry_correlates:
  assumes "entry_ok parse_time k \<lparr>he_request = q, he_reply = reply\<rparr>"
  shows "correlate q reply = Inr (handled_exit reply)"
  using assms by (cases q; cases reply) (auto simp: entry_ok_def correlate_def handled_exit_def)

lemma record_handled_entry:
  assumes "store_ok parse_time s" and "record_handled parse_time format_time s q now = (s', Inr reply)"
  shows "entry_ok parse_time (hq_request_id q) \<lparr>he_request = q, he_reply = reply\<rparr>
    \<and> reply_backed (as_signals s') reply"
proof (cases rule: record_handled_cases [of parse_time format_time s q now])
  case (fresh s1 reply1)
  with assms decide_handled_entry [OF fresh(3,4,1) assms(1)] show ?thesis by auto
next
  case (replay reply1)
  with assms(2) have "s' = s" "reply1 = reply" by simp_all
  moreover from assms(1) replay(4) have "entry_ok parse_time (hq_request_id q) \<lparr>he_request = q, he_reply = reply1\<rparr>"
    "reply_backed (as_signals s) (he_reply \<lparr>he_request = q, he_reply = reply1\<rparr>)"
    unfolding store_ok_def by blast+
  ultimately show ?thesis by simp
next
  case (error e)
  with assms(2) show ?thesis by simp
qed


lemma apply_handled_entry:
  assumes "store_ok parse_time s"
    and "apply_handled_request parse_time format_time s q now = (s', Inr served)"
  shows "entry_ok parse_time (hq_request_id q) \<lparr>he_request = q, he_reply = hs_reply served\<rparr>
    \<and> reply_backed (as_signals s') (hs_reply served)"
proof -
  obtain s1 r where rec: "record_handled parse_time format_time s q now = (s1, r)"
    by (cases "record_handled parse_time format_time s q now")
  with assms(2) obtain reply where r: "r = Inr reply" and hs: "hs_reply served = reply"
    and s': "s' = s1 \<or> (\<exists>k. s' = fst (rearm_from_handled s1 k))"
    by (auto simp: apply_handled_request_def split: sum.splits prod.splits HandledCursor.splits
        option.splits if_splits) (metis fst_conv)+
  from record_handled_entry [OF assms(1) rec [unfolded r]]
  have e: "entry_ok parse_time (hq_request_id q) \<lparr>he_request = q, he_reply = reply\<rparr>"
    and b: "reply_backed (as_signals s1) reply" by blast+
  from record_handled_ok [OF assms(1), of format_time q now] rec
  have ok: "store_ok parse_time s1" by simp
  from s' have "store_le s1 s'"
    using moves_store_ok [OF moves_rearm ok] store_le_refl [OF ok] by auto
  with b e hs show ?thesis by (auto intro: store_le_reply_backed)
qed

text \<open>
  C35: the handled-cursor client ends with the decision of the daemon's store. A request the client
  can build, carried to the daemon and answered, leaves the link table alone; the client accepts the
  answer as its own, prints the request before it is sent and the reply after, and exits with 0
  exactly when the store accepted, with 1 when it rejected; and then the signal's handled cursor
  has reached the reference the exit code claims.
\<close>

theorem ack_client_agrees:
  assumes "json_faithful (cp_json port)" and "schema_readable (cp_json port)"
    and "store_ok (cp_parse_time port) acks" and "ack_calls_ok port env"
    and "build_request port env spec = Inr request"
    and "encode_handled_payload (cp_parse_time port) (cp_json port) request = Inr payload"
    and "serve_connection (cp_parse_time port) format_time (cp_json port) (cp_command port) set_timeout send
      link_id (Inr (cp_command port, payload)) t acks now elapsed = (t', acks', Inr outcome)"
    and "ce_reply env = Inr (cp_command port, answer)"
    and "\<And>served. outcome = AcceptAck served \<Longrightarrow>
      encode_handled_payload (cp_parse_time port) (cp_json port) (hs_reply served) = Inr answer"
  shows "t' = t \<and> (\<exists>served sent_line reply_line. outcome = AcceptAck served
    \<and> run_ack_handled_to port env spec =
        ([CL_Printed sent_line True, CL_Handled request True, CL_Printed reply_line True],
         Inr \<lparr>rp_request = request, rp_reply = hs_reply served,
              rp_exit = (case hs_reply served of HC_Accepted _ _ _ _ _ _ _ \<Rightarrow> 0 | _ \<Rightarrow> 1)\<rparr>)
    \<and> (case hs_reply served of
         HC_Accepted _ _ _ generation signal_id cursor _ \<Rightarrow>
           cursor = ah_cursor spec
           \<and> (\<exists>b h. bt_get (as_signals acks') signal_id = Some b \<and> sb_generation b = generation
                \<and> sb_handled b = Some h \<and> not_before (sb_delivered b) cursor h)
       | _ \<Rightarrow> True))"
proof -
  let ?pt = "cp_parse_time port" and ?j = "cp_json port"
  have req: "decode_incoming ?pt ?j payload = Inr (IncomingHandled request)"
    by (rule payload_decodes [OF assms(1,2,6)])
  then have read: "read_incoming ?pt ?j (cp_command port) (Inr (cp_command port, payload))
      = Inr (IncomingHandled request)" by (simp add: read_incoming_def)
  from assms(5) have cursor: "hq_cursor request = ah_cursor spec"
    by (auto simp: build_request_def Let_def result_simps)
  from assms(5) have isreq: "is_ack_request request"
    by (auto simp: build_request_def Let_def result_simps)
  from assms(7) read isreq obtain served where out: "outcome = AcceptAck served" and t: "t' = t"
    and app: "apply_handled_request ?pt format_time acks request now = (acks', Inr served)"
    by (cases request)
      (auto simp: serve_connection_def record_ack_def Let_def split: sum.splits prod.splits)
  from apply_handled_entry [OF assms(3) app]
  have e: "entry_ok ?pt (hq_request_id request) \<lparr>he_request = request, he_reply = hs_reply served\<rparr>"
    and b: "reply_backed (as_signals acks') (hs_reply served)" by blast+
  have "decode_incoming ?pt ?j answer = Inr (IncomingHandled (hs_reply served))"
    by (rule payload_decodes [OF assms(1,2) assms(9) [OF out]])
  then have reply: "read_reply port env = Inr (hs_reply served)"
    by (simp add: read_reply_def read_incoming_def assms(8))
  have sent: "send_handled port env request evs = (evs @ [CL_Handled request True], Inr ())" for evs
    using assms(4,6) by (simp add: send_handled_def write_handled_def ack_calls_ok_def is_ok_unit)
  obtain l1 where l1: "write_phase port env ''request'' request [] = ([CL_Printed l1 True], Inr ())"
    using write_phase_ok [OF assms(4), of "''request''" request "[]"] by auto
  obtain l2 where l2: "write_phase port env ''reply'' (hs_reply served) [CL_Printed l1 True, CL_Handled request True]
      = ([CL_Printed l1 True, CL_Handled request True, CL_Printed l2 True], Inr ())"
    using write_phase_ok [OF assms(4), of "''reply''" "hs_reply served" "[CL_Printed l1 True, CL_Handled request True]"]
    by auto
  have "run_ack_handled_to port env spec =
      ([CL_Printed l1 True, CL_Handled request True, CL_Printed l2 True],
       Inr \<lparr>rp_request = request, rp_reply = hs_reply served, rp_exit = handled_exit (hs_reply served)\<rparr>)"
    using assms(4) by (simp add: run_ack_handled_to_def assms(5) l1 l2 exchange_handled_def sent reply
        entry_correlates [OF e] ack_calls_ok_def is_ok_unit)
  with t out e b cursor show ?thesis
    by (cases "hs_reply served")
      (auto simp: handled_exit_def EXIT_ACCEPTED_def EXIT_REJECTED_def entry_ok_def reply_backed_def)
qed

section \<open>A sample exchange of each client\<close>

declare bind_res_def [code_unfold] try_in_def [code_unfold]

definition sample_accept :: WaiterLink where
  "sample_accept = AttachAccepted SCHEMA (sample_ulid (CHR ''1'')) (sample_ulid (CHR ''9'')) (sample_ulid (CHR ''A'')) 1
     ''return_foreground'' ''x'' ''xxxxx''"

definition sample_delivery :: WaiterLink where
  "sample_delivery = DeliverEvents SCHEMA (sample_ulid (CHR ''D'')) (sample_ulid (CHR ''9'')) (sample_ulid (CHR ''A'')) 1
     (sample_ulid (CHR ''S'')) ''return_foreground''
     [\<lparr>pe_provider = ''chanvoy'', pe_event_ref = ''e1'', pe_actor = None, pe_observed_at = ''x'', pe_body = ''hello''\<rparr>]
     ''e1'' ''x''"

definition sample_answer :: HandledCursor where
  "sample_answer = ack_accepted (sample_ack ''e2'') (unary_format 3)"

definition client_codec :: json_codec where
  "client_codec =
     \<lparr>wl_to_json = (\<lambda>m. if m = sample_accept then Inr ''a'' else if m = sample_delivery then Inr ''d''
          else if m = result_of sample_delivery ''return_completed'' ''xxxx'' then Inr ''c''
          else if m = sample_attach (CHR ''1'') then Inr ''w'' else Inl ''no''),
      wl_from_json = (\<lambda>s. if s = ''a'' then Inr sample_accept else if s = ''d'' then Inr sample_delivery
          else if s = ''c'' then Inr (result_of sample_delivery ''return_completed'' ''xxxx'')
          else if s = ''w'' then Inr (sample_attach (CHR ''1'')) else Inl ''no''),
      hc_to_json = (\<lambda>m. if m = sample_ack ''e2'' then Inr ''q'' else if m = sample_answer then Inr ''r''
          else Inl ''no''),
      hc_from_json = (\<lambda>s. if s = ''q'' then Inr (sample_ack ''e2'') else if s = ''r'' then Inr sample_answer
          else Inl ''no''),
      schema_field = (\<lambda>s. if s = ''q'' \<or> s = ''r'' then Inr (Some HANDLED_SCHEMA) else Inr (Some SCHEMA))\<rparr>"

lemma client_codec_faithful: "json_faithful client_codec" "schema_readable client_codec"
  by (auto simp: json_faithful_def schema_readable_def client_codec_def sample_accept_def sample_delivery_def
      sample_ack_def sample_answer_def ack_accepted_def result_of_def sample_attach_def schema_of_waiter_def
      schema_of_handled_def utf8_valid_ascii split: if_splits)

definition client_sample_port :: client_port where
  "client_sample_port = \<lparr>cp_parse_time = unary_parse, cp_format_time = unary_format, cp_json = client_codec,
     cp_command = 1, cp_frame_text = (\<lambda>_. ''frame''), cp_render = (\<lambda>_. Inr ''{}'')\<rparr>"

definition sample_attach_env :: attach_env where
  "sample_attach_env = \<lparr>ae_request_ulid = sample_ulid (CHR ''1''), ae_waiter_ulid = sample_ulid (CHR ''W''),
     ae_request_now = 1, ae_connect = Inr (), ae_clone = Inr (), ae_send_request = (\<lambda>_ _. Inr ()),
     ae_reply = Inr (1, ''a''), ae_accept_now = 2, ae_set_timeout = (\<lambda>_. Inr ()), ae_delivery = Inr (1, ''d''),
     ae_delivery_now = 3, ae_print = (\<lambda>_. Inr ()), ae_result_now = 4, ae_send_result = (\<lambda>_ _. Inr ())\<rparr>"

definition sample_attach_spec :: AttachSpec where
  "sample_attach_spec = \<lparr>at_arm_id = sample_ulid (CHR ''A''), at_generation = 1, at_seat_id = ''seat'',
     at_route = ''return_foreground''\<rparr>"


definition sample_ack_env :: ack_env where
  "sample_ack_env = \<lparr>ce_ulid = [], ce_now = None, ce_value = (\<lambda>_. Inr (JS_Object [])), ce_print = (\<lambda>_. Inr ()),
     ce_connect = Inr (), ce_read_timeout = Inr (), ce_write_timeout = Inr (), ce_clone = Inr (),
     ce_send = (\<lambda>_ _. Inr ()), ce_reply = Inr (1, ''r'')\<rparr>"

definition sample_ack_spec :: AckHandledSpec where
  "sample_ack_spec = \<lparr>ah_arm_id = sample_ulid (CHR ''A''), ah_generation = 1, ah_seat_id = ''seat'',
     ah_signal_id = sample_ulid (CHR ''S''), ah_cursor = ''e2'', ah_request_id = Some (sample_ulid (CHR ''Q'')),
     ah_observed_at = Some ''x''\<rparr>"

lemma ack_client_agrees_witness:
  "\<exists>sent_line reply_line. run_ack_handled_to client_sample_port sample_ack_env sample_ack_spec =
     ([CL_Printed sent_line True, CL_Handled (sample_ack ''e2'') True, CL_Printed reply_line True],
      Inr \<lparr>rp_request = sample_ack ''e2'', rp_reply = sample_answer, rp_exit = 0\<rparr>)"
proof -
  let ?serve = "serve_connection unary_parse unary_format client_codec 1 (\<lambda>_. Inr ()) (\<lambda>_ _. Inr ()) ''l''
    (Inr (1, ''q'')) link_table_default sample_store 3 0"
  let ?served = "\<lparr>hs_reply = sample_answer, hs_rearm = Some \<lparr>ar_after = ''e2'', ar_generation = 2,
    ar_signal_id = sample_ulid (CHR ''S'')\<rparr>\<rparr>"
  have served: "?serve = (fst ?serve, fst (snd ?serve), Inr (AcceptAck ?served))"
  proof -
    have "snd (snd ?serve) = Inr (AcceptAck ?served)" by code_simp
    then show ?thesis by (metis prod.collapse)
  qed
  have port: "cp_parse_time client_sample_port = unary_parse" "cp_json client_sample_port = client_codec"
    "cp_command client_sample_port = 1" by (simp_all add: client_sample_port_def)
  have "build_request client_sample_port sample_ack_env sample_ack_spec = Inr (sample_ack ''e2'')" by code_simp
  moreover have "encode_handled_payload unary_parse client_codec (sample_ack ''e2'') = Inr ''q''" by code_simp
  moreover have answer: "encode_handled_payload unary_parse client_codec sample_answer = Inr ''r''" by code_simp
  moreover have "ack_calls_ok client_sample_port sample_ack_env"
    by (simp add: ack_calls_ok_def client_sample_port_def sample_ack_env_def)
  ultimately obtain sl rl where
    "run_ack_handled_to client_sample_port sample_ack_env sample_ack_spec =
      ([CL_Printed sl True, CL_Handled (sample_ack ''e2'') True, CL_Printed rl True],
       Inr \<lparr>rp_request = sample_ack ''e2'', rp_reply = sample_answer,
            rp_exit = (case sample_answer of HC_Accepted _ _ _ _ _ _ _ \<Rightarrow> 0 | _ \<Rightarrow> 1)\<rparr>)"
    using ack_client_agrees [where port = client_sample_port and env = sample_ack_env
        and spec = sample_ack_spec and answer = "''r''", unfolded port,
        OF client_codec_faithful sample_store_ok _ _ _ served]
    by (auto simp: sample_ack_env_def)
  then show ?thesis by (auto simp: sample_answer_def ack_accepted_def)
qed

end
