(* ===== verification/Commands.thy ===== *)
theory Commands
  imports Wait_On Facts Clients
begin

text \<open>
  The command surface: the census card of \<open>gearwit-cli/src/who.rs\<close>, the last receipt of
  \<open>gearwit-cli/src/check.rs\<close>, and the dispatch of \<open>gearwit-cli/src/main.rs\<close>. The environment is a
  function from names to byte strings; parsing the command line (\<open>clap\<close>) is not under \<open>src/\<close>, so the
  commands are what it gives. A file system is a map from paths to contents, and what each of its calls
  answers is given.
\<close>

section \<open>The census card\<close>

datatype HarnessFamily = HF_Grok | HF_Codex | HF_ClaudeCode | HF_OpenCode

fun HarnessFamily_as_str :: "HarnessFamily \<Rightarrow> string" where
  "HarnessFamily_as_str HF_Grok = ''grok''"
| "HarnessFamily_as_str HF_Codex = ''codex''"
| "HarnessFamily_as_str HF_ClaudeCode = ''claude-code''"
| "HarnessFamily_as_str HF_OpenCode = ''opencode''"

datatype HarnessObservation = HO_None | HO_Unique HarnessFamily | HO_Ambiguous

record ProcessCensus =
  ps_os :: string
  ps_arch :: string
  ps_term_program :: "string option"
  ps_harness :: HarnessObservation

type_synonym environment = "string \<Rightarrow> string option"

definition env_present :: "environment \<Rightarrow> string \<Rightarrow> bool" where
  "env_present env key = (case env key of None \<Rightarrow> False | Some v \<Rightarrow> v \<noteq> [])"

text \<open>\<open>std::env::var\<close> has no value where the bytes are not UTF-8.\<close>

definition nonempty_env :: "environment \<Rightarrow> string \<Rightarrow> string option" where
  "nonempty_env env key =
     (case env key of None \<Rightarrow> None | Some v \<Rightarrow> if utf8_valid v \<and> v \<noteq> [] then Some v else None)"

definition observe_harness :: "HarnessFamily list \<Rightarrow> HarnessObservation" where
  "observe_harness families =
     (case filter (\<lambda>family. family \<in> set families) [HF_Grok, HF_Codex, HF_ClaudeCode, HF_OpenCode] of
        [] \<Rightarrow> HO_None
      | [only] \<Rightarrow> HO_Unique only
      | _ \<Rightarrow> HO_Ambiguous)"

definition env_harness_families :: "environment \<Rightarrow> HarnessFamily list" where
  "env_harness_families env =
     (if env_present env ''GROK_SESSION_ID'' \<or> env_present env ''GROK_AGENT'' then [HF_Grok] else [])
     @ (if env_present env ''CODEX_THREAD_ID'' \<or> env_present env ''CODEX_SESSION_ID'' then [HF_Codex] else [])
     @ (if env_present env ''CLAUDECODE'' then [HF_ClaudeCode] else [])
     @ (if env_present env ''OPENCODE'' \<or> env_present env ''OPENCODE_PID'' then [HF_OpenCode] else [])"

definition from_current_process :: "string \<Rightarrow> string \<Rightarrow> environment \<Rightarrow> ProcessCensus" where
  "from_current_process os arch env =
     \<lparr>ps_os = os, ps_arch = arch,
      ps_term_program = Option.bind (nonempty_env env ''TERM_PROGRAM'') (\<lambda>term. paste_token term MAX_TERM),
      ps_harness = observe_harness (env_harness_families env)\<rparr>"

record WhoCard =
  wc_os :: "string ObservedFact"
  wc_arch :: "string ObservedFact"
  wc_term :: "string ObservedFact"
  wc_harness :: "string ObservedFact"
  wc_controller_attached :: "bool ObservedFact"
  wc_wait_armed :: "bool ObservedFact"
  wc_reachability :: "Reachability ObservedFact"
  wc_wake_plan :: "WakePlan ObservedFact"
  wc_daemon :: "string ObservedFact"
  wc_durability :: string

definition classify_harness :: "ProcessCensus \<Rightarrow> string ObservedFact" where
  "classify_harness census =
     (case ps_harness census of
        HO_Unique family \<Rightarrow> Known (HarnessFamily_as_str family) CensusInferred
      | HO_None \<Rightarrow> Unknown
      | HO_Ambiguous \<Rightarrow> Unknown)"

definition from_census :: "ProcessCensus \<Rightarrow> WhoCard" where
  "from_census census =
     \<lparr>wc_os = Known (ps_os census) SelfDeclared,
      wc_arch = Known (ps_arch census) SelfDeclared,
      wc_term = (case Option.bind (ps_term_program census) (\<lambda>term. paste_token term MAX_TERM) of
          None \<Rightarrow> Unknown | Some term \<Rightarrow> Known term CensusInferred),
      wc_harness = classify_harness census,
      wc_controller_attached = Unknown, wc_wait_armed = Unknown, wc_reachability = Unknown,
      wc_wake_plan = Unknown, wc_daemon = Unknown, wc_durability = ''in_process''\<rparr>"

definition bool_text :: "bool \<Rightarrow> string" where
  "bool_text b = (if b then ''true'' else ''false'')"

definition card_lines :: "WhoCard \<Rightarrow> string list" where
  "card_lines face =
     [''gearwit self who'',
      ''os: '' @ format_observed_fact id (wc_os face),
      ''arch: '' @ format_observed_fact id (wc_arch face),
      ''term: '' @ format_observed_fact id (wc_term face),
      ''harness: '' @ format_observed_fact id (wc_harness face),
      ''controller_attached: '' @ format_observed_fact bool_text (wc_controller_attached face),
      ''wait_armed: '' @ format_observed_fact bool_text (wc_wait_armed face),
      ''reachability: '' @ format_observed_fact Reachability_as_str (wc_reachability face),
      ''wake_plan: '' @ format_observed_fact WakePlan_as_str (wc_wake_plan face),
      ''daemon: '' @ format_observed_fact id (wc_daemon face),
      ''durability: '' @ wc_durability face]"

definition card_render :: "WhoCard \<Rightarrow> string" where
  "card_render face = unlines (card_lines face)"

section \<open>The last receipt\<close>

definition path_join :: "string \<Rightarrow> string \<Rightarrow> string" where
  "path_join dir name =
     (if dir = [] then name else if last dir = CHR ''/'' then dir @ name else dir @ ''/'' @ name)"

definition LAST_RECEIPT_FILE :: string where
  "LAST_RECEIPT_FILE = ''last-wait.txt''"

definition state_dir :: "environment \<Rightarrow> string option" where
  "state_dir env =
     (case nonempty_env env ''GEARWIT_STATE_DIR'' of
        Some explicit \<Rightarrow> Some explicit
      | None \<Rightarrow> map_option (\<lambda>home. path_join home ''.local/state/gearwit'') (env ''HOME''))"

text \<open>Modes are numbers (\<open>0x1C0\<close> is octal 700, \<open>0x180\<close> octal 600); \<open>so_write\<close> gives how many bytes
  were written before an error.\<close>

record store_os =
  so_create_dir_all :: "string \<Rightarrow> string + unit"
  so_metadata :: "string \<Rightarrow> string + unit"
  so_set_permissions :: "string \<Rightarrow> nat \<Rightarrow> string + unit"
  so_open :: "string \<Rightarrow> nat \<Rightarrow> string + unit"
  so_write :: "string \<Rightarrow> string \<Rightarrow> (string \<times> nat) + unit"

type_synonym file_map = "string \<Rightarrow> string option"

definition store_last_receipt_in :: "store_os \<Rightarrow> string \<Rightarrow> string \<Rightarrow> file_map \<Rightarrow> file_map \<times> (string + unit)" where
  "store_last_receipt_in os dir receipt files =
     try_in files (so_create_dir_all os dir) (\<lambda>_.
     try_in files (so_metadata os dir) (\<lambda>_.
     try_in files (so_set_permissions os dir 0x1C0) (\<lambda>_.
     let path = path_join dir LAST_RECEIPT_FILE in
     try_in files (so_open os path 0x180) (\<lambda>_.
     case so_write os path receipt of
       Inl (error, n) \<Rightarrow> (files(path \<mapsto> take n receipt), Inl error)
     | Inr _ \<Rightarrow> (files(path \<mapsto> receipt), Inr ())))))"

definition store_last_receipt :: "store_os \<Rightarrow> environment \<Rightarrow> string \<Rightarrow> file_map \<Rightarrow> file_map \<times> (string + unit)" where
  "store_last_receipt os env receipt files =
     (case state_dir env of
        None \<Rightarrow> (files, Inl ''no GEARWIT_STATE_DIR or HOME'')
      | Some dir \<Rightarrow> store_last_receipt_in os dir receipt files)"

definition check_line :: string where
  "check_line = ''gearwit self check'' @ [CHR 0x0A]"

definition render_check_from :: "string option \<Rightarrow> file_map \<Rightarrow> string" where
  "render_check_from dir files =
     (case dir of
        None \<Rightarrow> check_line @ ''last_receipt: unknown'' @ [CHR 0x0A]
      | Some dir \<Rightarrow>
          (case files (path_join dir LAST_RECEIPT_FILE) of
             Some receipt \<Rightarrow>
               if utf8_valid receipt \<and> receipt \<noteq> [] then check_line @ receipt
               else check_line @ ''last_receipt: unknown'' @ [CHR 0x0A]
           | None \<Rightarrow> check_line @ ''last_receipt: unknown'' @ [CHR 0x0A]))"

definition render_check :: "environment \<Rightarrow> file_map \<Rightarrow> string" where
  "render_check env files = render_check_from (state_dir env) files"

section \<open>Dispatch\<close>

datatype ReturnArg = RA_Foreground | RA_BackgroundTool | RA_NotifyOperator

fun ReturnArg_route :: "ReturnArg \<Rightarrow> DeliveryRoute" where
  "ReturnArg_route RA_Foreground = DR_ReturnForeground"
| "ReturnArg_route RA_BackgroundTool = DR_CompleteBackgroundTool"
| "ReturnArg_route RA_NotifyOperator = DR_NotifyOperator"

record WaitOnArgs =
  wa_channel :: "string option"
  wa_after :: "string option"
  wa_timeout :: string
  wa_team :: "string option"
  wa_source :: string
  wa_return_route :: ReturnArg
  wa_attach :: bool
  wa_arm :: "string option"
  wa_seat :: "string option"
  wa_generation :: "u64 option"

record 'p AckHandledArgs =
  ka_arm :: string
  ka_gen :: u64
  ka_seat :: string
  ka_signal :: string
  ka_cursor :: string
  ka_request_id :: "string option"
  ka_observed_at :: "string option"
  ka_socket :: "'p option"

record DaemonWaitOnArgs =
  da_channel :: string
  da_after :: string
  da_timeout :: string
  da_team :: "string option"
  da_source :: string

datatype DaemonCommand = DC_WaitOn DaemonWaitOnArgs | DC_Status
datatype 'p SelfCommand = SC_Who | SC_WaitOn WaitOnArgs | SC_Check | SC_AckHandled "'p AckHandledArgs"
datatype 'p Commands = CM_Self "'p SelfCommand" | CM_Daemon DaemonCommand

definition daemon_spec_from_args :: "DaemonWaitOnArgs \<Rightarrow> WaitOnSpec" where
  "daemon_spec_from_args args =
     \<lparr>wo_channel = da_channel args, wo_after = Some (da_after args), wo_timeout = da_timeout args,
      wo_team = da_team args, wo_source = da_source args, wo_return_route = DR_NotifyOperator,
      wo_follow = True\<rparr>"

text \<open>\<open>expect\<close> on an absent argument panics: \<open>None\<close>.\<close>

definition spec_from_args :: "WaitOnArgs \<Rightarrow> bool \<Rightarrow> WaitOnSpec option" where
  "spec_from_args args follow =
     (case (wa_channel args, wa_after args) of
        (Some channel, Some after) \<Rightarrow>
          Some \<lparr>wo_channel = channel, wo_after = Some after, wo_timeout = wa_timeout args,
            wo_team = wa_team args, wo_source = wa_source args,
            wo_return_route = ReturnArg_route (wa_return_route args), wo_follow = follow\<rparr>
      | _ \<Rightarrow> None)"

record Exit =
  ex_out :: string
  ex_err :: string
  ex_code :: nat

definition exit_of :: "string \<Rightarrow> string \<Rightarrow> nat \<Rightarrow> Exit" where
  "exit_of out err code = \<lparr>ex_out = out, ex_err = err, ex_code = code\<rparr>"

definition report_error :: "string \<Rightarrow> Exit" where
  "report_error error = exit_of [] (''gearwit: '' @ error @ [CHR 0x0A]) 2"

text \<open>\<open>u8::try_from(code).unwrap_or(2)\<close>.\<close>

definition exit_code :: "int \<Rightarrow> nat" where
  "exit_code code = (if 0 \<le> code \<and> code \<le> 255 then nat code else 2)"

text \<open>
  What the dispatch calls: the waits with their exit codes, the socket path of the user's directories,
  and the two clients.
\<close>

record 'p main_env =
  mn_os :: string
  mn_arch :: string
  mn_environment :: environment
  mn_files :: file_map
  mn_daemon_wait :: "WaitOnSpec \<Rightarrow> int"
  mn_wait_on :: "WaitOnSpec \<Rightarrow> int"
  mn_socket :: "string + 'p"
  mn_attach :: "'p \<Rightarrow> AttachSpec \<Rightarrow> string + WaiterLink"
  mn_ack :: "'p \<Rightarrow> AckHandledSpec \<Rightarrow> string + AckHandledReport"

definition run_ack_handled_from_args :: "'p main_env \<Rightarrow> 'p AckHandledArgs \<Rightarrow> Exit" where
  "run_ack_handled_from_args env args =
     (let spec = \<lparr>ah_arm_id = ka_arm args, ah_generation = ka_gen args, ah_seat_id = ka_seat args,
            ah_signal_id = ka_signal args, ah_cursor = ka_cursor args,
            ah_request_id = ka_request_id args, ah_observed_at = ka_observed_at args\<rparr>
      in case (case ka_socket args of Some path \<Rightarrow> Inr path | None \<Rightarrow> mn_socket env) of
           Inl error \<Rightarrow> report_error error
         | Inr socket \<Rightarrow>
             (case mn_ack env socket spec of
                Inr report \<Rightarrow> exit_of [] [] (rp_exit report)
              | Inl error \<Rightarrow> report_error error))"

definition run_attach_from_args :: "'p main_env \<Rightarrow> WaitOnArgs \<Rightarrow> Exit option" where
  "run_attach_from_args env args =
     (if wa_return_route args = RA_NotifyOperator
      then Some (report_error ''attach cannot use notify-operator'')
      else
        (case (wa_arm args, wa_generation args, wa_seat args) of
           (Some arm, Some generation, Some seat) \<Rightarrow>
             (let spec = \<lparr>at_arm_id = arm, at_generation = generation, at_seat_id = seat,
                    at_route = DeliveryRoute_as_str (ReturnArg_route (wa_return_route args))\<rparr>
              in case mn_socket env of
                   Inl error \<Rightarrow> Some (report_error error)
                 | Inr socket \<Rightarrow>
                     (case mn_attach env socket spec of
                        Inr _ \<Rightarrow> Some (exit_of [] [] 0)
                      | Inl error \<Rightarrow> Some (report_error error)))
         | _ \<Rightarrow> None))"

definition main_run :: "'p main_env \<Rightarrow> 'p Commands \<Rightarrow> Exit option" where
  "main_run env command =
     (case command of
        CM_Daemon (DC_WaitOn args) \<Rightarrow>
          Some (exit_of [] [] (exit_code (mn_daemon_wait env (daemon_spec_from_args args))))
      | CM_Daemon DC_Status \<Rightarrow> Some (exit_of (render_check (mn_environment env) (mn_files env)) [] 0)
      | CM_Self SC_Who \<Rightarrow>
          Some (exit_of (card_render (from_census
            (from_current_process (mn_os env) (mn_arch env) (mn_environment env)))) [] 0)
      | CM_Self (SC_WaitOn args) \<Rightarrow>
          if wa_attach args then run_attach_from_args env args
          else map_option (\<lambda>spec. exit_of [] [] (exit_code (mn_wait_on env spec))) (spec_from_args args False)
      | CM_Self SC_Check \<Rightarrow> Some (exit_of (render_check (mn_environment env) (mn_files env)) [] 0)
      | CM_Self (SC_AckHandled args) \<Rightarrow> Some (run_ack_handled_from_args env args))"

section \<open>What the faces show\<close>

text \<open>A receipt that was stored is what \<open>self check\<close> and \<open>daemon status\<close> print.\<close>

lemma check_shows_stored:
  assumes "store_last_receipt os env receipt files = (files', Inr ())" and "utf8_valid receipt"
    and "receipt \<noteq> []"
  shows "render_check env files' = check_line @ receipt"
  using assms
  by (auto simp: store_last_receipt_def store_last_receipt_in_def render_check_def render_check_from_def
      Let_def result_simps split: option.splits sum.splits)

text \<open>
  \<open>clap\<close> gives a channel and a cursor without \<open>--attach\<close>, and an arm, a generation and a seat with it; then
  no \<open>expect\<close> panics, and the route an attach asks for is one the daemon accepts.
\<close>

definition args_complete :: "WaitOnArgs \<Rightarrow> bool" where
  "args_complete args \<longleftrightarrow>
     (if wa_attach args then wa_arm args \<noteq> None \<and> wa_seat args \<noteq> None \<and> wa_generation args \<noteq> None
      else wa_channel args \<noteq> None \<and> wa_after args \<noteq> None)"

lemma main_no_panic:
  assumes "\<And>args. command = CM_Self (SC_WaitOn args) \<Longrightarrow> args_complete args"
  shows "main_run env command \<noteq> None"
proof (cases command)
  case (CM_Self self)
  show ?thesis
  proof (cases self)
    case (SC_WaitOn args)
    with assms CM_Self have "args_complete args" by blast
    with CM_Self SC_WaitOn show ?thesis
      by (auto simp: main_run_def run_attach_from_args_def spec_from_args_def args_complete_def Let_def
          split: option.splits sum.splits if_splits)
  qed (use CM_Self in \<open>simp_all add: main_run_def\<close>)
next
  case (CM_Daemon daemon)
  then show ?thesis by (cases daemon) (simp_all add: main_run_def)
qed

lemma attached_routes_ok:
  "route \<noteq> RA_NotifyOperator \<Longrightarrow> attached_route_ok (DeliveryRoute_as_str (ReturnArg_route route)) = Inr ()"
  by (cases route) (simp_all add: attached_route_ok_def)

text \<open>
  All a card can show of an environment: whether each family's markers are set, and the terminal's
  name where it is short and free of control characters.
\<close>

definition census_view :: "environment \<Rightarrow> bool list \<times> string option" where
  "census_view env =
     ([env_present env ''GROK_SESSION_ID'' \<or> env_present env ''GROK_AGENT'',
       env_present env ''CODEX_THREAD_ID'' \<or> env_present env ''CODEX_SESSION_ID'',
       env_present env ''CLAUDECODE'', env_present env ''OPENCODE'' \<or> env_present env ''OPENCODE_PID''],
      Option.bind (nonempty_env env ''TERM_PROGRAM'') (\<lambda>term. paste_token term MAX_TERM))"

lemma paste_token_SomeD: "paste_token raw n = Some token \<Longrightarrow> token = raw \<and> paste_token token n = Some token"
  by (auto simp: paste_token_def split: if_splits)

lemma paste_token_idem: "Option.bind (paste_token raw n) (\<lambda>token. paste_token token n) = paste_token raw n"
  by (cases "paste_token raw n") (auto dest: paste_token_SomeD)

definition view_card :: "string \<Rightarrow> string \<Rightarrow> bool list \<times> string option \<Rightarrow> WhoCard" where
  "view_card os arch view =
     \<lparr>wc_os = Known os SelfDeclared, wc_arch = Known arch SelfDeclared,
      wc_term = (case snd view of None \<Rightarrow> Unknown | Some term \<Rightarrow> Known term CensusInferred),
      wc_harness = (case observe_harness (map fst (filter snd
            (zip [HF_Grok, HF_Codex, HF_ClaudeCode, HF_OpenCode] (fst view)))) of
          HO_Unique family \<Rightarrow> Known (HarnessFamily_as_str family) CensusInferred
        | HO_None \<Rightarrow> Unknown | HO_Ambiguous \<Rightarrow> Unknown),
      wc_controller_attached = Unknown, wc_wait_armed = Unknown, wc_reachability = Unknown,
      wc_wake_plan = Unknown, wc_daemon = Unknown, wc_durability = ''in_process''\<rparr>"

lemma card_of_view: "from_census (from_current_process os arch env) = view_card os arch (census_view env)"
  by (simp add: from_census_def from_current_process_def view_card_def census_view_def classify_harness_def
      env_harness_families_def bind_assoc paste_token_idem)

lemma EvidenceClass_one_line [simp]: "one_line (EvidenceClass_as_str e)"
  by (cases e) simp_all

lemma HarnessFamily_one_line [simp]: "one_line (HarnessFamily_as_str f)"
  by (cases f) simp_all

lemma format_one_line:
  "(\<And>v e. f = Known v e \<Longrightarrow> one_line (shw v)) \<Longrightarrow> one_line (format_observed_fact shw f)"
  by (cases f) (simp_all add: format_observed_fact_def)

lemma view_token_one_line: "snd (census_view env) = Some token \<Longrightarrow> one_line token"
proof -
  assume "snd (census_view env) = Some token"
  then obtain raw where "utf8_valid raw" "paste_token raw MAX_TERM = Some token"
    by (auto simp: census_view_def nonempty_env_def bind_eq_Some_conv split: option.splits if_splits)
  with paste_field_one_line [of raw MAX_TERM] show ?thesis by (simp add: paste_field_def)
qed

text \<open>
  The card is census-safe. It is always the same eleven lines, whatever the environment holds,
  and two environments that agree on which families' markers are set and on a paste-safe terminal
  name give the same card: no identifier, path or other variable of the environment shows on it.
\<close>

theorem who_card_census_safe:
  assumes "census_view env = census_view env'" and "CHR 0x0A \<notin> set os" and "CHR 0x0A \<notin> set arch"
  shows "card_render (from_census (from_current_process os arch env)) =
      card_render (from_census (from_current_process os arch env'))
    \<and> count_list (card_render (from_census (from_current_process os arch env))) (CHR 0x0A) = 11"
proof
  show "card_render (from_census (from_current_process os arch env)) =
      card_render (from_census (from_current_process os arch env'))"
    by (simp add: card_of_view assms(1))
  let ?face = "view_card os arch (census_view env)"
  have "one_line (format_observed_fact id (wc_os ?face))" "one_line (format_observed_fact id (wc_arch ?face))"
    "one_line (format_observed_fact id (wc_term ?face))" "one_line (format_observed_fact id (wc_harness ?face))"
    using assms(2,3)
    by (auto intro!: format_one_line simp: view_card_def view_token_one_line
        split: option.splits HarnessObservation.splits)
  moreover have "wc_controller_attached ?face = Unknown" "wc_wait_armed ?face = Unknown"
    "wc_reachability ?face = Unknown" "wc_wake_plan ?face = Unknown" "wc_daemon ?face = Unknown"
    "wc_durability ?face = ''in_process''"
    by (simp_all add: view_card_def)
  ultimately have "list_all one_line (card_lines ?face)"
    by (simp add: card_lines_def format_observed_fact_def)
  from unlines_count [OF this] show "count_list (card_render (from_census
      (from_current_process os arch env))) (CHR 0x0A) = 11"
    by (simp add: card_of_view card_render_def card_lines_def)
qed

text \<open>Two Codex threads in one kind of terminal: different identifiers, the same card.\<close>

lemma who_card_census_safe_witness:
  "card_render (from_census (from_current_process ''linux'' ''x86_64''
      [''CODEX_THREAD_ID'' \<mapsto> ''secret-1'', ''TERM_PROGRAM'' \<mapsto> ''ghostty'', ''HOME'' \<mapsto> ''/h/a''])) =
   card_render (from_census (from_current_process ''linux'' ''x86_64''
      [''CODEX_SESSION_ID'' \<mapsto> ''secret-2'', ''TERM_PROGRAM'' \<mapsto> ''ghostty'', ''HOME'' \<mapsto> ''/h/b'']))"
  by (rule who_card_census_safe [THEN conjunct1])
    (simp_all add: census_view_def env_present_def nonempty_env_def)

end
