(* ===== verification/Paths.thy ===== *)
theory Paths
  imports Strings
begin

text \<open>
  The Gearwit home, its private directories and the bound socket, \<open>gearwit-host/src/paths.rs\<close>. The
  file system the code sees is modelled: a path is its list of components, a node has a type, an
  owner and a mode, a lock file has at most one holder of its exclusive \<open>flock\<close>, a socket at most one
  listener, and each call may fail for a reason of its own, given by \<open>ho_fails\<close> for the number of the
  call. Symbolic links are nodes that are refused; nothing is looked up through one. The socket calls
  of \<open>ipcprims\<close> are a parameter. A binder is numbered, and belongs to a process.
\<close>

section \<open>The host\<close>

type_synonym path = "string list"

datatype FileType = FT_Dir | FT_File | FT_Symlink | FT_Socket | FT_Other

record Node =
  nd_type :: FileType
  nd_uid :: nat
  nd_mode :: nat

record Host =
  ho_nodes :: "path \<Rightarrow> Node option"
  ho_euid :: nat
  ho_umask :: "nat \<Rightarrow> nat"
  ho_claims :: "(nat \<times> path) set"
  ho_flocks :: "path \<Rightarrow> nat option"
  ho_listeners :: "path \<Rightarrow> nat option"
  ho_calls :: nat
  ho_fails :: "nat \<Rightarrow> string option"

datatype BindError =
  BE_HomeUnset | BE_Symlink path | BE_NotADirectory path | BE_NotASocket path | BE_NotAFile path
| BE_LiveListener path | BE_WrongOwner path | BE_Io string | BE_Transport string

fun BindError_text :: "(path \<Rightarrow> string) \<Rightarrow> BindError \<Rightarrow> string" where
  "BindError_text display BE_HomeUnset = ''HOME is unset''"
| "BindError_text display (BE_Symlink path) = ''refusing symlink '' @ display path"
| "BindError_text display (BE_NotADirectory path) = ''not a directory: '' @ display path"
| "BindError_text display (BE_NotASocket path) = ''not a unix socket: '' @ display path"
| "BindError_text display (BE_NotAFile path) = ''not a regular file: '' @ display path"
| "BindError_text display (BE_LiveListener path) = ''listener already live at '' @ display path"
| "BindError_text display (BE_WrongOwner path) = ''path not owned by this user: '' @ display path"
| "BindError_text display (BE_Io error) = error"
| "BindError_text display (BE_Transport error) = error"

text \<open>
  A call of the operating system: it fails as the host's \<open>ho_fails\<close> says, and otherwise does what
  its name says. \<open>symlink_metadata\<close> of no file is \<open>None\<close>, the \<open>NotFound\<close> the code looks for.
\<close>

definition os_call :: "Host \<Rightarrow> (Host \<Rightarrow> Host \<times> (string + 'a)) \<Rightarrow> Host \<times> (string + 'a)" where
  "os_call w f =
     (let w' = w\<lparr>ho_calls := Suc (ho_calls w)\<rparr> in
      case ho_fails w (ho_calls w) of Some error \<Rightarrow> (w', Inl error) | None \<Rightarrow> f w')"

definition symlink_metadata :: "path \<Rightarrow> Host \<Rightarrow> Host \<times> (string + Node option)" where
  "symlink_metadata path w = os_call w (\<lambda>w. (w, Inr (ho_nodes w path)))"

definition metadata :: "path \<Rightarrow> Host \<Rightarrow> Host \<times> (string + Node)" where
  "metadata path w = os_call w (\<lambda>w.
     case ho_nodes w path of
       None \<Rightarrow> (w, Inl ''No such file or directory'')
     | Some node \<Rightarrow> if nd_type node = FT_Symlink then (w, Inl ''Too many levels of symbolic links'')
                   else (w, Inr node))"

definition is_directory :: "Host \<Rightarrow> path \<Rightarrow> bool" where
  "is_directory w path = (case ho_nodes w path of None \<Rightarrow> False | Some node \<Rightarrow> nd_type node = FT_Dir)"

definition add_node :: "path \<Rightarrow> FileType \<Rightarrow> nat \<Rightarrow> Host \<Rightarrow> Host" where
  "add_node path kind mode w =
     w\<lparr>ho_nodes := (ho_nodes w)(path \<mapsto> \<lparr>nd_type = kind, nd_uid = ho_euid w, nd_mode = ho_umask w mode\<rparr>)\<rparr>"

definition create_dir :: "path \<Rightarrow> Host \<Rightarrow> Host \<times> (string + unit)" where
  "create_dir path w = os_call w (\<lambda>w.
     if ho_nodes w path \<noteq> None then (w, Inl ''File exists'')
     else if path = [] \<or> \<not> is_directory w (butlast path) then (w, Inl ''No such file or directory'')
     else (add_node path FT_Dir 0x1FF w, Inr ()))"

definition set_permissions :: "path \<Rightarrow> nat \<Rightarrow> Host \<Rightarrow> Host \<times> (string + unit)" where
  "set_permissions path mode w = os_call w (\<lambda>w.
     case ho_nodes w path of
       None \<Rightarrow> (w, Inl ''No such file or directory'')
     | Some node \<Rightarrow>
         if nd_uid node \<noteq> ho_euid w \<and> ho_euid w \<noteq> 0 then (w, Inl ''Operation not permitted'')
         else (w\<lparr>ho_nodes := (ho_nodes w)(path \<mapsto> node\<lparr>nd_mode := mode\<rparr>)\<rparr>, Inr ()))"

datatype OpenError = OE_Loop | OE_Other string

text \<open>Creating or opening for reading and writing with \<open>O_NOFOLLOW\<close> and mode \<open>0o600\<close>.\<close>

definition open_lock :: "path \<Rightarrow> Host \<Rightarrow> Host \<times> (OpenError + unit)" where
  "open_lock path w =
     (case os_call w (\<lambda>w.
        case ho_nodes w path of
          None \<Rightarrow>
            if path = [] \<or> \<not> is_directory w (butlast path)
            then (w, Inr (Inl (OE_Other ''No such file or directory'')))
            else (add_node path FT_File 0x180 w, Inr (Inr ()))
        | Some node \<Rightarrow>
            (w, Inr (case nd_type node of
               FT_Symlink \<Rightarrow> Inl OE_Loop
             | FT_Dir \<Rightarrow> Inl (OE_Other ''Is a directory'')
             | FT_Socket \<Rightarrow> Inl (OE_Other ''No such device or address'')
             | _ \<Rightarrow> Inr ()))) of
        (w, Inl error) \<Rightarrow> (w, Inl (OE_Other error))
      | (w, Inr r) \<Rightarrow> (w, r))"

text \<open>\<open>flock(LOCK_EX | LOCK_NB)\<close>: \<open>Inr False\<close> is \<open>EAGAIN\<close>.\<close>

definition flock_exclusive :: "nat \<Rightarrow> path \<Rightarrow> Host \<Rightarrow> Host \<times> (string + bool)" where
  "flock_exclusive me path w = os_call w (\<lambda>w.
     case ho_flocks w path of
       Some _ \<Rightarrow> (w, Inr False)
     | None \<Rightarrow> (w\<lparr>ho_flocks := (ho_flocks w)(path \<mapsto> me)\<rparr>, Inr True))"

section \<open>Directories\<close>

definition require_owned :: "Node \<Rightarrow> path \<Rightarrow> Host \<Rightarrow> BindError + unit" where
  "require_owned node path w = ensure (nd_uid node = ho_euid w) (BE_WrongOwner path)"

text \<open>The checks of an existing directory: no link, a directory, owned.\<close>

definition directory_ok :: "Node \<Rightarrow> path \<Rightarrow> Host \<Rightarrow> BindError + unit" where
  "directory_ok node dir w =
     (if nd_type node = FT_Symlink then Inl (BE_Symlink dir)
      else if nd_type node \<noteq> FT_Dir then Inl (BE_NotADirectory dir)
      else require_owned node dir w)"

definition inspect_existing_dir :: "path \<Rightarrow> Host \<Rightarrow> Host \<times> (BindError + unit)" where
  "inspect_existing_dir dir w =
     (case symlink_metadata dir w of
        (w, Inl error) \<Rightarrow> (w, Inl (BE_Io error))
      | (w, Inr None) \<Rightarrow> (w, Inl (BE_Io ''No such file or directory''))
      | (w, Inr (Some node)) \<Rightarrow> (w, directory_ok node dir w))"

definition create_missing_dir :: "path \<Rightarrow> Host \<Rightarrow> Host \<times> (BindError + unit)" where
  "create_missing_dir dir w =
     (case symlink_metadata dir w of
        (w, Inl error) \<Rightarrow> (w, Inl (BE_Io error))
      | (w, Inr (Some node)) \<Rightarrow> (w, directory_ok node dir w)
      | (w, Inr None) \<Rightarrow>
          (case create_dir dir w of
             (w, Inl error) \<Rightarrow> (w, Inl (BE_Io error))
           | (w, Inr _) \<Rightarrow> (w, Inr ())))"

definition tighten_dir :: "path \<Rightarrow> Host \<Rightarrow> Host \<times> (BindError + unit)" where
  "tighten_dir dir w =
     (case metadata dir w of
        (w, Inl error) \<Rightarrow> (w, Inl (BE_Io error))
      | (w, Inr _) \<Rightarrow>
          (case set_permissions dir 0x1C0 w of
             (w, Inl error) \<Rightarrow> (w, Inl (BE_Io error))
           | (w, Inr _) \<Rightarrow> (w, Inr ())))"

definition and_next :: "Host \<times> (BindError + 'a) \<Rightarrow> (Host \<Rightarrow> Host \<times> (BindError + 'b)) \<Rightarrow> Host \<times> (BindError + 'b)" where
  "and_next p f = (case p of (w, Inl e) \<Rightarrow> (w, Inl e) | (w, Inr _) \<Rightarrow> f w)"

definition ensure_private_dir :: "path \<Rightarrow> Host \<Rightarrow> Host \<times> (BindError + unit)" where
  "ensure_private_dir dir w =
     and_next (create_missing_dir dir w) (\<lambda>w.
     and_next (inspect_existing_dir dir w) (\<lambda>w.
     tighten_dir dir w))"

definition ensure_shared_lanyte :: "path \<Rightarrow> Host \<Rightarrow> Host \<times> (BindError + unit)" where
  "ensure_shared_lanyte dir w =
     (case symlink_metadata dir w of
        (w, Inl error) \<Rightarrow> (w, Inl (BE_Io error))
      | (w, Inr (Some node)) \<Rightarrow> (w, directory_ok node dir w)
      | (w, Inr None) \<Rightarrow>
          (case create_dir dir w of
             (w, Inl error) \<Rightarrow> (w, Inl (BE_Io error))
           | (w, Inr _) \<Rightarrow>
               (case symlink_metadata dir w of
                  (w, Inl error) \<Rightarrow> (w, Inl (BE_Io error))
                | (w, Inr None) \<Rightarrow> (w, Inl (BE_Io ''No such file or directory''))
                | (w, Inr (Some node)) \<Rightarrow>
                    (w, if nd_type node = FT_Symlink then Inl (BE_Symlink dir)
                        else require_owned node dir w))))"

record GearwitPaths =
  gp_root :: path

definition SOCKET_FILE :: string where "SOCKET_FILE = ''gearwit.sock''"
definition LOCK_FILE :: string where "LOCK_FILE = ''gearwit.lock''"

definition paths_from_root :: "path \<Rightarrow> Host \<Rightarrow> Host \<times> (BindError + GearwitPaths)" where
  "paths_from_root root w =
     (if root = [] then (w, Inl (BE_NotADirectory root))
      else
        and_next (inspect_existing_dir (butlast root) w) (\<lambda>w.
        and_next (ensure_private_dir root w) (\<lambda>w.
        and_next (ensure_private_dir (root @ [''run'']) w) (\<lambda>w.
        and_next (ensure_private_dir (root @ [''state'']) w) (\<lambda>w.
        (w, Inr \<lparr>gp_root = root\<rparr>))))))"

definition paths_from_user_home :: "path \<Rightarrow> Host \<Rightarrow> Host \<times> (BindError + GearwitPaths)" where
  "paths_from_user_home home w =
     and_next (inspect_existing_dir home w) (\<lambda>w.
     and_next (ensure_shared_lanyte (home @ [''.lanyte'']) w) (\<lambda>w.
     paths_from_root (home @ [''.lanyte'', ''gearwit'']) w))"

definition paths_user_default :: "path option \<Rightarrow> Host \<Rightarrow> Host \<times> (BindError + GearwitPaths)" where
  "paths_user_default home w =
     (case home of None \<Rightarrow> (w, Inl BE_HomeUnset) | Some home \<Rightarrow> paths_from_user_home home w)"

definition canonical_root :: "path option \<Rightarrow> BindError + path" where
  "canonical_root home =
     (case home of None \<Rightarrow> Inl BE_HomeUnset | Some home \<Rightarrow> Inr (home @ [''.lanyte'', ''gearwit'']))"

definition socket_path :: "GearwitPaths \<Rightarrow> path" where
  "socket_path paths = gp_root paths @ [''run'', SOCKET_FILE]"

definition lock_path :: "GearwitPaths \<Rightarrow> path" where
  "lock_path paths = gp_root paths @ [''run'', LOCK_FILE]"

definition paths_state_dir :: "GearwitPaths \<Rightarrow> path" where
  "paths_state_dir paths = gp_root paths @ [''state'']"

section \<open>Binding\<close>

datatype ConnectError = CE_Refused string | CE_Other string

text \<open>
  What \<open>ipcprims\<close> does with a socket path: connecting, binding (which replaces a stale socket file)
  and dropping a bound socket.
\<close>

record socket_calls =
  tr_connect :: "path \<Rightarrow> Host \<Rightarrow> ConnectError + unit"
  tr_bind :: "nat \<Rightarrow> path \<Rightarrow> Host \<Rightarrow> Host \<times> (string + unit)"
  tr_close :: "nat \<Rightarrow> path \<Rightarrow> Host \<Rightarrow> Host"

definition claim_lock_path :: "nat \<Rightarrow> path \<Rightarrow> Host \<Rightarrow> Host \<times> (BindError + unit)" where
  "claim_lock_path pid path w =
     (if (pid, path) \<in> ho_claims w then (w, Inl (BE_LiveListener path))
      else (w\<lparr>ho_claims := insert (pid, path) (ho_claims w)\<rparr>, Inr ()))"

definition drop_claim :: "nat \<Rightarrow> path \<Rightarrow> Host \<Rightarrow> Host" where
  "drop_claim pid path w = w\<lparr>ho_claims := ho_claims w - {(pid, path)}\<rparr>"

text \<open>Dropping a lock unlocks what this binder holds.\<close>

definition drop_lock :: "nat \<Rightarrow> path \<Rightarrow> Host \<Rightarrow> Host" where
  "drop_lock me path w =
     (if ho_flocks w path = Some me then w\<lparr>ho_flocks := (ho_flocks w)(path := None)\<rparr> else w)"

definition check_lock_file :: "path \<Rightarrow> Host \<Rightarrow> Host \<times> (BindError + unit)" where
  "check_lock_file path w =
     (case symlink_metadata path w of
        (w, Inr (Some node)) \<Rightarrow>
          (w, if nd_type node = FT_Symlink then Inl (BE_Symlink path) else require_owned node path w)
      | (w, _) \<Rightarrow> (w, Inr ()))"

definition open_lock_file :: "path \<Rightarrow> Host \<Rightarrow> Host \<times> (BindError + unit)" where
  "open_lock_file path w =
     (case open_lock path w of
        (w, Inl OE_Loop) \<Rightarrow> (w, Inl (BE_Symlink path))
      | (w, Inl (OE_Other error)) \<Rightarrow> (w, Inl (BE_Io error))
      | (w, Inr _) \<Rightarrow> (w, Inr ()))"

text \<open>The checks of the open file: its metadata, that it is a regular file and owned, its mode.\<close>

definition secure_lock_file :: "path \<Rightarrow> Host \<Rightarrow> Host \<times> (BindError + unit)" where
  "secure_lock_file path w =
     (case metadata path w of
        (w, Inl error) \<Rightarrow> (w, Inl (BE_Io error))
      | (w, Inr node) \<Rightarrow>
          if nd_type node \<noteq> FT_File then (w, Inl (BE_NotAFile path))
          else and_next (w, require_owned node path w) (\<lambda>w.
            case set_permissions path 0x180 w of
              (w, Inl error) \<Rightarrow> (w, Inl (BE_Io error))
            | (w, Inr _) \<Rightarrow> (w, Inr ())))"

definition acquire_listener_lock :: "nat \<Rightarrow> path \<Rightarrow> Host \<Rightarrow> Host \<times> (BindError + unit)" where
  "acquire_listener_lock me path w =
     and_next (check_lock_file path w) (\<lambda>w.
     and_next (open_lock_file path w) (\<lambda>w.
     and_next (secure_lock_file path w) (\<lambda>w.
     case flock_exclusive me path w of
       (w, Inl error) \<Rightarrow> (w, Inl (BE_Io error))
     | (w, Inr False) \<Rightarrow> (w, Inl (BE_LiveListener path))
     | (w, Inr True) \<Rightarrow> (w, Inr ()))))"

definition check_socket :: "socket_calls \<Rightarrow> path \<Rightarrow> Host \<Rightarrow> Host \<times> (BindError + unit)" where
  "check_socket tr path w =
     (case symlink_metadata path w of
        (w, Inr (Some node)) \<Rightarrow>
          if nd_type node = FT_Symlink then (w, Inl (BE_Symlink path))
          else if nd_type node \<noteq> FT_Socket then (w, Inl (BE_NotASocket path))
          else and_next (w, require_owned node path w) (\<lambda>w.
            case tr_connect tr path w of
              Inr _ \<Rightarrow> (w, Inl (BE_LiveListener path))
            | Inl (CE_Refused _) \<Rightarrow> (w, Inr ())
            | Inl (CE_Other error) \<Rightarrow> (w, Inl (BE_Transport error)))
      | (w, _) \<Rightarrow> (w, Inr ()))"

definition replace_socket :: "socket_calls \<Rightarrow> nat \<Rightarrow> path \<Rightarrow> Host \<Rightarrow> Host \<times> (BindError + unit)" where
  "replace_socket tr me path w =
     (case tr_bind tr me path w of
        (w, Inl error) \<Rightarrow> (w, Inl (BE_Transport error))
      | (w, Inr _) \<Rightarrow> (w, Inr ()))"

definition bind_private_socket :: "socket_calls \<Rightarrow> nat \<Rightarrow> path \<Rightarrow> Host \<Rightarrow> Host \<times> (BindError + unit)" where
  "bind_private_socket tr me path w = and_next (check_socket tr path w) (replace_socket tr me path)"

text \<open>A bound listener holds its socket, its claim and its lock; they are dropped in this order.\<close>

record BoundListener =
  bl_path :: path
  bl_lock :: path

definition paths_bind ::
  "socket_calls \<Rightarrow> nat \<Rightarrow> nat \<Rightarrow> GearwitPaths \<Rightarrow> Host \<Rightarrow> Host \<times> (BindError + BoundListener)" where
  "paths_bind tr me pid paths w =
     (let lock = lock_path paths; sock = socket_path paths in
      case claim_lock_path pid lock w of
        (w, Inl e) \<Rightarrow> (w, Inl e)
      | (w, Inr _) \<Rightarrow>
          (case acquire_listener_lock me lock w of
             (w, Inl e) \<Rightarrow> (drop_claim pid lock w, Inl e)
           | (w, Inr _) \<Rightarrow>
               (case bind_private_socket tr me sock w of
                  (w, Inl e) \<Rightarrow> (drop_claim pid lock (drop_lock me lock w), Inl e)
                | (w, Inr _) \<Rightarrow> (w, Inr \<lparr>bl_path = sock, bl_lock = lock\<rparr>))))"

definition drop_bound :: "socket_calls \<Rightarrow> nat \<Rightarrow> nat \<Rightarrow> BoundListener \<Rightarrow> Host \<Rightarrow> Host" where
  "drop_bound tr me pid l w =
     drop_lock me (bl_lock l) (drop_claim pid (bl_lock l) (tr_close tr me (bl_path l) w))"

end
