(* ===== verification/Path_Properties.thy ===== *)
theory Path_Properties
  imports Paths
begin

text \<open>
  What the home and the socket promise: the directories are the user's own and private, and however
  binders of several processes interleave, crashes included, one of them listens at a time and a
  live listener is never displaced.
\<close>

section \<open>Frames of the calls\<close>

definition touches :: "path set \<Rightarrow> Host \<Rightarrow> Host \<Rightarrow> bool" where
  "touches ps w w' \<longleftrightarrow>
     ho_euid w' = ho_euid w \<and> ho_claims w' = ho_claims w \<and> ho_flocks w' = ho_flocks w
     \<and> ho_listeners w' = ho_listeners w \<and> (\<forall>p. p \<notin> ps \<longrightarrow> ho_nodes w' p = ho_nodes w p)"

lemma touches_refl [simp]: "touches ps w w"
  by (simp add: touches_def)

lemma touches_trans: "touches ps w w' \<Longrightarrow> touches qs w' w'' \<Longrightarrow> ps \<subseteq> rs \<Longrightarrow> qs \<subseteq> rs \<Longrightarrow> touches rs w w''"
  by (simp add: touches_def) (metis subsetD)

lemma touches_mono: "touches ps w w' \<Longrightarrow> ps \<subseteq> qs \<Longrightarrow> touches qs w w'"
  by (auto simp: touches_def)

lemma symlink_metadata_touches:
  "symlink_metadata path w = (w', r) \<Longrightarrow> touches {} w w' \<and> (\<forall>n. r = Inr n \<longrightarrow> ho_nodes w path = n)"
  by (auto simp: symlink_metadata_def os_call_def touches_def Let_def split: option.splits)

lemma metadata_touches: "metadata path w = (w', r) \<Longrightarrow> touches {} w w' \<and> (\<forall>n. r = Inr n \<longrightarrow> ho_nodes w path = Some n)"
  by (auto simp: metadata_def os_call_def touches_def Let_def split: option.splits if_splits)

lemma create_dir_touches: "create_dir path w = (w', r) \<Longrightarrow> touches {path} w w'"
  by (auto simp: create_dir_def os_call_def touches_def add_node_def Let_def split: option.splits if_splits)

lemma set_permissions_touches:
  "set_permissions path mode w = (w', r) \<Longrightarrow> touches {path} w w'
    \<and> (\<forall>u. r = Inr u \<longrightarrow> (\<exists>node. ho_nodes w path = Some node \<and> ho_nodes w' path = Some (node\<lparr>nd_mode := mode\<rparr>)))"
  by (auto simp: set_permissions_def os_call_def touches_def Let_def split: option.splits if_splits)

lemma and_next_ok: "and_next p f = (w', Inr y) \<longleftrightarrow> (\<exists>w x. p = (w, Inr x) \<and> f w = (w', Inr y))"
  by (cases p; cases "snd p") (auto simp: and_next_def)

lemma directory_ok_iff:
  "directory_ok node dir w = Inr u \<longleftrightarrow> nd_type node = FT_Dir \<and> nd_uid node = ho_euid w"
  by (auto simp: directory_ok_def require_owned_def)

lemma inspect_existing_dir_ok:
  "inspect_existing_dir dir w = (w', Inr u) \<Longrightarrow> touches {} w w'
    \<and> (\<exists>node. ho_nodes w dir = Some node \<and> nd_type node = FT_Dir \<and> nd_uid node = ho_euid w)"
  by (auto simp: inspect_existing_dir_def directory_ok_iff touches_def
      split: prod.splits sum.splits option.splits dest!: symlink_metadata_touches)

lemma create_missing_dir_touches: "create_missing_dir dir w = (w', r) \<Longrightarrow> touches {dir} w w'"
  by (auto simp: create_missing_dir_def split: prod.splits sum.splits option.splits
      dest!: symlink_metadata_touches create_dir_touches intro: touches_trans touches_mono)

section \<open>Private directories\<close>

definition private_dir :: "Host \<Rightarrow> path \<Rightarrow> bool" where
  "private_dir w dir \<longleftrightarrow>
     ho_nodes w dir = Some \<lparr>nd_type = FT_Dir, nd_uid = ho_euid w, nd_mode = 0x1C0\<rparr>"

lemma ensure_private_dir_ok:
  assumes "ensure_private_dir dir w = (w', Inr u)"
  shows "private_dir w' dir \<and> touches {dir} w w'"
proof -
  from assms obtain w1 w2 u1 u2 where c: "create_missing_dir dir w = (w1, Inr u1)"
    and i: "inspect_existing_dir dir w1 = (w2, Inr u2)" and t: "tighten_dir dir w2 = (w', Inr u)"
    by (auto simp: ensure_private_dir_def and_next_ok)
  from create_missing_dir_touches [OF c] have t1: "touches {dir} w w1" .
  from inspect_existing_dir_ok [OF i] obtain node where t2: "touches {} w1 w2"
    and n: "ho_nodes w1 dir = Some node" "nd_type node = FT_Dir" "nd_uid node = ho_euid w1" by blast
  from t obtain w3 node' u3 where m: "metadata dir w2 = (w3, Inr node')"
    and p: "set_permissions dir 0x1C0 w3 = (w', Inr u3)"
    by (auto simp: tighten_dir_def split: prod.splits sum.splits)
  from metadata_touches [OF m] have t3: "touches {} w2 w3" by blast
  from set_permissions_touches [OF p] obtain node3 where t4: "touches {dir} w3 w'"
    and n3: "ho_nodes w3 dir = Some node3" "ho_nodes w' dir = Some (node3\<lparr>nd_mode := 0x1C0\<rparr>)" by blast
  from t2 t3 n n3 have "node3 = node" by (simp add: touches_def)
  moreover have "ho_euid w' = ho_euid w1" using t2 t3 t4 by (simp add: touches_def)
  ultimately have "private_dir w' dir" using n n3 by (cases node) (simp add: private_dir_def)
  moreover have "touches {dir} w w'"
    using touches_trans [OF touches_trans [OF t1 t2, of "{dir}"] touches_trans [OF t3 t4, of "{dir}"], of "{dir}"]
    by simp
  ultimately show ?thesis ..
qed

lemma private_dir_touched: "private_dir w d \<Longrightarrow> touches ps w w' \<Longrightarrow> d \<notin> ps \<Longrightarrow> private_dir w' d"
  by (simp add: private_dir_def touches_def)

text \<open>
  C33: the home is private. When the directories are resolved, the root, \<open>run/\<close> and \<open>state/\<close> are real
  directories of the effective user with mode 0700, under a parent that is a real directory of that
  user; no other node of the file system was touched, no lock and no listener.
\<close>

theorem home_is_private:
  assumes "paths_from_root root w = (w', Inr paths)"
  shows "gp_root paths = root
    \<and> private_dir w' root \<and> private_dir w' (root @ [''run'']) \<and> private_dir w' (root @ [''state''])
    \<and> (\<exists>node. ho_nodes w' (butlast root) = Some node \<and> nd_type node = FT_Dir \<and> nd_uid node = ho_euid w')
    \<and> touches {root, root @ [''run''], root @ [''state'']} w w'"
proof -
  let ?run = "root @ [''run'']" and ?state = "root @ [''state'']"
  from assms obtain w1 w2 w3 u1 u2 u3 u4 where ne: "root \<noteq> []"
    and p: "inspect_existing_dir (butlast root) w = (w1, Inr u1)"
    and a: "ensure_private_dir root w1 = (w2, Inr u2)"
    and b: "ensure_private_dir ?run w2 = (w3, Inr u3)"
    and c: "ensure_private_dir ?state w3 = (w', Inr u4)" and r: "paths = \<lparr>gp_root = root\<rparr>"
    by (auto simp: paths_from_root_def and_next_ok split: if_splits)
  have ds: "butlast root \<notin> {root, ?run, ?state}"
    using ne by (cases root rule: rev_cases) auto
  note t1 = conjunct1 [OF inspect_existing_dir_ok [OF p]]
  note t2 = ensure_private_dir_ok [OF a] and t3 = ensure_private_dir_ok [OF b] and t4 = ensure_private_dir_ok [OF c]
  have t: "touches {root, ?run, ?state} w w'"
    using t1 t2 t3 t4 by (auto simp: touches_def)
  have "private_dir w' ?run"
    by (rule private_dir_touched [OF conjunct1 [OF t3] conjunct2 [OF t4]]) simp
  moreover have "private_dir w' root"
    by (rule private_dir_touched [OF private_dir_touched [OF conjunct1 [OF t2] conjunct2 [OF t3]]
          conjunct2 [OF t4]]) simp_all
  moreover from inspect_existing_dir_ok [OF p] t ds
  have "\<exists>node. ho_nodes w' (butlast root) = Some node \<and> nd_type node = FT_Dir \<and> nd_uid node = ho_euid w'"
    by (auto simp: touches_def)
  ultimately show ?thesis using r t t4 by simp
qed

section \<open>Binders that interleave\<close>

text \<open>
  A binder runs the calls of \<open>bind\<close> one after another, and drops what it holds in the order Rust
  drops it; other binders, of its own process or another, may run between any two of them, and a process
  may end at any time.
\<close>

datatype BindPhase =
  BP_Idle | BP_Claimed | BP_Locked | BP_Checked | BP_Bound | BP_Closed | BP_Unclaimed | BP_Unlocked

record Binders =
  bw_host :: Host
  bw_phase :: "nat \<Rightarrow> BindPhase"

definition holds_lock :: "BindPhase \<Rightarrow> bool" where
  "holds_lock p \<longleftrightarrow> p \<in> {BP_Locked, BP_Checked, BP_Bound, BP_Closed, BP_Unclaimed}"

text \<open>What a process leaves when it ends: its claims, locks and listeners are gone.\<close>

definition end_process :: "(nat \<Rightarrow> nat) \<Rightarrow> nat \<Rightarrow> Host \<Rightarrow> Host" where
  "end_process proc pid w =
     w\<lparr>ho_claims := {c \<in> ho_claims w. fst c \<noteq> pid},
       ho_flocks := (\<lambda>p. case ho_flocks w p of None \<Rightarrow> None | Some n \<Rightarrow> if proc n = pid then None else Some n),
       ho_listeners := (\<lambda>p. case ho_listeners w p of None \<Rightarrow> None
          | Some n \<Rightarrow> if proc n = pid then None else Some n)\<rparr>"

inductive bind_step :: "socket_calls \<Rightarrow> (nat \<Rightarrow> nat) \<Rightarrow> GearwitPaths \<Rightarrow> Binders \<Rightarrow> Binders \<Rightarrow> bool"
  for tr :: socket_calls and proc :: "nat \<Rightarrow> nat" and paths :: GearwitPaths where
  claim: "bw_phase b n = BP_Idle \<Longrightarrow> claim_lock_path (proc n) (lock_path paths) (bw_host b) = (w, Inr u) \<Longrightarrow>
    bind_step tr proc paths b \<lparr>bw_host = w, bw_phase = (bw_phase b)(n := BP_Claimed)\<rparr>"
| claim_error: "bw_phase b n = BP_Idle \<Longrightarrow>
    claim_lock_path (proc n) (lock_path paths) (bw_host b) = (w, Inl e) \<Longrightarrow>
    bind_step tr proc paths b (b\<lparr>bw_host := w\<rparr>)"
| lock: "bw_phase b n = BP_Claimed \<Longrightarrow> acquire_listener_lock n (lock_path paths) (bw_host b) = (w, Inr u) \<Longrightarrow>
    bind_step tr proc paths b \<lparr>bw_host = w, bw_phase = (bw_phase b)(n := BP_Locked)\<rparr>"
| lock_error: "bw_phase b n = BP_Claimed \<Longrightarrow>
    acquire_listener_lock n (lock_path paths) (bw_host b) = (w, Inl e) \<Longrightarrow>
    bind_step tr proc paths b \<lparr>bw_host = w, bw_phase = (bw_phase b)(n := BP_Unlocked)\<rparr>"
| check: "bw_phase b n = BP_Locked \<Longrightarrow> check_socket tr (socket_path paths) (bw_host b) = (w, Inr u) \<Longrightarrow>
    bind_step tr proc paths b \<lparr>bw_host = w, bw_phase = (bw_phase b)(n := BP_Checked)\<rparr>"
| check_error: "bw_phase b n = BP_Locked \<Longrightarrow> check_socket tr (socket_path paths) (bw_host b) = (w, Inl e) \<Longrightarrow>
    bind_step tr proc paths b
      \<lparr>bw_host = drop_lock n (lock_path paths) w, bw_phase = (bw_phase b)(n := BP_Unlocked)\<rparr>"
| bind: "bw_phase b n = BP_Checked \<Longrightarrow> replace_socket tr n (socket_path paths) (bw_host b) = (w, Inr u) \<Longrightarrow>
    bind_step tr proc paths b \<lparr>bw_host = w, bw_phase = (bw_phase b)(n := BP_Bound)\<rparr>"
| bind_error: "bw_phase b n = BP_Checked \<Longrightarrow> replace_socket tr n (socket_path paths) (bw_host b) = (w, Inl e) \<Longrightarrow>
    bind_step tr proc paths b
      \<lparr>bw_host = drop_lock n (lock_path paths) w, bw_phase = (bw_phase b)(n := BP_Unlocked)\<rparr>"
| close: "bw_phase b n = BP_Bound \<Longrightarrow>
    bind_step tr proc paths b
      \<lparr>bw_host = tr_close tr n (socket_path paths) (bw_host b), bw_phase = (bw_phase b)(n := BP_Closed)\<rparr>"
| unclaim: "bw_phase b n = BP_Closed \<Longrightarrow>
    bind_step tr proc paths b
      \<lparr>bw_host = drop_claim (proc n) (lock_path paths) (bw_host b), bw_phase = (bw_phase b)(n := BP_Unclaimed)\<rparr>"
| unlock: "bw_phase b n = BP_Unclaimed \<Longrightarrow>
    bind_step tr proc paths b
      \<lparr>bw_host = drop_lock n (lock_path paths) (bw_host b), bw_phase = (bw_phase b)(n := BP_Idle)\<rparr>"
| give_up: "bw_phase b n = BP_Unlocked \<Longrightarrow>
    bind_step tr proc paths b
      \<lparr>bw_host = drop_claim (proc n) (lock_path paths) (bw_host b), bw_phase = (bw_phase b)(n := BP_Idle)\<rparr>"
| ended: "bind_step tr proc paths b
    \<lparr>bw_host = end_process proc pid (bw_host b),
     bw_phase = (\<lambda>n. if proc n = pid then BP_Idle else bw_phase b n)\<rparr>"

text \<open>Nothing holds the lock at the start; a socket may have a listener of some other program.\<close>

inductive bind_reach :: "socket_calls \<Rightarrow> (nat \<Rightarrow> nat) \<Rightarrow> GearwitPaths \<Rightarrow> Host \<Rightarrow> Binders \<Rightarrow> bool"
  for tr :: socket_calls and proc :: "nat \<Rightarrow> nat" and paths :: GearwitPaths and w0 :: Host where
  start: "bind_reach tr proc paths w0 \<lparr>bw_host = w0, bw_phase = (\<lambda>_. BP_Idle)\<rparr>"
| step: "bind_reach tr proc paths w0 b \<Longrightarrow> bind_step tr proc paths b b' \<Longrightarrow> bind_reach tr proc paths w0 b'"

text \<open>
  A socket file that has a listener exists, so that the check sees it.
\<close>

definition listener_visible :: "Host \<Rightarrow> bool" where
  "listener_visible w \<longleftrightarrow> (\<forall>p n. ho_listeners w p = Some n \<longrightarrow> ho_nodes w p \<noteq> None)"

text \<open>
  What the code relies on of \<open>ipcprims\<close>: a connection to a path that has a listener is not refused;
  binding and closing concern the one path; a successful bind makes the caller its listener, a failed
  one adds none; closing ends the caller's listening and no other's; a listener's file exists.
\<close>

definition socket_calls_ok :: "socket_calls \<Rightarrow> bool" where
  "socket_calls_ok tr \<longleftrightarrow>
     (\<forall>p w e. tr_connect tr p w = Inl (CE_Refused e) \<longrightarrow> ho_listeners w p = None)
     \<and> (\<forall>n p w w' r. tr_bind tr n p w = (w', r) \<longrightarrow>
          ho_flocks w' = ho_flocks w \<and> ho_fails w' = ho_fails w
          \<and> (\<forall>q. q \<noteq> p \<longrightarrow> ho_listeners w' q = ho_listeners w q)
          \<and> (is_ok r \<longrightarrow> ho_listeners w' p = Some n)
          \<and> (\<not> is_ok r \<longrightarrow> ho_listeners w p = None \<longrightarrow> ho_listeners w' p = None)
          \<and> (listener_visible w \<longrightarrow> listener_visible w'))
     \<and> (\<forall>n p w. ho_flocks (tr_close tr n p w) = ho_flocks w \<and> ho_fails (tr_close tr n p w) = ho_fails w
          \<and> ho_listeners (tr_close tr n p w) =
              (if ho_listeners w p = Some n then (ho_listeners w)(p := None) else ho_listeners w)
          \<and> (listener_visible w \<longrightarrow> listener_visible (tr_close tr n p w)))"

lemma transport_refused: "socket_calls_ok tr \<Longrightarrow> tr_connect tr p w = Inl (CE_Refused e) \<Longrightarrow> ho_listeners w p = None"
  by (auto simp: socket_calls_ok_def)

lemma transport_bind:
  assumes "socket_calls_ok tr" "tr_bind tr n p w = (w', r)"
  shows "ho_flocks w' = ho_flocks w" "ho_fails w' = ho_fails w"
    "q \<noteq> p \<Longrightarrow> ho_listeners w' q = ho_listeners w q" "is_ok r \<Longrightarrow> ho_listeners w' p = Some n"
    "\<not> is_ok r \<Longrightarrow> ho_listeners w p = None \<Longrightarrow> ho_listeners w' p = None"
    "listener_visible w \<Longrightarrow> listener_visible w'"
  using assms by (simp_all add: socket_calls_ok_def)

lemma transport_close:
  assumes "socket_calls_ok tr"
  shows "ho_flocks (tr_close tr n p w) = ho_flocks w" "ho_fails (tr_close tr n p w) = ho_fails w"
    "ho_listeners (tr_close tr n p w) =
       (if ho_listeners w p = Some n then (ho_listeners w)(p := None) else ho_listeners w)"
    "listener_visible w \<Longrightarrow> listener_visible (tr_close tr n p w)"
  using assms by (simp_all add: socket_calls_ok_def)

text \<open>What the calls before the bind leave alone.\<close>

definition calm :: "Host \<Rightarrow> Host \<Rightarrow> bool" where
  "calm w w' \<longleftrightarrow> ho_listeners w' = ho_listeners w \<and> ho_fails w' = ho_fails w
     \<and> (\<forall>p. ho_nodes w p \<noteq> None \<longrightarrow> ho_nodes w' p \<noteq> None)"

lemma calm_refl [simp]: "calm w w" by (simp add: calm_def)

lemma calm_trans: "calm w w' \<Longrightarrow> calm w' w'' \<Longrightarrow> calm w w''" by (simp add: calm_def)

lemma calm_visible: "calm w w' \<Longrightarrow> listener_visible w \<Longrightarrow> listener_visible w'"
  by (simp add: calm_def listener_visible_def)

abbreviation keeps :: "Host \<Rightarrow> Host \<Rightarrow> bool" where
  "keeps w w' \<equiv> calm w w' \<and> ho_flocks w' = ho_flocks w"

lemma call_keeps:
  "symlink_metadata path w = (w', n) \<Longrightarrow> keeps w w'"
  "metadata path w = (w', m) \<Longrightarrow> keeps w w'"
  "set_permissions path mode w = (w', r) \<Longrightarrow> keeps w w'"
  "open_lock path w = (w', q) \<Longrightarrow> keeps w w'"
  by (auto simp: symlink_metadata_def metadata_def set_permissions_def open_lock_def os_call_def calm_def
      add_node_def Let_def split: option.splits if_splits prod.splits sum.splits)

lemma and_next_keeps:
  assumes "and_next p f = (w', r)" and "keeps w (fst p)" and "\<And>w1 r1. f w1 = (w', r1) \<Longrightarrow> keeps w1 w'"
  shows "keeps w w'"
  using assms by (cases p; cases "snd p") (auto simp: and_next_def intro: calm_trans)

lemma check_lock_file_keeps: "check_lock_file path w = (w', r) \<Longrightarrow> keeps w w'"
  by (auto simp: check_lock_file_def split: prod.splits sum.splits option.splits dest: call_keeps)

lemma open_lock_file_keeps: "open_lock_file path w = (w', r) \<Longrightarrow> keeps w w'"
  by (auto simp: open_lock_file_def split: prod.splits sum.splits OpenError.splits dest: call_keeps)

lemma secure_lock_file_keeps: "secure_lock_file path w = (w', r) \<Longrightarrow> keeps w w'"
  by (auto simp: secure_lock_file_def and_next_def ensure_def require_owned_def
      split: prod.splits sum.splits if_splits dest!: call_keeps intro: calm_trans)

lemma flock_exclusive_result:
  "flock_exclusive me path w = (w', r) \<Longrightarrow> calm w w'
    \<and> (if r = Inr True then ho_flocks w path = None \<and> ho_flocks w' = (ho_flocks w)(path \<mapsto> me)
       else ho_flocks w' = ho_flocks w)"
  by (auto simp: flock_exclusive_def os_call_def calm_def Let_def split: option.splits if_splits)

lemma acquire_result:
  assumes "acquire_listener_lock me path w = (w', r)"
  shows "calm w w' \<and> (if is_ok r then ho_flocks w path = None \<and> ho_flocks w' = (ho_flocks w)(path \<mapsto> me)
    else ho_flocks w' = ho_flocks w)"
proof -
  obtain w1 r1 where c: "check_lock_file path w = (w1, r1)" by (cases "check_lock_file path w")
  obtain w2 r2 where o: "open_lock_file path w1 = (w2, r2)" by (cases "open_lock_file path w1")
  obtain w3 r3 where s: "secure_lock_file path w2 = (w3, r3)" by (cases "secure_lock_file path w2")
  obtain w4 r4 where f: "flock_exclusive me path w3 = (w4, r4)" by (cases "flock_exclusive me path w3")
  note k = check_lock_file_keeps [OF c] open_lock_file_keeps [OF o] secure_lock_file_keeps [OF s]
  note f' = flock_exclusive_result [OF f]
  from assms show ?thesis
    unfolding acquire_listener_lock_def and_next_def c o s f prod.case
    using k f' by (auto split: sum.splits bool.splits intro: calm_trans)
qed

lemma check_socket_result:
  assumes "check_socket tr path w = (w', r)"
  shows "keeps w w' \<and> (socket_calls_ok tr \<longrightarrow> is_ok r \<longrightarrow> (\<forall>k. ho_fails w k = None) \<longrightarrow> listener_visible w
    \<longrightarrow> ho_listeners w' path = None)"
proof -
  obtain w1 m where m: "symlink_metadata path w = (w1, m)" by (cases "symlink_metadata path w")
  from call_keeps(1) [OF m] have k: "keeps w w1" .
  have w': "w' = w1"
    using assms by (auto simp: check_socket_def m and_next_def ensure_def require_owned_def
        split: sum.splits option.splits if_splits ConnectError.splits)
  moreover have "ho_listeners w1 path = None"
    if "socket_calls_ok tr" "is_ok r" "\<forall>k. ho_fails w k = None" "listener_visible w"
  proof (cases "ho_nodes w path")
    case None
    with that(4) have "ho_listeners w path = None"
      unfolding listener_visible_def by (cases "ho_listeners w path") auto
    with k show ?thesis by (simp add: calm_def)
  next
    case (Some node)
    with m that(3) have "m = Inr (Some node)"
      by (auto simp: symlink_metadata_def os_call_def Let_def)
    with assms that(2) obtain e where "tr_connect tr path w1 = Inl (CE_Refused e)"
      by (auto simp: check_socket_def m and_next_def ensure_def require_owned_def
          split: sum.splits option.splits if_splits ConnectError.splits)
    with that(1) show ?thesis by (rule transport_refused)
  qed
  ultimately show ?thesis using k by simp
qed


section \<open>One listener\<close>

definition locked_by :: "GearwitPaths \<Rightarrow> Binders \<Rightarrow> bool" where
  "locked_by paths b \<longleftrightarrow>
     (\<forall>n. ho_flocks (bw_host b) (lock_path paths) = Some n \<longleftrightarrow> holds_lock (bw_phase b n))
     \<and> (\<forall>n. bw_phase b n = BP_Bound \<longrightarrow> ho_listeners (bw_host b) (socket_path paths) = Some n)"

definition watched :: "GearwitPaths \<Rightarrow> Binders \<Rightarrow> bool" where
  "watched paths b \<longleftrightarrow>
     (\<forall>k. ho_fails (bw_host b) k = None) \<and> listener_visible (bw_host b)
     \<and> (\<forall>n. bw_phase b n = BP_Checked \<longrightarrow> ho_listeners (bw_host b) (socket_path paths) = None)"

lemma holds_lock_simps [simp]:
  "\<not> holds_lock BP_Idle" "\<not> holds_lock BP_Claimed" "holds_lock BP_Locked" "holds_lock BP_Checked"
  "holds_lock BP_Bound" "holds_lock BP_Closed" "holds_lock BP_Unclaimed" "\<not> holds_lock BP_Unlocked"
  by (simp_all add: holds_lock_def)

lemma only_holder:
  "locked_by paths b \<Longrightarrow> holds_lock (bw_phase b n) \<Longrightarrow> holds_lock (bw_phase b m) \<Longrightarrow> m = n"
  unfolding locked_by_def by (metis option.inject)

lemma claim_result: "claim_lock_path pid path w = (w', r) \<Longrightarrow> keeps w w'"
  by (auto simp: claim_lock_path_def calm_def split: if_splits)

lemma replace_ok: "replace_socket tr me path w = (w', Inr u) \<Longrightarrow> tr_bind tr me path w = (w', Inr ())"
  by (auto simp: replace_socket_def split: prod.splits sum.splits)

lemma replace_error: "replace_socket tr me path w = (w', Inl e) \<Longrightarrow> \<exists>e'. tr_bind tr me path w = (w', Inl e')"
  by (auto simp: replace_socket_def split: prod.splits sum.splits)

lemma drop_simps [simp]:
  "ho_flocks (drop_claim pid path w) = ho_flocks w" "ho_listeners (drop_claim pid path w) = ho_listeners w"
  "ho_fails (drop_claim pid path w) = ho_fails w" "ho_nodes (drop_claim pid path w) = ho_nodes w"
  "ho_flocks (drop_lock me path w) =
     (if ho_flocks w path = Some me then (ho_flocks w)(path := None) else ho_flocks w)"
  "ho_listeners (drop_lock me path w) = ho_listeners w" "ho_fails (drop_lock me path w) = ho_fails w"
  "ho_nodes (drop_lock me path w) = ho_nodes w"
  by (simp_all add: drop_claim_def drop_lock_def)

lemma visible_drop [simp]:
  "listener_visible (drop_claim pid path w) = listener_visible w"
  "listener_visible (drop_lock me path w) = listener_visible w"
  by (simp_all add: listener_visible_def)

lemma bind_step_locked:
  assumes "socket_calls_ok tr" and "bind_step tr proc paths b b'" and "locked_by paths b"
  shows "locked_by paths b'"
  using assms(2)
proof (cases rule: bind_step.cases)
  case (claim n w u)
  with assms(3) claim_result [OF claim(3)] show ?thesis by (auto simp: locked_by_def calm_def)
next
  case (claim_error n w e)
  with assms(3) claim_result [OF claim_error(3)] show ?thesis by (auto simp: locked_by_def calm_def)
next
  case (lock n w u)
  with assms(3) acquire_result [OF lock(3)] show ?thesis by (auto simp: locked_by_def calm_def)
next
  case (lock_error n w e)
  with assms(3) acquire_result [OF lock_error(3)] show ?thesis by (auto simp: locked_by_def calm_def)
next
  case (check n w u)
  with assms(3) check_socket_result [OF check(3)] show ?thesis by (auto simp: locked_by_def calm_def)
next
  case (check_error n w e)
  have "\<not> holds_lock (bw_phase b m)" if "m \<noteq> n" for m
    using only_holder [OF assms(3), of n m] check_error(2) that by auto
  with check_error assms(3) check_socket_result [OF check_error(3)] show ?thesis
    by (auto simp: locked_by_def calm_def)
next
  case (bind n w u)
  note t = replace_ok [OF bind(3)]
  have "m = n" if "bw_phase b m = BP_Bound" for m
    using only_holder [OF assms(3), of n m] that bind(2) by simp
  with bind assms(3) transport_bind(1,4) [OF assms(1) t] show ?thesis
    by (auto simp: locked_by_def)
next
  case (bind_error n w e)
  from replace_error [OF bind_error(3)] obtain e' where
    t: "tr_bind tr n (socket_path paths) (bw_host b) = (w, Inl e')" ..
  have "\<not> holds_lock (bw_phase b m)" if "m \<noteq> n" for m
    using only_holder [OF assms(3), of n m] bind_error(2) that by auto
  moreover from this have "bw_phase b m \<noteq> BP_Bound" if "m \<noteq> n" for m using that by force
  ultimately show ?thesis
    using bind_error assms(3) transport_bind(1) [OF assms(1) t]
    by (auto simp: locked_by_def)
next
  case (close n)
  have "bw_phase b m \<noteq> BP_Bound" if "m \<noteq> n" for m
    using only_holder [OF assms(3), of n m] close(2) that by auto
  with close assms(3) transport_close(1) [OF assms(1)] show ?thesis by (auto simp: locked_by_def)
next
  case (unclaim n)
  with assms(3) show ?thesis by (auto simp: locked_by_def)
next
  case (unlock n)
  have "\<not> holds_lock (bw_phase b m)" if "m \<noteq> n" for m
    using only_holder [OF assms(3), of n m] unlock(2) that by auto
  with unlock assms(3) show ?thesis by (auto simp: locked_by_def)
next
  case (give_up n)
  with assms(3) show ?thesis by (auto simp: locked_by_def)
next
  case (ended pid)
  have "m = n" if "holds_lock (bw_phase b n)" "holds_lock (bw_phase b m)" for n m
    by (rule only_holder [OF assms(3) that])
  with ended assms(3) show ?thesis by (auto simp: locked_by_def end_process_def split: option.splits)
qed


lemma bind_step_watched:
  assumes "socket_calls_ok tr" and "bind_step tr proc paths b b'" and "locked_by paths b" and "watched paths b"
  shows "watched paths b'"
  using assms(2)
proof (cases rule: bind_step.cases)
  case (claim n w u)
  from claim_result [OF claim(3)] have k: "calm (bw_host b) w" by blast
  with assms(4) calm_visible [OF k] claim show ?thesis by (auto simp: watched_def calm_def)
next
  case (claim_error n w e)
  from claim_result [OF claim_error(3)] have k: "calm (bw_host b) w" by blast
  with assms(4) calm_visible [OF k] claim_error show ?thesis by (auto simp: watched_def calm_def)
next
  case (lock n w u)
  from acquire_result [OF lock(3)] have k: "calm (bw_host b) w" by blast
  with assms(4) calm_visible [OF k] lock show ?thesis by (auto simp: watched_def calm_def)
next
  case (lock_error n w e)
  from acquire_result [OF lock_error(3)] have k: "calm (bw_host b) w" by blast
  with assms(4) calm_visible [OF k] lock_error show ?thesis by (auto simp: watched_def calm_def)
next
  case (check n w u)
  from check_socket_result [OF check(3)] have k: "calm (bw_host b) w"
    and none: "ho_listeners w (socket_path paths) = None" using assms(1,4) by (simp_all add: watched_def)
  with assms(4) calm_visible [OF k] check show ?thesis by (auto simp: watched_def calm_def)
next
  case (check_error n w e)
  from check_socket_result [OF check_error(3)] have k: "keeps (bw_host b) w" by blast
  with assms(4) calm_visible [of "bw_host b" w] check_error show ?thesis by (auto simp: watched_def calm_def)
next
  case (bind n w u)
  note t = replace_ok [OF bind(3)]
  have "bw_phase b m \<noteq> BP_Checked" if "m \<noteq> n" for m
    using only_holder [OF assms(3), of n m] bind(2) that by auto
  with bind assms(4) transport_bind(2,6) [OF assms(1) t] show ?thesis
    by (auto simp: watched_def)
next
  case (bind_error n w e)
  from replace_error [OF bind_error(3)] obtain e' where
    t: "tr_bind tr n (socket_path paths) (bw_host b) = (w, Inl e')" ..
  have "bw_phase b m \<noteq> BP_Checked" if "m \<noteq> n" for m
    using only_holder [OF assms(3), of n m] bind_error(2) that by auto
  with bind_error assms(4) transport_bind(2,6) [OF assms(1) t] show ?thesis
    by (auto simp: watched_def)
next
  case (close n)
  with assms(4) transport_close [OF assms(1)] show ?thesis by (auto simp: watched_def)
next
  case (unclaim n)
  with assms(4) show ?thesis by (auto simp: watched_def)
next
  case (unlock n)
  with assms(4) show ?thesis by (auto simp: watched_def)
next
  case (give_up n)
  with assms(4) show ?thesis by (auto simp: watched_def)
next
  case (ended pid)
  with assms(4) show ?thesis
    by (auto simp: watched_def end_process_def listener_visible_def split: option.splits if_splits)
qed

lemma bind_reach_locked:
  assumes "bind_reach tr proc paths w0 b" and "socket_calls_ok tr" and "ho_flocks w0 (lock_path paths) = None"
  shows "locked_by paths b"
  using assms(1)
proof (induction rule: bind_reach.induct)
  case start
  with assms(3) show ?case by (simp add: locked_by_def)
next
  case (step b b')
  with assms(2) show ?case by (blast intro: bind_step_locked)
qed

lemma bind_reach_watched:
  assumes "bind_reach tr proc paths w0 b" and "socket_calls_ok tr" and "ho_flocks w0 (lock_path paths) = None"
    and "\<forall>k. ho_fails w0 k = None" and "listener_visible w0"
  shows "watched paths b"
  using assms(1)
proof (induction rule: bind_reach.induct)
  case start
  with assms(4,5) show ?case by (simp add: watched_def)
next
  case (step b b')
  from bind_reach_locked [OF step(1) assms(2,3)] step assms(2) show ?case by (blast intro: bind_step_watched)
qed

text \<open>How a listener goes away by itself: its binder drops it, or its process ends.\<close>

definition lets_go :: "(nat \<Rightarrow> nat) \<Rightarrow> Binders \<Rightarrow> Binders \<Rightarrow> nat \<Rightarrow> bool" where
  "lets_go proc b b' m \<longleftrightarrow>
     bw_phase b m = BP_Bound \<and> bw_phase b' m = BP_Closed
     \<or> bw_host b' = end_process proc (proc m) (bw_host b)"

lemma step_keeps_listener:
  assumes "socket_calls_ok tr" and "bind_step tr proc paths b b'" and "watched paths b" and "locked_by paths b"
    and "ho_listeners (bw_host b) (socket_path paths) = Some m"
  shows "ho_listeners (bw_host b') (socket_path paths) = Some m \<or> lets_go proc b b' m"
  using assms(2)
proof (cases rule: bind_step.cases)
  case (claim n w u)
  with assms(5) claim_result [OF claim(3)] show ?thesis by (simp add: calm_def)
next
  case (claim_error n w e)
  with assms(5) claim_result [OF claim_error(3)] show ?thesis by (simp add: calm_def)
next
  case (lock n w u)
  with assms(5) acquire_result [OF lock(3)] show ?thesis by (simp add: calm_def)
next
  case (lock_error n w e)
  with assms(5) acquire_result [OF lock_error(3)] show ?thesis by (simp add: calm_def)
next
  case (check n w u)
  with assms(5) check_socket_result [OF check(3)] show ?thesis by (simp add: calm_def)
next
  case (check_error n w e)
  with assms(5) check_socket_result [OF check_error(3)] show ?thesis by (simp add: calm_def)
next
  case (bind n w u)
  with assms(3,5) show ?thesis by (auto simp: watched_def)
next
  case (bind_error n w e)
  with assms(3,5) show ?thesis by (auto simp: watched_def)
next
  case (close n)
  with assms(4) have "ho_listeners (bw_host b) (socket_path paths) = Some n" by (simp add: locked_by_def)
  with assms(5) close show ?thesis by (simp add: lets_go_def)
next
  case (ended pid)
  with assms(5) show ?thesis by (auto simp: end_process_def lets_go_def)
qed (use assms(5) in simp_all)

text \<open>
  C32: one listener. However binders of any processes interleave, fail, drop their listeners or die,
  at most one of them holds a bound listener at a time, and it is the one that listens on the
  socket; and where the operating system's calls succeed, no step displaces a live listener, one of
  another program included: it stops only when its own binder drops it or its process ends.
\<close>

theorem one_live_listener:
  assumes "socket_calls_ok tr" and "bind_reach tr proc paths w0 b" and "ho_flocks w0 (lock_path paths) = None"
  shows "(\<forall>n. bw_phase b n = BP_Bound \<longrightarrow>
        ho_listeners (bw_host b) (socket_path paths) = Some n \<and> (\<forall>m. bw_phase b m = BP_Bound \<longrightarrow> m = n))
    \<and> ((\<forall>k. ho_fails w0 k = None) \<longrightarrow> listener_visible w0 \<longrightarrow>
        (\<forall>b' m. bind_step tr proc paths b b' \<longrightarrow> ho_listeners (bw_host b) (socket_path paths) = Some m \<longrightarrow>
          ho_listeners (bw_host b') (socket_path paths) = Some m \<or> lets_go proc b b' m))"
proof -
  from bind_reach_locked [OF assms(2,1,3)] have l: "locked_by paths b" .
  then have "ho_listeners (bw_host b) (socket_path paths) = Some n \<and> (\<forall>m. bw_phase b m = BP_Bound \<longrightarrow> m = n)"
    if "bw_phase b n = BP_Bound" for n
    using only_holder [OF l, of n] that by (auto simp: locked_by_def)
  moreover have "ho_listeners (bw_host b') (socket_path paths) = Some m \<or> lets_go proc b b' m"
    if "\<forall>k. ho_fails w0 k = None" "listener_visible w0" "bind_step tr proc paths b b'"
      "ho_listeners (bw_host b) (socket_path paths) = Some m" for b' m
    by (rule step_keeps_listener [OF assms(1) that(3) bind_reach_watched [OF assms(2,1,3) that(1,2)] l that(4)])
  ultimately show ?thesis by blast
qed


section \<open>The sequential bind is a run of the steps\<close>

lemma bind_steps:
  assumes "bw_phase b n = BP_Idle" and "paths_bind tr n (proc n) paths (bw_host b) = (w, Inr l)"
  shows "(bind_step tr proc paths)\<^sup>*\<^sup>* b \<lparr>bw_host = w, bw_phase = (bw_phase b)(n := BP_Bound)\<rparr>"
proof -
  let ?lock = "lock_path paths" and ?sock = "socket_path paths" and ?ph = "bw_phase b"
  from assms(2) obtain w1 w2 w3 u1 u2 u3 u4 where
    c: "claim_lock_path (proc n) ?lock (bw_host b) = (w1, Inr u1)"
    and a: "acquire_listener_lock n ?lock w1 = (w2, Inr u2)"
    and k: "check_socket tr ?sock w2 = (w3, Inr u3)" and r: "replace_socket tr n ?sock w3 = (w, Inr u4)"
    by (auto simp: paths_bind_def bind_private_socket_def and_next_ok Let_def
        split: prod.splits sum.splits)
  have "bind_step tr proc paths b \<lparr>bw_host = w1, bw_phase = ?ph(n := BP_Claimed)\<rparr>"
    using bind_step.claim [of b n proc paths w1 u1 tr] assms(1) c by simp
  moreover have "bind_step tr proc paths \<lparr>bw_host = w1, bw_phase = ?ph(n := BP_Claimed)\<rparr>
      \<lparr>bw_host = w2, bw_phase = ?ph(n := BP_Locked)\<rparr>"
    using bind_step.lock [of "\<lparr>bw_host = w1, bw_phase = ?ph(n := BP_Claimed)\<rparr>" n paths w2 u2 tr proc] a by simp
  moreover have "bind_step tr proc paths \<lparr>bw_host = w2, bw_phase = ?ph(n := BP_Locked)\<rparr>
      \<lparr>bw_host = w3, bw_phase = ?ph(n := BP_Checked)\<rparr>"
    using bind_step.check [of "\<lparr>bw_host = w2, bw_phase = ?ph(n := BP_Locked)\<rparr>" n tr paths w3 u3 proc] k by simp
  moreover have "bind_step tr proc paths \<lparr>bw_host = w3, bw_phase = ?ph(n := BP_Checked)\<rparr>
      \<lparr>bw_host = w, bw_phase = ?ph(n := BP_Bound)\<rparr>"
    using bind_step.bind [of "\<lparr>bw_host = w3, bw_phase = ?ph(n := BP_Checked)\<rparr>" n tr paths w u4 proc] r by simp
  ultimately show ?thesis by (meson converse_rtranclp_into_rtranclp rtranclp.rtrancl_refl)
qed

lemma bind_reach_steps:
  "(bind_step tr proc paths)\<^sup>*\<^sup>* b b' \<Longrightarrow> bind_reach tr proc paths w0 b \<Longrightarrow> bind_reach tr proc paths w0 b'"
  by (induction rule: rtranclp_induct) (auto intro: bind_reach.step)

section \<open>A sample host\<close>

text \<open>
  A transport as the host's own tables have it, and a host with a user's home; binder 7 of process 70
  resolves the home and binds.
\<close>

definition sample_sockets :: socket_calls where
  "sample_sockets = \<lparr>
     tr_connect = (\<lambda>p w. case ho_listeners w p of None \<Rightarrow> Inl (CE_Refused ''refused'') | Some _ \<Rightarrow> Inr ()),
     tr_bind = (\<lambda>n p w. (w\<lparr>ho_listeners := (ho_listeners w)(p \<mapsto> n),
        ho_nodes := (ho_nodes w)(p \<mapsto> \<lparr>nd_type = FT_Socket, nd_uid = ho_euid w, nd_mode = 0x180\<rparr>)\<rparr>, Inr ())),
     tr_close = (\<lambda>n p w. if ho_listeners w p = Some n
        then w\<lparr>ho_listeners := (ho_listeners w)(p := None)\<rparr> else w)\<rparr>"

lemma sample_sockets_ok: "socket_calls_ok sample_sockets"
  by (auto simp: socket_calls_ok_def sample_sockets_def listener_visible_def split: option.splits if_splits)

definition sample_home :: Host where
  "sample_home = \<lparr>ho_nodes = [[''h''] \<mapsto> \<lparr>nd_type = FT_Dir, nd_uid = 1, nd_mode = 0x1ED\<rparr>], ho_euid = 1,
     ho_umask = id, ho_claims = {}, ho_flocks = (\<lambda>_. None), ho_listeners = (\<lambda>_. None), ho_calls = 0,
     ho_fails = (\<lambda>_. None)\<rparr>"

definition sample_resolved :: "Host \<times> (BindError + GearwitPaths)" where
  "sample_resolved = paths_from_root [''h'', ''gearwit''] sample_home"

lemmas path_calls =
  symlink_metadata_def metadata_def create_dir_def set_permissions_def open_lock_def os_call_def
  is_directory_def add_node_def flock_exclusive_def inspect_existing_dir_def directory_ok_def
  require_owned_def create_missing_dir_def tighten_dir_def ensure_private_dir_def and_next_def Let_def

lemma sample_resolved_ok: "snd sample_resolved = Inr \<lparr>gp_root = [''h'', ''gearwit'']\<rparr>"
  by (simp add: sample_resolved_def sample_home_def paths_from_root_def path_calls)

lemma home_is_private_witness:
  "private_dir (fst sample_resolved) [''h'', ''gearwit'', ''run'']
   \<and> ho_nodes (fst sample_resolved) [''h''] = ho_nodes sample_home [''h'']"
proof -
  have "paths_from_root [''h'', ''gearwit''] sample_home
      = (fst sample_resolved, Inr \<lparr>gp_root = [''h'', ''gearwit'']\<rparr>)"
    using sample_resolved_ok by (simp add: sample_resolved_def prod_eq_iff)
  from home_is_private [OF this] show ?thesis by (simp add: touches_def)
qed

definition sample_bound :: "Host \<times> (BindError + BoundListener)" where
  "sample_bound = paths_bind sample_sockets 7 70 \<lparr>gp_root = [''h'', ''gearwit'']\<rparr> (fst sample_resolved)"

lemma sample_bound_ok: "is_ok (snd sample_bound)"
  by (simp add: sample_bound_def sample_resolved_def sample_home_def paths_from_root_def path_calls
      paths_bind_def claim_lock_path_def acquire_listener_lock_def check_lock_file_def open_lock_file_def
      secure_lock_file_def bind_private_socket_def check_socket_def replace_socket_def sample_sockets_def
      lock_path_def socket_path_def LOCK_FILE_def SOCKET_FILE_def)

lemma one_live_listener_witness:
  "ho_listeners (fst sample_bound) [''h'', ''gearwit'', ''run'', ''gearwit.sock''] = Some 7"
proof -
  let ?paths = "\<lparr>gp_root = [''h'', ''gearwit'']\<rparr>" and ?w = "fst sample_resolved"
  let ?b = "\<lparr>bw_host = fst sample_bound, bw_phase = (\<lambda>_. BP_Idle)(7 := BP_Bound)\<rparr>"
  from sample_bound_ok obtain l where l: "snd sample_bound = Inr l" by (auto simp: is_ok_iff)
  then have "paths_bind sample_sockets 7 70 ?paths ?w = (fst sample_bound, Inr l)"
    by (simp add: sample_bound_def prod_eq_iff)
  then have steps: "(bind_step sample_sockets (\<lambda>n. n * 10) ?paths)\<^sup>*\<^sup>*
      \<lparr>bw_host = ?w, bw_phase = (\<lambda>_. BP_Idle)\<rparr> ?b"
    using bind_steps [of "\<lparr>bw_host = ?w, bw_phase = (\<lambda>_. BP_Idle)\<rparr>" 7 sample_sockets
        "\<lambda>n. n * 10" ?paths "fst sample_bound" l] by simp
  from bind_reach_steps [OF steps bind_reach.start]
  have r: "bind_reach sample_sockets (\<lambda>n. n * 10) ?paths ?w ?b" .
  have f: "ho_flocks ?w (lock_path ?paths) = None"
    by (simp add: sample_resolved_def sample_home_def paths_from_root_def path_calls)
  from one_live_listener [OF sample_sockets_ok r f, THEN conjunct1, THEN spec, of 7]
  have "ho_listeners (fst sample_bound) (socket_path ?paths) = Some 7" by simp
  then show ?thesis by (simp add: socket_path_def SOCKET_FILE_def)
qed

end
