(* ===== verification/Sim_Model.thy ===== *)
theory Sim_Model
  imports Ordered_Map Strings
begin

unbundle bit_operations_syntax

text \<open>
  The data of the development simulator, \<open>gearwit-sim/src/lib.rs\<close>, with the scenarios it resolves: the
  seed stream, the named cases, the generated chains and the campaigns. A virtual tick, a seed and a
  receipt counter are 64-bit words; the actions and receipts of the store are those of
  \<open>gearwit-host/src/simulator.rs\<close>.
\<close>

section \<open>Data\<close>

definition ARTIFACT_VERSION :: string where
  "ARTIFACT_VERSION = ''gearwit.sim/v2''"

definition ORACLE_VERSION :: string where
  "ORACLE_VERSION = ''gearwit.abstract-oracle/v1''"

definition MAX_ARTIFACT_BYTES :: nat where "MAX_ARTIFACT_BYTES = 1048576"
definition MAX_CAMPAIGN_RUNS :: nat where "MAX_CAMPAIGN_RUNS = 256"
definition MAX_CAMPAIGN_EVENTS :: nat where "MAX_CAMPAIGN_EVENTS = 16384"

definition CASE_IDS :: "string list" where
  "CASE_IDS =
     [''SIM-CHAIN-01'', ''SIM-CHAIN-02'', ''SIM-CHAIN-03'', ''SIM-CHAIN-04'', ''SIM-CHAIN-05'',
      ''SIM-CHAIN-06'', ''SIM-CHAIN-07'', ''SIM-CHAIN-08'', ''SIM-QUEUE-01'', ''SIM-REPLAY-01'',
      ''SIM-PROC-01'', ''SIM-ORACLE-01'', ''SIM-ORACLE-02'', ''SIM-ORACLE-03'', ''SIM-ORACLE-04'']"

datatype CaseStatus = CS_Passed | CS_Failed | CS_Incomplete
datatype OverflowPolicy = OP_Reject
datatype SimulatorStore = SS_Fake | SS_Sqlite

record RunLimits =
  rl_queue_capacity :: nat
  rl_max_events :: nat
  rl_max_virtual_tick :: u64
  rl_overflow :: OverflowPolicy

definition run_limits_default :: RunLimits where
  "run_limits_default = \<lparr>rl_queue_capacity = 64, rl_max_events = 1024, rl_max_virtual_tick = 10000,
     rl_overflow = OP_Reject\<rparr>"

record SeedSet =
  sd_source :: u64
  sd_actor :: u64
  sd_scheduler :: u64
  sd_fault :: u64

datatype Action =
  SA_Arm | SA_Offer string | SA_Admit string | SA_Retrieve string | SA_StaleRetrieve string
| SA_Acknowledge string | SA_Terminal | SA_Rearm | SA_Revoke | SA_Restart | SA_OmitRearm

datatype StoreStreamAction =
  ST_Arm | ST_Offer string | ST_Admit string | ST_Retrieve string | ST_StaleRetrieve string
| ST_Acknowledge string | ST_Terminal | ST_Rearm | ST_Revoke | ST_Restart | ST_OmitRearm

record StoreStreamReceipt =
  sr_outcome :: string
  sr_logical_effects :: u64
  sr_authority_revision :: u64

record Stimulus =
  sm_version :: string
  sm_due_tick :: u64
  sm_sequence :: u64
  sm_operation_id :: string
  sm_causal_parent :: "string option"
  sm_action :: Action

record ScenarioEnvelope =
  en_version :: string
  en_case_id :: string
  en_seed :: u64
  en_seeds :: SeedSet
  en_store :: SimulatorStore
  en_limits :: RunLimits
  en_stimuli :: "Stimulus list"

record Observation =
  ob_version :: string
  ob_operation_id :: string
  ob_outcome :: string
  ob_logical_effects :: u64
  ob_authority_revision :: u64

record QueueAccounting =
  qa_offered :: nat
  qa_admitted :: nat
  qa_rejected :: nat
  qa_completed :: nat
  qa_delivered :: nat
  qa_duplicated :: nat
  qa_dropped :: nat
  qa_max_depth :: nat

record PlatformPin =
  pp_os :: string
  pp_arch :: string
  pp_simulator_version :: string

record HostCheck =
  hk_store :: SimulatorStore
  hk_check :: string
  hk_passed :: bool
  hk_detail :: string

record RunArtifact =
  ra_version :: string
  ra_run_id :: string
  ra_oracle_version :: string
  ra_scenario :: ScenarioEnvelope
  ra_platform :: PlatformPin
  ra_observations :: "Observation list"
  ra_host_checks :: "HostCheck list"
  ra_queue :: QueueAccounting
  ra_oracle_findings :: "string list"
  ra_status :: CaseStatus
  ra_semantic_fingerprint :: string
  ra_provenance_fingerprint :: string
  ra_artifact_digest :: string

record Comparison =
  cm_same_scenario :: bool
  cm_same_semantics :: bool
  cm_same_provenance :: bool
  cm_left_status :: CaseStatus
  cm_right_status :: CaseStatus

record CampaignManifest =
  mf_version :: string
  mf_seed :: u64
  mf_runs :: nat
  mf_store :: SimulatorStore
  mf_max_total_events :: nat

section \<open>Seeds\<close>

text \<open>\<open>SplitMix64::next\<close>: the new state and the value.\<close>

definition split_mix_next :: "u64 \<Rightarrow> u64 \<times> u64" where
  "split_mix_next state =
     (let state = state + 0x9e3779b97f4a7c15;
          v = (state XOR drop_bit 30 state) * 0xbf58476d1ce4e5b9;
          v = (v XOR drop_bit 27 v) * 0x94d049bb133111eb
      in (state, v XOR drop_bit 31 v))"

definition derive_seeds :: "u64 \<Rightarrow> SeedSet" where
  "derive_seeds seed =
     (let (s1, source) = split_mix_next seed; (s2, actor) = split_mix_next s1;
          (s3, scheduler) = split_mix_next s2; (s4, fault) = split_mix_next s3
      in \<lparr>sd_source = source, sd_actor = actor, sd_scheduler = scheduler, sd_fault = fault\<rparr>)"

text \<open>\<open>{:016x}\<close>, and \<open>{}\<close> of a \<open>u64\<close>.\<close>

definition hex_digit :: "nat \<Rightarrow> char" where
  "hex_digit n = (if n < 10 then char_of (48 + n) else char_of (87 + n))"

definition hex16 :: "u64 \<Rightarrow> string" where
  "hex16 w = map (\<lambda>i. hex_digit (unat (drop_bit (4 * i) w AND 15))) (rev [0..<16])"

definition decimal_word :: "u64 \<Rightarrow> string" where
  "decimal_word w = decimal (unat w)"

section \<open>Named scenarios\<close>

definition stimulus :: "u64 \<Rightarrow> u64 \<Rightarrow> string \<Rightarrow> Action \<Rightarrow> Stimulus" where
  "stimulus due_tick sequence operation_id action =
     \<lparr>sm_version = ARTIFACT_VERSION, sm_due_tick = due_tick, sm_sequence = sequence,
      sm_operation_id = operation_id, sm_causal_parent = None, sm_action = action\<rparr>"

definition first_acknowledged_chain :: "string \<Rightarrow> string \<Rightarrow> string \<Rightarrow> Stimulus list" where
  "first_acknowledged_chain event retrieve acknowledge =
     [stimulus 0 1 ''arm-1'' SA_Arm,
      stimulus 1 2 ''offer-1'' (SA_Offer event),
      stimulus 2 3 ''claim-1'' (SA_Admit event),
      stimulus 3 4 ''retrieve-1'' (SA_Retrieve retrieve),
      stimulus 4 5 ''ack-1'' (SA_Acknowledge acknowledge)]"

definition complete_chain :: "string \<Rightarrow> string \<Rightarrow> string \<Rightarrow> Stimulus list" where
  "complete_chain event retrieve acknowledge =
     first_acknowledged_chain event retrieve acknowledge @
     [stimulus 5 6 ''terminal-1'' SA_Terminal,
      stimulus 6 7 ''rearm-1'' SA_Rearm,
      stimulus 7 8 ''arm-2'' SA_Arm,
      stimulus 8 9 ''offer-2'' (SA_Offer ''event-next''),
      stimulus 9 10 ''claim-2'' (SA_Admit ''event-next'')]"

definition claimed_chain :: "string \<Rightarrow> Stimulus list" where
  "claimed_chain event =
     [stimulus 0 1 ''arm-1'' SA_Arm,
      stimulus 1 2 ''offer-1'' (SA_Offer event),
      stimulus 2 3 ''claim-1'' (SA_Admit event)]"

fun queue_arrivals :: "nat \<Rightarrow> nat \<Rightarrow> u64 \<Rightarrow> Stimulus list" where
  "queue_arrivals index 0 arrivals = []"
| "queue_arrivals index (Suc n) arrivals =
     (let (arrivals, v) = split_mix_next arrivals in
      stimulus (v mod 6) (of_nat index) (''queue-'' @ decimal index) (SA_Offer (''event-'' @ decimal index))
      # queue_arrivals (Suc index) n arrivals)"

definition case_stimuli :: "string \<Rightarrow> SeedSet \<Rightarrow> Stimulus list" where
  "case_stimuli case_id seeds =
     (let event = ''event-'' @ hex16 (sd_actor seeds);
          retrieve = ''retrieve-'' @ hex16 (sd_actor seeds);
          acknowledge = ''ack-'' @ hex16 (sd_actor seeds);
          chain = first_acknowledged_chain event retrieve acknowledge
      in if case_id = ''SIM-CHAIN-01'' then complete_chain event retrieve acknowledge
         else if case_id = ''SIM-REPLAY-01'' then
           chain @ [stimulus 5 6 ''controlled-early-rearm'' SA_Rearm]
         else if case_id = ''SIM-CHAIN-02'' then
           chain @ [stimulus 5 6 ''restart-1'' SA_Restart,
             stimulus 6 7 ''retrieve-1'' (SA_Retrieve retrieve),
             stimulus 7 8 ''ack-1'' (SA_Acknowledge acknowledge)]
         else if case_id = ''SIM-CHAIN-03'' then
           claimed_chain event @ [stimulus 3 4 ''restart-1'' SA_Restart,
             stimulus 4 5 ''claim-1'' (SA_Admit ''changed-event'')]
         else if case_id = ''SIM-CHAIN-04'' then
           claimed_chain event @ [stimulus 3 4 ''revoke-1'' SA_Revoke,
             stimulus 4 5 ''restart-1'' SA_Restart,
             stimulus 5 6 ''retrieve-after-revoke'' (SA_Retrieve retrieve)]
         else if case_id = ''SIM-CHAIN-05'' then
           claimed_chain event @ [stimulus 3 4 ''restart-1'' SA_Restart,
             stimulus 4 5 ''stale-retrieve'' (SA_StaleRetrieve retrieve)]
         else if case_id = ''SIM-CHAIN-06'' then
           chain @ [stimulus 5 6 ''rearm-wait'' SA_Rearm,
             stimulus 6 7 ''offer-during-rearm'' (SA_Offer ''event-during-rearm''),
             stimulus 7 8 ''claim-during-rearm'' (SA_Admit ''event-during-rearm''),
             stimulus 8 9 ''terminal-1'' SA_Terminal,
             stimulus 9 10 ''restart-terminal'' SA_Restart,
             stimulus 10 11 ''rearm-1'' SA_Rearm,
             stimulus 11 12 ''arm-2'' SA_Arm,
             stimulus 12 13 ''claim-after-rearm'' (SA_Admit ''event-during-rearm'')]
         else if case_id = ''SIM-CHAIN-07'' \<or> case_id = ''SIM-PROC-01'' then
           chain @ [stimulus 5 6 ''restart-after-ack'' SA_Restart,
             stimulus 6 7 ''terminal-1'' SA_Terminal,
             stimulus 7 8 ''rearm-1'' SA_Rearm]
         else if case_id = ''SIM-CHAIN-08'' then
           chain @ [stimulus 5 6 ''terminal-1'' SA_Terminal,
             stimulus 6 7 ''omit-rearm'' SA_OmitRearm]
         else if case_id = ''SIM-QUEUE-01'' then queue_arrivals 0 24 (sd_scheduler seeds)
         else if case_id = ''SIM-ORACLE-01'' then claimed_chain event
         else if case_id = ''SIM-ORACLE-02'' then
           chain @ [stimulus 5 6 ''restart-1'' SA_Restart,
             stimulus 6 7 ''terminal-1'' SA_Terminal,
             stimulus 7 8 ''rearm-1'' SA_Rearm]
         else if case_id = ''SIM-ORACLE-03'' then
           claimed_chain event @ [stimulus 3 4 ''revoke-1'' SA_Revoke,
             stimulus 4 5 ''restart-1'' SA_Restart,
             stimulus 5 6 ''retrieve-after-revoke'' (SA_Retrieve retrieve)]
         else chain)"

text \<open>Each stimulus waits for the one before it.\<close>

fun chain_parents :: "string option \<Rightarrow> Stimulus list \<Rightarrow> Stimulus list" where
  "chain_parents prior [] = []"
| "chain_parents prior (s # ss) =
     s\<lparr>sm_causal_parent := prior\<rparr> # chain_parents (Some (sm_operation_id s)) ss"

definition scenario :: "string \<Rightarrow> u64 \<Rightarrow> SimulatorStore \<Rightarrow> string + ScenarioEnvelope" where
  "scenario case_id seed store =
     (if case_id \<notin> set CASE_IDS then Inl (''unknown scenario id: '' @ case_id)
      else
        let seeds = derive_seeds seed;
            stimuli = case_stimuli case_id seeds
        in Inr \<lparr>en_version = ARTIFACT_VERSION, en_case_id = case_id, en_seed = seed, en_seeds = seeds,
             en_store = store,
             en_limits = (if case_id = ''SIM-QUEUE-01'' then run_limits_default\<lparr>rl_queue_capacity := 8\<rparr>
               else run_limits_default),
             en_stimuli = (if case_id = ''SIM-QUEUE-01'' then stimuli else chain_parents None stimuli)\<rparr>)"

section \<open>Generated chains and campaigns\<close>

definition cycle_operations :: "SeedSet \<Rightarrow> string \<Rightarrow> string \<Rightarrow> nat \<Rightarrow> (string \<times> Action) list" where
  "cycle_operations seeds retrieve acknowledge cycle =
     (let restart = (''restart-'' @ decimal cycle, SA_Restart);
          retrieve_retry = (''retrieve-1'', SA_Retrieve retrieve);
          ack_retry = (''ack-1'', SA_Acknowledge acknowledge)
      in if drop_bit cycle (sd_scheduler seeds) AND 1 = 0 then [restart, retrieve_retry, ack_retry]
         else [retrieve_retry, ack_retry, restart])"

definition second_cycle :: "string \<Rightarrow> (string \<times> Action) list" where
  "second_cycle suffix =
     [(''arm-generated-2'', SA_Arm),
      (''offer-generated-2'', SA_Offer (''event-second-'' @ suffix)),
      (''claim-generated-2'', SA_Admit (''event-second-'' @ suffix)),
      (''retrieve-generated-2'', SA_Retrieve (''retrieve-second-'' @ suffix)),
      (''ack-generated-2'', SA_Acknowledge (''ack-second-'' @ suffix)),
      (''terminal-generated-2'', SA_Terminal),
      (''rearm-generated-2'', SA_Rearm)]"

text \<open>The operations after the first chain take the sequence numbers from 6 on, also as due ticks.\<close>

fun number_from :: "u64 \<Rightarrow> (string \<times> Action) list \<Rightarrow> Stimulus list" where
  "number_from sequence [] = []"
| "number_from sequence ((operation_id, action) # ops) =
     stimulus sequence sequence operation_id action # number_from (sequence + 1) ops"

fun spread_due :: "string option \<Rightarrow> u64 \<Rightarrow> u64 \<Rightarrow> Stimulus list \<Rightarrow> Stimulus list" where
  "spread_due prior scheduler due [] = []"
| "spread_due prior scheduler due (item # items) =
     (let (scheduler, v) = split_mix_next scheduler;
          due = saturating_add due (1 + v mod 3)
      in item\<lparr>sm_due_tick := due, sm_causal_parent := prior\<rparr>
         # spread_due (Some (sm_operation_id item)) scheduler due items)"

definition two_digits :: "nat \<Rightarrow> string" where
  "two_digits n = (if n < 10 then ''0'' @ decimal n else decimal n)"

definition generated_chain :: "u64 \<Rightarrow> SimulatorStore \<Rightarrow> ScenarioEnvelope" where
  "generated_chain seed store =
     (let seeds = derive_seeds seed;
          event = ''event-'' @ hex16 (sd_actor seeds);
          retrieve = ''retrieve-'' @ hex16 (sd_actor seeds);
          acknowledge = ''ack-'' @ hex16 (sd_actor seeds);
          cycles = 2 + unat (sd_source seeds mod 3);
          rest = concat (map (cycle_operations seeds retrieve acknowledge) [0..<cycles])
            @ [(''terminal-generated'', SA_Terminal), (''rearm-generated'', SA_Rearm)]
            @ second_cycle (hex16 (word_rotl 17 (sd_actor seeds)));
          stimuli = first_acknowledged_chain event retrieve acknowledge @ number_from 6 rest;
          fault_index = sd_fault seeds mod 5
      in \<lparr>en_version = ARTIFACT_VERSION,
          en_case_id = (if fault_index = 0 then ''SIM-GENERATED-NORMAL''
            else ''SIM-GENERATED-ORACLE-'' @ two_digits (unat fault_index)),
          en_seed = seed, en_seeds = seeds, en_store = store, en_limits = run_limits_default,
          en_stimuli = spread_due None (sd_scheduler seeds) 0 stimuli\<rparr>)"

definition campaign_candidates :: "string list" where
  "campaign_candidates = filter (\<lambda>i. i \<noteq> ''SIM-CHAIN-07'' \<and> i \<noteq> ''SIM-PROC-01'') CASE_IDS"

text \<open>\<open>expect("catalog id")\<close> panics on an unknown id: \<open>None\<close>.\<close>

fun campaign_runs :: "nat \<Rightarrow> nat \<Rightarrow> u64 \<Rightarrow> u64 \<Rightarrow> SimulatorStore \<Rightarrow> ScenarioEnvelope list option" where
  "campaign_runs run_index 0 source schedule store = Some []"
| "campaign_runs run_index (Suc n) source schedule store =
     (let (schedule, run_seed) = split_mix_next schedule in
      if even run_index
      then map_option (Cons (generated_chain run_seed store))
        (campaign_runs (Suc run_index) n source schedule store)
      else
        let (source, v) = split_mix_next source;
            index = unat (v mod of_nat (length campaign_candidates))
        in case scenario (campaign_candidates ! index) run_seed store of
             Inl _ \<Rightarrow> None
           | Inr envelope \<Rightarrow>
               map_option (Cons envelope) (campaign_runs (Suc run_index) n source schedule store))"

definition campaign_envelopes ::
  "u64 \<Rightarrow> nat \<Rightarrow> SimulatorStore \<Rightarrow> (string + ScenarioEnvelope list) option" where
  "campaign_envelopes seed runs store =
     (if runs > MAX_CAMPAIGN_RUNS
      then Some (Inl (''campaign exceeds '' @ decimal MAX_CAMPAIGN_RUNS @ '' run limit''))
      else map_option (\<lambda>envelopes.
        let total_events = sum_list (map (length \<circ> en_stimuli) envelopes) in
        if total_events > MAX_CAMPAIGN_EVENTS
        then Inl (''campaign resolves '' @ decimal total_events @ '' events, exceeding ''
          @ decimal MAX_CAMPAIGN_EVENTS @ '' event limit'')
        else Inr envelopes)
        (campaign_runs 0 runs (seed XOR 0x736f75726365) (seed XOR 0x7363686564756c65) store))"

definition campaign_manifest :: "u64 \<Rightarrow> nat \<Rightarrow> SimulatorStore \<Rightarrow> CampaignManifest" where
  "campaign_manifest seed runs store =
     \<lparr>mf_version = ARTIFACT_VERSION, mf_seed = seed, mf_runs = runs, mf_store = store,
      mf_max_total_events = MAX_CAMPAIGN_EVENTS\<rparr>"

section \<open>What a campaign resolves\<close>

lemma scenario_Inr: "case_id \<in> set CASE_IDS \<Longrightarrow> \<exists>e. scenario case_id seed store = Inr e"
  by (simp add: scenario_def Let_def)

lemma campaign_candidates_simps:
  "length campaign_candidates = 13" "set campaign_candidates \<subseteq> set CASE_IDS"
  by (auto simp: campaign_candidates_def CASE_IDS_def)

lemma campaign_runs_Some: "\<exists>es. campaign_runs i n source schedule store = Some es \<and> length es = n"
proof (induction n arbitrary: i source schedule)
  case 0
  then show ?case by simp
next
  case (Suc n)
  obtain schedule' seed where s: "split_mix_next schedule = (schedule', seed)" by (cases "split_mix_next schedule")
  obtain source' v where v: "split_mix_next source = (source', v)" by (cases "split_mix_next source")
  have "unat (v mod 13) < 13" using unat_mod [of v 13] by simp
  then have "campaign_candidates ! unat (v mod 13) \<in> set CASE_IDS"
    using campaign_candidates_simps nth_mem by fastforce
  from scenario_Inr [OF this] obtain e where "scenario (campaign_candidates ! unat (v mod 13)) seed store = Inr e" ..
  moreover obtain es where "campaign_runs (Suc i) n source schedule' store = Some es" "length es = n"
    using Suc.IH by blast
  moreover obtain es' where "campaign_runs (Suc i) n source' schedule' store = Some es'" "length es' = n"
    using Suc.IH by blast
  ultimately show ?case by (auto simp: s v campaign_candidates_simps)
qed

lemma campaign_never_panics: "campaign_envelopes seed runs store \<noteq> None"
  using campaign_runs_Some [of 0 runs "seed XOR 0x736f75726365" "seed XOR 0x7363686564756c65" store]
  by (auto simp: campaign_envelopes_def Let_def)

end
