(* ===== verification/Sim_Run.thy ===== *)
theory Sim_Run
  imports Sim_Model
begin

unbundle bit_operations_syntax

text \<open>
  Running the development simulator, \<open>gearwit-sim/src/lib.rs\<close>: the abstract oracle, the receipt
  faults, the scheduler that feeds one stateful store, and the artifact with its fingerprints, its file
  and its replay. The store behind the adapter is a parameter, a state with \<open>apply\<close>; \<open>serde_json\<close>,
  \<open>blake3\<close> and the file system are parameters. A tick past the last 64-bit value, where Rust's checked
  addition panics, is the value \<open>None\<close>.
\<close>

section \<open>The oracle\<close>

record Oracle =
  oc_armed :: bool
  oc_claimed :: bool
  oc_retrieved :: bool
  oc_acknowledged :: bool
  oc_terminal :: bool
  oc_rearmed :: bool
  oc_revoked :: bool
  oc_offered :: nat
  oc_logical_effects :: u64
  oc_revision :: u64
  oc_request_results :: "(string, string) btree"
  oc_seen_operations :: "(string, Action) btree"

definition oracle_default :: Oracle where
  "oracle_default = \<lparr>oc_armed = False, oc_claimed = False, oc_retrieved = False, oc_acknowledged = False,
     oc_terminal = False, oc_rearmed = False, oc_revoked = False, oc_offered = 0, oc_logical_effects = 0,
     oc_revision = 0, oc_request_results = bt_empty, oc_seen_operations = bt_empty\<rparr>"

definition oracle_commit :: "Oracle \<Rightarrow> string \<Rightarrow> Oracle \<times> string" where
  "oracle_commit orc outcome = (orc\<lparr>oc_revision := oc_revision orc + 1\<rparr>, outcome)"

definition oracle_result :: "Oracle \<Rightarrow> string \<Rightarrow> string \<Rightarrow> Oracle" where
  "oracle_result orc request outcome =
     orc\<lparr>oc_request_results := bt_insert request outcome (oc_request_results orc)\<rparr>"

text \<open>\<open>apply_fresh\<close>, the arms of its match in order; the last one is reached by every action whose guard fails.\<close>

definition apply_fresh :: "Oracle \<Rightarrow> Action \<Rightarrow> Oracle \<times> string" where
  "apply_fresh orc action =
     (case action of
        SA_Arm \<Rightarrow> oracle_commit (orc\<lparr>oc_armed := True\<rparr>) ''armed''
      | SA_Offer _ \<Rightarrow>
          if oc_armed orc then oracle_commit (orc\<lparr>oc_offered := oc_offered orc + 1\<rparr>) ''offered''
          else (orc, ''unauthorized'')
      | SA_Admit event \<Rightarrow>
          if oc_armed orc \<and> \<not> oc_revoked orc \<and> oc_offered orc > 0 then
            if oc_claimed orc then (orc, ''conflict'')
            else oracle_commit (oracle_result
              (orc\<lparr>oc_claimed := True, oc_logical_effects := oc_logical_effects orc + 1\<rparr>) event ''admitted'')
              ''admitted''
          else (orc, ''unauthorized'')
      | SA_Retrieve request \<Rightarrow>
          if oc_claimed orc \<and> \<not> oc_revoked orc then
            (case bt_get (oc_request_results orc) request of
               Some outcome \<Rightarrow> (orc, outcome)
             | None \<Rightarrow>
                 if oc_acknowledged orc then (orc, ''invalid_transition'')
                 else oracle_commit (oracle_result (orc\<lparr>oc_retrieved := True\<rparr>) request ''retrieved'')
                   ''retrieved'')
          else (orc, ''unauthorized'')
      | SA_Acknowledge request \<Rightarrow>
          if oc_retrieved orc \<and> \<not> oc_revoked orc then
            (case bt_get (oc_request_results orc) request of
               Some outcome \<Rightarrow> (orc, outcome)
             | None \<Rightarrow> oracle_commit (oracle_result (orc\<lparr>oc_acknowledged := True\<rparr>) request ''acknowledged'')
                 ''acknowledged'')
          else (orc, ''unauthorized'')
      | SA_Terminal \<Rightarrow>
          if oc_claimed orc then oracle_commit (orc\<lparr>oc_terminal := True\<rparr>) ''terminal''
          else (orc, ''unauthorized'')
      | SA_Rearm \<Rightarrow>
          if oc_acknowledged orc \<and> oc_terminal orc then
            oracle_commit (orc\<lparr>oc_rearmed := True, oc_claimed := False, oc_retrieved := False,
              oc_acknowledged := False, oc_terminal := False\<rparr>) ''rearmed''
          else if \<not> oc_acknowledged orc then (orc, ''waiting_for_handled'')
          else (orc, ''waiting_for_terminal'')
      | SA_Revoke \<Rightarrow> oracle_commit (orc\<lparr>oc_revoked := True\<rparr>) ''revoked''
      | SA_Restart \<Rightarrow> (orc, ''reopened'')
      | SA_OmitRearm \<Rightarrow> (orc, ''inactive'')
      | SA_StaleRetrieve _ \<Rightarrow> (orc, ''unauthorized''))"

definition oracle_apply :: "Oracle \<Rightarrow> Stimulus \<Rightarrow> Oracle \<times> Observation" where
  "oracle_apply orc s =
     (let (orc, outcome) =
        (case bt_get (oc_seen_operations orc) (sm_operation_id s) of
           Some original \<Rightarrow> (orc, if original = sm_action s then ''exact_replay'' else ''conflict'')
         | None \<Rightarrow>
             apply_fresh (orc\<lparr>oc_seen_operations :=
               bt_insert (sm_operation_id s) (sm_action s) (oc_seen_operations orc)\<rparr>) (sm_action s))
      in (orc, \<lparr>ob_version = ARTIFACT_VERSION, ob_operation_id = sm_operation_id s, ob_outcome = outcome,
            ob_logical_effects = oc_logical_effects orc, ob_authority_revision = oc_revision orc\<rparr>))"

fun oracle_observations :: "Oracle \<Rightarrow> Stimulus list \<Rightarrow> Observation list" where
  "oracle_observations orc [] = []"
| "oracle_observations orc (s # ss) =
     (case oracle_apply orc s of (orc, observation) \<Rightarrow> observation # oracle_observations orc ss)"

definition finding_text :: "Observation \<Rightarrow> Observation \<Rightarrow> string" where
  "finding_text expected actual =
     ob_operation_id actual @ '' expected outcome='' @ ob_outcome expected
     @ '' effects='' @ decimal_word (ob_logical_effects expected)
     @ '' revision='' @ decimal_word (ob_authority_revision expected)
     @ '', observed outcome='' @ ob_outcome actual
     @ '' effects='' @ decimal_word (ob_logical_effects actual)
     @ '' revision='' @ decimal_word (ob_authority_revision actual)"

definition oracle_findings :: "Stimulus list \<Rightarrow> Observation list \<Rightarrow> string list" where
  "oracle_findings stimuli observations =
     map (\<lambda>(expected, actual). finding_text expected actual)
       (filter (\<lambda>(expected, actual). expected \<noteq> actual)
         (zip (oracle_observations oracle_default stimuli) observations))"

section \<open>Receipt faults\<close>

datatype FaultMode =
  FM_None | FM_DuplicateAdmission | FM_LoseAcknowledgment | FM_ResurrectRevokedGrant | FM_FalsePublication

text \<open>\<open>rsplit('-').next()\<close> is what follows the last dash.\<close>

definition last_segment :: "string \<Rightarrow> string" where
  "last_segment s = rev (takeWhile (\<lambda>c. c \<noteq> CHR ''-'') (rev s))"

fun contains_str :: "string \<Rightarrow> string \<Rightarrow> bool" where
  "contains_str needle [] = (needle = [])"
| "contains_str needle (c # s) = (take (length needle) (c # s) = needle \<or> contains_str needle s)"

definition fault_for_case :: "string \<Rightarrow> FaultMode" where
  "fault_for_case case_id =
     (let segment = last_segment case_id; oracle = contains_str ''ORACLE'' case_id in
      if segment = ''01'' \<and> oracle then FM_DuplicateAdmission
      else if segment = ''02'' \<and> oracle then FM_LoseAcknowledgment
      else if segment = ''03'' \<and> oracle then FM_ResurrectRevokedGrant
      else if segment = ''04'' \<and> oracle then FM_FalsePublication
      else FM_None)"

fun fault_name :: "FaultMode \<Rightarrow> string" where
  "fault_name FM_None = ''none''"
| "fault_name FM_DuplicateAdmission = ''duplicate-admission''"
| "fault_name FM_LoseAcknowledgment = ''lost-committed-ack''"
| "fault_name FM_ResurrectRevokedGrant = ''revoked-grant-resurrection''"
| "fault_name FM_FalsePublication = ''false-durable-publication''"

definition saturating_dec :: "u64 \<Rightarrow> u64" where
  "saturating_dec w = (if w = 0 then 0 else w - 1)"

definition inject_receipt_fault :: "FaultMode \<Rightarrow> Action \<Rightarrow> Observation \<Rightarrow> Observation" where
  "inject_receipt_fault fault action observation =
     (case (fault, action) of
        (FM_DuplicateAdmission, SA_Admit _) \<Rightarrow>
          observation\<lparr>ob_logical_effects := saturating_add (ob_logical_effects observation) 1\<rparr>
      | (FM_LoseAcknowledgment, SA_Restart) \<Rightarrow>
          observation\<lparr>ob_authority_revision := saturating_dec (ob_authority_revision observation)\<rparr>
      | (FM_ResurrectRevokedGrant, SA_Retrieve _) \<Rightarrow> observation\<lparr>ob_outcome := ''retrieved''\<rparr>
      | (FM_ResurrectRevokedGrant, SA_StaleRetrieve _) \<Rightarrow> observation\<lparr>ob_outcome := ''retrieved''\<rparr>
      | (FM_FalsePublication, SA_Acknowledge _) \<Rightarrow>
          observation\<lparr>ob_authority_revision := saturating_add (ob_authority_revision observation) 1\<rparr>
      | _ \<Rightarrow> observation)"

section \<open>The scheduler\<close>

fun store_action :: "Action \<Rightarrow> StoreStreamAction" where
  "store_action SA_Arm = ST_Arm"
| "store_action (SA_Offer event) = ST_Offer event"
| "store_action (SA_Admit event) = ST_Admit event"
| "store_action (SA_Retrieve request) = ST_Retrieve request"
| "store_action (SA_StaleRetrieve request) = ST_StaleRetrieve request"
| "store_action (SA_Acknowledge request) = ST_Acknowledge request"
| "store_action SA_Terminal = ST_Terminal"
| "store_action SA_Rearm = ST_Rearm"
| "store_action SA_Revoke = ST_Revoke"
| "store_action SA_Restart = ST_Restart"
| "store_action SA_OmitRearm = ST_OmitRearm"

record 'a adapter =
  ad_new :: "SimulatorStore \<Rightarrow> 'a"
  ad_apply :: "string \<Rightarrow> StoreStreamAction \<Rightarrow> 'a \<Rightarrow> 'a \<times> (string + StoreStreamReceipt)"

text \<open>
  The variables of the loop. \<open>sv_done\<close> is the set of completed operation ids.
\<close>

record 'a stream =
  sv_adapter :: 'a
  sv_scheduled :: "Stimulus list"
  sv_ready :: "Stimulus list"
  sv_in_flight :: "(u64 \<times> Stimulus) option"
  sv_done :: "string bset"
  sv_offered :: nat
  sv_admitted :: nat
  sv_rejected :: nat
  sv_max_depth :: nat
  sv_observations :: "Observation list"
  sv_executed :: "Stimulus list"
  sv_errors :: "string list"
  sv_tick :: u64
  sv_limited :: bool

definition complete_store_step ::
  "'a adapter \<Rightarrow> FaultMode \<Rightarrow> Stimulus \<Rightarrow> 'a stream \<Rightarrow> 'a stream" where
  "complete_store_step ad fault s v =
     (case ad_apply ad (sm_operation_id s) (store_action (sm_action s)) (sv_adapter v) of
        (a, Inr receipt) \<Rightarrow>
          (let observation = \<lparr>ob_version = ARTIFACT_VERSION, ob_operation_id = sm_operation_id s,
                 ob_outcome = sr_outcome receipt, ob_logical_effects = sr_logical_effects receipt,
                 ob_authority_revision = sr_authority_revision receipt\<rparr>
           in v\<lparr>sv_adapter := a, sv_done := fst (bs_insert (sm_operation_id s) (sv_done v)),
                sv_executed := sv_executed v @ [s],
                sv_observations := sv_observations v @
                  [inject_receipt_fault fault (sm_action s) observation]\<rparr>)
      | (a, Inl error) \<Rightarrow>
          v\<lparr>sv_adapter := a, sv_errors := sv_errors v @ [sm_operation_id s @ '': '' @ error]\<rparr>)"

definition complete_in_flight :: "'a adapter \<Rightarrow> FaultMode \<Rightarrow> 'a stream \<Rightarrow> 'a stream" where
  "complete_in_flight ad fault v =
     (case sv_in_flight v of
        Some (complete_at, s) \<Rightarrow>
          if complete_at \<le> sv_tick v
          then complete_store_step ad fault s (v\<lparr>sv_in_flight := None\<rparr>) else v
      | None \<Rightarrow> v)"

definition parent_ready :: "Stimulus \<Rightarrow> 'a stream \<Rightarrow> bool" where
  "parent_ready s v =
     (case sm_causal_parent s of None \<Rightarrow> True | Some parent \<Rightarrow> bs_member parent (sv_done v))"

definition occupied :: "'a stream \<Rightarrow> nat" where
  "occupied v = length (sv_ready v) + (if sv_in_flight v = None then 0 else 1)"

definition offer_stimulus :: "nat \<Rightarrow> Stimulus \<Rightarrow> 'a stream \<Rightarrow> 'a stream" where
  "offer_stimulus capacity s v =
     (let v = v\<lparr>sv_offered := sv_offered v + 1\<rparr> in
      if occupied v \<ge> capacity then v\<lparr>sv_rejected := sv_rejected v + 1\<rparr>
      else
        let v = v\<lparr>sv_ready := sv_ready v @ [s], sv_admitted := sv_admitted v + 1\<rparr>
        in v\<lparr>sv_max_depth := max (sv_max_depth v) (occupied v)\<rparr>)"

text \<open>The scan over \<open>scheduled\<close>: \<open>kept\<close> are the elements before the index.\<close>

fun admit_due :: "nat \<Rightarrow> Stimulus list \<Rightarrow> Stimulus list \<Rightarrow> 'a stream \<Rightarrow> 'a stream" where
  "admit_due capacity kept [] v = v\<lparr>sv_scheduled := kept\<rparr>"
| "admit_due capacity kept (s # rest) v =
     (if sm_due_tick s > sv_tick v \<or> \<not> parent_ready s v
      then admit_due capacity (kept @ [s]) rest v
      else admit_due capacity kept rest (offer_stimulus capacity s v))"

text \<open>\<open>while let Some(stimulus) = ready.pop_front()\<close>, where a service takes no time.\<close>

fun drain_ready :: "'a adapter \<Rightarrow> FaultMode \<Rightarrow> nat \<Rightarrow> Stimulus list \<Rightarrow> 'a stream \<Rightarrow> 'a stream" where
  "drain_ready ad fault max_events [] v = v\<lparr>sv_ready := []\<rparr>"
| "drain_ready ad fault max_events (s # rest) v =
     (if length (sv_observations v) \<ge> max_events
      then v\<lparr>sv_ready := rest, sv_limited := True\<rparr>
      else drain_ready ad fault max_events rest (complete_store_step ad fault s v))"

definition serve_ready :: "'a adapter \<Rightarrow> ScenarioEnvelope \<Rightarrow> u64 \<Rightarrow> 'a stream \<Rightarrow> 'a stream" where
  "serve_ready ad env service v =
     (if service = 0
      then drain_ready ad (fault_for_case (en_case_id env)) (rl_max_events (en_limits env)) (sv_ready v) v
      else
        case (sv_in_flight v, sv_ready v) of
          (None, s # rest) \<Rightarrow>
            v\<lparr>sv_ready := rest, sv_in_flight := Some (saturating_add (sv_tick v) service, s)\<rparr>
        | _ \<Rightarrow> v)"

datatype 'a turn = Turn_Stop "'a stream" | Turn_Next "'a stream" | Turn_Overflow

text \<open>\<open>iter().map(..).min()\<close>.\<close>

fun min_due :: "Stimulus list \<Rightarrow> u64 option" where
  "min_due [] = None"
| "min_due (s # ss) = Some (case min_due ss of None \<Rightarrow> sm_due_tick s | Some m \<Rightarrow> min (sm_due_tick s) m)"

definition advance_tick :: "'a stream \<Rightarrow> 'a turn" where
  "advance_tick v =
     (let after_tick = (\<lambda>at. case checked_add (sv_tick v) 1 of
            None \<Rightarrow> Turn_Overflow | Some later \<Rightarrow> Turn_Next (v\<lparr>sv_tick := max at later\<rparr>))
      in if sv_ready v \<noteq> [] then Turn_Next (v\<lparr>sv_tick := saturating_add (sv_tick v) 1\<rparr>)
         else
           case (min_due (sv_scheduled v), map_option fst (sv_in_flight v)) of
             (Some due, Some completion) \<Rightarrow> after_tick (min due completion)
           | (Some due, None) \<Rightarrow> after_tick due
           | (None, Some completion) \<Rightarrow> after_tick completion
           | (None, None) \<Rightarrow> Turn_Stop v)"

definition service_ticks :: "ScenarioEnvelope \<Rightarrow> u64" where
  "service_ticks env = (if en_case_id env = ''SIM-QUEUE-01'' then 2 else 0)"

definition stream_serve :: "'a adapter \<Rightarrow> ScenarioEnvelope \<Rightarrow> 'a stream \<Rightarrow> 'a stream" where
  "stream_serve ad env v =
     (let v = complete_in_flight ad (fault_for_case (en_case_id env)) v;
          v = admit_due (rl_queue_capacity (en_limits env)) [] (sv_scheduled v) v
      in serve_ready ad env (service_ticks env) v)"

definition stream_turn :: "'a adapter \<Rightarrow> ScenarioEnvelope \<Rightarrow> 'a stream \<Rightarrow> 'a turn" where
  "stream_turn ad env v =
     (if sv_tick v > rl_max_virtual_tick (en_limits env)
        \<or> length (sv_observations v) \<ge> rl_max_events (en_limits env)
      then Turn_Stop (v\<lparr>sv_limited := True\<rparr>)
      else
        let v = stream_serve ad env v in
        if sv_limited v then Turn_Stop v else advance_tick v)"

definition stream_idle :: "'a stream \<Rightarrow> bool" where
  "stream_idle v = (sv_scheduled v = [] \<and> sv_ready v = [] \<and> sv_in_flight v = None)"

text \<open>What the loop still has to move; a turn that cannot advance the tick moves something.\<close>

definition stream_load :: "'a stream \<Rightarrow> nat" where
  "stream_load v = 3 * length (sv_scheduled v) + 2 * length (sv_ready v) + (if sv_in_flight v = None then 0 else 1)"

lemma complete_keeps [simp]:
  "sv_scheduled (complete_store_step ad fault s v) = sv_scheduled v"
  "sv_ready (complete_store_step ad fault s v) = sv_ready v"
  "sv_in_flight (complete_store_step ad fault s v) = sv_in_flight v"
  "sv_tick (complete_store_step ad fault s v) = sv_tick v"
  "sv_limited (complete_store_step ad fault s v) = sv_limited v"
  "sv_offered (complete_store_step ad fault s v) = sv_offered v"
  "sv_admitted (complete_store_step ad fault s v) = sv_admitted v"
  "sv_rejected (complete_store_step ad fault s v) = sv_rejected v"
  "sv_max_depth (complete_store_step ad fault s v) = sv_max_depth v"
  by (simp_all add: complete_store_step_def Let_def split: prod.splits sum.splits)

lemma offer_keeps [simp]:
  "sv_scheduled (offer_stimulus capacity s v) = sv_scheduled v"
  "sv_in_flight (offer_stimulus capacity s v) = sv_in_flight v"
  "sv_tick (offer_stimulus capacity s v) = sv_tick v"
  "sv_limited (offer_stimulus capacity s v) = sv_limited v"
  "sv_done (offer_stimulus capacity s v) = sv_done v"
  "sv_observations (offer_stimulus capacity s v) = sv_observations v"
  "sv_executed (offer_stimulus capacity s v) = sv_executed v"
  "sv_errors (offer_stimulus capacity s v) = sv_errors v"
  by (simp_all add: offer_stimulus_def Let_def)

lemma offer_ready: "length (sv_ready (offer_stimulus capacity s v)) \<le> Suc (length (sv_ready v))"
  by (simp add: offer_stimulus_def Let_def)

lemma admit_due_load:
  "sv_tick (admit_due capacity kept rest v) = sv_tick v
   \<and> sv_in_flight (admit_due capacity kept rest v) = sv_in_flight v
   \<and> sv_limited (admit_due capacity kept rest v) = sv_limited v
   \<and> 3 * length (sv_scheduled (admit_due capacity kept rest v)) + 2 * length (sv_ready (admit_due capacity kept rest v))
     \<le> 3 * (length kept + length rest) + 2 * length (sv_ready v)"
proof (induction capacity kept rest v rule: admit_due.induct)
  case (1 capacity kept v)
  then show ?case by simp
next
  case (2 capacity kept s rest v)
  show ?case
  proof (cases "sm_due_tick s > sv_tick v \<or> \<not> parent_ready s v")
    case True
    with 2(1) show ?thesis by simp
  next
    case False
    with 2(2) offer_ready [of capacity s v] show ?thesis by simp
  qed
qed

lemma drain_ready_tick [simp]: "sv_tick (drain_ready ad fault max_events ready v) = sv_tick v"
  by (induction ad fault max_events ready v rule: drain_ready.induct) simp_all

lemma drain_ready_empty:
  "\<not> sv_limited (drain_ready ad fault max_events ready v) \<Longrightarrow>
    sv_ready (drain_ready ad fault max_events ready v) = []"
  by (induction ad fault max_events ready v rule: drain_ready.induct) (simp_all split: if_splits)

lemma complete_in_flight_keeps [simp]:
  "sv_scheduled (complete_in_flight ad fault v) = sv_scheduled v"
  "sv_ready (complete_in_flight ad fault v) = sv_ready v"
  "sv_tick (complete_in_flight ad fault v) = sv_tick v"
  "sv_limited (complete_in_flight ad fault v) = sv_limited v"
  by (simp_all add: complete_in_flight_def split: option.splits)

lemma serve_ready_tick [simp]: "sv_tick (serve_ready ad env service v) = sv_tick v"
  by (simp add: serve_ready_def split: option.splits list.splits)

lemma stream_serve_tick: "sv_tick (stream_serve ad env v) = sv_tick v"
  by (simp add: stream_serve_def Let_def admit_due_load)

lemma stream_serve_load:
  assumes "sv_tick v = - 1" and "sv_ready (stream_serve ad env v) \<noteq> []" and "\<not> sv_limited (stream_serve ad env v)"
  shows "stream_load (stream_serve ad env v) < stream_load v"
proof -
  let ?fault = "fault_for_case (en_case_id env)" and ?cap = "rl_queue_capacity (en_limits env)"
  define v1 where "v1 = complete_in_flight ad ?fault v"
  define v2 where "v2 = admit_due ?cap [] (sv_scheduled v1) v1"
  have serve: "stream_serve ad env v = serve_ready ad env (service_ticks env) v2"
    by (simp add: stream_serve_def v1_def v2_def Let_def)
  have v1: "sv_in_flight v1 = None" "sv_scheduled v1 = sv_scheduled v" "sv_ready v1 = sv_ready v"
    using assms(1) by (auto simp: v1_def complete_in_flight_def split: option.splits)
  have v2: "sv_in_flight v2 = None"
    "3 * length (sv_scheduled v2) + 2 * length (sv_ready v2) \<le> 3 * length (sv_scheduled v) + 2 * length (sv_ready v)"
    using admit_due_load [of ?cap "[]" "sv_scheduled v1" v1] v1 by (simp_all add: v2_def)
  have "service_ticks env \<noteq> 0"
  proof
    assume "service_ticks env = 0"
    with assms(3) drain_ready_empty have "sv_ready (stream_serve ad env v) = []"
      unfolding serve serve_ready_def by simp
    with assms(2) show False by contradiction
  qed
  with v2(1) assms(2) obtain s rest where ready: "sv_ready v2 = s # rest"
    unfolding serve serve_ready_def by (auto split: list.splits)
  with v2 \<open>service_ticks env \<noteq> 0\<close> show ?thesis
    unfolding serve serve_ready_def stream_load_def by simp
qed

lemma checked_add_one_max: "checked_add t 1 = Some later \<Longrightarrow> t < max at later"
  by (drule checked_add_one_less) (simp add: less_max_iff_disj)

lemma stream_turn_progress:
  assumes "stream_turn ad env v = Turn_Next v'"
  shows "sv_tick v < sv_tick v' \<or> sv_tick v' = sv_tick v \<and> stream_load v' < stream_load v"
proof -
  let ?w = "stream_serve ad env v"
  from assms have w: "\<not> sv_limited ?w" "advance_tick ?w = Turn_Next v'"
    by (auto simp: stream_turn_def Let_def split: if_splits)
  show ?thesis
  proof (cases "sv_ready ?w = []")
    case True
    with w(2) show ?thesis
      by (auto simp: advance_tick_def Let_def stream_serve_tick dest: checked_add_one_max
          split: option.splits)
  next
    case False
    with w(2) have v': "v' = ?w\<lparr>sv_tick := saturating_add (sv_tick v) 1\<rparr>"
      by (simp add: advance_tick_def stream_serve_tick)
    show ?thesis
    proof (cases "checked_add (sv_tick v) 1")
      case None
      then have max: "sv_tick v = - 1" by (simp add: checked_add_one_None)
      moreover have "saturating_add (- 1) 1 = - 1"
        by (simp add: saturating_add_def unat_minus_one_u64)
      moreover from stream_serve_load [OF max False w(1)] have "stream_load ?w < stream_load v" .
      ultimately show ?thesis unfolding v' by (simp add: stream_load_def)
    next
      case (Some later)
      then have "saturating_add (sv_tick v) 1 = later"
        by (auto simp: saturating_add_def checked_add_def split: if_splits)
      with checked_add_one_less [OF Some] show ?thesis unfolding v' by simp
    qed
  qed
qed

function stream_loop :: "'a adapter \<Rightarrow> ScenarioEnvelope \<Rightarrow> 'a stream \<Rightarrow> 'a stream option" where
  "stream_loop ad env v =
     (if stream_idle v then Some v
      else case stream_turn ad env v of
             Turn_Stop v' \<Rightarrow> Some v'
           | Turn_Overflow \<Rightarrow> None
           | Turn_Next v' \<Rightarrow> stream_loop ad env v')"
  by pat_completeness auto

termination
proof (relation "measures [\<lambda>(ad, env, v). 2 ^ 64 - 1 - unat (sv_tick v), \<lambda>(ad, env, v). stream_load v]")
  fix ad :: "'a adapter" and env v v'
  assume "stream_turn ad env v = Turn_Next v'"
  moreover have "unat (sv_tick v') < 2 ^ 64" using unsigned_less [of "sv_tick v'"] by simp
  ultimately show "((ad, env, v'), (ad, env, v)) \<in> measures
      [\<lambda>(ad, env, v). 2 ^ 64 - 1 - unat (sv_tick v), \<lambda>(ad, env, v). stream_load v]"
    using stream_turn_progress [of ad env v v'] by (auto simp: word_less_nat_alt)
qed simp

declare stream_loop.simps [simp del]

text \<open>A stable sort by due tick and sequence, the first turn, and the accounting at the end.\<close>

definition stream_start :: "'a adapter \<Rightarrow> ScenarioEnvelope \<Rightarrow> 'a stream" where
  "stream_start ad env =
     \<lparr>sv_adapter = ad_new ad (en_store env),
      sv_scheduled = sort_key (\<lambda>s. (sm_due_tick s, sm_sequence s)) (en_stimuli env),
      sv_ready = [], sv_in_flight = None, sv_done = bt_empty, sv_offered = 0, sv_admitted = 0,
      sv_rejected = 0, sv_max_depth = 0, sv_observations = [], sv_executed = [], sv_errors = [],
      sv_tick = 0, sv_limited = False\<rparr>"

fun join_errors :: "string list \<Rightarrow> string" where
  "join_errors [] = []"
| "join_errors [e] = e"
| "join_errors (e # es) = e @ ''; '' @ join_errors es"

definition stream_check :: "ScenarioEnvelope \<Rightarrow> 'a stream \<Rightarrow> HostCheck" where
  "stream_check env v =
     \<lparr>hk_store = en_store env, hk_check = ''resolved-store-stream'',
      hk_passed = (sv_errors v = [] \<and> sv_observations v \<noteq> []),
      hk_detail =
        (if sv_observations v = [] \<and> sv_errors v = [] then ''no resolved operations reached the store''
         else if sv_errors v = []
         then decimal (length (sv_observations v)) @ '' resolved operations executed against one stateful store''
         else join_errors (sv_errors v))\<rparr>"

definition stream_accounting :: "'a stream \<Rightarrow> QueueAccounting" where
  "stream_accounting v =
     \<lparr>qa_offered = sv_offered v, qa_admitted = sv_admitted v, qa_rejected = sv_rejected v,
      qa_completed = length (sv_observations v), qa_delivered = length (sv_observations v),
      qa_duplicated = 0, qa_dropped = 0, qa_max_depth = sv_max_depth v\<rparr>"

record Executed =
  xe_executed :: "Stimulus list"
  xe_observations :: "Observation list"
  xe_queue :: QueueAccounting
  xe_host_checks :: "HostCheck list"
  xe_limited :: bool

definition execute_stream :: "'a adapter \<Rightarrow> ScenarioEnvelope \<Rightarrow> Executed option" where
  "execute_stream ad env =
     map_option (\<lambda>v. \<lparr>xe_executed = sv_executed v, xe_observations = sv_observations v,
         xe_queue = stream_accounting v, xe_host_checks = [stream_check env v],
         xe_limited = (sv_limited v \<or> \<not> stream_idle v)\<rparr>)
       (stream_loop ad env (stream_start ad env))"

end
