(* ===== verification/Sim_Artifact.thy ===== *)
theory Sim_Artifact
  imports Sim_Run
begin

text \<open>
  Runs, artifacts and replay of the development simulator, \<open>gearwit-sim/src/lib.rs\<close>: a case's own
  expectations, the status of a run, its fingerprints and digest, the bundle on disk, replay,
  comparison, campaigns and the process-backed cases. \<open>serde_json\<close> and \<open>blake3\<close> are parameters, as are the
  platform, the file system's answers and the crash child.
\<close>

section \<open>A case's own expectations\<close>

definition saw :: "string \<Rightarrow> Observation list \<Rightarrow> bool" where
  "saw outcome observations = list_ex (\<lambda>ob. ob_outcome ob = outcome) observations"

definition last_differs :: "string \<Rightarrow> Observation list \<Rightarrow> bool" where
  "last_differs outcome observations = (observations \<noteq> [] \<and> ob_outcome (last observations) \<noteq> outcome)"

definition saw_operation :: "string \<Rightarrow> string \<Rightarrow> Observation list \<Rightarrow> bool" where
  "saw_operation operation_id outcome observations =
     list_ex (\<lambda>ob. ob_operation_id ob = operation_id \<and> ob_outcome ob = outcome) observations"

definition final_effects :: "Observation list \<Rightarrow> u64" where
  "final_effects observations = (if observations = [] then 0 else ob_logical_effects (last observations))"

definition finding_if :: "bool \<Rightarrow> string \<Rightarrow> string list" where
  "finding_if c finding = (if c then [finding] else [])"

definition validate_observations :: "string \<Rightarrow> Observation list \<Rightarrow> string list" where
  "validate_observations case_id obs =
     finding_if (case_id = ''SIM-CHAIN-01'' \<and> \<not> saw ''rearmed'' obs) ''complete chain did not rearm''
     @ finding_if (case_id = ''SIM-CHAIN-02''
         \<and> length (filter (\<lambda>ob. ob_outcome ob = ''exact_replay'') obs) < 2)
         ''exact retries created a second result''
     @ finding_if (case_id = ''SIM-CHAIN-03'' \<and> last_differs ''conflict'' obs)
         ''changed-content operation identity did not conflict after restart''
     @ finding_if (case_id = ''SIM-CHAIN-04'' \<and> last_differs ''unauthorized'' obs)
         ''revoked authority returned after restart''
     @ finding_if (case_id = ''SIM-CHAIN-05'' \<and> last_differs ''unauthorized'' obs)
         ''stale authority regained access after restart''
     @ finding_if (case_id = ''SIM-CHAIN-06'' \<and> \<not> saw ''waiting_for_terminal'' obs)
         ''early rearm did not wait for terminal state''
     @ finding_if (case_id = ''SIM-CHAIN-06'' \<and> \<not> saw_operation ''claim-during-rearm'' ''conflict'' obs)
         ''event admission was not deferred while rearm waited''
     @ finding_if (case_id = ''SIM-CHAIN-06'' \<and> \<not> saw_operation ''claim-after-rearm'' ''admitted'' obs)
         ''deferred event was not admitted in the next lifecycle''
     @ finding_if (case_id = ''SIM-CHAIN-07'' \<and> last_differs ''rearmed'' obs)
         ''post-ack restart did not preserve state through rearm''
     @ finding_if (case_id = ''SIM-CHAIN-08'' \<and> last_differs ''inactive'' obs)
         ''omitted rearm was not reported inactive''
     @ finding_if (case_id = ''SIM-CHAIN-01'' \<and> final_effects obs \<noteq> 2)
         (''complete chain admitted '' @ decimal_word (final_effects obs) @ '' logical effects, expected 2'')
     @ finding_if (case_id = ''SIM-REPLAY-01'' \<and> \<not> saw ''waiting_for_terminal'' obs)
         ''controlled replay failure was not observed''"

section \<open>Fingerprints\<close>

type_synonym semantic_fields =
  "string \<times> string \<times> u64 \<times> SeedSet \<times> RunLimits \<times> Stimulus list \<times> Observation list \<times> QueueAccounting
    \<times> string list \<times> CaseStatus"

type_synonym provenance_fields = "string \<times> SimulatorStore \<times> PlatformPin"

type_synonym integrity_fields =
  "string \<times> string \<times> string \<times> ScenarioEnvelope \<times> PlatformPin \<times> Observation list \<times> HostCheck list
    \<times> QueueAccounting \<times> string list \<times> CaseStatus \<times> string \<times> string"

text \<open>
  \<open>serde_json::to_vec\<close> of the three tuples, \<open>to_vec_pretty\<close> and \<open>from_slice\<close> of an artifact, the hash,
  and the platform compiled in.
\<close>

record sim_port =
  sp_semantic :: "semantic_fields \<Rightarrow> bytes"
  sp_provenance :: "provenance_fields \<Rightarrow> bytes"
  sp_integrity :: "integrity_fields \<Rightarrow> bytes"
  sp_blake3 :: "bytes \<Rightarrow> bytes"
  sp_platform :: PlatformPin
  sp_pretty :: "RunArtifact \<Rightarrow> string + string"
  sp_parse :: "string \<Rightarrow> string + RunArtifact"

definition hex_bytes :: "bytes \<Rightarrow> string" where
  "hex_bytes bs = concat (map (\<lambda>b. [hex_digit (unat b div 16), hex_digit (unat b mod 16)]) bs)"

definition semantic_fingerprint ::
  "sim_port \<Rightarrow> ScenarioEnvelope \<Rightarrow> Observation list \<Rightarrow> QueueAccounting \<Rightarrow> string list \<Rightarrow> CaseStatus \<Rightarrow> string"
  where
  "semantic_fingerprint port env observations queue findings status =
     hex_bytes (sp_blake3 port (sp_semantic port
       (en_version env, en_case_id env, en_seed env, en_seeds env, en_limits env, en_stimuli env,
        observations, queue, findings, status)))"

definition provenance_fingerprint :: "sim_port \<Rightarrow> string \<Rightarrow> ScenarioEnvelope \<Rightarrow> PlatformPin \<Rightarrow> string" where
  "provenance_fingerprint port run_id env platform =
     hex_bytes (sp_blake3 port (sp_provenance port (run_id, en_store env, platform)))"

definition artifact_digest :: "sim_port \<Rightarrow> RunArtifact \<Rightarrow> string" where
  "artifact_digest port a =
     hex_bytes (sp_blake3 port (sp_integrity port
       (ra_version a, ra_run_id a, ra_oracle_version a, ra_scenario a, ra_platform a, ra_observations a,
        ra_host_checks a, ra_queue a, ra_oracle_findings a, ra_status a, ra_semantic_fingerprint a,
        ra_provenance_fingerprint a)))"

definition ascii_lower :: "char \<Rightarrow> char" where
  "ascii_lower c = (if is_ascii_uppercase c then char_of (of_char c + 32 :: nat) else c)"

fun store_name :: "SimulatorStore \<Rightarrow> string" where
  "store_name SS_Fake = ''fake''"
| "store_name SS_Sqlite = ''sqlite''"

definition run_name :: "ScenarioEnvelope \<Rightarrow> string" where
  "run_name env =
     map ascii_lower (en_case_id env) @ ''-'' @ decimal_word (en_seed env) @ ''-'' @ store_name (en_store env)"

definition finish_artifact ::
  "sim_port \<Rightarrow> ScenarioEnvelope \<Rightarrow> Observation list \<Rightarrow> HostCheck list \<Rightarrow> QueueAccounting \<Rightarrow> string list
    \<Rightarrow> CaseStatus \<Rightarrow> RunArtifact" where
  "finish_artifact port env observations host_checks queue findings status =
     (let artifact =
        \<lparr>ra_version = ARTIFACT_VERSION, ra_run_id = run_name env, ra_oracle_version = ORACLE_VERSION,
         ra_scenario = env, ra_platform = sp_platform port, ra_observations = observations,
         ra_host_checks = host_checks, ra_queue = queue, ra_oracle_findings = findings, ra_status = status,
         ra_semantic_fingerprint = semantic_fingerprint port env observations queue findings status,
         ra_provenance_fingerprint = provenance_fingerprint port (run_name env) env (sp_platform port),
         ra_artifact_digest = []\<rparr>
      in artifact\<lparr>ra_artifact_digest := artifact_digest port artifact\<rparr>)"

section \<open>A run\<close>

definition stream_findings :: "ScenarioEnvelope \<Rightarrow> Executed \<Rightarrow> string list" where
  "stream_findings env x =
     (if en_case_id env = ''SIM-QUEUE-01'' then [] else oracle_findings (xe_executed x) (xe_observations x))
     @ validate_observations (en_case_id env) (xe_observations x)
     @ finding_if (en_case_id env \<noteq> ''SIM-QUEUE-01'' \<and> length (xe_executed x) \<noteq> length (en_stimuli env))
         (''mandatory stream completed '' @ decimal (length (xe_observations x)) @ '' of ''
          @ decimal (length (en_stimuli env)) @ '' operations'')"

definition fault_check :: "ScenarioEnvelope \<Rightarrow> string list \<Rightarrow> HostCheck list" where
  "fault_check env findings =
     (let fault = fault_for_case (en_case_id env) in
      if fault = FM_None then []
      else [\<lparr>hk_store = en_store env, hk_check = ''oracle-detects-'' @ fault_name fault,
             hk_passed = (findings \<noteq> []),
             hk_detail = (if findings = []
               then ''deliberate adapter receipt violation escaped the independent oracle''
               else ''independent oracle reported '' @ decimal (length findings) @ '' mismatch(es)'')\<rparr>])"

definition process_check :: "ScenarioEnvelope \<Rightarrow> HostCheck list" where
  "process_check env =
     (if en_case_id env = ''SIM-PROC-01''
      then [\<lparr>hk_store = SS_Sqlite, hk_check = ''real-process-runner'', hk_passed = False,
             hk_detail = ''use run_process_case so a separate child can be killed''\<rparr>]
      else [])"

definition run_status :: "ScenarioEnvelope \<Rightarrow> Executed \<Rightarrow> string list \<Rightarrow> HostCheck list \<Rightarrow> CaseStatus" where
  "run_status env x findings host_checks =
     (if xe_limited x \<or> en_case_id env \<noteq> ''SIM-QUEUE-01'' \<and> xe_observations x = [] then CS_Incomplete
      else if validate_observations (en_case_id env) (xe_observations x) = []
        \<and> (fault_for_case (en_case_id env) \<noteq> FM_None \<or> findings = [])
        \<and> list_all hk_passed host_checks then CS_Passed
      else if en_case_id env = ''SIM-PROC-01'' then CS_Incomplete
      else CS_Failed)"

definition sim_run :: "'a adapter \<Rightarrow> sim_port \<Rightarrow> ScenarioEnvelope \<Rightarrow> RunArtifact option" where
  "sim_run ad port env =
     map_option (\<lambda>x.
       let findings = stream_findings env x;
           host_checks = xe_host_checks x @ fault_check env findings @ process_check env
       in finish_artifact port env (xe_observations x) host_checks (xe_queue x) findings
            (run_status env x findings host_checks))
       (execute_stream ad env)"

section \<open>Bundles, replay and comparison\<close>

definition validate_artifact :: "sim_port \<Rightarrow> RunArtifact \<Rightarrow> string + unit" where
  "validate_artifact port a =
     bind_res (ensure (ra_semantic_fingerprint a = semantic_fingerprint port (ra_scenario a)
         (ra_observations a) (ra_queue a) (ra_oracle_findings a) (ra_status a))
       ''artifact semantic fingerprint is stale'') (\<lambda>_.
     bind_res (ensure (ra_provenance_fingerprint a =
         provenance_fingerprint port (ra_run_id a) (ra_scenario a) (ra_platform a))
       ''artifact provenance fingerprint is stale'') (\<lambda>_.
     ensure (ra_artifact_digest a = artifact_digest port a) ''artifact integrity digest is stale''))"

text \<open>What the file system answers to creating a directory, writing and reading; the files themselves.\<close>

record bundle_fs =
  bf_parent :: "string \<Rightarrow> string option"
  bf_create_dir_all :: "string \<Rightarrow> string + unit"
  bf_write :: "string \<Rightarrow> string + unit"
  bf_read :: "string \<Rightarrow> string + unit"

type_synonym bundles = "string \<Rightarrow> string option"

definition too_large :: string where
  "too_large = ''artifact exceeds '' @ decimal MAX_ARTIFACT_BYTES @ '' byte limit''"

definition write_artifact ::
  "sim_port \<Rightarrow> bundle_fs \<Rightarrow> string \<Rightarrow> RunArtifact \<Rightarrow> bundles \<Rightarrow> bundles \<times> (string + unit)" where
  "write_artifact port fs path artifact files =
     try_in files (ok_or (bf_parent fs path) ''artifact path has no parent'') (\<lambda>parent.
     try_in files (bf_create_dir_all fs parent) (\<lambda>_.
     try_in files (sp_pretty port artifact) (\<lambda>document.
     if length document > MAX_ARTIFACT_BYTES then (files, Inl too_large)
     else try_in files (bf_write fs path) (\<lambda>_. (files(path \<mapsto> document), Inr ())))))"

definition read_artifact :: "sim_port \<Rightarrow> bundle_fs \<Rightarrow> string \<Rightarrow> bundles \<Rightarrow> string + RunArtifact" where
  "read_artifact port fs path files =
     bind_res (bf_read fs path) (\<lambda>_.
     bind_res (ok_or (files path) ''No such file or directory'') (\<lambda>document.
     if length document > MAX_ARTIFACT_BYTES then Inl too_large
     else bind_res (sp_parse port document) (\<lambda>a.
       let incompatible_envelope =
             (list_ex (\<lambda>s. sm_version s \<noteq> ARTIFACT_VERSION) (en_stimuli (ra_scenario a))
              \<or> list_ex (\<lambda>ob. ob_version ob \<noteq> ARTIFACT_VERSION) (ra_observations a))
       in if ra_version a \<noteq> ARTIFACT_VERSION \<or> en_version (ra_scenario a) \<noteq> ARTIFACT_VERSION
            \<or> ra_oracle_version a \<noteq> ORACLE_VERSION \<or> incompatible_envelope
          then Inl (''unsupported artifact version: '' @ ra_version a)
          else bind_res (validate_artifact port a) (\<lambda>_. Inr a))))"

definition process_cases :: "string list" where
  "process_cases = [''SIM-CHAIN-07'', ''SIM-PROC-01'']"

definition sim_replay :: "'a adapter \<Rightarrow> sim_port \<Rightarrow> RunArtifact \<Rightarrow> (string + RunArtifact) option" where
  "sim_replay ad port a =
     (case validate_artifact port a of
        Inl e \<Rightarrow> Some (Inl e)
      | Inr _ \<Rightarrow>
          if en_case_id (ra_scenario a) \<in> set process_cases
          then Some (Inl ''process case requires a new real child run'')
          else map_option (\<lambda>replayed.
            if ra_semantic_fingerprint replayed \<noteq> ra_semantic_fingerprint a
            then Inl ''semantic replay fingerprint differed'' else Inr replayed)
            (sim_run ad port (ra_scenario a)))"

definition sim_compare :: "sim_port \<Rightarrow> RunArtifact \<Rightarrow> RunArtifact \<Rightarrow> string + Comparison" where
  "sim_compare port left right =
     bind_res (validate_artifact port left) (\<lambda>_.
     bind_res (validate_artifact port right) (\<lambda>_.
     Inr \<lparr>cm_same_scenario = (ra_scenario left = ra_scenario right),
       cm_same_semantics = (ra_semantic_fingerprint left = ra_semantic_fingerprint right),
       cm_same_provenance = (ra_provenance_fingerprint left = ra_provenance_fingerprint right),
       cm_left_status = ra_status left, cm_right_status = ra_status right\<rparr>))"

definition default_artifact_name :: "RunArtifact \<Rightarrow> string" where
  "default_artifact_name a = run_name (ra_scenario a) @ ''.json''"

fun run_all :: "'a adapter \<Rightarrow> sim_port \<Rightarrow> ScenarioEnvelope list \<Rightarrow> RunArtifact list option" where
  "run_all ad port [] = Some []"
| "run_all ad port (e # es) =
     (case sim_run ad port e of
        None \<Rightarrow> None
      | Some a \<Rightarrow> map_option (Cons a) (run_all ad port es))"

definition sim_campaign ::
  "'a adapter \<Rightarrow> sim_port \<Rightarrow> u64 \<Rightarrow> nat \<Rightarrow> SimulatorStore \<Rightarrow> (string + RunArtifact list) option" where
  "sim_campaign ad port seed runs store =
     (case campaign_envelopes seed runs store of
        None \<Rightarrow> None
      | Some (Inl e) \<Rightarrow> Some (Inl e)
      | Some (Inr envelopes) \<Rightarrow> map_option Inr (run_all ad port envelopes))"

text \<open>\<open>pretty\<close> is \<open>to_vec_pretty\<close> of a manifest.\<close>

definition write_campaign_manifest ::
  "(CampaignManifest \<Rightarrow> string + string) \<Rightarrow> bundle_fs \<Rightarrow> string \<Rightarrow> CampaignManifest \<Rightarrow> bundles
    \<Rightarrow> bundles \<times> (string + unit)" where
  "write_campaign_manifest pretty fs root manifest files =
     try_in files (bf_create_dir_all fs root) (\<lambda>_.
     try_in files (pretty manifest) (\<lambda>document.
       let path = root @ ''/campaign-manifest.json''
       in try_in files (bf_write fs path) (\<lambda>_. (files(path \<mapsto> document), Inr ()))))"

section \<open>Process-backed cases\<close>

definition failed_process_check :: "string \<Rightarrow> string \<Rightarrow> HostCheck" where
  "failed_process_check phase detail =
     \<lparr>hk_store = SS_Sqlite, hk_check = ''process-crash-'' @ phase, hk_passed = False, hk_detail = detail\<rparr>"

text \<open>
  \<open>cr_polls\<close> are the looks at the marker and the child before the deadline: whether the marker has the
  milestone, and whether the child has ended.
\<close>

record crash_env =
  cr_create :: "string + unit"
  cr_spawn :: "string + unit"
  cr_polls :: "(bool \<times> bool) list"
  cr_kill :: "string + unit"
  cr_verify :: "string + unit"

fun milestone_reached :: "(bool \<times> bool) list \<Rightarrow> bool" where
  "milestone_reached [] = False"
| "milestone_reached ((marked, ended) # polls) = (marked \<or> (\<not> ended \<and> milestone_reached polls))"

definition run_crash_phase :: "crash_env \<Rightarrow> string \<Rightarrow> HostCheck" where
  "run_crash_phase os phase =
     (let expected = (if phase = ''pre_commit'' then ''PRE_COMMIT'' else ''POST_COMMIT'') in
      case cr_create os of
        Inl error \<Rightarrow> failed_process_check phase error
      | Inr _ \<Rightarrow>
          (case cr_spawn os of
             Inl error \<Rightarrow> failed_process_check phase error
           | Inr _ \<Rightarrow>
               if \<not> milestone_reached (cr_polls os)
               then failed_process_check phase (''milestone '' @ expected @ '' not reached'')
               else
                 (case cr_kill os of
                    Inl error \<Rightarrow> failed_process_check phase error
                  | Inr _ \<Rightarrow>
                      (case cr_verify os of
                         Inr _ \<Rightarrow> \<lparr>hk_store = SS_Sqlite, hk_check = ''process-crash-'' @ phase,
                           hk_passed = True, hk_detail = ''fresh-process reopen passed''\<rparr>
                       | Inl detail \<Rightarrow> failed_process_check phase detail))))"

text \<open>The assertion on the case id panics: \<open>None\<close>.\<close>

definition run_process_case ::
  "'a adapter \<Rightarrow> sim_port \<Rightarrow> (string \<Rightarrow> crash_env) \<Rightarrow> u64 \<Rightarrow> string \<Rightarrow> RunArtifact option" where
  "run_process_case ad port os seed case_id =
     (if case_id \<notin> set process_cases then None
      else case scenario case_id seed SS_Sqlite of
        Inl _ \<Rightarrow> None
      | Inr envelope \<Rightarrow> map_option (\<lambda>base.
          let checks = filter (\<lambda>c. hk_check c \<noteq> ''real-process-runner'') (ra_host_checks base)
                @ map (\<lambda>phase. run_crash_phase (os phase) phase) [''pre_commit'', ''post_commit''];
              status = (if ra_oracle_findings base = [] \<and> list_all hk_passed checks then CS_Passed else CS_Failed)
          in finish_artifact port (ra_scenario base) (ra_observations base) checks (ra_queue base)
               (ra_oracle_findings base) status)
          (sim_run ad port envelope))"

end
