(* ===== verification/Sim_Properties.thy ===== *)
theory Sim_Properties
  imports Sim_Artifact "HOL-Library.Multiset"
begin

text \<open>
  What the simulator's scheduler promises: it returns, accounts for every stimulus and respects causes,
  bounds and budgets; and a campaign resolves within its own.
\<close>

section \<open>The accounting of the scheduler\<close>

definition causally_ordered :: "Stimulus list \<Rightarrow> bool" where
  "causally_ordered ss \<longleftrightarrow>
     (\<forall>i < length ss. \<forall>parent. sm_causal_parent (ss ! i) = Some parent \<longrightarrow>
        parent \<in> sm_operation_id ` set (take i ss))"

definition cause_met :: "Stimulus list \<Rightarrow> Stimulus \<Rightarrow> bool" where
  "cause_met executed s \<longleftrightarrow>
     (\<forall>parent. sm_causal_parent s = Some parent \<longrightarrow> parent \<in> sm_operation_id ` set executed)"

lemma causally_ordered_Nil [simp]: "causally_ordered []"
  by (simp add: causally_ordered_def)

lemma causally_ordered_snoc: "causally_ordered ss \<Longrightarrow> cause_met ss s \<Longrightarrow> causally_ordered (ss @ [s])"
  by (auto simp: causally_ordered_def cause_met_def nth_append less_Suc_eq)

lemma cause_met_mono: "cause_met ss s \<Longrightarrow> cause_met (ss @ ts) s"
  by (auto simp: cause_met_def)

text \<open>\<open>waiting\<close> are the stimuli not offered yet, \<open>serving\<close> those admitted and not completed.\<close>

definition stream_inv ::
  "ScenarioEnvelope \<Rightarrow> Stimulus multiset \<Rightarrow> Stimulus multiset \<Rightarrow> 'a stream \<Rightarrow> bool" where
  "stream_inv env waiting serving v \<longleftrightarrow>
     sv_offered v = sv_admitted v + sv_rejected v
     \<and> sv_offered v + size waiting = length (en_stimuli env)
     \<and> waiting + serving + mset (sv_executed v) \<subseteq># mset (en_stimuli env)
     \<and> map ob_operation_id (sv_observations v) = map sm_operation_id (sv_executed v)
     \<and> length (sv_executed v) + length (sv_errors v) + size serving \<le> sv_admitted v
     \<and> (\<not> sv_limited v \<longrightarrow> length (sv_executed v) + length (sv_errors v) + size serving = sv_admitted v)
     \<and> size serving \<le> sv_max_depth v \<and> sv_max_depth v \<le> rl_queue_capacity (en_limits env)
     \<and> (\<forall>i. bs_member i (sv_done v) \<longleftrightarrow> i \<in> sm_operation_id ` set (sv_executed v))
     \<and> causally_ordered (sv_executed v) \<and> (\<forall>s \<in># serving. cause_met (sv_executed v) s)"

definition flights :: "'a stream \<Rightarrow> Stimulus multiset" where
  "flights v = (case sv_in_flight v of None \<Rightarrow> {#} | Some (_, s) \<Rightarrow> {#s#})"

abbreviation stream_ok :: "ScenarioEnvelope \<Rightarrow> 'a stream \<Rightarrow> bool" where
  "stream_ok env v \<equiv> stream_inv env (mset (sv_scheduled v)) (mset (sv_ready v) + flights v) v"

lemma inject_operation_id [simp]: "ob_operation_id (inject_receipt_fault fault action ob) = ob_operation_id ob"
  by (cases fault; cases action) (simp_all add: inject_receipt_fault_def)

lemma submset_drop: "add_mset s M \<subseteq># N \<Longrightarrow> M \<subseteq># N"
  by (rule subset_mset.order_trans [of _ "add_mset s M"]) simp_all

lemma complete_inv:
  assumes "stream_inv env waiting (add_mset s serving) v"
  shows "stream_inv env waiting serving (complete_store_step ad fault s v)"
proof (cases "ad_apply ad (sm_operation_id s) (store_action (sm_action s)) (sv_adapter v)")
  case (Pair a r)
  show ?thesis
  proof (cases r)
    case (Inl e)
    with assms Pair show ?thesis
      by (auto simp: stream_inv_def complete_store_step_def dest: submset_drop)
  next
    case (Inr receipt)
    from assms have met: "cause_met (sv_executed v) s" by (simp add: stream_inv_def)
    with assms Pair Inr show ?thesis
      by (auto simp: stream_inv_def complete_store_step_def Let_def bs_insert_def
          intro: causally_ordered_snoc cause_met_mono)
  qed
qed

lemma complete_in_flight_inv:
  assumes "stream_ok env v"
  shows "stream_ok env (complete_in_flight ad fault v)"
proof (cases "sv_in_flight v")
  case None
  with assms show ?thesis by (simp add: complete_in_flight_def)
next
  case (Some p)
  obtain at_tick s where p: "p = (at_tick, s)" by (cases p)
  show ?thesis
  proof (cases "at_tick \<le> sv_tick v")
    case True
    from assms Some p have "stream_inv env (mset (sv_scheduled v)) (add_mset s (mset (sv_ready v)))
        (v\<lparr>sv_in_flight := None\<rparr>)"
      by (simp add: stream_inv_def flights_def)
    from complete_inv [OF this, of ad fault] show ?thesis
      using Some p True by (simp add: complete_in_flight_def flights_def)
  next
    case False
    with assms Some p show ?thesis by (simp add: complete_in_flight_def)
  qed
qed

lemma parent_ready_met:
  "stream_inv env waiting serving v \<Longrightarrow> parent_ready s v \<Longrightarrow> cause_met (sv_executed v) s"
  by (auto simp: stream_inv_def parent_ready_def cause_met_def split: option.splits)

lemma occupied_size: "occupied v = size (mset (sv_ready v) + flights v)"
  by (simp add: occupied_def flights_def split: option.splits)

lemma flights_offer [simp]: "flights (offer_stimulus capacity s v) = flights v"
  by (simp add: flights_def)

lemma offer_inv:
  assumes "stream_inv env (add_mset s waiting) (mset (sv_ready v) + flights v) v" and "parent_ready s v"
  shows "stream_inv env waiting
    (mset (sv_ready (offer_stimulus (rl_queue_capacity (en_limits env)) s v)) + flights v)
    (offer_stimulus (rl_queue_capacity (en_limits env)) s v)"
proof -
  let ?cap = "rl_queue_capacity (en_limits env)" and ?R = "mset (sv_ready v) + flights v"
  from parent_ready_met [OF assms] have met: "cause_met (sv_executed v) s" .
  have occ: "occupied (v\<lparr>sv_offered := n\<rparr>) = size ?R" for n
    using occupied_size [of "v\<lparr>sv_offered := n\<rparr>"] by (simp add: flights_def)
  show ?thesis
  proof (cases "?cap \<le> size ?R")
    case True
    with assms(1) occ show ?thesis
      by (auto simp: stream_inv_def offer_stimulus_def Let_def dest: submset_drop)
  next
    case False
    have "occupied (v\<lparr>sv_offered := n, sv_ready := sv_ready v @ [s], sv_admitted := m\<rparr>) = Suc (size ?R)" for n m
      using occupied_size [of "v\<lparr>sv_offered := n, sv_ready := sv_ready v @ [s], sv_admitted := m\<rparr>"]
      by (simp add: flights_def)
    with False assms(1) occ met show ?thesis
      by (auto simp: stream_inv_def offer_stimulus_def Let_def)
  qed
qed

lemma admit_due_inv:
  assumes "stream_inv env (mset kept + mset rest) (mset (sv_ready v) + flights v) v"
    and "capacity = rl_queue_capacity (en_limits env)"
  shows "stream_ok env (admit_due capacity kept rest v)"
  using assms
proof (induction capacity kept rest v rule: admit_due.induct)
  case (1 capacity kept v)
  then show ?case by (simp add: stream_inv_def flights_def)
next
  case (2 capacity kept s rest v)
  show ?case
  proof (cases "sm_due_tick s > sv_tick v \<or> \<not> parent_ready s v")
    case True
    with 2(1) [OF True] 2(3,4) show ?thesis by (simp add: ac_simps)
  next
    case False
    from 2(3) have "stream_inv env (add_mset s (mset kept + mset rest)) (mset (sv_ready v) + flights v) v"
      by simp
    from offer_inv [OF this] False 2(4)
    have "stream_inv env (mset kept + mset rest)
        (mset (sv_ready (offer_stimulus capacity s v)) + flights v) (offer_stimulus capacity s v)" by simp
    with 2(2) [OF False] 2(4) False show ?thesis by simp
  qed
qed

lemma drain_ready_inv:
  assumes "stream_inv env waiting (mset ready + flights v) v" and "flights v = {#}" and "mset (sv_scheduled v) = waiting"
  shows "stream_ok env (drain_ready ad fault max_events ready v)"
  using assms
proof (induction ad fault max_events ready v rule: drain_ready.induct)
  case (1 ad fault max_events v)
  then show ?case by (simp add: stream_inv_def flights_def)
next
  case (2 ad fault max_events s rest v)
  have f: "flights (complete_store_step ad fault s v) = flights v" by (simp add: flights_def)
  show ?case
  proof (cases "max_events \<le> length (sv_observations v)")
    case True
    with 2(2,3,4) show ?thesis
      by (auto simp: stream_inv_def flights_def dest: submset_drop)
  next
    case False
    from 2(2,3) have "stream_inv env waiting (add_mset s (mset rest)) v" by simp
    from complete_inv [OF this] 2(1) [OF False] 2(3,4) f False show ?thesis by simp
  qed
qed

lemma serve_ready_inv:
  assumes "stream_ok env v" and "service = 0 \<Longrightarrow> sv_in_flight v = None"
  shows "stream_ok env (serve_ready ad env service v)"
proof (cases "service = 0")
  case True
  with assms have "flights v = {#}" by (simp add: flights_def)
  with True assms(1) show ?thesis by (simp add: serve_ready_def drain_ready_inv)
next
  case False
  with assms(1) show ?thesis
    by (auto simp: serve_ready_def stream_inv_def flights_def split: option.splits list.splits)
qed

text \<open>Where a service takes no time, nothing is ever in flight.\<close>

definition instant_service :: "ScenarioEnvelope \<Rightarrow> 'a stream \<Rightarrow> bool" where
  "instant_service env v \<longleftrightarrow> (service_ticks env = 0 \<longrightarrow> sv_in_flight v = None)"

lemma drain_ready_in_flight [simp]: "sv_in_flight (drain_ready ad fault max_events ready v) = sv_in_flight v"
  by (induction ad fault max_events ready v rule: drain_ready.induct) simp_all

lemma complete_in_flight_None: "sv_in_flight v = None \<Longrightarrow> sv_in_flight (complete_in_flight ad fault v) = None"
  by (simp add: complete_in_flight_def)

lemma stream_serve_inv:
  assumes "stream_ok env v" and "instant_service env v"
  shows "stream_ok env (stream_serve ad env v) \<and> instant_service env (stream_serve ad env v)"
proof -
  define v1 where "v1 = complete_in_flight ad (fault_for_case (en_case_id env)) v"
  define v2 where "v2 = admit_due (rl_queue_capacity (en_limits env)) [] (sv_scheduled v1) v1"
  have ok1: "stream_ok env v1" unfolding v1_def by (rule complete_in_flight_inv) (rule assms(1))
  then have ok2: "stream_ok env v2" unfolding v2_def by (intro admit_due_inv) simp_all
  have i1: "instant_service env v1"
    using assms(2) complete_in_flight_None unfolding v1_def instant_service_def by blast
  then have i2: "instant_service env v2" by (simp add: instant_service_def v2_def admit_due_load)
  from serve_ready_inv [OF ok2, of "service_ticks env" ad] i2
  have "stream_ok env (serve_ready ad env (service_ticks env) v2)" by (simp add: instant_service_def)
  moreover from i2 have "instant_service env (serve_ready ad env (service_ticks env) v2)"
    by (simp add: instant_service_def serve_ready_def)
  ultimately show ?thesis by (simp add: stream_serve_def v1_def v2_def Let_def)
qed

section \<open>The event budget\<close>

lemma complete_observations:
  "length (sv_observations (complete_store_step ad fault s v)) \<le> Suc (length (sv_observations v))"
  by (simp add: complete_store_step_def Let_def split: prod.splits sum.splits)

lemma drain_ready_observations:
  "length (sv_observations v) \<le> max_events \<Longrightarrow>
    length (sv_observations (drain_ready ad fault max_events ready v)) \<le> max_events"
proof (induction ad fault max_events ready v rule: drain_ready.induct)
  case (2 ad fault max_events s rest v)
  then show ?case using complete_observations [of ad fault s v] by auto
qed simp

lemma admit_due_observations [simp]:
  "sv_observations (admit_due capacity kept rest v) = sv_observations v"
  by (induction capacity kept rest v rule: admit_due.induct) simp_all

lemma stream_serve_observations:
  assumes "length (sv_observations v) < rl_max_events (en_limits env)"
  shows "length (sv_observations (stream_serve ad env v)) \<le> rl_max_events (en_limits env)"
proof -
  have "length (sv_observations (complete_in_flight ad (fault_for_case (en_case_id env)) v))
      \<le> rl_max_events (en_limits env)"
    using assms complete_observations [of ad "fault_for_case (en_case_id env)" _ "v\<lparr>sv_in_flight := None\<rparr>"]
    by (fastforce simp: complete_in_flight_def split: option.splits intro: le_trans)
  then show ?thesis
    by (auto simp: stream_serve_def serve_ready_def Let_def drain_ready_observations
        split: option.splits list.splits)
qed

section \<open>The loop\<close>

definition stream_good :: "ScenarioEnvelope \<Rightarrow> 'a stream \<Rightarrow> bool" where
  "stream_good env v \<longleftrightarrow> stream_ok env v \<and> instant_service env v
     \<and> length (sv_observations v) \<le> rl_max_events (en_limits env)"

lemma stream_good_cong:
  "stream_good env v \<Longrightarrow> stream_good env (v\<lparr>sv_tick := t\<rparr>)" "stream_good env v \<Longrightarrow> stream_good env (v\<lparr>sv_limited := True\<rparr>)"
  by (auto simp: stream_good_def stream_inv_def instant_service_def flights_def)

lemma advance_tick_good:
  assumes "stream_good env v"
  shows "case advance_tick v of Turn_Stop v' \<Rightarrow> stream_good env v' | Turn_Next v' \<Rightarrow> stream_good env v'
    | Turn_Overflow \<Rightarrow> sv_tick v = - 1"
  using assms
  by (auto simp: advance_tick_def Let_def checked_add_one_None stream_good_cong split: option.splits)

lemma stream_turn_good:
  assumes "stream_good env v"
  shows "case stream_turn ad env v of Turn_Stop v' \<Rightarrow> stream_good env v' | Turn_Next v' \<Rightarrow> stream_good env v'
    | Turn_Overflow \<Rightarrow> rl_max_virtual_tick (en_limits env) = - 1"
proof (cases "sv_tick v > rl_max_virtual_tick (en_limits env)
    \<or> length (sv_observations v) \<ge> rl_max_events (en_limits env)")
  case True
  with assms show ?thesis by (simp add: stream_turn_def stream_good_cong)
next
  case False
  let ?w = "stream_serve ad env v"
  from False assms have good: "stream_good env ?w"
    using stream_serve_inv [of env v ad] stream_serve_observations [of v env ad]
    by (simp add: stream_good_def)
  have "rl_max_virtual_tick (en_limits env) = - 1" if "sv_tick v = - 1"
    using False that by (simp add: linorder_not_less word_order.extremum_unique)
  with advance_tick_good [OF good] good False show ?thesis
    by (auto simp: stream_turn_def Let_def stream_serve_tick split: turn.splits)
qed

lemma stream_loop_good:
  "stream_good env v \<Longrightarrow> case stream_loop ad env v of Some v' \<Rightarrow> stream_good env v'
    | None \<Rightarrow> rl_max_virtual_tick (en_limits env) = - 1"
proof (induction ad env v rule: stream_loop.induct)
  case (1 ad env v)
  show ?case
  proof (cases "stream_idle v")
    case True
    with 1(2) show ?thesis by (simp add: stream_loop.simps)
  next
    case False
    with stream_turn_good [OF 1(2), of ad] 1(1) show ?thesis
      by (subst stream_loop.simps) (auto split: turn.splits)
  qed
qed

lemma stream_start_good: "stream_good env (stream_start ad env)"
  by (simp add: stream_good_def stream_start_def stream_inv_def flights_def instant_service_def)


lemma execute_stream_good:
  fixes ad :: "'a adapter"
  assumes "execute_stream ad env = Some x"
  obtains v :: "'a stream" where "stream_good env v" "x = \<lparr>xe_executed = sv_executed v, xe_observations = sv_observations v,
      xe_queue = stream_accounting v, xe_host_checks = [stream_check env v],
      xe_limited = (sv_limited v \<or> \<not> stream_idle v)\<rparr>"
proof -
  from assms obtain v where v: "stream_loop ad env (stream_start ad env) = Some v"
    "x = \<lparr>xe_executed = sv_executed v, xe_observations = sv_observations v,
      xe_queue = stream_accounting v, xe_host_checks = [stream_check env v],
      xe_limited = (sv_limited v \<or> \<not> stream_idle v)\<rparr>"
    by (auto simp: execute_stream_def)
  show ?thesis
    by (rule that [OF _ v(2)]) (use stream_loop_good [OF stream_start_good [of env ad], of ad] v(1) in simp)
qed

lemma execute_stream_returns:
  assumes "rl_max_virtual_tick (en_limits env) \<noteq> - 1"
  shows "\<exists>x. execute_stream ad env = Some x"
  using assms stream_loop_good [OF stream_start_good [of env ad], of ad]
  by (auto simp: execute_stream_def split: option.splits)

lemma resolved_tick_bound:
  "scenario case_id seed store = Inr e \<Longrightarrow> rl_max_virtual_tick (en_limits e) = 10000"
  "rl_max_virtual_tick (en_limits (generated_chain seed store)) = 10000"
  by (auto simp: scenario_def generated_chain_def run_limits_default_def Let_def split: if_splits)


section \<open>A sample store and a sample run\<close>

text \<open>The oracle itself behind the adapter, and a queue of one place that serves for two ticks.\<close>

fun oracle_action :: "StoreStreamAction \<Rightarrow> Action" where
  "oracle_action ST_Arm = SA_Arm"
| "oracle_action (ST_Offer event) = SA_Offer event"
| "oracle_action (ST_Admit event) = SA_Admit event"
| "oracle_action (ST_Retrieve request) = SA_Retrieve request"
| "oracle_action (ST_StaleRetrieve request) = SA_StaleRetrieve request"
| "oracle_action (ST_Acknowledge request) = SA_Acknowledge request"
| "oracle_action ST_Terminal = SA_Terminal"
| "oracle_action ST_Rearm = SA_Rearm"
| "oracle_action ST_Revoke = SA_Revoke"
| "oracle_action ST_Restart = SA_Restart"
| "oracle_action ST_OmitRearm = SA_OmitRearm"

definition oracle_store :: "Oracle adapter" where
  "oracle_store = \<lparr>ad_new = \<lambda>_. oracle_default,
     ad_apply = \<lambda>operation_id action orc.
       (case oracle_apply orc (stimulus 0 0 operation_id (oracle_action action)) of (orc, ob) \<Rightarrow>
          (orc, Inr \<lparr>sr_outcome = ob_outcome ob, sr_logical_effects = ob_logical_effects ob,
             sr_authority_revision = ob_authority_revision ob\<rparr>))\<rparr>"

definition sim_envelope :: ScenarioEnvelope where
  "sim_envelope = \<lparr>en_version = ARTIFACT_VERSION, en_case_id = ''SIM-QUEUE-01'', en_seed = 7,
     en_seeds = derive_seeds 7, en_store = SS_Fake,
     en_limits = run_limits_default\<lparr>rl_queue_capacity := 1\<rparr>,
     en_stimuli = [stimulus 0 0 ''arm'' SA_Arm, stimulus 1 1 ''offer-1'' (SA_Offer ''e''),
       (stimulus 2 3 ''offer-2'' (SA_Offer ''e''))\<lparr>sm_causal_parent := Some ''arm''\<rparr>]\<rparr>"

lemmas sim_run_simps =
  execute_stream_def stream_start_def sim_envelope_def run_limits_default_def stimulus_def oracle_store_def
  stream_loop.simps stream_turn_def stream_serve_def complete_in_flight_def complete_store_step_def
  parent_ready_def occupied_def offer_stimulus_def serve_ready_def advance_tick_def service_ticks_def
  stream_idle_def stream_accounting_def stream_check_def fault_for_case_def last_segment_def
  inject_receipt_fault_def oracle_apply_def apply_fresh_def oracle_default_def oracle_commit_def
  bs_insert_def bs_member_def bt_get_insert bt_get_empty bt_contains_def saturating_add_def checked_add_def
  Let_def

lemma sim_sample_run:
  "map_option (\<lambda>x. (map sm_operation_id (xe_executed x), map ob_outcome (xe_observations x),
       qa_offered (xe_queue x), qa_rejected (xe_queue x), xe_limited x))
     (execute_stream oracle_store sim_envelope)
   = Some ([''arm'', ''offer-2''], [''armed'', ''offered''], 3, 1, False)"
  by (simp add: sim_run_simps) (simp add: word_le_nat_alt)


section \<open>Campaigns stay within their budget\<close>

lemma number_from_length [simp]: "length (number_from i ops) = length ops"
  by (induction i ops rule: number_from.induct) simp_all

lemma spread_due_length [simp]: "length (spread_due prior scheduler due items) = length items"
  by (induction prior scheduler due items rule: spread_due.induct) (simp_all add: Let_def split: prod.splits)

lemma chain_parents_length [simp]: "length (chain_parents prior ss) = length ss"
  by (induction prior ss rule: chain_parents.induct) simp_all

lemma queue_arrivals_length [simp]: "length (queue_arrivals i n arrivals) = n"
  by (induction i n arrivals rule: queue_arrivals.induct) (simp_all add: Let_def split: prod.splits)

lemma cycle_operations_length [simp]: "length (cycle_operations seeds retrieve acknowledge cycle) = 3"
  by (simp add: cycle_operations_def Let_def)

lemma chain_lengths [simp]:
  "length (first_acknowledged_chain event retrieve acknowledge) = 5" "length (second_cycle suffix) = 7"
  by (simp_all add: first_acknowledged_chain_def second_cycle_def)

lemma generated_chain_length: "length (en_stimuli (generated_chain seed store)) \<le> 26"
proof -
  have "unat (sd_source (derive_seeds seed) mod 3) \<le> 2"
    using unat_mod [of "sd_source (derive_seeds seed)" 3] by simp
  moreover have "sum_list (map (\<lambda>_. 3) [0..<n]) = 3 * n" for n :: nat
    by (induction n) simp_all
  ultimately show ?thesis
    by (simp add: generated_chain_def Let_def length_concat o_def)
qed

lemma length_if_le: "length xs \<le> n \<Longrightarrow> length ys \<le> n \<Longrightarrow> length (if c then xs else ys) \<le> n"
  by simp

lemma case_stimuli_length: "length (case_stimuli case_id seeds) \<le> 26"
  unfolding case_stimuli_def Let_def
  by (intro length_if_le) (simp_all add: complete_chain_def claimed_chain_def)

lemma scenario_length: "scenario case_id seed store = Inr e \<Longrightarrow> length (en_stimuli e) \<le> 26"
  using case_stimuli_length [of case_id "derive_seeds seed"] by (auto simp: scenario_def Let_def split: if_splits)

lemma campaign_runs_length:
  "campaign_runs i n source schedule store = Some es \<Longrightarrow> sum_list (map (length \<circ> en_stimuli) es) \<le> 26 * n"
proof (induction n arbitrary: i source schedule es)
  case (Suc n)
  obtain schedule' seed where s: "split_mix_next schedule = (schedule', seed)" by (cases "split_mix_next schedule")
  obtain source' v where v: "split_mix_next source = (source', v)" by (cases "split_mix_next source")
  from Suc.prems obtain e rest where es: "es = e # rest" "length (en_stimuli e) \<le> 26"
    and rest: "campaign_runs (Suc i) n source schedule' store = Some rest
      \<or> campaign_runs (Suc i) n source' schedule' store = Some rest"
    by (auto simp: s v Let_def generated_chain_length scenario_length split: if_splits sum.splits)
  from rest Suc.IH have "sum_list (map (length \<circ> en_stimuli) rest) \<le> 26 * n" by blast
  with es show ?case by (simp add: o_def)
qed simp

text \<open>
  C39: a campaign of at most 256 runs always resolves, to exactly its runs and to at most 26 stimuli a
  run, so the aggregate event budget never refuses it; a larger one is refused before anything is
  resolved. No seed makes the resolution panic.
\<close>

theorem campaign_within_budget:
  "case campaign_envelopes seed runs store of
     None \<Rightarrow> False
   | Some (Inl e) \<Rightarrow> MAX_CAMPAIGN_RUNS < runs
   | Some (Inr envelopes) \<Rightarrow> runs \<le> MAX_CAMPAIGN_RUNS \<and> length envelopes = runs
       \<and> sum_list (map (length \<circ> en_stimuli) envelopes) \<le> 26 * runs"
proof (cases "runs > MAX_CAMPAIGN_RUNS")
  case True
  then show ?thesis by (simp add: campaign_envelopes_def)
next
  case False
  obtain es where es: "campaign_runs 0 runs (seed XOR 0x736f75726365) (seed XOR 0x7363686564756c65) store = Some es"
    "length es = runs" using campaign_runs_Some by blast
  from campaign_runs_length [OF es(1)] have total: "sum_list (map (length \<circ> en_stimuli) es) \<le> 26 * runs" .
  with False have "sum_list (map (length \<circ> en_stimuli) es) \<le> MAX_CAMPAIGN_EVENTS"
    by (simp add: MAX_CAMPAIGN_EVENTS_def MAX_CAMPAIGN_RUNS_def)
  with False es total show ?thesis by (simp add: campaign_envelopes_def Let_def)
qed

end
