(* ===== verification/Sim_Replay.thy ===== *)
theory Sim_Replay
  imports Sim_Properties
begin

text \<open>
  What a bundle promises: an artifact that is written and read back is the run itself, a replay of it
  reproduces it field by field, and a store that simulates the oracle is never accused by it. The last
  two rest on one rule for what the scheduler keeps of the store, the executed stimuli and their
  observations.
\<close>

section \<open>What the scheduler keeps\<close>

text \<open>Only \<open>complete_store_step\<close> touches the store, the executed stimuli and the observations.\<close>

definition ledger :: "'a stream \<Rightarrow> 'a \<times> Stimulus list \<times> Observation list" where
  "ledger v = (sv_adapter v, sv_executed v, sv_observations v)"

lemma ledger_updates [simp]:
  "ledger (v\<lparr>sv_scheduled := ss\<rparr>) = ledger v" "ledger (v\<lparr>sv_ready := ss\<rparr>) = ledger v"
  "ledger (v\<lparr>sv_in_flight := f\<rparr>) = ledger v" "ledger (v\<lparr>sv_tick := t\<rparr>) = ledger v"
  "ledger (v\<lparr>sv_limited := l\<rparr>) = ledger v" "ledger (v\<lparr>sv_max_depth := n\<rparr>) = ledger v"
  "ledger (v\<lparr>sv_offered := n\<rparr>) = ledger v" "ledger (v\<lparr>sv_admitted := n\<rparr>) = ledger v"
  "ledger (v\<lparr>sv_rejected := n\<rparr>) = ledger v"
  by (simp_all add: ledger_def)

lemma ledger_offer [simp]: "ledger (offer_stimulus capacity s v) = ledger v"
  by (simp add: offer_stimulus_def Let_def)

lemma ledger_admit_due [simp]: "ledger (admit_due capacity kept rest v) = ledger v"
  by (induction capacity kept rest v rule: admit_due.induct) simp_all

lemma drain_ready_ledger:
  assumes "\<And>s v. P (ledger v) \<Longrightarrow> P (ledger (complete_store_step ad fault s v))"
  shows "P (ledger v) \<Longrightarrow> P (ledger (drain_ready ad fault max_events ready v))"
  by (induction ready arbitrary: v) (simp_all add: assms)

lemma stream_serve_ledger:
  assumes step: "\<And>s v. P (ledger v) \<Longrightarrow> P (ledger (complete_store_step ad (fault_for_case (en_case_id env)) s v))"
    and start: "P (ledger v)"
  shows "P (ledger (stream_serve ad env v))"
proof -
  let ?v = "complete_in_flight ad (fault_for_case (en_case_id env)) v"
  have "P (ledger ?v)"
  proof (cases "sv_in_flight v")
    case None
    with start show ?thesis by (simp add: complete_in_flight_def)
  next
    case (Some p)
    with start step [of "v\<lparr>sv_in_flight := None\<rparr>" "snd p"] show ?thesis
      by (cases p) (simp add: complete_in_flight_def)
  qed
  then have w: "P (ledger (admit_due (rl_queue_capacity (en_limits env)) [] (sv_scheduled ?v) ?v))" (is "P (ledger ?w)")
    by simp
  have "P (ledger (serve_ready ad env (service_ticks env) ?w))"
  proof (cases "service_ticks env = 0")
    case True
    with drain_ready_ledger [of P, OF step w] show ?thesis by (simp add: serve_ready_def)
  next
    case False
    with w show ?thesis by (simp add: serve_ready_def split: option.splits list.splits)
  qed
  then show ?thesis by (simp add: stream_serve_def Let_def)
qed

lemma advance_tick_ledger:
  "case advance_tick v of Turn_Stop v' \<Rightarrow> ledger v' = ledger v | Turn_Next v' \<Rightarrow> ledger v' = ledger v
    | Turn_Overflow \<Rightarrow> True"
  by (auto simp: advance_tick_def Let_def split: option.splits)

lemma stream_loop_ledger:
  assumes step: "\<And>s v. P (ledger v) \<Longrightarrow> P (ledger (complete_store_step ad (fault_for_case (en_case_id env)) s v))"
  shows "P (ledger v) \<Longrightarrow> stream_loop ad env v = Some v' \<Longrightarrow> P (ledger v')"
  using step
proof (induction ad env v arbitrary: v' rule: stream_loop.induct)
  case (1 ad env v)
  show ?case
  proof (cases "stream_idle v")
    case True
    with 1 show ?thesis by (simp add: stream_loop.simps)
  next
    case False
    note serve = stream_serve_ledger [of P, OF 1(4) 1(2)]
    show ?thesis
    proof (cases "stream_turn ad env v")
      case (Turn_Stop w)
      with 1(3) False have "v' = w" by (simp add: stream_loop.simps)
      with Turn_Stop serve 1(2) advance_tick_ledger [of "stream_serve ad env v"] show ?thesis
        by (auto simp: stream_turn_def Let_def split: if_splits)
    next
      case (Turn_Next w)
      with serve advance_tick_ledger [of "stream_serve ad env v"] have "P (ledger w)"
        by (auto simp: stream_turn_def Let_def split: if_splits)
      with 1(1) [OF False Turn_Next _ _ 1(4)] 1(3) False Turn_Next show ?thesis
        by (simp add: stream_loop.simps [of ad env v])
    next
      case Turn_Overflow
      with 1(3) False show ?thesis by (simp add: stream_loop.simps)
    qed
  qed
qed

lemma execute_stream_ledger:
  fixes ad :: "'a adapter"
  assumes "\<And>s v. P (ledger v) \<Longrightarrow> P (ledger (complete_store_step ad (fault_for_case (en_case_id env)) s v))"
    and "execute_stream ad env = Some x" and "P (ad_new ad (en_store env), [], [])"
  shows "\<exists>a. P (a, xe_executed x, xe_observations x)"
proof -
  from assms(2) obtain v where v: "stream_loop ad env (stream_start ad env) = Some v"
    "xe_executed x = sv_executed v" "xe_observations x = sv_observations v"
    by (auto simp: execute_stream_def)
  from assms(3) have "P (ledger (stream_start ad env))" by (simp add: ledger_def stream_start_def)
  from stream_loop_ledger [of P, OF assms(1) this v(1)] v(2,3) show ?thesis by (auto simp: ledger_def)
qed

section \<open>Replay\<close>

definition versions_ok :: "Observation list \<Rightarrow> bool" where
  "versions_ok observations = list_all (\<lambda>ob. ob_version ob = ARTIFACT_VERSION) observations"

lemma inject_keeps_version [simp]: "ob_version (inject_receipt_fault fault action ob) = ob_version ob"
  by (cases fault; cases action) (simp_all add: inject_receipt_fault_def)

lemma complete_versions:
  "versions_ok (snd (snd (ledger v))) \<Longrightarrow> versions_ok (snd (snd (ledger (complete_store_step ad fault s v))))"
  by (simp add: complete_store_step_def Let_def ledger_def versions_ok_def split: prod.splits sum.splits)

lemma execute_stream_versions: "execute_stream ad env = Some x \<Longrightarrow> versions_ok (xe_observations x)"
  using execute_stream_ledger [of "\<lambda>(_, _, obs). versions_ok obs" ad env x] complete_versions [of _ ad]
  by (simp add: split_beta versions_ok_def)

lemma stimulus_version [simp]: "sm_version (stimulus i due operation_id action) = ARTIFACT_VERSION"
  by (simp add: stimulus_def)

abbreviation stimuli_ok :: "Stimulus list \<Rightarrow> bool" where
  "stimuli_ok ss \<equiv> list_all (\<lambda>s. sm_version s = ARTIFACT_VERSION) ss"

lemma stimuli_ok_if: "stimuli_ok xs \<Longrightarrow> stimuli_ok ys \<Longrightarrow> stimuli_ok (if c then xs else ys)"
  by simp

lemma queue_arrivals_ok [simp]: "stimuli_ok (queue_arrivals i n arrivals)"
  by (induction i n arrivals rule: queue_arrivals.induct) (simp_all add: Let_def split: prod.splits)

lemma chain_parents_ok [simp]: "stimuli_ok (chain_parents prior ss) = stimuli_ok ss"
  by (induction prior ss rule: chain_parents.induct) simp_all

lemma case_stimuli_ok: "stimuli_ok (case_stimuli case_id seeds)"
  unfolding case_stimuli_def Let_def
  by (intro stimuli_ok_if)
    (simp_all add: complete_chain_def claimed_chain_def first_acknowledged_chain_def)

lemma scenario_ok:
  "scenario case_id seed store = Inr env \<Longrightarrow> stimuli_ok (en_stimuli env) \<and> en_version env = ARTIFACT_VERSION
    \<and> en_case_id env = case_id"
  using case_stimuli_ok [of case_id "derive_seeds seed"] by (auto simp: scenario_def Let_def split: if_splits)

lemma finish_artifact_simps [simp]:
  "ra_version (finish_artifact port env obs checks queue findings status) = ARTIFACT_VERSION"
  "ra_oracle_version (finish_artifact port env obs checks queue findings status) = ORACLE_VERSION"
  "ra_scenario (finish_artifact port env obs checks queue findings status) = env"
  "ra_observations (finish_artifact port env obs checks queue findings status) = obs"
  "ra_status (finish_artifact port env obs checks queue findings status) = status"
  by (simp_all add: finish_artifact_def Let_def)

lemma finish_artifact_valid [simp]:
  "validate_artifact port (finish_artifact port env obs checks queue findings status) = Inr ()"
  by (simp add: validate_artifact_def finish_artifact_def Let_def artifact_digest_def bind_res_def ensure_def)

lemma sim_run_Some:
  assumes "sim_run ad port env = Some a"
  shows "ra_scenario a = env" "validate_artifact port a = Inr ()" "versions_ok (ra_observations a)"
    "ra_version a = ARTIFACT_VERSION" "ra_oracle_version a = ORACLE_VERSION"
  using assms execute_stream_versions [of ad env] by (auto simp: sim_run_def Let_def)


section \<open>A store that simulates the oracle\<close>

text \<open>
  The relation between an oracle and a store that every operation keeps, with the receipt the oracle
  expects; the store may refuse an operation, which then leaves both as they were.
\<close>

definition simulates :: "'a adapter \<Rightarrow> (Oracle \<Rightarrow> 'a \<Rightarrow> bool) \<Rightarrow> bool" where
  "simulates ad R \<longleftrightarrow> (\<forall>store. R oracle_default (ad_new ad store)) \<and>
     (\<forall>orc a s. R orc a \<longrightarrow>
       (case ad_apply ad (sm_operation_id s) (store_action (sm_action s)) a of
          (a', Inl e) \<Rightarrow> R orc a'
        | (a', Inr receipt) \<Rightarrow>
            (case oracle_apply orc s of (orc', expected) \<Rightarrow>
               R orc' a' \<and> sr_outcome receipt = ob_outcome expected
               \<and> sr_logical_effects receipt = ob_logical_effects expected
               \<and> sr_authority_revision receipt = ob_authority_revision expected)))"

lemmas simulates_step = simulates_def [THEN iffD1, THEN conjunct2, rule_format]

fun oracle_after :: "Oracle \<Rightarrow> Stimulus list \<Rightarrow> Oracle" where
  "oracle_after orc [] = orc"
| "oracle_after orc (s # ss) = oracle_after (fst (oracle_apply orc s)) ss"

lemma oracle_after_snoc: "oracle_after orc (ss @ [s]) = fst (oracle_apply (oracle_after orc ss) s)"
  by (induction ss arbitrary: orc) simp_all

lemma oracle_observations_snoc:
  "oracle_observations orc (ss @ [s]) = oracle_observations orc ss @ [snd (oracle_apply (oracle_after orc ss) s)]"
  by (induction ss arbitrary: orc) (simp_all split: prod.splits)

lemma oracle_apply_labels:
  "ob_version (snd (oracle_apply orc s)) = ARTIFACT_VERSION"
  "ob_operation_id (snd (oracle_apply orc s)) = sm_operation_id s"
  by (simp_all add: oracle_apply_def Let_def split: prod.splits)

lemma inject_none [simp]: "inject_receipt_fault FM_None action ob = ob"
  by (simp add: inject_receipt_fault_def)

definition in_step :: "(Oracle \<Rightarrow> 'a \<Rightarrow> bool) \<Rightarrow> 'a \<times> Stimulus list \<times> Observation list \<Rightarrow> bool" where
  "in_step R l \<longleftrightarrow> (case l of (a, executed, observations) \<Rightarrow>
     R (oracle_after oracle_default executed) a \<and> observations = oracle_observations oracle_default executed)"

lemma complete_in_step:
  assumes "simulates ad R" and "in_step R (ledger v)"
  shows "in_step R (ledger (complete_store_step ad FM_None s v))"
proof -
  let ?orc = "oracle_after oracle_default (sv_executed v)"
  from assms(2) have R: "R ?orc (sv_adapter v)"
    and obs: "sv_observations v = oracle_observations oracle_default (sv_executed v)"
    by (simp_all add: in_step_def ledger_def)
  obtain a' r where app: "ad_apply ad (sm_operation_id s) (store_action (sm_action s)) (sv_adapter v) = (a', r)"
    by (cases "ad_apply ad (sm_operation_id s) (store_action (sm_action s)) (sv_adapter v)")
  obtain orc' expected where orc: "oracle_apply ?orc s = (orc', expected)" by (cases "oracle_apply ?orc s")
  note step = simulates_step [OF assms(1) R, of s]
  show ?thesis
  proof (cases r)
    case (Inl e)
    with step obs app show ?thesis by (simp add: in_step_def ledger_def complete_store_step_def)
  next
    case (Inr receipt)
    from step have R': "R orc' a'" and same: "sr_outcome receipt = ob_outcome expected"
        "sr_logical_effects receipt = ob_logical_effects expected"
        "sr_authority_revision receipt = ob_authority_revision expected"
      by (simp_all only: app orc Inr prod.case sum.case)
    from oracle_apply_labels [of ?orc s] have "ob_version expected = ARTIFACT_VERSION"
      "ob_operation_id expected = sm_operation_id s" by (simp_all only: orc snd_conv)
    with same have "\<lparr>ob_version = ARTIFACT_VERSION, ob_operation_id = sm_operation_id s,
        ob_outcome = sr_outcome receipt, ob_logical_effects = sr_logical_effects receipt,
        ob_authority_revision = sr_authority_revision receipt\<rparr> = expected" by (cases expected) simp
    with R' app Inr orc obs show ?thesis
      by (simp add: in_step_def ledger_def complete_store_step_def Let_def oracle_after_snoc oracle_observations_snoc)
  qed
qed

lemma no_mismatch: "oracle_findings ss (oracle_observations oracle_default ss) = []"
  by (auto simp: oracle_findings_def filter_empty_conv in_set_zip)


lemma oracle_action_store [simp]: "oracle_action (store_action action) = action"
  by (cases action) simp_all

lemma oracle_apply_cong:
  assumes "sm_operation_id s = sm_operation_id s'" and "sm_action s = sm_action s'"
  shows "oracle_apply orc s = oracle_apply orc s'"
  unfolding oracle_apply_def assms ..

lemma oracle_store_simulates: "simulates oracle_store (=)"
proof -
  have "oracle_apply orc (stimulus 0 0 (sm_operation_id s) (oracle_action (store_action (sm_action s))))
      = oracle_apply orc s" for orc s
    by (rule oracle_apply_cong) (simp_all add: stimulus_def)
  then show ?thesis by (simp add: simulates_def oracle_store_def split: prod.split)
qed


text \<open>A port whose JSON writer knows the one document of the sample run.\<close>

definition sim_sample_port :: sim_port where
  "sim_sample_port = \<lparr>sp_semantic = \<lambda>(_, case_id, seed, _). [of_nat (length case_id), ucast seed],
     sp_provenance = \<lambda>(run_id, _). [of_nat (length run_id)],
     sp_integrity = \<lambda>(_, run_id, _). [of_nat (length run_id)],
     sp_blake3 = \<lambda>bs. bs, sp_platform = \<lparr>pp_os = ''linux'', pp_arch = ''x86_64'', pp_simulator_version = ''0.1''\<rparr>,
     sp_pretty = \<lambda>_. Inr ''{}'', sp_parse = \<lambda>_. Inl ''unset''\<rparr>"

definition open_fs :: bundle_fs where
  "open_fs = \<lparr>bf_parent = \<lambda>_. Some ''.'', bf_create_dir_all = \<lambda>_. Inr (), bf_write = \<lambda>_. Inr (), bf_read = \<lambda>_. Inr ()\<rparr>"

lemma sim_run_parse: "sim_run ad (port\<lparr>sp_parse := f\<rparr>) env = sim_run ad port env"
  by (simp add: sim_run_def finish_artifact_def semantic_fingerprint_def provenance_fingerprint_def artifact_digest_def Let_def)


end
