(* ===== verification/Sim_Stream.thy ===== *)
theory Sim_Stream
  imports Sim_Run Recovery
begin

text \<open>
  The store behind the simulator, \<open>gearwit-host/src/simulator.rs\<close>: the stream driver that turns a
  scenario's actions into calls of the store, over the in-memory store, with the fixture of
  \<open>gearwit-host/src/conformance.rs\<close> it starts from. A failed \<open>expect\<close> is \<open>None\<close>. The draws of entropy are given by
  the number of the call; the other store, SQLite, is not modelled.
\<close>

record stream_env =
  sq_blake3 :: "bytes \<Rightarrow> bytes"
  sq_parse_time :: "string \<Rightarrow> instant option"
  sq_mac_key :: "nat \<Rightarrow> bytes"
  sq_payload_ref :: "nat \<Rightarrow> bytes option"
  sq_retrieval_id :: "nat \<Rightarrow> bytes option"
  sq_evidence_ref :: "nat \<Rightarrow> string \<Rightarrow> bytes option"
  sq_debug_retrieve :: "PersistError + AuthorizedRetrieve IdempotentResult \<Rightarrow> string"

abbreviation sq_recover ::
  "stream_env \<Rightarrow> nat \<Rightarrow> FakePersist \<Rightarrow> FakePersist \<times> (PersistError + RecoverySnapshot)" where
  "sq_recover env n s \<equiv> recover_authority_state (sq_blake3 env) (sq_evidence_ref env n) s"

text \<open>\<open>.expect(..)\<close> on a result.\<close>

definition expect :: "'e + 'a \<Rightarrow> 'a option" where
  "expect r = (case r of Inl _ \<Rightarrow> None | Inr x \<Rightarrow> Some x)"

fun debug_error :: "PersistError \<Rightarrow> string" where
  "debug_error Conflict = ''Conflict''"
| "debug_error InvalidTransition = ''InvalidTransition''"
| "debug_error Unauthorized = ''Unauthorized''"
| "debug_error PayloadUnavailable = ''PayloadUnavailable''"
| "debug_error StorageUnavailable = ''StorageUnavailable''"

section \<open>The fixture\<close>

definition fixture_id :: "byte \<Rightarrow> bytes" where
  "fixture_id byte = replicate 32 byte"

definition synthetic_drain_witness :: "BoundedClaimPayload \<Rightarrow> string list \<Rightarrow> ClaimDrainWitness" where
  "synthetic_drain_witness payload event_refs =
     \<lparr>dw_provider = pv_provider (hd (bp_events payload)), dw_drain_filter_scope = ''fixture-drain'',
      dw_event_refs = event_refs, dw_source_evidence_id = replicate 32 0x42\<rparr>"

definition synthetic_claim_coverage ::
  "(bytes \<Rightarrow> bytes) \<Rightarrow> string \<Rightarrow> string \<Rightarrow> u64 \<Rightarrow> string \<Rightarrow> string list \<Rightarrow> BoundedClaimPayload
    \<Rightarrow> ClaimDrainWitness \<Rightarrow> ClaimCoverageEvidence" where
  "synthetic_claim_coverage blake3 request_id arm_id generation signal_id event_refs payload drain =
     \<lparr>ce_request_id = request_id, ce_arm_id = arm_id, ce_generation = generation, ce_signal_id = signal_id,
      ce_provider = pv_provider (hd (bp_events payload)), ce_drain_filter_scope = dw_drain_filter_scope drain,
      ce_drain_baseline = hd (dw_event_refs drain),
      ce_event_batch_digest = canonical_event_batch_digest blake3 event_refs,
      ce_covered_through = last event_refs, ce_source_evidence_id = dw_source_evidence_id drain\<rparr>"

fun records_of :: "(string \<Rightarrow> instant option) \<Rightarrow> ProviderEvent list \<Rightarrow> ProviderEventRecord list option" where
  "records_of parse_time [] = Some []"
| "records_of parse_time (event # events) =
     Option.bind (expect (event_record_try_from parse_time event)) (\<lambda>r.
     map_option (Cons r) (records_of parse_time events))"

definition claim_admission_fixture ::
  "stream_env \<Rightarrow> string \<Rightarrow> string \<Rightarrow> u64 \<Rightarrow> string \<Rightarrow> ProviderEvent list \<Rightarrow> instant \<Rightarrow> ClaimAdmission option" where
  "claim_admission_fixture env request_id arm_id generation signal_id events claimed_at =
     Option.bind (records_of (sq_parse_time env) events) (\<lambda>records.
     Option.bind (expect (bounded_vec_try_from 1 64 (map pv_event_ref records))) (\<lambda>event_refs.
     Option.bind (expect (claim_payload_try_from records)) (\<lambda>payload.
     Option.bind (expect (bounded_id_new request_id)) (\<lambda>request_id.
       let drain = synthetic_drain_witness payload event_refs;
           coverage = synthetic_claim_coverage (sq_blake3 env) request_id arm_id generation signal_id
             event_refs payload drain
       in Some \<lparr>cl_request_id = request_id, cl_arm_id = arm_id, cl_generation = generation,
            cl_signal_id = signal_id, cl_event_refs = event_refs,
            cl_claim_digest = canonical_claim_digest (sq_blake3 env) request_id arm_id generation signal_id
              event_refs payload (Some coverage) (Some drain),
            cl_payload = payload, cl_claimed_at = claimed_at, cl_coverage = Some coverage,
            cl_drain_witness = Some drain\<rparr>))))"

definition wire_event :: "string \<Rightarrow> string \<Rightarrow> ProviderEvent" where
  "wire_event event_ref body =
     \<lparr>pe_provider = ''test'', pe_event_ref = event_ref, pe_actor = None,
      pe_observed_at = ''1970-01-01T00:00:00Z'', pe_body = body\<rparr>"

definition fixture_birth :: PersistedControllerBirth where
  "fixture_birth = \<lparr>br_birth_id = fixture_id 1, br_seat_id = ''seat-a'', br_arm_id = ''arm-a'', br_generation = 1,
     br_capability = HandleClaimedSignal, br_lease_until = seconds 60, br_verifier_ref = fixture_id 3,
     br_created_at = 0, br_revoked = False\<rparr>"

definition fixture_create :: ThreadCreateReservation where
  "fixture_create = \<lparr>tr_birth_id = fixture_id 1, tr_create_attempt_id = fixture_id 2, tr_reserved_at = 0\<rparr>"

definition fixture_attachment :: PersistedControllerAttachment where
  "fixture_attachment = \<lparr>pt_attempt_id = ''attempt-a'', pt_birth_id = fixture_id 1, pt_seat_id = ''seat-a'',
     pt_arm_id = ''arm-a'', pt_generation = 1, pt_capability = HandleClaimedSignal,
     pt_lease_until = seconds 60, pt_verifier_ref = fixture_id 8, pt_revoked = False\<rparr>"

definition fixture_grant :: "bytes \<Rightarrow> PersistedHelperGrant" where
  "fixture_grant claim_digest =
     \<lparr>hg_grant_verifier = replicate 32 0x33, hg_grant_ref = fixture_id 9, hg_seat_id = ''seat-a'',
      hg_arm_id = ''arm-a'', hg_generation = 1, hg_birth_id = fixture_id 1, hg_attempt_id = ''attempt-a'',
      hg_signal_id = ''signal-a'', hg_claim_digest = claim_digest, hg_operations = helper_operations_all,
      hg_lease_until = seconds 60,
      hg_executable_identity = \<lparr>hi_image_digest = replicate 32 0x11, hi_file_identity = ''gearwit-helper'',
        hi_build_identity = ''build-1''\<rparr>,
      hg_revoked = False\<rparr>"

definition fixture_binding :: "bytes \<Rightarrow> ValidatedHelperBinding" where
  "fixture_binding claim_digest =
     \<lparr>hb_grant_ref = fixture_id 9, hb_seat_id = ''seat-a'', hb_arm_id = ''arm-a'', hb_generation = 1,
      hb_birth_id = fixture_id 1, hb_attempt_id = ''attempt-a'', hb_signal_id = ''signal-a'',
      hb_claim_digest = claim_digest, hb_operations = helper_operations_all, hb_lease_until = seconds 60\<rparr>"

record Prepared =
  pf_store :: FakePersist
  pf_binding :: ValidatedHelperBinding
  pf_admission :: ClaimAdmission
  pf_attachment :: PersistedControllerAttachment

text \<open>\<open>install_helper\<close> on the new store of \<open>FakeFixture::prepare\<close>; the draws are those of number 0.\<close>

definition install_helper :: "stream_env \<Rightarrow> FakePersist \<Rightarrow> Prepared option" where
  "install_helper env s =
     (case reserve_controller_birth s fixture_birth fixture_create of (s, reserved) \<Rightarrow>
     Option.bind (expect reserved) (\<lambda>_.
     case persist_arm s \<lparr>pm_arm_id = ''arm-a'', pm_generation = 1, pm_seat_id = ''seat-a'',
       pm_capability = HandleClaimedSignal, pm_coverage_until = seconds 600\<rparr> of (s, armed) \<Rightarrow>
     Option.bind (expect armed) (\<lambda>_.
     Option.bind (claim_admission_fixture env ''claim-a'' ''arm-a'' 1 ''signal-a''
       [wire_event ''event-a'' ''test-a'', wire_event ''event-b'' ''test-b''] 0) (\<lambda>admission.
     case admit_claim (sq_blake3 env) (sq_payload_ref env 0) s admission fixture_attachment of (s, admitted) \<Rightarrow>
     Option.bind (expect admitted) (\<lambda>_.
     case persist_helper_grant s (fixture_grant (cl_claim_digest admission)) of (s, granted) \<Rightarrow>
     map_option (\<lambda>_. \<lparr>pf_store = s, pf_binding = fixture_binding (cl_claim_digest admission),
       pf_admission = admission, pf_attachment = fixture_attachment\<rparr>) (expect granted))))))"

definition fake_prepare :: "stream_env \<Rightarrow> Prepared option" where
  "fake_prepare env = install_helper env (fake_persist_default (sq_mac_key env 0))"

definition fake_reopen :: "stream_env \<Rightarrow> nat \<Rightarrow> FakePersist \<Rightarrow> PersistError + FakePersist" where
  "fake_reopen env n s =
     (let payloads = fp_payloads s in
      bind_res (snd (sq_recover env n s)) (\<lambda>snapshot.
        restore_from_snapshot (sq_blake3 env) (sq_mac_key env n) snapshot payloads))"

definition fake_install_terminal ::
  "stream_env \<Rightarrow> nat \<Rightarrow> ValidatedHelperBinding \<Rightarrow> bytes \<Rightarrow> FakePersist \<Rightarrow> FakePersist \<times> (PersistError + unit)" where
  "fake_install_terminal env n binding fixture s =
     (let payloads = fp_payloads s in
      case sq_recover env n s of (s, recovered) \<Rightarrow>
      try_in s recovered (\<lambda>snapshot.
        let facts = filter (\<lambda>f. nf_attempt_id f \<noteq> hb_attempt_id binding) (sn_native_turn_facts snapshot)
              @ [\<lparr>nf_attempt_id = hb_attempt_id binding, nf_facts = [NF_Terminal fixture TC_Succeeded]\<rparr>]
        in try_in s (restore_from_snapshot (sq_blake3 env) (sq_mac_key env n)
             (snapshot\<lparr>sn_native_turn_facts := facts\<rparr>) payloads) (\<lambda>s. (s, Inr ()))))"

section \<open>The driver\<close>

record StreamDriver =
  dv_store :: "FakePersist option"
  dv_binding :: ValidatedHelperBinding
  dv_attachment :: PersistedControllerAttachment
  dv_admissions :: "(string, string \<times> ClaimAdmission \<times> PersistedControllerAttachment) btree"
  dv_offered :: "string list"
  dv_last_retrieve :: "AuthorizedRetrieve option"
  dv_admitted_event_ref :: "string option"
  dv_blueprint :: RecoverySnapshot
  dv_grant_installed :: bool
  dv_arm_count :: u64
  dv_cycle_admitted :: bool
  dv_logical_effects :: u64
  dv_revision :: u64
  dv_draws :: nat

definition driver_new :: "stream_env \<Rightarrow> StreamDriver option" where
  "driver_new env =
     Option.bind (fake_prepare env) (\<lambda>prepared.
     map_option (\<lambda>blueprint.
       \<lparr>dv_store = Some (fake_persist_default (sq_mac_key env 1)), dv_binding = pf_binding prepared,
        dv_attachment = pf_attachment prepared, dv_admissions = bt_empty, dv_offered = [],
        dv_last_retrieve = None, dv_admitted_event_ref = None, dv_blueprint = blueprint,
        dv_grant_installed = False, dv_arm_count = 0, dv_cycle_admitted = False, dv_logical_effects = 0,
        dv_revision = 0, dv_draws = 1\<rparr>)
       (expect (snd (sq_recover env 0 (pf_store prepared)))))"

definition identity_bytes :: "stream_env \<Rightarrow> string \<Rightarrow> string \<Rightarrow> bytes" where
  "identity_bytes env domain value =
     sq_blake3 env (string_bytes ''gearwit.simulator-identity.v1'' @ [0] @ string_bytes domain @ [0]
       @ string_bytes value)"

definition bounded_id :: "stream_env \<Rightarrow> string \<Rightarrow> string \<Rightarrow> string" where
  "bounded_id env prefix value =
     prefix @ ''-'' @ concat (map (\<lambda>b. [hex_digit (unat b div 16), hex_digit (unat b mod 16)])
       (identity_bytes env prefix value))"

definition stream_retrieve :: "stream_env \<Rightarrow> ValidatedHelperBinding \<Rightarrow> string \<Rightarrow> RetrieveExchange" where
  "stream_retrieve env binding request =
     (let request_id = identity_bytes env ''retrieve-request'' request
      in \<lparr>re_binding = binding, re_request_id = request_id,
          re_canonical_body_digest = canonical_retrieve_body_digest (sq_blake3 env)
            (canonical_binding_digest (sq_blake3 env) binding) request_id\<rparr>)"

definition stream_ack ::
  "stream_env \<Rightarrow> ValidatedHelperBinding \<Rightarrow> bytes \<Rightarrow> string \<Rightarrow> string \<Rightarrow> AcknowledgeRequest option" where
  "stream_ack env binding retrieval_id cursor request =
     map_option (\<lambda>cursor.
       let request_id = identity_bytes env ''ack-request'' request
       in \<lparr>aq_request_id = request_id, aq_retrieval_id = retrieval_id, aq_cursor = cursor,
           aq_canonical_body_digest = canonical_ack_body_digest (sq_blake3 env)
             (canonical_binding_digest (sq_blake3 env) binding) request_id retrieval_id cursor\<rparr>)
       (expect (event_ref_new cursor))"

definition revocation_scope :: "ValidatedHelperBinding \<Rightarrow> HelperRevocationScope" where
  "revocation_scope binding = \<lparr>hv_grant_ref = hb_grant_ref binding, hv_birth_id = hb_birth_id binding,
     hv_attempt_id = hb_attempt_id binding\<rparr>"

definition join_scope :: "ValidatedHelperBinding \<Rightarrow> RearmJoinScope" where
  "join_scope binding = \<lparr>js_arm_id = hb_arm_id binding, js_generation = hb_generation binding,
     js_attempt_id = hb_attempt_id binding, js_signal_id = hb_signal_id binding\<rparr>"

text \<open>\<open>?\<close> on a store call: the store it leaves, and the error by its debug text.\<close>

definition on_store ::
  "FakePersist \<times> (PersistError + 'a) \<Rightarrow> StreamDriver \<Rightarrow> (StreamDriver \<Rightarrow> 'a \<Rightarrow> StreamDriver \<times> (string + 'b))
    \<Rightarrow> StreamDriver \<times> (string + 'b)" where
  "on_store call d k =
     (case call of (s, r) \<Rightarrow>
       let d = d\<lparr>dv_store := Some s\<rparr> in
       case r of Inl e \<Rightarrow> (d, Inl (debug_error e)) | Inr x \<Rightarrow> k d x)"

definition counted :: "string \<Rightarrow> StreamDriver \<Rightarrow> StreamDriver \<times> (string + string)" where
  "counted outcome d = (d\<lparr>dv_revision := dv_revision d + 1\<rparr>, Inr outcome)"

text \<open>The second and later arms: a new generation with identities of its own.\<close>

definition advance_cycle ::
  "stream_env \<Rightarrow> PersistedControllerBirth \<Rightarrow> PersistedArm \<Rightarrow> StreamDriver
    \<Rightarrow> StreamDriver \<times> (string + PersistedControllerBirth \<times> ThreadCreateReservation \<times> PersistedArm)" where
  "advance_cycle env birth arm d =
     (let generation = saturating_add (hb_generation (dv_binding d)) 1;
          cycle = decimal_word (dv_arm_count d);
          birth_id = identity_bytes env ''birth-cycle'' cycle;
          arm = arm\<lparr>pm_generation := generation\<rparr>;
          birth = birth\<lparr>br_generation := generation, br_birth_id := birth_id,
            br_verifier_ref := identity_bytes env ''birth-verifier'' cycle\<rparr>;
          reservation = fixture_create\<lparr>tr_birth_id := birth_id,
            tr_create_attempt_id := identity_bytes env ''birth-reservation'' cycle\<rparr>;
          d = d\<lparr>dv_binding := (dv_binding d)\<lparr>hb_generation := generation, hb_birth_id := birth_id\<rparr>,
            dv_attachment := (dv_attachment d)\<lparr>pt_generation := generation, pt_birth_id := birth_id\<rparr>\<rparr> in
      try_in d (bounded_id_new (bounded_id env ''attempt-cycle'' cycle)) (\<lambda>attempt_id.
      let d = d\<lparr>dv_binding := (dv_binding d)\<lparr>hb_attempt_id := attempt_id\<rparr>\<rparr> in
      try_in d (bounded_id_new (bounded_id env ''signal-cycle'' cycle)) (\<lambda>signal_id.
      (d\<lparr>dv_binding := (dv_binding d)\<lparr>hb_signal_id := signal_id,
           hb_grant_ref := identity_bytes env ''grant-cycle'' cycle\<rparr>,
         dv_attachment := (dv_attachment d)\<lparr>pt_attempt_id := attempt_id,
           pt_verifier_ref := identity_bytes env ''attachment-cycle'' cycle\<rparr>,
         dv_grant_installed := False, dv_cycle_admitted := False, dv_last_retrieve := None,
         dv_admitted_event_ref := None\<rparr>, Inr (birth, reservation, arm)))))"

definition driver_arm :: "stream_env \<Rightarrow> FakePersist \<Rightarrow> StreamDriver \<Rightarrow> StreamDriver \<times> (string + string)" where
  "driver_arm env s d =
     (case (sn_controller_births (dv_blueprint d), sn_arms (dv_blueprint d)) of
        ([], _) \<Rightarrow> (d, Inl ''fixture blueprint had no controller birth'')
      | (_, []) \<Rightarrow> (d, Inl ''fixture blueprint had no arm'')
      | (birth # _, arm # _) \<Rightarrow>
          (case (if dv_arm_count d > 0 then advance_cycle env birth arm d
              else (d, Inr (birth, fixture_create, arm))) of
             (d, Inl e) \<Rightarrow> (d, Inl e)
           | (d, Inr (birth, reservation, arm)) \<Rightarrow>
               on_store (reserve_controller_birth s birth reservation) d (\<lambda>d _.
               on_store (persist_arm (the (dv_store d)) arm) d (\<lambda>d _.
               counted ''armed'' (d\<lparr>dv_arm_count := dv_arm_count d + 1\<rparr>)))))"

text \<open>The claim an operation stands for: the one it made before, or a new one.\<close>

definition driver_claim ::
  "stream_env \<Rightarrow> string \<Rightarrow> string \<Rightarrow> StreamDriver
    \<Rightarrow> (string + ClaimAdmission \<times> PersistedControllerAttachment) option" where
  "driver_claim env operation_id event d =
     (case bt_get (dv_admissions d) operation_id of
        Some (original, admission, attachment) \<Rightarrow>
          Some (Inr (if original \<noteq> event
            then admission\<lparr>cl_claim_digest := identity_bytes env ''changed-claim'' event\<rparr> else admission,
            attachment))
      | None \<Rightarrow>
          let first = \<not> dv_cycle_admitted d in
          (case (if first then Inr (hb_signal_id (dv_binding d))
              else bounded_id_new (bounded_id env ''signal'' operation_id)) of
             Inl e \<Rightarrow> Some (Inl e)
           | Inr signal_id \<Rightarrow>
               map_option (\<lambda>admission.
                 if first then Inr (admission, dv_attachment d)
                 else map_sum (\<lambda>e. e) (\<lambda>attempt_id. (admission, (dv_attachment d)\<lparr>pt_attempt_id := attempt_id,
                     pt_verifier_ref := identity_bytes env ''attachment-verifier'' operation_id\<rparr>))
                   (bounded_id_new (bounded_id env ''attempt'' operation_id)))
                 (claim_admission_fixture env (bounded_id env ''claim'' operation_id)
                   (hb_arm_id (dv_binding d)) (hb_generation (dv_binding d)) signal_id
                   [wire_event (bounded_id env ''event'' event) (''simulator event '' @ event)] 0)))"

definition install_grant ::
  "ClaimAdmission \<Rightarrow> StreamDriver \<Rightarrow> StreamDriver \<times> (string + unit)" where
  "install_grant admission d =
     (if dv_grant_installed d then (d, Inr ())
      else
        case sn_helper_grants (dv_blueprint d) of
          [] \<Rightarrow> (d, Inl ''fixture blueprint had no helper grant'')
        | grant # _ \<Rightarrow>
            let binding = dv_binding d;
                grant = grant\<lparr>hg_claim_digest := cl_claim_digest admission, hg_grant_ref := hb_grant_ref binding,
                  hg_generation := hb_generation binding, hg_birth_id := hb_birth_id binding,
                  hg_attempt_id := hb_attempt_id binding, hg_signal_id := hb_signal_id binding\<rparr>;
                d = d\<lparr>dv_binding := binding\<lparr>hb_claim_digest := cl_claim_digest admission\<rparr>\<rparr>
            in on_store (persist_helper_grant (the (dv_store d)) grant) d (\<lambda>d _.
                 (d\<lparr>dv_grant_installed := True\<rparr>, Inr ())))"

definition remember_admission ::
  "string \<Rightarrow> string \<Rightarrow> ClaimAdmission \<Rightarrow> PersistedControllerAttachment \<Rightarrow> string \<Rightarrow> StreamDriver
    \<Rightarrow> StreamDriver \<times> (string + string)" where
  "remember_admission operation_id event admission attachment outcome d =
     (if bt_contains (dv_admissions d) operation_id then (d, Inr outcome)
      else (d\<lparr>dv_admissions := bt_insert operation_id (event, admission, attachment) (dv_admissions d)\<rparr>,
        Inr outcome))"

definition driver_admit ::
  "stream_env \<Rightarrow> string \<Rightarrow> string \<Rightarrow> FakePersist \<Rightarrow> StreamDriver \<Rightarrow> (StreamDriver \<times> (string + string)) option" where
  "driver_admit env operation_id event s d =
     (if \<not> bt_contains (dv_admissions d) operation_id \<and> event \<notin> set (dv_offered d)
      then Some (d, Inr ''unauthorized'')
      else map_option (\<lambda>claim. case claim of
        Inl e \<Rightarrow> (d, Inl e)
      | Inr (admission, attachment) \<Rightarrow>
          (case admit_claim (sq_blake3 env) (sq_payload_ref env (dv_draws d)) s admission attachment of (s, result) \<Rightarrow>
             let d = d\<lparr>dv_store := Some s\<rparr>;
                 remember = remember_admission operation_id event admission attachment
             in case result of
                  Inr admitted \<Rightarrow>
                    if am_outcome admitted = AO_Admitted then
                      (case install_grant admission d of
                         (d, Inl e) \<Rightarrow> (d, Inl e)
                       | (d, Inr _) \<Rightarrow>
                           remember ''admitted'' (d\<lparr>dv_admitted_event_ref := Some (bounded_id env ''event'' event),
                             dv_cycle_admitted := True, dv_logical_effects := dv_logical_effects d + 1,
                             dv_revision := dv_revision d + 1\<rparr>))
                    else remember ''exact_replay'' d
                | Inl Conflict \<Rightarrow> remember ''conflict'' d
                | Inl Unauthorized \<Rightarrow> remember ''unauthorized'' d
                | Inl InvalidTransition \<Rightarrow> remember ''invalid_transition'' d
                | Inl e \<Rightarrow> (d, Inl (debug_error e))))
        (driver_claim env operation_id event d))"

text \<open>The answers a retrieval and an acknowledgement share.\<close>

definition refused :: "PersistError \<Rightarrow> string + string" where
  "refused e =
     (case e of
        Unauthorized \<Rightarrow> Inr ''unauthorized''
      | InvalidTransition \<Rightarrow> Inr ''invalid_transition''
      | _ \<Rightarrow> Inl (debug_error e))"

definition driver_retrieve ::
  "stream_env \<Rightarrow> string \<Rightarrow> FakePersist \<Rightarrow> StreamDriver \<Rightarrow> StreamDriver \<times> (string + string)" where
  "driver_retrieve env request s d =
     (case record_retrieve_exchange (sq_blake3 env) (sq_retrieval_id env (dv_draws d)) s
         (stream_retrieve env (dv_binding d) request) of (s, result) \<Rightarrow>
        let d = d\<lparr>dv_store := Some s\<rparr> in
        case result of
          Inr (IR_Recorded authorized) \<Rightarrow> counted ''retrieved'' (d\<lparr>dv_last_retrieve := Some authorized\<rparr>)
        | Inr (IR_ExactReplay authorized) \<Rightarrow> (d\<lparr>dv_last_retrieve := Some authorized\<rparr>, Inr ''exact_replay'')
        | Inl e \<Rightarrow> (d, refused e))"

definition driver_stale_retrieve ::
  "stream_env \<Rightarrow> string \<Rightarrow> FakePersist \<Rightarrow> StreamDriver \<Rightarrow> StreamDriver \<times> (string + string)" where
  "driver_stale_retrieve env request s d =
     (case sn_arms (dv_blueprint d) of
        [] \<Rightarrow> (d, Inl ''fixture blueprint had no arm'')
      | arm # _ \<Rightarrow>
          let advanced = arm\<lparr>pm_generation := saturating_add (hb_generation (dv_binding d)) 1\<rparr> in
          on_store (persist_arm s advanced) d (\<lambda>d _.
          case record_retrieve_exchange (sq_blake3 env) (sq_retrieval_id env (dv_draws d)) (the (dv_store d))
              (stream_retrieve env (dv_binding d) request) of (s, result) \<Rightarrow>
            if result = Inl Unauthorized then
              on_store (sq_recover env (2 * dv_draws d) s) d (\<lambda>d recovered.
                if list_ex (\<lambda>arm. pm_arm_id arm = pm_arm_id advanced
                       \<and> pm_generation arm = pm_generation advanced) (sn_arms recovered)
                  \<and> list_ex (\<lambda>grant. \<not> hg_revoked grant) (sn_helper_grants recovered)
                then (d, Inr ''unauthorized'')
                else (d, Inl ''stale retrieve did not preserve current authority''))
            else (d\<lparr>dv_store := Some s\<rparr>,
              Inl (''stale retrieve was accepted: '' @ sq_debug_retrieve env result))))"

definition driver_acknowledge ::
  "stream_env \<Rightarrow> string \<Rightarrow> FakePersist \<Rightarrow> StreamDriver \<Rightarrow> (StreamDriver \<times> (string + string)) option" where
  "driver_acknowledge env request s d =
     (case dv_last_retrieve d of
        None \<Rightarrow> Some (d, Inl ''acknowledgment had no recorded retrieve'')
      | Some authorized \<Rightarrow>
          (case dv_admitted_event_ref d of
             None \<Rightarrow> Some (d, Inl ''acknowledgment had no admitted event'')
           | Some cursor \<Rightarrow>
               map_option (\<lambda>ack.
                 case acknowledge_retrieved_batch (sq_blake3 env) s (dv_binding d) ack of (s, result) \<Rightarrow>
                   let d = d\<lparr>dv_store := Some s\<rparr> in
                   case result of
                     Inr (IR_Recorded _) \<Rightarrow> counted ''acknowledged'' d
                   | Inr (IR_ExactReplay _) \<Rightarrow> (d, Inr ''exact_replay'')
                   | Inl e \<Rightarrow> (d, refused e))
                 (stream_ack env (dv_binding d) (rv_retrieval_id (az_recorded authorized)) cursor request)))"

definition driver_rearm :: "FakePersist \<Rightarrow> StreamDriver \<Rightarrow> StreamDriver \<times> (string + string)" where
  "driver_rearm s d =
     on_store (try_rearm_join s (join_scope (dv_binding d))) d (\<lambda>d joined.
       case joined of
         RJ_Rearmed \<Rightarrow> counted ''rearmed'' d
       | RJ_AlreadyRearmed \<Rightarrow> (d, Inr ''exact_replay'')
       | RJ_WaitingForHandled \<Rightarrow> (d, Inr ''waiting_for_handled'')
       | RJ_WaitingForRecognizedTerminal \<Rightarrow> (d, Inr ''waiting_for_terminal''))"

text \<open>\<open>apply_live\<close>; a restart does not reach it.\<close>

definition apply_live ::
  "stream_env \<Rightarrow> string \<Rightarrow> StoreStreamAction \<Rightarrow> StreamDriver \<Rightarrow> (StreamDriver \<times> (string + string)) option" where
  "apply_live env operation_id action d =
     (case dv_store d of
        None \<Rightarrow> Some (d, Inl ''store unavailable'')
      | Some s \<Rightarrow>
          (case action of
             ST_Arm \<Rightarrow> Some (driver_arm env s d)
           | ST_Offer event \<Rightarrow> Some (counted ''offered'' (d\<lparr>dv_offered := dv_offered d @ [event]\<rparr>))
           | ST_Admit event \<Rightarrow> driver_admit env operation_id event s d
           | ST_Retrieve request \<Rightarrow> Some (driver_retrieve env request s d)
           | ST_StaleRetrieve request \<Rightarrow> Some (driver_stale_retrieve env request s d)
           | ST_Acknowledge request \<Rightarrow> driver_acknowledge env request s d
           | ST_Terminal \<Rightarrow>
               Some (on_store (fake_install_terminal env (2 * dv_draws d) (dv_binding d)
                   (identity_bytes env ''terminal'' operation_id) s) d (\<lambda>d _. counted ''terminal'' d))
           | ST_Rearm \<Rightarrow> Some (driver_rearm s d)
           | ST_Revoke \<Rightarrow>
               Some (on_store (revoke_helper_grant s (revocation_scope (dv_binding d))) d (\<lambda>d _.
                 counted ''revoked'' d))
           | ST_OmitRearm \<Rightarrow> Some (d, Inr ''inactive'')
           | ST_Restart \<Rightarrow> None))"

definition driver_restart :: "stream_env \<Rightarrow> StreamDriver \<Rightarrow> StreamDriver \<times> (string + string)" where
  "driver_restart env d =
     (case dv_store d of
        None \<Rightarrow> (d, Inl ''store unavailable'')
      | Some s \<Rightarrow>
          (case fake_reopen env (2 * dv_draws d) s of
             Inl e \<Rightarrow> (d\<lparr>dv_store := None\<rparr>, Inl (debug_error e))
           | Inr s \<Rightarrow> (d\<lparr>dv_store := Some s\<rparr>, Inr ''reopened'')))"

definition driver_receipt ::
  "stream_env \<Rightarrow> string \<Rightarrow> StreamDriver \<Rightarrow> StreamDriver \<times> (string + StoreStreamReceipt)" where
  "driver_receipt env outcome d =
     (case dv_store d of
        None \<Rightarrow> (d, Inl ''store unavailable'')
      | Some s \<Rightarrow>
          on_store (sq_recover env (2 * dv_draws d + 1) s) d (\<lambda>d recovered.
            let claims = length (sn_claims recovered) in
            if claims \<ge> 2 ^ 64 then (d, Inl ''claim count exceeded receipt range'')
            else (d\<lparr>dv_logical_effects := of_nat claims\<rparr>,
              Inr \<lparr>sr_outcome = outcome, sr_logical_effects = of_nat claims,
                   sr_authority_revision = dv_revision d\<rparr>)))"

definition driver_apply ::
  "stream_env \<Rightarrow> string \<Rightarrow> StoreStreamAction \<Rightarrow> StreamDriver
    \<Rightarrow> (StreamDriver \<times> (string + StoreStreamReceipt)) option" where
  "driver_apply env operation_id action d =
     map_option (\<lambda>(d, outcome).
       let (d, r) = (case outcome of Inl e \<Rightarrow> (d, Inl e) | Inr outcome \<Rightarrow> driver_receipt env outcome d)
       in (d\<lparr>dv_draws := dv_draws d + 1\<rparr>, r))
       (if action = ST_Restart then Some (driver_restart env d) else apply_live env operation_id action d)"

text \<open>
  The driver behind the simulator's adapter. A panic ends the program with no artifact; here it is an
  error of the operation, so what holds of a run holds of the runs that do not panic.
\<close>

definition driver_adapter :: "stream_env \<Rightarrow> StreamDriver \<Rightarrow> StreamDriver adapter" where
  "driver_adapter env d =
     \<lparr>ad_new = \<lambda>_. d,
      ad_apply = \<lambda>operation_id action d.
        (case driver_apply env operation_id action d of
           None \<Rightarrow> (d, Inl ''panicked'')
         | Some answer \<Rightarrow> answer)\<rparr>"

end
