(* ===== verification/Stream_Properties.thy ===== *)
theory Stream_Properties
  imports Sim_Replay Sim_Stream Claim_Properties
begin

text \<open>
  The simulator over the in-memory store: no operation, refusal or restart makes the store forget a
  claim, and the receipts say so.
\<close>

section \<open>Claims through a restart\<close>

definition n_claims :: "FakePersist \<Rightarrow> nat" where
  "n_claims s = length (bt_entries (fp_claims s))"

lemma length_entries_dom: "length (bt_entries m) = card (dom (bt_get m))"
proof -
  have "length (bt_entries m) = card (fst ` set (bt_entries m))"
    using increasing_distinct [OF bt_entries_increasing [of m]] by (metis distinct_card length_map set_map)
  then show ?thesis by (simp add: bt_get_entries dom_map_of_conv_image_fst)
qed

lemma n_claims_le: "claims_le s s' \<Longrightarrow> n_claims s \<le> n_claims s'"
proof -
  assume "claims_le s s'"
  then have "dom (bt_get (fp_claims s)) \<subseteq> dom (bt_get (fp_claims s'))" unfolding claims_le_def by blast
  then show ?thesis
    by (simp add: n_claims_def length_entries_dom card_mono bt_get_entries finite_dom_map_of)
qed

lemma insert_rows_length:
  "insert_rows key value m rows = Inr m' \<Longrightarrow> length (bt_entries m') = length (bt_entries m) + length rows"
  by (induction rows arbitrary: m)
    (auto simp: bind_res_Inr_iff insert_unique_def bt.length_insert_entry bt_contains_iff split: if_splits)

lemma restore_claims:
  assumes "restore_from_snapshot b key sn payloads = Inr s"
  shows "n_claims s = length (sn_claims sn)"
proof -
  from assms obtain claims where rows: "insert_rows pc_request_id (\<lambda>r. r) bt_empty (sn_claims sn) = Inr claims"
    and s: "fp_claims s = claims"
    by (auto simp: restore_from_snapshot_def bind_res_Inr_iff Let_def)
  have "bt_entries (bt_empty :: (string, PersistedClaimRecord) btree) = []" by transfer simp
  with insert_rows_length [OF rows] s show ?thesis by (simp add: n_claims_def)
qed

lemma step_claims_le: "claims_le s (store_step b k s op)"
  using run_claims_le [of s b k "[op]"] by (simp add: store_run_def)

lemma recover_claims:
  assumes "recover_authority_state b e s = (s', r)"
  shows "n_claims s \<le> n_claims s'" and "r = Inr sn \<Longrightarrow> length (sn_claims sn) = n_claims s'"
proof -
  from step_claims_le [of s b "\<lambda>_ _. []" "Op_Recover e"] assms show "n_claims s \<le> n_claims s'"
    by (simp add: n_claims_le)
  from assms show "r = Inr sn \<Longrightarrow> length (sn_claims sn) = n_claims s'"
    by (auto simp: recover_authority_state_def Let_def n_claims_def snapshot_of_def bt_values_def try_in_def
        split: prod.splits sum.splits if_splits)
qed

lemma reopen_claims: "fake_reopen env n s = Inr s' \<Longrightarrow> n_claims s \<le> n_claims s'"
  using recover_claims [of "sq_blake3 env" "sq_evidence_ref env n" s]
  by (cases "sq_recover env n s") (auto simp: fake_reopen_def Let_def bind_res_Inr_iff dest: restore_claims)

lemma terminal_claims: "n_claims s \<le> n_claims (fst (fake_install_terminal env n binding fixture s))"
  using recover_claims [of "sq_blake3 env" "sq_evidence_ref env n" s]
  by (cases "sq_recover env n s")
    (auto simp: fake_install_terminal_def Let_def try_in_def dest!: restore_claims split: sum.splits)

lemma admitted_claims:
  assumes "admit_claim b e s admission attachment = (s', Inr r)" and "am_outcome r = AO_Admitted"
  shows "n_claims s' = Suc (n_claims s)"
  using assms by (auto simp: admit_claim_def n_claims_def bt.length_insert_entry Let_def try_in_def ok_or_def
      split: if_splits option.splits)

lemma store_claims:
  "n_claims s \<le> n_claims (fst (reserve_controller_birth s birth create))"
  "n_claims s \<le> n_claims (fst (persist_arm s arm))"
  "n_claims s \<le> n_claims (fst (admit_claim b e s admission attachment))"
  "n_claims s \<le> n_claims (fst (persist_helper_grant s grant))"
  "n_claims s \<le> n_claims (fst (revoke_helper_grant s scope))"
  "n_claims s \<le> n_claims (fst (record_retrieve_exchange b e s exchange))"
  "n_claims s \<le> n_claims (fst (acknowledge_retrieved_batch b s binding request))"
  "n_claims s \<le> n_claims (fst (try_rearm_join s join))"
  "n_claims s \<le> n_claims (fst (recover_authority_state b evidence s))"
  using step_claims_le [of s b "\<lambda>_ _. []" "Op_ReserveBirth birth create"]
    step_claims_le [of s b "\<lambda>_ _. []" "Op_PersistArm arm"]
    step_claims_le [of s b "\<lambda>_ _. []" "Op_Admit e admission attachment"]
    step_claims_le [of s b "\<lambda>_ _. []" "Op_Grant grant"]
    step_claims_le [of s b "\<lambda>_ _. []" "Op_RevokeGrant scope"]
    step_claims_le [of s b "\<lambda>_ _. []" "Op_Retrieve e exchange"]
    step_claims_le [of s b "\<lambda>_ _. []" "Op_Acknowledge binding request"]
    step_claims_le [of s b "\<lambda>_ _. []" "Op_Join join"]
    step_claims_le [of s b "\<lambda>_ _. []" "Op_Recover evidence"]
  by (simp_all add: n_claims_le)

section \<open>Claims through an operation of the driver\<close>

text \<open>The driver's store, if it still has one, holds at least \<open>n\<close> claims.\<close>

definition holds_claims :: "nat \<Rightarrow> StreamDriver \<Rightarrow> bool" where
  "holds_claims n d = (case dv_store d of None \<Rightarrow> True | Some s \<Rightarrow> n \<le> n_claims s)"

lemma holds_claims_updates [simp]:
  "holds_claims n (d\<lparr>dv_binding := x1\<rparr>) = holds_claims n d"
  "holds_claims n (d\<lparr>dv_attachment := x2\<rparr>) = holds_claims n d"
  "holds_claims n (d\<lparr>dv_admissions := x3\<rparr>) = holds_claims n d"
  "holds_claims n (d\<lparr>dv_offered := x4\<rparr>) = holds_claims n d"
  "holds_claims n (d\<lparr>dv_last_retrieve := x5\<rparr>) = holds_claims n d"
  "holds_claims n (d\<lparr>dv_admitted_event_ref := x6\<rparr>) = holds_claims n d"
  "holds_claims n (d\<lparr>dv_grant_installed := x7\<rparr>) = holds_claims n d"
  "holds_claims n (d\<lparr>dv_arm_count := x8\<rparr>) = holds_claims n d"
  "holds_claims n (d\<lparr>dv_cycle_admitted := x9\<rparr>) = holds_claims n d"
  "holds_claims n (d\<lparr>dv_logical_effects := x10\<rparr>) = holds_claims n d"
  "holds_claims n (d\<lparr>dv_revision := x11\<rparr>) = holds_claims n d"
  "holds_claims n (d\<lparr>dv_draws := x12\<rparr>) = holds_claims n d"
  by (simp_all add: holds_claims_def)

lemma holds_claims_store [simp]: "holds_claims n (d\<lparr>dv_store := Some s\<rparr>) = (n \<le> n_claims s)"
  by (simp add: holds_claims_def)

lemma counted_holds [simp]: "holds_claims n (fst (counted outcome d)) = holds_claims n d"
  by (simp add: counted_def)

lemma on_store_holds:
  assumes "n \<le> n_claims (fst call)"
    and "\<And>s x. n \<le> n_claims s \<Longrightarrow> call = (s, Inr x) \<Longrightarrow> holds_claims n (fst (k (d\<lparr>dv_store := Some s\<rparr>) x))"
  shows "holds_claims n (fst (on_store call d k))"
  using assms by (cases call) (auto simp: on_store_def Let_def split: sum.splits)

lemma store_keeps:
  assumes "n \<le> n_claims s"
  shows "n \<le> n_claims (fst (reserve_controller_birth s birth create))"
    "n \<le> n_claims (fst (persist_arm s arm))"
    "n \<le> n_claims (fst (persist_helper_grant s grant))"
    "n \<le> n_claims (fst (revoke_helper_grant s scope))"
    "n \<le> n_claims (fst (record_retrieve_exchange b e s exchange))"
    "n \<le> n_claims (fst (acknowledge_retrieved_batch b s binding request))"
    "n \<le> n_claims (fst (try_rearm_join s join))"
    "n \<le> n_claims (fst (recover_authority_state b evidence s))"
    "n \<le> n_claims (fst (fake_install_terminal env m binding fixture s))"
  by (rule le_trans [OF assms store_claims(1)] le_trans [OF assms store_claims(2)]
      le_trans [OF assms store_claims(4)] le_trans [OF assms store_claims(5)]
      le_trans [OF assms store_claims(6)] le_trans [OF assms store_claims(7)]
      le_trans [OF assms store_claims(8)] le_trans [OF assms store_claims(9)]
      le_trans [OF assms terminal_claims])+

text \<open>An answer ''admitted'' stands for one claim more.\<close>

definition claims_after :: "nat \<Rightarrow> StreamDriver \<times> (string + string) \<Rightarrow> bool" where
  "claims_after n p \<longleftrightarrow> holds_claims (if snd p = Inr ''admitted'' then Suc n else n) (fst p)"

lemma claims_after_simps [simp]:
  "claims_after n (d, Inl e) = holds_claims n d"
  "outcome \<noteq> ''admitted'' \<Longrightarrow> claims_after n (d, Inr outcome) = holds_claims n d"
  "claims_after n (d, Inr ''admitted'') = holds_claims (Suc n) d"
  "outcome \<noteq> ''admitted'' \<Longrightarrow> claims_after n (counted outcome d) = holds_claims n d"
  by (simp_all add: claims_after_def counted_def)

lemma claims_after_refused [simp]: "claims_after n (d, refused e) = holds_claims n d"
  by (cases e) (simp_all add: refused_def)

lemma on_store_after:
  assumes "n \<le> n_claims (fst call)"
    and "\<And>s x. n \<le> n_claims s \<Longrightarrow> call = (s, Inr x) \<Longrightarrow> claims_after n (k (d\<lparr>dv_store := Some s\<rparr>) x)"
  shows "claims_after n (on_store call d k)"
  using assms by (cases call) (auto simp: on_store_def Let_def split: sum.splits)

lemma advance_cycle_store:
  "dv_store (fst (advance_cycle env birth arm d)) = dv_store d"
  by (simp add: advance_cycle_def Let_def try_in_def split: sum.splits)

lemma driver_arm_after:
  assumes "n \<le> n_claims s" and "dv_store d = Some s"
  shows "claims_after n (driver_arm env s d)"
proof -
  have keep: "holds_claims n (fst (advance_cycle env birth arm d))" for birth arm
    using assms by (simp add: holds_claims_def advance_cycle_store)
  have "claims_after n (on_store (reserve_controller_birth s birth reservation) d' (\<lambda>d _.
      on_store (persist_arm (the (dv_store d)) arm) d (\<lambda>d _.
      counted ''armed'' (d\<lparr>dv_arm_count := dv_arm_count d + 1\<rparr>))))" for birth reservation arm d'
    using assms(1) by (intro on_store_after store_keeps) (simp_all add: store_keeps)
  with keep assms show ?thesis
    by (auto simp: driver_arm_def holds_claims_def split: list.splits prod.splits sum.splits if_splits)
      (metis fst_conv keep holds_claims_def)+
qed

lemma install_grant_holds:
  assumes "n \<le> n_claims s" and "dv_store d = Some s"
  shows "holds_claims n (fst (install_grant admission d))"
  using assms
  by (auto simp: install_grant_def Let_def holds_claims_def [of n d] intro!: on_store_holds store_keeps
      split: list.splits)

lemma driver_admit_after:
  assumes n: "n \<le> n_claims s" and d: "dv_store d = Some s"
    and run: "driver_admit env operation_id event s d = Some p"
  shows "claims_after n p"
proof (cases "\<not> bt_contains (dv_admissions d) operation_id \<and> event \<notin> set (dv_offered d)")
  case True
  with run n d show ?thesis by (auto simp: driver_admit_def holds_claims_def)
next
  case False
  have other: "claims_after n (remember_admission operation_id event admission attachment outcome d')
      = claims_after n (d', Inr outcome)" for admission attachment outcome d'
    by (simp add: remember_admission_def claims_after_def)
  from False run obtain claim where claim: "driver_claim env operation_id event d = Some claim"
    by (auto simp: driver_admit_def)
  show ?thesis
  proof (cases claim)
    case (Inl e)
    with False run claim n d show ?thesis by (auto simp: driver_admit_def holds_claims_def)
  next
    case (Inr ca)
    obtain admission attachment where ca: "ca = (admission, attachment)" by (cases ca)
    obtain s' result where admit: "admit_claim (sq_blake3 env) (sq_payload_ref env (dv_draws d)) s admission attachment
        = (s', result)"
      by (cases "admit_claim (sq_blake3 env) (sq_payload_ref env (dv_draws d)) s admission attachment")
    let ?d = "d\<lparr>dv_store := Some s'\<rparr>"
    have s': "n \<le> n_claims s'"
      using n store_claims(3) [of s "sq_blake3 env" "sq_payload_ref env (dv_draws d)" admission attachment] admit by simp
    show ?thesis
    proof (cases "\<exists>admitted. result = Inr admitted \<and> am_outcome admitted = AO_Admitted")
      case True
      then obtain admitted where r: "result = Inr admitted" "am_outcome admitted = AO_Admitted" by blast
      with admitted_claims admit n have "Suc n \<le> n_claims s'" by (metis Suc_le_mono)
      then have grant: "holds_claims (Suc n) (fst (install_grant admission ?d))"
        by (intro install_grant_holds) simp_all
      then have "holds_claims n (fst (install_grant admission ?d))"
        by (auto simp: holds_claims_def split: option.splits)
      with False run claim Inr ca admit r grant show ?thesis
        by (auto simp: driver_admit_def Let_def other split: prod.splits sum.splits)
    next
      case no: False
      with False run claim Inr ca admit s' show ?thesis
        by (cases result)
          (auto simp: driver_admit_def Let_def other split: PersistError.splits)
    qed
  qed
qed

lemma driver_retrieve_after:
  assumes "n \<le> n_claims s"
  shows "claims_after n (driver_retrieve env request s d)"
  using store_keeps(5) [OF assms, of "sq_blake3 env" "sq_retrieval_id env (dv_draws d)"
      "stream_retrieve env (dv_binding d) request"]
  by (auto simp: driver_retrieve_def Let_def split: prod.splits sum.splits IdempotentResult.splits)

lemma driver_stale_retrieve_after:
  assumes "n \<le> n_claims s" and "dv_store d = Some s"
  shows "claims_after n (driver_stale_retrieve env request s d)"
proof -
  have step: "claims_after n (case record_retrieve_exchange b e s' exchange of (s, result) \<Rightarrow>
      if result = Inl Unauthorized then on_store (sq_recover env m s) d' (\<lambda>d recovered.
        if ok recovered then (d, Inr ''unauthorized'') else (d, Inl text1))
      else (d'\<lparr>dv_store := Some s\<rparr>, Inl (text2 result)))"
    if "n \<le> n_claims s'" for b e s' exchange m d' ok text1 text2
    using store_keeps(5) [OF that, of b e exchange]
    by (auto intro!: on_store_after store_keeps split: prod.splits)
  show ?thesis
  proof (cases "sn_arms (dv_blueprint d)")
    case Nil
    with assms show ?thesis by (simp add: driver_stale_retrieve_def holds_claims_def)
  next
    case (Cons arm rest)
    show ?thesis unfolding driver_stale_retrieve_def Cons list.case Let_def
      by (rule on_store_after [OF store_keeps(2) [OF assms(1)]]) (rule step, simp)
  qed
qed

lemma driver_acknowledge_after:
  assumes "n \<le> n_claims s" and "dv_store d = Some s" and "driver_acknowledge env request s d = Some p"
  shows "claims_after n p"
proof -
  have answer: "claims_after n (case acknowledge_retrieved_batch b s binding ack of (s, result) \<Rightarrow>
      let d = d\<lparr>dv_store := Some s\<rparr> in
      case result of
        Inr (IR_Recorded _) \<Rightarrow> counted ''acknowledged'' d
      | Inr (IR_ExactReplay _) \<Rightarrow> (d, Inr ''exact_replay'')
      | Inl e \<Rightarrow> (d, refused e))" for b binding ack
    using store_keeps(6) [OF assms(1), of b binding ack]
    by (auto simp: Let_def split: prod.splits sum.splits IdempotentResult.splits)
  have "holds_claims n d" using assms(1,2) by (simp add: holds_claims_def)
  with assms(3) answer show ?thesis
    by (auto simp: driver_acknowledge_def simp del: claims_after_simps(1) split: option.splits)
      (simp_all add: claims_after_def)
qed

lemma driver_rearm_after:
  assumes "n \<le> n_claims s"
  shows "claims_after n (driver_rearm s d)"
  unfolding driver_rearm_def
  by (rule on_store_after [OF store_keeps(7) [OF assms]]) (simp split: RearmJoinResult.splits)

lemma apply_live_after:
  assumes holds: "holds_claims n d" and run: "apply_live env operation_id action d = Some p"
  shows "claims_after n p"
proof (cases "dv_store d")
  case None
  with run show ?thesis by (auto simp: apply_live_def holds_claims_def)
next
  case (Some s)
  with holds have s: "n \<le> n_claims s" by (simp add: holds_claims_def)
  have "claims_after n (on_store (fake_install_terminal env m binding fixture s) d (\<lambda>d _. counted ''terminal'' d))"
    "claims_after n (on_store (revoke_helper_grant s scope) d (\<lambda>d _. counted ''revoked'' d))"
    for m binding fixture scope
    by (rule on_store_after [OF store_keeps(9) [OF s]] on_store_after [OF store_keeps(4) [OF s]], simp)+
  with run Some s holds show ?thesis
    by (cases action) (auto simp: apply_live_def driver_arm_after driver_admit_after driver_retrieve_after
        driver_stale_retrieve_after driver_acknowledge_after driver_rearm_after)
qed

lemma driver_restart_after: "holds_claims n d \<Longrightarrow> claims_after n (driver_restart env d)"
  by (auto simp: driver_restart_def holds_claims_def dest: reopen_claims split: option.splits sum.splits)

lemma driver_receipt_after:
  assumes "holds_claims n d"
  shows "holds_claims n (fst (driver_receipt env outcome d))
    \<and> (case snd (driver_receipt env outcome d) of Inl _ \<Rightarrow> True
       | Inr receipt \<Rightarrow> sr_outcome receipt = outcome \<and> n \<le> unat (sr_logical_effects receipt)
           \<and> holds_claims (unat (sr_logical_effects receipt)) (fst (driver_receipt env outcome d)))"
proof (cases "dv_store d")
  case None
  with assms show ?thesis by (simp add: driver_receipt_def)
next
  case (Some s)
  obtain s' r where rec: "sq_recover env (2 * dv_draws d + 1) s = (s', r)" by (cases "sq_recover env (2 * dv_draws d + 1) s")
  from recover_claims(1) [OF rec] Some assms have s': "n \<le> n_claims s'" by (simp add: holds_claims_def)
  show ?thesis
  proof (cases r)
    case (Inl e)
    with Some rec s' show ?thesis by (simp add: driver_receipt_def on_store_def)
  next
    case (Inr sn)
    with recover_claims(2) [OF rec] have "length (sn_claims sn) = n_claims s'" by blast
    with Some rec Inr s' show ?thesis
      by (auto simp: driver_receipt_def on_store_def Let_def unat_of_nat_u64)
  qed
qed

lemma driver_apply_after:
  assumes holds: "holds_claims n d" and run: "driver_apply env operation_id action d = Some (d', r)"
  shows "holds_claims n d' \<and> (case r of Inl _ \<Rightarrow> True
    | Inr receipt \<Rightarrow> (if sr_outcome receipt = ''admitted'' then Suc n else n) \<le> unat (sr_logical_effects receipt)
        \<and> holds_claims (unat (sr_logical_effects receipt)) d')"
proof -
  obtain d1 outcome where live: "(if action = ST_Restart then Some (driver_restart env d)
      else apply_live env operation_id action d) = Some (d1, outcome)"
    and d': "(d', r) = (let (d, r) = (case outcome of Inl e \<Rightarrow> (d1, Inl e) | Inr outcome \<Rightarrow> driver_receipt env outcome d1)
      in (d\<lparr>dv_draws := dv_draws d + 1\<rparr>, r))"
    using run unfolding driver_apply_def map_option_eq_Some by (metis (no_types, lifting) prod.case prod.exhaust)
  have "claims_after n (d1, outcome)"
  proof (cases "action = ST_Restart")
    case True
    with live driver_restart_after [OF holds, of env] show ?thesis by simp
  next
    case False
    with live have "apply_live env operation_id action d = Some (d1, outcome)" by simp
    then show ?thesis by (rule apply_live_after [OF holds])
  qed
  note live = this
  show ?thesis
  proof (cases outcome)
    case (Inl e)
    with live d' show ?thesis by simp
  next
    case (Inr o')
    let ?n = "if o' = ''admitted'' then Suc n else n"
    from live Inr have "holds_claims ?n d1" by (simp add: claims_after_def)
    from driver_receipt_after [OF this, of env o'] Inr d'
    show ?thesis
      by (auto simp: holds_claims_def split: prod.splits sum.splits option.splits if_splits)
  qed
qed

section \<open>Claims through a scenario\<close>

definition admitted_in :: "Observation list \<Rightarrow> nat" where
  "admitted_in observations = length (filter (\<lambda>ob. ob_outcome ob = ''admitted'') observations)"

definition effects :: "Observation list \<Rightarrow> nat list" where
  "effects observations = map (unat \<circ> ob_logical_effects) observations"

definition claims_kept :: "StreamDriver \<times> Stimulus list \<times> Observation list \<Rightarrow> bool" where
  "claims_kept l \<longleftrightarrow> (case l of (d, _, obs) \<Rightarrow>
     holds_claims (admitted_in obs) d \<and> (\<forall>e \<in> set (effects obs). holds_claims e d) \<and> sorted (effects obs)
     \<and> (\<forall>i. i < length obs \<longrightarrow> admitted_in (take (Suc i) obs) \<le> effects obs ! i))"

lemma admitted_in_snoc [simp]:
  "admitted_in (obs @ [ob]) = (if ob_outcome ob = ''admitted'' then Suc (admitted_in obs) else admitted_in obs)"
  by (simp add: admitted_in_def)

lemma effects_snoc [simp]: "effects (obs @ [ob]) = effects obs @ [unat (ob_logical_effects ob)]"
  by (simp add: effects_def)

lemma length_effects [simp]: "length (effects obs) = length obs"
  by (simp add: effects_def)

lemma claims_kept_snoc:
  assumes kept: "claims_kept (d, ss, obs)" and run: "driver_apply env i action d = Some (d', Inr receipt)"
    and ob: "ob_outcome ob = sr_outcome receipt" "ob_logical_effects ob = sr_logical_effects receipt"
  shows "claims_kept (d', ss', obs @ [ob])"
proof -
  note after = driver_apply_after [OF _ run]
  from kept have holds: "holds_claims (admitted_in obs) d" "\<forall>e \<in> set (effects obs). holds_claims e d"
    and old: "sorted (effects obs)" "\<forall>i. i < length obs \<longrightarrow> admitted_in (take (Suc i) obs) \<le> effects obs ! i"
    by (simp_all add: claims_kept_def)
  from after [OF holds(1)] ob have new: "admitted_in (obs @ [ob]) \<le> unat (ob_logical_effects ob)"
    "holds_claims (unat (ob_logical_effects ob)) d'" by (auto split: if_splits)
  then have "holds_claims (admitted_in (obs @ [ob])) d'"
    by (auto simp: holds_claims_def split: option.splits)
  moreover have "holds_claims e d' \<and> e \<le> unat (ob_logical_effects ob)" if "e \<in> set (effects obs)" for e
    using after [of e] holds(2) that ob by (auto split: if_splits)
  ultimately show ?thesis
    using new old by (auto simp: claims_kept_def sorted_append nth_append less_Suc_eq)
qed

lemma claims_kept_step:
  assumes "claims_kept (ledger v)"
  shows "claims_kept (ledger (complete_store_step (driver_adapter env d0) FM_None s v))"
proof (cases "driver_apply env (sm_operation_id s) (store_action (sm_action s)) (sv_adapter v)")
  case None
  with assms show ?thesis by (simp add: complete_store_step_def driver_adapter_def ledger_def)
next
  case (Some p)
  obtain d' r where p: "p = (d', r)" by (cases p)
  show ?thesis
  proof (cases r)
    case (Inl e)
    from assms driver_apply_after [OF _ Some [unfolded p Inl]] have "claims_kept (d', sv_executed v, sv_observations v)"
      by (auto simp: claims_kept_def ledger_def)
    with Some p Inl show ?thesis by (simp add: complete_store_step_def driver_adapter_def ledger_def)
  next
    case (Inr receipt)
    from assms have kept: "claims_kept (sv_adapter v, sv_executed v, sv_observations v)" by (simp add: ledger_def)
    show ?thesis
      using claims_kept_snoc [OF kept Some [unfolded p Inr]] Some p Inr
      by (simp add: complete_store_step_def driver_adapter_def ledger_def Let_def)
  qed
qed


section \<open>A sample run\<close>

definition sample_stream_env :: stream_env where
  "sample_stream_env = \<lparr>sq_blake3 = \<lambda>_. [7], sq_parse_time = \<lambda>_. Some 0, sq_mac_key = \<lambda>_. [],
     sq_payload_ref = \<lambda>n. Some [of_nat n], sq_retrieval_id = \<lambda>n. Some [of_nat n],
     sq_evidence_ref = \<lambda>_ _. Some [9], sq_debug_retrieve = \<lambda>_. ''accepted''\<rparr>"

lemmas stream_eval = store_eval driver_new_def fake_prepare_def install_helper_def expect_def
  fixture_birth_def fixture_create_def fixture_attachment_def fixture_grant_def fixture_binding_def
  claim_admission_fixture_def event_record_try_from_def claim_payload_try_from_def wire_event_def
  synthetic_drain_witness_def synthetic_claim_coverage_def canonical_event_batch_digest_def
  bounded_id_new_def bounded_token_new_def bounded_body_new_def bounded_vec_try_from_def
  bounded_usize_try_from_def covered_drain_prefix_def claim_is_drain_prefix_def
  recover_authority_state_def quarantine_reserved_ownership_def interrupted_facts_def
  unresolved_reservations_def helper_request_nonce_collision_def validate_recovered_coverage_def
  recovered_claim_invalid_def snapshot_of_def id_byte_def is_ascii_alphanumeric_def
  is_ascii_uppercase_def is_ascii_lowercase_def is_ascii_digit_def in_range_def

definition sample_driver :: StreamDriver where
  "sample_driver = the (driver_new sample_stream_env)"

lemma sample_driver_ready: "driver_new sample_stream_env = Some sample_driver"
  by (simp add: sample_driver_def stream_eval sample_stream_env_def Let_def tree_simps cong: try_in_weak_cong bind_res_weak_cong)

text \<open>As in a run of the code, only the deciding argument is evaluated before what depends on it.\<close>

lemma on_store_weak_cong: "call = call' \<Longrightarrow> on_store call d k = on_store call' d k"
  by simp

lemma map_option_weak_cong: "x = y \<Longrightarrow> map_option f x = map_option f y"
  by simp

lemmas eval_congs = try_in_weak_cong bind_res_weak_cong on_store_weak_cong map_option_weak_cong
  let_weak_cong prod.case_cong_weak

lemmas driver_eval = driver_adapter_def driver_apply_def apply_live_def driver_arm_def driver_admit_def
  driver_claim_def install_grant_def remember_admission_def driver_restart_def driver_receipt_def
  fake_reopen_def on_store_def counted_def bounded_id_def identity_bytes_def hex_digit_def
  restore_from_snapshot_def insert_unique_def validate_restored_helper_invariants_def
  export_ownership_def write_evidence_rows_def

lemma sample_driver_fields:
  "dv_store sample_driver = Some (fake_persist_default [])" "dv_binding sample_driver = fixture_binding [7]"
  "dv_attachment sample_driver = fixture_attachment" "dv_admissions sample_driver = bt_empty"
  "dv_offered sample_driver = []" "\<not> dv_grant_installed sample_driver" "\<not> dv_cycle_admitted sample_driver"
  "dv_arm_count sample_driver = 0" "dv_logical_effects sample_driver = 0" "dv_revision sample_driver = 0"
  "dv_draws sample_driver = 1"
  "sn_controller_births (dv_blueprint sample_driver) = [fixture_birth]"
  "sn_arms (dv_blueprint sample_driver) = [\<lparr>pm_arm_id = ''arm-a'', pm_generation = 1, pm_seat_id = ''seat-a'',
     pm_capability = HandleClaimedSignal, pm_coverage_until = seconds 600\<rparr>]"
  "sn_helper_grants (dv_blueprint sample_driver) = [fixture_grant [7]]"
  by (simp_all add: sample_driver_def stream_eval sample_stream_env_def Let_def tree_simps cong: eval_congs)

definition store_envelope :: ScenarioEnvelope where
  "store_envelope = \<lparr>en_version = ARTIFACT_VERSION, en_case_id = ''SIM-STORE'', en_seed = 7,
     en_seeds = derive_seeds 7, en_store = SS_Fake, en_limits = run_limits_default,
     en_stimuli = [stimulus 0 0 ''arm'' SA_Arm, stimulus 1 1 ''offer'' (SA_Offer ''e''),
       stimulus 2 2 ''claim'' (SA_Admit ''e''), stimulus 3 3 ''restart'' SA_Restart]\<rparr>"

lemma sample_stream_run:
  "map_option (\<lambda>x. (map ob_outcome (xe_observations x), effects (xe_observations x)))
     (execute_stream (driver_adapter sample_stream_env sample_driver) store_envelope)
   = Some ([''armed'', ''offered'', ''admitted'', ''reopened''], [0, 0, 1, 1])"
  by (simp add: sample_driver_fields store_envelope_def sim_run_simps driver_eval stream_eval
      sample_stream_env_def effects_def tree_simps cong: eval_congs)


end
