(* ===== verification/Spec2Isabelle.thy ===== *)
theory Spec2Isabelle
  imports Ordered_Map Facts Attempt Interrupt Codec Admit Ack Link Deliver Controller Claims Store
    Native_Store Native_Turns Helper_Store Recovery Store_Properties Claim_Properties Helper_Properties
    Recovery_Properties Authority_Properties Sanitize Wait_On Daemon_Properties Codex_Sample
    Client_Properties Commands Path_Properties Stream_Properties
begin

text \<open>
  A verification library of Gearwit (the workspace \<open>gearwit\<close>, crates under \<open>src/crates/\<close>): a
  host daemon that keeps a seat's interrupt coverage, claims the provider events that interrupt
  it, and hands each claimed signal to a native controller at most once.
\<close>

section \<open>The program and its parts\<close>

text \<open>
  A seat is armed for the events of a channel. The daemon (\<open>gearwit-cli\<close>) waits for the provider, drains
  what arrived, claims it as one signal and delivers it over a Unix socket to the waiter attached to the
  seat; the waiter prints it and reports a completed return; the seat acknowledges a cursor, which
  closes the signal and re-arms coverage after it. A managed seat has a native controller instead
  (\<open>gearwit-host\<close>): the coordinator prepares a turn, probes the controller, reserves the native write in
  the store and issues one command; the controller drives a Codex app-server child and reports what
  it saw; a helper retrieves and acknowledges the claimed batch. \<open>gearwit-domain\<close> holds the facts and the
  traces both sides record, \<open>gearwit-protocol\<close> the messages on the socket, \<open>gearwit-sim\<close> a simulator that
  runs scenarios against a store and checks its receipts with an oracle of its own.

  The calls go downwards: \<open>Daemon\<close> uses \<open>Wait_On\<close>, \<open>Sanitize\<close>, \<open>Link\<close>, \<open>Deliver\<close> and \<open>Ack\<close>; \<open>Link\<close> uses \<open>Codec\<close>,
  \<open>Admit\<close> and \<open>Ack\<close>; \<open>Clients\<close> speak to \<open>Link\<close> through \<open>Codec\<close>; \<open>Coordinator\<close> uses \<open>Authority\<close>, which uses a
  persistence port that \<open>Native_Store\<close>, \<open>Native_Turns\<close>, \<open>Helper_Store\<close> and \<open>Recovery\<close> implement; the
  \<open>Codex\<close> theories implement the controller the coordinator drives.
\<close>

section \<open>Which theory models what\<close>

text \<open>
  Shared: \<open>Prelude\<close> (machine types, \<open>Result\<close> as a sum with \<open>Inl\<close> for the error, \<open>?\<close> as \<open>bind_res\<close> and, for methods
  on \<open>&mut self\<close>, \<open>try_in\<close>, saturating and checked arithmetic), \<open>Ordered_Map\<close> (\<open>BTreeMap\<close>, \<open>BTreeSet\<close>),
  \<open>Strings\<close> (\<open>str\<close> as UTF-8 bytes).

  \<open>gearwit-domain\<close>: \<open>Facts\<close> (lib.rs), \<open>Attempt\<close> (attempt.rs, \<open>DoorbellAttemptTrace::append\<close>), \<open>Interrupt\<close>
  (interrupt.rs, \<open>ReceiptLog\<close>), over the shared contract of \<open>Receipts\<close>.

  \<open>gearwit-protocol\<close>: \<open>Messages\<close> (messages.rs), \<open>Handled\<close> (handled.rs), \<open>Codec\<close> (codec.rs).

  \<open>gearwit-host\<close>, the waiting seat: \<open>Admit\<close> (admit.rs, \<open>LinkTable\<close>), \<open>Ack\<close> (ack.rs, \<open>AckStore\<close>), \<open>Deliver\<close>
  (deliver.rs, \<open>DeliveryLedger\<close>), \<open>Link\<close> (link.rs, \<open>serve_connection\<close> and the split of an attach into prepare,
  write and commit), over the contract of \<open>Request_Log\<close>; \<open>Paths\<close> (paths.rs, \<open>GearwitPaths\<close>, the listener
  lock and the bound socket).

  \<open>gearwit-host\<close>, the managed seat: \<open>Claims\<close>, \<open>Store\<close>, \<open>Native_Store\<close>, \<open>Native_Turns\<close>, \<open>Helper_Store\<close>, \<open>Recovery\<close>
  (persist.rs: the records, the record \<open>FakePersist\<close> of its tables, each method of \<open>impl Persist for
  FakePersist\<close> as a function of the store); \<open>Store_Ops\<close> (the methods as one step function and the
  elementary changes they are made of); \<open>Controller\<close> (controller.rs), \<open>Authority\<close> (authority.rs),
  \<open>Coordinator\<close> (coordinator.rs); \<open>Codex_Io\<close>, \<open>Codex_Messages\<close>, \<open>Codex_State\<close>, \<open>Codex_Process\<close>,
  \<open>Codex_Controller\<close> (codex_transport.rs, bottom up: bytes within a deadline, frames and messages, the
  request state machine \<open>TransportState\<close>, the anchored process group, \<open>CodexController\<close>).

  \<open>gearwit-cli\<close>: \<open>Sanitize\<close> (sanitize.rs), \<open>Wait_On\<close> (wait_on.rs), \<open>Daemon\<close> (daemon.rs and child.rs), \<open>Clients\<close>
  (attach.rs and ack_handled.rs), \<open>Commands\<close> (who.rs, check.rs, main.rs).

  \<open>gearwit-sim\<close>: \<open>Sim_Model\<close>, \<open>Sim_Run\<close>, \<open>Sim_Artifact\<close> (lib.rs: data, scenarios and campaigns; the oracle and
  the scheduler; runs, bundles, replay, process-backed cases); \<open>Sim_Stream\<close> (\<open>StreamDriver\<close> of
  \<open>gearwit-host/src/simulator.rs\<close> over the in-memory store, with the fixture of conformance.rs it starts from).

  A struct is a record, an enum a datatype, a method on \<open>&mut self\<close> a function that returns the new
  state beside its result. Names are the source's; fields have a prefix per record. A \<open>u64\<close> is a
  64-bit word; a time is an integer of nanoseconds; an id is its text or its bytes. Fresh entropy, the
  clock, the hash and the operating system's answers are arguments.
\<close>

section \<open>What is shown\<close>

text \<open>
  Traces: the receipt lists of an attempt are exactly the causal ones (\<open>Attempt\<close>).
  The socket: an encoded payload decodes to its message (\<open>Codec\<close>); requests are answered once and for all
  and at most one waiter is attached (\<open>Admit\<close>); splitting an attach around the write of its reply is one
  atomic attach (\<open>Link\<close>); the acknowledgement store keeps its invariant, coverage is re-armed exactly
  once per signal and eventually (\<open>Ack\<close>); a batch is kept until its outcome is known (\<open>Deliver\<close>).
  The store, over every sequence of operations: \<open>Store_Properties\<close> (a native write is reserved
  once), \<open>Claim_Properties\<close> (a claim is admitted once, its digest binds it), \<open>Helper_Properties\<close> (handled
  coverage is proved, coverage is re-armed once, revocation is final), \<open>Recovery_Properties\<close>
  (recovery settles what was in the air, once).
  The authority and the coordinator: \<open>Authority_Moves\<close> and \<open>Authority_Mirror\<close> (the caches are the
  store's tables, restarts included), \<open>Authority_Properties\<close> (one native command per attempt, phases
  backed by durable records, refinement of the store).
  The controller: \<open>Codex_Wire\<close>, \<open>Codex_Properties\<close>, \<open>Codex_Runs\<close>, \<open>Codex_Claims\<close> (bounds of the transport, a
  reserved turn is written at most once, observed facts come in order), \<open>Codex_Children\<close> (a failed start
  leaves no child), \<open>Codex_Sample\<close> (a whole run on a scripted system, and a frame that is lost).
  The command line: bodies are displayable (\<open>Sanitize\<close>), the watch loop returns (\<open>Wait_On\<close>), the daemon's
  claim, cursor and components stay consistent whatever the threads do (\<open>Daemon_Properties\<close>), a waiter
  reports a return only after printing and the acknowledging client agrees with the daemon
  (\<open>Client_Properties\<close>), the census card is safe to paste (\<open>Commands\<close>), the home is private and one
  listener is live at a time however processes interleave and crash (\<open>Path_Properties\<close>).
  The simulator: the scheduler returns and accounts for every stimulus, campaigns stay within budget
  (\<open>Sim_Properties\<close>), a bundle replays to itself and a store that simulates the oracle is never accused
  (\<open>Sim_Replay\<close>), the in-memory store behind the scheduler forgets no claim, restarts included
  (\<open>Stream_Properties\<close>).
\<close>

section \<open>Interfaces\<close>

text \<open>
  \<open>receipt_log\<close> (append-only logs numbered from 1) is interpreted as \<open>att\<close> and \<open>life\<close>; \<open>request_log\<close>
  (histories that replay their answer) as \<open>links\<close> and \<open>acks\<close>; \<open>ordered_map\<close> as \<open>bt\<close>; \<open>turn_port\<close>, \<open>port_moves\<close> and
  \<open>write_once_port\<close> (what the authority relies on of its backend) as \<open>tables\<close> and \<open>stored\<close>, on the
  model of \<open>FakePersist\<close>. State machines are inductive: runs of operations, the elementary moves of
  the store, the steps of the coordinator's slots, the interleaved binders of a socket.
\<close>

section \<open>Loops, fuel and panics\<close>

text \<open>
  A loop of the code that is bounded by its data is a recursion over that data. A loop that polls the
  operating system until a deadline is \<open>partial_function (option)\<close>, where \<open>None\<close> is a loop that never
  returns; what it returns is stated of \<open>Some\<close>, and that the watch loop returns is a theorem of its own.
  The loop of the simulator is a function that ends by two measures, the ticks left below
  \<open>2 ^ 64\<close> and the stimuli still to move; there \<open>None\<close> is the overflow of \<open>tick + 1\<close>, which panics under
  overflow checks and which no catalogued scenario reaches. \<open>None\<close> also stands for a failed assertion
  (\<open>run_process_case\<close>). There is no other fuel. Other additions on 64-bit words wrap, as written.
\<close>

section \<open>Not modelled\<close>

text \<open>
  \<open>gearwit-host/src/lib.rs\<close> re-exports and holds tests. Of \<open>conformance.rs\<close> only the fixture is modelled and of \<open>simulator.rs\<close> the
  stream driver over the in-memory store: the rest is test support, single cases run against a store. \<open>sqlite_baseline.rs\<close> is a
  second store for tests, whose behaviour is SQL text executed by SQLite. \<open>gearwit-sim/src/main.rs\<close> parses arguments and
  prints. Also left out: diagnostics on stderr and logs, \<open>Debug\<close> output and zeroizing, fault
  injection under \<open>cfg(test)\<close>, look-up through symbolic links. The thread that reads the child's stderr
  is sampled where the code looks at it. Third-party code is a parameter: serde_json, time, BLAKE3 and
  its MAC, ULIDs, ipcprims' frames and socket, unicode-segmentation, clap, rusqlite.
\<close>

end
